(* ===== verification/Prelude.thy ===== *)
theory Prelude
  imports Complex_Main "HOL-Library.Multiset"
begin

text \<open>
  Shared vocabulary of the development: identifiers, HTTP errors as values, the outcome of a
  database transaction, the table statements the services issue, the JavaScript array and set
  helpers they use, and the two interfaces every stateful component is measured against
  (\<open>kv_store\<close> for caches and \<open>invariant_system\<close> for runs of commands).

  Identifiers (UUIDs, bigint ids, subdomains, schema names) are strings; JavaScript strings are
  modelled as ASCII \<open>string\<close>s. Instants are integer milliseconds.
\<close>

named_theorems table_simps \<open>laws of the table statements\<close>

type_synonym uuid = string
type_synonym millis = int

subsection \<open>Errors as values\<close>

text \<open>
  The NestJS exceptions the services throw. The payload describes the message: each component has a
  datatype of messages with the values the source interpolates. \<open>RawError\<close> is any error that is
  not an \<open>HttpException\<close> (a driver error, a JavaScript \<open>RangeError\<close>); the framework answers it
  with status 500.
\<close>

datatype 'm http_error =
    BadRequest 'm
  | Unauthorized 'm
  | Forbidden 'm
  | NotFound 'm
  | Conflict 'm
  | InternalServerError 'm
  | RawError 'm

fun is_http_exception :: "'m http_error \<Rightarrow> bool" where
  "is_http_exception (RawError m) = False"
| "is_http_exception e = True"

subsection \<open>Transactions\<close>

text \<open>
  A transaction body maps the database to an error or to a result with the new database.
  \<open>run_tx\<close> is what \<open>runInTenant\<close> and \<open>runInSchema\<close> do with it: commit on success, roll back to the
  database they started from on an error.
\<close>

type_synonym ('db, 'e, 'a) tx = "'db \<Rightarrow> 'e + ('a \<times> 'db)"

definition run_tx :: "('db, 'e, 'a) tx \<Rightarrow> 'db \<Rightarrow> ('e + 'a) \<times> 'db" where
  "run_tx body db = (case body db of Inl e \<Rightarrow> (Inl e, db) | Inr (a, db') \<Rightarrow> (Inr a, db'))"

lemma run_tx_Inl [simp]: "body db = Inl e \<Longrightarrow> run_tx body db = (Inl e, db)"
  by (simp add: run_tx_def)

lemma run_tx_Inr [simp]: "body db = Inr (a, db') \<Longrightarrow> run_tx body db = (Inr a, db')"
  by (simp add: run_tx_def)

lemma run_tx_cases:
  assumes "run_tx body db = (r, db')"
  obtains (fail) e where "body db = Inl e" "r = Inl e" "db' = db"
    | (commit) a where "body db = Inr (a, db')" "r = Inr a"
  using assms by (auto simp: run_tx_def split: sum.splits)

lemma run_tx_error_unchanged: "run_tx body db = (Inl e, db') \<Longrightarrow> db' = db"
  by (auto elim!: run_tx_cases)

subsection \<open>Table statements\<close>

text \<open>
  A table is the list of its rows in the order in which the database returns them (nothing
  constrains that order, so a property for every table holds for every order). \<open>find_one\<close> is
  \<open>findOne\<close>, \<open>find_all\<close> is \<open>find\<close>, \<open>update_where\<close> is a conditional UPDATE and \<open>affected\<close> its row
  count, \<open>delete_where\<close> is a conditional DELETE.
\<close>

definition find_one :: "('r \<Rightarrow> bool) \<Rightarrow> 'r list \<Rightarrow> 'r option" where
  "find_one p t = List.find p t"

definition find_all :: "('r \<Rightarrow> bool) \<Rightarrow> 'r list \<Rightarrow> 'r list" where
  "find_all p t = filter p t"

definition update_where :: "('r \<Rightarrow> bool) \<Rightarrow> ('r \<Rightarrow> 'r) \<Rightarrow> 'r list \<Rightarrow> 'r list" where
  "update_where p f t = map (\<lambda>r. if p r then f r else r) t"

definition affected :: "('r \<Rightarrow> bool) \<Rightarrow> 'r list \<Rightarrow> nat" where
  "affected p t = length (filter p t)"

definition delete_where :: "('r \<Rightarrow> bool) \<Rightarrow> 'r list \<Rightarrow> 'r list" where
  "delete_where p t = filter (\<lambda>r. \<not> p r) t"

lemma find_one_Some: "find_one p t = Some r \<Longrightarrow> r \<in> set t \<and> p r"
  by (auto simp: find_one_def find_Some_iff)

lemma find_one_None: "find_one p t = None \<longleftrightarrow> (\<forall>r\<in>set t. \<not> p r)"
  by (auto simp: find_one_def find_None_iff)

lemma set_find_all [table_simps]: "set (find_all p t) = {r \<in> set t. p r}"
  by (simp add: find_all_def)

lemma set_update_where [table_simps]:
  "set (update_where p f t) = (\<lambda>r. if p r then f r else r) ` set t"
  by (simp add: update_where_def)

lemma set_delete_where [table_simps]: "set (delete_where p t) = {r \<in> set t. \<not> p r}"
  by (simp add: delete_where_def)

lemma affected_0 [table_simps]: "affected p t = 0 \<longleftrightarrow> (\<forall>r\<in>set t. \<not> p r)"
  by (auto simp: affected_def filter_empty_conv)

lemma update_where_none [table_simps]: "affected p t = 0 \<Longrightarrow> update_where p f t = t"
  by (induction t) (auto simp: update_where_def affected_def split: if_splits)

lemma length_update_where [simp]: "length (update_where p f t) = length t"
  by (simp add: update_where_def)

lemma map_update_where_key:
  "(\<And>r. p r \<Longrightarrow> key (f r) = key r) \<Longrightarrow> map key (update_where p f t) = map key t"
  by (simp add: update_where_def)

lemma find_one_update_where:
  "(\<And>r. p r \<Longrightarrow> p (f r)) \<Longrightarrow> find_one p (update_where p f t) = map_option f (find_one p t)"
  by (induction t) (auto simp: find_one_def update_where_def)

lemma find_one_update_other:
  "(\<And>r. p r \<Longrightarrow> \<not> q r \<and> \<not> q (f r)) \<Longrightarrow> find_one q (update_where p f t) = find_one q t"
  by (induction t) (auto simp: find_one_def update_where_def)

lemma distinct_map_delete_where: "distinct (map key t) \<Longrightarrow> distinct (map key (delete_where p t))"
  by (simp add: delete_where_def distinct_map_filter)

text \<open>The row count an aggregate SELECT COUNT returns.\<close>

definition count_where :: "('r \<Rightarrow> bool) \<Rightarrow> 'r list \<Rightarrow> nat" where
  "count_where p t = length (filter p t)"

lemma count_where_0 [table_simps]: "count_where p t = 0 \<longleftrightarrow> (\<forall>r\<in>set t. \<not> p r)"
  by (auto simp: count_where_def filter_empty_conv)

subsection \<open>JavaScript arrays and sets\<close>

text \<open>\<open>Array.from(new Set(xs))\<close>: a Set keeps the first insertion of each value.\<close>

fun js_unique_acc :: "'a list \<Rightarrow> 'a list \<Rightarrow> 'a list" where
  "js_unique_acc seen [] = []"
| "js_unique_acc seen (x # xs) =
     (if x \<in> set seen then js_unique_acc seen xs else x # js_unique_acc (x # seen) xs)"

definition js_unique :: "'a list \<Rightarrow> 'a list" where
  "js_unique xs = js_unique_acc [] xs"

lemma js_unique_acc_set: "set (js_unique_acc seen xs) = set xs - set seen"
  by (induction seen xs rule: js_unique_acc.induct) auto

lemma js_unique_acc_distinct: "distinct (js_unique_acc seen xs)"
  by (induction seen xs rule: js_unique_acc.induct) (auto simp: js_unique_acc_set)

lemma set_js_unique [simp]: "set (js_unique xs) = set xs"
  by (simp add: js_unique_def js_unique_acc_set)

lemma distinct_js_unique [simp]: "distinct (js_unique xs)"
  by (simp add: js_unique_def js_unique_acc_distinct)

lemma in_map_filter: "y \<in> set (List.map_filter f xs) \<longleftrightarrow> (\<exists>x\<in>set xs. f x = Some y)"
  by (induction xs) (auto simp: List.map_filter_def)

text \<open>\<open>x ?? d\<close> and the truthiness of an optional string.\<close>

definition nullish :: "'a option \<Rightarrow> 'a \<Rightarrow> 'a" where
  "nullish v d = (case v of None \<Rightarrow> d | Some x \<Rightarrow> x)"

lemma nullish_simps [simp]: "nullish None d = d" "nullish (Some x) d = x"
  by (simp_all add: nullish_def)

definition truthy_str :: "string option \<Rightarrow> bool" where
  "truthy_str v = (case v of None \<Rightarrow> False | Some s \<Rightarrow> s \<noteq> [])"

lemma truthy_str_simps [simp]: "truthy_str None = False" "truthy_str (Some s) = (s \<noteq> [])"
  by (simp_all add: truthy_str_def)

text \<open>\<open>toUpperCase\<close> and \<open>toLowerCase\<close> on ASCII, and \<open>trim\<close>.\<close>

definition upper_char :: "char \<Rightarrow> char" where
  "upper_char c = (let n = of_char c :: nat in
     if 97 \<le> n \<and> n \<le> 122 then char_of (n - 32) else c)"

definition lower_char :: "char \<Rightarrow> char" where
  "lower_char c = (let n = of_char c :: nat in
     if 65 \<le> n \<and> n \<le> 90 then char_of (n + 32) else c)"

definition to_upper :: "string \<Rightarrow> string" where
  "to_upper s = map upper_char s"

definition to_lower :: "string \<Rightarrow> string" where
  "to_lower s = map lower_char s"

definition is_space :: "char \<Rightarrow> bool" where
  "is_space c = (let n = of_char c :: nat in n = 32 \<or> (9 \<le> n \<and> n \<le> 13))"

definition js_trim :: "string \<Rightarrow> string" where
  "js_trim s = rev (dropWhile is_space (rev (dropWhile is_space s)))"

text \<open>The decimal text of a number.\<close>

fun nat_text :: "nat \<Rightarrow> string" where
  "nat_text n = (if n < 10 then [char_of (48 + n)] else nat_text (n div 10) @ [char_of (48 + n mod 10)])"

declare nat_text.simps [simp del]

definition int_text :: "int \<Rightarrow> string" where
  "int_text i = (if i < 0 then CHR ''-'' # nat_text (nat (- i)) else nat_text (nat i))"

text \<open>\<open>split(c)\<close> and \<open>join(c)\<close>.\<close>

fun split_on :: "char \<Rightarrow> string \<Rightarrow> string list" where
  "split_on c [] = [[]]"
| "split_on c (x # xs) = (if x = c then [] # split_on c xs
     else (case split_on c xs of [] \<Rightarrow> [[x]] | y # ys \<Rightarrow> (x # y) # ys))"

fun join_with :: "char \<Rightarrow> string list \<Rightarrow> string" where
  "join_with c [] = []"
| "join_with c [x] = x"
| "join_with c (x # y # ys) = x @ c # join_with c (y # ys)"

lemma split_on_not_Nil [simp]: "split_on c s \<noteq> []"
  by (induction s) (auto split: list.splits)

lemma join_split [simp]: "join_with c (split_on c s) = s"
proof (induction s)
  case (Cons x s)
  then show ?case
  proof (cases "split_on c s")
    case (Cons y ys)
    with Cons.IH show ?thesis by (cases ys) auto
  qed simp
qed simp

lemma split_on_split: "split_on c (xs @ c # ys) = split_on c xs @ split_on c ys"
  by (induction xs) (auto split: list.splits)

lemma split_on_append: "c \<notin> set xs \<Longrightarrow> split_on c (xs @ c # ys) = xs # split_on c ys"
  by (induction xs) auto

definition starts_with :: "string \<Rightarrow> string \<Rightarrow> bool" where
  "starts_with s p = (take (length p) s = p)"

lemma starts_with_append: "starts_with s p \<Longrightarrow> starts_with (s @ t) p"
  unfolding starts_with_def by (metis append_assoc append_eq_conv_conj append_take_drop_id)

subsection \<open>Interfaces\<close>

text \<open>What a client of a cache or of a JavaScript Map relies on.\<close>

locale kv_store =
  fixes get :: "'m \<Rightarrow> 'k \<Rightarrow> 'v option"
    and put :: "'k \<Rightarrow> 'v \<Rightarrow> 'm \<Rightarrow> 'm"
    and del :: "'k \<Rightarrow> 'm \<Rightarrow> 'm"
  assumes get_put: "get (put k v m) k' = (if k' = k then Some v else get m k')"
    and get_del: "get (del k m) k' = (if k' = k then None else get m k')"
begin

lemma del_put: "get (del k (put k v m)) k' = get (del k m) k'"
  by (simp add: get_put get_del)

lemma get_del_same: "get (del k m) k = None"
  by (simp add: get_del)

lemma get_del_SomeD: "get (del k m) k' = Some v \<Longrightarrow> k' \<noteq> k \<and> get m k' = Some v"
  by (simp add: get_del split: if_splits)

lemma get_put_SomeD: "get (put k v m) k' = Some w \<Longrightarrow> w = v \<or> get m k' = Some w"
  by (simp add: get_put split: if_splits)

end

text \<open>
  A component whose commands keep an invariant: the client (a run over any sequence of commands)
  needs one law per command only.
\<close>

locale invariant_system =
  fixes step :: "'s \<Rightarrow> 'c \<Rightarrow> 's"
    and inv :: "'s \<Rightarrow> bool"
    and ok :: "'c \<Rightarrow> bool"
  assumes step_inv: "inv s \<Longrightarrow> ok c \<Longrightarrow> inv (step s c)"
begin

lemma run_inv: "inv s \<Longrightarrow> \<forall>c\<in>set cs. ok c \<Longrightarrow> inv (foldl step s cs)"
proof (induction cs arbitrary: s)
  case Nil
  then show ?case by simp
next
  case (Cons c cs)
  then have "inv (step s c)" by (simp add: step_inv)
  with Cons show ?case by simp
qed

end

end
