(* ===== verification/QuestionSelection.thy ===== *)
theory QuestionSelection
  imports Prelude
begin

text \<open>
  The question bank's difficulty levels (\<open>question-bank/constants/question-levels.constant.ts\<close>) and
  the selection strategy (\<open>question-bank/strategies/question-selection.strategy.ts\<close>): a
  Fisher-Yates shuffle of the unused and used pools and one pick per request in three priorities.
  \<open>Math.random\<close> is the parameter \<open>random\<close>: its \<open>k\<close>-th value, a number in the half-open unit
  interval. What the selection needs of the shuffle (that it permutes) is the locale \<open>shuffler\<close>.
\<close>

subsection \<open>Difficulty levels\<close>

datatype difficulty = EASY | MEDIUM | HARD

fun difficulty_label :: "difficulty \<Rightarrow> string" where
  "difficulty_label EASY = ''EASY''"
| "difficulty_label MEDIUM = ''MEDIUM''"
| "difficulty_label HARD = ''HARD''"

fun question_difficulty_mapping :: "difficulty \<Rightarrow> int list" where
  "question_difficulty_mapping EASY = [43, 44]"
| "question_difficulty_mapping MEDIUM = [45]"
| "question_difficulty_mapping HARD = [46, 47, 48, 49, 50, 51, 52]"

definition all_mapped_question_level_ids :: "int list" where
  "all_mapped_question_level_ids =
     js_unique (concat (map question_difficulty_mapping [EASY, MEDIUM, HARD]))"

definition get_level_ids_for_difficulty :: "string \<Rightarrow> int list" where
  "get_level_ids_for_difficulty d =
     (let u = to_upper d in
      if u = ''EASY'' \<or> u = ''FACIL'' then question_difficulty_mapping EASY
      else if u = ''MEDIUM'' \<or> u = ''INTERMEDIO'' \<or> u = ''MEDIA'' then question_difficulty_mapping MEDIUM
      else if u = ''HARD'' \<or> u = ''DIFICIL'' then question_difficulty_mapping HARD
      else [])"

lemma level_ids_mapped:
  "set (get_level_ids_for_difficulty d) \<subseteq> set all_mapped_question_level_ids"
  by (auto simp: get_level_ids_for_difficulty_def all_mapped_question_level_ids_def Let_def)

text \<open>Two normalized labels never share a level id, so a question counts for one difficulty only.\<close>

lemma mapping_disjoint:
  "d \<noteq> d' \<Longrightarrow> set (question_difficulty_mapping d) \<inter> set (question_difficulty_mapping d') = {}"
  by (cases d; cases d') auto

lemma level_ids_label [simp]:
  "get_level_ids_for_difficulty (difficulty_label d) = question_difficulty_mapping d"
  by (cases d) (simp_all add: get_level_ids_for_difficulty_def to_upper_def upper_char_def)

subsection \<open>Fisher-Yates\<close>

definition swap :: "nat \<Rightarrow> nat \<Rightarrow> 'a list \<Rightarrow> 'a list" where
  "swap i j xs = xs[i := xs ! j, j := xs ! i]"

lemma length_swap [simp]: "length (swap i j xs) = length xs"
  by (simp add: swap_def)

lemma mset_swap [simp]:
  "i < length xs \<Longrightarrow> j < length xs \<Longrightarrow> mset (swap i j xs) = mset xs"
  by (simp add: swap_def mset_update nth_list_update)

text \<open>\<open>Math.floor(Math.random() * (i + 1))\<close>.\<close>

definition random_index :: "rat \<Rightarrow> nat \<Rightarrow> nat" where
  "random_index r i = nat \<lfloor>r * rat_of_nat (i + 1)\<rfloor>"

definition unit_interval :: "(nat \<Rightarrow> rat) \<Rightarrow> bool" where
  "unit_interval random \<longleftrightarrow> (\<forall>k. 0 \<le> random k \<and> random k < 1)"

lemma random_index_le: "0 \<le> r \<Longrightarrow> r < 1 \<Longrightarrow> random_index r i \<le> i"
proof -
  assume "0 \<le> r" "r < 1"
  then have "r * rat_of_nat (i + 1) < rat_of_nat (i + 1)" by simp
  then have "\<lfloor>r * rat_of_nat (i + 1)\<rfloor> < int (i + 1)" by (simp add: floor_less_iff)
  then show ?thesis by (simp add: random_index_def)
qed

text \<open>
  The loop \<open>for (let i = array.length - 1; i > 0; i--)\<close>; the second component is the number of the
  next call of \<open>Math.random\<close>.
\<close>

fun shuffle_from :: "(nat \<Rightarrow> rat) \<Rightarrow> nat \<Rightarrow> nat \<Rightarrow> 'a list \<Rightarrow> 'a list \<times> nat" where
  "shuffle_from random k 0 xs = (xs, k)"
| "shuffle_from random k (Suc i) xs =
     shuffle_from random (Suc k) i (swap (Suc i) (random_index (random k) (Suc i)) xs)"

definition shuffle_js :: "(nat \<Rightarrow> rat) \<Rightarrow> nat \<Rightarrow> 'a list \<Rightarrow> 'a list \<times> nat" where
  "shuffle_js random k xs = shuffle_from random k (length xs - 1) xs"

lemma shuffle_from_mset:
  "unit_interval random \<Longrightarrow> i < length xs \<or> xs = [] \<and> i = 0 \<Longrightarrow>
   mset (fst (shuffle_from random k i xs)) = mset xs"
proof (induction random k i xs rule: shuffle_from.induct)
  case (1 random k xs)
  then show ?case by simp
next
  case (2 random k i xs)
  from 2(2) have "random_index (random k) (Suc i) \<le> Suc i"
    by (simp add: unit_interval_def random_index_le)
  with 2 show ?case by simp
qed

lemma shuffle_js_mset:
  "unit_interval random \<Longrightarrow> mset (fst (shuffle_js random k xs)) = mset xs"
  unfolding shuffle_js_def by (rule shuffle_from_mset, assumption, cases xs) auto

text \<open>What a client of a shuffle relies on: for an admissible source of randomness it permutes.\<close>

locale shuffler =
  fixes shuf :: "'r \<Rightarrow> nat \<Rightarrow> 'a list \<Rightarrow> 'a list \<times> nat"
    and admissible :: "'r \<Rightarrow> bool"
  assumes shuf_mset: "admissible r \<Longrightarrow> mset (fst (shuf r k xs)) = mset xs"
begin

lemma shuf_set: "admissible r \<Longrightarrow> set (fst (shuf r k xs)) = set xs"
  by (metis shuf_mset mset_eq_setD)

lemma shuf_length: "admissible r \<Longrightarrow> length (fst (shuf r k xs)) = length xs"
  by (metis shuf_mset size_mset)

lemma shuf_pair:
  "admissible r \<Longrightarrow> shuf r k xs = (ys, k') \<Longrightarrow> mset ys = mset xs \<and> length ys = length xs"
  using shuf_mset [of r k xs] shuf_length [of r k xs] by simp

end

interpretation js_shuffle: shuffler shuffle_js unit_interval
  by unfold_locales (rule shuffle_js_mset)

subsection \<open>Picking questions\<close>

record question =
  q_id :: string
  q_levelId :: int

text \<open>A \<open>SelectionRequest\<close>: \<open>expectedLevel\<close> is optional.\<close>

type_synonym selection_request = "string option"

text \<open>
  \<open>findIndex\<close> followed by \<open>splice(idx, 1)[0]\<close>: the first element that satisfies the predicate and
  the pool without it, or nothing when \<open>findIndex\<close> answers -1.
\<close>

fun splice_first :: "('a \<Rightarrow> bool) \<Rightarrow> 'a list \<Rightarrow> ('a \<times> 'a list) option" where
  "splice_first p [] = None"
| "splice_first p (x # xs) =
     (if p x then Some (x, xs)
      else (case splice_first p xs of None \<Rightarrow> None | Some (y, ys) \<Rightarrow> Some (y, x # ys)))"

lemma mset_add_mset_set: "mset u = add_mset a (mset u') \<Longrightarrow> set u = insert a (set u')"
  by (metis set_mset_add_mset_insert set_mset_mset)

lemma splice_first_None: "splice_first p xs = None \<longleftrightarrow> (\<forall>x\<in>set xs. \<not> p x)"
  by (induction xs) (auto split: option.splits)

lemma splice_first_Some:
  "splice_first p xs = Some (y, ys) \<Longrightarrow> p y \<and> y \<in> set xs \<and> mset xs = add_mset y (mset ys)"
  by (induction xs arbitrary: y ys) (auto split: if_splits option.splits)

text \<open>One round of the loop over the requests: the state is the two shuffled pools.\<close>

definition pick_one ::
  "bool \<Rightarrow> selection_request \<Rightarrow> question list \<times> question list \<Rightarrow>
   question option \<times> (question list \<times> question list)" where
  "pick_one allowRecycling req pools =
     (case pools of (unused, used) \<Rightarrow>
        (case (if truthy_str req
               then splice_first
                      (\<lambda>q. q_levelId q \<in> set (get_level_ids_for_difficulty (the req))) unused
               else None) of
           Some (q, rest) \<Rightarrow> (Some q, (rest, used))
         | None \<Rightarrow>
             (case unused of
                q # rest \<Rightarrow> (Some q, (rest, used))
              | [] \<Rightarrow>
                  if allowRecycling
                  then (case used of q # rest \<Rightarrow> (Some q, (unused, rest)) | [] \<Rightarrow> (None, (unused, used)))
                  else (None, (unused, used)))))"

fun pick_all ::
  "bool \<Rightarrow> selection_request list \<Rightarrow> question list \<times> question list \<Rightarrow> question option list" where
  "pick_all allowRecycling [] pools = []"
| "pick_all allowRecycling (req # reqs) pools =
     (case pick_one allowRecycling req pools of
        (q, pools') \<Rightarrow> q # pick_all allowRecycling reqs pools')"

definition select_best_questions ::
  "(nat \<Rightarrow> rat) \<Rightarrow> question list \<Rightarrow> string list \<Rightarrow> selection_request list \<Rightarrow> bool \<Rightarrow>
   question option list" where
  "select_best_questions random availablePool usedIdsList requests allowRecycling =
     (let unusedPool = filter (\<lambda>q. q_id q \<notin> set usedIdsList) availablePool;
          usedPool = filter (\<lambda>q. q_id q \<in> set usedIdsList) availablePool
      in case shuffle_js random 0 unusedPool of
           (unused, k) \<Rightarrow>
             (case shuffle_js random k usedPool of
                (used, k') \<Rightarrow> pick_all allowRecycling requests (unused, used)))"

definition chosen :: "question option list \<Rightarrow> question list" where
  "chosen qs = map the (filter (\<lambda>q. q \<noteq> None) qs)"

lemma chosen_simps [simp]:
  "chosen [] = []" "chosen (None # qs) = chosen qs" "chosen (Some q # qs) = q # chosen qs"
  by (simp_all add: chosen_def)

lemma set_chosen: "set (chosen qs) = {q. Some q \<in> set qs}"
  by (induction qs) (auto split: option.splits simp: chosen_def)

text \<open>One pick takes a question from the unused pool while there is one.\<close>

lemma pick_one_cases:
  assumes "pick_one rec req (u, v) = (r, (u', v'))"
  obtains (unused) q where "r = Some q" "mset u = add_mset q (mset u')" "v' = v"
    | (recycled) q where "r = Some q" "u = []" "u' = []" "rec" "mset v = add_mset q (mset v')"
    | (empty) "r = None" "u = []" "u' = []" "v' = v" "rec \<longrightarrow> v = []"
  using assms
  by (auto simp: pick_one_def split: option.splits list.splits if_splits dest: splice_first_Some)

lemma pick_one_level:
  assumes "pick_one rec (Some d) (u, v) = (r, (u', v'))" and "d \<noteq> []"
    and "q \<in> set u" and "q_levelId q \<in> set (get_level_ids_for_difficulty d)"
  shows "\<exists>q'. r = Some q' \<and> q' \<in> set u \<and> q_levelId q' \<in> set (get_level_ids_for_difficulty d)"
  using assms splice_first_None [of "\<lambda>q. q_levelId q \<in> set (get_level_ids_for_difficulty d)" u]
  by (auto simp: pick_one_def split: option.splits dest!: splice_first_Some)

lemma length_pick_all [simp]: "length (pick_all rec reqs pools) = length reqs"
  by (induction reqs arbitrary: pools) (auto split: prod.splits)

lemma pick_all_mset: "mset (chosen (pick_all rec reqs (u, v))) \<subseteq># mset u + mset v"
proof (induction reqs arbitrary: u v)
  case Nil
  then show ?case by simp
next
  case (Cons req reqs)
  obtain r u' v' where p: "pick_one rec req (u, v) = (r, (u', v'))" by (metis prod_cases3)
  from p show ?case
    by (cases rule: pick_one_cases) (use Cons.IH [of u' v'] p in auto)
qed

lemma pick_all_count:
  "length (chosen (pick_all rec reqs (u, v))) =
     min (length reqs) (length u + (if rec then length v else 0))"
proof (induction reqs arbitrary: u v)
  case Nil
  then show ?case by simp
next
  case (Cons req reqs)
  obtain r u' v' where p: "pick_one rec req (u, v) = (r, (u', v'))" by (metis prod_cases3)
  from p show ?case
  proof (cases rule: pick_one_cases)
    case (unused q)
    then have "length u = Suc (length u')" by (metis size_mset size_add_mset)
    with unused p Cons.IH [of u' v'] show ?thesis by simp
  next
    case (recycled q)
    then have "length v = Suc (length v')" by (metis size_mset size_add_mset)
    with recycled p Cons.IH [of u' v'] show ?thesis by simp
  next
    case empty
    with p Cons.IH [of u' v'] show ?thesis by simp
  qed
qed

lemma pick_all_level:
  assumes "i < length reqs" and "reqs ! i = Some d" and "d \<noteq> []"
    and "q \<in># mset u - mset (chosen (take i (pick_all rec reqs (u, v))))"
    and "q_levelId q \<in> set (get_level_ids_for_difficulty d)"
  shows "\<exists>q'. pick_all rec reqs (u, v) ! i = Some q' \<and> q' \<in> set u \<and>
    q_levelId q' \<in> set (get_level_ids_for_difficulty d)"
  using assms
proof (induction reqs arbitrary: u v i)
  case Nil
  then show ?case by simp
next
  case (Cons req reqs)
  obtain r u' v' where p: "pick_one rec req (u, v) = (r, (u', v'))" by (metis prod_cases3)
  show ?case
  proof (cases i)
    case 0
    with Cons.prems p pick_one_level [of rec d u v r u' v' q] show ?thesis by auto
  next
    case (Suc j)
    from p show ?thesis
    proof (cases rule: pick_one_cases)
      case (unused a)
      with p Suc Cons.prems Cons.IH [of j u' v'] show ?thesis
        by (auto dest: mset_add_mset_set)
    qed (use p Suc Cons.prems in auto)
  qed
qed

lemma pick_all_recycled:
  assumes "i < length reqs" and "pick_all rec reqs (u, v) ! i = Some q" and "q \<notin> set u"
  shows "rec \<and> mset u \<subseteq># mset (chosen (take i (pick_all rec reqs (u, v))))"
  using assms
proof (induction reqs arbitrary: u v i)
  case Nil
  then show ?case by simp
next
  case (Cons req reqs)
  obtain r u' v' where p: "pick_one rec req (u, v) = (r, (u', v'))" by (metis prod_cases3)
  from p show ?case
  proof (cases rule: pick_one_cases)
    case (unused a)
    then have sub: "set u' \<subseteq> set u" "a \<in> set u" by (auto dest: mset_add_mset_set)
    show ?thesis
    proof (cases i)
      case 0
      with p unused sub Cons.prems show ?thesis by auto
    next
      case (Suc j)
      with p unused sub Cons.prems Cons.IH [of j u' v'] show ?thesis by auto
    qed
  next
    case (recycled a)
    then show ?thesis by simp
  next
    case empty
    with p Cons.prems Cons.IH [of "i - 1" "[]" v'] show ?thesis by (cases i) auto
  qed
qed

text \<open>The run on the two shuffled pools.\<close>

abbreviation unused_pool :: "question list \<Rightarrow> string list \<Rightarrow> question list" where
  "unused_pool pool usedIds \<equiv> filter (\<lambda>q. q_id q \<notin> set usedIds) pool"

abbreviation used_pool :: "question list \<Rightarrow> string list \<Rightarrow> question list" where
  "used_pool pool usedIds \<equiv> filter (\<lambda>q. q_id q \<in> set usedIds) pool"

lemma select_unfold:
  assumes "unit_interval random"
  obtains u v where "mset u = mset (unused_pool pool usedIds)" "mset v = mset (used_pool pool usedIds)"
    "set u = set (unused_pool pool usedIds)"
    "select_best_questions random pool usedIds reqs rec = pick_all rec reqs (u, v)"
proof -
  obtain u k where u: "shuffle_js random 0 (unused_pool pool usedIds) = (u, k)" by fastforce
  obtain v k' where v: "shuffle_js random k (used_pool pool usedIds) = (v, k')" by fastforce
  from js_shuffle.shuf_pair [OF assms u] js_shuffle.shuf_pair [OF assms v]
  have "mset u = mset (unused_pool pool usedIds)" "mset v = mset (used_pool pool usedIds)" by simp_all
  moreover from this(1) have "set u = set (unused_pool pool usedIds)" by (rule mset_eq_setD)
  moreover have "select_best_questions random pool usedIds reqs rec = pick_all rec reqs (u, v)"
    by (simp add: select_best_questions_def u v)
  ultimately show ?thesis by (rule that)
qed

subsection \<open>Properties\<close>

text \<open>
  C9. The selection answers every request with one slot, never picks a question more often than the
  pool holds it, and fills as many slots as the pools allow: the unused questions, and the used ones
  as well exactly when recycling is allowed.
\<close>

theorem selection_fills_slots:
  assumes "unit_interval random"
  shows "length (select_best_questions random pool usedIds reqs rec) = length reqs \<and>
    mset (chosen (select_best_questions random pool usedIds reqs rec)) \<subseteq># mset pool \<and>
    length (chosen (select_best_questions random pool usedIds reqs rec)) =
      min (length reqs) (if rec then length pool else length (unused_pool pool usedIds))"
proof -
  obtain u v where uv: "mset u = mset (unused_pool pool usedIds)" "mset v = mset (used_pool pool usedIds)"
    "select_best_questions random pool usedIds reqs rec = pick_all rec reqs (u, v)"
    using select_unfold [OF assms] by metis
  have part: "mset u + mset v = mset pool"
    unfolding uv by (induction pool) auto
  then have "size (mset u) + size (mset v) = size (mset pool)" by (metis size_union)
  then have "length u + length v = length pool" by simp
  moreover have "length u = length (unused_pool pool usedIds)" using uv(1) by (metis size_mset)
  ultimately show ?thesis
    using pick_all_mset [of rec reqs u v] pick_all_count [of rec reqs u v] by (simp add: uv(3) part)
qed

theorem selection_fills_slots_witness:
  "length (select_best_questions (\<lambda>_. 1/2)
     [\<lparr>q_id = ''a'', q_levelId = 45\<rparr>, \<lparr>q_id = ''b'', q_levelId = 46\<rparr>] [''b''] [None, Some ''HARD'', None] True) = 3"
  using selection_fills_slots [of "\<lambda>_. 1/2"
     "[\<lparr>q_id = ''a'', q_levelId = 45\<rparr>, \<lparr>q_id = ''b'', q_levelId = 46\<rparr>]" "[''b'']"
     "[None, Some ''HARD'', None]" True]
  by (simp add: unit_interval_def)

text \<open>
  Difficulty first: when a request names a level and some unused question of that level is still
  available at its turn, the slot gets an unused question of that level.
\<close>

theorem selection_respects_level:
  assumes "unit_interval random" and "i < length reqs" and "reqs ! i = Some d" and "d \<noteq> []"
    and "q \<in># mset (unused_pool pool usedIds)
           - mset (chosen (take i (select_best_questions random pool usedIds reqs rec)))"
    and "q_levelId q \<in> set (get_level_ids_for_difficulty d)"
  shows "\<exists>q'. select_best_questions random pool usedIds reqs rec ! i = Some q' \<and>
    q' \<in> set (unused_pool pool usedIds) \<and> q_levelId q' \<in> set (get_level_ids_for_difficulty d)"
proof -
  obtain u v where uv: "mset u = mset (unused_pool pool usedIds)" "set u = set (unused_pool pool usedIds)"
    "select_best_questions random pool usedIds reqs rec = pick_all rec reqs (u, v)"
    using select_unfold [OF assms(1)] by metis
  show ?thesis
    using pick_all_level [OF assms(2-4) _ assms(6), of u rec v] assms(5)
    unfolding uv(1) [symmetric] uv(2) [symmetric] uv(3) by blast
qed

lemma level_ids_dificil: "get_level_ids_for_difficulty ''dificil'' = [46, 47, 48, 49, 50, 51, 52]"
  by code_simp

theorem selection_respects_level_witness:
  "\<exists>q'. select_best_questions (\<lambda>_. 0) [\<lparr>q_id = ''a'', q_levelId = 45\<rparr>, \<lparr>q_id = ''b'', q_levelId = 46\<rparr>] []
      [Some ''dificil''] False ! 0 = Some q' \<and> q_levelId q' \<in> {46, 47, 48, 49, 50, 51, 52}"
  using selection_respects_level [of "\<lambda>_. 0" 0 "[Some ''dificil'']" "''dificil''"
     "\<lparr>q_id = ''b'', q_levelId = 46\<rparr>" "[]" "[\<lparr>q_id = ''a'', q_levelId = 45\<rparr>, \<lparr>q_id = ''b'', q_levelId = 46\<rparr>]"
     False]
  unfolding level_ids_dificil by (simp add: unit_interval_def) blast

text \<open>
  A question that was already used is recycled only when recycling is allowed and every unused
  question has been handed out to an earlier slot.
\<close>

theorem selection_recycles_last:
  assumes "unit_interval random" and "i < length reqs"
    and "select_best_questions random pool usedIds reqs rec ! i = Some q" and "q_id q \<in> set usedIds"
  shows "rec \<and> mset (unused_pool pool usedIds)
    \<subseteq># mset (chosen (take i (select_best_questions random pool usedIds reqs rec)))"
proof -
  obtain u v where uv: "mset u = mset (unused_pool pool usedIds)" "set u = set (unused_pool pool usedIds)"
    "select_best_questions random pool usedIds reqs rec = pick_all rec reqs (u, v)"
    using select_unfold [OF assms(1)] by metis
  from assms(4) uv(2) have "q \<notin> set u" by simp
  then show ?thesis
    using pick_all_recycled [OF assms(2), of rec u v q] assms(3)
    unfolding uv(1) [symmetric] uv(3) by blast
qed

theorem selection_recycles_last_witness:
  "select_best_questions (\<lambda>_. 0) [\<lparr>q_id = ''a'', q_levelId = 45\<rparr>] [''a''] [None] True
     = [Some \<lparr>q_id = ''a'', q_levelId = 45\<rparr>] \<and>
   {#} \<subseteq># mset (chosen (take 0 (select_best_questions (\<lambda>_. 0) [\<lparr>q_id = ''a'', q_levelId = 45\<rparr>] [''a''] [None] True)))"
proof -
  have e: "select_best_questions (\<lambda>_. 0) [\<lparr>q_id = ''a'', q_levelId = 45\<rparr>] [''a''] [None] True
     = [Some \<lparr>q_id = ''a'', q_levelId = 45\<rparr>]"
    by (simp add: select_best_questions_def shuffle_js_def pick_one_def)
  show ?thesis
    using selection_recycles_last [of "\<lambda>_. 0" 0 "[None]" "[\<lparr>q_id = ''a'', q_levelId = 45\<rparr>]" "[''a'']" True
        "\<lparr>q_id = ''a'', q_levelId = 45\<rparr>"]
    by (simp add: e unit_interval_def)
qed

end
