(* ===== verification/Cache.thy ===== *)
theory Cache
  imports Prelude
begin

text \<open>
  The two cache tiers of the services. The Redis tier (\<open>cacheManager\<close> of \<open>AuthService\<close> and
  \<open>TenantsService\<close>) is a map from keys to values with an expiry instant; every access is bounded by
  \<open>withTimeout\<close> (\<open>common/utils/with-timeout.util.ts\<close>) and may fail. The process-local tier is a
  JavaScript \<open>Map\<close>, which keeps insertion order.
\<close>

subsection \<open>Bounded operations\<close>

text \<open>
  What \<open>Promise.race([operation(), timeout])\<close> can settle to: the operation's value, the operation's own
  rejection, or the timer's rejection. \<open>with_timeout\<close> picks the earlier of the two; a timer that has not
  fired is cleared.
\<close>

datatype 'a settled = Resolves millis 'a | Rejects millis string | NeverSettles
datatype timeout_error = TimedOut string millis | OperationRejected string

definition with_timeout :: "'a settled \<Rightarrow> string \<Rightarrow> millis \<Rightarrow> timeout_error + 'a" where
  "with_timeout operation label timeoutMs =
     (case operation of
        Resolves t v \<Rightarrow> if t < timeoutMs then Inr v else Inl (TimedOut label timeoutMs)
      | Rejects t e \<Rightarrow> if t < timeoutMs then Inl (OperationRejected e) else Inl (TimedOut label timeoutMs)
      | NeverSettles \<Rightarrow> Inl (TimedOut label timeoutMs))"

lemma with_timeout_hung: "with_timeout NeverSettles label ms = Inl (TimedOut label ms)"
  by (simp add: with_timeout_def)

lemma with_timeout_in_time: "with_timeout operation label ms = Inr v \<Longrightarrow> \<exists>t < ms. operation = Resolves t v"
  by (auto simp: with_timeout_def split: settled.splits if_splits)

text \<open>
  The outcome of a cache access as its caller sees it. A read fails or answers; a write or delete is done,
  is lost, or is late: the caller has given up on it but it takes effect all the same.
\<close>

datatype read_io = ReadOk | ReadFails
datatype write_io = WriteDone | WriteLost | WriteLate

fun takes_effect :: "write_io \<Rightarrow> bool" where
  "takes_effect WriteDone = True"
| "takes_effect WriteLost = False"
| "takes_effect WriteLate = True"

subsection \<open>The Redis tier\<close>

type_synonym 'v redis = "string \<rightharpoonup> 'v \<times> millis"

definition redis_get :: "millis \<Rightarrow> string \<Rightarrow> 'v redis \<Rightarrow> 'v option" where
  "redis_get now k m = (case m k of None \<Rightarrow> None | Some (v, e) \<Rightarrow> if now \<le> e then Some v else None)"

definition redis_set :: "millis \<Rightarrow> string \<Rightarrow> 'v \<Rightarrow> millis \<Rightarrow> 'v redis \<Rightarrow> 'v redis" where
  "redis_set now k v ttl m = m(k \<mapsto> (v, now + ttl))"

definition redis_del :: "string \<Rightarrow> 'v redis \<Rightarrow> 'v redis" where
  "redis_del k m = m(k := None)"

definition redis_put :: "string \<Rightarrow> 'v \<times> millis \<Rightarrow> 'v redis \<Rightarrow> 'v redis" where
  "redis_put k p m = m(k \<mapsto> p)"

interpretation redis_store: kv_store "\<lambda>m k. m k" redis_put redis_del
  by unfold_locales (simp_all add: redis_put_def redis_del_def)

lemma redis_set_put: "redis_set now k v ttl m = redis_put k (v, now + ttl) m"
  by (simp add: redis_set_def redis_put_def)

lemma redis_get_SomeD: "redis_get now k m = Some v \<Longrightarrow> \<exists>e. m k = Some (v, e) \<and> now \<le> e"
  by (auto simp: redis_get_def split: option.splits if_splits)

definition redis_read :: "read_io \<Rightarrow> millis \<Rightarrow> string \<Rightarrow> 'v redis \<Rightarrow> 'v option" where
  "redis_read io now k m = (case io of ReadOk \<Rightarrow> redis_get now k m | ReadFails \<Rightarrow> None)"

definition redis_write :: "write_io \<Rightarrow> millis \<Rightarrow> string \<Rightarrow> 'v \<Rightarrow> millis \<Rightarrow> 'v redis \<Rightarrow> 'v redis" where
  "redis_write io now k v ttl m = (if takes_effect io then redis_set now k v ttl m else m)"

definition redis_drop :: "write_io \<Rightarrow> string \<Rightarrow> 'v redis \<Rightarrow> 'v redis" where
  "redis_drop io k m = (if takes_effect io then redis_del k m else m)"

lemma redis_read_SomeD: "redis_read io now k m = Some v \<Longrightarrow> \<exists>e. m k = Some (v, e) \<and> now \<le> e"
  by (auto simp: redis_read_def split: read_io.splits dest: redis_get_SomeD)

lemma redis_write_SomeD:
  "redis_write io now k v ttl m k' = Some p \<Longrightarrow> (k' = k \<and> p = (v, now + ttl)) \<or> m k' = Some p"
  by (auto simp: redis_write_def redis_set_def split: if_splits)

lemma redis_drop_SomeD: "redis_drop io k m k' = Some p \<Longrightarrow> m k' = Some p"
  by (auto simp: redis_drop_def redis_del_def split: if_splits)

subsection \<open>JavaScript Map\<close>

type_synonym ('k, 'v) js_map = "('k \<times> 'v) list"

text \<open>Setting a present key keeps its position; a new key goes to the end.\<close>

fun js_map_set :: "'k \<Rightarrow> 'v \<Rightarrow> ('k, 'v) js_map \<Rightarrow> ('k, 'v) js_map" where
  "js_map_set k v [] = [(k, v)]"
| "js_map_set k v ((k', v') # m) = (if k = k' then (k, v) # m else (k', v') # js_map_set k v m)"

definition js_map_delete :: "'k \<Rightarrow> ('k, 'v) js_map \<Rightarrow> ('k, 'v) js_map" where
  "js_map_delete k m = filter (\<lambda>(k', _). k' \<noteq> k) m"

lemma map_of_js_map_set: "map_of (js_map_set k v m) k' = (if k' = k then Some v else map_of m k')"
  by (induction k v m rule: js_map_set.induct) auto

lemma map_of_js_map_delete: "map_of (js_map_delete k m) k' = (if k' = k then None else map_of m k')"
  by (induction m) (auto simp: js_map_delete_def)

interpretation js_map_store: kv_store map_of js_map_set js_map_delete
  by unfold_locales (simp_all add: map_of_js_map_set map_of_js_map_delete)

lemma js_map_set_keys:
  "map fst (js_map_set k v m) = (if k \<in> set (map fst m) then map fst m else map fst m @ [k])"
  by (induction k v m rule: js_map_set.induct) auto

lemma length_js_map_set:
  "length (js_map_set k v m) = (if k \<in> fst ` set m then length m else Suc (length m))"
  by (induction k v m rule: js_map_set.induct) auto

lemma length_js_map_delete: "length (js_map_delete k m) \<le> length m"
  by (simp add: js_map_delete_def)

lemma js_map_delete_present: "k \<in> fst ` set m \<Longrightarrow> length (js_map_delete k m) < length m"
  by (auto simp: js_map_delete_def intro!: length_filter_less)

lemma distinct_js_map_set: "distinct (map fst m) \<Longrightarrow> distinct (map fst (js_map_set k v m))"
  by (simp add: js_map_set_keys)

lemma distinct_js_map_delete: "distinct (map fst m) \<Longrightarrow> distinct (map fst (js_map_delete k m))"
  by (simp add: js_map_delete_def distinct_map_filter)

lemma js_map_delete_hd:
  "distinct (map fst ((k, v) # m)) \<Longrightarrow> js_map_delete k ((k, v) # m) = m"
  by (force simp: js_map_delete_def intro!: filter_True)

end
