(* ===== verification/TenantContext.thy ===== *)
theory TenantContext
  imports Cache
begin

text \<open>
  Tenant isolation: the schema-name allowlist (\<open>database/schema-name.util.ts\<close>), the transaction runner
  \<open>TenantService\<close> (\<open>database/tenant.service.ts\<close>) with its reuse of the ambient transaction, the cached
  company lookup of \<open>TenantsService\<close> (\<open>tenants/tenants.service.ts\<close>) and the request middleware that
  resolves the tenant from the subdomain (\<open>database/tenant.middleware.ts\<close>).
\<close>

subsection \<open>Schema names\<close>

definition ident_start :: "char \<Rightarrow> bool" where
  "ident_start c = (let n = of_char c :: nat in
     (97 \<le> n \<and> n \<le> 122) \<or> (65 \<le> n \<and> n \<le> 90) \<or> n = 95)"

definition ident_part :: "char \<Rightarrow> bool" where
  "ident_part c = (let n = of_char c :: nat in
     ident_start c \<or> (48 \<le> n \<and> n \<le> 57) \<or> n = 45)"

definition valid_schema :: "string \<Rightarrow> bool" where
  "valid_schema s = (case s of [] \<Rightarrow> False | c # cs \<Rightarrow> ident_start c \<and> list_all ident_part cs)"

definition tenant_schema :: "string \<Rightarrow> string" where
  "tenant_schema companyId = ''tenant_'' @ companyId"

lemma valid_schema_no_quote: "valid_schema s \<Longrightarrow> CHR 0x22 \<notin> set s \<and> CHR '';'' \<notin> set s \<and> CHR '' '' \<notin> set s"
  by (auto simp: valid_schema_def ident_part_def ident_start_def Let_def list_all_iff split: list.splits)

lemma tenant_schema_inj [simp]: "tenant_schema a = tenant_schema b \<longleftrightarrow> a = b"
  by (simp add: tenant_schema_def)

lemma valid_tenant_schema: "valid_schema (tenant_schema c) = list_all ident_part c"
  by (simp add: valid_schema_def tenant_schema_def ident_start_def ident_part_def)

subsection \<open>TenantService\<close>

text \<open>
  The continuation-local storage of a request and the schemas of the database. \<open>tx\<close> is the ambient
  transaction: its schema and the working copy of that schema's tables.
\<close>

record 'db cls =
  cls_tenantSchema :: "string option"
  cls_companyId :: "string option"
  cls_subdomain :: "string option"
  cls_tx :: "(string \<times> 'db) option"

type_synonym 'db schemas = "string \<Rightarrow> 'db"

datatype 'e tenant_error = InvalidSchema string | NoTenantSchema | OperationError 'e

text \<open>An operation runs inside a request: it sees the storage and the committed schemas.\<close>

type_synonym ('db, 'e, 'a) operation =
  "'db cls \<Rightarrow> 'db schemas \<Rightarrow> ('e tenant_error + 'a) \<times> 'db cls \<times> 'db schemas"

definition run_in_schema :: "string \<Rightarrow> ('db, 'e, 'a) operation \<Rightarrow> ('db, 'e, 'a) operation" where
  "run_in_schema schema operation cls world =
     (if \<not> valid_schema schema then (Inl (InvalidSchema schema), cls, world)
      else case cls_tx cls of
        Some (s, d) \<Rightarrow>
          if s = schema then operation cls world
          else (case operation (cls\<lparr>cls_tx := Some (schema, world schema)\<rparr>) world of
                  (Inl e, cls', world') \<Rightarrow> (Inl e, cls, world')
                | (Inr a, cls', world') \<Rightarrow>
                    (Inr a, cls, (case cls_tx cls' of Some (_, d') \<Rightarrow> world'(schema := d') | None \<Rightarrow> world')))
      | None \<Rightarrow>
          (case operation (cls\<lparr>cls_tx := Some (schema, world schema)\<rparr>) world of
             (Inl e, cls', world') \<Rightarrow> (Inl e, cls, world')
           | (Inr a, cls', world') \<Rightarrow>
               (Inr a, cls, (case cls_tx cls' of Some (_, d') \<Rightarrow> world'(schema := d') | None \<Rightarrow> world'))))"

definition run_in_tenant :: "('db, 'e, 'a) operation \<Rightarrow> ('db, 'e, 'a) operation" where
  "run_in_tenant operation cls world =
     (case cls_tenantSchema cls of
        None \<Rightarrow> (Inl NoTenantSchema, cls, world)
      | Some s \<Rightarrow> if s = [] then (Inl NoTenantSchema, cls, world) else run_in_schema s operation cls world)"

text \<open>The statements an operation issues through the manager it was handed.\<close>

definition with_manager :: "('db, 'e, 'a) tx \<Rightarrow> ('db, 'e, 'a) operation" where
  "with_manager body cls world =
     (case cls_tx cls of
        None \<Rightarrow> (Inl NoTenantSchema, cls, world)
      | Some (s, d) \<Rightarrow>
          (case body d of
             Inl e \<Rightarrow> (Inl (OperationError e), cls, world)
           | Inr (a, d') \<Rightarrow> (Inr a, cls\<lparr>cls_tx := Some (s, d')\<rparr>, world)))"

definition and_then :: "('db, 'e, 'a) operation \<Rightarrow> ('a \<Rightarrow> ('db, 'e, 'b) operation) \<Rightarrow> ('db, 'e, 'b) operation" where
  "and_then f g cls world =
     (case f cls world of
        (Inl e, cls', world') \<Rightarrow> (Inl e, cls', world')
      | (Inr a, cls', world') \<Rightarrow> g a cls' world')"

lemma run_in_schema_top:
  assumes "cls_tx cls = None" and "valid_schema s"
  shows "run_in_schema s (with_manager body) cls world =
    (case run_tx body (world s) of
       (Inl e, _) \<Rightarrow> (Inl (OperationError e), cls, world)
     | (Inr a, d) \<Rightarrow> (Inr a, cls, world(s := d)))"
  using assms by (auto simp: run_in_schema_def with_manager_def run_tx_def split: sum.splits)

lemma run_in_schema_nested:
  assumes "cls_tx cls = Some (s, d)" and "valid_schema s"
  shows "run_in_schema s op cls world = op cls world"
  using assms by (simp add: run_in_schema_def)

subsection \<open>Companies\<close>

datatype company_status = ACTIVE | SUSPENDED | GRACE_PERIOD

record company =
  co_id :: uuid
  co_subdomain :: string
  co_commercialName :: string
  co_logoUrl :: "string option"
  co_primaryColor :: string
  co_isActive :: bool
  co_status :: company_status

definition subdomain_cache_key :: "string \<Rightarrow> string" where
  "subdomain_cache_key subdomain = ''company:subdomain:'' @ subdomain"

definition find_by_subdomain ::
  "millis \<Rightarrow> read_io \<Rightarrow> write_io \<Rightarrow> millis \<Rightarrow> millis \<Rightarrow> company list \<Rightarrow> string \<Rightarrow> company redis
    \<Rightarrow> company option \<times> company redis" where
  "find_by_subdomain ttl rio wio now now' companies subdomain redis =
     (case redis_read rio now (subdomain_cache_key subdomain) redis of
        Some c \<Rightarrow> (Some c, redis)
      | None \<Rightarrow>
          (case find_one (\<lambda>c. co_subdomain c = subdomain \<and> co_isActive c) companies of
             None \<Rightarrow> (None, redis)
           | Some c \<Rightarrow> (Some c, redis_write wio now' (subdomain_cache_key subdomain) c ttl redis)))"

definition invalidate_subdomain_cache :: "write_io \<Rightarrow> string \<Rightarrow> company redis \<Rightarrow> company redis" where
  "invalidate_subdomain_cache wio subdomain redis = redis_drop wio (subdomain_cache_key subdomain) redis"

record branding =
  br_commercialName :: string
  br_logoUrl :: "string option"
  br_primaryColor :: string

definition default_branding :: branding where
  "default_branding = \<lparr>br_commercialName = ''Odiseo B2B Default'', br_logoUrl = None, br_primaryColor = ''#6366f1''\<rparr>"

definition get_branding :: "company list \<Rightarrow> string \<Rightarrow> branding" where
  "get_branding companies subdomain =
     (if subdomain = [] then default_branding
      else case find_one (\<lambda>c. co_subdomain c = subdomain) companies of
        None \<Rightarrow> default_branding
      | Some c \<Rightarrow> \<lparr>br_commercialName = co_commercialName c, br_logoUrl = co_logoUrl c,
                   br_primaryColor = co_primaryColor c\<rparr>)"

lemma subdomain_cache_key_inj [simp]: "subdomain_cache_key a = subdomain_cache_key b \<longleftrightarrow> a = b"
  by (simp add: subdomain_cache_key_def)

text \<open>After an invalidation that took effect, the lookup answers from the table, whatever the cache held.\<close>

lemma find_after_invalidate:
  assumes "takes_effect wio"
  shows "fst (find_by_subdomain ttl rio wio' now now' companies sd (invalidate_subdomain_cache wio sd redis)) =
    find_one (\<lambda>c. co_subdomain c = sd \<and> co_isActive c) companies"
  using assms
  by (auto simp: find_by_subdomain_def invalidate_subdomain_cache_def redis_drop_def redis_read_def
      redis_get_def redis_store.get_del_same split: option.splits read_io.splits)

subsection \<open>TenantMiddleware\<close>

definition public_paths :: "string list" where
  "public_paths =
     [''/api/v1/tenants/branding'', ''/v1/tenants/branding'',
      ''/api/v1/admin/tenants'', ''/v1/admin/tenants'',
      ''/api/v1/admin/subscriptions'', ''/v1/admin/subscriptions'',
      ''/api/v1/admin/dashboard'', ''/v1/admin/dashboard'',
      ''/api/v1/admin/permissions'', ''/v1/admin/permissions'',
      ''/queues'', ''/api/health'', ''/health'', ''/metrics'']"

definition subdomain_of :: "string option \<Rightarrow> string option \<Rightarrow> string option" where
  "subdomain_of header host =
     (if truthy_str header then header
      else if truthy_str host then
        (let parts = split_on (CHR ''.'') (the host) in
         if length parts \<ge> 2 \<and> hd parts \<noteq> ''www'' \<and> \<not> starts_with (hd parts) ''localhost''
         then Some (hd parts) else header)
      else header)"

datatype tenant_msg =
    SubdomainUnresolved
  | SubdomainUnknown string
  | CompanySuspended string

definition tenant_middleware ::
  "(string \<Rightarrow> company option) \<Rightarrow> string option \<Rightarrow> string option \<Rightarrow> string \<Rightarrow> 'db cls
    \<Rightarrow> (tenant_msg http_error + unit) \<times> 'db cls" where
  "tenant_middleware findBySubdomain header host requestPath cls =
     (let subdomain = subdomain_of header host;
          sd = (if truthy_str subdomain then subdomain else None);
          cls1 = cls\<lparr>cls_subdomain := sd\<rparr>
      in if list_ex (starts_with requestPath) public_paths then (Inr (), cls1)
         else case sd of
           None \<Rightarrow> (Inl (BadRequest SubdomainUnresolved), cls1)
         | Some s \<Rightarrow>
             (case findBySubdomain s of
                None \<Rightarrow> (Inl (BadRequest (SubdomainUnknown s)), cls1)
              | Some company \<Rightarrow>
                  if co_status company = SUSPENDED then (Inl (Forbidden (CompanySuspended s)), cls1)
                  else (Inr (), cls1\<lparr>cls_tenantSchema := Some (tenant_schema (co_id company)),
                                     cls_companyId := Some (co_id company)\<rparr>)))"

subsection \<open>Properties\<close>

text \<open>The body of two operations run one after the other on the same manager.\<close>

definition tx_then :: "('db, 'e, 'a) tx \<Rightarrow> ('a \<Rightarrow> ('db, 'e, 'b) tx) \<Rightarrow> ('db, 'e, 'b) tx" where
  "tx_then f g d = (case f d of Inl e \<Rightarrow> Inl e | Inr (a, d') \<Rightarrow> g a d')"

lemma cls_tx_restore: "cls_tx cls = Some p \<Longrightarrow> cls\<lparr>cls_tx := Some p\<rparr> = cls"
  by (cases cls) simp



text \<open>
  Nested repository calls on the same schema are one transaction: a check and a write, each in its own
  \<open>runInSchema\<close>, wrapped in an outer one, are the single transaction of their bodies; when the second fails
  the first leaves no trace.
\<close>

lemma nested_calls_one_transaction:
  assumes "cls_tx cls = None" and "valid_schema s"
  shows "run_in_schema s (and_then (run_in_schema s (with_manager f))
            (\<lambda>a. run_in_schema s (with_manager (g a)))) cls world
       = (case run_tx (tx_then f g) (world s) of
            (Inl e, _) \<Rightarrow> (Inl (OperationError e), cls, world)
          | (Inr a, d) \<Rightarrow> (Inr a, cls, world(s := d)))"
  using assms
  by (auto simp: run_in_schema_def with_manager_def and_then_def tx_then_def run_tx_def
      split: sum.splits)

text \<open>
  What the middleware lets through: a request on any path outside the public list proceeds only with the
  tenant of an existing, not suspended company whose subdomain the request named, and then the schema is
  that company's; a public path proceeds without a tenant.
\<close>

lemma middleware_resolves_tenant:
  assumes "tenant_middleware lookup header host path cls = (Inr (), cls')"
    and "cls_companyId cls = None" and "cls_tenantSchema cls = None"
  shows "if list_ex (starts_with path) public_paths
    then cls_companyId cls' = None \<and> cls_tenantSchema cls' = None
    else (\<exists>sd c. subdomain_of header host = Some sd \<and> sd \<noteq> [] \<and> lookup sd = Some c \<and> co_status c \<noteq> SUSPENDED \<and>
      cls_companyId cls' = Some (co_id c) \<and> cls_tenantSchema cls' = Some (tenant_schema (co_id c)))"
  using assms
  by (cases "subdomain_of header host")
    (auto simp: tenant_middleware_def Let_def split: if_splits option.splits)

text \<open>
  A company mutation reaches the request path: once the invalidation took effect, or once the cached row
  has expired, the lookup answers the active row of the table (so a suspension is seen), whatever the cache
  held and whatever fails meanwhile.
\<close>

theorem company_lookup_fresh:
  assumes "takes_effect wio \<or> (\<forall>c e. redis (subdomain_cache_key sd) = Some (c, e) \<longrightarrow> e < now)"
  shows "fst (find_by_subdomain ttl rio wio' now now' companies sd (invalidate_subdomain_cache wio sd redis)) =
    find_one (\<lambda>c. co_subdomain c = sd \<and> co_isActive c) companies"
proof (cases "takes_effect wio")
  case True
  then show ?thesis by (rule find_after_invalidate)
next
  case False
  with assms have "redis_read rio now (subdomain_cache_key sd) redis = None"
    by (metis not_le not_None_eq redis_read_SomeD)
  with False show ?thesis
    by (simp add: find_by_subdomain_def invalidate_subdomain_cache_def redis_drop_def split: option.splits)
qed

theorem company_lookup_fresh_witness:
  "fst (find_by_subdomain 30000 ReadOk WriteDone 100 100 [] ''acme''
     (invalidate_subdomain_cache WriteLate ''acme'' (\<lambda>_. None))) = None"
  using company_lookup_fresh [of WriteLate "\<lambda>_. None" "''acme''" 100 30000 ReadOk WriteDone 100 "[]"]
  by (simp add: find_one_def)

end
