(* ===== verification/RoleGraph.thy ===== *)
theory RoleGraph
  imports Prelude
begin

text \<open>
  The permission vocabulary (\<open>admin/roles/constants/permissions.constant.ts\<close>) and the role-hierarchy
  queries (\<open>admin/roles/permissions/flattened-permissions.query.ts\<close>). The recursive common table
  expressions are evaluated the way the database evaluates \<open>WITH RECURSIVE ... UNION\<close>: a working table of
  the rows found in the last round, joined with the edges, minus every row already in the result. Their
  meaning is reachability, which is the interface (\<open>reachability\<close>) the rest of the development uses.
\<close>

subsection \<open>Permissions\<close>

definition MANAGE_TENANTS :: string where
  "MANAGE_TENANTS = ''MANAGE_TENANTS''"

definition permissions :: "string list" where
  "permissions =
     [''MANAGE_ROLES'', ''MANAGE_USERS'', MANAGE_TENANTS,
      ''LIST_TENANT_ADMINS'', ''CREATE_TENANT_ADMINS'', ''EDIT_TENANT_ADMINS'',
      ''CHANGE_PASSWORD_TENANT_ADMINS'', ''DELETE_TENANT_ADMINS'',
      ''VIEW_SYLLABUS'', ''EDIT_SYLLABUS'',
      ''VIEW_ACADEMIC_TIME'', ''MANAGE_ACADEMIC_TIME'',
      ''VIEW_CATALOGS'', ''EDIT_CATALOGS'',
      ''VIEW_MATERIALS'', ''EDIT_MATERIALS'']"

definition tenant_super_admin_permissions :: "string list" where
  "tenant_super_admin_permissions =
     [''MANAGE_ROLES'', ''MANAGE_USERS'',
      ''LIST_TENANT_ADMINS'', ''CREATE_TENANT_ADMINS'', ''EDIT_TENANT_ADMINS'',
      ''CHANGE_PASSWORD_TENANT_ADMINS'', ''DELETE_TENANT_ADMINS'',
      ''VIEW_SYLLABUS'', ''EDIT_SYLLABUS'',
      ''VIEW_ACADEMIC_TIME'', ''MANAGE_ACADEMIC_TIME'',
      ''VIEW_CATALOGS'', ''EDIT_CATALOGS'',
      ''VIEW_MATERIALS'', ''EDIT_MATERIALS'']"

definition platform_super_admin_permissions :: "string list" where
  "platform_super_admin_permissions = tenant_super_admin_permissions @ [MANAGE_TENANTS]"

text \<open>\<open>PERMISSIONS_METADATA\<close>: the module of the catalogue and the codes it lists, in order.\<close>

definition permissions_metadata :: "(string \<times> string list) list" where
  "permissions_metadata =
     [(''Admin'', [''MANAGE_ROLES'', ''MANAGE_USERS'', MANAGE_TENANTS]),
      (''Tenant Admin Management'',
         [''LIST_TENANT_ADMINS'', ''CREATE_TENANT_ADMINS'', ''EDIT_TENANT_ADMINS'',
          ''CHANGE_PASSWORD_TENANT_ADMINS'', ''DELETE_TENANT_ADMINS'']),
      (''Syllabus'', [''VIEW_SYLLABUS'', ''EDIT_SYLLABUS'']),
      (''Academic Time'', [''VIEW_ACADEMIC_TIME'', ''MANAGE_ACADEMIC_TIME'']),
      (''Catalogs'', [''VIEW_CATALOGS'', ''EDIT_CATALOGS'']),
      (''Materials'', [''VIEW_MATERIALS'', ''EDIT_MATERIALS''])]"

subsection \<open>Tables\<close>

record role =
  r_id :: uuid
  r_name :: string
  r_description :: "string option"
  r_isSystemDefault :: bool
  r_permissions :: "string list option"

text \<open>\<open>role_inheritance\<close> holds (parent, child) pairs and \<open>user_roles\<close> holds (user, role) pairs.\<close>

record roles_db =
  roles :: "role list"
  role_inheritance :: "(uuid \<times> uuid) list"
  user_roles :: "(uuid \<times> uuid) list"

text \<open>The edges of the two walks: child to parent (permissions), parent to child (dependants).\<close>

definition up_edges :: "roles_db \<Rightarrow> (uuid \<times> uuid) list" where
  "up_edges db = map (\<lambda>(p, c). (c, p)) (role_inheritance db)"

definition down_edges :: "roles_db \<Rightarrow> (uuid \<times> uuid) list" where
  "down_edges db = role_inheritance db"

subsection \<open>Recursive queries\<close>

text \<open>The recursive term: the edges joined with the working table.\<close>

definition cte_step :: "('a \<times> 'a) list \<Rightarrow> 'a list \<Rightarrow> 'a list" where
  "cte_step es working = map snd (filter (\<lambda>(a, b). a \<in> set working) es)"

definition cte_new :: "('a \<times> 'a) list \<Rightarrow> 'a list \<Rightarrow> 'a list \<Rightarrow> 'a list" where
  "cte_new es result working = js_unique (filter (\<lambda>x. x \<notin> set result) (cte_step es working))"

lemma set_cte_step: "set (cte_step es w) = set es `` set w"
  by (force simp: cte_step_def)

lemma set_cte_new: "set (cte_new es res w) = set es `` set w - set res"
  by (auto simp: cte_new_def set_cte_step)

function cte_loop :: "('a \<times> 'a) list \<Rightarrow> 'a list \<Rightarrow> 'a list \<Rightarrow> 'a list" where
  "cte_loop es result working =
     (if working = [] then result
      else cte_loop es (result @ cte_new es result working) (cte_new es result working))"
  by pat_completeness auto
termination
proof (relation "measures [\<lambda>(es, result, working). card (snd ` set es - set result),
    \<lambda>(es, result, working). length working]", goal_cases)
  case 1
  show ?case by simp
next
  case (2 es result working)
  show ?case
  proof (cases "cte_new es result working")
    case Nil
    with 2 show ?thesis by simp
  next
    case (Cons a as)
    then have "a \<in> set es `` set working - set result"
      using set_cte_new [of es result working] by auto
    then have "snd ` set es - set (result @ cte_new es result working) \<subset> snd ` set es - set result"
      by (auto simp: set_cte_new image_iff) force+
    then have "card (snd ` set es - set (result @ cte_new es result working)) < card (snd ` set es - set result)"
      by (simp add: psubset_card_mono)
    then show ?thesis by simp
  qed
qed

declare cte_loop.simps [simp del]

text \<open>\<open>WITH RECURSIVE t AS (seeds UNION step)\<close>: the seeds lose their duplicates too.\<close>

definition recursive_union :: "('a \<times> 'a) list \<Rightarrow> 'a list \<Rightarrow> 'a list" where
  "recursive_union es seeds = cte_loop es (js_unique seeds) (js_unique seeds)"

lemma cte_loop_distinct: "distinct res \<Longrightarrow> distinct (cte_loop es res w)"
proof (induction es res w rule: cte_loop.induct)
  case (1 es res w)
  then show ?case
    by (subst cte_loop.simps) (auto simp: set_cte_new cte_new_def)
qed

lemma cte_loop_sound:
  "set res \<subseteq> (set es)\<^sup>* `` S \<Longrightarrow> set w \<subseteq> set res \<Longrightarrow> set (cte_loop es res w) \<subseteq> (set es)\<^sup>* `` S"
proof (induction es res w rule: cte_loop.induct)
  case (1 es res w)
  have "set es `` set w \<subseteq> (set es)\<^sup>* `` S"
    using 1(2,3) by (auto simp: subset_iff Image_iff) (meson rtrancl.rtrancl_into_rtrancl)
  then have "set (res @ cte_new es res w) \<subseteq> (set es)\<^sup>* `` S"
    using 1(2) by (auto simp: set_cte_new)
  with 1 show ?case by (subst cte_loop.simps) auto
qed

text \<open>Every row of the result but those of the working table has had its successors added.\<close>

lemma cte_loop_closed:
  "set w \<subseteq> set res \<Longrightarrow> set es `` (set res - set w) \<subseteq> set res \<Longrightarrow>
   set res \<subseteq> set (cte_loop es res w) \<and> set es `` set (cte_loop es res w) \<subseteq> set (cte_loop es res w)"
proof (induction es res w rule: cte_loop.induct)
  case (1 es res w)
  show ?case
  proof (cases "w = []")
    case True
    with 1(3) show ?thesis by (subst (1 2 3) cte_loop.simps) simp
  next
    case False
    have "set es `` (set (res @ cte_new es res w) - set (cte_new es res w)) \<subseteq> set (res @ cte_new es res w)"
      using 1(3) by (auto simp: set_cte_new)
    with 1(1) [OF False] False show ?thesis
      by (subst (1 2 3) cte_loop.simps) auto
  qed
qed

lemma set_recursive_union: "set (recursive_union es seeds) = (set es)\<^sup>* `` set seeds"
proof
  show "set (recursive_union es seeds) \<subseteq> (set es)\<^sup>* `` set seeds"
    unfolding recursive_union_def by (rule cte_loop_sound) auto
  have "set seeds \<subseteq> set (recursive_union es seeds)"
    and "set es `` set (recursive_union es seeds) \<subseteq> set (recursive_union es seeds)"
    using cte_loop_closed [of "js_unique seeds" "js_unique seeds" es] by (auto simp: recursive_union_def)
  then show "(set es)\<^sup>* `` set seeds \<subseteq> set (recursive_union es seeds)"
    by (metis Image_closed_trancl Image_mono order_refl)
qed

lemma distinct_recursive_union: "distinct (recursive_union es seeds)"
  by (simp add: recursive_union_def cte_loop_distinct)

subsection \<open>Reachability as an interface\<close>

lemma rtrancl_into_source:
  "(a, r) \<in> (E \<union> {r} \<times> P)\<^sup>* \<Longrightarrow> (a, r) \<in> E\<^sup>*"
  by (induction rule: converse_rtrancl_induct) (auto intro: converse_rtrancl_into_rtrancl)

lemma acyclic_add_source:
  assumes "finite P" and "acyclic E" and "\<forall>p\<in>P. (p, r) \<notin> E\<^sup>*"
  shows "acyclic (E \<union> {r} \<times> P)"
  using assms(1,3)
proof (induction P)
  case empty
  with assms(2) show ?case by simp
next
  case (insert p P)
  have "E \<union> {r} \<times> insert p P = insert (r, p) (E \<union> {r} \<times> P)" by auto
  moreover have "(p, r) \<notin> (E \<union> {r} \<times> P)\<^sup>*"
    using insert.prems by (auto dest: rtrancl_into_source)
  ultimately show ?case using insert by (simp add: acyclic_insert)
qed

lemma not_reached:
  assumes "E \<subseteq> B \<times> A" and "S \<subseteq> A" and "i \<notin> A"
  shows "i \<notin> E\<^sup>* `` S"
proof
  assume "i \<in> E\<^sup>* `` S"
  then obtain s where "s \<in> S" "(s, i) \<in> E\<^sup>*" by auto
  from this(2) show False
    by (cases rule: rtranclE) (use assms \<open>s \<in> S\<close> in auto)
qed

locale reachability =
  fixes reach :: "('a \<times> 'a) list \<Rightarrow> 'a list \<Rightarrow> 'a list"
  assumes set_reach: "set (reach es seeds) = (set es)\<^sup>* `` set seeds"
begin

lemma seeds_reached: "set seeds \<subseteq> set (reach es seeds)"
  by (auto simp: set_reach)

lemma reach_mono: "set es \<subseteq> set es' \<Longrightarrow> set seeds \<subseteq> set seeds' \<Longrightarrow> set (reach es seeds) \<subseteq> set (reach es' seeds')"
  unfolding set_reach by (meson Image_mono rtrancl_mono)

text \<open>The write-time cycle guard: giving \<open>r\<close> the targets \<open>ps\<close> keeps the graph acyclic iff none reaches \<open>r\<close>.\<close>

lemma guarded_write_acyclic:
  assumes "acyclic (set es)" and "r \<notin> set (reach es ps)"
  shows "acyclic ({e \<in> set es. fst e \<noteq> r} \<union> {r} \<times> set ps)"
proof (rule acyclic_add_source)
  show "acyclic {e \<in> set es. fst e \<noteq> r}"
    using assms(1) by (rule acyclic_subset) auto
  show "\<forall>p\<in>set ps. (p, r) \<notin> {e \<in> set es. fst e \<noteq> r}\<^sup>*"
  proof
    fix p assume "p \<in> set ps"
    with assms(2) have "(p, r) \<notin> (set es)\<^sup>*" by (auto simp: set_reach)
    then show "(p, r) \<notin> {e \<in> set es. fst e \<noteq> r}\<^sup>*"
      using rtrancl_mono [of "{e \<in> set es. fst e \<noteq> r}" "set es"] by auto
  qed
qed simp

lemma unguarded_write_cyclic:
  assumes "r \<in> set (reach es ps)"
  shows "\<not> acyclic ({e \<in> set es. fst e \<noteq> r} \<union> {r} \<times> set ps)"
proof -
  let ?E = "{e \<in> set es. fst e \<noteq> r} \<union> {r} \<times> set ps"
  from assms obtain p where p: "p \<in> set ps" "(p, r) \<in> (set es)\<^sup>*" by (auto simp: set_reach)
  from p(2) have "(p, r) \<in> ?E\<^sup>*"
  proof (induction rule: converse_rtrancl_induct)
    case base
    show ?case by simp
  next
    case (step y z)
    then show ?case
      by (cases "y = r") (auto intro: converse_rtrancl_into_rtrancl)
  qed
  moreover from p(1) have "(r, p) \<in> ?E" by simp
  ultimately have "(r, r) \<in> ?E\<^sup>+" by (rule rtrancl_into_trancl2 [rotated])
  then show ?thesis by (auto simp: acyclic_def)
qed

text \<open>Replacing the targets of \<open>r\<close> by \<open>ps\<close> adds nothing but what \<open>ps\<close> reached already.\<close>

lemma write_reach_bound:
  assumes "set es' \<subseteq> {e \<in> set es. fst e \<noteq> r} \<union> {r} \<times> set ps"
  shows "set (reach es' seeds) \<subseteq> set (reach es seeds) \<union> set (reach es ps)"
proof -
  have "(s, x) \<in> (set es)\<^sup>* \<or> (\<exists>p\<in>set ps. (p, x) \<in> (set es)\<^sup>*)" if "(s, x) \<in> (set es')\<^sup>*" for s x
    using that
  proof (induction rule: rtrancl_induct)
    case (step y z)
    from step(2) assms have "(y, z) \<in> set es \<or> z \<in> set ps" by auto
    with step(3) show ?case by (meson rtrancl.rtrancl_into_rtrancl rtrancl.rtrancl_refl)
  qed simp
  then show ?thesis by (fastforce simp: set_reach)
qed

text \<open>Nodes that do not reach \<open>r\<close> see no change when only edges leaving \<open>r\<close> change.\<close>

lemma reach_unaffected:
  assumes "{e \<in> set es. fst e \<noteq> r} = {e \<in> set es'. fst e \<noteq> r}" and "r \<notin> set (reach es seeds)"
  shows "set (reach es' seeds) = set (reach es seeds)"
proof -
  have sub: "(set E')\<^sup>* `` set seeds \<subseteq> (set E)\<^sup>* `` set seeds"
    if "{e \<in> set E. fst e \<noteq> r} = {e \<in> set E'. fst e \<noteq> r}" "r \<notin> (set E)\<^sup>* `` set seeds" for E E' :: "('a \<times> 'a) list"
  proof
    fix x assume "x \<in> (set E')\<^sup>* `` set seeds"
    then obtain s where s: "s \<in> set seeds" "(s, x) \<in> (set E')\<^sup>*" by auto
    from s(2) have "(s, x) \<in> (set E)\<^sup>*"
    proof (induction rule: rtrancl_induct)
      case base
      show ?case by simp
    next
      case (step y z)
      from step(3) s(1) that(2) have "y \<noteq> r" by auto
      with step(2) have "(y, z) \<in> {e \<in> set E'. fst e \<noteq> r}" by simp
      with that(1) have "(y, z) \<in> set E" by blast
      with step(3) show ?case by (rule rtrancl_into_rtrancl)
    qed
    with s(1) show "x \<in> (set E)\<^sup>* `` set seeds" by auto
  qed
  have 1: "(set es')\<^sup>* `` set seeds \<subseteq> (set es)\<^sup>* `` set seeds"
    using assms by (intro sub) (auto simp: set_reach)
  with assms(2) have "r \<notin> (set es')\<^sup>* `` set seeds" by (auto simp: set_reach)
  with assms(1) have "(set es)\<^sup>* `` set seeds \<subseteq> (set es')\<^sup>* `` set seeds"
    by (intro sub) auto
  with 1 show ?thesis by (simp add: set_reach)
qed

end

interpretation cte: reachability recursive_union
  by unfold_locales (rule set_recursive_union)

subsection \<open>The queries\<close>

definition direct_role_ids :: "roles_db \<Rightarrow> uuid \<Rightarrow> uuid list" where
  "direct_role_ids db user = map snd (filter (\<lambda>(u, r). u = user) (user_roles db))"

definition find_effective_roles :: "roles_db \<Rightarrow> uuid \<Rightarrow> role list" where
  "find_effective_roles db user =
     (let effective_roles = recursive_union (up_edges db) (direct_role_ids db user)
      in filter (\<lambda>r. r_id r \<in> set effective_roles) (roles db))"

definition flatten_permissions :: "role list \<Rightarrow> string list" where
  "flatten_permissions rows = js_unique (concat (map (\<lambda>r. nullish (r_permissions r) []) rows))"

definition find_effective_permissions :: "roles_db \<Rightarrow> uuid \<Rightarrow> string list" where
  "find_effective_permissions db user = flatten_permissions (find_effective_roles db user)"

definition find_effective_permissions_for_role_ids :: "roles_db \<Rightarrow> uuid list \<Rightarrow> string list" where
  "find_effective_permissions_for_role_ids db roleIds =
     (if roleIds = [] then []
      else flatten_permissions
             (filter (\<lambda>r. r_id r \<in> set (recursive_union (up_edges db) roleIds)) (roles db)))"

definition role_set_inherits_role :: "roles_db \<Rightarrow> uuid list \<Rightarrow> uuid \<Rightarrow> bool" where
  "role_set_inherits_role db roleIds roleId =
     (if roleIds = [] then False
      else filter (\<lambda>x. x = roleId) (recursive_union (up_edges db) roleIds) \<noteq> [])"

definition find_dependent_role_holder_ids :: "roles_db \<Rightarrow> uuid \<Rightarrow> uuid list" where
  "find_dependent_role_holder_ids db roleId =
     (let dependent_roles = recursive_union (down_edges db) [roleId]
      in js_unique (map fst (filter (\<lambda>(u, r). r \<in> set dependent_roles) (user_roles db))))"

text \<open>The specification: what a role set confers by inheritance.\<close>

definition confers :: "roles_db \<Rightarrow> uuid set \<Rightarrow> string set" where
  "confers db rs = {p. \<exists>r\<in>set (roles db). r_id r \<in> (set (up_edges db))\<^sup>* `` rs \<and> p \<in> set (nullish (r_permissions r) [])}"

lemma set_flatten_permissions:
  "set (flatten_permissions rows) = (\<Union>r\<in>set rows. set (nullish (r_permissions r) []))"
  by (simp add: flatten_permissions_def)

lemma set_direct_role_ids: "set (direct_role_ids db u) = {r. (u, r) \<in> set (user_roles db)}"
  by (force simp: direct_role_ids_def)

lemma set_effective_permissions:
  "set (find_effective_permissions db u) = confers db {r. (u, r) \<in> set (user_roles db)}"
  by (auto simp: find_effective_permissions_def find_effective_roles_def set_flatten_permissions
      confers_def cte.set_reach set_direct_role_ids)

lemma set_effective_permissions_for_role_ids:
  "set (find_effective_permissions_for_role_ids db ids) = confers db (set ids)"
  by (auto simp: find_effective_permissions_for_role_ids_def set_flatten_permissions confers_def cte.set_reach)

lemma role_set_inherits_role_iff:
  "role_set_inherits_role db ids r \<longleftrightarrow> r \<in> set (recursive_union (up_edges db) ids)"
  by (auto simp: role_set_inherits_role_def filter_empty_conv cte.set_reach)

lemma up_down_converse: "set (up_edges db) = (set (down_edges db))\<inverse>"
  by (force simp: up_edges_def down_edges_def)

lemma set_dependent_holders:
  "set (find_dependent_role_holder_ids db r) =
     {u. r \<in> set (recursive_union (up_edges db) (direct_role_ids db u))}"
  by (force simp: find_dependent_role_holder_ids_def cte.set_reach set_direct_role_ids
      up_down_converse rtrancl_converse)

text \<open>A user whose permissions change with the row and the parents of a role is one of its dependants.\<close>

lemma affected_is_dependent:
  assumes "user_roles db' = user_roles db"
    and "{r \<in> set (roles db'). r_id r \<noteq> rid} = {r \<in> set (roles db). r_id r \<noteq> rid}"
    and "{e \<in> set (role_inheritance db'). snd e \<noteq> rid} = {e \<in> set (role_inheritance db). snd e \<noteq> rid}"
    and "set (find_effective_permissions db' u) \<noteq> set (find_effective_permissions db u)"
  shows "u \<in> set (find_dependent_role_holder_ids db rid)"
proof (rule ccontr)
  assume "u \<notin> set (find_dependent_role_holder_ids db rid)"
  then have nr: "rid \<notin> set (recursive_union (up_edges db) (direct_role_ids db u))"
    by (simp add: set_dependent_holders)
  have up: "set (up_edges D) = (\<lambda>(p, c). (c, p)) ` set (role_inheritance D)" for D
    by (simp add: up_edges_def)
  have "{e \<in> set (up_edges D). fst e \<noteq> rid} = (\<lambda>(p, c). (c, p)) ` {e \<in> set (role_inheritance D). snd e \<noteq> rid}" for D
    unfolding up by force
  then have "{e \<in> set (up_edges db). fst e \<noteq> rid} = {e \<in> set (up_edges db'). fst e \<noteq> rid}"
    using assms(3) by simp
  from cte.reach_unaffected [OF this nr]
  have eq: "(set (up_edges db'))\<^sup>* `` set (direct_role_ids db u) = (set (up_edges db))\<^sup>* `` set (direct_role_ids db u)"
    by (simp add: cte.set_reach)
  have "r \<in> set (roles db') \<longleftrightarrow> r \<in> set (roles db)" if "r_id r \<in> (set (up_edges db))\<^sup>* `` set (direct_role_ids db u)" for r
    using that nr assms(2) by (auto simp: cte.set_reach)
  then have "confers db' {r. (u, r) \<in> set (user_roles db')} = confers db {r. (u, r) \<in> set (user_roles db)}"
    using eq unfolding confers_def assms(1) set_direct_role_ids by auto
  with assms(4) show False by (simp add: set_effective_permissions)
qed

subsection \<open>Properties\<close>

text \<open>
  C8. Permission resolution is exact on every hierarchy, cyclic ones included: the query returns, without
  duplicates, precisely the permissions of the roles reachable from the user's own roles through
  inheritance.
\<close>

theorem effective_permissions_exact:
  "distinct (find_effective_permissions db u) \<and>
   (p \<in> set (find_effective_permissions db u) \<longleftrightarrow>
     (\<exists>r0 r. (u, r0) \<in> set (user_roles db) \<and> r \<in> set (roles db) \<and>
        (r0, r_id r) \<in> {(c, p). (p, c) \<in> set (role_inheritance db)}\<^sup>* \<and>
        p \<in> set (nullish (r_permissions r) [])))"
proof -
  have "set (up_edges db) = {(c, p). (p, c) \<in> set (role_inheritance db)}"
    by (force simp: up_edges_def)
  moreover have "distinct (find_effective_permissions db u)"
    by (simp add: find_effective_permissions_def flatten_permissions_def)
  ultimately show ?thesis
    by (auto simp: set_effective_permissions confers_def)
qed

text \<open>
  Cache invalidation reaches everyone it must: if two states differ only in the row of role \<open>rid\<close> and in
  the parents of \<open>rid\<close>, every user whose effective permissions differ between them is among the dependent
  holders computed before the change.
\<close>

lemma dependent_holders_complete:
  assumes "user_roles db' = user_roles db"
    and "{r \<in> set (roles db'). r_id r \<noteq> rid} = {r \<in> set (roles db). r_id r \<noteq> rid}"
    and "{e \<in> set (role_inheritance db'). snd e \<noteq> rid} = {e \<in> set (role_inheritance db). snd e \<noteq> rid}"
    and "set (find_effective_permissions db' u) \<noteq> set (find_effective_permissions db u)"
  shows "u \<in> set (find_dependent_role_holder_ids db rid)"
  using assms by (rule affected_is_dependent)

end
