(* ===== verification/AuthState.thy ===== *)
theory AuthState
  imports TenantContext RoleGraph
begin

text \<open>
  \<open>AuthService\<close> (\<open>auth/auth.service.ts\<close>): credential validation, the per-request authorization state with
  its two cache tiers over the tenant database, password change and token revocation. bcrypt is the pair
  of parameters \<open>compare\<close> and \<open>hash\<close>. Every cache access takes its outcome as an argument, and every
  operation takes the instants at which it reads the clock.
\<close>

datatype auth_msg =
    UserNotFoundOrDeactivated
  | CurrentPasswordIncorrect
  | NewPasswordMustDiffer
  | CompanyIsSuspended string
  | TokenExpiredOrInvalid
  | NoAuthenticationToken
  | SessionOfOtherTenant
  | TokenRevoked
  | PasswordChangeRequired
  | NoPermissionPolicy
  | TenantNotManageable
  | ForbiddenResource
  | InsufficientPermissions
  | AuthLookupTimedOut
  | WebhookNotConfigured
  | InvalidWebhookSignature
  | InvalidTenantSchema string
  | DatabaseFailure

record user =
  u_id :: uuid
  u_email :: string
  u_passwordHash :: string
  u_name :: string
  u_companyId :: uuid
  u_isActive :: bool
  u_forcePasswordReset :: bool
  u_tokensValidAfter :: "millis option"

record tenant_db =
  td_users :: "user list"
  td_roles :: roles_db

record cached_auth_state =
  ca_permissions :: "string list"
  ca_forcePasswordReset :: bool
  ca_tokensValidAfter :: "millis option"

type_synonym local_cache = "(string, cached_auth_state \<times> millis) js_map"

text \<open>The state of the service: the schemas, the shared Redis tier and this process's local tier.\<close>

record auth_world =
  aw_db :: "string \<Rightarrow> tenant_db"
  aw_redis :: "cached_auth_state redis"
  aw_local :: local_cache

definition LOCAL_CACHE_TTL_MS :: millis where
  "LOCAL_CACHE_TTL_MS = 4000"

definition LOCAL_CACHE_MAX_ENTRIES :: nat where
  "LOCAL_CACHE_MAX_ENTRIES = 5000"

definition REDIS_TTL_MS :: millis where
  "REDIS_TTL_MS = 60 * 1000"

definition auth_cache_key :: "uuid \<Rightarrow> uuid \<Rightarrow> string" where
  "auth_cache_key companyId userId = ''auth:permissions:'' @ companyId @ '':'' @ userId"

subsection \<open>The local tier\<close>

definition get_local_auth_state ::
  "millis \<Rightarrow> string \<Rightarrow> local_cache \<Rightarrow> cached_auth_state option \<times> local_cache" where
  "get_local_auth_state now cacheKey m =
     (case map_of m cacheKey of
        None \<Rightarrow> (None, m)
      | Some (state, expiresAt) \<Rightarrow>
          if now \<ge> expiresAt then (None, js_map_delete cacheKey m) else (Some state, m))"

definition set_local_auth_state ::
  "millis \<Rightarrow> string \<Rightarrow> cached_auth_state \<Rightarrow> local_cache \<Rightarrow> local_cache" where
  "set_local_auth_state now cacheKey state m =
     (let m1 = (if cacheKey \<notin> set (map fst m) \<and> length m \<ge> LOCAL_CACHE_MAX_ENTRIES
                then (case m of [] \<Rightarrow> m | (oldestKey, _) # _ \<Rightarrow> js_map_delete oldestKey m)
                else m)
      in js_map_set cacheKey (state, now + LOCAL_CACHE_TTL_MS) m1)"

subsection \<open>Authorization state\<close>

definition compute_auth_state :: "tenant_db \<Rightarrow> uuid \<Rightarrow> cached_auth_state" where
  "compute_auth_state db userId =
     (let permissions = find_effective_permissions (td_roles db) userId;
          user = find_one (\<lambda>u. u_id u = userId) (td_users db)
      in \<lparr>ca_permissions = permissions,
          ca_forcePasswordReset = (case user of None \<Rightarrow> False | Some u \<Rightarrow> u_forcePasswordReset u),
          ca_tokensValidAfter = (case user of None \<Rightarrow> None | Some u \<Rightarrow> u_tokensValidAfter u)\<rparr>)"

definition get_user_auth_state ::
  "read_io \<Rightarrow> write_io \<Rightarrow> millis \<Rightarrow> millis \<Rightarrow> uuid \<Rightarrow> uuid \<Rightarrow> auth_world
    \<Rightarrow> (auth_msg http_error + cached_auth_state) \<times> auth_world" where
  "get_user_auth_state rio wio now now' userId companyId w =
     (let cacheKey = auth_cache_key companyId userId in
      case redis_read rio now cacheKey (aw_redis w) of
        Some cached \<Rightarrow> (Inr cached, w)
      | None \<Rightarrow>
          (case get_local_auth_state now cacheKey (aw_local w) of
             (Some localHit, m) \<Rightarrow> (Inr localHit, w\<lparr>aw_local := m\<rparr>)
           | (None, m) \<Rightarrow>
               let schemaName = tenant_schema companyId in
               if \<not> valid_schema schemaName
               then (Inl (RawError (InvalidTenantSchema schemaName)), w\<lparr>aw_local := m\<rparr>)
               else
                 let state = compute_auth_state (aw_db w schemaName) userId in
                 (Inr state,
                  w\<lparr>aw_redis := redis_write wio now' cacheKey state REDIS_TTL_MS (aw_redis w),
                    aw_local := set_local_auth_state now' cacheKey state m\<rparr>)))"

definition get_user_permissions ::
  "read_io \<Rightarrow> write_io \<Rightarrow> millis \<Rightarrow> millis \<Rightarrow> uuid \<Rightarrow> uuid \<Rightarrow> auth_world
    \<Rightarrow> (auth_msg http_error + string list) \<times> auth_world" where
  "get_user_permissions rio wio now now' userId companyId w =
     (case get_user_auth_state rio wio now now' userId companyId w of
        (Inl e, w') \<Rightarrow> (Inl e, w')
      | (Inr s, w') \<Rightarrow> (Inr (ca_permissions s), w'))"

subsection \<open>Revocation\<close>

definition invalidate_user_permissions :: "write_io \<Rightarrow> uuid \<Rightarrow> uuid \<Rightarrow> auth_world \<Rightarrow> auth_world" where
  "invalidate_user_permissions wio companyId userId w =
     (let cacheKey = auth_cache_key companyId userId in
      w\<lparr>aw_local := js_map_delete cacheKey (aw_local w),
        aw_redis := redis_drop wio cacheKey (aw_redis w)\<rparr>)"

definition stamp_tokens_valid_after :: "millis \<Rightarrow> uuid \<Rightarrow> tenant_db \<Rightarrow> tenant_db" where
  "stamp_tokens_valid_after now userId db =
     db\<lparr>td_users := update_where (\<lambda>u. u_id u = userId) (\<lambda>u. u\<lparr>u_tokensValidAfter := Some now\<rparr>) (td_users db)\<rparr>"

text \<open>\<open>dbOk\<close> is false when the database rejects the write; that error is not swallowed here.\<close>

definition revoke_user_tokens ::
  "bool \<Rightarrow> write_io \<Rightarrow> millis \<Rightarrow> uuid \<Rightarrow> uuid \<Rightarrow> auth_world \<Rightarrow> (auth_msg http_error + unit) \<times> auth_world" where
  "revoke_user_tokens dbOk wio now companyId userId w =
     (let schemaName = tenant_schema companyId in
      if \<not> valid_schema schemaName then (Inl (RawError (InvalidTenantSchema schemaName)), w)
      else if \<not> dbOk then (Inl (RawError DatabaseFailure), w)
      else (Inr (), invalidate_user_permissions wio companyId userId
             (w\<lparr>aw_db := (aw_db w)(schemaName := stamp_tokens_valid_after now userId (aw_db w schemaName))\<rparr>)))"

subsection \<open>Passwords\<close>

definition change_password_tx ::
  "(string \<Rightarrow> string \<Rightarrow> bool) \<Rightarrow> (string \<Rightarrow> string) \<Rightarrow> uuid \<Rightarrow> string \<Rightarrow> string
    \<Rightarrow> (tenant_db, auth_msg http_error, unit) tx" where
  "change_password_tx compare hash userId currentPassword newPassword db =
     (case find_one (\<lambda>u. u_id u = userId \<and> u_isActive u) (td_users db) of
        None \<Rightarrow> Inl (Unauthorized UserNotFoundOrDeactivated)
      | Some user \<Rightarrow>
          if \<not> compare currentPassword (u_passwordHash user) then Inl (Unauthorized CurrentPasswordIncorrect)
          else if compare newPassword (u_passwordHash user) then Inl (BadRequest NewPasswordMustDiffer)
          else Inr ((), db\<lparr>td_users := update_where (\<lambda>u. u_id u = userId)
                 (\<lambda>u. u\<lparr>u_passwordHash := hash newPassword, u_forcePasswordReset := False\<rparr>) (td_users db)\<rparr>))"

definition change_password ::
  "(string \<Rightarrow> string \<Rightarrow> bool) \<Rightarrow> (string \<Rightarrow> string) \<Rightarrow> bool \<Rightarrow> write_io \<Rightarrow> millis \<Rightarrow> uuid \<Rightarrow> uuid \<Rightarrow> string \<Rightarrow> string
    \<Rightarrow> auth_world \<Rightarrow> (auth_msg http_error + unit) \<times> auth_world" where
  "change_password compare hash revokeOk wio now userId companyId currentPassword newPassword w =
     (let schemaName = tenant_schema companyId in
      if \<not> valid_schema schemaName then (Inl (RawError (InvalidTenantSchema schemaName)), w)
      else case run_tx (change_password_tx compare hash userId currentPassword newPassword) (aw_db w schemaName) of
        (Inl e, _) \<Rightarrow> (Inl e, w)
      | (Inr _, db) \<Rightarrow>
          (Inr (), snd (revoke_user_tokens revokeOk wio now companyId userId
                          (w\<lparr>aw_db := (aw_db w)(schemaName := db)\<rparr>))))"

subsection \<open>Login and session data\<close>

record login_result =
  lr_user :: user
  lr_roles :: "string list"
  lr_permissions :: "string list"
  lr_companyId :: uuid

definition validate_user ::
  "(string \<Rightarrow> company option) \<Rightarrow> (string \<Rightarrow> string \<Rightarrow> bool) \<Rightarrow> string \<Rightarrow> string \<Rightarrow> string \<Rightarrow> auth_world
    \<Rightarrow> auth_msg http_error + login_result option" where
  "validate_user findBySubdomain compare email password subdomain w =
     (case findBySubdomain subdomain of
        None \<Rightarrow> Inr None
      | Some company \<Rightarrow>
          if co_status company = SUSPENDED then Inl (Forbidden (CompanyIsSuspended subdomain))
          else let schemaName = tenant_schema (co_id company) in
          if \<not> valid_schema schemaName then Inl (RawError (InvalidTenantSchema schemaName))
          else let db = aw_db w schemaName in
          (case find_one (\<lambda>u. u_email u = email \<and> u_isActive u) (td_users db) of
             None \<Rightarrow> Inr None
           | Some user \<Rightarrow>
               if \<not> compare password (u_passwordHash user) then Inr None
               else if u_companyId user \<noteq> co_id company then Inr None
               else let effectiveRoles = find_effective_roles (td_roles db) (u_id user) in
                 Inr (Some \<lparr>lr_user = user, lr_roles = map r_name effectiveRoles,
                            lr_permissions = flatten_permissions effectiveRoles,
                            lr_companyId = co_id company\<rparr>)))"

record session_user =
  su_id :: uuid
  su_email :: string
  su_name :: string
  su_companyId :: uuid
  su_roles :: "string list"
  su_permissions :: "string list"
  su_forcePasswordReset :: bool

record jwt_payload =
  jp_sub :: uuid
  jp_companyId :: uuid
  jp_roles :: "string list"
  jp_iat :: int

definition verify_token :: "(string \<Rightarrow> jwt_payload option) \<Rightarrow> string \<Rightarrow> auth_msg http_error + jwt_payload" where
  "verify_token verify token =
     (case verify token of None \<Rightarrow> Inl (Unauthorized TokenExpiredOrInvalid) | Some payload \<Rightarrow> Inr payload)"

definition get_user_from_token :: "jwt_payload \<Rightarrow> auth_world \<Rightarrow> auth_msg http_error + session_user" where
  "get_user_from_token payload w =
     (let schemaName = tenant_schema (jp_companyId payload) in
      if \<not> valid_schema schemaName then Inl (RawError (InvalidTenantSchema schemaName))
      else let db = aw_db w schemaName in
      case find_one (\<lambda>u. u_id u = jp_sub payload \<and> u_isActive u) (td_users db) of
        None \<Rightarrow> Inl (Unauthorized UserNotFoundOrDeactivated)
      | Some user \<Rightarrow>
          Inr \<lparr>su_id = u_id user, su_email = u_email user, su_name = u_name user,
               su_companyId = jp_companyId payload, su_roles = jp_roles payload,
               su_permissions = find_effective_permissions (td_roles db) (u_id user),
               su_forcePasswordReset = u_forcePasswordReset user\<rparr>)"

subsection \<open>The local tier is bounded\<close>

text \<open>The commands a process runs against the two tiers.\<close>

datatype auth_cmd =
    GetState read_io write_io millis millis uuid uuid
  | Revoke bool write_io millis uuid uuid
  | ChangePassword "string \<Rightarrow> string \<Rightarrow> bool" "string \<Rightarrow> string" bool write_io millis uuid uuid string string

fun auth_step :: "auth_world \<Rightarrow> auth_cmd \<Rightarrow> auth_world" where
  "auth_step w (GetState rio wio now now' u c) = snd (get_user_auth_state rio wio now now' u c w)"
| "auth_step w (Revoke dbOk wio now c u) = snd (revoke_user_tokens dbOk wio now c u w)"
| "auth_step w (ChangePassword compare hash revokeOk wio now u c cur new) =
     snd (change_password compare hash revokeOk wio now u c cur new w)"

text \<open>The instant at which a command writes a cache entry or a stamp.\<close>

fun cmd_clock :: "auth_cmd \<Rightarrow> millis" where
  "cmd_clock (GetState rio wio now now' u c) = now'"
| "cmd_clock (Revoke dbOk wio now c u) = now"
| "cmd_clock (ChangePassword compare hash revokeOk wio now u c cur new) = now"

fun is_get :: "auth_cmd \<Rightarrow> bool" where
  "is_get (GetState rio wio now now' u c) = True"
| "is_get _ = False"

definition local_ok :: "local_cache \<Rightarrow> bool" where
  "local_ok m \<longleftrightarrow> distinct (map fst m) \<and> length m \<le> LOCAL_CACHE_MAX_ENTRIES"

lemma local_ok_delete: "local_ok m \<Longrightarrow> local_ok (js_map_delete k m)"
  by (meson local_ok_def distinct_js_map_delete length_js_map_delete le_trans)

lemma local_ok_get: "local_ok m \<Longrightarrow> local_ok (snd (get_local_auth_state now k m))"
  by (auto simp: get_local_auth_state_def local_ok_delete split: option.splits)

lemma local_ok_set:
  assumes "local_ok m"
  shows "local_ok (set_local_auth_state now k s m)"
proof (cases "k \<notin> set (map fst m) \<and> length m \<ge> LOCAL_CACHE_MAX_ENTRIES")
  case True
  then obtain k0 v m' where m: "m = (k0, v) # m'"
    by (cases m) (auto simp: LOCAL_CACHE_MAX_ENTRIES_def)
  with assms have "js_map_delete k0 m = m'" by (simp add: js_map_delete_hd local_ok_def)
  with True assms m show ?thesis
    by (auto simp: set_local_auth_state_def local_ok_def distinct_js_map_set length_js_map_set)
next
  case False
  then have "set_local_auth_state now k s m = js_map_set k (s, now + LOCAL_CACHE_TTL_MS) m"
    by (simp only: set_local_auth_state_def if_False Let_def)
  moreover from False have "k \<notin> fst ` set m \<Longrightarrow> Suc (length m) \<le> LOCAL_CACHE_MAX_ENTRIES" by auto
  ultimately show ?thesis
    using assms by (auto simp: local_ok_def distinct_js_map_set length_js_map_set)
qed

lemma local_ok_get_state:
  assumes "local_ok (aw_local w)"
  shows "local_ok (aw_local (snd (get_user_auth_state rio wio now now' u c w)))"
proof -
  obtain r m where g: "get_local_auth_state now (auth_cache_key c u) (aw_local w) = (r, m)" by fastforce
  with assms have "local_ok m" by (metis local_ok_get snd_conv)
  with assms g show ?thesis
    by (auto simp: get_user_auth_state_def Let_def local_ok_set split: option.splits)
qed

lemma local_ok_revoke:
  "local_ok (aw_local w) \<Longrightarrow> local_ok (aw_local (snd (revoke_user_tokens dbOk wio now c u w)))"
  by (auto simp: revoke_user_tokens_def invalidate_user_permissions_def Let_def local_ok_delete)

lemma local_ok_change_password:
  "local_ok (aw_local w) \<Longrightarrow> local_ok (aw_local (snd (change_password compare hash ok wio now u c cur new w)))"
  by (auto simp: change_password_def Let_def local_ok_revoke split: sum.splits prod.splits)

interpretation local_tier: invariant_system auth_step "\<lambda>w. local_ok (aw_local w)" "\<lambda>_. True"
  by unfold_locales
    (case_tac c; simp add: local_ok_get_state local_ok_revoke local_ok_change_password)

subsection \<open>How stale a cached state can be\<close>

lemma ident_no_colon: "list_all ident_part c \<Longrightarrow> CHR '':'' \<notin> set c"
  by (auto simp: list_all_iff ident_part_def ident_start_def)

lemma append_colon_inj:
  "a @ CHR '':'' # u = b @ CHR '':'' # v \<Longrightarrow> CHR '':'' \<notin> set a \<Longrightarrow> CHR '':'' \<notin> set b \<Longrightarrow> a = b \<and> u = v"
  by (induction a arbitrary: b) (auto simp: append_eq_Cons_conv Cons_eq_append_conv)

lemma auth_cache_key_inj:
  assumes "list_all ident_part c" and "list_all ident_part c'"
  shows "auth_cache_key c u = auth_cache_key c' u' \<longleftrightarrow> c = c' \<and> u = u'"
  using append_colon_inj [of c u c' u'] assms by (auto simp: auth_cache_key_def dest: ident_no_colon)

text \<open>Expiry instants are never further ahead than the tier's lifetime.\<close>

definition entries_dated :: "millis \<Rightarrow> auth_world \<Rightarrow> bool" where
  "entries_dated T w \<longleftrightarrow>
     (\<forall>k s e. aw_redis w k = Some (s, e) \<longrightarrow> e \<le> T + REDIS_TTL_MS) \<and>
     (\<forall>k s e. map_of (aw_local w) k = Some (s, e) \<longrightarrow> e \<le> T + LOCAL_CACHE_TTL_MS)"

text \<open>Every entry that outlives the window that opened at \<open>T\<close> agrees with the database.\<close>

definition stale_bounded :: "millis \<Rightarrow> auth_world \<Rightarrow> bool" where
  "stale_bounded T w \<longleftrightarrow>
     (\<forall>c u s e. list_all ident_part c \<longrightarrow> aw_redis w (auth_cache_key c u) = Some (s, e) \<longrightarrow>
        e \<le> T + REDIS_TTL_MS \<or> s = compute_auth_state (aw_db w (tenant_schema c)) u) \<and>
     (\<forall>c u s e. list_all ident_part c \<longrightarrow> map_of (aw_local w) (auth_cache_key c u) = Some (s, e) \<longrightarrow>
        e \<le> T + LOCAL_CACHE_TTL_MS \<or> s = compute_auth_state (aw_db w (tenant_schema c)) u)"

lemma get_local_SomeD:
  "map_of (snd (get_local_auth_state now k m)) k' = Some p \<Longrightarrow> map_of m k' = Some p"
  by (auto simp: get_local_auth_state_def split: option.splits if_splits dest: js_map_store.get_del_SomeD)

lemma set_local_SomeD:
  "map_of (set_local_auth_state now k s m) k' = Some p \<Longrightarrow>
   (k' = k \<and> p = (s, now + LOCAL_CACHE_TTL_MS)) \<or> map_of m k' = Some p"
  by (auto simp: set_local_auth_state_def js_map_store.get_put Let_def
      split: if_splits list.splits dest: js_map_store.get_del_SomeD)

text \<open>What a lookup can answer, and what it leaves in the tiers.\<close>

lemma get_user_auth_state_cases:
  assumes "get_user_auth_state rio wio now now' u c w = (r, w')"
  obtains (redis) s e where "aw_redis w (auth_cache_key c u) = Some (s, e)" "now \<le> e" "r = Inr s" "w' = w"
    | (local) s e where "map_of (aw_local w) (auth_cache_key c u) = Some (s, e)" "now < e" "r = Inr s"
        "aw_db w' = aw_db w" "aw_redis w' = aw_redis w"
        "\<And>k p. map_of (aw_local w') k = Some p \<Longrightarrow> map_of (aw_local w) k = Some p"
    | (invalid) "\<not> list_all ident_part c" "r = Inl (RawError (InvalidTenantSchema (tenant_schema c)))"
        "aw_db w' = aw_db w" "aw_redis w' = aw_redis w"
        "\<And>k p. map_of (aw_local w') k = Some p \<Longrightarrow> map_of (aw_local w) k = Some p"
    | (database) s where "list_all ident_part c" "s = compute_auth_state (aw_db w (tenant_schema c)) u" "r = Inr s"
        "aw_db w' = aw_db w" "aw_redis w' = redis_write wio now' (auth_cache_key c u) s REDIS_TTL_MS (aw_redis w)"
        "\<And>k p. map_of (aw_local w') k = Some p \<Longrightarrow>
          (k = auth_cache_key c u \<and> p = (s, now' + LOCAL_CACHE_TTL_MS)) \<or> map_of (aw_local w) k = Some p"
proof (cases "redis_read rio now (auth_cache_key c u) (aw_redis w)")
  case (Some s)
  then obtain e where e: "aw_redis w (auth_cache_key c u) = Some (s, e)" "now \<le> e"
    by (auto dest: redis_read_SomeD)
  from assms Some have "r = Inr s" "w' = w" by (simp_all add: get_user_auth_state_def)
  with e show ?thesis by (rule redis)
next
  case None
  obtain l m where g: "get_local_auth_state now (auth_cache_key c u) (aw_local w) = (l, m)" by fastforce
  then have m: "map_of (aw_local w) k = Some p" if "map_of m k = Some p" for k p
    using that by (metis get_local_SomeD snd_conv)
  show ?thesis
  proof (cases l)
    case (Some s)
    with g obtain e where "map_of (aw_local w) (auth_cache_key c u) = Some (s, e)" "now < e"
      by (auto simp: get_local_auth_state_def split: option.splits if_splits)
    moreover from assms None Some g have "r = Inr s" "w' = w\<lparr>aw_local := m\<rparr>"
      by (simp_all add: get_user_auth_state_def)
    ultimately show ?thesis using m by (intro local) simp_all
  next
    case None': None
    show ?thesis
    proof (cases "list_all ident_part c")
      case True
      let ?s = "compute_auth_state (aw_db w (tenant_schema c)) u"
      from assms None None' g True have "r = Inr ?s"
        and "w' = w\<lparr>aw_redis := redis_write wio now' (auth_cache_key c u) ?s REDIS_TTL_MS (aw_redis w),
               aw_local := set_local_auth_state now' (auth_cache_key c u) ?s m\<rparr>"
        by (auto simp: get_user_auth_state_def Let_def valid_tenant_schema)
      with True m show ?thesis by (intro database) (auto dest!: set_local_SomeD)
    next
      case False
      with assms None None' g
      have "r = Inl (RawError (InvalidTenantSchema (tenant_schema c)))" "w' = w\<lparr>aw_local := m\<rparr>"
        by (auto simp: get_user_auth_state_def Let_def valid_tenant_schema)
      with False m show ?thesis by (intro invalid) simp_all
    qed
  qed
qed

lemma stale_bounded_get:
  assumes "stale_bounded T w"
  shows "stale_bounded T (snd (get_user_auth_state rio wio now now' u c w))"
proof -
  obtain r w' where g: "get_user_auth_state rio wio now now' u c w = (r, w')" by fastforce
  from g have "stale_bounded T w'"
  proof (cases rule: get_user_auth_state_cases)
    case redis
    with assms show ?thesis by simp
  next
    case local
    with assms show ?thesis unfolding stale_bounded_def by metis
  next
    case invalid
    with assms show ?thesis unfolding stale_bounded_def by metis
  next
    case (database s)
    have "e \<le> T + REDIS_TTL_MS \<or> s' = compute_auth_state (aw_db w' (tenant_schema c')) u'"
      if "list_all ident_part c'" "aw_redis w' (auth_cache_key c' u') = Some (s', e)" for c' u' s' e
      using that assms database auth_cache_key_inj [OF that(1) database(1)]
        redis_write_SomeD [of wio now' "auth_cache_key c u" s REDIS_TTL_MS "aw_redis w" "auth_cache_key c' u'" "(s', e)"]
      unfolding stale_bounded_def by (metis Pair_inject)
    moreover have "e \<le> T + LOCAL_CACHE_TTL_MS \<or> s' = compute_auth_state (aw_db w' (tenant_schema c')) u'"
      if "list_all ident_part c'" "map_of (aw_local w') (auth_cache_key c' u') = Some (s', e)" for c' u' s' e
      using that assms database auth_cache_key_inj [OF that(1) database(1)]
      unfolding stale_bounded_def by (metis Pair_inject)
    ultimately show ?thesis by (simp add: stale_bounded_def)
  qed
  with g show ?thesis by simp
qed

interpretation staleness: invariant_system auth_step "stale_bounded T" is_get for T
  by unfold_locales (case_tac c; simp add: stale_bounded_get)

lemma run_gets_db:
  "\<forall>c\<in>set cs. is_get c \<Longrightarrow> aw_db (foldl auth_step w cs) = aw_db w"
proof (induction cs arbitrary: w)
  case Nil
  then show ?case by simp
next
  case (Cons c cs)
  then obtain rio wio now now' u co where c: "c = GetState rio wio now now' u co"
    by (cases c) auto
  obtain r w' where g: "get_user_auth_state rio wio now now' u co w = (r, w')" by fastforce
  then have "aw_db w' = aw_db w" by (cases rule: get_user_auth_state_cases) simp_all
  with Cons g c show ?case by simp
qed

lemma compute_stamped:
  "find_one (\<lambda>u. u_id u = userId) (td_users db) = Some usr \<Longrightarrow>
   ca_tokensValidAfter (compute_auth_state (stamp_tokens_valid_after now userId db) userId) = Some now"
  by (simp add: compute_auth_state_def stamp_tokens_valid_after_def find_one_update_where Let_def)

text \<open>Immediately after a revocation everything cached for the user is older than the stamp's window.\<close>

lemma entries_dated_stale_bounded: "entries_dated T w \<Longrightarrow> stale_bounded T w"
  unfolding entries_dated_def stale_bounded_def by blast

lemma entries_dated_revoke:
  assumes "entries_dated T w" and "revoke_user_tokens dbOk wio now c u w = (r, w')"
  shows "entries_dated T w'"
  using assms unfolding entries_dated_def
  by (auto simp: revoke_user_tokens_def invalidate_user_permissions_def Let_def
      dest!: redis_drop_SomeD js_map_store.get_del_SomeD split: if_splits)

text \<open>A lookup after the window, or with nothing cached, answers from the database.\<close>

lemma get_state_fresh:
  assumes "stale_bounded T w" and "list_all ident_part c"
    and "now > T + REDIS_TTL_MS"
    and "get_user_auth_state rio wio now now' u c w = (r, w')"
  shows "r = Inr (compute_auth_state (aw_db w (tenant_schema c)) u)"
  using assms(4)
proof (cases rule: get_user_auth_state_cases)
  case (redis s e)
  with assms show ?thesis unfolding stale_bounded_def by force
next
  case (local s e)
  with assms(3) have "\<not> e \<le> T + LOCAL_CACHE_TTL_MS"
    by (simp add: REDIS_TTL_MS_def LOCAL_CACHE_TTL_MS_def)
  with assms local show ?thesis unfolding stale_bounded_def by metis
qed (use assms in auto)

lemma get_state_uncached:
  assumes "aw_redis w (auth_cache_key c u) = None" and "map_of (aw_local w) (auth_cache_key c u) = None"
    and "list_all ident_part c"
    and "get_user_auth_state rio wio now now' u c w = (r, w')"
  shows "r = Inr (compute_auth_state (aw_db w (tenant_schema c)) u)"
  using assms(4) by (cases rule: get_user_auth_state_cases) (use assms in auto)

lemma revoke_Inr:
  assumes "revoke_user_tokens dbOk wio now c u w = (Inr x, w')"
  shows "list_all ident_part c"
    and "aw_db w' (tenant_schema c) = stamp_tokens_valid_after now u (aw_db w (tenant_schema c))"
    and "map_of (aw_local w') (auth_cache_key c u) = None"
    and "takes_effect wio \<Longrightarrow> aw_redis w' (auth_cache_key c u) = None"
  using assms
  by (auto simp: revoke_user_tokens_def invalidate_user_permissions_def Let_def valid_tenant_schema
      redis_drop_def redis_store.get_del_same js_map_store.get_del_same split: if_splits)

subsection \<open>Properties\<close>

text \<open>
  The per-process cache never outgrows its cap: after any sequence of lookups, revocations and password
  changes, with any cache failures, it holds at most \<open>LOCAL_CACHE_MAX_ENTRIES\<close> entries, one per key.
\<close>

lemma local_cache_bounded:
  assumes "aw_local w = []"
  shows "length (aw_local (foldl auth_step w cmds)) \<le> LOCAL_CACHE_MAX_ENTRIES \<and>
    distinct (map fst (aw_local (foldl auth_step w cmds)))"
proof -
  from assms have "local_ok (aw_local w)" by (simp add: local_ok_def)
  then have "local_ok (aw_local (foldl auth_step w cmds))" by (rule local_tier.run_inv) simp
  then show ?thesis by (simp add: local_ok_def)
qed

text \<open>
  Bounded staleness: let every cache entry expire within its lifetime from \<open>T\<close>. After a revocation at
  \<open>T\<close> whose Redis delete may have been lost, and any number of lookups for any users with any cache
  failures, a lookup later than \<open>T\<close> plus the Redis lifetime answers the database's state, stamp included.
\<close>

lemma revocation_visible_after_window:
  assumes "entries_dated T w"
    and "revoke_user_tokens True wio T c u w = (Inr (), w1)"
    and "find_one (\<lambda>usr. u_id usr = u) (td_users (aw_db w (tenant_schema c))) = Some usr"
    and "\<forall>cmd\<in>set gets. is_get cmd" and "now > T + REDIS_TTL_MS"
  shows "\<exists>s. fst (get_user_auth_state rio wio' now now' u c (foldl auth_step w1 gets)) = Inr s \<and>
    s = compute_auth_state (aw_db w1 (tenant_schema c)) u \<and> ca_tokensValidAfter s = Some T"
proof -
  have "stale_bounded T w1"
    using assms(1,2) by (intro entries_dated_stale_bounded) (rule entries_dated_revoke)
  then have sb: "stale_bounded T (foldl auth_step w1 gets)" using assms(4) by (rule staleness.run_inv)
  obtain r w' where g: "get_user_auth_state rio wio' now now' u c (foldl auth_step w1 gets) = (r, w')" by fastforce
  note rev = revoke_Inr [OF assms(2)]
  have "r = Inr (compute_auth_state (aw_db w1 (tenant_schema c)) u)"
    using get_state_fresh [OF sb rev(1) assms(5) g] by (simp add: run_gets_db [OF assms(4)])
  with g rev(2) compute_stamped [OF assms(3)] show ?thesis by simp
qed

text \<open>One tenant with one administrator, used by the witnesses.\<close>

definition sample_user :: user where
  "sample_user = \<lparr>u_id = ''u'', u_email = ''a@b'', u_passwordHash = ''h:old'', u_name = ''Ana'', u_companyId = ''c'',
     u_isActive = True, u_forcePasswordReset = True, u_tokensValidAfter = None\<rparr>"

definition sample_world :: auth_world where
  "sample_world = \<lparr>aw_db = (\<lambda>_. \<lparr>td_users = [sample_user],
       td_roles = \<lparr>roles = [], role_inheritance = [], user_roles = []\<rparr>\<rparr>),
     aw_redis = (\<lambda>_. None), aw_local = []\<rparr>"

lemma sample_revoked:
  "revoke_user_tokens True wio T ''c'' ''u'' sample_world =
     (Inr (), snd (revoke_user_tokens True wio T ''c'' ''u'' sample_world))"
  by (simp add: revoke_user_tokens_def Let_def valid_tenant_schema ident_part_def ident_start_def)

lemma sample_found:
  "find_one (\<lambda>usr. u_id usr = ''u'') (td_users (aw_db sample_world s)) = Some sample_user"
  by (simp add: sample_world_def sample_user_def find_one_def)

text \<open>
  Changing a password: the operation succeeds only for an active user whose current password verifies
  and whose new one differs; then exactly that user's row carries the new hash with the forced-reset flag
  cleared; on every error the whole world is untouched.
\<close>

lemma change_password_correct:
  "case change_password compare hash revokeOk wio now u c cur new w of
     (Inl e, w') \<Rightarrow> w' = w
   | (Inr _, w') \<Rightarrow>
       (\<exists>usr. find_one (\<lambda>x. u_id x = u \<and> u_isActive x) (td_users (aw_db w (tenant_schema c))) = Some usr \<and>
          compare cur (u_passwordHash usr) \<and> \<not> compare new (u_passwordHash usr)) \<and>
       td_users (aw_db w' (tenant_schema c)) =
         map (\<lambda>x. if u_id x = u
            then x\<lparr>u_passwordHash := hash new, u_forcePasswordReset := False,
                  u_tokensValidAfter := (if revokeOk then Some now else u_tokensValidAfter x)\<rparr>
            else x) (td_users (aw_db w (tenant_schema c)))"
proof -
  have compose: "update_where p g (update_where p f t) = map (\<lambda>x. if p x then g (f x) else x) t"
    if "\<And>x. p x \<Longrightarrow> p (f x)" for p :: "user \<Rightarrow> bool" and f g t
    using that by (simp add: update_where_def)
  show ?thesis
    by (auto simp: change_password_def change_password_tx_def revoke_user_tokens_def Let_def
        invalidate_user_permissions_def stamp_tokens_valid_after_def compose run_tx_def
        split: option.splits if_splits prod.splits sum.splits) (simp add: update_where_def)
qed

text \<open>
  Login cannot cross tenants: a successful validation names the company the subdomain resolves to, which
  is not suspended, and an active user of that company's own schema with a verified password, and reports
  exactly that user's effective permissions.
\<close>

lemma validate_user_sound:
  assumes "validate_user lookup compare email password sd w = Inr (Some r)"
  shows "\<exists>co. lookup sd = Some co \<and> co_status co \<noteq> SUSPENDED \<and> lr_companyId r = co_id co \<and>
    lr_user r \<in> set (td_users (aw_db w (tenant_schema (co_id co)))) \<and>
    u_isActive (lr_user r) \<and> u_email (lr_user r) = email \<and> u_companyId (lr_user r) = co_id co \<and>
    compare password (u_passwordHash (lr_user r)) \<and>
    set (lr_permissions r) = set (find_effective_permissions (td_roles (aw_db w (tenant_schema (co_id co)))) (u_id (lr_user r)))"
  using assms
  by (auto simp: validate_user_def Let_def find_effective_permissions_def
      split: option.splits if_splits dest!: find_one_Some)

end
