(* ===== verification/Guards.thy ===== *)
theory Guards
  imports AuthState
begin

text \<open>
  The guard chain of the API (\<open>app.module.ts\<close> registers \<open>JwtAuthGuard\<close>, \<open>PasswordResetGuard\<close> and
  \<open>PermissionsGuard\<close> as global guards in this order), the controller-level \<open>TenantParamScopeGuard\<close> and
  \<open>WebhookAuthGuard\<close>, and the middleware in front of the queue dashboard. A guard that answers false is
  turned by the framework into a 403 (\<open>ForbiddenResource\<close>). The JWT library is the parameter \<open>verify\<close>.
\<close>

subsection \<open>Route metadata\<close>

text \<open>What the decorators attach to a handler or to its class; an absent key is \<open>None\<close>.\<close>

record metadata =
  md_isPublic :: "bool option"
  md_noPermissionsRequired :: "bool option"
  md_requirePermissions :: "string list option"
  md_allowDuringPasswordReset :: "bool option"

type_synonym route = "metadata \<times> metadata"

definition get_all_and_override :: "(metadata \<Rightarrow> 'a option) \<Rightarrow> route \<Rightarrow> 'a option" where
  "get_all_and_override key targets =
     (case key (fst targets) of Some v \<Rightarrow> Some v | None \<Rightarrow> key (snd targets))"

definition flag :: "(metadata \<Rightarrow> bool option) \<Rightarrow> route \<Rightarrow> bool" where
  "flag key targets = (get_all_and_override key targets = Some True)"

text \<open>\<open>request.user\<close>: the payload spread with the fresh authorization state.\<close>

record request_user =
  ru_payload :: jwt_payload
  ru_permissions :: "string list"
  ru_forcePasswordReset :: bool

subsection \<open>JwtAuthGuard\<close>

text \<open>The comparison is made in whole seconds: \<open>Math.floor(tokensValidAfter / 1000)\<close>.\<close>

definition token_revoked :: "jwt_payload \<Rightarrow> cached_auth_state \<Rightarrow> bool" where
  "token_revoked payload s =
     (case ca_tokensValidAfter s of None \<Rightarrow> False | Some t \<Rightarrow> jp_iat payload < t div 1000)"

definition jwt_try ::
  "(string \<Rightarrow> jwt_payload option) \<Rightarrow> read_io \<Rightarrow> write_io \<Rightarrow> millis \<Rightarrow> millis \<Rightarrow> string \<Rightarrow> string option \<Rightarrow> auth_world
    \<Rightarrow> (auth_msg http_error + request_user) \<times> auth_world" where
  "jwt_try verify rio wio now now' token requestCompanyId w =
     (case verify_token verify token of
        Inl e \<Rightarrow> (Inl e, w)
      | Inr payload \<Rightarrow>
          if truthy_str requestCompanyId \<and> requestCompanyId \<noteq> Some (jp_companyId payload)
          then (Inl (Forbidden SessionOfOtherTenant), w)
          else (case get_user_auth_state rio wio now now' (jp_sub payload) (jp_companyId payload) w of
                  (Inl e, w') \<Rightarrow> (Inl e, w')
                | (Inr s, w') \<Rightarrow>
                    if token_revoked payload s then (Inl (Unauthorized TokenRevoked), w')
                    else (Inr \<lparr>ru_payload = payload, ru_permissions = ca_permissions s,
                               ru_forcePasswordReset = ca_forcePasswordReset s\<rparr>, w')))"

definition jwt_auth_guard ::
  "(string \<Rightarrow> jwt_payload option) \<Rightarrow> read_io \<Rightarrow> write_io \<Rightarrow> millis \<Rightarrow> millis \<Rightarrow> route \<Rightarrow> string option \<Rightarrow> string option
    \<Rightarrow> auth_world \<Rightarrow> (auth_msg http_error + request_user option) \<times> auth_world" where
  "jwt_auth_guard verify rio wio now now' route cookie requestCompanyId w =
     (if flag md_isPublic route then (Inr None, w)
      else if \<not> truthy_str cookie then (Inl (Unauthorized NoAuthenticationToken), w)
      else (case jwt_try verify rio wio now now' (the cookie) requestCompanyId w of
              (Inr u, w') \<Rightarrow> (Inr (Some u), w')
            | (Inl e, w') \<Rightarrow>
                (Inl (if is_http_exception e then e else Unauthorized TokenExpiredOrInvalid), w')))"

subsection \<open>PasswordResetGuard and PermissionsGuard\<close>

definition password_reset_guard :: "route \<Rightarrow> request_user option \<Rightarrow> auth_msg http_error + bool" where
  "password_reset_guard route user =
     (if flag md_allowDuringPasswordReset route then Inr True
      else case user of
        None \<Rightarrow> Inr True
      | Some u \<Rightarrow> if \<not> ru_forcePasswordReset u then Inr True else Inl (Forbidden PasswordChangeRequired))"

definition permissions_guard :: "route \<Rightarrow> request_user option \<Rightarrow> auth_msg http_error + bool" where
  "permissions_guard route user =
     (if flag md_isPublic route then Inr True
      else if flag md_noPermissionsRequired route then Inr True
      else case get_all_and_override md_requirePermissions route of
        Some requiredPermissions \<Rightarrow>
          (case user of
             None \<Rightarrow> Inr False
           | Some u \<Rightarrow> Inr (list_all (\<lambda>p. p \<in> set (ru_permissions u)) requiredPermissions))
      | None \<Rightarrow> Inl (Forbidden NoPermissionPolicy))"

subsection \<open>The chain\<close>

definition require_true :: "auth_msg http_error + bool \<Rightarrow> auth_msg http_error + unit" where
  "require_true r = (case r of Inl e \<Rightarrow> Inl e | Inr b \<Rightarrow> if b then Inr () else Inl (Forbidden ForbiddenResource))"

definition guard_chain ::
  "(string \<Rightarrow> jwt_payload option) \<Rightarrow> read_io \<Rightarrow> write_io \<Rightarrow> millis \<Rightarrow> millis \<Rightarrow> route \<Rightarrow> string option \<Rightarrow> string option
    \<Rightarrow> auth_world \<Rightarrow> (auth_msg http_error + request_user option) \<times> auth_world" where
  "guard_chain verify rio wio now now' route cookie requestCompanyId w =
     (case jwt_auth_guard verify rio wio now now' route cookie requestCompanyId w of
        (Inl e, w') \<Rightarrow> (Inl e, w')
      | (Inr user, w') \<Rightarrow>
          (case require_true (password_reset_guard route user) of
             Inl e \<Rightarrow> (Inl e, w')
           | Inr _ \<Rightarrow>
               (case require_true (permissions_guard route user) of
                  Inl e \<Rightarrow> (Inl e, w')
                | Inr _ \<Rightarrow> (Inr user, w'))))"

subsection \<open>TenantParamScopeGuard, WebhookAuthGuard\<close>

definition tenant_param_scope_guard :: "request_user option \<Rightarrow> string option \<Rightarrow> auth_msg http_error + bool" where
  "tenant_param_scope_guard user targetTenantId =
     (case user of
        None \<Rightarrow> Inl (Forbidden TenantNotManageable)
      | Some u \<Rightarrow>
          if jp_companyId (ru_payload u) \<noteq> [] \<and> targetTenantId = Some (jp_companyId (ru_payload u)) then Inr True
          else if MANAGE_TENANTS \<in> set (ru_permissions u) then Inr True
          else Inl (Forbidden TenantNotManageable))"

text \<open>\<open>timingSafeEqual\<close> is byte equality; the lengths are compared first.\<close>

definition safe_equal :: "string \<Rightarrow> string \<Rightarrow> bool" where
  "safe_equal a b = (if length a \<noteq> length b then False else a = b)"

definition webhook_auth_guard :: "string option \<Rightarrow> bool \<Rightarrow> string option \<Rightarrow> auth_msg http_error + bool" where
  "webhook_auth_guard secret isProduction provided =
     (if \<not> truthy_str secret
      then (if isProduction then Inl (Unauthorized WebhookNotConfigured) else Inr True)
      else case provided of
        None \<Rightarrow> Inl (Unauthorized InvalidWebhookSignature)
      | Some p \<Rightarrow> if safe_equal p (the secret) then Inr True else Inl (Unauthorized InvalidWebhookSignature))"

subsection \<open>QueueDashboardAuthMiddleware\<close>

datatype queue_response = Deny nat auth_msg | Proceed

definition AUTH_STATE_TIMEOUT_MS :: millis where
  "AUTH_STATE_TIMEOUT_MS = 5000"

text \<open>\<open>settles\<close> is the time the lookup takes, \<open>None\<close> when it never settles.\<close>

definition queue_with_timeout :: "millis option \<Rightarrow> auth_msg http_error + 'a \<Rightarrow> auth_msg http_error + 'a" where
  "queue_with_timeout settles r =
     (case settles of
        None \<Rightarrow> Inl (RawError AuthLookupTimedOut)
      | Some t \<Rightarrow> if t < AUTH_STATE_TIMEOUT_MS then r else Inl (RawError AuthLookupTimedOut))"

definition queue_dashboard_auth ::
  "(string \<Rightarrow> jwt_payload option) \<Rightarrow> read_io \<Rightarrow> write_io \<Rightarrow> millis \<Rightarrow> millis \<Rightarrow> millis option \<Rightarrow> string option \<Rightarrow> auth_world
    \<Rightarrow> queue_response \<times> auth_world" where
  "queue_dashboard_auth verify rio wio now now' settles cookie w =
     (if \<not> truthy_str cookie then (Deny 401 NoAuthenticationToken, w)
      else case verify_token verify (the cookie) of
        Inl e \<Rightarrow> (Deny 401 TokenExpiredOrInvalid, w)
      | Inr payload \<Rightarrow>
          (case get_user_auth_state rio wio now now' (jp_sub payload) (jp_companyId payload) w of
             (r, w') \<Rightarrow>
               (case queue_with_timeout settles r of
                  Inl e \<Rightarrow> (Deny 401 TokenExpiredOrInvalid, w')
                | Inr s \<Rightarrow>
                    if MANAGE_TENANTS \<notin> set (ca_permissions s) then (Deny 403 InsufficientPermissions, w')
                    else (Proceed, w'))))"

subsection \<open>What a decision implies\<close>

lemma jwt_try_Inr:
  assumes "jwt_try verify rio wio now now' t rc w = (Inr u, w')"
  obtains s where "verify t = Some (ru_payload u)"
    and "truthy_str rc \<longrightarrow> rc = Some (jp_companyId (ru_payload u))"
    and "get_user_auth_state rio wio now now' (jp_sub (ru_payload u)) (jp_companyId (ru_payload u)) w = (Inr s, w')"
    and "\<not> token_revoked (ru_payload u) s"
    and "ru_permissions u = ca_permissions s" and "ru_forcePasswordReset u = ca_forcePasswordReset s"
  using assms
  by (auto simp: jwt_try_def verify_token_def split: option.splits sum.splits prod.splits if_splits)

lemma guard_chain_Inr:
  assumes "guard_chain verify rio wio now now' route cookie rc w = (Inr uo, w')" and "\<not> flag md_isPublic route"
  obtains t u where "cookie = Some t" "uo = Some u" "jwt_try verify rio wio now now' t rc w = (Inr u, w')"
    "flag md_allowDuringPasswordReset route \<or> \<not> ru_forcePasswordReset u"
    "flag md_noPermissionsRequired route \<or>
      (\<exists>ps. get_all_and_override md_requirePermissions route = Some ps \<and> set ps \<subseteq> set (ru_permissions u))"
proof -
  from assms obtain t where t: "cookie = Some t" "t \<noteq> []"
    by (cases cookie) (auto simp: guard_chain_def jwt_auth_guard_def split: if_splits)
  obtain r w1 where j: "jwt_try verify rio wio now now' t rc w = (r, w1)" by fastforce
  from assms t j obtain u where u: "r = Inr u" "uo = Some u" "w1 = w'"
    by (cases r) (auto simp: guard_chain_def jwt_auth_guard_def split: sum.splits)
  from assms t j u have g: "require_true (password_reset_guard route (Some u)) = Inr ()"
      "require_true (permissions_guard route (Some u)) = Inr ()"
    by (auto simp: guard_chain_def jwt_auth_guard_def split: sum.splits)
  from g(1) have "flag md_allowDuringPasswordReset route \<or> \<not> ru_forcePasswordReset u"
    by (auto simp: require_true_def password_reset_guard_def split: if_splits)
  moreover from g(2) assms(2) have "flag md_noPermissionsRequired route \<or>
      (\<exists>ps. get_all_and_override md_requirePermissions route = Some ps \<and> set ps \<subseteq> set (ru_permissions u))"
    by (auto simp: require_true_def permissions_guard_def list_all_iff split: if_splits option.splits)
  ultimately show ?thesis using that t j u by simp
qed

lemma guard_chain_jwt_error:
  "\<not> flag md_isPublic route \<Longrightarrow> t \<noteq> [] \<Longrightarrow> jwt_try verify rio wio now now' t rc w = (Inl e, w') \<Longrightarrow>
   guard_chain verify rio wio now now' route (Some t) rc w =
     (Inl (if is_http_exception e then e else Unauthorized TokenExpiredOrInvalid), w')"
  by (simp add: guard_chain_def jwt_auth_guard_def)

text \<open>After a revocation, the state a request sees carries the stamp: at once when the cache delete took
  effect, or else once the window has passed.\<close>

lemma state_after_revocation:
  assumes "revoke_user_tokens True wio T c u w = (Inr (), w1)"
    and "find_one (\<lambda>usr. u_id usr = u) (td_users (aw_db w (tenant_schema c))) = Some usr"
    and "takes_effect wio \<or> entries_dated T w \<and> T + REDIS_TTL_MS < now"
  obtains w2 s where "get_user_auth_state rio wio' now now' u c w1 = (Inr s, w2)" "ca_tokensValidAfter s = Some T"
proof -
  obtain r w2 where g: "get_user_auth_state rio wio' now now' u c w1 = (r, w2)" by fastforce
  note rev = revoke_Inr [OF assms(1)]
  have "r = Inr (compute_auth_state (aw_db w1 (tenant_schema c)) u)"
    using assms(3)
  proof
    assume "takes_effect wio"
    from rev(4) [OF this] rev(3) rev(1) g show ?thesis by (rule get_state_uncached)
  next
    assume *: "entries_dated T w \<and> T + REDIS_TTL_MS < now"
    then have "stale_bounded T w1"
      using assms(1) by (intro entries_dated_stale_bounded) (blast intro: entries_dated_revoke)
    then show ?thesis using rev(1) * g by (intro get_state_fresh) auto
  qed
  with g rev(2) compute_stamped [OF assms(2)] that show ?thesis by simp
qed

text \<open>A bound on what a tenant's roles confer, kept by its cache entries, bounds what a lookup answers.\<close>

definition entries_within :: "string set \<Rightarrow> string \<Rightarrow> auth_world \<Rightarrow> bool" where
  "entries_within P k w \<longleftrightarrow>
     (\<forall>s e. aw_redis w k = Some (s, e) \<longrightarrow> set (ca_permissions s) \<subseteq> P) \<and>
     (\<forall>s e. map_of (aw_local w) k = Some (s, e) \<longrightarrow> set (ca_permissions s) \<subseteq> P)"

lemma confers_within:
  "\<forall>r\<in>set (roles db). set (nullish (r_permissions r) []) \<subseteq> P \<Longrightarrow> confers db rs \<subseteq> P"
  by (auto simp: confers_def)

lemma state_within:
  assumes "entries_within P (auth_cache_key c u) w"
    and "\<forall>r\<in>set (roles (td_roles (aw_db w (tenant_schema c)))). set (nullish (r_permissions r) []) \<subseteq> P"
    and "get_user_auth_state rio wio now now' u c w = (Inr s, w')"
  shows "set (ca_permissions s) \<subseteq> P"
  using assms(3)
proof (cases rule: get_user_auth_state_cases)
  case (database s')
  then show ?thesis
    using confers_within [OF assms(2)] by (simp add: compute_auth_state_def Let_def set_effective_permissions)
qed (use assms(1) in \<open>auto simp: entries_within_def\<close>)

subsection \<open>Properties\<close>

text \<open>
  C5. What reaches a handler: on a route that is not public the chain admits a request only with a verified
  token of the tenant the request was resolved to, whose user's current authorization state does not
  revoke it, outside a password hold unless the route allows it, and under a declared policy all of
  whose permissions that state grants. An undeclared route is never reached.
\<close>

theorem guard_chain_sound:
  assumes "guard_chain verify rio wio now now' route cookie rc w = (Inr uo, w')" and "\<not> flag md_isPublic route"
  shows "\<exists>t p s u. cookie = Some t \<and> verify t = Some p \<and> uo = Some u \<and> ru_payload u = p \<and>
    (truthy_str rc \<longrightarrow> rc = Some (jp_companyId p)) \<and>
    fst (get_user_auth_state rio wio now now' (jp_sub p) (jp_companyId p) w) = Inr s \<and>
    (\<forall>a. ca_tokensValidAfter s = Some a \<longrightarrow> a div 1000 \<le> jp_iat p) \<and>
    (ca_forcePasswordReset s \<longrightarrow> flag md_allowDuringPasswordReset route) \<and>
    (flag md_noPermissionsRequired route \<or>
      (\<exists>ps. get_all_and_override md_requirePermissions route = Some ps \<and> set ps \<subseteq> set (ca_permissions s)))"
proof -
  from assms obtain t u where c: "cookie = Some t" "uo = Some u"
      and j: "jwt_try verify rio wio now now' t rc w = (Inr u, w')"
      and r: "flag md_allowDuringPasswordReset route \<or> \<not> ru_forcePasswordReset u"
      and q: "flag md_noPermissionsRequired route \<or>
        (\<exists>ps. get_all_and_override md_requirePermissions route = Some ps \<and> set ps \<subseteq> set (ru_permissions u))"
    by (rule guard_chain_Inr)
  from j obtain s where "verify t = Some (ru_payload u)" "truthy_str rc \<longrightarrow> rc = Some (jp_companyId (ru_payload u))"
      "get_user_auth_state rio wio now now' (jp_sub (ru_payload u)) (jp_companyId (ru_payload u)) w = (Inr s, w')"
      "\<not> token_revoked (ru_payload u) s" "ru_permissions u = ca_permissions s"
      "ru_forcePasswordReset u = ca_forcePasswordReset s"
    by (rule jwt_try_Inr)
  with c r q show ?thesis by (auto simp: token_revoked_def intro!: exI [of _ s])
qed


definition sample_verify :: "string \<Rightarrow> jwt_payload option" where
  "sample_verify t = (if t = ''tok'' then Some \<lparr>jp_sub = ''u'', jp_companyId = ''c'', jp_roles = [], jp_iat = 3\<rparr> else None)"

definition sample_route :: "string list \<Rightarrow> route" where
  "sample_route ps =
     (\<lparr>md_isPublic = None, md_noPermissionsRequired = None, md_requirePermissions = Some ps, md_allowDuringPasswordReset = Some True\<rparr>,
      \<lparr>md_isPublic = None, md_noPermissionsRequired = None, md_requirePermissions = None, md_allowDuringPasswordReset = None\<rparr>)"

lemma sample_route_simps [simp]:
  "flag md_isPublic (sample_route ps) = False" "flag md_noPermissionsRequired (sample_route ps) = False"
  "flag md_allowDuringPasswordReset (sample_route ps) = True"
  "get_all_and_override md_requirePermissions (sample_route ps) = Some ps"
  by (simp_all add: flag_def get_all_and_override_def sample_route_def)

lemma sample_state:
  "get_user_auth_state ReadFails WriteLost 0 1 ''u'' ''c'' sample_world =
     (Inr (compute_auth_state (aw_db sample_world (tenant_schema ''c'')) ''u''),
      snd (get_user_auth_state ReadFails WriteLost 0 1 ''u'' ''c'' sample_world))"
  by (simp add: get_user_auth_state_def Let_def valid_tenant_schema ident_part_def ident_start_def
      get_local_auth_state_def redis_read_def sample_world_def)

lemma sample_chain:
  "fst (guard_chain sample_verify ReadFails WriteLost 0 1 (sample_route []) (Some ''tok'') (Some ''c'') sample_world) =
     Inr (Some \<lparr>ru_payload = \<lparr>jp_sub = ''u'', jp_companyId = ''c'', jp_roles = [], jp_iat = 3\<rparr>,
       ru_permissions = ca_permissions (compute_auth_state (aw_db sample_world (tenant_schema ''c'')) ''u''),
       ru_forcePasswordReset = True\<rparr>)"
  using sample_state sample_found [of "tenant_schema ''c''"]
  by (auto simp: guard_chain_def jwt_auth_guard_def jwt_try_def verify_token_def sample_verify_def token_revoked_def
      password_reset_guard_def permissions_guard_def require_true_def compute_auth_state_def Let_def sample_user_def
      split: prod.splits)

theorem guard_chain_sound_witness:
  "\<exists>s. fst (get_user_auth_state ReadFails WriteLost 0 1 ''u'' ''c'' sample_world) = Inr s \<and> ca_tokensValidAfter s = None"
proof -
  obtain w' where g: "guard_chain sample_verify ReadFails WriteLost 0 1 (sample_route []) (Some ''tok'') (Some ''c'') sample_world =
     (Inr (Some \<lparr>ru_payload = \<lparr>jp_sub = ''u'', jp_companyId = ''c'', jp_roles = [], jp_iat = 3\<rparr>,
       ru_permissions = ca_permissions (compute_auth_state (aw_db sample_world (tenant_schema ''c'')) ''u''),
       ru_forcePasswordReset = True\<rparr>), w')"
    using sample_chain by (metis prod.collapse)
  show ?thesis
    using guard_chain_sound [OF g] sample_found [of "tenant_schema ''c''"] arg_cong [OF sample_state, of fst]
    by (auto simp: compute_auth_state_def Let_def sample_user_def sample_verify_def)
qed


text \<open>
  Tenant administrators are confined: when no role of a tenant carries more than the tenant-level
  permission set (and the cache holds nothing beyond it for the session), a session of that tenant
  passes the tenant-parameter guard only for its own tenant, and the cross-tenant queue dashboard
  refuses it.
\<close>

lemma tenant_admin_confined:
  assumes "\<forall>r\<in>set (roles (td_roles (aw_db w (tenant_schema c)))). set (nullish (r_permissions r) []) \<subseteq> set tenant_super_admin_permissions"
    and "entries_within (set tenant_super_admin_permissions) (auth_cache_key c (jp_sub p)) w"
    and "verify t = Some p" and "jp_companyId p = c" and "\<not> flag md_isPublic route"
  shows "(guard_chain verify rio wio now now' route (Some t) rc w = (Inr uo, w') \<longrightarrow>
      tenant_param_scope_guard uo (Some tid) = Inr True \<longrightarrow> tid = c) \<and>
    fst (queue_dashboard_auth verify rio wio now now' settles (Some t) w) \<noteq> Proceed"
proof -
  have mt: "MANAGE_TENANTS \<notin> set tenant_super_admin_permissions"
    by (simp add: tenant_super_admin_permissions_def MANAGE_TENANTS_def)
  have "tid = c" if "guard_chain verify rio wio now now' route (Some t) rc w = (Inr uo, w')"
      and "tenant_param_scope_guard uo (Some tid) = Inr True"
  proof -
    from that(1) assms(5) obtain t' u where u: "Some t = Some t'" "uo = Some u" "jwt_try verify rio wio now now' t' rc w = (Inr u, w')"
      by (rule guard_chain_Inr)
    from u(3) obtain s where s: "verify t' = Some (ru_payload u)"
        "get_user_auth_state rio wio now now' (jp_sub (ru_payload u)) (jp_companyId (ru_payload u)) w = (Inr s, w')"
        "ru_permissions u = ca_permissions s"
      by (rule jwt_try_Inr)
    with u assms(3,4) have "ru_payload u = p" "get_user_auth_state rio wio now now' (jp_sub p) c w = (Inr s, w')" by auto
    from state_within [OF assms(2,1) this(2)] mt s(3) have "MANAGE_TENANTS \<notin> set (ru_permissions u)" by auto
    with that(2) assms(4) u(2) \<open>ru_payload u = p\<close> show ?thesis
      by (auto simp: tenant_param_scope_guard_def split: if_splits)
  qed
  moreover have "fst (queue_dashboard_auth verify rio wio now now' settles (Some t) w) \<noteq> Proceed"
    using state_within [OF assms(2,1)] mt assms(3,4)
    by (fastforce simp: queue_dashboard_auth_def verify_token_def queue_with_timeout_def
        split: sum.splits option.splits if_splits prod.splits)
  ultimately show ?thesis by blast
qed

text \<open>
  The dashboard reads only the permissions of the state: a token that the guard chain refuses as revoked
  still opens it.
\<close>

definition operator_world :: auth_world where
  "operator_world = \<lparr>aw_db = (\<lambda>_. \<lparr>td_users = [sample_user\<lparr>u_tokensValidAfter := Some 9000, u_isActive := False\<rparr>],
       td_roles = \<lparr>roles = [\<lparr>r_id = ''r'', r_name = [], r_description = None, r_isSystemDefault = True, r_permissions = Some [MANAGE_TENANTS]\<rparr>],
         role_inheritance = [], user_roles = [(''u'', ''r'')]\<rparr>\<rparr>),
     aw_redis = (\<lambda>_. None), aw_local = []\<rparr>"

lemma operator_state:
  "fst (get_user_auth_state ReadOk WriteDone 10000 10001 ''u'' ''c'' operator_world) =
     Inr \<lparr>ca_permissions = [MANAGE_TENANTS], ca_forcePasswordReset = True, ca_tokensValidAfter = Some 9000\<rparr>"
proof -
  obtain r w' where g: "get_user_auth_state ReadOk WriteDone 10000 10001 ''u'' ''c'' operator_world = (r, w')" by fastforce
  have "compute_auth_state (aw_db operator_world (tenant_schema ''c'')) ''u'' =
      \<lparr>ca_permissions = [MANAGE_TENANTS], ca_forcePasswordReset = True, ca_tokensValidAfter = Some 9000\<rparr>"
    unfolding operator_world_def by code_simp
  moreover have "r = Inr (compute_auth_state (aw_db operator_world (tenant_schema ''c'')) ''u'')"
    by (rule get_state_uncached [OF _ _ _ g]) (simp_all add: operator_world_def ident_part_def ident_start_def)
  ultimately show ?thesis using g by simp
qed

theorem queue_dashboard_ignores_revocation:
  "fst (guard_chain sample_verify ReadOk WriteDone 10000 10001 (sample_route []) (Some ''tok'') None operator_world) =
     Inl (Unauthorized TokenRevoked) \<and>
   fst (queue_dashboard_auth sample_verify ReadOk WriteDone 10000 10001 (Some 5) (Some ''tok'') operator_world) = Proceed"
proof -
  obtain w' where g: "get_user_auth_state ReadOk WriteDone 10000 10001 ''u'' ''c'' operator_world =
     (Inr \<lparr>ca_permissions = [MANAGE_TENANTS], ca_forcePasswordReset = True, ca_tokensValidAfter = Some 9000\<rparr>, w')"
    using operator_state by (metis prod.collapse)
  then show ?thesis
    by (simp add: queue_dashboard_auth_def verify_token_def sample_verify_def queue_with_timeout_def AUTH_STATE_TIMEOUT_MS_def
        guard_chain_def jwt_auth_guard_def jwt_try_def token_revoked_def)
qed

end
