(* ===== verification/Roles.thy ===== *)
theory Roles
  imports AuthState
begin

text \<open>
  \<open>RolesService\<close> (\<open>admin/roles/services/roles.service.ts\<close>) with \<open>RolesResolverService\<close>: role authoring and
  assignment bounded by what the actor holds, the write-time cycle guard, the frozen system default
  role, and the revocation of everybody a change affects. The constraints of the tables (migration
  0001: unique names, restricting and cascading foreign keys) are part of the statements' outcomes.
\<close>

datatype role_msg =
    CannotVerifyActor
  | CannotGrant "string list"
  | RoleNotFound uuid
  | CannotRenameSystemDefault
  | CannotAlterSystemDefaultPermissions
  | CannotAlterSystemDefaultInheritance
  | CannotInheritFromItself
  | InheritanceCycle
  | CannotDeleteSystemDefault
  | RoleInUse
  | SqlState string
  | NoTenantContext
  | AuthFailure auth_msg

record create_role_dto =
  cr_name :: string
  cr_description :: "string option"
  cr_permissions :: "string list option"
  cr_inheritedRoleIds :: "uuid list option"

record update_role_dto =
  ur_name :: "string option"
  ur_description :: "string option"
  ur_permissions :: "string list option"
  ur_inheritedRoleIds :: "uuid list option"

text \<open>The instants and outcomes of one cached lookup.\<close>

record cache_io =
  ci_read :: read_io
  ci_write :: write_io
  ci_now :: millis
  ci_later :: millis

type_synonym 'a role_op = "auth_world \<Rightarrow> (role_msg http_error + 'a) \<times> auth_world"

subsection \<open>Tenant transactions\<close>

definition in_tenant :: "string option \<Rightarrow> (tenant_db, role_msg http_error, 'a) tx \<Rightarrow> 'a role_op" where
  "in_tenant company body w =
     (case company of
        None \<Rightarrow> (Inl (RawError NoTenantContext), w)
      | Some c \<Rightarrow>
          if \<not> valid_schema (tenant_schema c)
          then (Inl (RawError (AuthFailure (InvalidTenantSchema (tenant_schema c)))), w)
          else (case run_tx body (aw_db w (tenant_schema c)) of
                  (Inl e, _) \<Rightarrow> (Inl e, w)
                | (Inr a, db) \<Rightarrow> (Inr a, w\<lparr>aw_db := (aw_db w)(tenant_schema c := db)\<rparr>)))"

definition get_effective_permissions_for_role_ids :: "string option \<Rightarrow> uuid list \<Rightarrow> string list role_op" where
  "get_effective_permissions_for_role_ids company roleIds w =
     (if roleIds = [] then (Inr [], w)
      else in_tenant company (\<lambda>db. Inr (find_effective_permissions_for_role_ids (td_roles db) roleIds, db)) w)"

definition get_flattened_permissions_for_user :: "string option \<Rightarrow> uuid \<Rightarrow> string list role_op" where
  "get_flattened_permissions_for_user company userId =
     in_tenant company (\<lambda>db. Inr (find_effective_permissions (td_roles db) userId, db))"

subsection \<open>The grant boundary\<close>

definition assert_can_grant :: "cache_io \<Rightarrow> string option \<Rightarrow> string option \<Rightarrow> string list \<Rightarrow> unit role_op" where
  "assert_can_grant io company actorUserId ps w =
     (if ps = [] then (Inr (), w)
      else if \<not> truthy_str company \<or> \<not> truthy_str actorUserId then (Inl (Forbidden CannotVerifyActor), w)
      else (case get_user_permissions (ci_read io) (ci_write io) (ci_now io) (ci_later io)
                   (the actorUserId) (the company) w of
              (Inl e, w') \<Rightarrow> (Inl (map_http_error AuthFailure e), w')
            | (Inr actorPermissions, w') \<Rightarrow>
                let notGrantable = filter (\<lambda>p. p \<notin> set actorPermissions) ps in
                if notGrantable \<noteq> [] then (Inl (Forbidden (CannotGrant notGrantable)), w')
                else (Inr (), w')))"

definition granted_permissions :: "string option \<Rightarrow> string list option \<Rightarrow> uuid list option \<Rightarrow> string list role_op" where
  "granted_permissions company direct inheritedRoleIds w =
     (case get_effective_permissions_for_role_ids company (nullish inheritedRoleIds []) w of
        (Inl e, w') \<Rightarrow> (Inl e, w')
      | (Inr inherited, w') \<Rightarrow> (Inr (js_unique (nullish direct [] @ inherited)), w'))"

text \<open>\<open>Promise.allSettled\<close>: every holder is revoked on its own, failures do not stop the others.\<close>

type_synonym revoke_io = "uuid \<Rightarrow> bool \<times> write_io \<times> millis"

definition invalidate_users :: "revoke_io \<Rightarrow> string option \<Rightarrow> uuid list \<Rightarrow> auth_world \<Rightarrow> auth_world" where
  "invalidate_users outcome company userIds w =
     (if \<not> truthy_str company \<or> userIds = [] then w
      else foldl (\<lambda>w u. case outcome u of (dbOk, wio, now) \<Rightarrow>
                    snd (revoke_user_tokens dbOk wio now (the company) u w)) w userIds)"

subsection \<open>Assignment\<close>

definition assign_roles_tx :: "uuid \<Rightarrow> uuid list \<Rightarrow> (tenant_db, role_msg http_error, unit) tx" where
  "assign_roles_tx targetUserId roleIds db =
     (let rs = td_roles db;
          kept = delete_where (\<lambda>(u, r). u = targetUserId) (user_roles rs)
      in if roleIds = [] then Inr ((), db\<lparr>td_roles := rs\<lparr>user_roles := kept\<rparr>\<rparr>)
         else if \<not> distinct roleIds then Inl (RawError (SqlState ''23505''))
         else if \<not> (set roleIds \<subseteq> r_id ` set (roles rs)) \<or> targetUserId \<notin> u_id ` set (td_users db)
         then Inl (RawError (SqlState ''23503''))
         else Inr ((), db\<lparr>td_roles := rs\<lparr>user_roles := kept @ map (\<lambda>r. (targetUserId, r)) roleIds\<rparr>\<rparr>))"

definition assign_roles_to_user ::
  "cache_io \<Rightarrow> revoke_io \<Rightarrow> string option \<Rightarrow> string option \<Rightarrow> uuid \<Rightarrow> uuid list \<Rightarrow> unit role_op" where
  "assign_roles_to_user io outcome company actorUserId targetUserId roleIds w =
     (case get_effective_permissions_for_role_ids company roleIds w of
        (Inl e, w1) \<Rightarrow> (Inl e, w1)
      | (Inr ps, w1) \<Rightarrow>
          (case assert_can_grant io company actorUserId ps w1 of
             (Inl e, w2) \<Rightarrow> (Inl e, w2)
           | (Inr _, w2) \<Rightarrow>
               (case in_tenant company (assign_roles_tx targetUserId roleIds) w2 of
                  (Inl e, w3) \<Rightarrow> (Inl e, w3)
                | (Inr _, w3) \<Rightarrow> (Inr (), invalidate_users outcome company [targetUserId] w3))))"

subsection \<open>Reading\<close>

text \<open>A role with its \<open>inheritedRoles\<close> relation.\<close>

definition inherited_roles :: "roles_db \<Rightarrow> uuid \<Rightarrow> role list" where
  "inherited_roles rs roleId = filter (\<lambda>r. (r_id r, roleId) \<in> set (role_inheritance rs)) (roles rs)"

definition find_all_roles :: "string option \<Rightarrow> (role \<times> role list) list role_op" where
  "find_all_roles company =
     in_tenant company (\<lambda>db. Inr (map (\<lambda>r. (r, inherited_roles (td_roles db) (r_id r))) (roles (td_roles db)), db))"

definition find_one_with :: "uuid \<Rightarrow> roles_db \<Rightarrow> role_msg http_error + role" where
  "find_one_with roleId rs =
     (case find_one (\<lambda>r. r_id r = roleId) (roles rs) of
        None \<Rightarrow> Inl (NotFound (RoleNotFound roleId))
      | Some r \<Rightarrow> Inr r)"

definition find_one_role :: "string option \<Rightarrow> uuid \<Rightarrow> (role \<times> role list) role_op" where
  "find_one_role company roleId =
     in_tenant company (\<lambda>db. case find_one_with roleId (td_roles db) of
       Inl e \<Rightarrow> Inl e
     | Inr r \<Rightarrow> Inr ((r, inherited_roles (td_roles db) roleId), db))"

subsection \<open>Authoring\<close>

text \<open>\<open>repo.findBy({ id: In(ids) })\<close>.\<close>

definition find_by_ids :: "uuid list \<Rightarrow> role list \<Rightarrow> role list" where
  "find_by_ids ids rs = find_all (\<lambda>r. r_id r \<in> set ids) rs"

definition create_role_tx :: "uuid \<Rightarrow> create_role_dto \<Rightarrow> (tenant_db, role_msg http_error, role) tx" where
  "create_role_tx newId dto db =
     (let rs = td_roles db;
          role = \<lparr>r_id = newId, r_name = cr_name dto, r_description = cr_description dto,
                  r_isSystemDefault = False, r_permissions = Some (nullish (cr_permissions dto) [])\<rparr>;
          parents = find_by_ids (nullish (cr_inheritedRoleIds dto) []) (roles rs)
      in if newId \<in> r_id ` set (roles rs) \<or> cr_name dto \<in> r_name ` set (roles rs)
         then Inl (RawError (SqlState ''23505''))
         else Inr (role, db\<lparr>td_roles := rs\<lparr>roles := roles rs @ [role],
                 role_inheritance := role_inheritance rs @ map (\<lambda>p. (r_id p, newId)) parents\<rparr>\<rparr>))"

definition create_role ::
  "cache_io \<Rightarrow> string option \<Rightarrow> uuid \<Rightarrow> create_role_dto \<Rightarrow> string option \<Rightarrow> role role_op" where
  "create_role io company newId dto actorUserId w =
     (case granted_permissions company (cr_permissions dto) (cr_inheritedRoleIds dto) w of
        (Inl e, w1) \<Rightarrow> (Inl e, w1)
      | (Inr ps, w1) \<Rightarrow>
          (case assert_can_grant io company actorUserId ps w1 of
             (Inl e, w2) \<Rightarrow> (Inl e, w2)
           | (Inr _, w2) \<Rightarrow> in_tenant company (create_role_tx newId dto) w2))"

text \<open>\<open>Object.assign(role, roleData)\<close>: an absent key leaves the column as it is.\<close>

definition assign_role_data :: "update_role_dto \<Rightarrow> role \<Rightarrow> role" where
  "assign_role_data dto r =
     r\<lparr>r_name := nullish (ur_name dto) (r_name r),
       r_description := (case ur_description dto of None \<Rightarrow> r_description r | Some d \<Rightarrow> Some d),
       r_permissions := (case ur_permissions dto of None \<Rightarrow> r_permissions r | Some ps \<Rightarrow> Some ps)\<rparr>"

definition system_default_guard :: "update_role_dto \<Rightarrow> role \<Rightarrow> role_msg http_error + unit" where
  "system_default_guard dto r =
     (if \<not> r_isSystemDefault r then Inr ()
      else if ur_name dto \<noteq> None then Inl (Conflict CannotRenameSystemDefault)
      else if ur_permissions dto \<noteq> None then Inl (Conflict CannotAlterSystemDefaultPermissions)
      else if ur_inheritedRoleIds dto \<noteq> None then Inl (Conflict CannotAlterSystemDefaultInheritance)
      else Inr ())"

definition inheritance_guard :: "roles_db \<Rightarrow> uuid \<Rightarrow> uuid list option \<Rightarrow> role_msg http_error + unit" where
  "inheritance_guard rs roleId inheritedRoleIds =
     (case inheritedRoleIds of
        None \<Rightarrow> Inr ()
      | Some ids \<Rightarrow>
          if roleId \<in> set ids then Inl (Conflict CannotInheritFromItself)
          else if role_set_inherits_role rs ids roleId then Inl (BadRequest InheritanceCycle)
          else Inr ())"

text \<open>Saving the relation: rows of parents no longer listed go, rows of new parents are added.\<close>

definition save_parents :: "uuid \<Rightarrow> uuid list \<Rightarrow> (uuid \<times> uuid) list \<Rightarrow> (uuid \<times> uuid) list" where
  "save_parents roleId parents inh =
     (let kept = delete_where (\<lambda>(p, c). c = roleId \<and> p \<notin> set parents) inh
      in kept @ map (\<lambda>p. (p, roleId)) (filter (\<lambda>p. (p, roleId) \<notin> set inh) parents))"

definition update_role_tx :: "uuid \<Rightarrow> update_role_dto \<Rightarrow> (tenant_db, role_msg http_error, role \<times> uuid list) tx" where
  "update_role_tx roleId dto db =
     (let rs = td_roles db in
      case find_one_with roleId rs of Inl e \<Rightarrow> Inl e | Inr role \<Rightarrow>
      (case system_default_guard dto role of Inl e \<Rightarrow> Inl e | Inr _ \<Rightarrow>
      (case inheritance_guard rs roleId (ur_inheritedRoleIds dto) of Inl e \<Rightarrow> Inl e | Inr _ \<Rightarrow>
       let role' = assign_role_data dto role;
           holderIds = find_dependent_role_holder_ids rs roleId;
           inh = (case ur_inheritedRoleIds dto of
                    None \<Rightarrow> role_inheritance rs
                  | Some ids \<Rightarrow> save_parents roleId (map r_id (find_by_ids ids (roles rs))) (role_inheritance rs))
       in if \<exists>r\<in>set (roles rs). r_id r \<noteq> roleId \<and> r_name r = r_name role'
          then Inl (RawError (SqlState ''23505''))
          else Inr ((role', holderIds),
                 db\<lparr>td_roles := rs\<lparr>roles := update_where (\<lambda>r. r_id r = roleId) (assign_role_data dto) (roles rs),
                                   role_inheritance := inh\<rparr>\<rparr>))))"

definition update_role ::
  "cache_io \<Rightarrow> revoke_io \<Rightarrow> string option \<Rightarrow> uuid \<Rightarrow> update_role_dto \<Rightarrow> string option \<Rightarrow> role role_op" where
  "update_role io outcome company roleId dto actorUserId w =
     (case granted_permissions company (ur_permissions dto) (ur_inheritedRoleIds dto) w of
        (Inl e, w1) \<Rightarrow> (Inl e, w1)
      | (Inr ps, w1) \<Rightarrow>
          (case assert_can_grant io company actorUserId ps w1 of
             (Inl e, w2) \<Rightarrow> (Inl e, w2)
           | (Inr _, w2) \<Rightarrow>
               (case in_tenant company (update_role_tx roleId dto) w2 of
                  (Inl e, w3) \<Rightarrow> (Inl e, w3)
                | (Inr (role, holderIds), w3) \<Rightarrow> (Inr role, invalidate_users outcome company holderIds w3))))"

definition remove_role_tx :: "uuid \<Rightarrow> (tenant_db, role_msg http_error, uuid list) tx" where
  "remove_role_tx roleId db =
     (let rs = td_roles db in
      case find_one_with roleId rs of Inl e \<Rightarrow> Inl e | Inr role \<Rightarrow>
      if r_isSystemDefault role then Inl (Conflict CannotDeleteSystemDefault)
      else
        let holderIds = find_dependent_role_holder_ids rs roleId in
        if roleId \<in> snd ` set (user_roles rs) \<or> roleId \<in> fst ` set (role_inheritance rs)
        then Inl (Conflict RoleInUse)
        else Inr (holderIds,
               db\<lparr>td_roles := rs\<lparr>roles := delete_where (\<lambda>r. r_id r = roleId) (roles rs),
                                 role_inheritance := delete_where (\<lambda>(p, c). c = roleId) (role_inheritance rs)\<rparr>\<rparr>))"

definition remove_role :: "revoke_io \<Rightarrow> string option \<Rightarrow> uuid \<Rightarrow> unit role_op" where
  "remove_role outcome company roleId w =
     (case in_tenant company (remove_role_tx roleId) w of
        (Inl e, w1) \<Rightarrow> (Inl e, w1)
      | (Inr holderIds, w1) \<Rightarrow> (Inr (), invalidate_users outcome company holderIds w1))"

subsection \<open>Well-formed role tables\<close>

text \<open>The constraints of the tables, and an acyclic hierarchy.\<close>

definition roles_wf :: "roles_db \<Rightarrow> bool" where
  "roles_wf rs \<longleftrightarrow> distinct (map r_id (roles rs)) \<and> distinct (map r_name (roles rs)) \<and>
     snd ` set (user_roles rs) \<subseteq> r_id ` set (roles rs) \<and>
     set (role_inheritance rs) \<subseteq> r_id ` set (roles rs) \<times> r_id ` set (roles rs) \<and>
     acyclic (set (up_edges rs))"

lemma set_up_edges: "set (up_edges rs) = {(c, p). (p, c) \<in> set (role_inheritance rs)}"
  by (force simp: up_edges_def)

lemma set_find_by_ids [table_simps]: "set (find_by_ids ids rs) = {r \<in> set rs. r_id r \<in> set ids}"
  by (simp add: find_by_ids_def table_simps)

lemma set_save_parents:
  "set (save_parents roleId parents inh) = {e \<in> set inh. snd e \<noteq> roleId} \<union> set parents \<times> {roleId}"
  by (auto simp: save_parents_def table_simps)

lemma up_edges_save_parents:
  "set (up_edges (rs\<lparr>role_inheritance := save_parents roleId parents (role_inheritance rs)\<rparr>)) =
     {e \<in> set (up_edges rs). fst e \<noteq> roleId} \<union> {roleId} \<times> set parents"
  by (auto simp: set_up_edges set_save_parents)

lemma find_one_with_Inr: "find_one_with i rs = Inr r \<Longrightarrow> r \<in> set (roles rs) \<and> r_id r = i"
  by (auto simp: find_one_with_def split: option.splits dest: find_one_Some)

lemma r_id_assign_role_data [simp]: "r_id (assign_role_data dto r) = r_id r"
  by (simp add: assign_role_data_def)

subsection \<open>What the four writes do to the tables\<close>

lemma assign_roles_tx_Inr:
  assumes "assign_roles_tx u ids db = Inr (x, db')"
  shows "td_roles db' = (td_roles db)\<lparr>user_roles := delete_where (\<lambda>(v, r). v = u) (user_roles (td_roles db)) @ map (\<lambda>r. (u, r)) ids\<rparr>"
    and "td_users db' = td_users db" and "set ids \<subseteq> r_id ` set (roles (td_roles db))"
  using assms by (auto simp: assign_roles_tx_def Let_def split: if_splits)

lemma create_role_tx_Inr:
  assumes "create_role_tx i dto db = Inr (r, db')"
  shows "td_roles db' = (td_roles db)\<lparr>roles := roles (td_roles db) @ [r],
      role_inheritance := role_inheritance (td_roles db) @
        map (\<lambda>p. (r_id p, i)) (find_by_ids (nullish (cr_inheritedRoleIds dto) []) (roles (td_roles db)))\<rparr>"
    and "td_users db' = td_users db" and "r_id r = i" and "\<not> r_isSystemDefault r"
    and "i \<notin> r_id ` set (roles (td_roles db))" and "r_name r \<notin> r_name ` set (roles (td_roles db))"
  using assms by (auto simp: create_role_tx_def Let_def split: if_splits)

lemma update_role_tx_Inr:
  assumes "update_role_tx i dto db = Inr ((r, hs), db')"
  obtains r0 where "r0 \<in> set (roles (td_roles db))" "r_id r0 = i" "r = assign_role_data dto r0"
    "system_default_guard dto r0 = Inr ()" "inheritance_guard (td_roles db) i (ur_inheritedRoleIds dto) = Inr ()"
    "hs = find_dependent_role_holder_ids (td_roles db) i" "td_users db' = td_users db"
    "\<forall>q\<in>set (roles (td_roles db)). r_id q \<noteq> i \<longrightarrow> r_name q \<noteq> r_name r"
    "td_roles db' = (td_roles db)\<lparr>roles := update_where (\<lambda>r. r_id r = i) (assign_role_data dto) (roles (td_roles db)),
       role_inheritance := (case ur_inheritedRoleIds dto of
                    None \<Rightarrow> role_inheritance (td_roles db)
                  | Some ids \<Rightarrow> save_parents i (map r_id (find_by_ids ids (roles (td_roles db)))) (role_inheritance (td_roles db)))\<rparr>"
proof -
  from assms obtain r0 where f: "find_one_with i (td_roles db) = Inr r0"
    by (cases "find_one_with i (td_roles db)") (simp_all add: update_role_tx_def)
  with assms find_one_with_Inr [OF f] show ?thesis
    by (intro that [of r0]) (auto simp: update_role_tx_def Let_def split: sum.splits if_splits)
qed

lemma remove_role_tx_Inr:
  assumes "remove_role_tx i db = Inr (hs, db')"
  obtains r0 where "r0 \<in> set (roles (td_roles db))" "r_id r0 = i" "\<not> r_isSystemDefault r0"
    "i \<notin> snd ` set (user_roles (td_roles db))" "i \<notin> fst ` set (role_inheritance (td_roles db))"
    "td_users db' = td_users db"
    "td_roles db' = (td_roles db)\<lparr>roles := delete_where (\<lambda>r. r_id r = i) (roles (td_roles db)),
       role_inheritance := delete_where (\<lambda>(p, c). c = i) (role_inheritance (td_roles db))\<rparr>"
  using assms
  by (auto simp: remove_role_tx_def Let_def split: sum.splits if_splits dest!: find_one_with_Inr)

lemma inheritance_guard_SomeD:
  "inheritance_guard rs i (Some ids) = Inr () \<Longrightarrow> i \<notin> set (recursive_union (up_edges rs) ids)"
  by (simp add: inheritance_guard_def role_set_inherits_role_iff split: if_splits)

subsection \<open>The tables stay well formed\<close>

lemma distinct_update_name:
  assumes "distinct (map r_id rs)" and "distinct (map r_name rs)"
    and "\<forall>q\<in>set rs. r_id q \<noteq> i \<longrightarrow> r_name q \<noteq> n"
    and "\<And>q. q \<in> set rs \<Longrightarrow> r_id q = i \<Longrightarrow> r_name (f q) = n"
  shows "distinct (map r_name (update_where (\<lambda>r. r_id r = i) f rs))"
proof -
  have "map r_name (update_where (\<lambda>r. r_id r = i) f rs) = map (\<lambda>r. if r_id r = i then n else r_name r) rs"
    using assms(4) by (simp add: update_where_def)
  moreover have "inj_on (\<lambda>r. if r_id r = i then n else r_name r) (set rs)"
  proof (rule inj_onI)
    fix x y assume xy: "x \<in> set rs" "y \<in> set rs" "(if r_id x = i then n else r_name x) = (if r_id y = i then n else r_name y)"
    show "x = y"
    proof (cases "r_id x = r_id y")
      case True
      with assms(1) xy(1,2) show ?thesis by (simp add: distinct_map inj_on_def)
    next
      case False
      with xy assms(3) have "r_name x = r_name y" by (metis (full_types))
      with assms(2) xy(1,2) show ?thesis by (simp add: distinct_map inj_on_def)
    qed
  qed
  ultimately show ?thesis using assms(1) by (simp add: distinct_map)
qed

lemma wf_assign:
  assumes "roles_wf (td_roles db)" and "assign_roles_tx u ids db = Inr (x, db')"
  shows "roles_wf (td_roles db')"
proof -
  note t = assign_roles_tx_Inr [OF assms(2)]
  have "snd ` set (user_roles (td_roles db')) \<subseteq> snd ` set (user_roles (td_roles db)) \<union> set ids"
    by (auto simp: t(1) table_simps)
  with assms(1) t(3) show ?thesis by (simp add: roles_wf_def t(1) up_edges_def) blast
qed

lemma wf_create:
  assumes "roles_wf (td_roles db)" and "create_role_tx i dto db = Inr (r, db')"
  shows "roles_wf (td_roles db')"
proof -
  note c = create_role_tx_Inr [OF assms(2)]
  let ?ps = "map r_id (find_by_ids (nullish (cr_inheritedRoleIds dto) []) (roles (td_roles db)))"
  have "set (up_edges (td_roles db)) \<subseteq> r_id ` set (roles (td_roles db)) \<times> r_id ` set (roles (td_roles db))"
    using assms(1) by (auto simp: roles_wf_def set_up_edges)
  then have "i \<notin> (set (up_edges (td_roles db)))\<^sup>* `` set ?ps"
    by (rule not_reached) (use c(5) in \<open>auto simp: table_simps\<close>)
  moreover from \<open>set (up_edges (td_roles db)) \<subseteq> _\<close>
  have "{e \<in> set (up_edges (td_roles db)). fst e \<noteq> i} = set (up_edges (td_roles db))"
    using c(5) by fastforce
  moreover note cte.guarded_write_acyclic [of "up_edges (td_roles db)" i ?ps] assms(1)
  ultimately have "acyclic (set (up_edges (td_roles db)) \<union> {i} \<times> set ?ps)"
    by (simp add: roles_wf_def cte.set_reach)
  moreover have "set (up_edges (td_roles db')) = set (up_edges (td_roles db)) \<union> {i} \<times> set ?ps"
    by (auto simp: c(1) set_up_edges)
  ultimately have ac: "acyclic (set (up_edges (td_roles db')))" by simp
  have inh: "set (role_inheritance (td_roles db')) \<subseteq> set (role_inheritance (td_roles db)) \<union> set ?ps \<times> {i}"
    and ids: "r_id ` set (roles (td_roles db')) = insert i (r_id ` set (roles (td_roles db)))"
    by (auto simp: c(1) c(3))
  have "set ?ps \<subseteq> r_id ` set (roles (td_roles db))" by (auto simp: table_simps)
  with inh assms(1) have "set (role_inheritance (td_roles db')) \<subseteq>
      insert i (r_id ` set (roles (td_roles db))) \<times> insert i (r_id ` set (roles (td_roles db)))"
    unfolding roles_wf_def by blast
  moreover have "distinct (map r_id (roles (td_roles db')))" "distinct (map r_name (roles (td_roles db')))"
    using assms(1) c(3,5,6) by (simp_all add: c(1) roles_wf_def)
  moreover have "snd ` set (user_roles (td_roles db')) \<subseteq> insert i (r_id ` set (roles (td_roles db)))"
    using assms(1) by (auto simp: c(1) roles_wf_def)
  ultimately show ?thesis using ac by (simp add: roles_wf_def ids)
qed

lemma wf_update:
  assumes "roles_wf (td_roles db)" and "update_role_tx i dto db = Inr ((r, hs), db')"
  shows "roles_wf (td_roles db')"
proof -
  from assms(2) obtain r0 where u: "r0 \<in> set (roles (td_roles db))" "r_id r0 = i" "r = assign_role_data dto r0"
    "inheritance_guard (td_roles db) i (ur_inheritedRoleIds dto) = Inr ()"
    "\<forall>q\<in>set (roles (td_roles db)). r_id q \<noteq> i \<longrightarrow> r_name q \<noteq> r_name r"
    "td_roles db' = (td_roles db)\<lparr>roles := update_where (\<lambda>r. r_id r = i) (assign_role_data dto) (roles (td_roles db)),
       role_inheritance := (case ur_inheritedRoleIds dto of
                    None \<Rightarrow> role_inheritance (td_roles db)
                  | Some ids \<Rightarrow> save_parents i (map r_id (find_by_ids ids (roles (td_roles db)))) (role_inheritance (td_roles db)))\<rparr>"
    by (rule update_role_tx_Inr)
  let ?rs = "roles (td_roles db)"
  have ids: "map r_id (update_where (\<lambda>r. r_id r = i) (assign_role_data dto) ?rs) = map r_id ?rs"
    by (rule map_update_where_key) simp
  then have idset: "r_id ` set (update_where (\<lambda>r. r_id r = i) (assign_role_data dto) ?rs) = r_id ` set ?rs"
    by (metis list.set_map)
  have "q = r0" if "q \<in> set ?rs" "r_id q = i" for q
    using that u(1,2) assms(1) by (auto simp: roles_wf_def distinct_map inj_on_def)
  then have names: "distinct (map r_name (update_where (\<lambda>r. r_id r = i) (assign_role_data dto) ?rs))"
    using assms(1) u(3,5) by (intro distinct_update_name) (auto simp: roles_wf_def)
  show ?thesis
  proof (cases "ur_inheritedRoleIds dto")
    case None
    with assms(1) u(6) ids idset names show ?thesis by (simp add: roles_wf_def set_up_edges)
  next
    case (Some ids')
    let ?ps = "map r_id (find_by_ids ids' ?rs)"
    from u(4) Some have "i \<notin> set (recursive_union (up_edges (td_roles db)) ids')"
      by (simp add: inheritance_guard_SomeD)
    then have "i \<notin> set (recursive_union (up_edges (td_roles db)) ?ps)"
      by (auto simp: cte.set_reach table_simps)
    from cte.guarded_write_acyclic [OF _ this] assms(1)
    have ac: "acyclic ({e \<in> set (up_edges (td_roles db)). fst e \<noteq> i} \<union> {i} \<times> set ?ps)"
      by (simp add: roles_wf_def)
    have "set (up_edges (td_roles db')) = {e \<in> set (up_edges (td_roles db)). fst e \<noteq> i} \<union> {i} \<times> set ?ps"
      using u(6) Some by (auto simp: set_up_edges set_save_parents)
    with ac assms(1) u(1,2,6) Some ids idset names show ?thesis
      by (auto simp: roles_wf_def set_save_parents table_simps)
  qed
qed

lemma wf_remove:
  assumes "roles_wf (td_roles db)" and "remove_role_tx i db = Inr (hs, db')"
  shows "roles_wf (td_roles db')"
proof -
  from assms(2) obtain r0 where u: "i \<notin> snd ` set (user_roles (td_roles db))" "i \<notin> fst ` set (role_inheritance (td_roles db))"
    "td_roles db' = (td_roles db)\<lparr>roles := delete_where (\<lambda>r. r_id r = i) (roles (td_roles db)),
       role_inheritance := delete_where (\<lambda>(p, c). c = i) (role_inheritance (td_roles db))\<rparr>"
    by (rule remove_role_tx_Inr)
  have "set (up_edges (td_roles db')) \<subseteq> set (up_edges (td_roles db))"
    by (auto simp: u(3) up_edges_def table_simps)
  with assms(1) have ac: "acyclic (set (up_edges (td_roles db')))"
    by (auto simp: roles_wf_def elim: acyclic_subset)
  have ids: "r_id ` set (roles (td_roles db')) = r_id ` set (roles (td_roles db)) - {i}"
    by (auto simp: u(3) table_simps)
  have ur: "snd ` set (user_roles (td_roles db')) \<subseteq> r_id ` set (roles (td_roles db)) - {i}"
    using assms(1) u(1) by (auto simp: u(3) roles_wf_def)
  have "set (role_inheritance (td_roles db')) = {e \<in> set (role_inheritance (td_roles db)). snd e \<noteq> i}"
    by (auto simp: u(3) table_simps)
  moreover have "fst e \<noteq> i" if "e \<in> set (role_inheritance (td_roles db))" for e
    using that u(2) by auto
  ultimately have sub: "set (role_inheritance (td_roles db')) \<subseteq> {e \<in> set (role_inheritance (td_roles db)). fst e \<noteq> i \<and> snd e \<noteq> i}"
    by blast
  have "set (role_inheritance (td_roles db)) \<subseteq> r_id ` set (roles (td_roles db)) \<times> r_id ` set (roles (td_roles db))"
    using assms(1) by (simp add: roles_wf_def)
  with sub have inh: "set (role_inheritance (td_roles db')) \<subseteq>
      (r_id ` set (roles (td_roles db)) - {i}) \<times> (r_id ` set (roles (td_roles db)) - {i})"
    by auto
  have "distinct (map r_id (roles (td_roles db')))" "distinct (map r_name (roles (td_roles db')))"
    using assms(1) by (simp_all add: u(3) roles_wf_def distinct_map_delete_where)
  with ac ur inh show ?thesis by (simp add: roles_wf_def ids)
qed

end
