(* ===== verification/RoleSafety.thy ===== *)
theory RoleSafety
  imports Guards Roles
begin

text \<open>
  What holds of a tenant's roles over any run of role operations and authorization lookups, with any cache
  and revocation failures: the interface \<open>role_invariant\<close> reduces an invariant of the service to its
  effect on the four table writes, and is interpreted for the table constraints with the acyclic
  hierarchy, for the frozen system default role and for permissions nobody holds.
\<close>

subsection \<open>Writes with what they grant\<close>

text \<open>\<open>role_write gs db db'\<close>: a committed write that passed the grant check for the permissions \<open>gs\<close>.\<close>

inductive role_write :: "string set \<Rightarrow> tenant_db \<Rightarrow> tenant_db \<Rightarrow> bool" where
  Assigned: "assign_roles_tx u ids db = Inr (x, db') \<Longrightarrow> role_write (confers (td_roles db) (set ids)) db db'"
| Created: "create_role_tx i cdto db = Inr (r, db') \<Longrightarrow> role_write gs db db'"
| Updated: "update_role_tx i udto db = Inr (y, db') \<Longrightarrow>
    role_write (set (nullish (ur_permissions udto) []) \<union> confers (td_roles db) (set (nullish (ur_inheritedRoleIds udto) []))) db db'"
| Removed: "remove_role_tx i db = Inr (hs, db') \<Longrightarrow> role_write gs db db'"

datatype role_cmd =
    CreateRole cache_io uuid create_role_dto "string option"
  | UpdateRole cache_io revoke_io uuid update_role_dto "string option"
  | RemoveRole revoke_io uuid
  | AssignRoles cache_io revoke_io "string option" uuid "uuid list"
  | Authorize cache_io uuid

fun role_step :: "uuid \<Rightarrow> auth_world \<Rightarrow> role_cmd \<Rightarrow> auth_world" where
  "role_step c w (CreateRole io i dto actor) = snd (create_role io (Some c) i dto actor w)"
| "role_step c w (UpdateRole io outcome i dto actor) = snd (update_role io outcome (Some c) i dto actor w)"
| "role_step c w (RemoveRole outcome i) = snd (remove_role outcome (Some c) i w)"
| "role_step c w (AssignRoles io outcome actor u ids) = snd (assign_roles_to_user io outcome (Some c) actor u ids w)"
| "role_step c w (Authorize io u) =
     snd (get_user_permissions (ci_read io) (ci_write io) (ci_now io) (ci_later io) u c w)"

lemma find_for_role_ids_confers [simp]:
  "set (find_effective_permissions_for_role_ids rs ids) = confers rs (set ids)"
  by (rule set_effective_permissions_for_role_ids)

lemma confers_empty [simp]: "confers rs {} = {}"
  by (simp add: confers_def)

lemma get_effective_Inr:
  "get_effective_permissions_for_role_ids (Some c) ids w = (Inr ps, w') \<Longrightarrow>
   w' = w \<and> set ps = confers (td_roles (aw_db w (tenant_schema c))) (set ids)"
  by (auto simp: get_effective_permissions_for_role_ids_def in_tenant_def run_tx_def split: if_splits)

lemma get_effective_Inl:
  "get_effective_permissions_for_role_ids company ids w = (Inl e, w') \<Longrightarrow> w' = w"
  by (auto simp: get_effective_permissions_for_role_ids_def in_tenant_def run_tx_def split: if_splits option.splits)

lemma granted_permissions_Inl: "granted_permissions company d ids w = (Inl e, w') \<Longrightarrow> w' = w"
  by (auto simp: granted_permissions_def split: prod.splits sum.splits dest: get_effective_Inl)

lemma granted_permissions_Inr:
  assumes "granted_permissions (Some c) d ids w = (Inr ps, w')"
  shows "w' = w \<and> set ps = set (nullish d []) \<union> confers (td_roles (aw_db w (tenant_schema c))) (set (nullish ids []))"
  using assms by (auto simp: granted_permissions_def split: prod.splits sum.splits dest!: get_effective_Inr)

lemma in_tenant_Inr:
  "in_tenant (Some c) body w = (Inr a, w') \<Longrightarrow>
   \<exists>db. body (aw_db w (tenant_schema c)) = Inr (a, db) \<and> w' = w\<lparr>aw_db := (aw_db w)(tenant_schema c := db)\<rparr>"
  by (auto simp: in_tenant_def run_tx_def split: if_splits sum.splits)

lemma in_tenant_Inl: "in_tenant company body w = (Inl e, w') \<Longrightarrow> w' = w"
  by (auto simp: in_tenant_def run_tx_def split: if_splits sum.splits option.splits)

lemma get_user_permissions_db:
  "aw_db (snd (get_user_permissions rio wio now now' u c w)) = aw_db w"
proof -
  obtain r w' where g: "get_user_auth_state rio wio now now' u c w = (r, w')" by fastforce
  then have "aw_db w' = aw_db w" by (cases rule: get_user_auth_state_cases) simp_all
  with g show ?thesis by (cases r) (simp_all add: get_user_permissions_def)
qed

subsection \<open>Invariants of the service\<close>

text \<open>\<open>J\<close> is kept when lookups, revocations and granted writes keep it; \<open>G\<close> bounds what lookups answer.\<close>

locale role_invariant =
  fixes c :: uuid and J :: "auth_world \<Rightarrow> bool" and G :: "string set"
  assumes lookup: "J w \<Longrightarrow> J (snd (get_user_permissions rio wio now now' u c w))"
    and bounded: "J w \<Longrightarrow> fst (get_user_permissions rio wio now now' u c w) = Inr ps \<Longrightarrow> set ps \<subseteq> G"
    and revoke: "J w \<Longrightarrow> J (snd (revoke_user_tokens dbOk wio now c u w))"
    and granted_write: "J w \<Longrightarrow> role_write gs (aw_db w (tenant_schema c)) db' \<Longrightarrow> gs \<subseteq> G \<Longrightarrow>
      J (w\<lparr>aw_db := (aw_db w)(tenant_schema c := db')\<rparr>)"
begin

lemma invalidate: "J w \<Longrightarrow> J (invalidate_users outcome (Some c) us w)"
proof -
  let ?f = "\<lambda>w u. case outcome u of (dbOk, wio, now) \<Rightarrow> snd (revoke_user_tokens dbOk wio now c u w)"
  have "J w \<Longrightarrow> J (foldl ?f w us)"
    by (induction us arbitrary: w) (simp_all add: revoke split: prod.splits)
  then show "J w \<Longrightarrow> J (invalidate_users outcome (Some c) us w)"
    by (simp add: invalidate_users_def)
qed

lemma checked:
  assumes "J w" and "assert_can_grant io (Some c) actor ps w = (r, w')"
  shows "J w' \<and> aw_db w' = aw_db w \<and> (r = Inr () \<longrightarrow> set ps \<subseteq> G)"
proof (cases "ps = [] \<or> \<not> truthy_str (Some c) \<or> \<not> truthy_str actor")
  case True
  with assms show ?thesis by (auto simp: assert_can_grant_def split: if_splits)
next
  case False
  obtain r' w1 where g: "get_user_permissions (ci_read io) (ci_write io) (ci_now io) (ci_later io) (the actor) c w = (r', w1)"
    by fastforce
  from lookup [OF assms(1)] g have "J w1" by (metis snd_conv)
  moreover from get_user_permissions_db g have "aw_db w1 = aw_db w" by (metis snd_conv)
  moreover have "set ps' \<subseteq> G" if "r' = Inr ps'" for ps'
    using bounded [OF assms(1)] g that by (metis fst_conv)
  ultimately show ?thesis
    using False assms(2) g by (auto simp: assert_can_grant_def Let_def filter_empty_conv split: sum.splits if_splits)
qed

lemma kept_by_write:
  assumes "J w" and "in_tenant (Some c) body w = (r, w')"
    and "\<And>a db'. body (aw_db w (tenant_schema c)) = Inr (a, db') \<Longrightarrow>
      role_write gs (aw_db w (tenant_schema c)) db'" and "gs \<subseteq> G"
  shows "J w'"
proof (cases r)
  case (Inl e)
  with assms show ?thesis using in_tenant_Inl by metis
next
  case (Inr a)
  with assms(2) in_tenant_Inr obtain db where "body (aw_db w (tenant_schema c)) = Inr (a, db)"
      "w' = w\<lparr>aw_db := (aw_db w)(tenant_schema c := db)\<rparr>" by metis
  with assms show ?thesis by (blast intro: granted_write)
qed

lemma assign_kept:
  assumes "J w" shows "J (snd (assign_roles_to_user io outcome (Some c) actor u ids w))"
proof -
  obtain r1 w1 where 1: "get_effective_permissions_for_role_ids (Some c) ids w = (r1, w1)" by fastforce
  show ?thesis
  proof (cases r1)
    case (Inl e)
    with 1 assms show ?thesis using get_effective_Inl by (fastforce simp: assign_roles_to_user_def)
  next
    case (Inr ps)
    with 1 have w1: "w1 = w" "set ps = confers (td_roles (aw_db w (tenant_schema c))) (set ids)"
      using get_effective_Inr by metis+
    obtain r2 w2 where 2: "assert_can_grant io (Some c) actor ps w = (r2, w2)" by fastforce
    note ch = checked [OF assms 2]
    show ?thesis
    proof (cases r2)
      case (Inl e)
      with 1 2 Inr w1 ch show ?thesis by (simp add: assign_roles_to_user_def)
    next
      case 3: (Inr x)
      obtain r3 w3 where w3: "in_tenant (Some c) (assign_roles_tx u ids) w2 = (r3, w3)" by fastforce
      have "J w3"
      proof (rule kept_by_write [OF _ w3])
        show "role_write (confers (td_roles (aw_db w2 (tenant_schema c))) (set ids)) (aw_db w2 (tenant_schema c)) db'"
          if "assign_roles_tx u ids (aw_db w2 (tenant_schema c)) = Inr (a, db')" for a db'
          using that by (rule Assigned)
      qed (use ch 3 w1 in auto)
      with 1 2 3 Inr w1 w3 show ?thesis
        by (cases r3) (simp_all add: assign_roles_to_user_def invalidate)
    qed
  qed
qed

lemma create_kept:
  assumes "J w" shows "J (snd (create_role io (Some c) i dto actor w))"
proof -
  obtain r1 w1 where 1: "granted_permissions (Some c) (cr_permissions dto) (cr_inheritedRoleIds dto) w = (r1, w1)" by fastforce
  show ?thesis
  proof (cases r1)
    case (Inl e)
    with 1 assms show ?thesis using granted_permissions_Inl by (fastforce simp: create_role_def)
  next
    case (Inr ps)
    with 1 have w1: "w1 = w" using granted_permissions_Inr by metis
    obtain r2 w2 where 2: "assert_can_grant io (Some c) actor ps w = (r2, w2)" by fastforce
    note ch = checked [OF assms 2]
    obtain r3 w3 where w3: "in_tenant (Some c) (create_role_tx i dto) w2 = (r3, w3)" by fastforce
    have "J w3" using ch by (intro kept_by_write [OF _ w3, where gs = "{}"]) (auto intro: Created)
    with 1 2 Inr w1 w3 ch show ?thesis by (cases r2) (simp_all add: create_role_def)
  qed
qed

lemma update_kept:
  assumes "J w" shows "J (snd (update_role io outcome (Some c) i dto actor w))"
proof -
  obtain r1 w1 where 1: "granted_permissions (Some c) (ur_permissions dto) (ur_inheritedRoleIds dto) w = (r1, w1)" by fastforce
  show ?thesis
  proof (cases r1)
    case (Inl e)
    with 1 assms show ?thesis using granted_permissions_Inl by (fastforce simp: update_role_def)
  next
    case (Inr ps)
    let ?gs = "set (nullish (ur_permissions dto) []) \<union>
      confers (td_roles (aw_db w (tenant_schema c))) (set (nullish (ur_inheritedRoleIds dto) []))"
    from Inr 1 have w1: "w1 = w" "set ps = ?gs" using granted_permissions_Inr by metis+
    obtain r2 w2 where 2: "assert_can_grant io (Some c) actor ps w = (r2, w2)" by fastforce
    note ch = checked [OF assms 2]
    show ?thesis
    proof (cases r2)
      case (Inl e)
      with 1 2 Inr w1 ch show ?thesis by (simp add: update_role_def)
    next
      case 3: (Inr x)
      obtain r3 w3 where w3: "in_tenant (Some c) (update_role_tx i dto) w2 = (r3, w3)" by fastforce
      have "role_write ?gs (aw_db w2 (tenant_schema c)) db'"
        if "update_role_tx i dto (aw_db w2 (tenant_schema c)) = Inr (a, db')" for a db'
        using Updated [OF that] ch by simp
      then have "J w3" using ch 3 w1 by (intro kept_by_write [OF _ w3, where gs = ?gs]) auto
      with 1 2 3 Inr w1 w3 show ?thesis
        by (cases r3) (auto simp: update_role_def invalidate split: prod.splits)
    qed
  qed
qed

lemma remove_kept:
  assumes "J w" shows "J (snd (remove_role outcome (Some c) i w))"
proof -
  obtain r w1 where 1: "in_tenant (Some c) (remove_role_tx i) w = (r, w1)" by fastforce
  have "J w1" using assms by (intro kept_by_write [OF _ 1, where gs = "{}"]) (auto intro: Removed)
  with 1 show ?thesis by (cases r) (simp_all add: remove_role_def invalidate)
qed

lemma step_kept: "J w \<Longrightarrow> J (role_step c w cmd)"
  by (cases cmd) (simp_all add: assign_kept create_kept update_kept remove_kept lookup)

end

sublocale role_invariant \<subseteq> runs: invariant_system "role_step c" J "\<lambda>_. True"
  by unfold_locales (rule step_kept)

subsection \<open>Constraints and acyclicity\<close>

abbreviation tenant_roles :: "uuid \<Rightarrow> auth_world \<Rightarrow> roles_db" where
  "tenant_roles c w \<equiv> td_roles (aw_db w (tenant_schema c))"

lemma revoke_roles: "td_roles (aw_db (snd (revoke_user_tokens dbOk wio now c u w)) s) = td_roles (aw_db w s)"
  by (simp add: revoke_user_tokens_def invalidate_user_permissions_def stamp_tokens_valid_after_def Let_def)

lemma wf_role_write:
  "role_write gs db db' \<Longrightarrow> roles_wf (td_roles db) \<Longrightarrow> roles_wf (td_roles db')"
  by (induction rule: role_write.induct) (auto intro: wf_assign wf_create wf_update wf_remove)

interpretation hierarchy: role_invariant c "\<lambda>w. roles_wf (tenant_roles c w)" UNIV for c
  by unfold_locales (simp_all add: get_user_permissions_db revoke_roles wf_role_write)

subsection \<open>The system default role\<close>

definition frozen_role :: "uuid \<Rightarrow> string \<Rightarrow> string list option \<Rightarrow> uuid set \<Rightarrow> roles_db \<Rightarrow> bool" where
  "frozen_role i n ps P rs \<longleftrightarrow>
     (\<exists>r\<in>set (roles rs). r_id r = i \<and> r_isSystemDefault r \<and> r_name r = n \<and> r_permissions r = ps) \<and>
     {p. (p, i) \<in> set (role_inheritance rs)} = P"

lemma wf_same_role:
  "roles_wf rs \<Longrightarrow> q \<in> set (roles rs) \<Longrightarrow> r \<in> set (roles rs) \<Longrightarrow> r_id q = r_id r \<Longrightarrow> q = r"
  by (auto simp: roles_wf_def distinct_map inj_on_def)

lemma frozen_update:
  assumes "roles_wf (td_roles db)" and "frozen_role i n ps P (td_roles db)"
    and "update_role_tx j dto db = Inr ((r, hs), db')"
  shows "frozen_role i n ps P (td_roles db')"
proof -
  from assms(3) obtain r0 where u: "r0 \<in> set (roles (td_roles db))" "r_id r0 = j"
    "system_default_guard dto r0 = Inr ()"
    "td_roles db' = (td_roles db)\<lparr>roles := update_where (\<lambda>r. r_id r = j) (assign_role_data dto) (roles (td_roles db)),
       role_inheritance := (case ur_inheritedRoleIds dto of
                    None \<Rightarrow> role_inheritance (td_roles db)
                  | Some ids \<Rightarrow> save_parents j (map r_id (find_by_ids ids (roles (td_roles db)))) (role_inheritance (td_roles db)))\<rparr>"
    by (rule update_role_tx_Inr)
  from assms(2) obtain q where q: "q \<in> set (roles (td_roles db))" "r_id q = i" "r_isSystemDefault q" "r_name q = n" "r_permissions q = ps"
    by (auto simp: frozen_role_def)
  show ?thesis
  proof (cases "j = i")
    case True
    with wf_same_role [OF assms(1) u(1) q(1)] u(2) q(2) have "r0 = q" by simp
    with u(3) q(3) have d: "ur_name dto = None" "ur_permissions dto = None" "ur_inheritedRoleIds dto = None"
      by (auto simp: system_default_guard_def split: if_splits)
    from q(1,2) True have "assign_role_data dto q \<in> set (roles (td_roles db'))"
      by (force simp: u(4) table_simps)
    moreover have "r_id (assign_role_data dto q) = i \<and> r_isSystemDefault (assign_role_data dto q) \<and>
        r_name (assign_role_data dto q) = n \<and> r_permissions (assign_role_data dto q) = ps"
      using d q by (simp add: assign_role_data_def)
    moreover have "{p. (p, i) \<in> set (role_inheritance (td_roles db'))} = P"
      using d(3) assms(2) by (simp add: u(4) frozen_role_def)
    ultimately show ?thesis unfolding frozen_role_def by blast
  next
    case False
    with q(1,2) have "q \<in> set (roles (td_roles db'))" by (force simp: u(4) table_simps)
    moreover have "{p. (p, i) \<in> set (role_inheritance (td_roles db'))} = P"
      using False assms(2) by (auto simp: u(4) frozen_role_def set_save_parents split: option.splits)
    ultimately show ?thesis using q by (auto simp: frozen_role_def)
  qed
qed

lemma frozen_remove:
  assumes "roles_wf (td_roles db)" and "frozen_role i n ps P (td_roles db)" and "remove_role_tx j db = Inr (hs, db')"
  shows "frozen_role i n ps P (td_roles db')"
proof -
  from assms(3) obtain r0 where u: "r0 \<in> set (roles (td_roles db))" "r_id r0 = j" "\<not> r_isSystemDefault r0"
    "td_roles db' = (td_roles db)\<lparr>roles := delete_where (\<lambda>r. r_id r = j) (roles (td_roles db)),
       role_inheritance := delete_where (\<lambda>(p, c). c = j) (role_inheritance (td_roles db))\<rparr>"
    by (rule remove_role_tx_Inr)
  from assms(2) obtain q where q: "q \<in> set (roles (td_roles db))" "r_id q = i" "r_isSystemDefault q" "r_name q = n" "r_permissions q = ps"
    by (auto simp: frozen_role_def)
  with wf_same_role [OF assms(1) u(1) q(1)] u(2,3) have "j \<noteq> i" by auto
  with q assms(2) show ?thesis by (auto simp: u(4) frozen_role_def table_simps)
qed

lemma frozen_role_write:
  assumes "role_write gs db db'" and "roles_wf (td_roles db)" and "frozen_role i n ps P (td_roles db)"
  shows "frozen_role i n ps P (td_roles db')"
  using assms(1)
proof cases
  case (Assigned u ids x)
  with assms(3) assign_roles_tx_Inr(1) [OF Assigned(2)] show ?thesis by (simp add: frozen_role_def)
next
  case (Created j cdto r)
  note c = create_role_tx_Inr [OF Created]
  from assms(3) c(5) have "i \<noteq> j" by (auto simp: frozen_role_def)
  with assms(3) show ?thesis by (auto simp: frozen_role_def c(1))
next
  case (Updated j udto y)
  with assms show ?thesis by (cases y) (auto intro: frozen_update)
next
  case (Removed j hs)
  with assms show ?thesis by (auto intro: frozen_remove)
qed

interpretation system_default:
  role_invariant c "\<lambda>w. roles_wf (tenant_roles c w) \<and> frozen_role i n ps P (tenant_roles c w)" UNIV for c i n ps P
  by unfold_locales (auto simp: get_user_permissions_db revoke_roles wf_role_write frozen_role_write)

subsection \<open>Permissions nobody holds\<close>

definition nobody_holds :: "string \<Rightarrow> roles_db \<Rightarrow> bool" where
  "nobody_holds p rs \<longleftrightarrow> (\<forall>u. p \<notin> confers rs {r. (u, r) \<in> set (user_roles rs)})"

lemma confers_user_roles [simp]: "confers (rs\<lparr>user_roles := x\<rparr>) ids = confers rs ids"
  by (simp add: confers_def up_edges_def)

lemma confersI:
  "r \<in> set (roles rs) \<Longrightarrow> r_id r \<in> (set (up_edges rs))\<^sup>* `` A \<Longrightarrow> p \<in> set (nullish (r_permissions r) []) \<Longrightarrow>
   p \<in> confers rs A"
  by (auto simp: confers_def)

lemma confers_mono: "A \<subseteq> B \<Longrightarrow> confers rs A \<subseteq> confers rs B"
  by (auto simp: confers_def)

lemma nobody_assign:
  assumes "nobody_holds p (td_roles db)" and "assign_roles_tx u ids db = Inr (x, db')"
    and "p \<notin> confers (td_roles db) (set ids)"
  shows "nobody_holds p (td_roles db')"
proof -
  have "{r. (v, r) \<in> set (user_roles (td_roles db'))} =
      (if v = u then set ids else {r. (v, r) \<in> set (user_roles (td_roles db))})" for v
    by (auto simp: assign_roles_tx_Inr(1) [OF assms(2)] table_simps)
  with assms(1,3) show ?thesis
    by (auto simp: nobody_holds_def assign_roles_tx_Inr(1) [OF assms(2)])
qed

lemma nobody_create:
  assumes "roles_wf (td_roles db)" and "nobody_holds p (td_roles db)" and "create_role_tx i dto db = Inr (r, db')"
  shows "nobody_holds p (td_roles db')"
proof -
  note c = create_role_tx_Inr [OF assms(3)]
  have wf: "set (user_roles (td_roles db)) \<subseteq> UNIV \<times> r_id ` set (roles (td_roles db))"
      "set (up_edges (td_roles db)) \<subseteq> UNIV \<times> r_id ` set (roles (td_roles db))"
    using assms(1) by (auto simp: roles_wf_def set_up_edges)
  have "confers (td_roles db') {q. (u, q) \<in> set (user_roles (td_roles db'))} \<subseteq>
      confers (td_roles db) {q. (u, q) \<in> set (user_roles (td_roles db))}" for u
  proof -
    let ?S = "direct_role_ids (td_roles db) u"
    have S: "set ?S = {q. (u, q) \<in> set (user_roles (td_roles db))}" by (simp add: set_direct_role_ids)
    have i: "i \<notin> set (recursive_union (up_edges (td_roles db)) ?S)"
      unfolding cte.set_reach by (rule not_reached [OF wf(2) _ c(5)]) (use wf(1) S in auto)
    have "{e \<in> set (up_edges (td_roles db)). fst e \<noteq> i} = {e \<in> set (up_edges (td_roles db')). fst e \<noteq> i}"
      by (auto simp: c(1) set_up_edges)
    from cte.reach_unaffected [OF this i]
    have eq: "(set (up_edges (td_roles db')))\<^sup>* `` set ?S = (set (up_edges (td_roles db)))\<^sup>* `` set ?S"
      by (simp add: cte.set_reach)
    moreover have "r_id r \<notin> (set (up_edges (td_roles db)))\<^sup>* `` set ?S" using i c(3) by (simp add: cte.set_reach)
    moreover have "user_roles (td_roles db') = user_roles (td_roles db)" by (simp add: c(1))
    ultimately show ?thesis unfolding confers_def S [symmetric] by (auto simp: c(1) S)
  qed
  with assms(2) show ?thesis unfolding nobody_holds_def by blast
qed

lemma confers_update:
  assumes "update_role_tx i dto db = Inr ((r, hs), db')"
  shows "confers (td_roles db') S \<subseteq> confers (td_roles db) S \<union> set (nullish (ur_permissions dto) []) \<union>
    confers (td_roles db) (set (nullish (ur_inheritedRoleIds dto) []))"
proof -
  let ?E = "up_edges (td_roles db)" and ?E' = "up_edges (td_roles db')"
  let ?ids = "nullish (ur_inheritedRoleIds dto) []"
  from assms obtain r0 where u:
    "td_roles db' = (td_roles db)\<lparr>roles := update_where (\<lambda>r. r_id r = i) (assign_role_data dto) (roles (td_roles db)),
       role_inheritance := (case ur_inheritedRoleIds dto of
                    None \<Rightarrow> role_inheritance (td_roles db)
                  | Some ids \<Rightarrow> save_parents i (map r_id (find_by_ids ids (roles (td_roles db)))) (role_inheritance (td_roles db)))\<rparr>"
    by (rule update_role_tx_Inr)
  have reach: "x \<in> (set ?E)\<^sup>* `` S \<or> x \<in> (set ?E)\<^sup>* `` set ?ids" if "x \<in> (set ?E')\<^sup>* `` S" for x
  proof (cases "ur_inheritedRoleIds dto")
    case None
    with that show ?thesis by (simp add: u up_edges_def)
  next
    case (Some ids)
    then have "set ?E' \<subseteq> {e \<in> set ?E. fst e \<noteq> i} \<union> {i} \<times> set ids"
      by (auto simp: u set_up_edges set_save_parents table_simps)
    moreover from that obtain s where "s \<in> S" "(s, x) \<in> (set ?E')\<^sup>*" by auto
    ultimately have "x \<in> set (recursive_union ?E [s]) \<union> set (recursive_union ?E ids)"
      using cte.write_reach_bound [of ?E' ?E i ids "[s]"] by (auto simp: cte.set_reach)
    with Some \<open>s \<in> S\<close> show ?thesis by (auto simp: cte.set_reach)
  qed
  have row: "set (nullish (r_permissions q) []) \<subseteq> set (nullish (ur_permissions dto) []) \<or>
      (\<exists>q0\<in>set (roles (td_roles db)). r_id q0 = r_id q \<and> r_permissions q0 = r_permissions q)"
    if "q \<in> set (roles (td_roles db'))" for q
    using that by (auto simp: u table_simps assign_role_data_def split: option.splits)
  show ?thesis
  proof
    fix p assume "p \<in> confers (td_roles db') S"
    then obtain q where q: "q \<in> set (roles (td_roles db'))" "r_id q \<in> (set ?E')\<^sup>* `` S" "p \<in> set (nullish (r_permissions q) [])"
      by (auto simp: confers_def)
    from row [OF q(1)]
    show "p \<in> confers (td_roles db) S \<union> set (nullish (ur_permissions dto) []) \<union> confers (td_roles db) (set ?ids)"
    proof
      assume "set (nullish (r_permissions q) []) \<subseteq> set (nullish (ur_permissions dto) [])"
      with q(3) show ?thesis by auto
    next
      assume "\<exists>q0\<in>set (roles (td_roles db)). r_id q0 = r_id q \<and> r_permissions q0 = r_permissions q"
      then obtain q0 where q0: "q0 \<in> set (roles (td_roles db))" "r_id q0 = r_id q" "p \<in> set (nullish (r_permissions q0) [])"
        using q(3) by auto
      from reach [OF q(2)] show ?thesis
      proof
        assume "r_id q \<in> (set ?E)\<^sup>* `` S"
        with q0 have "p \<in> confers (td_roles db) S" by (simp add: confersI)
        then show ?thesis by simp
      next
        assume "r_id q \<in> (set ?E)\<^sup>* `` set ?ids"
        with q0 have "p \<in> confers (td_roles db) (set ?ids)" by (simp add: confersI)
        then show ?thesis by simp
      qed
    qed
  qed
qed

lemma nobody_update:
  assumes "nobody_holds p (td_roles db)" and "update_role_tx i dto db = Inr ((r, hs), db')"
    and "p \<notin> set (nullish (ur_permissions dto) []) \<union> confers (td_roles db) (set (nullish (ur_inheritedRoleIds dto) []))"
  shows "nobody_holds p (td_roles db')"
proof -
  have "user_roles (td_roles db') = user_roles (td_roles db)"
    using assms(2) by (rule update_role_tx_Inr) simp
  with assms(1,3) confers_update [OF assms(2)] show ?thesis unfolding nobody_holds_def by fastforce
qed

lemma nobody_remove:
  assumes "nobody_holds p (td_roles db)" and "remove_role_tx i db = Inr (hs, db')"
  shows "nobody_holds p (td_roles db')"
proof -
  from assms(2) have u: "td_roles db' = (td_roles db)\<lparr>roles := delete_where (\<lambda>r. r_id r = i) (roles (td_roles db)),
       role_inheritance := delete_where (\<lambda>(p, c). c = i) (role_inheritance (td_roles db))\<rparr>"
    by (rule remove_role_tx_Inr)
  have "set (up_edges (td_roles db')) \<subseteq> set (up_edges (td_roles db))"
    by (auto simp: u set_up_edges table_simps)
  then have "(set (up_edges (td_roles db')))\<^sup>* `` S \<subseteq> (set (up_edges (td_roles db)))\<^sup>* `` S" for S
    by (intro Image_mono rtrancl_mono) auto
  moreover have "set (roles (td_roles db')) \<subseteq> set (roles (td_roles db))" by (auto simp: u table_simps)
  ultimately have "confers (td_roles db') S \<subseteq> confers (td_roles db) S" for S
    unfolding confers_def by blast
  moreover have "user_roles (td_roles db') = user_roles (td_roles db)" by (simp add: u)
  ultimately show ?thesis using assms(1) unfolding nobody_holds_def by auto
qed

lemma nobody_role_write:
  assumes "role_write gs db db'" and "roles_wf (td_roles db)" and "nobody_holds p (td_roles db)" and "gs \<subseteq> - {p}"
  shows "nobody_holds p (td_roles db')"
  using assms(1)
proof cases
  case (Assigned u ids x)
  with assms show ?thesis by (auto intro: nobody_assign)
next
  case (Created j cdto r)
  with assms show ?thesis by (auto intro: nobody_create)
next
  case (Updated j udto y)
  with assms show ?thesis by (cases y) (auto intro: nobody_update)
next
  case (Removed j hs)
  with assms show ?thesis by (auto intro: nobody_remove)
qed

text \<open>A permission that no user holds and no cached state shows.\<close>

definition unheld :: "string \<Rightarrow> uuid \<Rightarrow> auth_world \<Rightarrow> bool" where
  "unheld p c w \<longleftrightarrow> roles_wf (tenant_roles c w) \<and> nobody_holds p (tenant_roles c w) \<and>
     (\<forall>u. entries_within (- {p}) (auth_cache_key c u) w)"

lemma nobody_holds_state:
  "nobody_holds p (td_roles db) \<Longrightarrow> p \<notin> set (ca_permissions (compute_auth_state db u))"
  by (simp add: compute_auth_state_def Let_def set_effective_permissions nobody_holds_def)

lemma unheld_entry:
  "unheld p c w \<Longrightarrow> aw_redis w (auth_cache_key c u) = Some (s, e) \<Longrightarrow> p \<notin> set (ca_permissions s)"
  "unheld p c w \<Longrightarrow> map_of (aw_local w) (auth_cache_key c u) = Some (s, e) \<Longrightarrow> p \<notin> set (ca_permissions s)"
  unfolding unheld_def entries_within_def by blast+

lemma unheld_fewer_entries:
  assumes "unheld p c w" and "tenant_roles c w' = tenant_roles c w"
    and "\<And>k x. aw_redis w' k = Some x \<Longrightarrow> aw_redis w k = Some x"
    and "\<And>k x. map_of (aw_local w') k = Some x \<Longrightarrow> map_of (aw_local w) k = Some x"
  shows "unheld p c w'"
proof -
  have "entries_within (- {p}) k w'" if "entries_within (- {p}) k w" for k
    using that assms(3,4) unfolding entries_within_def by blast
  with assms(1,2) show ?thesis by (simp add: unheld_def)
qed

lemma unheld_lookup:
  assumes "unheld p c w" and "get_user_auth_state rio wio now now' u c w = (r, w')"
  shows "unheld p c w' \<and> (\<forall>s. r = Inr s \<longrightarrow> p \<notin> set (ca_permissions s))"
  using assms(2)
proof (cases rule: get_user_auth_state_cases)
  case (redis s e)
  with assms(1) show ?thesis by (auto dest: unheld_entry)
next
  case (local s e)
  with assms(1) have "unheld p c w'" by (intro unheld_fewer_entries [OF assms(1)]) auto
  with local assms(1) show ?thesis by (auto dest: unheld_entry)
next
  case invalid
  with assms(1) have "unheld p c w'" by (intro unheld_fewer_entries [OF assms(1)]) auto
  with invalid show ?thesis by simp
next
  case (database s)
  with assms(1) have s: "p \<notin> set (ca_permissions s)" by (simp add: unheld_def nobody_holds_state)
  have "entries_within (- {p}) (auth_cache_key c v) w'" for v
    unfolding entries_within_def
  proof (intro conjI allI impI)
    fix s' e
    assume "aw_redis w' (auth_cache_key c v) = Some (s', e)"
    with database(5) have "s' = s \<or> aw_redis w (auth_cache_key c v) = Some (s', e)"
      by (auto dest: redis_write_SomeD)
    with s assms(1) show "set (ca_permissions s') \<subseteq> - {p}" by (auto dest: unheld_entry)
  next
    fix s' e
    assume "map_of (aw_local w') (auth_cache_key c v) = Some (s', e)"
    from database(6) [OF this] have "s' = s \<or> map_of (aw_local w) (auth_cache_key c v) = Some (s', e)" by auto
    with s assms(1) show "set (ca_permissions s') \<subseteq> - {p}" by (auto dest: unheld_entry)
  qed
  with assms(1) database s show ?thesis by (simp add: unheld_def)
qed

lemma unheld_permissions:
  assumes "unheld p c w"
  shows "unheld p c (snd (get_user_permissions rio wio now now' u c w))"
    and "fst (get_user_permissions rio wio now now' u c w) = Inr ps \<Longrightarrow> set ps \<subseteq> - {p}"
proof -
  obtain r w' where g: "get_user_auth_state rio wio now now' u c w = (r, w')" by fastforce
  note l = unheld_lookup [OF assms g]
  from l g show "unheld p c (snd (get_user_permissions rio wio now now' u c w))"
    by (cases r) (simp_all add: get_user_permissions_def)
  from l g show "fst (get_user_permissions rio wio now now' u c w) = Inr ps \<Longrightarrow> set ps \<subseteq> - {p}"
    by (cases r) (auto simp: get_user_permissions_def)
qed

lemma revoke_entries:
  "aw_redis (snd (revoke_user_tokens dbOk wio now c u w)) k = Some x \<Longrightarrow> aw_redis w k = Some x"
  "map_of (aw_local (snd (revoke_user_tokens dbOk wio now c u w))) k = Some y \<Longrightarrow> map_of (aw_local w) k = Some y"
  by (auto simp: revoke_user_tokens_def invalidate_user_permissions_def Let_def
      dest!: redis_drop_SomeD js_map_store.get_del_SomeD split: if_splits)

lemma unheld_revoke: "unheld p c w \<Longrightarrow> unheld p c (snd (revoke_user_tokens dbOk wio now c u w))"
  by (erule unheld_fewer_entries) (auto simp: revoke_roles dest: revoke_entries)

interpretation minting: role_invariant c "unheld p c" "- {p}" for c p
proof unfold_locales
  fix w gs db'
  assume "unheld p c w" "role_write gs (aw_db w (tenant_schema c)) db'" "gs \<subseteq> - {p}"
  then show "unheld p c (w\<lparr>aw_db := (aw_db w)(tenant_schema c := db')\<rparr>)"
    by (auto simp: unheld_def entries_within_def wf_role_write nobody_role_write)
qed (auto simp: unheld_permissions unheld_revoke dest: unheld_permissions(2))

subsection \<open>Who is revoked\<close>

lemma invalidate_users_effect:
  assumes "valid_schema (tenant_schema c)" and "c \<noteq> []"
  shows "td_users (aw_db (invalidate_users outcome (Some c) us w) (tenant_schema c)) =
      map (\<lambda>x. if u_id x \<in> set us \<and> fst (outcome (u_id x))
        then x\<lparr>u_tokensValidAfter := Some (snd (snd (outcome (u_id x))))\<rparr> else x)
      (td_users (aw_db w (tenant_schema c)))"
    and "td_roles (aw_db (invalidate_users outcome (Some c) us w) (tenant_schema c)) = tenant_roles c w"
proof -
  let ?f = "\<lambda>w u. case outcome u of (dbOk, wio, now) \<Rightarrow> snd (revoke_user_tokens dbOk wio now c u w)"
  let ?g = "\<lambda>us x. if u_id x \<in> set us \<and> fst (outcome (u_id x))
        then x\<lparr>u_tokensValidAfter := Some (snd (snd (outcome (u_id x))))\<rparr> else x"
  have one: "td_users (aw_db (?f w u) (tenant_schema c)) = map (?g [u]) (td_users (aw_db w (tenant_schema c)))" for w u
  proof (cases "outcome u")
    case (fields dbOk wio now)
    with assms(1) show ?thesis
      by (auto simp: revoke_user_tokens_def invalidate_user_permissions_def stamp_tokens_valid_after_def
          update_where_def Let_def intro!: map_idI [symmetric])
  qed
  have "td_users (aw_db (foldl ?f w us) (tenant_schema c)) = map (?g us) (td_users (aw_db w (tenant_schema c)))"
  proof (induction us arbitrary: w)
    case Nil
    show ?case by simp
  next
    case (Cons u us)
    show ?case by (simp only: foldl_Cons Cons one map_map) auto
  qed
  then show "td_users (aw_db (invalidate_users outcome (Some c) us w) (tenant_schema c)) =
      map (?g us) (td_users (aw_db w (tenant_schema c)))"
    using assms(2) by (simp add: invalidate_users_def)
  have "td_roles (aw_db (foldl ?f w us) (tenant_schema c)) = tenant_roles c w"
    by (induction us arbitrary: w) (simp_all add: revoke_roles split: prod.splits)
  then show "td_roles (aw_db (invalidate_users outcome (Some c) us w) (tenant_schema c)) = tenant_roles c w"
    by (simp add: invalidate_users_def)
qed

lemma update_role_Inr:
  assumes "update_role io outcome (Some c) i dto actor w = (Inr r, w')"
  obtains hs db' w3 where "update_role_tx i dto (aw_db w (tenant_schema c)) = Inr ((r, hs), db')"
    "aw_db w3 (tenant_schema c) = db'" "valid_schema (tenant_schema c)" "w' = invalidate_users outcome (Some c) hs w3"
proof -
  from assms obtain ps w1 where 1: "granted_permissions (Some c) (ur_permissions dto) (ur_inheritedRoleIds dto) w = (Inr ps, w1)"
    by (auto simp: update_role_def split: prod.splits sum.splits)
  then have w1: "w1 = w" using granted_permissions_Inr by metis
  with assms 1 obtain w2 where 2: "assert_can_grant io (Some c) actor ps w = (Inr (), w2)"
    by (auto simp: update_role_def split: prod.splits sum.splits)
  have db: "aw_db w2 = aw_db w"
    using 2 get_user_permissions_db
    by (auto simp: assert_can_grant_def Let_def split: if_splits prod.splits sum.splits) (metis snd_conv)+
  from assms 1 2 w1 obtain hs w3 where 3: "in_tenant (Some c) (update_role_tx i dto) w2 = (Inr (r, hs), w3)"
      and w': "w' = invalidate_users outcome (Some c) hs w3"
    by (auto simp: update_role_def split: prod.splits sum.splits)
  from in_tenant_Inr [OF 3] obtain db' where "update_role_tx i dto (aw_db w (tenant_schema c)) = Inr ((r, hs), db')"
      "w3 = w2\<lparr>aw_db := (aw_db w2)(tenant_schema c := db')\<rparr>" by (auto simp: db)
  moreover from 3 have "valid_schema (tenant_schema c)" by (auto simp: in_tenant_def split: if_splits)
  ultimately show ?thesis using w' by (intro that [of hs db' w3]) simp_all
qed

subsection \<open>Properties\<close>

text \<open>
  C2. The hierarchy stays sound: from well-formed tables, any run of role operations and lookups keeps ids and
  names unique, every reference resolved and the inheritance graph acyclic.
\<close>

theorem role_tables_stay_wellformed:
  assumes "roles_wf (tenant_roles c w)"
  shows "roles_wf (tenant_roles c (foldl (role_step c) w cmds))"
  using assms by (rule hierarchy.runs.run_inv) simp

text \<open>
  C1. No privilege escalation: a permission that no user of a tenant effectively holds (and no cached state
  shows) is held by nobody after any run of role creations, edits, removals and assignments, whoever
  acts, whatever roles exist unassigned, and whatever cache operations fail.
\<close>

theorem no_privilege_minting:
  assumes "unheld p c w"
  shows "p \<notin> set (find_effective_permissions (tenant_roles c (foldl (role_step c) w cmds)) u)"
proof -
  from assms have "unheld p c (foldl (role_step c) w cmds)" by (rule minting.runs.run_inv) simp
  then show ?thesis by (simp add: unheld_def nobody_holds_def set_effective_permissions)
qed

text \<open>
  C3. No lock-out: a system default role keeps its name, its permissions, its parents and its flag through
  any run of role operations, and is never removed.
\<close>

theorem system_default_role_frozen:
  assumes "roles_wf (tenant_roles c w)" and "frozen_role i n ps P (tenant_roles c w)"
  shows "frozen_role i n ps P (tenant_roles c (foldl (role_step c) w cmds))"
  by (rule system_default.runs.run_inv [THEN conjunct2]) (simp_all add: assms)

text \<open>
  C4. An edit reaches everyone it affects: after a successful update, each user whose effective permissions
  differ from before has had the tokens revoked at the instant of that revocation, unless the database
  refused exactly that user's stamp.
\<close>

theorem role_update_reaches_holders:
  assumes "update_role io outcome (Some c) i dto actor w = (Inr r, w')" and "c \<noteq> []"
    and "set (find_effective_permissions (tenant_roles c w') u) \<noteq> set (find_effective_permissions (tenant_roles c w) u)"
    and "outcome u = (True, wio, t)"
    and "usr \<in> set (td_users (aw_db w' (tenant_schema c)))" and "u_id usr = u"
  shows "u_tokensValidAfter usr = Some t"
proof -
  from assms(1) obtain hs db' w3 where x: "update_role_tx i dto (aw_db w (tenant_schema c)) = Inr ((r, hs), db')"
    "aw_db w3 (tenant_schema c) = db'" "valid_schema (tenant_schema c)" "w' = invalidate_users outcome (Some c) hs w3"
    by (rule update_role_Inr)
  from x(1) obtain r0 :: role where hs: "hs = find_dependent_role_holder_ids (tenant_roles c w) i"
    and db': "td_roles db' = (tenant_roles c w)\<lparr>roles := update_where (\<lambda>r. r_id r = i) (assign_role_data dto) (roles (tenant_roles c w)),
       role_inheritance := (case ur_inheritedRoleIds dto of
                    None \<Rightarrow> role_inheritance (tenant_roles c w)
                  | Some ids \<Rightarrow> save_parents i (map r_id (find_by_ids ids (roles (tenant_roles c w)))) (role_inheritance (tenant_roles c w)))\<rparr>"
    by (rule update_role_tx_Inr)
  note eff = invalidate_users_effect [OF x(3) assms(2), of outcome hs w3]
  from assms(3) x(2,4) eff(2)
  have ne: "set (find_effective_permissions (td_roles db') u) \<noteq> set (find_effective_permissions (tenant_roles c w) u)"
    by simp
  have "u \<in> set (find_dependent_role_holder_ids (tenant_roles c w) i)"
    using _ _ _ ne
  proof (rule affected_is_dependent)
    show "{r \<in> set (roles (td_roles db')). r_id r \<noteq> i} = {r \<in> set (roles (tenant_roles c w)). r_id r \<noteq> i}"
      by (auto simp: db' table_simps)
    show "{e \<in> set (role_inheritance (td_roles db')). snd e \<noteq> i} = {e \<in> set (role_inheritance (tenant_roles c w)). snd e \<noteq> i}"
      by (auto simp: db' set_save_parents split: option.splits)
  qed (simp add: db')
  with assms(4-6) x(4) hs eff(1) show ?thesis by auto
qed

text \<open>A tenant with a system default role and an editor, its user and an outsider, for the witnesses.\<close>

definition sample_roles :: roles_db where
  "sample_roles = \<lparr>roles =
       [\<lparr>r_id = ''sa'', r_name = ''Super Admin'', r_description = None, r_isSystemDefault = True, r_permissions = Some [''MANAGE_ROLES'']\<rparr>,
        \<lparr>r_id = ''ed'', r_name = ''Editor'', r_description = None, r_isSystemDefault = False, r_permissions = Some [''VIEW_SYLLABUS'']\<rparr>],
     role_inheritance = [], user_roles = [(''u'', ''ed'')]\<rparr>"

definition sample_role_world :: auth_world where
  "sample_role_world = \<lparr>aw_db = (\<lambda>_. \<lparr>td_users = [sample_user], td_roles = sample_roles\<rparr>),
     aw_redis = (\<lambda>_. None), aw_local = []\<rparr>"

lemma sample_roles_wf: "roles_wf (tenant_roles c sample_role_world)"
  by (simp add: sample_role_world_def sample_roles_def roles_wf_def up_edges_def acyclic_def)

definition sample_io :: cache_io where
  "sample_io = \<lparr>ci_read = ReadFails, ci_write = WriteLost, ci_now = 0, ci_later = 1\<rparr>"

definition sample_update :: update_role_dto where
  "sample_update = \<lparr>ur_name = None, ur_description = None, ur_permissions = None, ur_inheritedRoleIds = Some [''sa'']\<rparr>"

theorem role_tables_stay_wellformed_witness:
  "roles_wf (tenant_roles ''c'' (foldl (role_step ''c'') sample_role_world
     [UpdateRole sample_io (\<lambda>_. (True, WriteDone, 5)) ''ed'' sample_update (Some ''u''), RemoveRole (\<lambda>_. (True, WriteDone, 5)) ''ed'']))"
  by (rule role_tables_stay_wellformed) (rule sample_roles_wf)

theorem no_privilege_minting_witness:
  "''MANAGE_ROLES'' \<notin> set (find_effective_permissions (tenant_roles ''c'' (foldl (role_step ''c'') sample_role_world
     [UpdateRole sample_io (\<lambda>_. (True, WriteDone, 5)) ''ed'' sample_update (Some ''u''),
      AssignRoles sample_io (\<lambda>_. (True, WriteDone, 5)) (Some ''u'') ''u'' [''sa'']])) ''u'')"
proof (rule no_privilege_minting)
  show "unheld ''MANAGE_ROLES'' ''c'' sample_role_world"
    using sample_roles_wf [of "''c''"]
    by (auto simp: unheld_def nobody_holds_def confers_def entries_within_def sample_role_world_def sample_roles_def up_edges_def)
qed

theorem system_default_role_frozen_witness:
  "frozen_role ''sa'' ''Super Admin'' (Some [''MANAGE_ROLES'']) {} (tenant_roles ''c'' (foldl (role_step ''c'') sample_role_world
     [UpdateRole sample_io (\<lambda>_. (True, WriteDone, 5)) ''sa'' sample_update (Some ''u''), RemoveRole (\<lambda>_. (True, WriteDone, 5)) ''sa'']))"
  by (rule system_default_role_frozen [OF sample_roles_wf])
    (simp add: frozen_role_def sample_role_world_def sample_roles_def)

definition sample_downgrade :: "(role_msg http_error + role) \<times> auth_world" where
  "sample_downgrade = update_role sample_io (\<lambda>_. (True, WriteDone, 5)) (Some ''c'') ''ed''
     \<lparr>ur_name = None, ur_description = None, ur_permissions = Some [], ur_inheritedRoleIds = None\<rparr> (Some ''u'') sample_role_world"

lemma sample_downgrade_facts:
  "fst sample_downgrade = Inr \<lparr>r_id = ''ed'', r_name = ''Editor'', r_description = None, r_isSystemDefault = False, r_permissions = Some []\<rparr>"
  "find_effective_permissions (tenant_roles ''c'' (snd sample_downgrade)) ''u'' = []"
  "find_effective_permissions (tenant_roles ''c'' sample_role_world) ''u'' = [''VIEW_SYLLABUS'']"
  "map u_id (td_users (aw_db (snd sample_downgrade) (tenant_schema ''c''))) = [''u'']"
  by code_simp+

theorem role_update_reaches_holders_witness:
  "\<exists>usr\<in>set (td_users (aw_db (snd sample_downgrade) (tenant_schema ''c''))). u_tokensValidAfter usr = Some 5"
proof -
  from sample_downgrade_facts(4) obtain usr
    where u: "usr \<in> set (td_users (aw_db (snd sample_downgrade) (tenant_schema ''c'')))" "u_id usr = ''u''"
    by (auto simp: map_eq_Cons_conv)
  have eq: "sample_downgrade = (Inr \<lparr>r_id = ''ed'', r_name = ''Editor'', r_description = None, r_isSystemDefault = False, r_permissions = Some []\<rparr>, snd sample_downgrade)"
    using sample_downgrade_facts(1) by (metis prod.collapse)
  have "u_tokensValidAfter usr = Some 5"
    by (rule role_update_reaches_holders [OF eq [unfolded sample_downgrade_def], where wio = WriteDone])
      (use sample_downgrade_facts u in \<open>simp_all flip: sample_downgrade_def\<close>)
  with u(1) show ?thesis by blast
qed

end
