(* ===== verification/TenantSchema.thy ===== *)
theory TenantSchema
  imports AuthState
begin

text \<open>
  The physical structure of a tenant schema (\<open>database/tenant-migrations/index.ts\<close>): the statements the migrations
  are made of, what each does to the catalog and to the rows, and the tables of \<open>0001_initial_tenant_schema\<close>. The
  users and the roles of a schema are those of \<open>AuthState\<close>; the rows of the other tables are maps from columns to
  cells.
\<close>

datatype table =
    T_users | T_roles | T_role_inheritance | T_user_roles | T_tenant_topic_visibility | T_cycles | T_cycle_weeks
  | T_cycle_material_templates | T_cycle_material_template_courses | T_pdf_design_templates | T_syllabus
  | T_syllabus_distribution | T_onboarding_progress | T_materials | T_material_requests | T_material_request_courses
  | T_material_review_questions | T_material_question_usage

datatype sql_type = UUID | VARCHAR nat | TEXT | BOOLEAN | INTEGER | BIGINT | JSONB | DATE | TIMESTAMPTZ | TIMESTAMP

datatype cell = Null | Num int | Txt string | Bool bool

text \<open>\<open>now()\<close> and \<open>gen_random_uuid()\<close> are evaluated by the server; no statement adds such a column to a table with rows.\<close>

datatype default = Now | Random_Uuid | Value cell

datatype column = Column (cl_name: string) (cl_type: sql_type) (cl_notNull: bool) (cl_default: "default option")

datatype reference = Own table | Shared string

datatype fk_action = Cascade | Restrict | Set_Null

text \<open>The first argument of the named constraints is their name, empty when the server generates it.\<close>

datatype constraint =
    Primary_Key "string list"
  | Unique string "string list"
  | Foreign_Key string string reference fk_action
  | Check string string

datatype key_part = Col string | Coalesce string string

datatype row_filter = Every | Where_True string | Where_Null string

record index =
  ix_name :: string
  ix_table :: table
  ix_unique :: bool
  ix_key :: "key_part list"
  ix_where :: row_filter

type_synonym row = "string \<Rightarrow> cell"

record schema =
  ts_tables :: "(table \<times> column list \<times> constraint list) list"
  ts_indexes :: "index list"
  ts_rows :: "table \<Rightarrow> row list"
  ts_db :: tenant_db
  ts_marker :: "string list option"

datatype ddl =
    Create_Table table "column list" "constraint list"
  | Create_Index bool string table "key_part list" row_filter
  | Drop_Index string
  | Add_Column table column
  | Drop_Column table string
  | Add_Constraint table constraint
  | Drop_Constraint table string
  | Restrict_Shared "(table \<times> string \<times> string) list"
  | Delete_All table
  | Keep_First table "key_part list" "string list"
  | Reconcile_System_Roles

datatype sql_error = Undefined_Table | Undefined_Column | Duplicate_Object | Unique_Violation | Not_Null_Violation
  | Foreign_Key_Violation | Check_Violation | Connection_Lost | Invalid_Schema

subsection \<open>Rows and keys\<close>

definition text_less :: "string \<Rightarrow> string \<Rightarrow> bool" where
  "text_less a b = ord_class.lexordp (map (of_char :: char \<Rightarrow> nat) a) (map of_char b)"

fun cell_less :: "cell \<Rightarrow> cell \<Rightarrow> bool" where
  "cell_less (Num a) (Num b) = (a < b)"
| "cell_less (Txt a) (Txt b) = text_less a b"
| "cell_less (Bool a) (Bool b) = (\<not> a \<and> b)"
| "cell_less x y = (x \<noteq> Null \<and> y = Null)"

text \<open>\<open>ORDER BY a ASC, b ASC\<close>: whether a row comes strictly before another; nulls come last.\<close>

fun row_less :: "string list \<Rightarrow> row \<Rightarrow> row \<Rightarrow> bool" where
  "row_less [] r s = False"
| "row_less (c # cs) r s = (cell_less (r c) (s c) \<or> (r c = s c \<and> row_less cs r s))"

fun key_value :: "row \<Rightarrow> key_part \<Rightarrow> cell" where
  "key_value r (Col c) = r c"
| "key_value r (Coalesce c d) = (if r c = Null then Txt d else r c)"

definition row_key :: "key_part list \<Rightarrow> row \<Rightarrow> cell list" where
  "row_key ks r = map (key_value r) ks"

fun selected :: "row_filter \<Rightarrow> row \<Rightarrow> bool" where
  "selected Every r = True"
| "selected (Where_True c) r = (r c = Bool True)"
| "selected (Where_Null c) r = (r c = Null)"

text \<open>The entries of a unique index: a null makes a key different from every other.\<close>

definition unique_rows :: "key_part list \<Rightarrow> row_filter \<Rightarrow> row list \<Rightarrow> bool" where
  "unique_rows ks p rows \<longleftrightarrow> distinct (filter (\<lambda>k. Null \<notin> set k) (map (row_key ks) (filter (selected p) rows)))"

text \<open>\<open>DELETE ... WHERE id NOT IN (SELECT DISTINCT ON (key) id ... ORDER BY key, order)\<close>.\<close>

definition keep_first :: "key_part list \<Rightarrow> string list \<Rightarrow> row list \<Rightarrow> row list" where
  "keep_first ks order rows = filter (\<lambda>r. \<not> list_ex (\<lambda>s. row_key ks s = row_key ks r \<and> row_less order s r) rows) rows"

subsection \<open>Statements\<close>

definition table_def :: "table \<Rightarrow> schema \<Rightarrow> (column list \<times> constraint list) option" where
  "table_def t s = map_of (ts_tables s) t"

definition has_table :: "table \<Rightarrow> schema \<Rightarrow> bool" where
  "has_table t s \<longleftrightarrow> table_def t s \<noteq> None"

definition columns_of :: "table \<Rightarrow> schema \<Rightarrow> string list" where
  "columns_of t s = (case table_def t s of None \<Rightarrow> [] | Some (cs, _) \<Rightarrow> map cl_name cs)"

definition rows_of :: "table \<Rightarrow> schema \<Rightarrow> row list" where
  "rows_of t s =
     (case t of
        T_users \<Rightarrow> map (\<lambda>u. (\<lambda>_. Null)(''id'' := Txt (u_id u))) (td_users (ts_db s))
      | T_roles \<Rightarrow> map (\<lambda>r. (\<lambda>_. Null)(''id'' := Txt (r_id r))) (roles (td_roles (ts_db s)))
      | _ \<Rightarrow> ts_rows s t)"

definition alter_table :: "table \<Rightarrow> (column list \<times> constraint list \<Rightarrow> column list \<times> constraint list) \<Rightarrow> schema \<Rightarrow> schema" where
  "alter_table t f s = s\<lparr>ts_tables := map (\<lambda>(u, d). (u, if u = t then f d else d)) (ts_tables s)\<rparr>"

definition set_rows :: "table \<Rightarrow> (row list \<Rightarrow> row list) \<Rightarrow> schema \<Rightarrow> schema" where
  "set_rows t f s = s\<lparr>ts_rows := (ts_rows s)(t := f (ts_rows s t))\<rparr>"

fun constraint_name :: "constraint \<Rightarrow> string" where
  "constraint_name (Primary_Key _) = []"
| "constraint_name (Unique n _) = n"
| "constraint_name (Foreign_Key n _ _ _) = n"
| "constraint_name (Check n _) = n"

fun constraint_columns :: "constraint \<Rightarrow> string list" where
  "constraint_columns (Primary_Key cs) = cs"
| "constraint_columns (Unique _ cs) = cs"
| "constraint_columns (Foreign_Key _ c _ _) = [c]"
| "constraint_columns (Check _ c) = [c]"

fun part_column :: "key_part \<Rightarrow> string" where
  "part_column (Col c) = c"
| "part_column (Coalesce c _) = c"

fun referenced_tables :: "constraint \<Rightarrow> table list" where
  "referenced_tables (Foreign_Key _ _ (Own t) _) = [t]"
| "referenced_tables _ = []"

text \<open>A constraint added to a table with rows is checked on them.\<close>

fun rows_satisfy :: "schema \<Rightarrow> table \<Rightarrow> constraint \<Rightarrow> sql_error + unit" where
  "rows_satisfy s t (Foreign_Key _ c (Own u) _) =
     (if list_all (\<lambda>r. r c = Null \<or> list_ex (\<lambda>q. q ''id'' = r c) (rows_of u s)) (rows_of t s) then Inr () else Inl Foreign_Key_Violation)"
| "rows_satisfy s t (Check _ c) = (if list_ex (\<lambda>r. r c = Bool False) (rows_of t s) then Inl Check_Violation else Inr ())"
| "rows_satisfy s t (Unique _ cs) = (if unique_rows (map Col cs) Every (rows_of t s) then Inr () else Inl Unique_Violation)"
| "rows_satisfy s t _ = Inr ()"

text \<open>The cascading reference of a column to a shared table, if there is one, becomes restricting.\<close>

fun restrict_first :: "string \<Rightarrow> string \<Rightarrow> constraint list \<Rightarrow> constraint list" where
  "restrict_first c u [] = []"
| "restrict_first c u (k # ks) =
     (case k of Foreign_Key n d (Shared v) Cascade \<Rightarrow>
          if d = c \<and> v = u then Foreign_Key n d (Shared v) Restrict # ks else k # restrict_first c u ks
      | _ \<Rightarrow> k # restrict_first c u ks)"

definition reconcile_system_roles :: "tenant_db \<Rightarrow> tenant_db" where
  "reconcile_system_roles db =
     db\<lparr>td_roles := (td_roles db)\<lparr>roles := update_where r_isSystemDefault (\<lambda>r. r\<lparr>r_permissions := Some tenant_super_admin_permissions\<rparr>)
       (roles (td_roles db))\<rparr>\<rparr>"

text \<open>An identifier longer than 63 bytes is cut by the server; so a second name with the same beginning is the same name.\<close>

definition pg_name :: "string \<Rightarrow> string" where
  "pg_name n = take 63 n"

fun exec :: "ddl \<Rightarrow> schema \<Rightarrow> sql_error + schema" where
  "exec (Create_Table t cs ks) s =
     (if has_table t s then Inr s
      else if list_all (\<lambda>u. u = t \<or> has_table u s) (concat (map referenced_tables ks))
      then Inr (s\<lparr>ts_tables := ts_tables s @ [(t, cs, ks)]\<rparr>) else Inl Undefined_Table)"
| "exec (Create_Index u n t key p) s =
     (if \<not> has_table t s then Inl Undefined_Table
      else if \<not> list_all (\<lambda>k. part_column k \<in> set (columns_of t s)) key then Inl Undefined_Column
      else if pg_name n \<in> set (map ix_name (ts_indexes s)) then Inr s
      else if u \<and> \<not> unique_rows key p (rows_of t s) then Inl Unique_Violation
      else Inr (s\<lparr>ts_indexes := ts_indexes s @ [\<lparr>ix_name = pg_name n, ix_table = t, ix_unique = u, ix_key = key, ix_where = p\<rparr>]\<rparr>))"
| "exec (Drop_Index n) s = Inr (s\<lparr>ts_indexes := filter (\<lambda>i. ix_name i \<noteq> pg_name n) (ts_indexes s)\<rparr>)"
| "exec (Add_Column t c) s =
     (if \<not> has_table t s then Inl Undefined_Table
      else if cl_name c \<in> set (columns_of t s) then Inr s
      else if cl_notNull c \<and> cl_default c = None \<and> rows_of t s \<noteq> [] then Inl Not_Null_Violation
      else Inr (set_rows t (map (\<lambda>r. r(cl_name c := (case cl_default c of Some (Value v) \<Rightarrow> v | _ \<Rightarrow> Null))))
        (alter_table t (\<lambda>(cs, ks). (cs @ [c], ks)) s)))"
| "exec (Drop_Column t n) s =
     (if \<not> has_table t s then Inl Undefined_Table
      else Inr (alter_table t (\<lambda>(cs, ks). (filter (\<lambda>c. cl_name c \<noteq> n) cs, filter (\<lambda>k. n \<notin> set (constraint_columns k)) ks)) s
        \<lparr>ts_indexes := filter (\<lambda>i. \<not> (ix_table i = t \<and> n \<in> set (map part_column (ix_key i)))) (ts_indexes s)\<rparr>))"
| "exec (Add_Constraint t k) s =
     (case table_def t s of
        None \<Rightarrow> Inl Undefined_Table
      | Some (cs, ks) \<Rightarrow>
          if constraint_name k \<in> set (map constraint_name ks) then Inl Duplicate_Object
          else if \<not> set (constraint_columns k) \<subseteq> set (map cl_name cs) then Inl Undefined_Column
          else if \<not> list_all (\<lambda>u. has_table u s) (referenced_tables k) then Inl Undefined_Table
          else (case rows_satisfy s t k of Inl e \<Rightarrow> Inl e | Inr _ \<Rightarrow> Inr (alter_table t (\<lambda>(cs, ks). (cs, ks @ [k])) s)))"
| "exec (Drop_Constraint t n) s =
     (if \<not> has_table t s then Inl Undefined_Table
      else Inr (alter_table t (\<lambda>(cs, ks). (cs, filter (\<lambda>k. constraint_name k \<noteq> n) ks)) s))"
| "exec (Restrict_Shared targets) s =
     Inr (fold (\<lambda>(t, c, u). alter_table t (\<lambda>(cs, ks). (cs, restrict_first c u ks))) targets s)"
| "exec (Delete_All t) s = (if has_table t s then Inr (set_rows t (\<lambda>_. []) s) else Inl Undefined_Table)"
| "exec (Keep_First t key order) s = (if has_table t s then Inr (set_rows t (keep_first key order) s) else Inl Undefined_Table)"
| "exec Reconcile_System_Roles s =
     (if has_table T_roles s then Inr (s\<lparr>ts_db := reconcile_system_roles (ts_db s)\<rparr>) else Inl Undefined_Table)"

fun exec_all :: "ddl list \<Rightarrow> schema \<Rightarrow> sql_error + schema" where
  "exec_all [] s = Inr s"
| "exec_all (d # ds) s = (case exec d s of Inl e \<Rightarrow> Inl e | Inr s' \<Rightarrow> exec_all ds s')"

subsection \<open>The tables of \<open>0001_initial_tenant_schema\<close>\<close>

definition users_columns :: "column list" where
  "users_columns =
     [Column ''id'' UUID True (Some Random_Uuid),
      Column ''email'' (VARCHAR 255) True None,
      Column ''password_hash'' (VARCHAR 255) True None,
      Column ''name'' (VARCHAR 255) True None,
      Column ''company_id'' UUID True None,
      Column ''is_active'' BOOLEAN True (Some (Value (Bool True))),
      Column ''created_at'' TIMESTAMPTZ True (Some Now),
      Column ''updated_at'' TIMESTAMPTZ True (Some Now)]"

definition users_constraints :: "constraint list" where
  "users_constraints =
     [Primary_Key [''id''],
      Unique [] [''email'']]"

definition users_table :: ddl where
  "users_table = Create_Table T_users users_columns users_constraints"

definition roles_columns :: "column list" where
  "roles_columns =
     [Column ''id'' UUID True (Some Random_Uuid),
      Column ''name'' (VARCHAR 255) True None,
      Column ''description'' TEXT False None,
      Column ''is_system_default'' BOOLEAN False (Some (Value (Bool False))),
      Column ''permissions'' JSONB False (Some (Value (Txt ''[]''))),
      Column ''created_at'' TIMESTAMPTZ False (Some Now),
      Column ''updated_at'' TIMESTAMPTZ False (Some Now)]"

definition roles_constraints :: "constraint list" where
  "roles_constraints =
     [Primary_Key [''id''],
      Unique [] [''name'']]"

definition roles_table :: ddl where
  "roles_table = Create_Table T_roles roles_columns roles_constraints"

definition role_inheritance_columns :: "column list" where
  "role_inheritance_columns =
     [Column ''parent_role_id'' UUID True None,
      Column ''child_role_id'' UUID True None]"

definition role_inheritance_constraints :: "constraint list" where
  "role_inheritance_constraints =
     [Foreign_Key [] ''parent_role_id'' (Own T_roles) Restrict,
      Foreign_Key [] ''child_role_id'' (Own T_roles) Cascade,
      Primary_Key [''parent_role_id'', ''child_role_id'']]"

definition role_inheritance_table :: ddl where
  "role_inheritance_table = Create_Table T_role_inheritance role_inheritance_columns role_inheritance_constraints"

definition user_roles_columns :: "column list" where
  "user_roles_columns =
     [Column ''user_id'' UUID True None,
      Column ''role_id'' UUID True None,
      Column ''assigned_at'' TIMESTAMPTZ False (Some Now)]"

definition user_roles_constraints :: "constraint list" where
  "user_roles_constraints =
     [Foreign_Key [] ''user_id'' (Own T_users) Cascade,
      Foreign_Key [] ''role_id'' (Own T_roles) Restrict,
      Primary_Key [''user_id'', ''role_id'']]"

definition user_roles_table :: ddl where
  "user_roles_table = Create_Table T_user_roles user_roles_columns user_roles_constraints"

definition tenant_topic_visibility_columns :: "column list" where
  "tenant_topic_visibility_columns =
     [Column ''topic_id'' BIGINT True None,
      Column ''is_active'' BOOLEAN True (Some (Value (Bool True))),
      Column ''updated_at'' TIMESTAMPTZ True (Some Now)]"

definition tenant_topic_visibility_constraints :: "constraint list" where
  "tenant_topic_visibility_constraints =
     [Primary_Key [''topic_id''],
      Foreign_Key [] ''topic_id'' (Shared ''topics'') Cascade]"

definition tenant_topic_visibility_table :: ddl where
  "tenant_topic_visibility_table = Create_Table T_tenant_topic_visibility tenant_topic_visibility_columns tenant_topic_visibility_constraints"

definition cycles_columns :: "column list" where
  "cycles_columns =
     [Column ''id'' UUID True (Some Random_Uuid),
      Column ''name'' (VARCHAR 255) True None,
      Column ''year'' INTEGER True None,
      Column ''start_date'' DATE True None,
      Column ''end_date'' DATE True None,
      Column ''days_per_week'' INTEGER True (Some (Value (Num 5))),
      Column ''total_weeks'' INTEGER True None,
      Column ''is_active'' BOOLEAN True (Some (Value (Bool True))),
      Column ''is_demo'' BOOLEAN True (Some (Value (Bool False))),
      Column ''university_id'' UUID False None,
      Column ''created_at'' TIMESTAMPTZ True (Some Now),
      Column ''updated_at'' TIMESTAMPTZ True (Some Now),
      Column ''deleted_at'' TIMESTAMPTZ False None]"

definition cycles_constraints :: "constraint list" where
  "cycles_constraints =
     [Primary_Key [''id'']]"

definition cycles_table :: ddl where
  "cycles_table = Create_Table T_cycles cycles_columns cycles_constraints"

definition cycle_weeks_columns :: "column list" where
  "cycle_weeks_columns =
     [Column ''id'' UUID True (Some Random_Uuid),
      Column ''cycle_id'' UUID True None,
      Column ''week_number'' INTEGER True None,
      Column ''start_date'' DATE True None,
      Column ''end_date'' DATE True None,
      Column ''is_active'' BOOLEAN True (Some (Value (Bool True))),
      Column ''created_at'' TIMESTAMPTZ True (Some Now),
      Column ''updated_at'' TIMESTAMPTZ True (Some Now),
      Column ''deleted_at'' TIMESTAMPTZ False None]"

definition cycle_weeks_constraints :: "constraint list" where
  "cycle_weeks_constraints =
     [Primary_Key [''id''],
      Foreign_Key [] ''cycle_id'' (Own T_cycles) Cascade]"

definition cycle_weeks_table :: ddl where
  "cycle_weeks_table = Create_Table T_cycle_weeks cycle_weeks_columns cycle_weeks_constraints"

definition cycle_material_templates_columns :: "column list" where
  "cycle_material_templates_columns =
     [Column ''id'' UUID True (Some Random_Uuid),
      Column ''cycle_id'' UUID True None,
      Column ''name'' (VARCHAR 255) True None,
      Column ''scope'' (VARCHAR 50) True None,
      Column ''accumulation_weeks'' INTEGER False None,
      Column ''created_at'' TIMESTAMPTZ True (Some Now),
      Column ''updated_at'' TIMESTAMPTZ True (Some Now)]"

definition cycle_material_templates_constraints :: "constraint list" where
  "cycle_material_templates_constraints =
     [Primary_Key [''id''],
      Foreign_Key [] ''cycle_id'' (Own T_cycles) Cascade]"

definition cycle_material_templates_table :: ddl where
  "cycle_material_templates_table = Create_Table T_cycle_material_templates cycle_material_templates_columns cycle_material_templates_constraints"

definition cycle_material_template_courses_columns :: "column list" where
  "cycle_material_template_courses_columns =
     [Column ''id'' UUID True (Some Random_Uuid),
      Column ''template_id'' UUID True None,
      Column ''course_id'' BIGINT True None,
      Column ''questions_quantity'' INTEGER True None,
      Column ''easy_count'' INTEGER True (Some (Value (Num 0))),
      Column ''medium_count'' INTEGER True (Some (Value (Num 0))),
      Column ''hard_count'' INTEGER True (Some (Value (Num 0))),
      Column ''created_at'' TIMESTAMPTZ True (Some Now),
      Column ''updated_at'' TIMESTAMPTZ True (Some Now)]"

definition cycle_material_template_courses_constraints :: "constraint list" where
  "cycle_material_template_courses_constraints =
     [Primary_Key [''id''],
      Foreign_Key [] ''template_id'' (Own T_cycle_material_templates) Cascade,
      Foreign_Key [] ''course_id'' (Shared ''courses'') Cascade]"

definition cycle_material_template_courses_table :: ddl where
  "cycle_material_template_courses_table = Create_Table T_cycle_material_template_courses cycle_material_template_courses_columns cycle_material_template_courses_constraints"

definition pdf_design_templates_columns :: "column list" where
  "pdf_design_templates_columns =
     [Column ''id'' UUID True (Some Random_Uuid),
      Column ''tenant_id'' (VARCHAR 255) False None,
      Column ''name'' (VARCHAR 255) True None,
      Column ''banner_image_url'' TEXT False None,
      Column ''watermark_image_url'' TEXT False None,
      Column ''cover_image_url'' TEXT False None,
      Column ''show_cover'' BOOLEAN True (Some (Value (Bool False))),
      Column ''primary_title_color'' (VARCHAR 20) True (Some (Value (Txt ''2, 113, 184''))),
      Column ''secondary_title_color'' (VARCHAR 20) True (Some (Value (Txt ''2, 113, 184''))),
      Column ''background_highlight_color'' (VARCHAR 20) True (Some (Value (Txt ''214, 238, 253''))),
      Column ''margin_top'' (VARCHAR 20) True (Some (Value (Txt ''3cm''))),
      Column ''margin_bottom'' (VARCHAR 20) True (Some (Value (Txt ''1.5cm''))),
      Column ''margin_inside'' (VARCHAR 20) True (Some (Value (Txt ''1cm''))),
      Column ''margin_outside'' (VARCHAR 20) True (Some (Value (Txt ''1cm''))),
      Column ''is_book_mode'' BOOLEAN True (Some (Value (Bool False))),
      Column ''font_family'' (VARCHAR 50) True (Some (Value (Txt ''Arial''))),
      Column ''border_radius'' (VARCHAR 20) True (Some (Value (Txt ''4px''))),
      Column ''content_font_size'' (VARCHAR 20) True (Some (Value (Txt ''11pt''))),
      Column ''content_text_color'' (VARCHAR 20) True (Some (Value (Txt ''#000000''))),
      Column ''blocks_config'' JSONB False None,
      Column ''header_config'' JSONB False None,
      Column ''footer_config'' JSONB False None,
      Column ''is_default'' BOOLEAN True (Some (Value (Bool False))),
      Column ''is_demo'' BOOLEAN True (Some (Value (Bool False))),
      Column ''created_at'' TIMESTAMPTZ True (Some Now),
      Column ''updated_at'' TIMESTAMPTZ True (Some Now)]"

definition pdf_design_templates_constraints :: "constraint list" where
  "pdf_design_templates_constraints =
     [Primary_Key [''id'']]"

definition pdf_design_templates_table :: ddl where
  "pdf_design_templates_table = Create_Table T_pdf_design_templates pdf_design_templates_columns pdf_design_templates_constraints"

definition syllabus_columns :: "column list" where
  "syllabus_columns =
     [Column ''id'' UUID True (Some Random_Uuid),
      Column ''cycle_id'' UUID True None,
      Column ''course_id'' BIGINT True None,
      Column ''name'' (VARCHAR 255) True None,
      Column ''template_id'' UUID False None,
      Column ''is_active'' BOOLEAN True (Some (Value (Bool True))),
      Column ''is_demo'' BOOLEAN True (Some (Value (Bool False))),
      Column ''created_at'' TIMESTAMPTZ True (Some Now),
      Column ''updated_at'' TIMESTAMPTZ True (Some Now)]"

definition syllabus_constraints :: "constraint list" where
  "syllabus_constraints =
     [Primary_Key [''id''],
      Foreign_Key [] ''cycle_id'' (Own T_cycles) Cascade,
      Foreign_Key [] ''course_id'' (Shared ''courses'') Cascade,
      Foreign_Key [] ''template_id'' (Own T_cycle_material_templates) Set_Null]"

definition syllabus_table :: ddl where
  "syllabus_table = Create_Table T_syllabus syllabus_columns syllabus_constraints"

definition syllabus_distribution_columns :: "column list" where
  "syllabus_distribution_columns =
     [Column ''id'' UUID True (Some Random_Uuid),
      Column ''syllabus_id'' UUID True None,
      Column ''template_id'' UUID False None,
      Column ''week_number'' INTEGER True None,
      Column ''topic_id'' BIGINT True None,
      Column ''subtopic_id'' BIGINT True None,
      Column ''question_count'' INTEGER True None,
      Column ''is_generated'' BOOLEAN True (Some (Value (Bool False))),
      Column ''created_at'' TIMESTAMPTZ True (Some Now),
      Column ''updated_at'' TIMESTAMPTZ True (Some Now)]"

definition syllabus_distribution_constraints :: "constraint list" where
  "syllabus_distribution_constraints =
     [Primary_Key [''id''],
      Foreign_Key [] ''syllabus_id'' (Own T_syllabus) Restrict,
      Foreign_Key [] ''template_id'' (Own T_cycle_material_templates) Set_Null,
      Foreign_Key [] ''topic_id'' (Shared ''topics'') Cascade,
      Foreign_Key [] ''subtopic_id'' (Shared ''subtopics'') Cascade,
      Check [] ''question_count > 0'',
      Unique ''uq_syllabus_template_week_topic_subtopic'' [''syllabus_id'', ''template_id'', ''week_number'', ''topic_id'', ''subtopic_id'']]"

definition syllabus_distribution_table :: ddl where
  "syllabus_distribution_table = Create_Table T_syllabus_distribution syllabus_distribution_columns syllabus_distribution_constraints"

definition onboarding_progress_columns :: "column list" where
  "onboarding_progress_columns =
     [Column ''id'' UUID True (Some Random_Uuid),
      Column ''steps_completed'' JSONB True (Some (Value (Txt ''[]''))),
      Column ''is_dismissed'' BOOLEAN True (Some (Value (Bool False))),
      Column ''created_at'' TIMESTAMPTZ True (Some Now),
      Column ''updated_at'' TIMESTAMPTZ True (Some Now)]"

definition onboarding_progress_constraints :: "constraint list" where
  "onboarding_progress_constraints =
     [Primary_Key [''id'']]"

definition onboarding_progress_table :: ddl where
  "onboarding_progress_table = Create_Table T_onboarding_progress onboarding_progress_columns onboarding_progress_constraints"

definition materials_columns :: "column list" where
  "materials_columns =
     [Column ''id'' UUID True (Some Random_Uuid),
      Column ''tenant_id'' (VARCHAR 255) True None,
      Column ''profile_id'' UUID True None,
      Column ''cycle_id'' UUID True None,
      Column ''week_number'' INTEGER True None,
      Column ''status'' (VARCHAR 50) True (Some (Value (Txt ''PENDING''))),
      Column ''latest_request_id'' UUID False None,
      Column ''created_at'' TIMESTAMPTZ True (Some Now),
      Column ''updated_at'' TIMESTAMPTZ True (Some Now)]"

definition materials_constraints :: "constraint list" where
  "materials_constraints =
     [Primary_Key [''id''],
      Foreign_Key [] ''profile_id'' (Own T_cycle_material_templates) Cascade,
      Foreign_Key [] ''cycle_id'' (Own T_cycles) Cascade]"

definition materials_table :: ddl where
  "materials_table = Create_Table T_materials materials_columns materials_constraints"

definition material_requests_columns :: "column list" where
  "material_requests_columns =
     [Column ''id'' UUID True (Some Random_Uuid),
      Column ''tenant_id'' (VARCHAR 255) True None,
      Column ''profile_id'' UUID True None,
      Column ''cycle_id'' UUID True None,
      Column ''week_number'' INTEGER True None,
      Column ''material_type'' (VARCHAR 50) True (Some (Value (Txt ''BALOTARIO''))),
      Column ''version'' INTEGER True (Some (Value (Num 1))),
      Column ''status'' (VARCHAR 50) True (Some (Value (Txt ''PENDING''))),
      Column ''requires_review'' BOOLEAN True (Some (Value (Bool True))),
      Column ''design_template_id'' UUID False None,
      Column ''material_id'' UUID False None,
      Column ''merged_download_url'' TEXT False None,
      Column ''merged_key_download_url'' TEXT False None,
      Column ''merged_solution_download_url'' TEXT False None,
      Column ''created_by'' UUID False None,
      Column ''created_at'' TIMESTAMPTZ True (Some Now),
      Column ''updated_at'' TIMESTAMPTZ True (Some Now)]"

definition material_requests_constraints :: "constraint list" where
  "material_requests_constraints =
     [Primary_Key [''id''],
      Foreign_Key [] ''profile_id'' (Own T_cycle_material_templates) Cascade,
      Foreign_Key [] ''cycle_id'' (Own T_cycles) Cascade,
      Foreign_Key [] ''design_template_id'' (Own T_pdf_design_templates) Set_Null,
      Foreign_Key [] ''material_id'' (Own T_materials) Cascade]"

definition material_requests_table :: ddl where
  "material_requests_table = Create_Table T_material_requests material_requests_columns material_requests_constraints"

definition material_request_courses_columns :: "column list" where
  "material_request_courses_columns =
     [Column ''id'' UUID True (Some Random_Uuid),
      Column ''material_request_id'' UUID True None,
      Column ''course_id'' BIGINT True None,
      Column ''status'' (VARCHAR 50) True (Some (Value (Txt ''PENDING''))),
      Column ''download_url'' TEXT False None,
      Column ''key_download_url'' TEXT False None,
      Column ''solution_download_url'' TEXT False None,
      Column ''warnings'' JSONB False None,
      Column ''created_at'' TIMESTAMPTZ True (Some Now)]"

definition material_request_courses_constraints :: "constraint list" where
  "material_request_courses_constraints =
     [Primary_Key [''id''],
      Foreign_Key [] ''material_request_id'' (Own T_material_requests) Cascade,
      Foreign_Key [] ''course_id'' (Shared ''courses'') Cascade]"

definition material_request_courses_table :: ddl where
  "material_request_courses_table = Create_Table T_material_request_courses material_request_courses_columns material_request_courses_constraints"

definition material_review_questions_columns :: "column list" where
  "material_review_questions_columns =
     [Column ''id'' UUID True (Some Random_Uuid),
      Column ''material_request_id'' UUID True None,
      Column ''question_id'' (VARCHAR 36) False None,
      Column ''topic_id'' BIGINT True None,
      Column ''subtopic_id'' BIGINT True None,
      Column ''expected_level'' (VARCHAR 20) False None,
      Column ''position'' INTEGER True None,
      Column ''status'' (VARCHAR 50) True (Some (Value (Txt ''FOUND''))),
      Column ''created_at'' TIMESTAMPTZ True (Some Now)]"

definition material_review_questions_constraints :: "constraint list" where
  "material_review_questions_constraints =
     [Primary_Key [''id''],
      Foreign_Key [] ''material_request_id'' (Own T_material_requests) Cascade]"

definition material_review_questions_table :: ddl where
  "material_review_questions_table = Create_Table T_material_review_questions material_review_questions_columns material_review_questions_constraints"

definition material_question_usage_columns :: "column list" where
  "material_question_usage_columns =
     [Column ''id'' UUID True (Some Random_Uuid),
      Column ''material_request_id'' UUID True None,
      Column ''cycle_id'' UUID True None,
      Column ''question_id'' (VARCHAR 36) True None,
      Column ''course_id'' BIGINT True None,
      Column ''topic_id'' BIGINT True None,
      Column ''subtopic_id'' BIGINT True None,
      Column ''position_in_pdf'' INTEGER True None,
      Column ''was_replacement'' BOOLEAN True (Some (Value (Bool False))),
      Column ''used_at'' TIMESTAMPTZ True (Some Now)]"

definition material_question_usage_constraints :: "constraint list" where
  "material_question_usage_constraints =
     [Primary_Key [''id''],
      Foreign_Key [] ''material_request_id'' (Own T_material_requests) Cascade]"

definition material_question_usage_table :: ddl where
  "material_question_usage_table = Create_Table T_material_question_usage material_question_usage_columns material_question_usage_constraints"


end
