(* ===== verification/TenantMigrations.thy ===== *)
theory TenantMigrations
  imports TenantSchema
begin

text \<open>
  The ordered tenant migrations (\<open>database/tenant-migrations/index.ts\<close>) and their runner
  (\<open>database/tenant-migration.service.ts\<close>). A statement can be lost with its connection: \<open>lost\<close> says at which
  migrations. The session lock makes the runs of one schema sequential, so they are plain state changes here.
\<close>

type_synonym migration = "string \<times> (string \<Rightarrow> ddl list)"

definition initial_tenant_schema :: migration where
  "initial_tenant_schema = (''0001_initial_tenant_schema'', \<lambda>schema.
     [users_table, roles_table, role_inheritance_table, user_roles_table, tenant_topic_visibility_table, cycles_table,
      cycle_weeks_table, cycle_material_templates_table, cycle_material_template_courses_table, pdf_design_templates_table,
      syllabus_table, syllabus_distribution_table, onboarding_progress_table, materials_table, material_requests_table,
      Drop_Constraint T_materials ''fk_materials_latest_request'',
      Add_Constraint T_materials (Foreign_Key ''fk_materials_latest_request'' ''latest_request_id'' (Own T_material_requests) Set_Null),
      material_request_courses_table, material_review_questions_table, material_question_usage_table,
      Create_Index False (''idx_'' @ schema @ ''_material_question_usage_cycle_course_question'') T_material_question_usage
        [Col ''cycle_id'', Col ''course_id'', Col ''question_id''] Every])"

definition material_request_indexes :: migration where
  "material_request_indexes = (''0002_material_request_indexes'', \<lambda>schema.
     [Create_Index False (''idx_'' @ schema @ ''_material_requests_cycle_week'') T_material_requests [Col ''cycle_id'', Col ''week_number''] Every,
      Create_Index False (''idx_'' @ schema @ ''_material_requests_status'') T_material_requests [Col ''status''] Every,
      Create_Index False (''idx_'' @ schema @ ''_material_requests_material_id'') T_material_requests [Col ''material_id''] Every,
      Create_Index False (''idx_'' @ schema @ ''_material_request_courses_request'') T_material_request_courses [Col ''material_request_id''] Every,
      Create_Index False (''idx_'' @ schema @ ''_material_review_questions_request'') T_material_review_questions [Col ''material_request_id''] Every])"

definition reconcile_super_admin_permissions :: migration where
  "reconcile_super_admin_permissions = (''0003_reconcile_super_admin_permissions'', \<lambda>schema. [Reconcile_System_Roles])"

definition tenant_integrity_constraints :: migration where
  "tenant_integrity_constraints = (''0004_tenant_integrity_constraints'', \<lambda>schema.
     [Create_Index True ''uq_syllabus_cycle_course_active'' T_syllabus [Col ''cycle_id'', Col ''course_id''] (Where_True ''is_active''),
      Create_Index True ''uq_cycle_weeks_cycle_week_live'' T_cycle_weeks [Col ''cycle_id'', Col ''week_number''] (Where_Null ''deleted_at''),
      Add_Column T_onboarding_progress (Column ''singleton'' BOOLEAN True (Some (Value (Bool True)))),
      Drop_Constraint T_onboarding_progress ''chk_onboarding_progress_singleton'',
      Add_Constraint T_onboarding_progress (Check ''chk_onboarding_progress_singleton'' ''singleton''),
      Keep_First T_onboarding_progress [] [''created_at'', ''id''],
      Create_Index True ''uq_onboarding_progress_singleton'' T_onboarding_progress [Col ''singleton''] Every,
      Drop_Column T_onboarding_progress ''steps_completed'',
      Restrict_Shared [(T_syllabus, ''course_id'', ''courses''), (T_syllabus_distribution, ''topic_id'', ''topics''),
        (T_syllabus_distribution, ''subtopic_id'', ''subtopics''), (T_cycle_material_template_courses, ''course_id'', ''courses''),
        (T_material_request_courses, ''course_id'', ''courses'')]])"

definition users_force_password_reset :: migration where
  "users_force_password_reset = (''0005_users_force_password_reset'', \<lambda>schema.
     [Add_Column T_users (Column ''force_password_reset'' BOOLEAN True (Some (Value (Bool False))))])"

definition material_and_default_design_uniqueness :: migration where
  "material_and_default_design_uniqueness = (''0006_material_and_default_design_uniqueness'', \<lambda>schema.
     [Create_Index True ''uq_materials_tenant_profile_week'' T_materials [Col ''tenant_id'', Col ''profile_id'', Col ''week_number''] Every,
      Create_Index True ''idx_tenant_default'' T_pdf_design_templates [Col ''tenant_id''] (Where_True ''is_default'')])"

definition onboarding_progress_per_user :: migration where
  "onboarding_progress_per_user = (''0007_onboarding_progress_per_user'', \<lambda>schema.
     [Delete_All T_onboarding_progress,
      Drop_Index ''uq_onboarding_progress_singleton'',
      Drop_Constraint T_onboarding_progress ''chk_onboarding_progress_singleton'',
      Drop_Column T_onboarding_progress ''singleton'',
      Add_Column T_onboarding_progress (Column ''user_id'' UUID True None),
      Drop_Constraint T_onboarding_progress ''fk_onboarding_progress_user'',
      Add_Constraint T_onboarding_progress (Foreign_Key ''fk_onboarding_progress_user'' ''user_id'' (Own T_users) Cascade),
      Create_Index True ''uq_onboarding_progress_user'' T_onboarding_progress [Col ''user_id''] Every])"

definition fk_join_indexes :: migration where
  "fk_join_indexes = (''0008_fk_join_indexes'', \<lambda>schema.
     [Create_Index False ''idx_role_inheritance_child_role_id'' T_role_inheritance [Col ''child_role_id''] Every,
      Create_Index False ''idx_user_roles_role_id'' T_user_roles [Col ''role_id''] Every,
      Create_Index False ''idx_syllabus_cycle_id'' T_syllabus [Col ''cycle_id''] Every,
      Create_Index False ''idx_cycle_material_templates_cycle_id'' T_cycle_material_templates [Col ''cycle_id''] Every,
      Create_Index False ''idx_cycle_material_template_courses_template_id'' T_cycle_material_template_courses [Col ''template_id''] Every])"

definition usage_key :: "key_part list" where
  "usage_key = [Col ''material_request_id'', Col ''course_id'', Col ''question_id'']"

definition material_question_usage_natural_key :: migration where
  "material_question_usage_natural_key = (''0009_material_question_usage_natural_key'', \<lambda>schema.
     [Keep_First T_material_question_usage usage_key [''used_at'', ''id''],
      Create_Index True ''uq_material_question_usage_request_course_question'' T_material_question_usage usage_key Every])"

definition material_request_course_pdf_metrics :: migration where
  "material_request_course_pdf_metrics = (''0010_material_request_course_pdf_metrics'', \<lambda>schema.
     [Add_Column T_material_request_courses (Column ''page_count'' INTEGER False None),
      Add_Column T_material_request_courses (Column ''file_size_bytes'' BIGINT False None),
      Add_Column T_material_request_courses (Column ''completed_at'' TIMESTAMP False None)])"

definition cell_key :: "key_part list" where
  "cell_key = [Col ''syllabus_id'', Coalesce ''template_id'' ''00000000-0000-0000-0000-000000000000'', Col ''week_number'', Col ''topic_id'', Col ''subtopic_id'']"

definition syllabus_distribution_null_safe_unique :: migration where
  "syllabus_distribution_null_safe_unique = (''0011_syllabus_distribution_null_safe_unique'', \<lambda>schema.
     [Keep_First T_syllabus_distribution cell_key [''created_at'', ''id''],
      Drop_Constraint T_syllabus_distribution ''uq_syllabus_template_week_topic_subtopic'',
      Create_Index True ''uq_syllabus_distribution_template_week_topic_subtopic'' T_syllabus_distribution cell_key Every])"

definition users_tokens_valid_after :: migration where
  "users_tokens_valid_after = (''0012_users_tokens_valid_after'', \<lambda>schema.
     [Add_Column T_users (Column ''tokens_valid_after'' TIMESTAMPTZ False None)])"

definition tenant_migrations :: "migration list" where
  "tenant_migrations =
     [initial_tenant_schema, material_request_indexes, reconcile_super_admin_permissions, tenant_integrity_constraints,
      users_force_password_reset, material_and_default_design_uniqueness, onboarding_progress_per_user, fk_join_indexes,
      material_question_usage_natural_key, material_request_course_pdf_metrics, syllabus_distribution_null_safe_unique,
      users_tokens_valid_after]"

subsection \<open>The runner\<close>

text \<open>One migration in its transaction: the statements, then the row of the marker table.\<close>

definition apply_migration :: "(string \<Rightarrow> bool) \<Rightarrow> string \<Rightarrow> migration \<Rightarrow> schema \<Rightarrow> sql_error + schema" where
  "apply_migration lost schemaName m s =
     (case m of (i, up) \<Rightarrow>
        if lost i then Inl Connection_Lost
        else case exec_all (up schemaName) s of
          Inl e \<Rightarrow> Inl e
        | Inr s' \<Rightarrow>
            (case ts_marker s' of
               None \<Rightarrow> Inl Undefined_Table
             | Some done_ids \<Rightarrow> if i \<in> set done_ids then Inl Unique_Violation else Inr (s'\<lparr>ts_marker := Some (done_ids @ [i])\<rparr>)))"

text \<open>The loop: what was applied is read once; the first failure rolls its migration back and stops the run.\<close>

fun apply_pending :: "(string \<Rightarrow> bool) \<Rightarrow> string \<Rightarrow> string list \<Rightarrow> migration list \<Rightarrow> schema \<Rightarrow> (sql_error + unit) \<times> schema" where
  "apply_pending lost schemaName applied [] s = (Inr (), s)"
| "apply_pending lost schemaName applied (m # ms) s =
     (if fst m \<in> set applied then apply_pending lost schemaName applied ms s
      else case apply_migration lost schemaName m s of
        Inl e \<Rightarrow> (Inl e, s)
      | Inr s' \<Rightarrow> apply_pending lost schemaName applied ms s')"

definition ensure_marker :: "schema \<Rightarrow> schema" where
  "ensure_marker s = s\<lparr>ts_marker := Some (case ts_marker s of None \<Rightarrow> [] | Some xs \<Rightarrow> xs)\<rparr>"

definition run_migrations :: "(string \<Rightarrow> bool) \<Rightarrow> string \<Rightarrow> schema \<Rightarrow> (sql_error + unit) \<times> schema" where
  "run_migrations lost schemaName s =
     (if \<not> valid_schema schemaName then (Inl Invalid_Schema, s)
      else let s1 = ensure_marker s
           in apply_pending lost schemaName (case ts_marker s1 of None \<Rightarrow> [] | Some xs \<Rightarrow> xs) tenant_migrations s1)"

subsection \<open>The fan-out over the tenants\<close>

record migration_summary =
  ms_total :: nat
  ms_migrated :: nat
  ms_skipped :: nat
  ms_failed :: nat
  ms_failures :: "(string \<times> sql_error) list"

definition migrate_company ::
  "(uuid \<Rightarrow> string \<Rightarrow> bool) \<Rightarrow> uuid \<Rightarrow> migration_summary \<times> (string \<rightharpoonup> schema) \<Rightarrow> migration_summary \<times> (string \<rightharpoonup> schema)" where
  "migrate_company lost c acc =
     (case acc of (sm, w) \<Rightarrow>
        (case w (tenant_schema c) of
           None \<Rightarrow> (sm\<lparr>ms_skipped := ms_skipped sm + 1\<rparr>, w)
         | Some s \<Rightarrow>
             (case run_migrations (lost c) (tenant_schema c) s of
                (Inr _, s') \<Rightarrow> (sm\<lparr>ms_migrated := ms_migrated sm + 1\<rparr>, w(tenant_schema c \<mapsto> s'))
              | (Inl e, s') \<Rightarrow> (sm\<lparr>ms_failed := ms_failed sm + 1, ms_failures := ms_failures sm @ [(tenant_schema c, e)]\<rparr>, w(tenant_schema c \<mapsto> s')))))"

definition run_migrations_for_all_tenants ::
  "(uuid \<Rightarrow> string \<Rightarrow> bool) \<Rightarrow> uuid list \<Rightarrow> (string \<rightharpoonup> schema) \<Rightarrow> migration_summary \<times> (string \<rightharpoonup> schema)" where
  "run_migrations_for_all_tenants lost companies w =
     fold (migrate_company lost) companies
       (\<lparr>ms_total = length companies, ms_migrated = 0, ms_skipped = 0, ms_failed = 0, ms_failures = []\<rparr>, w)"

subsection \<open>A fresh schema\<close>

definition empty_schema :: schema where
  "empty_schema = \<lparr>ts_tables = [], ts_indexes = [], ts_rows = (\<lambda>_. []),
     ts_db = \<lparr>td_users = [], td_roles = \<lparr>roles = [], role_inheritance = [], user_roles = []\<rparr>\<rparr>, ts_marker = None\<rparr>"

definition fresh_schema :: schema where
  "fresh_schema = snd (run_migrations (\<lambda>_. False) ''tenant_a'' empty_schema)"

definition unique_keys :: "schema \<Rightarrow> (table \<times> key_part list \<times> row_filter) list" where
  "unique_keys s = map (\<lambda>i. (ix_table i, ix_key i, ix_where i)) (filter ix_unique (ts_indexes s))"

definition cascading_shared :: "schema \<Rightarrow> (table \<times> string) list" where
  "cascading_shared s =
     concat (map (\<lambda>(t, cs, ks). concat (map (\<lambda>k. case k of Foreign_Key _ c (Shared _) Cascade \<Rightarrow> [(t, c)] | _ \<Rightarrow> []) ks)) (ts_tables s))"

end
