(* ===== verification/Tenancy.thy ===== *)
theory Tenancy
  imports TenantMigrations
begin

text \<open>
  Tenant administration: the companies and their status (\<open>admin/tenants/tenants-admin.service.ts\<close>), the provisioning
  job (\<open>admin/tenants/processors/tenant-provisioning.processor.ts\<close>, \<open>database/schema.service.ts\<close>) and the
  administrators of a tenant (\<open>admin/tenants/tenant-admins.service.ts\<close>). bcrypt is the parameter \<open>hash\<close>; the ids the
  database generates, the clock and what fails are arguments. The order in which the database answers an unordered
  query is an argument too.
\<close>

datatype platform_msg =
    CredentialsTogether
  | SubdomainTaken string
  | TenantNotFound
  | NeverProvisioned string bool
  | IncompleteProvisioning string bool
  | PrincipalNotFound
  | SeveralPrincipals nat
  | CompanyNotFound
  | EmailTaken
  | ActiveAdminNotFound
  | LastActiveAdmin
  | QueueUnreachable
  | SqlFailed sql_error
  | InvalidSchemaName string
  | NegativeRowCount

record tenant_company = company +
  tc_contactEmail :: "string option"
  tc_phone :: "string option"
  tc_address :: "string option"
  tc_taxId :: "string option"
  tc_subscriptionPlanId :: "uuid option"
  tc_gracePeriodUntil :: "millis option"
  tc_createdAt :: millis

text \<open>The payload of a \<open>provision\<close> job.\<close>

record provision_job =
  pj_schemaName :: string
  pj_companyId :: uuid
  pj_adminEmail :: "string option"
  pj_adminPassword :: "string option"

text \<open>
  The platform: the companies, the schemas that exist, the cache of the subdomain lookup, the two tiers of the
  authorization state and the queue of provisioning jobs.
\<close>

record platform =
  pf_companies :: "tenant_company list"
  pf_schemas :: "string \<rightharpoonup> schema"
  pf_lookup :: "company redis"
  pf_authRedis :: "cached_auth_state redis"
  pf_authLocal :: local_cache
  pf_jobs :: "provision_job list"

type_synonym 'a platform_op = "platform \<Rightarrow> (platform_msg http_error + 'a) \<times> platform"

definition PROVISION_ATTEMPTS :: nat where "PROVISION_ATTEMPTS = 3"

definition SUPER_ADMIN_ROLE_NAME :: string where "SUPER_ADMIN_ROLE_NAME = ''Super Administrador''"

definition DEFAULT_TENANTS_PAGE_SIZE :: int where "DEFAULT_TENANTS_PAGE_SIZE = 25"
definition MAX_TENANTS_PAGE_SIZE :: int where "MAX_TENANTS_PAGE_SIZE = 100"

subsection \<open>Tenant transactions\<close>

definition update_company :: "uuid \<Rightarrow> (tenant_company \<Rightarrow> tenant_company) \<Rightarrow> platform \<Rightarrow> platform" where
  "update_company i f p = p\<lparr>pf_companies := update_where (\<lambda>c. co_id c = i) f (pf_companies p)\<rparr>"

text \<open>\<open>runInSchema\<close> on the users and roles of a schema; a schema that does not exist has no tables.\<close>

definition in_schema :: "string \<Rightarrow> (tenant_db, platform_msg http_error, 'a) tx \<Rightarrow> 'a platform_op" where
  "in_schema n body p =
     (if \<not> valid_schema n then (Inl (RawError (InvalidSchemaName n)), p)
      else case pf_schemas p n of
        None \<Rightarrow> (Inl (RawError (SqlFailed Undefined_Table)), p)
      | Some s \<Rightarrow>
          if \<not> (has_table T_users s \<and> has_table T_roles s \<and> has_table T_user_roles s) then (Inl (RawError (SqlFailed Undefined_Table)), p)
          else (case run_tx body (ts_db s) of
            (Inl e, _) \<Rightarrow> (Inl e, p)
          | (Inr a, db) \<Rightarrow> (Inr a, p\<lparr>pf_schemas := (pf_schemas p)(n \<mapsto> s\<lparr>ts_db := db\<rparr>)\<rparr>)))"

text \<open>The world the authentication service sees, and a revocation in it.\<close>

definition no_db :: tenant_db where
  "no_db = \<lparr>td_users = [], td_roles = \<lparr>roles = [], role_inheritance = [], user_roles = []\<rparr>\<rparr>"

definition auth_view :: "platform \<Rightarrow> auth_world" where
  "auth_view p = \<lparr>aw_db = (\<lambda>n. case pf_schemas p n of None \<Rightarrow> no_db | Some s \<Rightarrow> ts_db s),
     aw_redis = pf_authRedis p, aw_local = pf_authLocal p\<rparr>"

type_synonym revocation = "bool \<times> write_io \<times> millis"

text \<open>\<open>invalidateAuthState\<close>: a failed revocation is logged and forgotten.\<close>

definition invalidate_auth_state :: "revocation \<Rightarrow> uuid \<Rightarrow> uuid \<Rightarrow> platform \<Rightarrow> platform" where
  "invalidate_auth_state rv companyId userId p =
     (case rv of (dbOk, wio, now) \<Rightarrow>
        let w = snd (revoke_user_tokens dbOk wio now companyId userId (auth_view p));
            n = tenant_schema companyId
        in p\<lparr>pf_schemas := (case pf_schemas p n of None \<Rightarrow> pf_schemas p | Some s \<Rightarrow> (pf_schemas p)(n \<mapsto> s\<lparr>ts_db := aw_db w n\<rparr>)),
             pf_authRedis := aw_redis w, pf_authLocal := aw_local w\<rparr>)"

subsection \<open>Administrators of a tenant\<close>

text \<open>The join of users, assignments and roles on the name of the role: one row per assignment.\<close>

definition super_admins :: "tenant_db \<Rightarrow> user list" where
  "super_admins db =
     [u. u \<leftarrow> td_users db, (v, r) \<leftarrow> user_roles (td_roles db), v = u_id u,
         rl \<leftarrow> roles (td_roles db), r_id rl = r, r_name rl = SUPER_ADMIN_ROLE_NAME]"

definition active_super_admins :: "tenant_db \<Rightarrow> user list" where
  "active_super_admins db = filter u_isActive (super_admins db)"

definition validate_company_exists :: "uuid \<Rightarrow> platform \<Rightarrow> platform_msg http_error + unit" where
  "validate_company_exists tenantId p =
     (if find_one (\<lambda>c. co_id c = tenantId) (pf_companies p) = None then Inl (NotFound CompanyNotFound) else Inr ())"

record admin_page =
  ap_data :: "user list"
  ap_total :: nat
  ap_page :: int
  ap_last_page :: "int option"

definition find_all_admins :: "(user list \<Rightarrow> user list) \<Rightarrow> uuid \<Rightarrow> int \<Rightarrow> int \<Rightarrow> platform \<Rightarrow> platform_msg http_error + admin_page" where
  "find_all_admins order tenantId page limit p =
     (case validate_company_exists tenantId p of
        Inl e \<Rightarrow> Inl e
      | Inr _ \<Rightarrow>
          (case fst (in_schema (tenant_schema tenantId) (\<lambda>db. Inr (active_super_admins db, db)) p) of
             Inl e \<Rightarrow> Inl e
           | Inr admins \<Rightarrow>
               if limit < 0 \<or> (page - 1) * limit < 0 then Inl (RawError NegativeRowCount)
               else Inr \<lparr>ap_data = take (nat limit) (drop (nat ((page - 1) * limit)) (order admins)), ap_total = length admins,
                    ap_page = page, ap_last_page = (if limit = 0 then None else Some (- ((- int (length admins)) div limit)))\<rparr>))"

record new_admin =
  na_email :: string
  na_name :: string
  na_password :: string

definition super_admin_role :: "uuid \<Rightarrow> role" where
  "super_admin_role i = \<lparr>r_id = i, r_name = SUPER_ADMIN_ROLE_NAME, r_description = Some ''Administrador Principal de la Institucion'',
     r_isSystemDefault = True, r_permissions = Some tenant_super_admin_permissions\<rparr>"

definition insert_role :: "role \<Rightarrow> tenant_db \<Rightarrow> platform_msg http_error + tenant_db" where
  "insert_role r db =
     (if r_id r \<in> r_id ` set (roles (td_roles db)) \<or> r_name r \<in> r_name ` set (roles (td_roles db))
      then Inl (RawError (SqlFailed Unique_Violation))
      else Inr (db\<lparr>td_roles := (td_roles db)\<lparr>roles := roles (td_roles db) @ [r]\<rparr>\<rparr>))"

definition insert_user :: "user \<Rightarrow> tenant_db \<Rightarrow> platform_msg http_error + tenant_db" where
  "insert_user u db =
     (if u_id u \<in> u_id ` set (td_users db) \<or> u_email u \<in> u_email ` set (td_users db)
      then Inl (RawError (SqlFailed Unique_Violation)) else Inr (db\<lparr>td_users := td_users db @ [u]\<rparr>))"

definition insert_user_role :: "uuid \<Rightarrow> uuid \<Rightarrow> tenant_db \<Rightarrow> platform_msg http_error + tenant_db" where
  "insert_user_role u r db =
     (if (u, r) \<in> set (user_roles (td_roles db)) then Inl (RawError (SqlFailed Unique_Violation))
      else Inr (db\<lparr>td_roles := (td_roles db)\<lparr>user_roles := user_roles (td_roles db) @ [(u, r)]\<rparr>\<rparr>))"

text \<open>\<open>insertSuperAdmin\<close>: \<open>ids\<close> are the ids the database generates for the user and, when it is missing, for the role.\<close>

definition insert_super_admin ::
  "(string \<Rightarrow> string) \<Rightarrow> uuid \<times> uuid \<Rightarrow> uuid \<Rightarrow> new_admin \<Rightarrow> bool \<Rightarrow> (tenant_db, platform_msg http_error, user option) tx" where
  "insert_super_admin hash ids tenantId data idempotent db =
     (if list_ex (\<lambda>u. u_email u = na_email data) (td_users db)
      then if idempotent then Inr (None, db) else Inl (Conflict EmailTaken)
      else
        let role = find_one (\<lambda>r. r_name r = SUPER_ADMIN_ROLE_NAME) (roles (td_roles db));
            roleId = (case role of None \<Rightarrow> snd ids | Some r \<Rightarrow> r_id r);
            u = \<lparr>u_id = fst ids, u_email = na_email data, u_passwordHash = hash (na_password data), u_name = na_name data,
                 u_companyId = tenantId, u_isActive = True, u_forcePasswordReset = True, u_tokensValidAfter = None\<rparr>
        in case (if role = None then insert_role (super_admin_role roleId) db else Inr db) of
             Inl e \<Rightarrow> Inl e
           | Inr db1 \<Rightarrow>
               (case insert_user u db1 of
                  Inl e \<Rightarrow> Inl e
                | Inr db2 \<Rightarrow>
                    (case insert_user_role (u_id u) roleId db2 of
                       Inl e \<Rightarrow> Inl e
                     | Inr db3 \<Rightarrow> Inr (Some u, db3))))"

definition guarded_admin_op :: "uuid \<Rightarrow> (tenant_db, platform_msg http_error, 'a) tx \<Rightarrow> 'a platform_op" where
  "guarded_admin_op tenantId body p =
     (case validate_company_exists tenantId p of
        Inl e \<Rightarrow> (Inl e, p)
      | Inr _ \<Rightarrow> in_schema (tenant_schema tenantId) body p)"

definition create_admin :: "(string \<Rightarrow> string) \<Rightarrow> uuid \<times> uuid \<Rightarrow> uuid \<Rightarrow> new_admin \<Rightarrow> user option platform_op" where
  "create_admin hash ids tenantId data = guarded_admin_op tenantId (insert_super_admin hash ids tenantId data False)"

definition create_super_admin_in_schema :: "(string \<Rightarrow> string) \<Rightarrow> uuid \<times> uuid \<Rightarrow> uuid \<Rightarrow> new_admin \<Rightarrow> user option platform_op" where
  "create_super_admin_in_schema hash ids tenantId data =
     in_schema (tenant_schema tenantId) (insert_super_admin hash ids tenantId data True)"

definition is_active_super_admin :: "uuid \<Rightarrow> tenant_db \<Rightarrow> bool" where
  "is_active_super_admin userId db \<longleftrightarrow> list_ex (\<lambda>u. u_id u = userId) (active_super_admins db)"

definition set_user :: "uuid \<Rightarrow> (user \<Rightarrow> user) \<Rightarrow> tenant_db \<Rightarrow> tenant_db" where
  "set_user i f db = db\<lparr>td_users := update_where (\<lambda>u. u_id u = i) f (td_users db)\<rparr>"

definition update_admin_tx :: "uuid \<Rightarrow> string option \<Rightarrow> string option \<Rightarrow> (tenant_db, platform_msg http_error, unit) tx" where
  "update_admin_tx userId email name db =
     (if \<not> is_active_super_admin userId db then Inl (NotFound ActiveAdminNotFound)
      else if truthy_str email \<and> list_ex (\<lambda>u. u_email u = the email \<and> u_id u \<noteq> userId) (td_users db) then Inl (Conflict EmailTaken)
      else Inr ((), set_user userId (\<lambda>u. u\<lparr>u_name := (if truthy_str name then the name else u_name u),
             u_email := (if truthy_str email then the email else u_email u)\<rparr>) db))"

definition update_admin :: "uuid \<Rightarrow> uuid \<Rightarrow> string option \<Rightarrow> string option \<Rightarrow> unit platform_op" where
  "update_admin tenantId userId email name = guarded_admin_op tenantId (update_admin_tx userId email name)"

definition update_password_tx :: "(string \<Rightarrow> string) \<Rightarrow> uuid \<Rightarrow> string \<Rightarrow> (tenant_db, platform_msg http_error, unit) tx" where
  "update_password_tx hash userId password db =
     (if \<not> is_active_super_admin userId db then Inl (NotFound ActiveAdminNotFound)
      else Inr ((), set_user userId (\<lambda>u. u\<lparr>u_passwordHash := hash password, u_forcePasswordReset := True\<rparr>) db))"

definition update_admin_password :: "(string \<Rightarrow> string) \<Rightarrow> revocation \<Rightarrow> uuid \<Rightarrow> uuid \<Rightarrow> string \<Rightarrow> unit platform_op" where
  "update_admin_password hash rv tenantId userId password p =
     (case guarded_admin_op tenantId (update_password_tx hash userId password) p of
        (Inl e, p') \<Rightarrow> (Inl e, p')
      | (Inr x, p') \<Rightarrow> (Inr x, invalidate_auth_state rv tenantId userId p'))"

text \<open>The count of active administrators is read without a lock; the row updated is any active user with the id.\<close>

definition soft_delete_tx :: "uuid \<Rightarrow> (tenant_db, platform_msg http_error, unit) tx" where
  "soft_delete_tx userId db =
     (if length (active_super_admins db) \<le> 1 then Inl (Conflict LastActiveAdmin)
      else if affected (\<lambda>u. u_id u = userId \<and> u_isActive u) (td_users db) = 0 then Inl (NotFound ActiveAdminNotFound)
      else Inr ((), db\<lparr>td_users := update_where (\<lambda>u. u_id u = userId \<and> u_isActive u) (\<lambda>u. u\<lparr>u_isActive := False\<rparr>) (td_users db)\<rparr>))"

definition soft_delete_admin :: "revocation \<Rightarrow> uuid \<Rightarrow> uuid \<Rightarrow> unit platform_op" where
  "soft_delete_admin rv tenantId userId p =
     (case guarded_admin_op tenantId (soft_delete_tx userId) p of
        (Inl e, p') \<Rightarrow> (Inl e, p')
      | (Inr x, p') \<Rightarrow> (Inr x, invalidate_auth_state rv tenantId userId p'))"

subsection \<open>Listing the tenants\<close>

text \<open>\<open>ORDER BY created_at, id\<close>.\<close>

definition listed_before :: "tenant_company \<Rightarrow> tenant_company \<Rightarrow> bool" where
  "listed_before a b \<longleftrightarrow> tc_createdAt a < tc_createdAt b \<or> (tc_createdAt a = tc_createdAt b \<and> text_less (co_id a) (co_id b))"

fun insert_listed :: "tenant_company \<Rightarrow> tenant_company list \<Rightarrow> tenant_company list" where
  "insert_listed c [] = [c]"
| "insert_listed c (d # ds) = (if listed_before d c then d # insert_listed c ds else c # d # ds)"

definition listed :: "tenant_company list \<Rightarrow> tenant_company list" where
  "listed cs = fold insert_listed cs []"

definition find_all_lite :: "platform \<Rightarrow> (uuid \<times> string) list" where
  "find_all_lite p = map (\<lambda>c. (co_id c, co_commercialName c)) (listed (find_all co_isActive (pf_companies p)))"

definition safe_page :: "int \<Rightarrow> int" where
  "safe_page page = (if page \<ge> 1 then page else 1)"

definition safe_page_size :: "int \<Rightarrow> int" where
  "safe_page_size pageSize = (if pageSize \<ge> 1 then min pageSize MAX_TENANTS_PAGE_SIZE else DEFAULT_TENANTS_PAGE_SIZE)"

text \<open>The probe of one schema: a failed query counts as no administrator.\<close>

definition has_active_superadmin :: "platform \<Rightarrow> string \<Rightarrow> bool" where
  "has_active_superadmin p n =
     (case fst (in_schema n (\<lambda>db. Inr (active_super_admins db, db)) p) of Inl e \<Rightarrow> False | Inr us \<Rightarrow> us \<noteq> [])"

record tenants_page =
  tp_data :: "(tenant_company \<times> bool) list"
  tp_total :: nat
  tp_page :: int
  tp_pageSize :: int

definition find_all_tenants :: "int \<Rightarrow> int \<Rightarrow> platform \<Rightarrow> platform_msg http_error + tenants_page" where
  "find_all_tenants page pageSize p =
     (let safePage = safe_page page;
          safePageSize = safe_page_size pageSize;
          companies = take (nat safePageSize) (drop (nat ((safePage - 1) * safePageSize)) (listed (pf_companies p)))
      in case find_one (\<lambda>c. \<not> valid_schema (tenant_schema (co_id c))) companies of
           Some c \<Rightarrow> Inl (RawError (InvalidSchemaName (tenant_schema (co_id c))))
         | None \<Rightarrow> Inr \<lparr>tp_data = map (\<lambda>c. (c, has_active_superadmin p (tenant_schema (co_id c)))) companies,
               tp_total = length (pf_companies p), tp_page = safePage, tp_pageSize = safePageSize\<rparr>)"

subsection \<open>Creating and changing a tenant\<close>

record new_tenant =
  nt_name :: string
  nt_subdomain :: string
  nt_subscription_plan_id :: uuid
  nt_contactEmail :: "string option"
  nt_phone :: "string option"
  nt_address :: "string option"
  nt_taxId :: "string option"
  nt_logoUrl :: "string option"
  nt_adminEmail :: "string option"
  nt_adminPassword :: "string option"

definition new_company :: "uuid \<Rightarrow> millis \<Rightarrow> new_tenant \<Rightarrow> tenant_company" where
  "new_company i now data =
     \<lparr>co_id = i, co_subdomain = nt_subdomain data, co_commercialName = nt_name data, co_logoUrl = nt_logoUrl data,
      co_primaryColor = ''#6366f1'', co_isActive = False, co_status = ACTIVE, tc_contactEmail = nt_contactEmail data,
      tc_phone = nt_phone data, tc_address = nt_address data, tc_taxId = nt_taxId data,
      tc_subscriptionPlanId = Some (nt_subscription_plan_id data), tc_gracePeriodUntil = None, tc_createdAt = now\<rparr>"

text \<open>
  \<open>create\<close>: \<open>seen\<close> is what the first check read, which may miss a concurrent insert; \<open>planOk\<close> says whether the subscription
  plan exists; \<open>i\<close> and \<open>now\<close> are the generated id and the clock; \<open>queueOk\<close> is false when Redis cannot be reached.
\<close>

definition create_tenant :: "tenant_company list \<Rightarrow> bool \<Rightarrow> uuid \<Rightarrow> millis \<Rightarrow> bool \<Rightarrow> new_tenant \<Rightarrow> tenant_company platform_op" where
  "create_tenant seen planOk i now queueOk data p =
     (if truthy_str (nt_adminEmail data) \<noteq> truthy_str (nt_adminPassword data) then (Inl (BadRequest CredentialsTogether), p)
      else if find_one (\<lambda>c. co_subdomain c = nt_subdomain data) seen \<noteq> None then (Inl (Conflict (SubdomainTaken (nt_subdomain data))), p)
      else if list_ex (\<lambda>c. co_subdomain c = nt_subdomain data \<or> co_id c = i) (pf_companies p)
      then (Inl (Conflict (SubdomainTaken (nt_subdomain data))), p)
      else if \<not> planOk then (Inl (RawError (SqlFailed Foreign_Key_Violation)), p)
      else
        let company = new_company i now data;
            p1 = p\<lparr>pf_companies := pf_companies p @ [company]\<rparr>;
            both = truthy_str (nt_adminEmail data) \<and> truthy_str (nt_adminPassword data);
            jobData = \<lparr>pj_schemaName = tenant_schema i, pj_companyId = i,
              pj_adminEmail = (if both then nt_adminEmail data else None), pj_adminPassword = (if both then nt_adminPassword data else None)\<rparr>
        in if queueOk then (Inr company, p1\<lparr>pf_jobs := pf_jobs p1 @ [jobData]\<rparr>)
           else (Inl (RawError QueueUnreachable), update_company i (\<lambda>c. c\<lparr>co_isActive := False, co_status := SUSPENDED\<rparr>) p1))"

definition requeue_provisioning :: "bool \<Rightarrow> uuid \<Rightarrow> string \<Rightarrow> platform \<Rightarrow> bool \<times> platform" where
  "requeue_provisioning queueOk companyId schemaName p =
     (if queueOk
      then (True, p\<lparr>pf_jobs := pf_jobs p @ [\<lparr>pj_schemaName = schemaName, pj_companyId = companyId, pj_adminEmail = None, pj_adminPassword = None\<rparr>]\<rparr>)
      else (False, p))"

text \<open>The reactivation branch of \<open>updateStatus\<close>: the schema has to exist and its initial migration to be recorded.\<close>

definition reactivate :: "bool \<Rightarrow> tenant_company \<Rightarrow> tenant_company platform_op" where
  "reactivate queueOk company p =
     (let schemaName = tenant_schema (co_id company) in
      if \<not> valid_schema schemaName then (Inl (RawError (InvalidSchemaName schemaName)), p)
      else case pf_schemas p schemaName of
        None \<Rightarrow> (case requeue_provisioning queueOk (co_id company) schemaName p of
            (requeued, p') \<Rightarrow> (Inl (Conflict (NeverProvisioned (co_subdomain company) requeued)), p'))
      | Some s \<Rightarrow>
          if (case ts_marker s of None \<Rightarrow> False | Some ids \<Rightarrow> fst (hd tenant_migrations) \<in> set ids)
          then (Inr (company\<lparr>co_isActive := True\<rparr>), p)
          else (case requeue_provisioning queueOk (co_id company) schemaName p of
            (requeued, p') \<Rightarrow> (Inl (Conflict (IncompleteProvisioning (co_subdomain company) requeued)), p')))"

text \<open>An attribute assigned \<open>undefined\<close> is not part of the UPDATE: the column keeps its value, the answer shows none.\<close>

definition update_status :: "bool \<Rightarrow> write_io \<Rightarrow> uuid \<Rightarrow> company_status \<Rightarrow> millis option \<Rightarrow> tenant_company platform_op" where
  "update_status queueOk wio i status gracePeriodUntil p =
     (case find_one (\<lambda>c. co_id c = i) (pf_companies p) of
        None \<Rightarrow> (Inl (NotFound TenantNotFound), p)
      | Some company \<Rightarrow>
          (case (if status = ACTIVE \<and> \<not> co_isActive company then reactivate queueOk company p else (Inr company, p)) of
             (Inl e, p') \<Rightarrow> (Inl e, p')
           | (Inr c, p') \<Rightarrow>
               let until = (if status = GRACE_PERIOD then gracePeriodUntil else None);
                   stored = (if until = None then tc_gracePeriodUntil c else until)
               in (Inr (c\<lparr>co_status := status, tc_gracePeriodUntil := until\<rparr>),
                   (update_company i (\<lambda>d. d\<lparr>co_isActive := co_isActive c, co_status := status, tc_gracePeriodUntil := stored\<rparr>) p')
                     \<lparr>pf_lookup := invalidate_subdomain_cache wio (co_subdomain c) (pf_lookup p')\<rparr>)))"

record tenant_update =
  tu_commercialName :: "string option"
  tu_subscription_plan_id :: "uuid option"
  tu_contactEmail :: "string option"
  tu_phone :: "string option"
  tu_address :: "string option"
  tu_taxId :: "string option"
  tu_logoUrl :: "string option"

definition assigned :: "'a option \<Rightarrow> 'a option \<Rightarrow> 'a option" where
  "assigned new old = (if new \<noteq> None then new else old)"

definition apply_update :: "tenant_update \<Rightarrow> tenant_company \<Rightarrow> tenant_company" where
  "apply_update data c =
     c\<lparr>co_commercialName := nullish (tu_commercialName data) (co_commercialName c),
       tc_subscriptionPlanId := assigned (tu_subscription_plan_id data) (tc_subscriptionPlanId c),
       tc_contactEmail := assigned (tu_contactEmail data) (tc_contactEmail c),
       tc_phone := assigned (tu_phone data) (tc_phone c),
       tc_address := assigned (tu_address data) (tc_address c),
       tc_taxId := assigned (tu_taxId data) (tc_taxId c),
       co_logoUrl := assigned (tu_logoUrl data) (co_logoUrl c)\<rparr>"

definition update_tenant :: "bool \<Rightarrow> write_io \<Rightarrow> uuid \<Rightarrow> tenant_update \<Rightarrow> tenant_company platform_op" where
  "update_tenant planOk wio i data p =
     (case find_one (\<lambda>c. co_id c = i) (pf_companies p) of
        None \<Rightarrow> (Inl (NotFound TenantNotFound), p)
      | Some company \<Rightarrow>
          if tu_subscription_plan_id data \<noteq> None \<and> \<not> planOk then (Inl (RawError (SqlFailed Foreign_Key_Violation)), p)
          else (Inr (apply_update data company),
           (update_company i (apply_update data) p)\<lparr>pf_lookup := invalidate_subdomain_cache wio (co_subdomain company) (pf_lookup p)\<rparr>))"

text \<open>
  \<open>resetAdminCredentials\<close>: the principal is whoever holds the role, active or not. \<open>random\<close> is the generated password,
  handed back only when none was supplied.
\<close>

definition reset_admin_tx :: "string \<Rightarrow> string \<Rightarrow> (tenant_db, platform_msg http_error, uuid) tx" where
  "reset_admin_tx newEmail passwordHash db =
     (case super_admins db of
        [] \<Rightarrow> Inl (NotFound PrincipalNotFound)
      | [u] \<Rightarrow>
          if list_ex (\<lambda>v. u_email v = newEmail \<and> u_id v \<noteq> u_id u) (td_users db) then Inl (RawError (SqlFailed Unique_Violation))
          else Inr (u_id u, set_user (u_id u)
                 (\<lambda>v. v\<lparr>u_email := newEmail, u_passwordHash := passwordHash, u_forcePasswordReset := True\<rparr>) db)
      | us \<Rightarrow> Inl (Conflict (SeveralPrincipals (length us))))"

definition reset_admin_credentials ::
  "(string \<Rightarrow> string) \<Rightarrow> string \<Rightarrow> revocation \<Rightarrow> uuid \<Rightarrow> string \<Rightarrow> string option \<Rightarrow> (string \<times> string option) platform_op" where
  "reset_admin_credentials hash random rv i newEmail newPassword p =
     (case find_one (\<lambda>c. co_id c = i) (pf_companies p) of
        None \<Rightarrow> (Inl (NotFound TenantNotFound), p)
      | Some company \<Rightarrow>
          let generated = (if truthy_str newPassword then None else Some random);
              password = nullish newPassword random
          in (case in_schema (tenant_schema (co_id company)) (reset_admin_tx newEmail (hash password)) p of
                (Inl e, p') \<Rightarrow> (Inl e, p')
              | (Inr adminId, p') \<Rightarrow> (Inr (newEmail, generated), invalidate_auth_state rv (co_id company) adminId p')))"

subsection \<open>Provisioning\<close>

text \<open>What disturbs an attempt: a failing statement, a lost migration, a failing activation; and the ids it generates.\<close>

record attempt =
  at_createOk :: bool
  at_lost :: "string \<Rightarrow> bool"
  at_seedOk :: bool
  at_adminOk :: bool
  at_activateOk :: bool
  at_drop :: write_io
  at_roleId :: uuid
  at_ids :: "uuid \<times> uuid"

definition create_tenant_schema :: "bool \<Rightarrow> string \<Rightarrow> unit platform_op" where
  "create_tenant_schema ok n p =
     (if \<not> valid_schema n then (Inl (RawError (InvalidSchemaName n)), p)
      else if \<not> ok then (Inl (RawError (SqlFailed Connection_Lost)), p)
      else (Inr (), (if pf_schemas p n = None then p\<lparr>pf_schemas := (pf_schemas p)(n \<mapsto> empty_schema)\<rparr> else p)))"

text \<open>\<open>INSERT ... ON CONFLICT (name) DO NOTHING\<close>.\<close>

definition seed_role :: "uuid \<Rightarrow> schema \<Rightarrow> schema" where
  "seed_role i s =
     (if list_ex (\<lambda>r. r_name r = SUPER_ADMIN_ROLE_NAME) (roles (td_roles (ts_db s))) then s
      else s\<lparr>ts_db := (ts_db s)\<lparr>td_roles := (td_roles (ts_db s))\<lparr>roles := roles (td_roles (ts_db s)) @ [super_admin_role i]\<rparr>\<rparr>\<rparr>)"

definition seed_tenant_schema :: "(string \<Rightarrow> bool) \<Rightarrow> bool \<Rightarrow> uuid \<Rightarrow> string \<Rightarrow> unit platform_op" where
  "seed_tenant_schema lost seedOk roleId n p =
     (if \<not> valid_schema n then (Inl (RawError (InvalidSchemaName n)), p)
      else case pf_schemas p n of
        None \<Rightarrow> (Inl (RawError (SqlFailed Invalid_Schema)), p)
      | Some s \<Rightarrow>
          (case run_migrations lost n s of
             (Inl e, s') \<Rightarrow> (Inl (RawError (SqlFailed e)), p\<lparr>pf_schemas := (pf_schemas p)(n \<mapsto> s')\<rparr>)
           | (Inr _, s') \<Rightarrow>
               if \<not> seedOk then (Inl (RawError (SqlFailed Connection_Lost)), p\<lparr>pf_schemas := (pf_schemas p)(n \<mapsto> s')\<rparr>)
               else (Inr (), p\<lparr>pf_schemas := (pf_schemas p)(n \<mapsto> seed_role roleId s')\<rparr>)))"

definition invalidate_company_lookup :: "write_io \<Rightarrow> uuid \<Rightarrow> platform \<Rightarrow> platform" where
  "invalidate_company_lookup wio companyId p =
     (case find_one (\<lambda>c. co_id c = companyId) (pf_companies p) of
        None \<Rightarrow> p
      | Some c \<Rightarrow> p\<lparr>pf_lookup := invalidate_subdomain_cache wio (co_subdomain c) (pf_lookup p)\<rparr>)"

definition provision_admin :: "(string \<Rightarrow> string) \<Rightarrow> attempt \<Rightarrow> provision_job \<Rightarrow> unit platform_op" where
  "provision_admin hash a job p =
     (if \<not> (truthy_str (pj_adminEmail job) \<and> truthy_str (pj_adminPassword job)) then (Inr (), p)
      else if \<not> at_adminOk a then (Inl (RawError (SqlFailed Connection_Lost)), p)
      else (case create_super_admin_in_schema hash (at_ids a) (pj_companyId job)
                   \<lparr>na_email = the (pj_adminEmail job), na_name = the (pj_adminEmail job), na_password = the (pj_adminPassword job)\<rparr> p of
              (Inl e, p') \<Rightarrow> (Inl e, p')
            | (Inr _, p') \<Rightarrow> (Inr (), p')))"

definition activate :: "attempt \<Rightarrow> provision_job \<Rightarrow> unit platform_op" where
  "activate a job p =
     (if \<not> at_activateOk a then (Inl (RawError (SqlFailed Connection_Lost)), p)
      else (Inr (), invalidate_company_lookup (at_drop a) (pj_companyId job)
              (update_company (pj_companyId job) (\<lambda>c. c\<lparr>co_isActive := True\<rparr>) p)))"

definition op_then :: "unit platform_op \<Rightarrow> unit platform_op \<Rightarrow> unit platform_op" where
  "op_then f g p = (case f p of (Inl e, p') \<Rightarrow> (Inl e, p') | (Inr _, p') \<Rightarrow> g p')"

definition process_job :: "(string \<Rightarrow> string) \<Rightarrow> attempt \<Rightarrow> provision_job \<Rightarrow> unit platform_op" where
  "process_job hash a job =
     op_then (create_tenant_schema (at_createOk a) (pj_schemaName job))
       (op_then (seed_tenant_schema (at_lost a) (at_seedOk a) (at_roleId a) (pj_schemaName job))
          (op_then (provision_admin hash a job) (activate a job)))"

definition handle_failed :: "write_io \<Rightarrow> nat \<Rightarrow> provision_job \<Rightarrow> platform \<Rightarrow> platform" where
  "handle_failed wio attemptsMade job p =
     (if attemptsMade < PROVISION_ATTEMPTS then p
      else invalidate_company_lookup wio (pj_companyId job)
             (update_company (pj_companyId job) (\<lambda>c. c\<lparr>co_isActive := False, co_status := SUSPENDED\<rparr>) p))"

text \<open>
  What the queue does with a job: it runs the attempts one after the other until one succeeds or the configured number
  is exhausted, and reports each failure. \<open>made\<close> counts the attempts that failed.
\<close>

fun deliver :: "(string \<Rightarrow> string) \<Rightarrow> nat \<Rightarrow> attempt list \<Rightarrow> provision_job \<Rightarrow> platform \<Rightarrow> platform" where
  "deliver hash made [] job p = p"
| "deliver hash made (a # as) job p =
     (case process_job hash a job p of
        (Inr _, p') \<Rightarrow> p'
      | (Inl e, p') \<Rightarrow>
          let p2 = handle_failed (at_drop a) (Suc made) job p'
          in if Suc made < PROVISION_ATTEMPTS then deliver hash (Suc made) as job p2 else p2)"

end
