(* ===== verification/TenantMigrationLaws.thy ===== *)
theory TenantMigrationLaws
  imports TenantMigrations
begin

text \<open>
  Laws of the tenant migrations: a run can be interrupted and resumed, a recorded \<open>0001\<close> means every base table, the
  late uniqueness rules collapse duplicates first, a fresh schema has the keys the use cases rely on under every name,
  and the fan-out isolates the tenants. Statements are evaluated on the empty schema; the names of the plain indexes,
  which depend on the tenant, are handled by a simulation.
\<close>

subsection \<open>Statements keep tables and markers\<close>

lemma map_of_alter: "map_of (map (\<lambda>(u, d). (u, if u = t then f d else d)) xs) v = (if v = t then map_option f (map_of xs v) else map_of xs v)"
  by (induction xs) auto

lemma table_def_alter [simp]: "table_def u (alter_table t f s) = (if u = t then map_option f (table_def u s) else table_def u s)"
  by (simp add: table_def_def alter_table_def map_of_alter)

lemma alter_fields [simp]:
  "ts_marker (alter_table t f s) = ts_marker s" "ts_indexes (alter_table t f s) = ts_indexes s"
  "ts_rows (alter_table t f s) = ts_rows s" "ts_db (alter_table t f s) = ts_db s"
  by (simp_all add: alter_table_def)

lemma set_rows_fields [simp]:
  "ts_marker (set_rows t f s) = ts_marker s" "ts_tables (set_rows t f s) = ts_tables s" "ts_indexes (set_rows t f s) = ts_indexes s"
  "ts_db (set_rows t f s) = ts_db s" "table_def u (set_rows t f s) = table_def u s"
  by (simp_all add: set_rows_def table_def_def)

lemma has_table_simps [simp]:
  "has_table v (alter_table t f s) = has_table v s" "has_table v (set_rows t g s) = has_table v s"
  "has_table v (s\<lparr>ts_indexes := ix\<rparr>) = has_table v s" "has_table v (s\<lparr>ts_db := db\<rparr>) = has_table v s"
  "has_table v (s\<lparr>ts_marker := m\<rparr>) = has_table v s"
  "has_table v (s\<lparr>ts_tables := ts_tables s @ [(t, d)]\<rparr>) = (v = t \<or> has_table v s)"
  by (auto simp: has_table_def table_def_def alter_table_def map_of_alter map_add_def split: option.splits)

lemma restrict_fields [simp]:
  "ts_marker (fold (\<lambda>(t, c, u). alter_table t (\<lambda>(cs, ks). (cs, restrict_first c u ks))) xs s) = ts_marker s"
  "has_table v (fold (\<lambda>(t, c, u). alter_table t (\<lambda>(cs, ks). (cs, restrict_first c u ks))) xs s) = has_table v s"
  by (induction xs arbitrary: s) (auto split: prod.splits)

lemma exec_marker: "exec d s = Inr s' \<Longrightarrow> ts_marker s' = ts_marker s"
  by (cases d) (auto split: if_splits option.splits sum.splits)

lemma exec_keeps_table: "exec d s = Inr s' \<Longrightarrow> has_table t s \<Longrightarrow> has_table t s'"
  by (cases d) (auto split: if_splits option.splits sum.splits)

lemma exec_all_marker: "exec_all ds s = Inr s' \<Longrightarrow> ts_marker s' = ts_marker s"
  by (induction ds arbitrary: s) (auto split: sum.splits dest!: exec_marker)

lemma exec_all_keeps_table: "exec_all ds s = Inr s' \<Longrightarrow> has_table t s \<Longrightarrow> has_table t s'"
  by (induction ds arbitrary: s) (auto split: sum.splits dest: exec_keeps_table)

lemma exec_all_creates: "exec_all ds s = Inr s' \<Longrightarrow> Create_Table t cs ks \<in> set ds \<Longrightarrow> has_table t s'"
proof (induction ds arbitrary: s)
  case (Cons d ds)
  from Cons.prems(1) obtain s1 where s1: "exec d s = Inr s1" "exec_all ds s1 = Inr s'" by (auto split: sum.splits)
  show ?case
  proof (cases "Create_Table t cs ks \<in> set ds")
    case True
    then show ?thesis by (rule Cons.IH [OF s1(2)])
  next
    case False
    with Cons.prems(2) s1(1) have "has_table t s1" by (auto split: if_splits)
    then show ?thesis by (rule exec_all_keeps_table [OF s1(2)])
  qed
qed simp

subsection \<open>What a recorded migration guarantees\<close>

text \<open>Once \<open>0001\<close> is recorded every table of it exists; this is what the reactivation of a tenant relies on.\<close>

definition base_tables :: "table list" where
  "base_tables = [T_users, T_roles, T_role_inheritance, T_user_roles, T_tenant_topic_visibility, T_cycles, T_cycle_weeks,
     T_cycle_material_templates, T_cycle_material_template_courses, T_pdf_design_templates, T_syllabus,
     T_syllabus_distribution, T_onboarding_progress, T_materials, T_material_requests, T_material_request_courses,
     T_material_review_questions, T_material_question_usage]"

definition recorded :: "string \<Rightarrow> schema \<Rightarrow> bool" where
  "recorded i s \<longleftrightarrow> (case ts_marker s of None \<Rightarrow> False | Some xs \<Rightarrow> i \<in> set xs)"

definition schema_ok :: "schema \<Rightarrow> bool" where
  "schema_ok s \<longleftrightarrow> (recorded ''0001_initial_tenant_schema'' s \<longrightarrow> list_all (\<lambda>t. has_table t s) base_tables)"

fun created :: "ddl \<Rightarrow> table list" where
  "created (Create_Table t _ _) = [t]"
| "created _ = []"

lemma created_iff: "t \<in> set (created d) \<longleftrightarrow> (\<exists>cs ks. d = Create_Table t cs ks)"
  by (cases d) auto

lemma initial_creates: "list_all (\<lambda>t. t \<in> set (concat (map created (snd initial_tenant_schema n)))) base_tables"
  by code_simp

lemma initial_ok: "exec_all (snd initial_tenant_schema n) s = Inr s' \<Longrightarrow> list_all (\<lambda>t. has_table t s') base_tables"
  using initial_creates [of n] exec_all_creates by (fastforce simp: list_all_iff created_iff)

lemma apply_migration_Inr:
  assumes "apply_migration lost n m s = Inr s'"
  shows "\<not> lost (fst m)" "recorded (fst m) s'" "recorded i s' \<longleftrightarrow> i = fst m \<or> recorded i s" "has_table t s \<Longrightarrow> has_table t s'"
    "apply_migration (\<lambda>_. False) n m s = Inr s'"
proof -
  from assms obtain s1 xs where s1: "\<not> lost (fst m)" "exec_all (snd m n) s = Inr s1" "ts_marker s1 = Some xs" "fst m \<notin> set xs"
    "s' = s1\<lparr>ts_marker := Some (xs @ [fst m])\<rparr>"
    by (auto simp: apply_migration_def split: prod.splits if_splits sum.splits option.splits)
  from s1 exec_all_marker [OF s1(2)] show "\<not> lost (fst m)" "recorded (fst m) s'" "recorded i s' \<longleftrightarrow> i = fst m \<or> recorded i s"
    by (auto simp: recorded_def)
  show "has_table t s \<Longrightarrow> has_table t s'" using s1(5) exec_all_keeps_table [OF s1(2)] by simp
  show "apply_migration (\<lambda>_. False) n m s = Inr s'" using s1 by (cases m) (simp add: apply_migration_def)
qed

lemma apply_migration_ok:
  assumes "apply_migration lost n m s = Inr s'" and "schema_ok s" and "m \<in> set tenant_migrations"
  shows "schema_ok s'"
proof (cases "recorded ''0001_initial_tenant_schema'' s")
  case True
  with assms(2) have "list_all (\<lambda>t. has_table t s) base_tables" by (simp add: schema_ok_def)
  with apply_migration_Inr(4) [OF assms(1)] show ?thesis by (auto simp: schema_ok_def list_all_iff)
next
  case False
  show ?thesis
  proof (cases "fst m = ''0001_initial_tenant_schema''")
    case True
    with assms(3) have m: "m = initial_tenant_schema"
      by (auto simp: tenant_migrations_def material_request_indexes_def reconcile_super_admin_permissions_def tenant_integrity_constraints_def
          users_force_password_reset_def material_and_default_design_uniqueness_def onboarding_progress_per_user_def fk_join_indexes_def
          material_question_usage_natural_key_def material_request_course_pdf_metrics_def syllabus_distribution_null_safe_unique_def
          users_tokens_valid_after_def)
    from assms(1) obtain s1 xs where s1: "exec_all (snd m n) s = Inr s1" "s' = s1\<lparr>ts_marker := Some xs\<rparr>"
      by (auto simp: apply_migration_def split: prod.splits if_splits sum.splits option.splits)
    with initial_ok [of n s s1] m show ?thesis by (simp add: schema_ok_def)
  next
    case f: False
    with False apply_migration_Inr(3) [OF assms(1)] show ?thesis by (simp add: schema_ok_def)
  qed
qed

lemma apply_pending_ok:
  "apply_pending lost n A ms s = (r, s') \<Longrightarrow> schema_ok s \<Longrightarrow> set ms \<subseteq> set tenant_migrations \<Longrightarrow> schema_ok s'"
  by (induction ms arbitrary: s) (auto split: if_splits sum.splits dest: apply_migration_ok)

lemma apply_pending_keeps_table: "apply_pending lost n A ms s = (r, s') \<Longrightarrow> has_table t s \<Longrightarrow> has_table t s'"
  by (induction ms arbitrary: s) (auto split: if_splits sum.splits dest: apply_migration_Inr(4))

lemma apply_pending_recorded:
  "apply_pending lost n A ms s = (r, s') \<Longrightarrow> recorded i s \<Longrightarrow> recorded i s'"
  by (induction ms arbitrary: s) (auto split: if_splits sum.splits dest: apply_migration_Inr(3))

lemma apply_pending_complete:
  "apply_pending lost n A ms s = (Inr u, s') \<Longrightarrow> (\<And>i. i \<in> set A \<Longrightarrow> recorded i s) \<Longrightarrow> m \<in> set ms \<Longrightarrow> recorded (fst m) s'"
proof (induction ms arbitrary: s)
  case (Cons a ms)
  show ?case
  proof (cases "fst a \<in> set A")
    case True
    with Cons show ?thesis by (auto dest: apply_pending_recorded)
  next
    case False
    with Cons.prems(1) obtain s1 where s1: "apply_migration lost n a s = Inr s1" "apply_pending lost n A ms s1 = (Inr u, s')"
      by (auto split: sum.splits)
    note rec = apply_migration_Inr(2,3) [OF s1(1)]
    show ?thesis
    proof (cases "m = a")
      case True
      with apply_pending_recorded [OF s1(2) rec(1)] show ?thesis by simp
    next
      case False
      with Cons.prems(2,3) rec(2) show ?thesis by (intro Cons.IH [OF s1(2)]) auto
    qed
  qed
qed simp

lemma apply_pending_cong:
  "(\<And>x. x \<in> set ms \<Longrightarrow> fst x \<in> set A \<longleftrightarrow> fst x \<in> set B) \<Longrightarrow> apply_pending lost n A ms s = apply_pending lost n B ms s"
  by (induction ms arbitrary: s) (auto split: sum.splits)

text \<open>A run resumed where another stopped does what the undisturbed run does.\<close>

lemma apply_pending_resumes:
  assumes "apply_pending lost n A ms s = (r, s1)" and "distinct (map fst ms)"
    and "\<And>m. m \<in> set ms \<Longrightarrow> fst m \<in> set A \<longleftrightarrow> recorded (fst m) s"
    and "\<And>i. i \<in> set B \<longleftrightarrow> recorded i s1"
  shows "apply_pending (\<lambda>_. False) n B ms s1 = apply_pending (\<lambda>_. False) n A ms s"
  using assms
proof (induction ms arbitrary: s A)
  case (Cons m ms)
  show ?case
  proof (cases "fst m \<in> set A")
    case True
    with Cons.prems have "apply_pending lost n A ms s = (r, s1)" by simp
    moreover from this True Cons.prems(3,4) have "fst m \<in> set B" by (auto dest: apply_pending_recorded)
    ultimately show ?thesis using Cons.IH [of A s] Cons.prems True by simp
  next
    case False
    show ?thesis
    proof (cases "apply_migration lost n m s")
      case (Inl e)
      with False Cons.prems(1) have same: "s1 = s" by simp
      have "apply_pending (\<lambda>_. False) n B (m # ms) s = apply_pending (\<lambda>_. False) n A (m # ms) s"
      proof (rule sym, rule apply_pending_cong)
        fix x assume "x \<in> set (m # ms)"
        with Cons.prems(3,4) same show "fst x \<in> set A \<longleftrightarrow> fst x \<in> set B" by simp
      qed
      with same show ?thesis by simp
    next
      case (Inr s2)
      note rec = apply_migration_Inr [OF Inr]
      from False Inr Cons.prems(1) have run: "apply_pending lost n A ms s2 = (r, s1)" by simp
      from apply_pending_recorded [OF run rec(2)] Cons.prems(4) have "fst m \<in> set B" by simp
      moreover have "apply_pending (\<lambda>_. False) n B ms s1 = apply_pending (\<lambda>_. False) n A ms s2"
      proof (rule Cons.IH [OF run])
        fix x assume x: "x \<in> set ms"
        with Cons.prems(2) have "fst x \<noteq> fst m" by (auto simp: image_iff)
        with x Cons.prems(3) rec(3) show "fst x \<in> set A \<longleftrightarrow> recorded (fst x) s2" by simp
      qed (use Cons.prems in auto)
      ultimately show ?thesis using False rec(5) by simp
    qed
  qed
qed simp

lemma migration_ids: "distinct (map fst tenant_migrations)"
  by code_simp

lemma run_migrations_pending:
  "valid_schema n \<Longrightarrow> run_migrations lost n s = apply_pending lost n (the (ts_marker (ensure_marker s))) tenant_migrations (ensure_marker s)"
  by (simp add: run_migrations_def ensure_marker_def)

lemma recorded_ensure [simp]: "recorded i (ensure_marker s) = recorded i s" "schema_ok (ensure_marker s) = schema_ok s"
  "has_table t (ensure_marker s) = has_table t s"
  by (auto simp: recorded_def schema_ok_def ensure_marker_def list_all_iff split: option.splits)

lemma set_marker [simp]: "i \<in> set (the (ts_marker (ensure_marker s))) \<longleftrightarrow> recorded i s"
  by (simp add: ensure_marker_def recorded_def split: option.splits)

lemma run_migrations_ok: "run_migrations lost n s = (r, s') \<Longrightarrow> schema_ok s \<Longrightarrow> schema_ok s'"
  using apply_pending_ok [of lost n "the (ts_marker (ensure_marker s))" tenant_migrations "ensure_marker s"]
  by (cases "valid_schema n") (simp_all add: run_migrations_pending, simp add: run_migrations_def)

lemma apply_pending_nothing: "(\<And>m. m \<in> set ms \<Longrightarrow> fst m \<in> set A) \<Longrightarrow> apply_pending lost n A ms s = (Inr (), s)"
  by (induction ms) auto

lemma marker_kept: "apply_pending lost n A ms s = (r, s') \<Longrightarrow> ts_marker s \<noteq> None \<Longrightarrow> ts_marker s' \<noteq> None"
  by (induction ms arbitrary: s)
     (auto split: if_splits sum.splits prod.splits option.splits simp: apply_migration_def)

lemma marker_ensured: "run_migrations lost n s = (r, s1) \<Longrightarrow> valid_schema n \<Longrightarrow> ensure_marker s1 = s1"
  using marker_kept [of lost n "the (ts_marker (ensure_marker s))" tenant_migrations "ensure_marker s" r s1]
  by (auto simp: run_migrations_pending ensure_marker_def)

lemma run_again:
  assumes "run_migrations lost n s = (r, s1)"
  shows "run_migrations (\<lambda>_. False) n s1 = run_migrations (\<lambda>_. False) n s"
proof (cases "valid_schema n")
  case True
  let ?A = "the (ts_marker (ensure_marker s))"
  from assms True have run: "apply_pending lost n ?A tenant_migrations (ensure_marker s) = (r, s1)" by (simp add: run_migrations_pending)
  have e: "ensure_marker s1 = s1" by (rule marker_ensured [OF assms True])
  have "apply_pending (\<lambda>_. False) n (the (ts_marker s1)) tenant_migrations s1 = apply_pending (\<lambda>_. False) n ?A tenant_migrations (ensure_marker s)"
    using set_marker [of _ s1] e by (intro apply_pending_resumes [OF run migration_ids]) simp_all
  then show ?thesis using True e by (simp add: run_migrations_pending)
qed (use assms in \<open>auto simp: run_migrations_def\<close>)

lemma run_complete:
  assumes "run_migrations lost n s = (Inr (), s1)"
  shows "\<forall>m\<in>set tenant_migrations. recorded (fst m) s1" and "run_migrations lost' n s1 = (Inr (), s1)"
proof -
  have v: "valid_schema n" using assms by (auto simp: run_migrations_def split: if_splits)
  with assms have run: "apply_pending lost n (the (ts_marker (ensure_marker s))) tenant_migrations (ensure_marker s) = (Inr (), s1)"
    by (simp add: run_migrations_pending)
  from apply_pending_complete [OF run] show all: "\<forall>m\<in>set tenant_migrations. recorded (fst m) s1" by simp
  then show "run_migrations lost' n s1 = (Inr (), s1)"
    using v marker_ensured [OF assms v] set_marker [of _ s1] by (simp add: run_migrations_pending apply_pending_nothing)
qed

text \<open>
  C27. The migrations of a tenant can be interrupted anywhere: a run that loses its connection, or that a statement
  rejects, leaves a schema from which an undisturbed run does exactly what it would have done from the start; and a run
  that succeeded has recorded every migration, so that a further run, however disturbed, changes nothing.
\<close>

theorem migrations_resume:
  assumes "run_migrations lost n s = (r, s1)"
  shows "run_migrations (\<lambda>_. False) n s1 = run_migrations (\<lambda>_. False) n s \<and>
    (r = Inr () \<longrightarrow> (\<forall>m\<in>set tenant_migrations. recorded (fst m) s1) \<and> run_migrations lost' n s1 = (Inr (), s1))"
  using run_again [OF assms] run_complete [of lost n s s1] assms by blast

subsection \<open>Duplicates are collapsed before their index is built\<close>

lemma text_less_irrefl: "\<not> text_less a a"
  by (simp add: text_less_def lexordp_irreflexive')

lemma text_less_trans: "text_less a b \<Longrightarrow> text_less b c \<Longrightarrow> text_less a c"
  unfolding text_less_def by (rule lexordp_trans)

lemma text_less_total: "a \<noteq> b \<Longrightarrow> text_less a b \<or> text_less b a"
  using lexordp_linear [of "map (of_char :: char \<Rightarrow> nat) a" "map of_char b"] by (auto simp: text_less_def inj_map_eq_map inj_of_char)

text \<open>The rows a migration orders: their instant is a number, their id a text, and ids are unique.\<close>

definition dated :: "string \<Rightarrow> row list \<Rightarrow> bool" where
  "dated c rows \<longleftrightarrow> (\<forall>r\<in>set rows. \<exists>n i. r c = Num n \<and> r ''id'' = Txt i) \<and> distinct (map (\<lambda>r. r ''id'') rows)"

abbreviation earlier :: "string \<Rightarrow> row \<Rightarrow> row \<Rightarrow> bool" where
  "earlier c \<equiv> row_less [c, ''id'']"

lemma earlier_iff:
  "r c = Num m \<Longrightarrow> s c = Num n \<Longrightarrow> r ''id'' = Txt i \<Longrightarrow> s ''id'' = Txt j \<Longrightarrow> earlier c r s \<longleftrightarrow> m < n \<or> (m = n \<and> text_less i j)"
  by simp

lemma earlier_order:
  assumes "dated c rows"
  shows "r \<in> set rows \<Longrightarrow> \<not> earlier c r r"
    and "r \<in> set rows \<Longrightarrow> s \<in> set rows \<Longrightarrow> r \<noteq> s \<Longrightarrow> earlier c r s \<or> earlier c s r"
    and "r \<in> set rows \<Longrightarrow> s \<in> set rows \<Longrightarrow> q \<in> set rows \<Longrightarrow> earlier c r s \<Longrightarrow> earlier c s q \<Longrightarrow> earlier c r q"
proof -
  from assms obtain n i where v: "\<And>r. r \<in> set rows \<Longrightarrow> r c = Num (n r) \<and> r ''id'' = Txt (i r)" unfolding dated_def by metis
  from assms have inj: "inj_on (\<lambda>r. r ''id'') (set rows)" by (simp add: dated_def distinct_map)
  have e: "earlier c a b \<longleftrightarrow> n a < n b \<or> (n a = n b \<and> text_less (i a) (i b))" if "a \<in> set rows" "b \<in> set rows" for a b
    using v [OF that(1)] v [OF that(2)] by (intro earlier_iff) auto
  show "r \<in> set rows \<Longrightarrow> \<not> earlier c r r" by (simp only: e text_less_irrefl less_irrefl) blast
  show "r \<in> set rows \<Longrightarrow> s \<in> set rows \<Longrightarrow> q \<in> set rows \<Longrightarrow> earlier c r s \<Longrightarrow> earlier c s q \<Longrightarrow> earlier c r q"
    by (simp only: e) (auto intro: text_less_trans)
  assume rs: "r \<in> set rows" "s \<in> set rows" "r \<noteq> s"
  with inj v have "i r \<noteq> i s" by (metis inj_onD)
  then show "earlier c r s \<or> earlier c s r" using text_less_total [of "i r" "i s"] by (simp only: e [OF rs(1,2)] e [OF rs(2,1)]) auto
qed

lemma keep_first_unique:
  assumes "dated c rows"
  shows "distinct (map (row_key ks) (keep_first ks [c, ''id''] rows))"
    and "row_key ks ` set (keep_first ks [c, ''id''] rows) = row_key ks ` set rows"
proof -
  let ?kept = "keep_first ks [c, ''id''] rows"
  have in_kept: "r \<in> set ?kept \<longleftrightarrow> r \<in> set rows \<and> (\<forall>s\<in>set rows. row_key ks s = row_key ks r \<longrightarrow> \<not> earlier c s r)" for r
    by (auto simp: keep_first_def list_ex_iff)
  from assms have "distinct rows" by (auto simp: dated_def distinct_map)
  then have "distinct ?kept" by (simp add: keep_first_def)
  moreover have "inj_on (row_key ks) (set ?kept)"
    using earlier_order(2) [OF assms] in_kept by (intro inj_onI) metis
  ultimately show "distinct (map (row_key ks) ?kept)" by (simp add: distinct_map)
  show "row_key ks ` set ?kept = row_key ks ` set rows"
  proof (intro equalityI image_subsetI)
    fix r assume r: "r \<in> set rows"
    let ?same = "{s \<in> set rows. row_key ks s = row_key ks r}"
    have "\<exists>m\<in>?same. \<forall>x\<in>?same. x \<noteq> m \<longrightarrow> \<not> earlier c x m"
    proof (rule Finite_Set.bex_min_element)
      show "asymp_on ?same (earlier c)" using earlier_order [OF assms] by (intro asymp_onI) blast
      show "transp_on ?same (earlier c)" using earlier_order(3) [OF assms] by (intro transp_onI) blast
    qed (use r in auto)
    then obtain m where "m \<in> ?same" "\<forall>x\<in>?same. x \<noteq> m \<longrightarrow> \<not> earlier c x m" by blast
    with earlier_order(1) [OF assms] in_kept [of m] show "row_key ks r \<in> row_key ks ` set ?kept" by (intro image_eqI [of _ _ m]) auto
  qed (use in_kept in auto)
qed

lemma unique_rows_distinct: "distinct (map (row_key ks) rows) \<Longrightarrow> unique_rows ks Every rows"
  by (simp add: unique_rows_def)

lemma index_on_collapsed:
  assumes "has_table t s" and "\<forall>k\<in>set ks. part_column k \<in> set (columns_of t s)" and "t \<noteq> T_users" "t \<noteq> T_roles"
    and "unique_rows ks Every (ts_rows s t)"
  shows "\<exists>s'. exec (Create_Index True nm t ks Every) s = Inr s' \<and> ts_rows s' = ts_rows s"
proof -
  have "rows_of t s = ts_rows s t" using assms(3,4) by (cases t) (simp_all add: rows_of_def)
  with assms show ?thesis by (simp add: list_all_iff)
qed

lemma columns_kept [simp]: "columns_of t (set_rows u f s) = columns_of t s"
  "columns_of t (alter_table u (\<lambda>(cs, ks). (cs, g ks)) s) = columns_of t s"
  by (auto simp: columns_of_def split: option.splits)

lemma ts_rows_set [simp]: "ts_rows (set_rows t f s) = (ts_rows s)(t := f (ts_rows s t))"
  by (simp add: set_rows_def)

text \<open>
  The two late uniqueness rules cannot brick a tenant: whatever duplicates the usage ledger and the syllabus
  distributions hold, \<open>0009\<close> and \<open>0011\<close> succeed, leave one row per key (cells without a template included), namely
  the earliest, and lose no key.
\<close>

lemma duplicates_collapse:
  assumes "has_table T_material_question_usage s" "has_table T_syllabus_distribution s"
    and "\<forall>k\<in>set usage_key. part_column k \<in> set (columns_of T_material_question_usage s)"
    and "\<forall>k\<in>set cell_key. part_column k \<in> set (columns_of T_syllabus_distribution s)"
    and "dated ''used_at'' (ts_rows s T_material_question_usage)" "dated ''created_at'' (ts_rows s T_syllabus_distribution)"
  shows "(\<exists>s'. exec_all (snd material_question_usage_natural_key n) s = Inr s' \<and>
      ts_rows s' T_material_question_usage = keep_first usage_key [''used_at'', ''id''] (ts_rows s T_material_question_usage) \<and>
      distinct (map (row_key usage_key) (ts_rows s' T_material_question_usage)) \<and>
      row_key usage_key ` set (ts_rows s' T_material_question_usage) = row_key usage_key ` set (ts_rows s T_material_question_usage)) \<and>
    (\<exists>s'. exec_all (snd syllabus_distribution_null_safe_unique n) s = Inr s' \<and>
      ts_rows s' T_syllabus_distribution = keep_first cell_key [''created_at'', ''id''] (ts_rows s T_syllabus_distribution) \<and>
      distinct (map (row_key cell_key) (ts_rows s' T_syllabus_distribution)) \<and>
      row_key cell_key ` set (ts_rows s' T_syllabus_distribution) = row_key cell_key ` set (ts_rows s T_syllabus_distribution))"
proof
  note u = keep_first_unique [OF assms(5), of usage_key] and d = keep_first_unique [OF assms(6), of cell_key]
  let ?u = "set_rows T_material_question_usage (keep_first usage_key [''used_at'', ''id'']) s"
  let ?d = "alter_table T_syllabus_distribution (\<lambda>(cs, ks). (cs, filter (\<lambda>k. constraint_name k \<noteq> ''uq_syllabus_template_week_topic_subtopic'') ks))
    (set_rows T_syllabus_distribution (keep_first cell_key [''created_at'', ''id'']) s)"
  have "\<exists>s'. exec (Create_Index True ''uq_material_question_usage_request_course_question'' T_material_question_usage usage_key Every) ?u = Inr s' \<and> ts_rows s' = ts_rows ?u"
    using assms(1,3) u by (intro index_on_collapsed) (simp_all add: unique_rows_distinct)
  then show "\<exists>s'. exec_all (snd material_question_usage_natural_key n) s = Inr s' \<and>
      ts_rows s' T_material_question_usage = keep_first usage_key [''used_at'', ''id''] (ts_rows s T_material_question_usage) \<and>
      distinct (map (row_key usage_key) (ts_rows s' T_material_question_usage)) \<and>
      row_key usage_key ` set (ts_rows s' T_material_question_usage) = row_key usage_key ` set (ts_rows s T_material_question_usage)"
    using assms(1) u by (auto simp: material_question_usage_natural_key_def simp del: exec.simps(2))
  have "\<exists>s'. exec (Create_Index True ''uq_syllabus_distribution_template_week_topic_subtopic'' T_syllabus_distribution cell_key Every) ?d = Inr s' \<and> ts_rows s' = ts_rows ?d"
    using assms(2,4) d by (intro index_on_collapsed) (simp_all add: unique_rows_distinct)
  then show "\<exists>s'. exec_all (snd syllabus_distribution_null_safe_unique n) s = Inr s' \<and>
      ts_rows s' T_syllabus_distribution = keep_first cell_key [''created_at'', ''id''] (ts_rows s T_syllabus_distribution) \<and>
      distinct (map (row_key cell_key) (ts_rows s' T_syllabus_distribution)) \<and>
      row_key cell_key ` set (ts_rows s' T_syllabus_distribution) = row_key cell_key ` set (ts_rows s T_syllabus_distribution)"
    using assms(2) d by (auto simp: syllabus_distribution_null_safe_unique_def simp del: exec.simps(2))
qed

subsection \<open>The names of the indexes of \<open>0002\<close>\<close>

text \<open>
  A schema named after a uuid has 43 characters, and the prefix leaves 15 of the name: the second, the third and the
  fourth index of \<open>0002\<close> are taken for the first and never built.
\<close>

lemma take_prefix: "k \<le> length p \<Longrightarrow> take k (p @ a) = take k (p @ b)"
  by simp

lemma long_names_meet:
  assumes "43 \<le> length n"
  shows "pg_name (''idx_'' @ n @ ''_material_requests_status'') = pg_name (''idx_'' @ n @ ''_material_requests_cycle_week'')"
    "pg_name (''idx_'' @ n @ ''_material_requests_material_id'') = pg_name (''idx_'' @ n @ ''_material_requests_cycle_week'')"
    "pg_name (''idx_'' @ n @ ''_material_request_courses_request'') = pg_name (''idx_'' @ n @ ''_material_requests_cycle_week'')"
  using assms take_prefix [of 63 "''idx_'' @ n @ ''_material_reques''" "''ts_status''" "''ts_cycle_week''"]
    take_prefix [of 63 "''idx_'' @ n @ ''_material_reques''" "''ts_material_id''" "''ts_cycle_week''"]
    take_prefix [of 63 "''idx_'' @ n @ ''_material_reques''" "''t_courses_request''" "''ts_cycle_week''"]
  by (simp_all add: pg_name_def)

lemma indexes_not_built:
  assumes "43 \<le> length n" and "exec_all (snd material_request_indexes n) s = Inr s'"
  shows "set (ts_indexes s') - set (ts_indexes s) \<subseteq>
    {i. (ix_table i, ix_key i) \<in> {(T_material_requests, [Col ''cycle_id'', Col ''week_number'']), (T_material_review_questions, [Col ''material_request_id''])}}"
  using assms(2) unfolding material_request_indexes_def snd_conv exec_all.simps exec.simps long_names_meet [OF assms(1)]
  by (auto split: if_splits sum.splits)

subsection \<open>What a fresh schema guarantees\<close>

text \<open>
  The names of the plain indexes depend on the schema; nothing else does. Two schemas that differ only in their plain
  indexes answer every statement alike, as long as no statement on a unique index uses the name of a plain one.
\<close>

definition plain_name :: "string \<Rightarrow> bool" where
  "plain_name x \<longleftrightarrow> take 4 x = ''idx_'' \<and> x \<noteq> ''idx_tenant_default''"

definition plain_names :: "index list \<Rightarrow> bool" where
  "plain_names is' \<longleftrightarrow> (\<forall>i\<in>set is'. ix_unique i \<noteq> plain_name (ix_name i))"

fun alike :: "ddl \<Rightarrow> ddl \<Rightarrow> bool" where
  "alike (Create_Index u m t ks p) d =
     (case d of Create_Index u' m' t' ks' p' \<Rightarrow> u' = u \<and> t' = t \<and> ks' = ks \<and> p' = p \<and>
        plain_name (pg_name m') = (\<not> u) \<and> plain_name (pg_name m) = (\<not> u) \<and> (u \<longrightarrow> m' = m) | _ \<Rightarrow> False)"
| "alike (Drop_Index m) d = (d = Drop_Index m \<and> \<not> plain_name (pg_name m))"
| "alike e d = (d = e)"

definition twins :: "schema \<Rightarrow> schema \<Rightarrow> bool" where
  "twins s t \<longleftrightarrow> t = s\<lparr>ts_indexes := ts_indexes t\<rparr> \<and> filter ix_unique (ts_indexes t) = filter ix_unique (ts_indexes s) \<and>
     plain_names (ts_indexes s) \<and> plain_names (ts_indexes t)"

lemma twinsE:
  assumes "twins s t"
  obtains X where "t = s\<lparr>ts_indexes := X\<rparr>" "filter ix_unique X = filter ix_unique (ts_indexes s)" "plain_names (ts_indexes s)" "plain_names X"
  using assms unfolding twins_def by blast

lemma unique_name_iff:
  assumes "\<not> plain_name x" and "plain_names xs" and "plain_names ys" and "filter ix_unique xs = filter ix_unique ys"
  shows "x \<in> ix_name ` set xs \<longleftrightarrow> x \<in> ix_name ` set ys"
proof -
  have "x \<in> ix_name ` set zs \<longleftrightarrow> x \<in> ix_name ` set (filter ix_unique zs)" if "plain_names zs" for zs
    using that assms(1) by (force simp: plain_names_def)
  with assms(2-4) show ?thesis by metis
qed

lemma with_indexes [simp]:
  "columns_of t (s\<lparr>ts_indexes := X\<rparr>) = columns_of t s" "rows_of t (s\<lparr>ts_indexes := X\<rparr>) = rows_of t s"
  "table_def t (s\<lparr>ts_indexes := X\<rparr>) = table_def t s"
  "set_rows t f (s\<lparr>ts_indexes := X\<rparr>) = (set_rows t f s)\<lparr>ts_indexes := X\<rparr>"
  "alter_table t g (s\<lparr>ts_indexes := X\<rparr>) = (alter_table t g s)\<lparr>ts_indexes := X\<rparr>"
  by (auto simp: columns_of_def table_def_def rows_of_def set_rows_def alter_table_def split: table.splits)

lemma rows_satisfy_indexes [simp]: "rows_satisfy (s\<lparr>ts_indexes := X\<rparr>) t k = rows_satisfy s t k"
  by (induction s t k rule: rows_satisfy.induct) simp_all

lemma restrict_indexes [simp]:
  "fold (\<lambda>(t, c, u). alter_table t (\<lambda>(cs, ks). (cs, restrict_first c u ks))) xs (s\<lparr>ts_indexes := X\<rparr>) =
   (fold (\<lambda>(t, c, u). alter_table t (\<lambda>(cs, ks). (cs, restrict_first c u ks))) xs s)\<lparr>ts_indexes := X\<rparr>"
  "ts_indexes (fold (\<lambda>(t, c, u). alter_table t (\<lambda>(cs, ks). (cs, restrict_first c u ks))) xs s) = ts_indexes s"
  by (induction xs arbitrary: s) (auto split: prod.splits)

lemma filter_commute: "filter p (filter q xs) = filter q (filter p xs)"
  by (simp add: conj_commute)

lemma twins_dropped: "twins s t \<Longrightarrow> twins (s\<lparr>ts_indexes := filter p (ts_indexes s)\<rparr>) (t\<lparr>ts_indexes := filter p (ts_indexes t)\<rparr>)"
  by (erule twinsE) (auto simp: twins_def plain_names_def filter_commute [of ix_unique p] simp del: filter_filter)

lemma twins_alter: "twins s t \<Longrightarrow> twins (alter_table v f s) (alter_table v f t)"
  by (erule twinsE) (simp add: twins_def)

lemma exec_twins:
  assumes "alike d d'" and "twins s t" and "exec d s = Inr s'"
  shows "\<exists>t'. exec d' t = Inr t' \<and> twins s' t'"
proof -
  from assms(2) obtain X where t: "t = s\<lparr>ts_indexes := X\<rparr>" "filter ix_unique X = filter ix_unique (ts_indexes s)"
    "plain_names (ts_indexes s)" "plain_names X" by (rule twinsE)
  show ?thesis
  proof (cases d)
    case (Create_Index u m v ks p)
    with assms(1) obtain m' where d': "d' = Create_Index u m' v ks p" "plain_name (pg_name m') = (\<not> u)" "plain_name (pg_name m) = (\<not> u)"
      "u \<longrightarrow> m' = m" by (cases d') auto
    show ?thesis
    proof (cases u)
      case True
      with unique_name_iff [OF _ t(3,4) t(2) [symmetric], of "pg_name m"] d' assms(3) t(2-4) show ?thesis
        unfolding Create_Index t(1) d'(1) by (auto simp: twins_def plain_names_def split: if_splits)
    next
      case False
      with d' assms(3) t(2-4) show ?thesis
        unfolding Create_Index t(1) d'(1) by (auto simp: twins_def plain_names_def split: if_splits)
    qed
  next
    case (Drop_Index m)
    with assms twins_dropped [OF assms(2)] show ?thesis by auto
  next
    case (Drop_Column v n)
    let ?f = "\<lambda>(cs, ks). (filter (\<lambda>c. cl_name c \<noteq> n) cs, filter (\<lambda>k. n \<notin> set (constraint_columns k)) ks)"
    from twins_dropped [OF twins_alter [OF assms(2)], of _ v ?f] Drop_Column assms(1,3) t(1) show ?thesis
      by (auto split: if_splits)
  qed (use assms t in \<open>auto simp: twins_def split: if_splits option.splits sum.splits\<close>)
qed

lemma exec_all_twins:
  assumes "list_all2 alike ds ds'" and "twins s t" and "exec_all ds s = Inr s'"
  shows "\<exists>t'. exec_all ds' t = Inr t' \<and> twins s' t'"
  using assms
proof (induction ds ds' arbitrary: s t rule: list_all2_induct)
  case (Cons d ds d' ds')
  from Cons.prems(2) obtain s1 where s1: "exec d s = Inr s1" "exec_all ds s1 = Inr s'" by (auto split: sum.splits)
  from exec_twins [OF Cons.hyps(1) Cons.prems(1) s1(1)] obtain t1 where "exec d' t = Inr t1" "twins s1 t1" by blast
  with Cons.IH [OF _ s1(2)] show ?case by auto
qed simp

definition alike_migrations :: "string \<Rightarrow> string \<Rightarrow> migration \<Rightarrow> bool" where
  "alike_migrations n n' m \<longleftrightarrow> list_all2 alike (snd m n) (snd m n')"

lemma apply_pending_twins:
  assumes "list_all (alike_migrations n n') ms" and "twins s t" and "apply_pending (\<lambda>_. False) n A ms s = (Inr u, s')"
  shows "\<exists>t'. apply_pending (\<lambda>_. False) n' A ms t = (Inr u, t') \<and> twins s' t'"
  using assms
proof (induction ms arbitrary: s t)
  case (Cons m ms)
  show ?case
  proof (cases "fst m \<in> set A")
    case False
    with Cons.prems(3) obtain s1 where s1: "apply_migration (\<lambda>_. False) n m s = Inr s1" "apply_pending (\<lambda>_. False) n A ms s1 = (Inr u, s')"
      by (auto split: sum.splits)
    then obtain s2 xs where s2: "exec_all (snd m n) s = Inr s2" "ts_marker s2 = Some xs" "fst m \<notin> set xs"
      "s1 = s2\<lparr>ts_marker := Some (xs @ [fst m])\<rparr>"
      by (auto simp: apply_migration_def split: prod.splits sum.splits option.splits if_splits)
    from exec_all_twins [OF _ Cons.prems(2) s2(1)] Cons.prems(1) obtain t2 where t2: "exec_all (snd m n') t = Inr t2" "twins s2 t2"
      by (auto simp: alike_migrations_def)
    from t2(2) obtain X where "t2 = s2\<lparr>ts_indexes := X\<rparr>" by (rule twinsE)
    with s2 t2 have "apply_migration (\<lambda>_. False) n' m t = Inr (t2\<lparr>ts_marker := Some (xs @ [fst m])\<rparr>)" "twins s1 (t2\<lparr>ts_marker := Some (xs @ [fst m])\<rparr>)"
      by (auto simp: apply_migration_def twins_def split: prod.splits)
    with False Cons.IH [OF _ _ s1(2)] Cons.prems(1) show ?thesis by auto
  qed (use Cons in auto)
qed simp

fun alike_itself :: "ddl \<Rightarrow> bool" where
  "alike_itself (Create_Index u m t ks p) = (plain_name (pg_name m) = (\<not> u))"
| "alike_itself (Drop_Index m) = (\<not> plain_name (pg_name m))"
| "alike_itself d = True"

lemma alike_self: "alike_itself d \<Longrightarrow> alike d d"
  by (cases d) auto

lemma list_alike_self: "list_all alike_itself ds \<Longrightarrow> list_all2 alike ds ds"
  by (induction ds) (auto simp: alike_self)

lemma plain_prefixed: "15 \<le> length x \<Longrightarrow> plain_name (pg_name (''idx_'' @ n @ x))"
proof -
  assume "15 \<le> length x"
  then have "length (pg_name (''idx_'' @ n @ x)) \<noteq> length ''idx_tenant_default''" by (simp add: pg_name_def)
  then have "pg_name (''idx_'' @ n @ x) \<noteq> ''idx_tenant_default''" by metis
  then show ?thesis by (simp add: plain_name_def pg_name_def)
qed

lemma alike_prefixed: "15 \<le> length x \<Longrightarrow> alike (Create_Index False (''idx_'' @ n @ x) t ks p) (Create_Index False (''idx_'' @ n' @ x) t ks p)"
  using plain_prefixed [of x n] plain_prefixed [of x n'] by simp

lemma closed_alike: "list_all (\<lambda>m. list_all alike_itself (snd m n)) (drop 2 tenant_migrations)"
  by code_simp

lemma closed_names: "m \<in> set (drop 2 tenant_migrations) \<Longrightarrow> snd m n = snd m n'"
  by (auto simp: tenant_migrations_def reconcile_super_admin_permissions_def tenant_integrity_constraints_def
      users_force_password_reset_def material_and_default_design_uniqueness_def onboarding_progress_per_user_def fk_join_indexes_def
      material_question_usage_natural_key_def material_request_course_pdf_metrics_def syllabus_distribution_null_safe_unique_def
      users_tokens_valid_after_def)

lemma tables_alike_self: "list_all alike_itself [users_table, roles_table, role_inheritance_table, user_roles_table, tenant_topic_visibility_table, cycles_table,
      cycle_weeks_table, cycle_material_templates_table, cycle_material_template_courses_table, pdf_design_templates_table,
      syllabus_table, syllabus_distribution_table, onboarding_progress_table, materials_table, material_requests_table,
      material_request_courses_table, material_review_questions_table, material_question_usage_table]"
  by code_simp

lemma tables_alike:
  "alike users_table users_table"
  "alike roles_table roles_table"
  "alike role_inheritance_table role_inheritance_table"
  "alike user_roles_table user_roles_table"
  "alike tenant_topic_visibility_table tenant_topic_visibility_table"
  "alike cycles_table cycles_table"
  "alike cycle_weeks_table cycle_weeks_table"
  "alike cycle_material_templates_table cycle_material_templates_table"
  "alike cycle_material_template_courses_table cycle_material_template_courses_table"
  "alike pdf_design_templates_table pdf_design_templates_table"
  "alike syllabus_table syllabus_table"
  "alike syllabus_distribution_table syllabus_distribution_table"
  "alike onboarding_progress_table onboarding_progress_table"
  "alike materials_table materials_table"
  "alike material_requests_table material_requests_table"
  "alike material_request_courses_table material_request_courses_table"
  "alike material_review_questions_table material_review_questions_table"
  "alike material_question_usage_table material_question_usage_table"
  using tables_alike_self [THEN list_alike_self] by (simp_all only: list.rel_inject)

lemma prefixed_alike:
  "alike_migrations n n' material_request_indexes"
  "alike_migrations n n' initial_tenant_schema"
proof -
  show "alike_migrations n n' material_request_indexes"
    unfolding alike_migrations_def material_request_indexes_def snd_conv
    by (intro list.rel_intros; rule alike_prefixed; simp)
  show "alike_migrations n n' initial_tenant_schema"
    unfolding alike_migrations_def initial_tenant_schema_def snd_conv
    apply (intro list.rel_intros)
    apply (rule tables_alike)+
    apply (rule alike_self, simp)+
    apply (rule tables_alike)+
    apply (rule alike_prefixed, simp)
    done
qed

lemma all_alike: "list_all (alike_migrations n n') tenant_migrations"
proof -
  have "alike_migrations n n' m" if "m \<in> set (drop 2 tenant_migrations)" for m
    using that closed_alike [of n] closed_names [OF that, of n' n] by (auto simp: alike_migrations_def list_all_iff intro!: list_alike_self)
  then have rest: "list_all (alike_migrations n n') (drop 2 tenant_migrations)" unfolding list_all_iff by blast
  have "tenant_migrations = initial_tenant_schema # material_request_indexes # drop 2 tenant_migrations" by (simp add: tenant_migrations_def)
  then have "list_all (alike_migrations n n') tenant_migrations =
      list_all (alike_migrations n n') (initial_tenant_schema # material_request_indexes # drop 2 tenant_migrations)" by (rule arg_cong)
  then show ?thesis by (simp only: list.pred_inject prefixed_alike rest simp_thms)
qed

text \<open>The catalog after \<open>0002\<close>, for a schema whose name does not make index names meet.\<close>

definition base_catalog :: schema where
  "base_catalog = \<lparr>ts_tables =
      [(T_users, users_columns, users_constraints), (T_roles, roles_columns, roles_constraints),
       (T_role_inheritance, role_inheritance_columns, role_inheritance_constraints),
       (T_user_roles, user_roles_columns, user_roles_constraints),
       (T_tenant_topic_visibility, tenant_topic_visibility_columns, tenant_topic_visibility_constraints),
       (T_cycles, cycles_columns, cycles_constraints), (T_cycle_weeks, cycle_weeks_columns, cycle_weeks_constraints),
       (T_cycle_material_templates, cycle_material_templates_columns, cycle_material_templates_constraints),
       (T_cycle_material_template_courses, cycle_material_template_courses_columns, cycle_material_template_courses_constraints),
       (T_pdf_design_templates, pdf_design_templates_columns, pdf_design_templates_constraints),
       (T_syllabus, syllabus_columns, syllabus_constraints),
       (T_syllabus_distribution, syllabus_distribution_columns, syllabus_distribution_constraints),
       (T_onboarding_progress, onboarding_progress_columns, onboarding_progress_constraints),
       (T_materials, materials_columns, materials_constraints @
          [Foreign_Key ''fk_materials_latest_request'' ''latest_request_id'' (Own T_material_requests) Set_Null]),
       (T_material_requests, material_requests_columns, material_requests_constraints),
       (T_material_request_courses, material_request_courses_columns, material_request_courses_constraints),
       (T_material_review_questions, material_review_questions_columns, material_review_questions_constraints),
       (T_material_question_usage, material_question_usage_columns, material_question_usage_constraints)],
     ts_indexes =
      [\<lparr>ix_name = ''idx_s_material_question_usage_cycle_course_question'', ix_table = T_material_question_usage, ix_unique = False,
         ix_key = [Col ''cycle_id'', Col ''course_id'', Col ''question_id''], ix_where = Every\<rparr>,
       \<lparr>ix_name = ''idx_s_material_requests_cycle_week'', ix_table = T_material_requests, ix_unique = False,
         ix_key = [Col ''cycle_id'', Col ''week_number''], ix_where = Every\<rparr>,
       \<lparr>ix_name = ''idx_s_material_requests_status'', ix_table = T_material_requests, ix_unique = False, ix_key = [Col ''status''], ix_where = Every\<rparr>,
       \<lparr>ix_name = ''idx_s_material_requests_material_id'', ix_table = T_material_requests, ix_unique = False, ix_key = [Col ''material_id''], ix_where = Every\<rparr>,
       \<lparr>ix_name = ''idx_s_material_request_courses_request'', ix_table = T_material_request_courses, ix_unique = False,
         ix_key = [Col ''material_request_id''], ix_where = Every\<rparr>,
       \<lparr>ix_name = ''idx_s_material_review_questions_request'', ix_table = T_material_review_questions, ix_unique = False,
         ix_key = [Col ''material_request_id''], ix_where = Every\<rparr>],
     ts_rows = (\<lambda>_. []), ts_db = \<lparr>td_users = [], td_roles = \<lparr>roles = [], role_inheritance = [], user_roles = []\<rparr>\<rparr>,
     ts_marker = Some [''0001_initial_tenant_schema'', ''0002_material_request_indexes'']\<rparr>"

lemma representative_catalog:
  "case apply_pending (\<lambda>_. False) ''s'' [] (take 2 tenant_migrations) (ensure_marker empty_schema) of (r, s) \<Rightarrow>
     r = Inr () \<and> ts_tables s = ts_tables base_catalog \<and> ts_indexes s = ts_indexes base_catalog \<and> ts_marker s = ts_marker base_catalog"
  by code_simp

fun structural :: "ddl \<Rightarrow> bool" where
  "structural (Create_Table _ _ _) = True"
| "structural (Create_Index _ _ _ _ _) = True"
| "structural (Add_Constraint _ _) = True"
| "structural (Drop_Constraint _ _) = True"
| "structural _ = False"

lemma exec_structural: "structural d \<Longrightarrow> exec d s = Inr s' \<Longrightarrow> ts_rows s' = ts_rows s \<and> ts_db s' = ts_db s"
  by (cases d) (auto split: if_splits option.splits sum.splits)

lemma exec_all_structural: "list_all structural ds \<Longrightarrow> exec_all ds s = Inr s' \<Longrightarrow> ts_rows s' = ts_rows s \<and> ts_db s' = ts_db s"
  by (induction ds arbitrary: s) (auto split: sum.splits dest!: exec_structural)

lemma apply_pending_structural:
  "list_all (\<lambda>m. list_all structural (snd m n)) ms \<Longrightarrow> apply_pending lost n A ms s = (r, s') \<Longrightarrow> ts_rows s' = ts_rows s \<and> ts_db s' = ts_db s"
  by (induction ms arbitrary: s)
     (auto split: if_splits sum.splits prod.splits option.splits simp: apply_migration_def dest!: exec_all_structural)

lemma base_structural: "list_all (\<lambda>m. list_all structural (snd m ''s'')) (take 2 tenant_migrations)"
  by code_simp

lemma representative_base:
  "apply_pending (\<lambda>_. False) ''s'' [] (take 2 tenant_migrations) (ensure_marker empty_schema) = (Inr (), base_catalog)"
proof -
  obtain r s where run: "apply_pending (\<lambda>_. False) ''s'' [] (take 2 tenant_migrations) (ensure_marker empty_schema) = (r, s)" by fastforce
  from representative_catalog [unfolded run] have "r = Inr ()" "ts_tables s = ts_tables base_catalog" "ts_indexes s = ts_indexes base_catalog"
    "ts_marker s = ts_marker base_catalog" by simp_all
  moreover from apply_pending_structural [OF base_structural run] have "ts_rows s = ts_rows base_catalog" "ts_db s = ts_db base_catalog"
    by (simp_all add: ensure_marker_def empty_schema_def base_catalog_def)
  ultimately show ?thesis using run by simp
qed

lemma representative_rest:
  "case apply_pending (\<lambda>_. False) ''s'' [] (drop 2 tenant_migrations) base_catalog of (r, s) \<Rightarrow>
     r = Inr () \<and> cascading_shared s = [(T_tenant_topic_visibility, ''topic_id'')] \<and>
     unique_keys s =
      [(T_syllabus, [Col ''cycle_id'', Col ''course_id''], Where_True ''is_active''),
       (T_cycle_weeks, [Col ''cycle_id'', Col ''week_number''], Where_Null ''deleted_at''),
       (T_materials, [Col ''tenant_id'', Col ''profile_id'', Col ''week_number''], Every),
       (T_pdf_design_templates, [Col ''tenant_id''], Where_True ''is_default''),
       (T_onboarding_progress, [Col ''user_id''], Every),
       (T_material_question_usage, usage_key, Every),
       (T_syllabus_distribution, cell_key, Every)]"
  by code_simp

lemma apply_pending_append:
  "apply_pending lost n A (xs @ ys) s =
     (case apply_pending lost n A xs s of (Inl e, s') \<Rightarrow> (Inl e, s') | (Inr _, s') \<Rightarrow> apply_pending lost n A ys s')"
  by (induction xs arbitrary: s) (auto split: sum.splits)

lemma fresh_run:
  assumes "valid_schema n"
  shows "\<exists>s. run_migrations (\<lambda>_. False) n empty_schema = (Inr (), s) \<and>
    cascading_shared s = [(T_tenant_topic_visibility, ''topic_id'')] \<and>
    unique_keys s =
      [(T_syllabus, [Col ''cycle_id'', Col ''course_id''], Where_True ''is_active''),
       (T_cycle_weeks, [Col ''cycle_id'', Col ''week_number''], Where_Null ''deleted_at''),
       (T_materials, [Col ''tenant_id'', Col ''profile_id'', Col ''week_number''], Every),
       (T_pdf_design_templates, [Col ''tenant_id''], Where_True ''is_default''),
       (T_onboarding_progress, [Col ''user_id''], Every),
       (T_material_question_usage, usage_key, Every),
       (T_syllabus_distribution, cell_key, Every)]"
proof -
  let ?e = "ensure_marker empty_schema"
  from representative_base have "apply_pending (\<lambda>_. False) ''s'' [] (take 2 tenant_migrations @ drop 2 tenant_migrations) ?e =
      apply_pending (\<lambda>_. False) ''s'' [] (drop 2 tenant_migrations) base_catalog"
    by (simp only: apply_pending_append prod.case sum.case)
  with representative_rest obtain s where s: "apply_pending (\<lambda>_. False) ''s'' [] tenant_migrations ?e = (Inr (), s)"
    "cascading_shared s = [(T_tenant_topic_visibility, ''topic_id'')]"
    and keys: "unique_keys s = [(T_syllabus, [Col ''cycle_id'', Col ''course_id''], Where_True ''is_active''),
       (T_cycle_weeks, [Col ''cycle_id'', Col ''week_number''], Where_Null ''deleted_at''),
       (T_materials, [Col ''tenant_id'', Col ''profile_id'', Col ''week_number''], Every),
       (T_pdf_design_templates, [Col ''tenant_id''], Where_True ''is_default''),
       (T_onboarding_progress, [Col ''user_id''], Every),
       (T_material_question_usage, usage_key, Every),
       (T_syllabus_distribution, cell_key, Every)]"
    by (simp split: prod.splits)
  have "twins ?e ?e" by (simp add: twins_def plain_names_def ensure_marker_def empty_schema_def)
  from apply_pending_twins [OF all_alike this s(1), of n] obtain t where
    t: "apply_pending (\<lambda>_. False) n [] tenant_migrations ?e = (Inr (), t)" "twins s t" by blast
  from t(2) obtain X where X: "t = s\<lparr>ts_indexes := X\<rparr>" "filter ix_unique X = filter ix_unique (ts_indexes s)" by (rule twinsE)
  have run: "run_migrations (\<lambda>_. False) n empty_schema = (Inr (), t)"
    using t(1) assms by (simp add: run_migrations_pending ensure_marker_def empty_schema_def)
  moreover from X s(2) keys have "cascading_shared t = cascading_shared s" "unique_keys t = unique_keys s"
    by (simp_all add: cascading_shared_def unique_keys_def)
  ultimately show ?thesis using s(2) keys by auto
qed

lemma run_ok:
  assumes "run_migrations lost n s = (Inr (), t)" and "schema_ok s"
  shows "list_all (\<lambda>u. has_table u t) base_tables"
  using run_migrations_ok [OF assms] run_complete(1) [OF assms(1)]
  by (auto simp: schema_ok_def tenant_migrations_def initial_tenant_schema_def)

lemma empty_schema_ok: "schema_ok empty_schema"
  by (simp add: schema_ok_def recorded_def empty_schema_def)


subsection \<open>The fan-out isolates the tenants\<close>

lemma fan_out_other: "c \<notin> set cs \<Longrightarrow> snd (fold (migrate_company lost) cs acc) (tenant_schema c) = snd acc (tenant_schema c)"
proof (induction cs arbitrary: acc)
  case (Cons a cs)
  then show ?case by (cases acc) (auto simp: migrate_company_def split: option.splits prod.splits sum.splits)
qed simp

lemma migrate_company_own:
  "snd (migrate_company lost c acc) (tenant_schema c) =
    map_option (\<lambda>s. snd (run_migrations (lost c) (tenant_schema c) s)) (snd acc (tenant_schema c))"
  by (cases acc) (auto simp: migrate_company_def split: option.splits prod.splits sum.splits)

lemma fan_out_one:
  assumes "distinct cs" and "c \<in> set cs"
  shows "snd (fold (migrate_company lost) cs acc) (tenant_schema c) =
    map_option (\<lambda>s. snd (run_migrations (lost c) (tenant_schema c) s)) (snd acc (tenant_schema c))"
  using assms
proof (induction cs arbitrary: acc)
  case (Cons a cs)
  show ?case
  proof (cases "a = c")
    case True
    with Cons.prems(1) fan_out_other [of c cs lost "migrate_company lost c acc"] show ?thesis by (simp add: migrate_company_own)
  next
    case False
    then have "snd (migrate_company lost a acc) (tenant_schema c) = snd acc (tenant_schema c)"
      by (cases acc) (auto simp: migrate_company_def split: option.splits prod.splits sum.splits)
    with False Cons show ?thesis by simp
  qed
qed simp

lemma fan_out_counts:
  "(case fst (fold (migrate_company lost) cs (sm, w)) of s \<Rightarrow> ms_migrated s + ms_skipped s + ms_failed s) =
   ms_migrated sm + ms_skipped sm + ms_failed sm + length cs"
proof (induction cs arbitrary: sm w)
  case (Cons a cs)
  obtain sm' w' where m: "migrate_company lost a (sm, w) = (sm', w')" by fastforce
  then have "ms_migrated sm' + ms_skipped sm' + ms_failed sm' = ms_migrated sm + ms_skipped sm + ms_failed sm + 1"
    by (auto simp: migrate_company_def split: option.splits prod.splits sum.splits)
  with Cons.IH [of sm' w'] m show ?case by simp
qed simp

text \<open>
  The fan-out over the tenants: every existing schema ends as if it alone had been migrated, whatever happens to
  the others, no schema is created, and the summary counts every company once.
\<close>

lemma fan_out_isolates:
  assumes "distinct companies" and "run_migrations_for_all_tenants lost companies w = (sm, w')" and "c \<in> set companies"
  shows "w' (tenant_schema c) = map_option (\<lambda>s. snd (run_migrations (lost c) (tenant_schema c) s)) (w (tenant_schema c)) \<and>
    ms_migrated sm + ms_skipped sm + ms_failed sm = length companies"
  using fan_out_one [OF assms(1,3), of lost] fan_out_counts [of lost companies _ w] assms(2)
  by (metis (no_types, lifting) run_migrations_for_all_tenants_def fst_conv snd_conv migration_summary.select_convs(2-4) add_0)

subsection \<open>Samples\<close>

theorem migrations_resume_witness:
  "run_migrations (\<lambda>_. False) ''tenant_a'' (ensure_marker empty_schema) = run_migrations (\<lambda>_. False) ''tenant_a'' empty_schema"
proof -
  have v: "valid_schema ''tenant_a''" by code_simp
  have "run_migrations (\<lambda>_. True) ''tenant_a'' empty_schema = (Inl Connection_Lost, ensure_marker empty_schema)"
    unfolding run_migrations_pending [OF v]
    by (simp add: tenant_migrations_def apply_migration_def initial_tenant_schema_def ensure_marker_def empty_schema_def)
  from migrations_resume [OF this, of "\<lambda>_. False"] show ?thesis by (rule conjunct1)
qed

definition sample_row :: "string \<Rightarrow> int \<Rightarrow> string \<Rightarrow> row" where
  "sample_row c n i = (\<lambda>_. Null)(c := Num n, ''id'' := Txt i)"

definition sample_duplicates :: schema where
  "sample_duplicates = base_catalog\<lparr>ts_rows := (\<lambda>_. [])
     (T_material_question_usage := [sample_row ''used_at'' 2 ''b'', sample_row ''used_at'' 1 ''a''],
      T_syllabus_distribution := [sample_row ''created_at'' 5 ''c'', sample_row ''created_at'' 5 ''d''])\<rparr>"


end
