(* ===== verification/TenancyLaws.thy ===== *)
theory TenancyLaws
  imports Tenancy TenantMigrationLaws
begin

text \<open>
  What tenant administration guarantees: a tenant that requests resolve to has its tables, and a provisioning job
  converges whatever its failed attempts left behind.
\<close>

subsection \<open>A tenant that resolves is built\<close>

definition built :: "platform \<Rightarrow> uuid \<Rightarrow> bool" where
  "built p i \<longleftrightarrow> (\<exists>s. pf_schemas p (tenant_schema i) = Some s \<and> recorded ''0001_initial_tenant_schema'' s)"

text \<open>The states the platform can be in: the requests and jobs run in any order, a job any number of times.\<close>

inductive reachable :: "platform \<Rightarrow> bool" where
  start: "reachable \<lparr>pf_companies = [], pf_schemas = Map.empty, pf_lookup = Map.empty, pf_authRedis = Map.empty, pf_authLocal = [], pf_jobs = []\<rparr>"
| create: "reachable p \<Longrightarrow> reachable (snd (create_tenant seen planOk i now queueOk data p))"
| status: "reachable p \<Longrightarrow> reachable (snd (update_status queueOk wio i st until p))"
| update: "reachable p \<Longrightarrow> reachable (snd (update_tenant planOk wio i changes p))"
| reset: "reachable p \<Longrightarrow> reachable (snd (reset_admin_credentials hash random rv i newEmail newPassword p))"
| provision: "reachable p \<Longrightarrow> j \<in> set (pf_jobs p) \<Longrightarrow> reachable (snd (process_job hash a j p))"
| give_up: "reachable p \<Longrightarrow> j \<in> set (pf_jobs p) \<Longrightarrow> reachable (handle_failed wio k j p)"
| job_gone: "reachable p \<Longrightarrow> reachable (p\<lparr>pf_jobs := remove1 j (pf_jobs p)\<rparr>)"
| add_admin: "reachable p \<Longrightarrow> reachable (snd (create_admin hash ids t newAdmin p))"
| edit_admin: "reachable p \<Longrightarrow> reachable (snd (update_admin t u email name p))"
| admin_password: "reachable p \<Longrightarrow> reachable (snd (update_admin_password hash rv t u pw p))"
| drop_admin: "reachable p \<Longrightarrow> reachable (snd (soft_delete_admin rv t u p))"
| migrate: "reachable p \<Longrightarrow>
    reachable (p\<lparr>pf_schemas := snd (run_migrations_for_all_tenants lost (map co_id (pf_companies p)) (pf_schemas p))\<rparr>)"
| lookup: "reachable p \<Longrightarrow>
    reachable (p\<lparr>pf_lookup := snd (find_by_subdomain ttl rio wio now now' (map company.truncate (pf_companies p)) sd (pf_lookup p))\<rparr>)"

definition platform_ok :: "platform \<Rightarrow> bool" where
  "platform_ok p \<longleftrightarrow>
     (\<forall>n s. pf_schemas p n = Some s \<longrightarrow> schema_ok s) \<and>
     (\<forall>c\<in>set (pf_companies p). co_isActive c \<longrightarrow> built p (co_id c)) \<and>
     (\<forall>k c e. pf_lookup p k = Some (c, e) \<longrightarrow> built p (co_id c)) \<and>
     (\<forall>j\<in>set (pf_jobs p). pj_schemaName j = tenant_schema (pj_companyId j))"

text \<open>Schemas only grow: none disappears, none loses its initial migration, all stay well formed.\<close>

definition grows :: "(string \<rightharpoonup> schema) \<Rightarrow> (string \<rightharpoonup> schema) \<Rightarrow> bool" where
  "grows w w' \<longleftrightarrow> (\<forall>n s. w n = Some s \<longrightarrow> (\<exists>s'. w' n = Some s' \<and> (\<forall>i. recorded i s \<longrightarrow> recorded i s'))) \<and>
     ((\<forall>n s. w n = Some s \<longrightarrow> schema_ok s) \<longrightarrow> (\<forall>n s. w' n = Some s \<longrightarrow> schema_ok s))"

lemma grows_refl [simp]: "grows w w"
  by (auto simp: grows_def)

lemma grows_trans: "grows u v \<Longrightarrow> grows v w \<Longrightarrow> grows u w"
  unfolding grows_def by meson

lemma grows_put:
  assumes "w n = Some s \<or> w n = None" and "\<And>s. w n = Some s \<Longrightarrow> (\<forall>i. recorded i s \<longrightarrow> recorded i s')"
    and "(\<And>n s. w n = Some s \<Longrightarrow> schema_ok s) \<Longrightarrow> schema_ok s'"
  shows "grows w (w(n \<mapsto> s'))"
  using assms unfolding grows_def by auto

lemma with_db [simp]: "schema_ok (s\<lparr>ts_db := db\<rparr>) = schema_ok s" "recorded i (s\<lparr>ts_db := db\<rparr>) = recorded i s"
  by (simp_all add: schema_ok_def recorded_def)

lemma grows_db: "w n = Some s \<Longrightarrow> grows w (w(n \<mapsto> s\<lparr>ts_db := db\<rparr>))"
  by (rule grows_put) auto

lemma grows_built: "grows (pf_schemas p) (pf_schemas p') \<Longrightarrow> built p i \<Longrightarrow> built p' i"
  unfolding grows_def built_def by meson

text \<open>The parts of the platform that an operation on a schema leaves alone.\<close>

definition only_schemas :: "platform \<Rightarrow> platform \<Rightarrow> bool" where
  "only_schemas p p' \<longleftrightarrow> grows (pf_schemas p) (pf_schemas p') \<and> pf_companies p' = pf_companies p \<and>
     pf_lookup p' = pf_lookup p \<and> pf_jobs p' = pf_jobs p"

lemma only_schemas_refl [simp]: "only_schemas p p"
  by (simp add: only_schemas_def)

lemma only_schemas_trans: "only_schemas p q \<Longrightarrow> only_schemas q r \<Longrightarrow> only_schemas p r"
  unfolding only_schemas_def using grows_trans by metis

lemma only_schemas_ok: "only_schemas p p' \<Longrightarrow> platform_ok p \<Longrightarrow> platform_ok p'"
  unfolding platform_ok_def only_schemas_def
  by (metis grows_built grows_def)

lemma in_schema_only: "only_schemas p (snd (in_schema n body p))"
  by (auto simp: in_schema_def only_schemas_def run_tx_def split: option.splits sum.splits intro: grows_db)

lemma guarded_only: "only_schemas p (snd (guarded_admin_op t body p))"
  by (auto simp: guarded_admin_op_def in_schema_only split: sum.splits)

lemma invalidate_only: "only_schemas p (invalidate_auth_state rv c u p)"
  by (auto simp: invalidate_auth_state_def only_schemas_def Let_def split: prod.splits option.splits intro: grows_db)

lemma then_invalidate: "only_schemas p q \<Longrightarrow> only_schemas p (invalidate_auth_state rv c u q)"
  by (rule only_schemas_trans [OF _ invalidate_only])

lemma in_schema_result: "in_schema n body p = (r, q) \<Longrightarrow> only_schemas p q"
  by (metis in_schema_only snd_conv)

lemma guarded_result: "guarded_admin_op t body p = (r, q) \<Longrightarrow> only_schemas p q"
  by (metis guarded_only snd_conv)

lemmas op_results = in_schema_result guarded_result then_invalidate

lemma admin_ops_only:
  "only_schemas p (snd (create_admin hash ids t newAdmin p))"
  "only_schemas p (snd (update_admin t u email name p))"
  "only_schemas p (snd (update_admin_password hash rv t u pw p))"
  "only_schemas p (snd (soft_delete_admin rv t u p))"
  "only_schemas p (snd (reset_admin_credentials hash random rv t newEmail newPassword p))"
  by (simp_all add: create_admin_def update_admin_def guarded_only)
     (auto simp: update_admin_password_def soft_delete_admin_def reset_admin_credentials_def Let_def
       split: option.splits sum.splits prod.splits intro: op_results)

lemma create_schema_only: "only_schemas p (snd (create_tenant_schema ok n p))"
  unfolding create_tenant_schema_def only_schemas_def
  by (auto simp: empty_schema_ok intro!: grows_put)

lemma recorded_seed [simp]: "recorded i (seed_role r s) = recorded i s" "schema_ok (seed_role r s) = schema_ok s"
  by (simp_all add: seed_role_def)

lemma run_migrations_grows: "run_migrations lost n s = (r, s') \<Longrightarrow> recorded i s \<Longrightarrow> recorded i s'"
  using apply_pending_recorded [of lost n "the (ts_marker (ensure_marker s))" tenant_migrations "ensure_marker s"]
  by (cases "valid_schema n") (simp_all add: run_migrations_pending, simp add: run_migrations_def)

lemma seed_only: "only_schemas p (snd (seed_tenant_schema lost ok r n p))"
proof (cases "pf_schemas p n")
  case (Some s)
  obtain x s' where run: "run_migrations lost n s = (x, s')" by fastforce
  have "grows (pf_schemas p) ((pf_schemas p)(n \<mapsto> t))" if "\<And>i. recorded i t = recorded i s'" "schema_ok t = schema_ok s'" for t
    using run_migrations_grows [OF run] run_migrations_ok [OF run] that Some by (intro grows_put) auto
  from this [of s'] this [of "seed_role r s'"] Some run show ?thesis
    by (auto simp: seed_tenant_schema_def only_schemas_def split: sum.splits)
qed (auto simp: seed_tenant_schema_def only_schemas_def)

lemma provision_admin_only: "only_schemas p (snd (provision_admin hash a j p))"
  by (auto simp: provision_admin_def create_super_admin_in_schema_def split: sum.splits prod.splits intro: op_results)

text \<open>The other parts: what adds a company, activates one, or answers from the cache.\<close>

lemma ok_cong:
  assumes "pf_schemas p' = pf_schemas p" and "platform_ok p"
    and "\<And>c. c \<in> set (pf_companies p') \<Longrightarrow> co_isActive c \<Longrightarrow> built p (co_id c)"
    and "\<And>k c e. pf_lookup p' k = Some (c, e) \<Longrightarrow> built p (co_id c)"
    and "\<And>j. j \<in> set (pf_jobs p') \<Longrightarrow> pj_schemaName j = tenant_schema (pj_companyId j)"
  shows "platform_ok p'"
proof -
  from assms(1) have "built p' i = built p i" for i by (simp add: built_def)
  with assms show ?thesis unfolding platform_ok_def by metis
qed

lemma okD:
  assumes "platform_ok p"
  shows "c \<in> set (pf_companies p) \<Longrightarrow> co_isActive c \<Longrightarrow> built p (co_id c)"
    and "pf_lookup p k = Some (c', e) \<Longrightarrow> built p (co_id c')"
    and "j \<in> set (pf_jobs p) \<Longrightarrow> pj_schemaName j = tenant_schema (pj_companyId j)"
    and "pf_schemas p n = Some s \<Longrightarrow> schema_ok s"
  using assms unfolding platform_ok_def by blast+

lemma invalidated: "invalidate_subdomain_cache wio sd m k = Some x \<Longrightarrow> m k = Some x"
  by (auto simp: invalidate_subdomain_cache_def dest: redis_drop_SomeD intro: prod.exhaust [of x])

lemma update_company_ok:
  assumes "platform_ok p" and "\<And>c. co_id (f c) = co_id c"
    and "\<And>c. c \<in> set (pf_companies p) \<Longrightarrow> co_id c = i \<Longrightarrow> co_isActive (f c) \<Longrightarrow> built p i"
    and "\<And>k x. m k = Some x \<Longrightarrow> pf_lookup p k = Some x"
  shows "platform_ok ((update_company i f p)\<lparr>pf_lookup := m\<rparr>)"
proof (rule ok_cong [OF _ assms(1)])
  fix c assume "c \<in> set (pf_companies ((update_company i f p)\<lparr>pf_lookup := m\<rparr>))" "co_isActive c"
  then obtain d where d: "d \<in> set (pf_companies p)" "c = (if co_id d = i then f d else d)"
    by (auto simp: update_company_def set_update_where)
  with \<open>co_isActive c\<close> assms(2,3) okD(1) [OF assms(1)] show "built p (co_id c)" by (cases "co_id d = i") auto
next
  fix k c e assume "pf_lookup ((update_company i f p)\<lparr>pf_lookup := m\<rparr>) k = Some (c, e)"
  then have "pf_lookup p k = Some (c, e)" by (intro assms(4)) simp
  then show "built p (co_id c)" by (rule okD(2) [OF assms(1)])
qed (use okD(3) [OF assms(1)] in \<open>simp_all add: update_company_def\<close>)

lemma update_company_id: "(update_company i f p)\<lparr>pf_lookup := pf_lookup p\<rparr> = update_company i f p"
  by (simp add: update_company_def)

lemma suspend_ok:
  assumes "platform_ok p"
  shows "platform_ok (update_company i (\<lambda>c. c\<lparr>co_isActive := False, co_status := st\<rparr>) p)"
  using update_company_ok [OF assms, of "\<lambda>c. c\<lparr>co_isActive := False, co_status := st\<rparr>" i "pf_lookup p"] update_company_id by simp

lemma drop_lookup_ok:
  assumes "platform_ok p"
  shows "platform_ok (invalidate_company_lookup wio i p)"
  using okD(1,3) [OF assms]
  by (auto simp: invalidate_company_lookup_def split: option.split dest!: invalidated okD(2) [OF assms] intro!: assms ok_cong [OF _ assms])

lemma create_ok:
  assumes "platform_ok p"
  shows "platform_ok (snd (create_tenant seen planOk i now queueOk data p))"
proof -
  let ?p = "p\<lparr>pf_companies := pf_companies p @ [new_company i now data]\<rparr>"
  note ok = okD [OF assms]
  have q: "platform_ok (?p\<lparr>pf_jobs := pf_jobs p @ js\<rparr>)" if "\<forall>j\<in>set js. pj_schemaName j = tenant_schema (pj_companyId j)" for js
    using ok that by (intro ok_cong [OF _ assms]) (auto simp: new_company_def)
  from q [of "[]"] have "platform_ok ?p" by simp
  with q suspend_ok [OF this] assms show ?thesis by (simp add: create_tenant_def Let_def)
qed

lemma requeue_ok:
  assumes "platform_ok p"
  shows "platform_ok (snd (requeue_provisioning queueOk i (tenant_schema i) p))"
  using okD [OF assms] by (auto simp: requeue_provisioning_def intro!: assms ok_cong [OF _ assms])

lemma reactivate_ok:
  assumes "platform_ok p" and "reactivate queueOk c p = (r, p')"
  shows "platform_ok p'" and "r = Inr d \<Longrightarrow> p' = p \<and> d = c\<lparr>co_isActive := True\<rparr> \<and> built p (co_id c)"
proof -
  have first: "fst (hd tenant_migrations) = ''0001_initial_tenant_schema''" by (simp add: tenant_migrations_def initial_tenant_schema_def)
  from assms(2) requeue_ok [OF assms(1), of queueOk "co_id c"] assms(1) show "platform_ok p'"
    by (auto simp: reactivate_def Let_def split: if_splits option.splits prod.splits)
  from assms(2) show "r = Inr d \<Longrightarrow> p' = p \<and> d = c\<lparr>co_isActive := True\<rparr> \<and> built p (co_id c)"
    by (auto simp: reactivate_def Let_def built_def recorded_def first split: if_splits option.splits prod.splits)
qed

lemma status_ok:
  assumes "platform_ok p"
  shows "platform_ok (snd (update_status queueOk wio i st until p))"
proof (cases "find_one (\<lambda>c. co_id c = i) (pf_companies p)")
  case (Some c)
  then have c: "c \<in> set (pf_companies p)" "co_id c = i" by (auto dest: find_one_Some)
  obtain r p' where r: "(if st = ACTIVE \<and> \<not> co_isActive c then reactivate queueOk c p else (Inr c, p)) = (r, p')" by fastforce
  from r assms reactivate_ok(1) have "platform_ok p'" by (auto split: if_splits)
  moreover from r reactivate_ok(2) [OF assms, of queueOk c r p'] c okD(1) [OF assms]
  have "co_isActive d \<Longrightarrow> built p' i" if "r = Inr d" for d
    using that by (auto split: if_splits)
  ultimately show ?thesis
    using Some r by (auto simp: update_status_def Let_def split: sum.split dest: invalidated intro!: update_company_ok)
qed (simp add: update_status_def assms)

lemma tenant_update_ok:
  assumes "platform_ok p"
  shows "platform_ok (snd (update_tenant planOk wio i changes p))"
  using okD(1) [OF assms]
  by (auto simp: update_tenant_def apply_update_def assms split: option.split dest: invalidated intro!: update_company_ok)

lemma process_ok:
  assumes "platform_ok p" and "j \<in> set (pf_jobs p)"
  shows "platform_ok (snd (process_job hash a j p))"
proof -
  obtain r1 p1 where 1: "create_tenant_schema (at_createOk a) (pj_schemaName j) p = (r1, p1)" by fastforce
  obtain r2 p2 where 2: "seed_tenant_schema (at_lost a) (at_seedOk a) (at_roleId a) (pj_schemaName j) p1 = (r2, p2)" by fastforce
  obtain r3 p3 where 3: "provision_admin hash a j p2 = (r3, p3)" by fastforce
  have o: "only_schemas p p1" "only_schemas p1 p2" "only_schemas p2 p3"
    using create_schema_only [of p] seed_only [of p1] provision_admin_only [of p2] 1 2 3 by (metis snd_conv)+
  with assms(1) have ok: "platform_ok p1" "platform_ok p2" "platform_ok p3" using only_schemas_ok by blast+
  have b: "built p3 (pj_companyId j)" if r2: "r2 = Inr ()"
  proof -
    from 2 r2 obtain s s' where run: "run_migrations (at_lost a) (pj_schemaName j) s = (Inr (), s')"
      "pf_schemas p2 (pj_schemaName j) = Some (seed_role (at_roleId a) s')"
      by (auto simp: seed_tenant_schema_def split: if_splits option.splits prod.splits sum.splits)
    moreover from run_complete(1) [OF run(1)] have "recorded ''0001_initial_tenant_schema'' s'"
      by (simp add: tenant_migrations_def initial_tenant_schema_def)
    ultimately have "built p2 (pj_companyId j)" using okD(3) [OF assms] by (simp add: built_def)
    with o(3) grows_built [of p2 p3] show ?thesis by (simp add: only_schemas_def)
  qed
  have "platform_ok (update_company (pj_companyId j) (\<lambda>c. c\<lparr>co_isActive := True\<rparr>) p3)" if "r2 = Inr ()"
    using update_company_ok [OF ok(3), of "\<lambda>c. c\<lparr>co_isActive := True\<rparr>" "pj_companyId j" "pf_lookup p3"] b that update_company_id by simp
  from drop_lookup_ok [OF this] have "r2 = Inr () \<Longrightarrow> platform_ok (snd (activate a j p3))" using ok(3) by (simp add: activate_def)
  with 1 2 3 ok show ?thesis by (auto simp: process_job_def op_then_def split: sum.splits)
qed

lemma migrate_company_grows: "grows (snd acc) (snd (migrate_company lost c acc))"
proof (cases "snd acc (tenant_schema c)")
  case (Some s)
  obtain x s' where run: "run_migrations (lost c) (tenant_schema c) s = (x, s')" by fastforce
  have "grows (snd acc) ((snd acc)(tenant_schema c \<mapsto> s'))"
    using run_migrations_grows [OF run] run_migrations_ok [OF run] Some by (intro grows_put) auto
  with Some run show ?thesis by (auto simp: migrate_company_def split: prod.splits sum.splits)
qed (auto simp: migrate_company_def split: prod.splits)

lemma fan_out_grows: "grows w (snd (run_migrations_for_all_tenants lost cs w))"
proof -
  have "grows (snd acc) (snd (fold (migrate_company lost) cs acc))" for acc
  proof (induction cs arbitrary: acc)
    case (Cons c cs)
    show ?case unfolding fold_simps comp_apply by (rule grows_trans [OF migrate_company_grows Cons.IH])
  qed simp
  from this [of "(_, w)"] show ?thesis by (simp add: run_migrations_for_all_tenants_def)
qed

lemma lookup_source:
  assumes "find_by_subdomain ttl rio wio now now' cs sd m = (r, m')"
  shows "r = Some c \<Longrightarrow> c \<in> {c \<in> set cs. co_isActive c} \<or> (\<exists>k e. m k = Some (c, e))"
    and "m' k = Some (d, e) \<Longrightarrow> d \<in> {c \<in> set cs. co_isActive c} \<or> m k = Some (d, e)"
  using assms
  by (auto simp: find_by_subdomain_def split: option.splits dest!: find_one_Some find_one_Some [OF sym] redis_read_SomeD redis_write_SomeD)

lemma found_built:
  assumes "platform_ok p" and "find_by_subdomain ttl rio wio now now' (map company.truncate (pf_companies p)) sd (pf_lookup p) = (r, m')"
  shows "r = Some c \<Longrightarrow> built p (co_id c)" and "m' k = Some (d, e) \<Longrightarrow> built p (co_id d)"
proof -
  have t: "built p (co_id c)" if "c \<in> {c \<in> set (map company.truncate (pf_companies p)). co_isActive c}" for c
    using that okD(1) [OF assms(1)] by (auto simp: company.truncate_def)
  show "r = Some c \<Longrightarrow> built p (co_id c)" using lookup_source(1) [OF assms(2)] t okD(2) [OF assms(1)] by blast
  show "m' k = Some (d, e) \<Longrightarrow> built p (co_id d)" using lookup_source(2) [OF assms(2)] t okD(2) [OF assms(1)] by blast
qed

lemma reachable_ok: "reachable p \<Longrightarrow> platform_ok p"
proof (induction rule: reachable.induct)
  case start
  show ?case by (simp add: platform_ok_def)
next
  case (give_up p j wio k)
  then show ?case by (simp add: handle_failed_def suspend_ok drop_lookup_ok)
next
  case (job_gone p j)
  note ok = okD [OF job_gone.IH]
  show ?case by (rule ok_cong [OF _ job_gone.IH]) (use ok in \<open>auto dest: notin_set_remove1 set_remove1_subset [THEN subsetD]\<close>)
next
  case (migrate p lost)
  show ?case by (rule only_schemas_ok [OF _ migrate.IH]) (simp add: only_schemas_def fan_out_grows)
next
  case (lookup p ttl rio wio now now' sd)
  note ok = okD [OF lookup.IH]
  obtain r m where f: "find_by_subdomain ttl rio wio now now' (map company.truncate (pf_companies p)) sd (pf_lookup p) = (r, m)" by fastforce
  show ?case by (rule ok_cong [OF _ lookup.IH]) (use ok found_built(2) [OF lookup.IH f] f in auto)
qed (simp_all add: create_ok status_ok tenant_update_ok process_ok only_schemas_ok [OF admin_ops_only(1)] only_schemas_ok [OF admin_ops_only(2)]
    only_schemas_ok [OF admin_ops_only(3)] only_schemas_ok [OF admin_ops_only(4)] only_schemas_ok [OF admin_ops_only(5)])

text \<open>
  C24. No request reaches a tenant that is not built: in every state the platform can reach, whatever provisioning jobs
  failed, were retried, delivered twice or overtaken by an operator's reactivation, a subdomain that the lookup answers,
  from the table or from the cache, belongs to a tenant whose schema exists with all its base tables; and so does every
  company marked active.
\<close>

theorem resolved_tenants_are_built:
  assumes "reachable p"
    and "fst (find_by_subdomain ttl rio wio now now' (map company.truncate (pf_companies p)) sd (pf_lookup p)) = Some c
      \<or> (\<exists>d\<in>set (pf_companies p). co_isActive d \<and> co_id d = co_id c)"
  shows "\<exists>s. pf_schemas p (tenant_schema (co_id c)) = Some s \<and> list_all (\<lambda>t. has_table t s) base_tables"
proof -
  have ok: "platform_ok p" by (rule reachable_ok [OF assms(1)])
  then have "built p (co_id c)"
    using found_built(1) [OF ok prod.collapse [symmetric]] okD(1) [OF ok] assms(2) by metis
  with okD(4) [OF ok] show ?thesis unfolding built_def schema_ok_def by blast
qed

subsection \<open>Provisioning converges\<close>

lemma exec_no_db: "exec d s = Inr s' \<Longrightarrow> ts_db s = no_db \<Longrightarrow> ts_db s' = no_db"
proof (cases d)
  case (Restrict_Shared xs)
  have "ts_db (fold (\<lambda>(t, c, u). alter_table t (\<lambda>(cs, ks). (cs, restrict_first c u ks))) xs s) = ts_db s"
    by (induction xs arbitrary: s) (auto split: prod.splits)
  then show "exec d s = Inr s' \<Longrightarrow> ts_db s = no_db \<Longrightarrow> ts_db s' = no_db" using Restrict_Shared by auto
qed (auto split: if_splits option.splits sum.splits simp: reconcile_system_roles_def no_db_def update_where_def)

lemma exec_all_no_db: "exec_all ds s = Inr s' \<Longrightarrow> ts_db s = no_db \<Longrightarrow> ts_db s' = no_db"
  by (induction ds arbitrary: s) (auto split: sum.splits dest: exec_no_db)

lemma apply_migration_no_db: "apply_migration lost n m s = Inr s' \<Longrightarrow> ts_db s = no_db \<Longrightarrow> ts_db s' = no_db"
  by (auto simp: apply_migration_def split: prod.splits if_splits sum.splits option.splits dest: exec_all_no_db)

lemma apply_pending_no_db: "apply_pending lost n A ms s = (r, s') \<Longrightarrow> ts_db s = no_db \<Longrightarrow> ts_db s' = no_db"
  by (induction ms arbitrary: s) (auto split: if_splits sum.splits dest: apply_migration_no_db)

lemma run_migrations_no_db: "run_migrations lost n s = (r, s') \<Longrightarrow> ts_db s = no_db \<Longrightarrow> ts_db s' = no_db"
  using apply_pending_no_db [of lost n "the (ts_marker (ensure_marker s))" tenant_migrations "ensure_marker s" r s']
  by (cases "valid_schema n") (simp_all add: run_migrations_pending ensure_marker_def, simp add: run_migrations_def)

text \<open>
  The states of a schema under provisioning: still to be migrated, from where an undisturbed run ends as from the empty
  schema; or complete, with its role and perhaps its first administrator.
\<close>

definition with_admin :: "provision_job \<Rightarrow> bool" where
  "with_admin job \<longleftrightarrow> truthy_str (pj_adminEmail job) \<and> truthy_str (pj_adminPassword job)"

definition pending :: "string \<Rightarrow> schema \<Rightarrow> bool" where
  "pending n s \<longleftrightarrow> ts_db s = no_db \<and> run_migrations (\<lambda>_. False) n s = run_migrations (\<lambda>_. False) n empty_schema"

definition complete :: "string \<Rightarrow> schema \<Rightarrow> bool" where
  "complete n s \<longleftrightarrow> (\<forall>m\<in>set tenant_migrations. recorded (fst m) s) \<and> (\<forall>lost. run_migrations lost n s = (Inr (), s)) \<and>
     list_all (\<lambda>t. has_table t s) base_tables"

definition first_admin :: "provision_job \<Rightarrow> user \<Rightarrow> bool" where
  "first_admin job u \<longleftrightarrow> Some (u_email u) = pj_adminEmail job \<and> u_isActive u \<and> u_forcePasswordReset u \<and> u_companyId u = pj_companyId job"

definition seeded :: "provision_job \<Rightarrow> bool \<Rightarrow> tenant_db \<Rightarrow> bool" where
  "seeded job admin db \<longleftrightarrow> (\<exists>r. roles (td_roles db) = [r] \<and> r_name r = SUPER_ADMIN_ROLE_NAME \<and>
     (if admin then \<exists>u. td_users db = [u] \<and> user_roles (td_roles db) = [(u_id u, r_id r)] \<and> first_admin job u
      else td_users db = [] \<and> user_roles (td_roles db) = []))"

definition provisioning :: "provision_job \<Rightarrow> string \<Rightarrow> schema \<Rightarrow> bool" where
  "provisioning job n s \<longleftrightarrow> pending n s \<or> (complete n s \<and> (seeded job False (ts_db s) \<or> with_admin job \<and> seeded job True (ts_db s)))"

lemma run_migrations_with_db:
  assumes "run_migrations lost n s = (Inr (), s)"
  shows "run_migrations lost n (s\<lparr>ts_db := db\<rparr>) = (Inr (), s\<lparr>ts_db := db\<rparr>)"
proof -
  have v: "valid_schema n" using assms by (auto simp: run_migrations_def split: if_splits)
  from assms have e: "ensure_marker s = s" by (rule marker_ensured) (rule v)
  have r: "recorded (fst m) s" if "m \<in> set tenant_migrations" for m using run_complete(1) [OF assms] that by blast
  have e2: "ensure_marker (s\<lparr>ts_db := db\<rparr>) = s\<lparr>ts_db := db\<rparr>"
    using arg_cong [OF e, of ts_marker] by (simp add: ensure_marker_def)
  show ?thesis unfolding run_migrations_pending [OF v] e2
    using r set_marker [of _ s] e by (intro apply_pending_nothing) simp
qed

lemma complete_with_db [simp]: "complete n s \<Longrightarrow> complete n (s\<lparr>ts_db := db\<rparr>)"
  unfolding complete_def by (simp add: run_migrations_with_db)

lemma pending_run:
  assumes "pending n s" and "run_migrations lost n s = (r, s')"
  shows "pending n s'" and "r = Inr () \<Longrightarrow> complete n s'" and "lost = (\<lambda>_. False) \<Longrightarrow> valid_schema n \<Longrightarrow> r = Inr ()"
proof -
  show "pending n s'" using assms run_again [OF assms(2)] run_migrations_no_db [OF assms(2)] by (simp add: pending_def)
  then have eq: "run_migrations (\<lambda>_. False) n s' = run_migrations (\<lambda>_. False) n empty_schema" by (simp add: pending_def)
  show "lost = (\<lambda>_. False) \<Longrightarrow> valid_schema n \<Longrightarrow> r = Inr ()"
    using assms fresh_run [of n] by (auto simp: pending_def)
  assume r: "r = Inr ()"
  note c = run_complete [OF assms(2) [unfolded r]]
  from c(2) [of "\<lambda>_. False"] eq have "run_migrations (\<lambda>_. False) n empty_schema = (Inr (), s')" by simp
  from run_ok [OF this empty_schema_ok] c show "complete n s'" unfolding complete_def by blast
qed

lemma seed_role_seeded:
  assumes "complete n s" and "ts_db s = no_db \<or> seeded job b (ts_db s)"
  shows "complete n (seed_role i s) \<and> seeded job (ts_db s \<noteq> no_db \<and> b) (ts_db (seed_role i s))"
  using assms by (auto simp: seed_role_def no_db_def seeded_def super_admin_role_def)

text \<open>A step of an attempt keeps the rest of the platform, and the schema under provisioning.\<close>

abbreviation schema_now :: "provision_job \<Rightarrow> platform \<Rightarrow> schema option" where
  "schema_now job p \<equiv> pf_schemas p (pj_schemaName job)"

definition keeps_rest :: "provision_job \<Rightarrow> platform \<Rightarrow> platform \<Rightarrow> bool" where
  "keeps_rest job p p' \<longleftrightarrow> pf_companies p' = pf_companies p \<and> (\<forall>m. m \<noteq> pj_schemaName job \<longrightarrow> pf_schemas p' m = pf_schemas p m)"

lemma keeps_rest_trans: "keeps_rest job p q \<Longrightarrow> keeps_rest job q r \<Longrightarrow> keeps_rest job p r"
  by (simp add: keeps_rest_def)

definition under_provision :: "provision_job \<Rightarrow> platform \<Rightarrow> bool" where
  "under_provision job p \<longleftrightarrow> valid_schema (pj_schemaName job) \<and> pj_schemaName job = tenant_schema (pj_companyId job) \<and>
     (\<forall>s. schema_now job p = Some s \<longrightarrow> provisioning job (pj_schemaName job) s)"

lemma empty_pending [simp]: "pending n empty_schema"
  by (simp add: pending_def empty_schema_def no_db_def)

lemma create_step:
  assumes "under_provision job p" and "create_tenant_schema ok (pj_schemaName job) p = (r, p')"
  shows "under_provision job p'" and "keeps_rest job p p'" and "ok \<Longrightarrow> r = Inr ()" and "r = Inr () \<Longrightarrow> schema_now job p' \<noteq> None"
  using assms by (auto simp: create_tenant_schema_def under_provision_def keeps_rest_def provisioning_def split: if_splits)

definition ready :: "provision_job \<Rightarrow> bool \<Rightarrow> platform \<Rightarrow> bool" where
  "ready job admin p \<longleftrightarrow> (\<exists>s. schema_now job p = Some s \<and> complete (pj_schemaName job) s \<and> seeded job admin (ts_db s))"

lemma seed_step:
  assumes "under_provision job p" and "schema_now job p \<noteq> None" and "seed_tenant_schema lost ok i (pj_schemaName job) p = (r, p')"
  shows "under_provision job p'" and "keeps_rest job p p'" and "lost = (\<lambda>_. False) \<Longrightarrow> ok \<Longrightarrow> r = Inr ()"
    and "r = Inr () \<Longrightarrow> \<exists>b. (b \<longrightarrow> with_admin job) \<and> ready job b p'"
proof -
  let ?n = "pj_schemaName job"
  from assms(1,2) obtain s where s: "pf_schemas p ?n = Some s" "provisioning job ?n s" "valid_schema ?n" by (auto simp: under_provision_def)
  obtain x s' where run: "run_migrations lost ?n s = (x, s')" by fastforce
  have s': "provisioning job ?n s'" "lost = (\<lambda>_. False) \<Longrightarrow> x = Inr ()" "x = Inr () \<Longrightarrow> complete ?n s'"
  proof -
    have "provisioning job ?n s' \<and> (lost = (\<lambda>_. False) \<longrightarrow> x = Inr ()) \<and> (x = Inr () \<longrightarrow> complete ?n s')"
    proof (cases "pending ?n s")
      case True
      from pending_run [OF True run] s(3) show ?thesis by (simp add: provisioning_def)
    next
      case False
      with s(2) have "complete ?n s" by (simp add: provisioning_def)
      then have "x = Inr () \<and> s' = s" using run by (simp add: complete_def)
      with s(2) \<open>complete ?n s\<close> show ?thesis by simp
    qed
    then show "provisioning job ?n s'" "lost = (\<lambda>_. False) \<Longrightarrow> x = Inr ()" "x = Inr () \<Longrightarrow> complete ?n s'" by blast+
  qed
  from s'(1) have "ts_db s' = no_db \<or> seeded job False (ts_db s') \<or> (with_admin job \<and> seeded job True (ts_db s'))"
    by (auto simp: provisioning_def pending_def)
  then have seed: "\<exists>b. (b \<longrightarrow> with_admin job) \<and> complete ?n (seed_role i s') \<and> seeded job b (ts_db (seed_role i s'))" if "x = Inr ()"
    using seed_role_seeded [OF s'(3) [OF that], of job _ i] by metis
  show "keeps_rest job p p'" "lost = (\<lambda>_. False) \<Longrightarrow> ok \<Longrightarrow> r = Inr ()"
    using assms(3) s run s'(2) by (auto simp: seed_tenant_schema_def keeps_rest_def split: sum.splits if_splits)
  show "r = Inr () \<Longrightarrow> \<exists>b. (b \<longrightarrow> with_admin job) \<and> ready job b p'"
    using assms(3) s run seed by (auto simp: seed_tenant_schema_def ready_def split: sum.splits if_splits)
  have "provisioning job ?n (seed_role i s')" if "x = Inr ()"
    using seed [OF that] unfolding provisioning_def by (metis (full_types))
  then show "under_provision job p'"
    using assms(1,3) s run s'(1) by (auto simp: seed_tenant_schema_def under_provision_def split: sum.splits if_splits)
qed

lemma ready_under: "ready job b p \<Longrightarrow> (b \<longrightarrow> with_admin job) \<Longrightarrow> under_provision job q \<Longrightarrow> under_provision job p"
  by (cases b) (auto simp: under_provision_def ready_def provisioning_def)

lemma insert_first_admin:
  assumes "seeded job b db" and "with_admin job" and "e = the (pj_adminEmail job)"
  shows "\<exists>x db'. insert_super_admin hash ids (pj_companyId job) \<lparr>na_email = e, na_name = e, na_password = pw\<rparr> True db = Inr (x, db')
    \<and> seeded job True db'"
proof (cases b)
  case True
  with assms show ?thesis by (cases "pj_adminEmail job") (auto simp: insert_super_admin_def seeded_def first_admin_def)
next
  case False
  with assms(1) obtain r where r: "roles (td_roles db) = [r]" "r_name r = SUPER_ADMIN_ROLE_NAME" "td_users db = []" "user_roles (td_roles db) = []"
    by (auto simp: seeded_def)
  with assms(2,3) show ?thesis
    by (auto simp: insert_super_admin_def insert_user_def insert_user_role_def seeded_def first_admin_def find_one_def with_admin_def
        truthy_str_def Let_def split: option.splits)
qed

lemma admin_step:
  assumes "ready job b p" and "b \<longrightarrow> with_admin job" and "under_provision job p" and "provision_admin hash a job p = (r, p')"
  shows "\<exists>b'. (b' \<longrightarrow> with_admin job) \<and> ready job b' p' \<and> (r = Inr () \<longrightarrow> b' = with_admin job)"
    and "keeps_rest job p p'" and "at_adminOk a \<Longrightarrow> r = Inr ()"
proof -
  from assms(1) obtain s where s: "schema_now job p = Some s" "complete (pj_schemaName job) s" "seeded job b (ts_db s)" by (auto simp: ready_def)
  from s(2) have t: "has_table T_users s" "has_table T_roles s" "has_table T_user_roles s" by (simp_all add: complete_def base_tables_def)
  from assms(3) have n: "valid_schema (pj_schemaName job)" "tenant_schema (pj_companyId job) = pj_schemaName job" by (auto simp: under_provision_def)
  have "(\<exists>b'. (b' \<longrightarrow> with_admin job) \<and> ready job b' p' \<and> (r = Inr () \<longrightarrow> b' = with_admin job)) \<and> keeps_rest job p p' \<and> (at_adminOk a \<longrightarrow> r = Inr ())"
  proof (cases "with_admin job \<and> at_adminOk a")
    case True
    let ?e = "the (pj_adminEmail job)"
    obtain x db' where i: "insert_super_admin hash (at_ids a) (pj_companyId job) \<lparr>na_email = ?e, na_name = ?e, na_password = the (pj_adminPassword job)\<rparr> True (ts_db s)
        = Inr (x, db')" "seeded job True db'"
      using insert_first_admin [OF s(3), of ?e hash "at_ids a"] True by blast
    then have "r = Inr () \<and> p' = p\<lparr>pf_schemas := (pf_schemas p)(pj_schemaName job \<mapsto> s\<lparr>ts_db := db'\<rparr>)\<rparr>"
      using assms(4) True n t s(1)
      by (simp add: provision_admin_def with_admin_def [symmetric] create_super_admin_in_schema_def in_schema_def run_tx_def)
    with i(2) s(2) True show ?thesis by (auto simp: ready_def keeps_rest_def)
  next
    case False
    with assms(4) have "p' = p \<and> (r = Inr () \<longleftrightarrow> \<not> with_admin job) \<and> (at_adminOk a \<longrightarrow> r = Inr ())"
      by (auto simp: provision_admin_def with_admin_def [symmetric] split: if_splits)
    with assms(1,2) show ?thesis by (auto simp: keeps_rest_def)
  qed
  then show "\<exists>b'. (b' \<longrightarrow> with_admin job) \<and> ready job b' p' \<and> (r = Inr () \<longrightarrow> b' = with_admin job)"
    "keeps_rest job p p'" "at_adminOk a \<Longrightarrow> r = Inr ()" by blast+
qed

lemma lookup_companies [simp]:
  "pf_companies (invalidate_company_lookup wio i p) = pf_companies p" "pf_schemas (invalidate_company_lookup wio i p) = pf_schemas p"
  "pf_companies (update_company i f p) = update_where (\<lambda>c. co_id c = i) f (pf_companies p)" "pf_schemas (update_company i f p) = pf_schemas p"
  by (auto simp: invalidate_company_lookup_def update_company_def split: option.split)

lemma schemas_cong:
  assumes "pf_schemas p = pf_schemas q"
  shows "under_provision job p = under_provision job q" and "ready job b p = ready job b q"
  using assms by (simp_all add: under_provision_def ready_def)

text \<open>One attempt, disturbed or not.\<close>

definition undisturbed :: "attempt \<Rightarrow> bool" where
  "undisturbed a \<longleftrightarrow> at_createOk a \<and> at_lost a = (\<lambda>_. False) \<and> at_seedOk a \<and> at_adminOk a \<and> at_activateOk a"

lemma process_step:
  assumes "under_provision job p" and "process_job hash a job p = (r, p')"
  shows "under_provision job p' \<and> (undisturbed a \<longrightarrow> r = Inr ()) \<and> (\<forall>m. m \<noteq> pj_schemaName job \<longrightarrow> pf_schemas p' m = pf_schemas p m) \<and>
    (if r = Inr () then ready job (with_admin job) p' \<and>
       pf_companies p' = update_where (\<lambda>c. co_id c = pj_companyId job) (\<lambda>c. c\<lparr>co_isActive := True\<rparr>) (pf_companies p)
     else pf_companies p' = pf_companies p)"
proof -
  obtain r1 p1 where 1: "create_tenant_schema (at_createOk a) (pj_schemaName job) p = (r1, p1)" by fastforce
  obtain r2 p2 where 2: "seed_tenant_schema (at_lost a) (at_seedOk a) (at_roleId a) (pj_schemaName job) p1 = (r2, p2)" by fastforce
  obtain r3 p3 where 3: "provision_admin hash a job p2 = (r3, p3)" by fastforce
  note c = create_step [OF assms(1) 1]
  show ?thesis
  proof (cases "r1 = Inr ()")
    case r1: True
    note s = seed_step [OF c(1) c(4) [OF r1] 2]
    show ?thesis
    proof (cases "r2 = Inr ()")
      case r2: True
      from s(4) [OF r2] obtain b where b: "b \<longrightarrow> with_admin job" "ready job b p2" by blast
      note d = admin_step [OF b(2,1) s(1) 3]
      from d(1) obtain b' where b': "b' \<longrightarrow> with_admin job" "ready job b' p3" "r3 = Inr () \<longrightarrow> b' = with_admin job" by blast
      from ready_under [OF b'(2,1) s(1)] have u: "under_provision job p3" .
      have k: "keeps_rest job p p3" using c(2) s(2) d(2) keeps_rest_trans by metis
      show ?thesis
      proof (cases "r3 = Inr () \<and> at_activateOk a")
        case True
        with assms(2) 1 2 3 r1 r2 have "r = Inr ()" "pf_schemas p' = pf_schemas p3"
          "pf_companies p' = update_where (\<lambda>c. co_id c = pj_companyId job) (\<lambda>c. c\<lparr>co_isActive := True\<rparr>) (pf_companies p3)"
          by (auto simp: process_job_def op_then_def activate_def)
        with schemas_cong [of p' p3] u b' k True show ?thesis by (simp add: keeps_rest_def)
      next
        case False
        with assms(2) 1 2 3 r1 r2 have "r \<noteq> Inr ()" "p' = p3"
          by (auto simp: process_job_def op_then_def activate_def split: sum.splits if_splits)
        with False u k d(3) show ?thesis by (auto simp: undisturbed_def keeps_rest_def)
      qed
    next
      case False
      then obtain e where "r2 = Inl e" by (cases r2) auto
      with assms(2) 1 2 r1 have "r = Inl e" "p' = p2" by (auto simp: process_job_def op_then_def)
      with False s c(2) keeps_rest_trans [OF c(2) s(2)] show ?thesis by (auto simp: undisturbed_def keeps_rest_def)
    qed
  next
    case False
    then obtain e where "r1 = Inl e" by (cases r1) auto
    with assms(2) 1 have "r = Inl e" "p' = p1" by (auto simp: process_job_def op_then_def)
    with False c show ?thesis by (auto simp: undisturbed_def keeps_rest_def)
  qed
qed

lemma failed_companies:
  "pf_companies (handle_failed wio k job p) = (if k < PROVISION_ATTEMPTS then pf_companies p
     else update_where (\<lambda>c. co_id c = pj_companyId job) (\<lambda>c. c\<lparr>co_isActive := False, co_status := SUSPENDED\<rparr>) (pf_companies p))"
  "pf_schemas (handle_failed wio k job p) = pf_schemas p"
  by (simp_all add: handle_failed_def)

lemma deliver_good:
  assumes "under_provision job p" and "k < length as" and "undisturbed (as ! k)" and "made + k < PROVISION_ATTEMPTS"
  shows "ready job (with_admin job) (deliver hash made as job p) \<and>
    pf_companies (deliver hash made as job p) = update_where (\<lambda>c. co_id c = pj_companyId job) (\<lambda>c. c\<lparr>co_isActive := True\<rparr>) (pf_companies p) \<and>
    (\<forall>m. m \<noteq> pj_schemaName job \<longrightarrow> pf_schemas (deliver hash made as job p) m = pf_schemas p m)"
  using assms
proof (induction as arbitrary: made k p)
  case (Cons a as)
  obtain r p' where pr: "process_job hash a job p = (r, p')" by fastforce
  note step = process_step [OF Cons.prems(1) pr]
  show ?case
  proof (cases r)
    case (Inr x)
    with pr step show ?thesis by simp
  next
    case (Inl e)
    with step have "\<not> undisturbed a" by auto
    with Cons.prems obtain j where j: "k = Suc j" by (cases k) auto
    have q: "under_provision job (handle_failed (at_drop a) (Suc made) job p')"
      using step schemas_cong(1) [OF failed_companies(2)] by blast
    from Cons.IH [OF q, of j "Suc made"] Cons.prems j Inl pr step show ?thesis by (simp add: failed_companies)
  qed
qed simp

lemma process_not_activated: "\<not> at_activateOk a \<Longrightarrow> process_job hash a job p = (r, p') \<Longrightarrow> r \<noteq> Inr ()"
  by (auto simp: process_job_def op_then_def activate_def split: sum.splits prod.splits)

lemma deliver_exhausted:
  assumes "under_provision job p" and "\<forall>a\<in>set as. \<not> at_activateOk a" and "made < PROVISION_ATTEMPTS" and "PROVISION_ATTEMPTS \<le> made + length as"
  shows "pf_companies (deliver hash made as job p) =
    update_where (\<lambda>c. co_id c = pj_companyId job) (\<lambda>c. c\<lparr>co_isActive := False, co_status := SUSPENDED\<rparr>) (pf_companies p)"
  using assms
proof (induction as arbitrary: made p)
  case (Cons a as)
  obtain r p' where pr: "process_job hash a job p = (r, p')" by fastforce
  note step = process_step [OF Cons.prems(1) pr]
  from process_not_activated [OF _ pr] Cons.prems(2) obtain e where r: "r = Inl e" by (cases r) auto
  have q: "under_provision job (handle_failed (at_drop a) (Suc made) job p')"
    using step schemas_cong(1) [OF failed_companies(2)] by blast
  from Cons.IH [OF q, of "Suc made"] Cons.prems r pr step show ?case by (auto simp: failed_companies Let_def)
qed simp

text \<open>
  C25. Provisioning converges: a new tenant's job that has one undisturbed attempt among its first three ends with the
  company active and otherwise unchanged, every migration recorded and every table in place, exactly one role, the
  administrator role, and, when credentials came with the job, exactly one user, who holds it and must change the
  password; whatever the other attempts left behind, and without touching another tenant. A job whose activation never
  goes through ends with the company suspended.
\<close>

theorem provisioning_converges:
  assumes "valid_schema (tenant_schema (pj_companyId job))" and "pj_schemaName job = tenant_schema (pj_companyId job)"
    and "schema_now job p = None" and "PROVISION_ATTEMPTS \<le> length as"
  shows "((\<exists>k<PROVISION_ATTEMPTS. undisturbed (as ! k)) \<longrightarrow>
      pf_companies (deliver hash 0 as job p) = update_where (\<lambda>c. co_id c = pj_companyId job) (\<lambda>c. c\<lparr>co_isActive := True\<rparr>) (pf_companies p) \<and>
      (\<exists>s. schema_now job (deliver hash 0 as job p) = Some s \<and> (\<forall>m\<in>set tenant_migrations. recorded (fst m) s) \<and>
         list_all (\<lambda>t. has_table t s) base_tables \<and> map r_name (roles (td_roles (ts_db s))) = [SUPER_ADMIN_ROLE_NAME] \<and>
         (with_admin job \<longrightarrow> (\<exists>u. td_users (ts_db s) = [u] \<and> active_super_admins (ts_db s) = [u] \<and> Some (u_email u) = pj_adminEmail job \<and> u_forcePasswordReset u))) \<and>
      (\<forall>m. m \<noteq> pj_schemaName job \<longrightarrow> pf_schemas (deliver hash 0 as job p) m = pf_schemas p m)) \<and>
    ((\<forall>a\<in>set as. \<not> at_activateOk a) \<longrightarrow>
      pf_companies (deliver hash 0 as job p) =
        update_where (\<lambda>c. co_id c = pj_companyId job) (\<lambda>c. c\<lparr>co_isActive := False, co_status := SUSPENDED\<rparr>) (pf_companies p))"
proof -
  have u: "under_provision job p" using assms by (simp add: under_provision_def)
  have admin: "map r_name (roles (td_roles db)) = [SUPER_ADMIN_ROLE_NAME] \<and>
      (b \<longrightarrow> (\<exists>u. td_users db = [u] \<and> active_super_admins db = [u] \<and> Some (u_email u) = pj_adminEmail job \<and> u_forcePasswordReset u))"
    if "seeded job b db" for b db
    using that by (auto simp: seeded_def active_super_admins_def super_admins_def first_admin_def)
  let ?q = "deliver hash 0 as job p"
  have "PROVISION_ATTEMPTS = 0 + PROVISION_ATTEMPTS" "0 < PROVISION_ATTEMPTS" by (simp_all add: PROVISION_ATTEMPTS_def)
  note part2 = deliver_exhausted [OF u _ this(2)]
  have part1: "pf_companies ?q = update_where (\<lambda>c. co_id c = pj_companyId job) (\<lambda>c. c\<lparr>co_isActive := True\<rparr>) (pf_companies p) \<and>
      ready job (with_admin job) ?q \<and> (\<forall>m. m \<noteq> pj_schemaName job \<longrightarrow> pf_schemas ?q m = pf_schemas p m)"
    if "k < PROVISION_ATTEMPTS" "undisturbed (as ! k)" for k
    using deliver_good [OF u _ that(2), of 0] that(1) assms(4) by simp
  have part3: "\<exists>s. schema_now job q = Some s \<and> (\<forall>m\<in>set tenant_migrations. recorded (fst m) s) \<and>
         list_all (\<lambda>t. has_table t s) base_tables \<and> map r_name (roles (td_roles (ts_db s))) = [SUPER_ADMIN_ROLE_NAME] \<and>
         (with_admin job \<longrightarrow> (\<exists>u. td_users (ts_db s) = [u] \<and> active_super_admins (ts_db s) = [u] \<and> Some (u_email u) = pj_adminEmail job \<and> u_forcePasswordReset u))"
    if "ready job (with_admin job) q" for q
  proof -
    from that obtain s where s: "schema_now job q = Some s" "complete (pj_schemaName job) s" "seeded job (with_admin job) (ts_db s)"
      unfolding ready_def by blast
    from admin [OF s(3)] s(1,2) show ?thesis unfolding complete_def by (intro exI [of _ s]) simp
  qed
  show ?thesis
  proof (rule conjI; rule impI)
    assume "\<exists>k<PROVISION_ATTEMPTS. undisturbed (as ! k)"
    then obtain k where k: "k < PROVISION_ATTEMPTS" "undisturbed (as ! k)" by blast
    note q = part1 [OF k]
    from q show "pf_companies ?q = update_where (\<lambda>c. co_id c = pj_companyId job) (\<lambda>c. c\<lparr>co_isActive := True\<rparr>) (pf_companies p) \<and>
      (\<exists>s. schema_now job ?q = Some s \<and> (\<forall>m\<in>set tenant_migrations. recorded (fst m) s) \<and>
         list_all (\<lambda>t. has_table t s) base_tables \<and> map r_name (roles (td_roles (ts_db s))) = [SUPER_ADMIN_ROLE_NAME] \<and>
         (with_admin job \<longrightarrow> (\<exists>u. td_users (ts_db s) = [u] \<and> active_super_admins (ts_db s) = [u] \<and> Some (u_email u) = pj_adminEmail job \<and> u_forcePasswordReset u))) \<and>
      (\<forall>m. m \<noteq> pj_schemaName job \<longrightarrow> pf_schemas ?q m = pf_schemas p m)"
      by (elim conjE) (intro conjI; (assumption | rule part3))
  qed (use part2 assms(4) in simp)
qed

subsection \<open>Samples\<close>

definition sample_tenant :: new_tenant where
  "sample_tenant = \<lparr>nt_name = ''Academia'', nt_subdomain = ''a'', nt_subscription_plan_id = ''p'', nt_contactEmail = None, nt_phone = None,
     nt_address = None, nt_taxId = None, nt_logoUrl = None, nt_adminEmail = Some ''e'', nt_adminPassword = Some ''secret''\<rparr>"

definition sample_platform :: platform where
  "sample_platform = snd (create_tenant [] True ''a'' 0 True sample_tenant
     \<lparr>pf_companies = [], pf_schemas = Map.empty, pf_lookup = Map.empty, pf_authRedis = Map.empty, pf_authLocal = [], pf_jobs = []\<rparr>)"

definition sample_job :: provision_job where
  "sample_job = \<lparr>pj_schemaName = tenant_schema ''a'', pj_companyId = ''a'', pj_adminEmail = Some ''e'', pj_adminPassword = Some ''secret''\<rparr>"

definition good_attempt :: attempt where
  "good_attempt = \<lparr>at_createOk = True, at_lost = (\<lambda>_. False), at_seedOk = True, at_adminOk = True, at_activateOk = True,
     at_drop = WriteDone, at_roleId = ''r'', at_ids = (''u'', ''r2'')\<rparr>"

lemma sample_facts:
  "pf_jobs sample_platform = [sample_job]" "pf_schemas sample_platform = Map.empty" "map co_id (pf_companies sample_platform) = [''a'']"
  "valid_schema (tenant_schema ''a'')" "undisturbed good_attempt" "reachable sample_platform"
proof -
  show "reachable sample_platform" unfolding sample_platform_def by (rule reachable.create [OF reachable.start])
  show "valid_schema (tenant_schema ''a'')" by code_simp
qed (simp_all add: sample_platform_def create_tenant_def sample_tenant_def sample_job_def new_company_def find_one_def undisturbed_def good_attempt_def Let_def)

theorem resolved_tenants_are_built_witness:
  "\<exists>s. pf_schemas (snd (process_job id good_attempt sample_job sample_platform)) (tenant_schema ''a'') = Some s \<and> list_all (\<lambda>t. has_table t s) base_tables"
proof -
  let ?q = "snd (process_job id good_attempt sample_job sample_platform)"
  have r: "reachable ?q" by (rule reachable.provision [OF sample_facts(6)]) (simp add: sample_facts)
  have "under_provision sample_job sample_platform" by (simp add: under_provision_def sample_job_def sample_facts)
  from process_step [OF this prod.collapse [symmetric], of id good_attempt] sample_facts(5)
  have "pf_companies ?q = update_where (\<lambda>c. co_id c = pj_companyId sample_job) (\<lambda>c. c\<lparr>co_isActive := True\<rparr>) (pf_companies sample_platform)"
    by simp
  moreover have "pj_companyId sample_job = ''a''" by (simp add: sample_job_def)
  ultimately have "pf_companies ?q = update_where (\<lambda>c. co_id c = ''a'') (\<lambda>c. c\<lparr>co_isActive := True\<rparr>) (pf_companies sample_platform)" by simp
  then have "\<exists>d\<in>set (pf_companies ?q). co_isActive d \<and> co_id d = co_id (hd (pf_companies sample_platform))"
    and "co_id (hd (pf_companies sample_platform)) = ''a''"
    using sample_facts(3) by (auto simp: set_update_where map_eq_Cons_conv)
  with r show ?thesis
    using resolved_tenants_are_built [of ?q _ _ _ _ _ _ "company.truncate (hd (pf_companies sample_platform))"] by (simp add: company.truncate_def)
qed

theorem provisioning_converges_witness:
  "\<exists>s. pf_schemas (deliver id 0 [good_attempt\<lparr>at_activateOk := False\<rparr>, good_attempt\<lparr>at_createOk := False\<rparr>, good_attempt] sample_job sample_platform)
      (tenant_schema ''a'') = Some s \<and> list_all (\<lambda>t. has_table t s) base_tables \<and> (\<exists>u. td_users (ts_db s) = [u] \<and> u_email u = ''e'')"
proof -
  let ?as = "[good_attempt\<lparr>at_activateOk := False\<rparr>, good_attempt\<lparr>at_createOk := False\<rparr>, good_attempt]"
  have a: "valid_schema (tenant_schema (pj_companyId sample_job))" "pj_schemaName sample_job = tenant_schema (pj_companyId sample_job)"
    "schema_now sample_job sample_platform = None" "PROVISION_ATTEMPTS \<le> length ?as" "with_admin sample_job"
    "pj_schemaName sample_job = tenant_schema ''a''" "pj_adminEmail sample_job = Some ''e''"
    using sample_facts by (simp_all add: sample_job_def PROVISION_ATTEMPTS_def with_admin_def)
  have "2 < PROVISION_ATTEMPTS \<and> undisturbed (?as ! 2)" using sample_facts(5) by (simp add: PROVISION_ATTEMPTS_def)
  then have "\<exists>k<PROVISION_ATTEMPTS. undisturbed (?as ! k)" by blast
  from provisioning_converges [OF a(1-4), of id, THEN conjunct1, THEN mp, OF this] obtain s where
    "schema_now sample_job (deliver id 0 ?as sample_job sample_platform) = Some s" "list_all (\<lambda>t. has_table t s) base_tables"
    "\<exists>u. td_users (ts_db s) = [u] \<and> Some (u_email u) = pj_adminEmail sample_job"
    using a(5) by blast
  then show ?thesis using a(6,7) by auto
qed

end
