(* ===== verification/AdminSafety.thy ===== *)
theory AdminSafety
  imports Tenancy
begin

text \<open>
  The administrators of a tenant: no sequence of administrator operations leaves it without an active one.
\<close>

subsection \<open>A tenant keeps an administrator\<close>

text \<open>The keys of the tables involved.\<close>

definition tenant_db_ok :: "tenant_db \<Rightarrow> bool" where
  "tenant_db_ok db \<longleftrightarrow> distinct (map u_id (td_users db)) \<and> distinct (user_roles (td_roles db)) \<and>
     distinct (map r_id (roles (td_roles db))) \<and> distinct (map r_name (roles (td_roles db)))"

definition holds_admin :: "tenant_db \<Rightarrow> uuid \<Rightarrow> bool" where
  "holds_admin db i \<longleftrightarrow> (\<exists>r\<in>set (roles (td_roles db)). r_name r = SUPER_ADMIN_ROLE_NAME \<and> (i, r_id r) \<in> set (user_roles (td_roles db)))"

definition administered :: "tenant_db \<Rightarrow> bool" where
  "administered db \<longleftrightarrow> tenant_db_ok db \<and> (\<exists>u\<in>set (td_users db). u_isActive u \<and> holds_admin db (u_id u))"

lemma set_active_super_admins: "set (active_super_admins db) = {u \<in> set (td_users db). u_isActive u \<and> holds_admin db (u_id u)}"
  by (auto simp: active_super_admins_def super_admins_def holds_admin_def)

lemma administered_iff: "administered db \<longleftrightarrow> tenant_db_ok db \<and> active_super_admins db \<noteq> []"
proof -
  have "active_super_admins db \<noteq> [] \<longleftrightarrow> set (active_super_admins db) \<noteq> {}" by simp
  then show ?thesis unfolding administered_def set_active_super_admins by auto
qed

lemma one_with_name: "distinct (map f xs) \<Longrightarrow> length (filter (\<lambda>x. f x = a) xs) \<le> 1"
proof (induction xs)
  case (Cons x xs)
  then have "filter (\<lambda>x. f x = a) xs = []" if "f x = a" using that by (auto simp: filter_empty_conv image_iff)
  with Cons show ?case by simp
qed simp

lemma sum_single:
  "distinct (map f xs) \<Longrightarrow> (\<And>x. x \<in> set xs \<Longrightarrow> f x \<noteq> a \<Longrightarrow> g x = (0::nat)) \<Longrightarrow> (\<And>x. x \<in> set xs \<Longrightarrow> g x \<le> 1) \<Longrightarrow> sum_list (map g xs) \<le> 1"
proof (induction xs)
  case (Cons x xs)
  show ?case
  proof (cases "f x = a")
    case True
    have "g y = 0" if "y \<in> set xs" for y
      by (rule Cons.prems(2)) (use that True Cons.prems(1) in \<open>auto simp: image_iff\<close>)
    then have "map g xs = map (\<lambda>_. 0) xs" by (simp cong: map_cong)
    then have "sum_list (map g xs) = 0" by (simp only: sum_list_0)
    with Cons.prems(3) [of x] show ?thesis by (simp del: sum_list_eq_0_iff)
  qed (use Cons in simp)
qed simp

text \<open>An administrator appears once in the join, so a count above one means two of them.\<close>

lemma matches: "length (concat (map (\<lambda>x. if c x then if d x then [u] else [] else []) xs)) = length (filter (\<lambda>x. c x \<and> d x) xs)"
  by (induction xs) auto

definition admin_rows :: "tenant_db \<Rightarrow> user \<Rightarrow> user list" where
  "admin_rows db u = concat (map (\<lambda>(v, r). if v = u_id u
     then concat (map (\<lambda>rl. if r_id rl = r then if r_name rl = SUPER_ADMIN_ROLE_NAME then [u] else [] else []) (roles (td_roles db)))
     else []) (user_roles (td_roles db)))"

lemma super_admins_rows: "super_admins db = concat (map (admin_rows db) (td_users db))"
  unfolding super_admins_def admin_rows_def [abs_def] by (rule refl)

lemma admin_rows_self: "v \<in> set (admin_rows db u) \<Longrightarrow> v = u"
  by (auto simp: admin_rows_def split: if_splits)

lemma join_once:
  assumes "tenant_db_ok db"
  shows "length (admin_rows db u) \<le> 1"
proof -
  let ?rs = "roles (td_roles db)"
  have one: "length (filter (\<lambda>rl. r_id rl = r \<and> r_name rl = SUPER_ADMIN_ROLE_NAME) ?rs) \<le> 1" for r
  proof -
    have "length (filter (\<lambda>rl. r_name rl = SUPER_ADMIN_ROLE_NAME) ?rs) \<le> 1"
      using assms by (intro one_with_name) (simp add: tenant_db_ok_def)
    with length_filter_le [of "\<lambda>rl. r_id rl = r" "filter (\<lambda>rl. r_name rl = SUPER_ADMIN_ROLE_NAME) ?rs"]
    have "length (filter (\<lambda>rl. r_id rl = r) (filter (\<lambda>rl. r_name rl = SUPER_ADMIN_ROLE_NAME) ?rs)) \<le> 1" by linarith
    then show ?thesis by (simp add: conj_commute)
  qed
  let ?r = "r_id (the (find_one (\<lambda>r. r_name r = SUPER_ADMIN_ROLE_NAME) ?rs))"
  have none: "filter (\<lambda>rl. r_id rl = r \<and> r_name rl = SUPER_ADMIN_ROLE_NAME) ?rs = []" if "r \<noteq> ?r" for r
  proof (rule ccontr)
    assume "filter (\<lambda>rl. r_id rl = r \<and> r_name rl = SUPER_ADMIN_ROLE_NAME) ?rs \<noteq> []"
    then obtain rl where rl: "rl \<in> set ?rs" "r_id rl = r" "r_name rl = SUPER_ADMIN_ROLE_NAME" by (auto simp: filter_empty_conv)
    then obtain q where q: "find_one (\<lambda>r. r_name r = SUPER_ADMIN_ROLE_NAME) ?rs = Some q" using find_one_None by fastforce
    from find_one_Some [OF this] rl assms have "q = rl" unfolding tenant_db_ok_def distinct_map by (metis inj_onD)
    with q rl(2) that show False by simp
  qed
  let ?g = "\<lambda>x. length (case x of (v, r) \<Rightarrow> if v = u_id u
      then concat (map (\<lambda>rl. if r_id rl = r then if r_name rl = SUPER_ADMIN_ROLE_NAME then [u] else [] else []) ?rs) else [])"
  have "sum_list (map ?g (user_roles (td_roles db))) \<le> 1"
  proof (rule sum_single [where f = "\<lambda>x. x" and a = "(u_id u, ?r)"])
    show "distinct (map (\<lambda>x. x) (user_roles (td_roles db)))" using assms by (simp add: tenant_db_ok_def)
    fix x :: "uuid \<times> uuid"
    obtain v r where x: "x = (v, r)" by fastforce
    show "?g x \<le> 1" unfolding x prod.case using one [of r] by (cases "v = u_id u") (simp_all only: matches if_True if_False list.size simp_thms zero_le_one)
    assume "x \<noteq> (u_id u, ?r)"
    then have "v \<noteq> u_id u \<or> r \<noteq> ?r" unfolding x by blast
    then show "?g x = 0" unfolding x prod.case
      using none [of r] by (cases "v = u_id u") (simp_all only: matches if_True if_False list.size simp_thms)
  qed
  then show ?thesis by (simp add: admin_rows_def length_concat comp_def)
qed

lemma in_concat_map: "x \<in> set xs \<Longrightarrow> y \<in> set (f x) \<Longrightarrow> y \<in> set (concat (map f xs))"
  by auto

lemma count_one:
  assumes "tenant_db_ok db" and "\<And>u. u \<in> set (active_super_admins db) \<Longrightarrow> u_id u = i"
  shows "length (active_super_admins db) \<le> 1"
proof -
  have eq: "active_super_admins db = concat (map (\<lambda>u. filter u_isActive (admin_rows db u)) (td_users db))"
    by (simp add: active_super_admins_def super_admins_rows filter_concat comp_def)
  have "sum_list (map (\<lambda>u. length (filter u_isActive (admin_rows db u))) (td_users db)) \<le> 1"
  proof (rule sum_single [where f = u_id and a = i])
    show "distinct (map u_id (td_users db))" using assms(1) by (simp add: tenant_db_ok_def)
    fix u assume u: "u \<in> set (td_users db)"
    show "length (filter u_isActive (admin_rows db u)) \<le> 1"
      using join_once [OF assms(1), of u] length_filter_le [of u_isActive "admin_rows db u"] by linarith
    assume other: "u_id u \<noteq> i"
    show "length (filter u_isActive (admin_rows db u)) = 0"
    proof (rule ccontr)
      assume "length (filter u_isActive (admin_rows db u)) \<noteq> 0"
      then obtain v where v: "v \<in> set (filter u_isActive (admin_rows db u))" by (metis length_0_conv last_in_set)
      have "v \<in> set (active_super_admins db)" unfolding eq by (rule in_concat_map [where x = u]) (rule u, rule v)
      with v assms(2) other admin_rows_self [of v db u] show False by auto
    qed
  qed
  then show ?thesis unfolding eq by (simp add: length_concat comp_def)
qed

text \<open>What each transaction does to the administrators.\<close>

definition keeps_admin :: "(tenant_db, 'e, 'a) tx \<Rightarrow> bool" where
  "keeps_admin body \<longleftrightarrow> (\<forall>db a db'. body db = Inr (a, db') \<longrightarrow> administered db \<longrightarrow> administered db')"

lemma set_user_administered:
  assumes "administered db" and "\<And>u. u_id (f u) = u_id u" and "\<And>u. u_isActive (f u) = u_isActive u"
  shows "administered (set_user i f db)"
proof -
  from assms(1) obtain u where u: "tenant_db_ok db" "u \<in> set (td_users db)" "u_isActive u" "holds_admin db (u_id u)" by (auto simp: administered_def)
  have "map u_id (td_users (set_user i f db)) = map u_id (td_users db)"
    using assms(2) by (simp add: set_user_def map_update_where_key)
  then have "tenant_db_ok (set_user i f db)" using u(1) by (simp add: tenant_db_ok_def set_user_def)
  moreover have "(if u_id u = i then f u else u) \<in> set (td_users (set_user i f db))" using u(2) by (auto simp: set_user_def set_update_where)
  moreover have "holds_admin (set_user i f db) j = holds_admin db j" for j by (simp add: holds_admin_def set_user_def)
  ultimately show ?thesis using u assms(2,3) unfolding administered_def by (auto intro!: bexI [of _ "if u_id u = i then f u else u"])
qed

lemma keeps_edit: "keeps_admin (update_admin_tx i email name)"
  by (auto simp: keeps_admin_def update_admin_tx_def split: if_splits intro: set_user_administered)

lemma keeps_password: "keeps_admin (update_password_tx hash i pw)"
  by (auto simp: keeps_admin_def update_password_tx_def split: if_splits intro: set_user_administered)

lemma keeps_reset: "keeps_admin (reset_admin_tx email ph)"
  by (auto simp: keeps_admin_def reset_admin_tx_def split: if_splits list.splits intro: set_user_administered)

lemma keeps_insert_role:
  assumes "insert_role r db = Inr db'" and "administered db"
  shows "administered db'"
  using assms by (auto simp: insert_role_def administered_def tenant_db_ok_def holds_admin_def split: if_splits)

lemma keeps_insert_user:
  assumes "insert_user u db = Inr db'" and "administered db"
  shows "administered db'"
  using assms by (auto simp: insert_user_def administered_def tenant_db_ok_def holds_admin_def split: if_splits)

lemma keeps_insert_user_role:
  assumes "insert_user_role i r db = Inr db'" and "administered db"
  shows "administered db'"
proof -
  from assms have db': "db' = db\<lparr>td_roles := (td_roles db)\<lparr>user_roles := user_roles (td_roles db) @ [(i, r)]\<rparr>\<rparr>" "(i, r) \<notin> set (user_roles (td_roles db))"
    by (auto simp: insert_user_role_def split: if_splits)
  then have "holds_admin db j \<Longrightarrow> holds_admin db' j" for j by (auto simp: holds_admin_def)
  with assms(2) db' show ?thesis by (auto simp: administered_def tenant_db_ok_def)
qed

lemma keeps_add: "keeps_admin (insert_super_admin hash ids t newAdmin idem)"
  unfolding keeps_admin_def insert_super_admin_def Let_def
  by (auto split: if_splits sum.splits dest: keeps_insert_role keeps_insert_user keeps_insert_user_role)

lemma keeps_drop: "keeps_admin (soft_delete_tx i)"
  unfolding keeps_admin_def
proof (intro allI impI)
  fix db :: tenant_db and a :: unit and db'
  assume s: "soft_delete_tx i db = Inr (a, db')" and "administered db"
  then have ok: "tenant_db_ok db" by (simp add: administered_def)
  from s have l: "\<not> length (active_super_admins db) \<le> 1"
    and db': "db' = db\<lparr>td_users := update_where (\<lambda>u. u_id u = i \<and> u_isActive u) (\<lambda>u. u\<lparr>u_isActive := False\<rparr>) (td_users db)\<rparr>"
    by (auto simp: soft_delete_tx_def split: if_splits)
  from l count_one [OF ok, of i] obtain u where "u \<in> set (active_super_admins db)" "u_id u \<noteq> i" by blast
  then have u: "u \<in> set (td_users db')" "u_isActive u" "holds_admin db' (u_id u)"
    unfolding set_active_super_admins db' by (force simp: set_update_where holds_admin_def)+
  have "map u_id (td_users db') = map u_id (td_users db)" unfolding db' by (simp add: map_update_where_key)
  with ok have "tenant_db_ok db'" unfolding db' by (simp add: tenant_db_ok_def)
  with u show "administered db'" unfolding administered_def by blast
qed

text \<open>The same on the platform.\<close>

definition has_admin :: "uuid \<Rightarrow> platform \<Rightarrow> bool" where
  "has_admin t p \<longleftrightarrow> (\<exists>s. pf_schemas p (tenant_schema t) = Some s \<and> administered (ts_db s))"

lemma in_schema_admin:
  assumes "keeps_admin body" and "has_admin t p" and "in_schema n body p = (r, p')"
  shows "has_admin t p'"
proof (cases r)
  case (Inl e)
  with assms(2,3) show ?thesis by (auto simp: in_schema_def split: if_splits option.splits prod.splits sum.splits)
next
  case (Inr a)
  with assms(3) obtain s db where s: "pf_schemas p n = Some s" "body (ts_db s) = Inr (a, db)"
    "p' = p\<lparr>pf_schemas := (pf_schemas p)(n \<mapsto> s\<lparr>ts_db := db\<rparr>)\<rparr>"
    by (auto simp: in_schema_def run_tx_def split: if_splits option.splits prod.splits sum.splits)
  with assms(1,2) show ?thesis by (auto simp: has_admin_def keeps_admin_def)
qed

lemma guarded_admin: "keeps_admin body \<Longrightarrow> has_admin t p \<Longrightarrow> guarded_admin_op c body p = (r, p') \<Longrightarrow> has_admin t p'"
  by (auto simp: guarded_admin_op_def split: sum.splits intro: in_schema_admin)

lemma invalidate_admin:
  assumes "has_admin t p"
  shows "has_admin t (invalidate_auth_state rv c u p)"
proof (cases "pf_schemas p (tenant_schema c)")
  case None
  with assms show ?thesis by (auto simp: invalidate_auth_state_def has_admin_def Let_def split: prod.splits)
next
  case (Some s)
  let ?db = "\<lambda>rv. aw_db (snd (case rv of (dbOk, wio, now) \<Rightarrow> revoke_user_tokens dbOk wio now c u (auth_view p))) (tenant_schema c)"
  have "administered (?db rv)" if "administered (ts_db s)"
  proof -
    have "?db rv = ts_db s \<or> (\<exists>now. ?db rv = set_user u (\<lambda>v. v\<lparr>u_tokensValidAfter := Some now\<rparr>) (ts_db s))"
      using Some by (auto simp: revoke_user_tokens_def auth_view_def invalidate_user_permissions_def stamp_tokens_valid_after_def set_user_def
          Let_def split: prod.split)
    with that set_user_administered [OF that] show ?thesis by (elim disjE exE) simp_all
  qed
  with assms Some show ?thesis
    by (cases rv) (auto simp: invalidate_auth_state_def has_admin_def Let_def)
qed

datatype admin_cmd =
    Add_Admin "string \<Rightarrow> string" "uuid \<times> uuid" new_admin
  | Edit_Admin uuid "string option" "string option"
  | Set_Password "string \<Rightarrow> string" revocation uuid string
  | Drop_Admin revocation uuid
  | Reset_Credentials "string \<Rightarrow> string" string revocation string "string option"

fun admin_step :: "platform \<Rightarrow> uuid \<times> admin_cmd \<Rightarrow> platform" where
  "admin_step p (t, Add_Admin hash ids data) = snd (create_admin hash ids t data p)"
| "admin_step p (t, Edit_Admin u email name) = snd (update_admin t u email name p)"
| "admin_step p (t, Set_Password hash rv u pw) = snd (update_admin_password hash rv t u pw p)"
| "admin_step p (t, Drop_Admin rv u) = snd (soft_delete_admin rv t u p)"
| "admin_step p (t, Reset_Credentials hash random rv email pw) = snd (reset_admin_credentials hash random rv t email pw p)"

lemma admin_step_keeps:
  assumes "has_admin t p"
  shows "has_admin t (admin_step p c)"
proof -
  note g = guarded_admin [OF _ assms] in_schema_admin [OF _ assms]
  obtain x cmd where c: "c = (x, cmd)" by fastforce
  show ?thesis unfolding c
    by (cases cmd)
       (auto simp: create_admin_def update_admin_def update_admin_password_def soft_delete_admin_def reset_admin_credentials_def Let_def assms
         split: option.splits sum.splits prod.splits
         intro: invalidate_admin g(1) [OF keeps_edit] g(1) [OF keeps_password] g(1) [OF keeps_drop] g(2) [OF keeps_reset]
           g(1) [OF keeps_add, OF prod.collapse [symmetric]] g(1) [OF keeps_edit, OF prod.collapse [symmetric]])
qed

interpretation admins: invariant_system admin_step "has_admin t" "\<lambda>_. True" for t
  by unfold_locales (rule admin_step_keeps)

text \<open>
  C26. A tenant that has an active super administrator keeps one: no sequence of administrator operations of any tenant
  (creations, edits, password changes, deactivations, credential resets), each failing or succeeding, removes the last.
\<close>

theorem last_admin_kept:
  assumes "pf_schemas p (tenant_schema t) = Some s" and "tenant_db_ok (ts_db s)" and "active_super_admins (ts_db s) \<noteq> []"
  shows "\<exists>s'. pf_schemas (foldl admin_step p cs) (tenant_schema t) = Some s' \<and> active_super_admins (ts_db s') \<noteq> []"
proof -
  from assms have "has_admin t p" by (simp add: has_admin_def administered_iff)
  from admins.run_inv [OF this, of cs] show ?thesis by (auto simp: has_admin_def administered_iff)
qed

definition one_admin :: platform where
  "one_admin = \<lparr>pf_companies = [new_company ''a'' 0 \<lparr>nt_name = ''A'', nt_subdomain = ''a'', nt_subscription_plan_id = ''p'', nt_contactEmail = None,
       nt_phone = None, nt_address = None, nt_taxId = None, nt_logoUrl = None, nt_adminEmail = None, nt_adminPassword = None\<rparr>],
     pf_schemas = [tenant_schema ''a'' \<mapsto> empty_schema\<lparr>ts_tables := [(T_users, [], []), (T_roles, [], []), (T_user_roles, [], [])],
       ts_db := \<lparr>td_users = [\<lparr>u_id = ''u'', u_email = ''e'', u_passwordHash = [], u_name = [], u_companyId = ''a'', u_isActive = True,
           u_forcePasswordReset = False, u_tokensValidAfter = None\<rparr>],
         td_roles = \<lparr>roles = [super_admin_role ''r''], role_inheritance = [], user_roles = [(''u'', ''r'')]\<rparr>\<rparr>\<rparr>],
     pf_lookup = Map.empty, pf_authRedis = Map.empty, pf_authLocal = [], pf_jobs = []\<rparr>"

theorem last_admin_kept_witness:
  "\<exists>s. pf_schemas (foldl admin_step one_admin [(''a'', Drop_Admin (True, WriteDone, 5) ''u''), (''a'', Reset_Credentials id ''x'' (True, WriteDone, 5) ''f'' None)])
      (tenant_schema ''a'') = Some s \<and> active_super_admins (ts_db s) \<noteq> []"
  by (rule last_admin_kept [of _ _ "the (pf_schemas one_admin (tenant_schema ''a''))"])
     (simp_all add: one_admin_def tenant_db_ok_def active_super_admins_def super_admins_def super_admin_role_def)

end
