(* ===== verification/Planning.thy ===== *)
theory Planning
  imports TenantContext
begin

text \<open>
  The tables of a tenant schema that planning and material generation share (the entities under
  \<open>academic-time/entities\<close>, \<open>syllabus/entities\<close> and \<open>materials/entities\<close>, with the constraints of the tenant
  migrations), their error messages, and transactions over them. Dates are day numbers: every date the
  code computes with is a calendar date to which whole days are added. Rows the database soft-deleted
  carry their deletion instant, and the entity queries skip them.
\<close>

type_synonym day = int

record cycle =
  cy_id :: uuid
  cy_name :: string
  cy_year :: int
  cy_startDate :: day
  cy_endDate :: "day option"
  cy_daysPerWeek :: int
  cy_totalWeeks :: int
  cy_isActive :: bool
  cy_deletedAt :: "millis option"

record cycle_week =
  cw_id :: uuid
  cw_cycleId :: uuid
  cw_weekNumber :: int
  cw_startDate :: day
  cw_endDate :: day
  cw_isActive :: bool
  cw_deletedAt :: "millis option"

record material_template =
  tp_id :: uuid
  tp_cycleId :: uuid
  tp_name :: string
  tp_scope :: string
  tp_accumulationWeeks :: "int option"

record template_course =
  tc_id :: uuid
  tc_templateId :: uuid
  tc_courseId :: string
  tc_questionsQuantity :: int
  tc_easyCount :: int
  tc_mediumCount :: int
  tc_hardCount :: int

record syllabus =
  sy_id :: uuid
  sy_cycleId :: uuid
  sy_courseId :: string
  sy_name :: string
  sy_templateId :: "uuid option"
  sy_isActive :: bool

record distribution =
  sd_id :: uuid
  sd_syllabusId :: uuid
  sd_templateId :: "uuid option"
  sd_weekNumber :: int
  sd_topicId :: string
  sd_subtopicId :: string
  sd_questionCount :: int
  sd_isGenerated :: bool

datatype request_status =
    MR_PENDING | MR_IN_REVIEW | MR_PROCESSING | MR_REVIEW_REQUIRED
  | MR_COMPLETED | MR_COMPLETED_WITH_WARNINGS | MR_FAILED

datatype course_status =
    CM_PENDING | CM_PROCESSING | CM_COMPLETED | CM_COMPLETED_WITH_WARNINGS | CM_EMPTY_BANK | CM_FAILED

datatype review_status = RQ_FOUND | RQ_EMPTY | RQ_REPLACED | RQ_REMOVED

record material =
  ma_id :: uuid
  ma_tenantId :: string
  ma_profileId :: uuid
  ma_cycleId :: uuid
  ma_weekNumber :: int
  ma_status :: request_status
  ma_latestRequestId :: "uuid option"

record material_request =
  mr_id :: uuid
  mr_tenantId :: string
  mr_profileId :: uuid
  mr_cycleId :: uuid
  mr_weekNumber :: int
  mr_status :: request_status
  mr_requiresReview :: bool
  mr_materialType :: string
  mr_designTemplateId :: "uuid option"
  mr_materialId :: "uuid option"
  mr_createdBy :: uuid
  mr_version :: int
  mr_mergedDownloadUrl :: "string option"
  mr_mergedKeyDownloadUrl :: "string option"
  mr_mergedSolutionDownloadUrl :: "string option"
  mr_createdAt :: millis
  mr_updatedAt :: millis

record request_course =
  rc_id :: uuid
  rc_materialRequestId :: uuid
  rc_courseId :: string
  rc_status :: course_status
  rc_downloadUrl :: "string option"
  rc_keyDownloadUrl :: "string option"
  rc_solutionDownloadUrl :: "string option"
  rc_warnings :: "string option"
  rc_pageCount :: "int option"
  rc_fileSizeBytes :: "int option"
  rc_completedAt :: "millis option"

record review_question =
  rq_id :: uuid
  rq_materialRequestId :: uuid
  rq_questionId :: "string option"
  rq_topicId :: string
  rq_subtopicId :: string
  rq_expectedLevel :: "string option"
  rq_position :: nat
  rq_status :: review_status

record question_usage =
  qu_materialRequestId :: uuid
  qu_cycleId :: uuid
  qu_questionId :: string
  qu_courseId :: string
  qu_topicId :: string
  qu_subtopicId :: string
  qu_positionInPdf :: int
  qu_wasReplacement :: bool

record pdf_design =
  pt_id :: uuid
  pt_tenantId :: "string option"
  pt_isDefault :: bool

record planning_db =
  pd_cycles :: "cycle list"
  pd_weeks :: "cycle_week list"
  pd_templates :: "material_template list"
  pd_templateCourses :: "template_course list"
  pd_syllabuses :: "syllabus list"
  pd_distributions :: "distribution list"
  pd_materials :: "material list"
  pd_requests :: "material_request list"
  pd_requestCourses :: "request_course list"
  pd_reviewQuestions :: "review_question list"
  pd_usages :: "question_usage list"
  pd_designs :: "pdf_design list"

definition empty_planning_db :: planning_db where
  "empty_planning_db = \<lparr>pd_cycles = [], pd_weeks = [], pd_templates = [], pd_templateCourses = [], pd_syllabuses = [],
     pd_distributions = [], pd_materials = [], pd_requests = [], pd_requestCourses = [], pd_reviewQuestions = [],
     pd_usages = [], pd_designs = []\<rparr>"

subsection \<open>Messages\<close>

datatype planning_msg =
    SqlError string
  | CourseNotVisible string
  | SyllabusExists
  | SyllabusActiveExists
  | WeekOverLimit int int int
  | DistributionNotFound
  | TargetSyllabusNotFound
  | SourceSyllabusNotFound
  | MissingTemplates "string list"
  | CloneOverLimit "int list"
  | SourceCycleEmpty
  | CycleNotFound
  | CycleHasSyllabus
  | CycleInUse nat nat nat nat
  | CannotVerifySyllabus
  | TemplateNotInCycle
  | TemplateInUse nat nat nat nat
  | CountsDoNotAddUp string int int int int
  | ProfileNotFound
  | NoDistributions
  | MaterialNotCreated
  | InvalidArrayLength
  | RequestNotFound
  | ReviewedByOther
  | UnresolvedEmptySlots
  | WebhookFieldsRequired
  | UnknownWebhookStatus string
  | QueueUnavailable
  | CourseNotInRequest
  | MaterialNotReady
  | InvalidQuestionId
  | QuestionNotFound
  | WorkerError string

type_synonym planning_error = "planning_msg http_error"
type_synonym 'a ptx = "(planning_db, planning_error, 'a) tx"

text \<open>The driver's error for a violated constraint: \<open>23505\<close> unique, \<open>23503\<close> foreign key, \<open>23514\<close> check.\<close>

abbreviation sql_error :: "string \<Rightarrow> planning_error" where
  "sql_error code \<equiv> RawError (SqlError code)"

definition unique_violation :: planning_error where
  "unique_violation = sql_error ''23505''"

definition fk_violation :: planning_error where
  "fk_violation = sql_error ''23503''"

definition check_violation :: planning_error where
  "check_violation = sql_error ''23514''"

text \<open>Statements on a transaction the server has aborted fail with \<open>25P02\<close>.\<close>

definition aborted_transaction :: planning_error where
  "aborted_transaction = sql_error ''25P02''"

lemma sql_errors_distinct [simp]:
  "unique_violation \<noteq> fk_violation" "unique_violation \<noteq> check_violation" "fk_violation \<noteq> check_violation"
  "fk_violation \<noteq> unique_violation" "check_violation \<noteq> unique_violation"
  by (simp_all add: unique_violation_def fk_violation_def check_violation_def)

subsection \<open>Running statements one after the other\<close>

fun tx_fold :: "('x \<Rightarrow> 'd \<Rightarrow> 'e + 'd) \<Rightarrow> 'x list \<Rightarrow> 'd \<Rightarrow> 'e + 'd" where
  "tx_fold f [] d = Inr d"
| "tx_fold f (x # xs) d = (case f x d of Inl e \<Rightarrow> Inl e | Inr d' \<Rightarrow> tx_fold f xs d')"

lemma tx_fold_inv:
  assumes "tx_fold f xs d = Inr d'" and "I d"
    and "\<And>x d d'. x \<in> set xs \<Longrightarrow> I d \<Longrightarrow> f x d = Inr d' \<Longrightarrow> I d'"
  shows "I d'"
  using assms
proof (induction xs arbitrary: d)
  case (Cons x xs)
  then obtain d1 where "f x d = Inr d1" "tx_fold f xs d1 = Inr d'" by (auto split: sum.splits)
  with Cons.prems(2,3) have "I d1" by auto
  with Cons.IH [of d1] \<open>tx_fold f xs d1 = Inr d'\<close> Cons.prems(3) show ?case by auto
qed simp

text \<open>Sums of a column.\<close>

definition sum_of :: "('r \<Rightarrow> int) \<Rightarrow> 'r list \<Rightarrow> int" where
  "sum_of f t = sum_list (map f t)"

lemma sum_of_simps [simp]: "sum_of f [] = 0" "sum_of f (x # t) = f x + sum_of f t"
  "sum_of f (s @ t) = sum_of f s + sum_of f t"
  by (simp_all add: sum_of_def)

lemma sum_of_nonneg: "(\<And>x. x \<in> set t \<Longrightarrow> 0 \<le> f x) \<Longrightarrow> 0 \<le> sum_of f t"
  by (induction t) (auto simp: add_nonneg_nonneg)

end
