(* ===== verification/QuestionBank.thy ===== *)
theory QuestionBank
  imports QuestionSelection Planning
begin

text \<open>
  Access to the external question bank: the queries of \<open>FlatQuestionsRepository\<close>
  (\<open>question-bank/flat-questions.repository.ts\<close>), \<open>QuestionBankService\<close>
  (\<open>question-bank/question-bank.service.ts\<close>), the level reconciliation
  (\<open>question-bank/question-level-id-reconciliation.service.ts\<close>), the previews and alternatives of
  \<open>GetMaterialQuestionsUseCase\<close> (\<open>materials/use-cases/get-material-questions.use-case.ts\<close>) and
  \<open>CoreApiService\<close> (\<open>materials/services/core-api.service.ts\<close>).

  The bank is the content of the tables those queries read. Ids are decimal strings, so \<open>Number\<close>, \<open>BigInt\<close>
  and \<open>String\<close> between them are the identity. \<open>ORDER BY random()\<close> is a parameter that reorders the rows. A null
  level is 0, an id no difficulty maps to. Signing an object key is a parameter that may fail. The jsonb
  fields that are copied verbatim from the bank into an answer are left out.
\<close>

subsection \<open>The bank\<close>

record bank_question =
  bq_id :: string
  bq_topicId :: string
  bq_subtopicId :: string
  bq_levelId :: int
  bq_code :: string
  bq_description :: string
  bq_answerId :: "string option"
  bq_active :: bool

record question_link =
  ql_questionId :: string
  ql_subtopicId :: string
  ql_active :: bool

record bank_alternative =
  ba_id :: string
  ba_questionId :: string
  ba_text :: string
  ba_active :: bool

record flat_alternative =
  fa_label :: string
  fa_text :: string
  fa_isCorrect :: bool

record flat_question =
  fq_question_id :: string
  fq_code :: string
  fq_level_id :: int
  fq_html_content :: string
  fq_alternatives :: "flat_alternative list"
  fq_images :: "(string \<times> string) list"
  fq_solution_images :: "(string \<times> string) list"
  fq_origins :: "(string \<times> string) list"

record bank =
  bk_questions :: "bank_question list"
  bk_links :: "question_link list"
  bk_subtopics :: "(string \<times> string option) list"
  bk_topics :: "(string \<times> string) list"
  bk_alternatives :: "bank_alternative list"
  bk_question_images :: "(string \<times> string \<times> string) list"
  bk_flat :: "flat_question list"
  bk_levels :: "int list"

subsection \<open>Queries\<close>

definition find_by_ids :: "string list \<Rightarrow> bank \<Rightarrow> flat_question list" where
  "find_by_ids ids b = find_all (\<lambda>f. fq_question_id f \<in> set ids) (bk_flat b)"

definition find_by_id :: "string \<Rightarrow> bank \<Rightarrow> flat_question option" where
  "find_by_id i b = (case find_by_ids [i] b of [] \<Rightarrow> None | f # _ \<Rightarrow> Some f)"

text \<open>The normalized fallback: active alternatives in the order of their ids, lettered by position.\<close>

definition decimal_value :: "string \<Rightarrow> nat" where
  "decimal_value s = foldl (\<lambda>n c. 10 * n + (of_char c - 48)) 0 s"

definition letter :: "nat \<Rightarrow> string" where
  "letter idx = [char_of (65 + idx)]"

definition normalized_question :: "bank \<Rightarrow> bank_question \<Rightarrow> flat_question" where
  "normalized_question b q =
     \<lparr>fq_question_id = bq_id q, fq_code = bq_code q, fq_level_id = bq_levelId q, fq_html_content = bq_description q,
      fq_alternatives = map (\<lambda>(idx, a). \<lparr>fa_label = letter idx, fa_text = ba_text a,
            fa_isCorrect = (case bq_answerId q of None \<Rightarrow> False | Some i \<Rightarrow> i = ba_id a)\<rparr>)
          (enumerate 0 (sort_key (\<lambda>a. decimal_value (ba_id a)) (filter (\<lambda>a. ba_questionId a = bq_id q \<and> ba_active a) (bk_alternatives b)))),
      fq_images = map snd (filter (\<lambda>(i, _). i = bq_id q) (bk_question_images b)),
      fq_solution_images = [], fq_origins = []\<rparr>"

definition find_by_ids_from_normalized :: "string list \<Rightarrow> bank \<Rightarrow> flat_question list" where
  "find_by_ids_from_normalized ids b =
     map (normalized_question b) (find_all (\<lambda>q. bq_id q \<in> set ids \<and> bq_active q) (bk_questions b))"

definition find_by_id_from_normalized :: "string \<Rightarrow> bank \<Rightarrow> flat_question option" where
  "find_by_id_from_normalized i b = (case find_by_ids_from_normalized [i] b of [] \<Rightarrow> None | f # _ \<Rightarrow> Some f)"

text \<open>\<open>SELECT DISTINCT s.topic_id\<close> over the active links, without the nulls.\<close>

definition find_topic_ids_for_question :: "string \<Rightarrow> bank \<Rightarrow> string list" where
  "find_topic_ids_for_question i b =
     List.map_filter id (js_unique [t. l \<leftarrow> bk_links b, ql_questionId l = i, ql_active l, (s, t) \<leftarrow> bk_subtopics b, s = ql_subtopicId l])"

definition find_subtopic_question_mappings :: "string list \<Rightarrow> bank \<Rightarrow> (string \<times> string) list" where
  "find_subtopic_question_mappings ss b =
     map (\<lambda>l. (ql_subtopicId l, ql_questionId l))
       (find_all (\<lambda>l. ql_subtopicId l \<in> set ss \<and> ql_active l \<and> ql_questionId l \<in> fq_question_id ` set (bk_flat b)) (bk_links b))"

text \<open>\<open>s.split(',').filter(Boolean).map(Number).filter(id => !isNaN(id))\<close> on decimal and other strings.\<close>

definition is_decimal :: "string \<Rightarrow> bool" where
  "is_decimal s \<longleftrightarrow> s \<noteq> [] \<and> list_all (\<lambda>c. 48 \<le> (of_char c :: nat) \<and> (of_char c :: nat) \<le> 57) s"

definition id_list :: "string \<Rightarrow> string list" where
  "id_list s = filter is_decimal (split_on (CHR '','') s)"

record search_filters =
  sf_courseId :: "string option"
  sf_topicId :: "string option"
  sf_subtopicId :: "string option"
  sf_level :: "string option"
  sf_excludeIds :: "string list"
  sf_excludeTopicIds :: "string list"
  sf_limit :: int

definition SEARCH_OVERSAMPLE :: int where "SEARCH_OVERSAMPLE = 3"
definition DEFAULT_SEARCH_LIMIT :: int where "DEFAULT_SEARCH_LIMIT = 25"
definition POOL_OVERSAMPLE :: int where "POOL_OVERSAMPLE = 3"

text \<open>One condition of the scope: an id list without a usable id adds no condition.\<close>

definition in_list :: "string \<Rightarrow> string option \<Rightarrow> bool" where
  "in_list ids v \<longleftrightarrow> id_list ids = [] \<or> (case v of None \<Rightarrow> False | Some x \<Rightarrow> x \<in> set (id_list ids))"

definition scope_matches :: "search_filters \<Rightarrow> string \<Rightarrow> string option \<Rightarrow> string option \<Rightarrow> bool" where
  "scope_matches f subtopic topic course \<longleftrightarrow>
     (if truthy_str (sf_subtopicId f) then in_list (the (sf_subtopicId f)) (Some subtopic)
      else if truthy_str (sf_topicId f) then in_list (the (sf_topicId f)) topic
      else if truthy_str (sf_courseId f) then in_list (the (sf_courseId f)) course
      else True)"

definition level_matches :: "search_filters \<Rightarrow> int \<Rightarrow> bool" where
  "level_matches f lv \<longleftrightarrow>
     (if truthy_str (sf_level f)
      then (let ids = get_level_ids_for_difficulty (the (sf_level f)) in
            if ids \<noteq> [] then lv \<in> set ids else lv = int (decimal_value (the (sf_level f))))
      else True)"

text \<open>
  The rows of the query: one per active link of a question to a subtopic, joined with the topic when a course is
  given. The null topic of a subtopic fails a \<open>NOT IN\<close> and an inner join.
\<close>

definition joined_courses :: "search_filters \<Rightarrow> string option \<Rightarrow> bank \<Rightarrow> string option list" where
  "joined_courses f topic b =
     (if truthy_str (sf_courseId f) then [Some c. (t, c) \<leftarrow> bk_topics b, topic = Some t] else [None])"

definition visible_topic :: "search_filters \<Rightarrow> string option \<Rightarrow> bool" where
  "visible_topic f topic \<longleftrightarrow>
     sf_excludeTopicIds f = [] \<or> (case topic of None \<Rightarrow> False | Some t \<Rightarrow> t \<notin> set (sf_excludeTopicIds f))"

definition search_rows :: "search_filters \<Rightarrow> bank \<Rightarrow> string list" where
  "search_rows f b =
     [fq_question_id q. q \<leftarrow> bk_flat b, l \<leftarrow> bk_links b, ql_questionId l = fq_question_id q, ql_active l,
        (s, t) \<leftarrow> bk_subtopics b, s = ql_subtopicId l,
        course \<leftarrow> joined_courses f t b, scope_matches f s t course, level_matches f (fq_level_id q),
        fq_question_id q \<notin> set (sf_excludeIds f), visible_topic f t]"

text \<open>A level that is neither a difficulty nor a number reaches the driver as NaN, which the database rejects.\<close>

definition bad_level :: "search_filters \<Rightarrow> bool" where
  "bad_level f \<longleftrightarrow> truthy_str (sf_level f) \<and> get_level_ids_for_difficulty (the (sf_level f)) = [] \<and> \<not> is_decimal (the (sf_level f))"

definition search_question_ids ::
  "(string list \<Rightarrow> string list) \<Rightarrow> search_filters \<Rightarrow> bank \<Rightarrow> planning_error + string list" where
  "search_question_ids random_order f b =
     (let desired = (if sf_limit f > 0 then sf_limit f else DEFAULT_SEARCH_LIMIT)
      in if bad_level f then Inl (sql_error ''22P02'')
         else Inr (take (nat (desired * SEARCH_OVERSAMPLE)) (random_order (search_rows f b))))"

text \<open>The bounded pool: a sample per tier, united. Without level ids the first tier is left out.\<close>

definition pool_base :: "string \<Rightarrow> bank \<Rightarrow> question list" where
  "pool_base subtopicId b =
     [\<lparr>q_id = bq_id q, q_levelId = bq_levelId q\<rparr>. q \<leftarrow> bk_questions b, l \<leftarrow> bk_links b,
        ql_questionId l = bq_id q, ql_active l, ql_subtopicId l = subtopicId, bq_active q,
        bq_id q \<in> fq_question_id ` set (bk_flat b)]"

definition find_bounded_candidate_pool ::
  "(question list \<Rightarrow> question list) \<Rightarrow> string \<Rightarrow> int \<Rightarrow> string list \<Rightarrow> string option \<Rightarrow> bank \<Rightarrow> question list" where
  "find_bounded_candidate_pool random_order subtopicId limit excludeIds difficulty b =
     (let sample = (\<lambda>p. take (nat (limit * POOL_OVERSAMPLE)) (random_order (filter p (pool_base subtopicId b))));
          levelIds = (if truthy_str difficulty then get_level_ids_for_difficulty (the difficulty) else []);
          unused = (\<lambda>q. q_id q \<notin> set excludeIds)
      in js_unique ((if levelIds \<noteq> [] then sample (\<lambda>q. unused q \<and> q_levelId q \<in> set levelIds) else [])
           @ sample unused @ sample (\<lambda>q. \<not> unused q)))"

subsection \<open>The service\<close>

definition get_random_questions ::
  "(nat \<Rightarrow> rat) \<Rightarrow> (question list \<Rightarrow> question list) \<Rightarrow> string \<Rightarrow> int \<Rightarrow> string list \<Rightarrow> string option \<Rightarrow> bank \<Rightarrow> bank_question list" where
  "get_random_questions random random_order subtopicId limit excludeIds difficulty b =
     (if limit \<le> 0 then []
      else let pool = find_bounded_candidate_pool random_order subtopicId limit excludeIds difficulty b;
               selected = select_best_questions random pool excludeIds (replicate (nat limit) difficulty) True;
               ids = map q_id (chosen selected)
      in if ids = [] then [] else find_all (\<lambda>q. bq_id q \<in> set ids) (bk_questions b))"

definition check_level_ids :: "bank \<Rightarrow> nat \<times> nat \<times> int list" where
  "check_level_ids b =
     (let expected = all_mapped_question_level_ids;
          missing = filter (\<lambda>i. i \<notin> set (bk_levels b)) expected
      in (length expected, length expected - length missing, missing))"

subsection \<open>Extracted questions\<close>

text \<open>The signed object keys of a question's images: one failed signature fails the whole question.\<close>

fun sign_all :: "(string \<Rightarrow> string option) \<Rightarrow> (string \<times> string) list \<Rightarrow> planning_error + (string \<times> string) list" where
  "sign_all sign [] = Inr []"
| "sign_all sign ((i, key) # rest) =
     (case sign key of
        None \<Rightarrow> Inl (RawError (WorkerError ''sign''))
      | Some url \<Rightarrow> (case sign_all sign rest of Inl e \<Rightarrow> Inl e | Inr us \<Rightarrow> Inr ((i, url) # us)))"

record extracted_question =
  eq_id :: string
  eq_topicId :: string
  eq_subtopicId :: string
  eq_code :: string
  eq_content :: string
  eq_options :: "flat_alternative list"
  eq_images :: "(string \<times> string) list"
  eq_solution_images :: "(string \<times> string) list"
  eq_textOrigin :: string

text \<open>The origin label of the cycle's university: \<open>flatQ.origins[universityId] || 'Desconocido'\<close>.\<close>

definition text_origin :: "string option \<Rightarrow> flat_question \<Rightarrow> string" where
  "text_origin universityId f =
     (let label = (if truthy_str universityId then map_of (fq_origins f) (the universityId) else None)
      in if truthy_str label then the label else ''Desconocido'')"

definition extract_question ::
  "(string \<Rightarrow> string option) \<Rightarrow> string option \<Rightarrow> string \<Rightarrow> string \<Rightarrow> flat_question \<Rightarrow> planning_error + extracted_question" where
  "extract_question sign universityId topicId subtopicId f =
     (case sign_all sign (fq_images f) of
        Inl e \<Rightarrow> Inl e
      | Inr images \<Rightarrow>
          (case sign_all sign (fq_solution_images f) of
             Inl e \<Rightarrow> Inl e
           | Inr diag \<Rightarrow> Inr \<lparr>eq_id = fq_question_id f, eq_topicId = topicId, eq_subtopicId = subtopicId, eq_code = fq_code f,
                 eq_content = fq_html_content f, eq_options = fq_alternatives f, eq_images = images, eq_solution_images = diag,
                 eq_textOrigin = text_origin universityId f\<rparr>))"

text \<open>\<open>new Map(rows.map(r => [id, r]))\<close>: the last row with an id wins.\<close>

definition flat_map :: "flat_question list \<Rightarrow> string \<Rightarrow> flat_question option" where
  "flat_map fs i = find_one (\<lambda>f. fq_question_id f = i) (rev fs)"

fun extract_all ::
  "(string \<Rightarrow> string option) \<Rightarrow> string option \<Rightarrow> string \<Rightarrow> string \<Rightarrow> flat_question list \<Rightarrow> bank_question list
    \<Rightarrow> planning_error + extracted_question list" where
  "extract_all sign universityId topicId subtopicId fs [] = Inr []"
| "extract_all sign universityId topicId subtopicId fs (q # qs) =
     (case flat_map fs (bq_id q) of
        None \<Rightarrow> extract_all sign universityId topicId subtopicId fs qs
      | Some f \<Rightarrow>
          (case extract_question sign universityId (if bq_topicId q = [] then topicId else bq_topicId q)
                  (if bq_subtopicId q = [] then subtopicId else bq_subtopicId q) f of
             Inl e \<Rightarrow> Inl e
           | Inr x \<Rightarrow> (case extract_all sign universityId topicId subtopicId fs qs of Inl e \<Rightarrow> Inl e | Inr xs \<Rightarrow> Inr (x # xs))))"

definition fetch_questions ::
  "(nat \<Rightarrow> rat) \<Rightarrow> (question list \<Rightarrow> question list) \<Rightarrow> (string \<Rightarrow> string option) \<Rightarrow> bank \<Rightarrow> string \<Rightarrow> string \<Rightarrow> int \<Rightarrow> string list
    \<Rightarrow> string option \<Rightarrow> planning_error + extracted_question list" where
  "fetch_questions random random_order sign b topicId subtopicId quantity excludeIds universityId =
     (let filtered = filter (\<lambda>q. bq_id q \<notin> set excludeIds) (get_random_questions random random_order subtopicId quantity excludeIds None b)
      in if filtered = [] then Inr []
         else extract_all sign universityId topicId subtopicId (find_by_ids (map bq_id filtered) b) filtered)"

subsection \<open>Previews and alternatives for a tenant\<close>

record topic_visibility =
  tv_topicId :: string
  tv_isActive :: bool

definition get_hidden_topic_ids :: "topic_visibility list \<Rightarrow> string list" where
  "get_hidden_topic_ids rows = map tv_topicId (find_all (\<lambda>r. \<not> tv_isActive r) rows)"

record question_view =
  qv_id :: string
  qv_code :: string
  qv_content :: string
  qv_options :: "flat_alternative list"
  qv_images :: "(string \<times> string) list"

text \<open>The answer; an alternative without a label takes the letter of its position.\<close>

definition map_flat_question :: "(string \<Rightarrow> string option) \<Rightarrow> flat_question \<Rightarrow> planning_error + question_view" where
  "map_flat_question sign f =
     (case sign_all sign (fq_images f) of
        Inl e \<Rightarrow> Inl e
      | Inr images \<Rightarrow>
          (case sign_all sign (fq_solution_images f) of
             Inl e \<Rightarrow> Inl e
           | Inr _ \<Rightarrow> Inr \<lparr>qv_id = fq_question_id f, qv_code = fq_code f, qv_content = fq_html_content f,
                 qv_options = map (\<lambda>(idx, a). a\<lparr>fa_label := (if fa_label a = [] then letter idx else fa_label a)\<rparr>) (enumerate 0 (fq_alternatives f)),
                 qv_images = images\<rparr>))"

definition get_question_preview ::
  "(string \<Rightarrow> string option) \<Rightarrow> bank \<Rightarrow> topic_visibility list \<Rightarrow> string \<Rightarrow> planning_error + question_view" where
  "get_question_preview sign b visibility questionId =
     (if \<not> is_decimal questionId then Inl (BadRequest InvalidQuestionId)
      else let topicIds = find_topic_ids_for_question questionId b; hidden = get_hidden_topic_ids visibility in
        if topicIds \<noteq> [] \<and> hidden \<noteq> [] \<and> \<not> list_ex (\<lambda>t. t \<notin> set hidden) topicIds then Inl (NotFound QuestionNotFound)
        else case find_by_id questionId b of
          Some f \<Rightarrow> map_flat_question sign f
        | None \<Rightarrow> (case find_by_id_from_normalized questionId b of
                     None \<Rightarrow> Inl (NotFound QuestionNotFound)
                   | Some f \<Rightarrow> map_flat_question sign f))"

fun map_all :: "('a \<Rightarrow> 'e + 'b) \<Rightarrow> 'a list \<Rightarrow> 'e + 'b list" where
  "map_all f [] = Inr []"
| "map_all f (x # xs) = (case f x of Inl e \<Rightarrow> Inl e | Inr y \<Rightarrow> (case map_all f xs of Inl e \<Rightarrow> Inl e | Inr ys \<Rightarrow> Inr (y # ys)))"

text \<open>The ids: a search at the level, and one without a level when that did not fill the limit.\<close>

definition alternative_ids ::
  "(nat \<Rightarrow> rat) \<Rightarrow> (nat \<Rightarrow> rat) \<Rightarrow> (string list \<Rightarrow> string list) \<Rightarrow> (string list \<Rightarrow> string list) \<Rightarrow> bank \<Rightarrow> search_filters
    \<Rightarrow> planning_error + string list" where
  "alternative_ids rnd1 rnd2 order1 order2 b f =
     (case search_question_ids order1 f b of
        Inl e \<Rightarrow> Inl e
      | Inr primary \<Rightarrow>
          let selected = take (nat (sf_limit f)) (fst (shuffle_js rnd1 0 primary)) in
          if int (length selected) < sf_limit f \<and> truthy_str (sf_level f)
          then (case search_question_ids order2 (f\<lparr>sf_level := None, sf_excludeIds := sf_excludeIds f @ selected\<rparr>) b of
                  Inl e \<Rightarrow> Inl e
                | Inr fallback \<Rightarrow> Inr (selected @ take (nat (sf_limit f - int (length selected))) (fst (shuffle_js rnd2 0 fallback))))
          else Inr selected)"

definition get_question_alternatives ::
  "(nat \<Rightarrow> rat) \<Rightarrow> (nat \<Rightarrow> rat) \<Rightarrow> (string list \<Rightarrow> string list) \<Rightarrow> (string list \<Rightarrow> string list) \<Rightarrow> (string \<Rightarrow> string option)
    \<Rightarrow> bank \<Rightarrow> topic_visibility list \<Rightarrow> search_filters \<Rightarrow> planning_error + question_view list" where
  "get_question_alternatives rnd1 rnd2 order1 order2 sign b visibility f =
     (case alternative_ids rnd1 rnd2 order1 order2 b (f\<lparr>sf_excludeTopicIds := get_hidden_topic_ids visibility\<rparr>) of
        Inl e \<Rightarrow> Inl e
      | Inr ids \<Rightarrow> if ids = [] then Inr [] else map_all (map_flat_question sign) (find_by_ids ids b))"

subsection \<open>Laws\<close>

text \<open>A random order of rows is a permutation of them.\<close>

definition reorders :: "('a list \<Rightarrow> 'a list) \<Rightarrow> bool" where
  "reorders order \<longleftrightarrow> (\<forall>xs. mset (order xs) = mset xs)"

lemma reorders_set: "reorders order \<Longrightarrow> set (order xs) = set xs"
  unfolding reorders_def by (metis set_mset_mset)

text \<open>A question is linked to a topic of the bank by an active link to one of its subtopics.\<close>

definition topic_of_question :: "bank \<Rightarrow> string \<Rightarrow> string \<Rightarrow> bool" where
  "topic_of_question b i t \<longleftrightarrow>
     (\<exists>l\<in>set (bk_links b). ql_questionId l = i \<and> ql_active l \<and> (ql_subtopicId l, Some t) \<in> set (bk_subtopics b))"

lemma find_topic_ids_exact: "t \<in> set (find_topic_ids_for_question i b) \<longleftrightarrow> topic_of_question b i t"
  by (force simp: find_topic_ids_for_question_def in_map_filter topic_of_question_def)

lemma map_flat_question_id: "map_flat_question sign f = Inr v \<Longrightarrow> qv_id v = fq_question_id f"
  by (auto simp: map_flat_question_def split: sum.splits)

lemma map_all_Inr: "map_all f xs = Inr ys \<Longrightarrow> y \<in> set ys \<Longrightarrow> \<exists>x\<in>set xs. f x = Inr y"
  by (induction xs arbitrary: ys) (auto split: sum.splits)

lemma search_rows_row:
  assumes "i \<in> set (search_rows f b)"
  obtains l t where "l \<in> set (bk_links b)" "ql_questionId l = i" "ql_active l" "(ql_subtopicId l, t) \<in> set (bk_subtopics b)"
    "i \<notin> set (sf_excludeIds f)" "visible_topic f t"
  using assms unfolding search_rows_def by (auto split: if_splits)

lemma search_rows_visible:
  assumes "i \<in> set (search_rows f b)"
  shows "i \<notin> set (sf_excludeIds f)"
    "sf_excludeTopicIds f \<noteq> [] \<Longrightarrow> \<exists>t. topic_of_question b i t \<and> t \<notin> set (sf_excludeTopicIds f)"
  by (rule search_rows_row [OF assms], assumption)
    (rule search_rows_row [OF assms], auto simp: topic_of_question_def visible_topic_def split: option.splits)

lemma search_question_ids_Inr:
  "search_question_ids order f b = Inr ids \<Longrightarrow> reorders order \<Longrightarrow> set ids \<subseteq> set (search_rows f b)"
  by (auto simp: search_question_ids_def Let_def reorders_set split: if_splits dest!: in_set_takeD)

lemma alternative_ids_Inr:
  assumes "alternative_ids rnd1 rnd2 order1 order2 b f = Inr ids"
    and "unit_interval rnd1" "unit_interval rnd2" "reorders order1" "reorders order2" and "i \<in> set ids"
  shows "\<exists>g. i \<in> set (search_rows g b) \<and> set (sf_excludeIds f) \<subseteq> set (sf_excludeIds g) \<and> sf_excludeTopicIds g = sf_excludeTopicIds f"
proof -
  from assms(1) obtain primary where p: "search_question_ids order1 f b = Inr primary"
    by (auto simp: alternative_ids_def split: sum.splits)
  let ?sel = "take (nat (sf_limit f)) (fst (shuffle_js rnd1 0 primary))"
  let ?g = "f\<lparr>sf_level := None, sf_excludeIds := sf_excludeIds f @ ?sel\<rparr>"
  have 1: "set ?sel \<subseteq> set (search_rows f b)"
    using search_question_ids_Inr [OF p assms(4)] js_shuffle.shuf_set [OF assms(2), of 0 primary] by (auto dest: in_set_takeD)
  show ?thesis
  proof (cases "i \<in> set ?sel")
    case True
    with 1 show ?thesis by blast
  next
    case False
    have "ids = ?sel \<or> (\<exists>fb. search_question_ids order2 ?g b = Inr fb \<and>
        ids = ?sel @ take (nat (sf_limit f - int (length ?sel))) (fst (shuffle_js rnd2 0 fb)))"
      using assms(1) unfolding alternative_ids_def p Let_def sum.case by (auto simp del: length_take split: sum.splits if_splits)
    with assms(6) False obtain fallback where f: "search_question_ids order2 ?g b = Inr fallback"
      and i: "i \<in> set (fst (shuffle_js rnd2 0 fallback))"
      by (metis Un_iff in_set_takeD set_append)
    from search_question_ids_Inr [OF f assms(5)] i have "i \<in> set (search_rows ?g b)"
      using js_shuffle.shuf_set [OF assms(3), of 0 fallback] by auto
    then show ?thesis by (intro exI [of _ ?g]) auto
  qed
qed

text \<open>
  C22. A tenant never sees a question all of whose topics it has hidden. A preview succeeds only for the question
  asked for, and only when the question has no topic or one that is not hidden; every alternative offered has a
  topic that is not hidden (when any is) and is none of the excluded questions.
\<close>

theorem hidden_topics_stay_hidden:
  assumes "unit_interval rnd1" "unit_interval rnd2" "reorders order1" "reorders order2"
  shows "(get_question_preview sign b visibility questionId = Inr v \<longrightarrow>
      qv_id v = questionId \<and>
      ((\<forall>t. \<not> topic_of_question b questionId t) \<or> (\<exists>t. topic_of_question b questionId t \<and> t \<notin> set (get_hidden_topic_ids visibility)))) \<and>
    (get_question_alternatives rnd1 rnd2 order1 order2 sign b visibility f = Inr vs \<longrightarrow>
      (\<forall>v\<in>set vs. qv_id v \<notin> set (sf_excludeIds f) \<and>
        (get_hidden_topic_ids visibility \<noteq> [] \<longrightarrow>
          (\<exists>t. topic_of_question b (qv_id v) t \<and> t \<notin> set (get_hidden_topic_ids visibility)))))"
proof (intro conjI impI ballI)
  assume p: "get_question_preview sign b visibility questionId = Inr v"
  then obtain f where f: "find_by_id questionId b = Some f \<or> find_by_id_from_normalized questionId b = Some f" "map_flat_question sign f = Inr v"
    by (auto simp: get_question_preview_def Let_def split: if_splits option.splits)
  from f(1) have "fq_question_id f = questionId"
    by (auto simp: find_by_id_def find_by_ids_def find_all_def find_by_id_from_normalized_def find_by_ids_from_normalized_def
        normalized_question_def filter_eq_Cons_iff split: list.splits)
  with map_flat_question_id [OF f(2)] show "qv_id v = questionId" by simp
  have "find_topic_ids_for_question questionId b = [] \<or> get_hidden_topic_ids visibility = [] \<or>
      (\<exists>t\<in>set (find_topic_ids_for_question questionId b). t \<notin> set (get_hidden_topic_ids visibility))"
    using p by (auto simp: get_question_preview_def Let_def list_ex_iff split: if_splits)
  then show "(\<forall>t. \<not> topic_of_question b questionId t) \<or> (\<exists>t. topic_of_question b questionId t \<and> t \<notin> set (get_hidden_topic_ids visibility))"
    using find_topic_ids_exact [of _ questionId b] by (metis empty_iff empty_set)
next
  fix v assume a: "get_question_alternatives rnd1 rnd2 order1 order2 sign b visibility f = Inr vs" and v: "v \<in> set vs"
  let ?f = "f\<lparr>sf_excludeTopicIds := get_hidden_topic_ids visibility\<rparr>"
  from a v obtain ids where ids: "alternative_ids rnd1 rnd2 order1 order2 b ?f = Inr ids" "map_all (map_flat_question sign) (find_by_ids ids b) = Inr vs"
    by (auto simp: get_question_alternatives_def split: sum.splits if_splits)
  from map_all_Inr [OF ids(2) v] obtain q where "q \<in> set (find_by_ids ids b)" "map_flat_question sign q = Inr v" by blast
  then have "qv_id v \<in> set ids" by (auto simp: find_by_ids_def table_simps dest: map_flat_question_id)
  from alternative_ids_Inr [OF ids(1) assms this] obtain g where g: "qv_id v \<in> set (search_rows g b)"
    "set (sf_excludeIds f) \<subseteq> set (sf_excludeIds g)" "sf_excludeTopicIds g = get_hidden_topic_ids visibility" by auto
  from search_rows_visible(1) [OF g(1)] g(2) show "qv_id v \<notin> set (sf_excludeIds f)" by blast
  assume "get_hidden_topic_ids visibility \<noteq> []"
  with search_rows_visible(2) [OF g(1)] g(3)
  show "\<exists>t. topic_of_question b (qv_id v) t \<and> t \<notin> set (get_hidden_topic_ids visibility)" by simp
qed

lemma select_best_questions_chosen:
  assumes "unit_interval random"
  shows "set (chosen (select_best_questions random pool usedIds reqs rec)) \<subseteq> set pool"
    "length (chosen (select_best_questions random pool usedIds reqs rec)) \<le> length reqs"
proof -
  obtain u v where uv: "mset u = mset (unused_pool pool usedIds)" "mset v = mset (used_pool pool usedIds)"
    "select_best_questions random pool usedIds reqs rec = pick_all rec reqs (u, v)"
    by (rule select_unfold [OF assms])
  from pick_all_mset [of rec reqs u v] have "set (chosen (pick_all rec reqs (u, v))) \<subseteq> set u \<union> set v"
    by (metis set_mset_mono set_mset_mset set_mset_union)
  with mset_eq_setD [OF uv(1)] mset_eq_setD [OF uv(2)]
  show "set (chosen (select_best_questions random pool usedIds reqs rec)) \<subseteq> set pool"
    unfolding uv(3) by auto
  show "length (chosen (select_best_questions random pool usedIds reqs rec)) \<le> length reqs"
    unfolding uv(3) chosen_def by (metis length_filter_le length_map length_pick_all)
qed

lemma pool_in_base:
  assumes "reorders order" and "q \<in> set (find_bounded_candidate_pool order subtopicId limit excludeIds difficulty b)"
  shows "q \<in> set (pool_base subtopicId b)"
  using assms by (auto simp: find_bounded_candidate_pool_def Let_def reorders_set dest!: in_set_takeD split: if_splits)

lemma length_filter_ids:
  assumes "distinct (map f xs)"
  shows "length (filter (\<lambda>x. f x \<in> set ids) xs) \<le> length ids"
proof -
  have "length (filter (\<lambda>x. f x \<in> set ids) xs) = card (set (map f (filter (\<lambda>x. f x \<in> set ids) xs)))"
    using distinct_card [OF distinct_map_filter [OF assms]] by simp
  also have "\<dots> \<le> card (set ids)" by (intro card_mono) auto
  also have "\<dots> \<le> length ids" by (rule card_length)
  finally show ?thesis .
qed

lemma extract_question_ids:
  "extract_question sign u t s f = Inr x \<Longrightarrow> eq_id x = fq_question_id f"
  by (auto simp: extract_question_def split: sum.splits)

lemma flat_map_Some: "flat_map fs i = Some f \<Longrightarrow> fq_question_id f = i"
  by (auto simp: flat_map_def dest: find_one_Some)

lemma extract_all_ids:
  "extract_all sign u t s fs qs = Inr xs \<Longrightarrow> map eq_id xs = map bq_id (filter (\<lambda>q. flat_map fs (bq_id q) \<noteq> None) qs)"
proof (induction qs arbitrary: xs)
  case (Cons q qs)
  then show ?case
    by (auto split: option.splits sum.splits simp: extract_question_ids dest: flat_map_Some)
qed simp

text \<open>
  The fallback draw of the worker: when the bank's ids are unique, the questions fetched for a subtopic are at
  most as many as asked for, pairwise different, none of the excluded ones (although the service's selection
  may recycle used questions), and each is an active question linked to the subtopic.
\<close>

lemma fallback_questions_fresh:
  assumes "fetch_questions random order sign b topicId subtopicId quantity excludeIds universityId = Inr xs"
    and "unit_interval random" "reorders order" and "distinct (map bq_id (bk_questions b))"
  shows "int (length xs) \<le> max 0 quantity \<and> distinct (map eq_id xs) \<and>
    (\<forall>x\<in>set xs. eq_id x \<notin> set excludeIds \<and>
      (\<exists>q\<in>set (bk_questions b). bq_id q = eq_id x \<and> bq_active q) \<and>
      (\<exists>l\<in>set (bk_links b). ql_questionId l = eq_id x \<and> ql_subtopicId l = subtopicId \<and> ql_active l))"
proof -
  let ?rq = "get_random_questions random order subtopicId quantity excludeIds None b"
  let ?filtered = "filter (\<lambda>q. bq_id q \<notin> set excludeIds) ?rq"
  have "extract_all sign universityId topicId subtopicId (find_by_ids (map bq_id ?filtered) b) ?filtered = Inr xs"
    using assms(1) by (cases "?filtered = []") (simp_all add: fetch_questions_def Let_def)
  from extract_all_ids [OF this] obtain p where ids: "map eq_id xs = map bq_id (filter p ?filtered)" by blast
  define pool where "pool = find_bounded_candidate_pool order subtopicId quantity excludeIds None b"
  define sel where "sel = map q_id (chosen (select_best_questions random pool excludeIds (replicate (nat quantity) None) True))"
  have rq: "?rq = [] \<or> 0 < quantity \<and> ?rq = filter (\<lambda>q. bq_id q \<in> set sel) (bk_questions b)"
    by (simp add: get_random_questions_def find_all_def pool_def sel_def Let_def)
  note chosen = select_best_questions_chosen [OF assms(2), of pool excludeIds "replicate (nat quantity) None" True]
  have d: "distinct (map bq_id ?rq)" using rq assms(4) by (auto intro: distinct_map_filter)
  have "length xs = length (map bq_id (filter p ?filtered))" using ids by (metis length_map)
  also have "\<dots> \<le> length ?rq" using length_filter_le [of p ?filtered] length_filter_le [of _ ?rq] by (simp add: le_trans)
  also have "\<dots> \<le> nat quantity" using rq length_filter_ids [OF assms(4), of sel] chosen(2) by (auto simp: sel_def)
  finally have "int (length xs) \<le> max 0 quantity" by simp
  moreover have "distinct (map eq_id xs)" unfolding ids using d by (auto intro!: distinct_map_filter)
  moreover have "eq_id x \<notin> set excludeIds \<and> (\<exists>q\<in>set (bk_questions b). bq_id q = eq_id x \<and> bq_active q) \<and>
      (\<exists>l\<in>set (bk_links b). ql_questionId l = eq_id x \<and> ql_subtopicId l = subtopicId \<and> ql_active l)" if "x \<in> set xs" for x
  proof -
    from that have "eq_id x \<in> set (map eq_id xs)" by simp
    then obtain q where q: "q \<in> set ?rq" "bq_id q = eq_id x" "bq_id q \<notin> set excludeIds" unfolding ids by auto
    with rq have "eq_id x \<in> set sel" by auto
    with chosen(1) obtain c where "c \<in> set pool" "q_id c = eq_id x" by (auto simp: sel_def)
    from pool_in_base [OF assms(3) this(1) [unfolded pool_def]] this(2) q show ?thesis
      by (auto simp: pool_base_def split: if_splits)
  qed
  ultimately show ?thesis by blast
qed

definition sample_bank_question :: "string \<Rightarrow> bank_question" where
  "sample_bank_question i = \<lparr>bq_id = i, bq_topicId = ''10'', bq_subtopicId = ''11'', bq_levelId = 43, bq_code = ''Q'', bq_description = ''D'',
     bq_answerId = None, bq_active = True\<rparr>"

definition sample_flat :: "string \<Rightarrow> flat_question" where
  "sample_flat i = \<lparr>fq_question_id = i, fq_code = ''Q'', fq_level_id = 43, fq_html_content = ''D'', fq_alternatives = [], fq_images = [],
     fq_solution_images = [], fq_origins = []\<rparr>"

text \<open>Two questions of subtopic 11: question 1 belongs to topic 10, question 2 to topic 20 through subtopic 21.\<close>

definition sample_qbank :: bank where
  "sample_qbank = \<lparr>bk_questions = [sample_bank_question ''1'', sample_bank_question ''2''],
     bk_links = [\<lparr>ql_questionId = ''1'', ql_subtopicId = ''11'', ql_active = True\<rparr>, \<lparr>ql_questionId = ''2'', ql_subtopicId = ''21'', ql_active = True\<rparr>],
     bk_subtopics = [(''11'', Some ''10''), (''21'', Some ''20'')], bk_topics = [(''10'', ''7''), (''20'', ''7'')], bk_alternatives = [],
     bk_question_images = [], bk_flat = [sample_flat ''1'', sample_flat ''2''], bk_levels = [43]\<rparr>"

definition sample_filters :: search_filters where
  "sample_filters = \<lparr>sf_courseId = Some ''7'', sf_topicId = None, sf_subtopicId = None, sf_level = Some ''EASY'', sf_excludeIds = [],
     sf_excludeTopicIds = [], sf_limit = 3\<rparr>"

definition sample_alternatives :: "planning_error + question_view list" where
  "sample_alternatives = get_question_alternatives (\<lambda>_. 0) (\<lambda>_. 0) rev rev Some sample_qbank [\<lparr>tv_topicId = ''20'', tv_isActive = False\<rparr>] sample_filters"

theorem hidden_topics_stay_hidden_witness:
  "\<exists>vs. sample_alternatives = Inr vs \<and> map qv_id vs = [''1''] \<and>
     (\<forall>v\<in>set vs. \<exists>t. topic_of_question sample_qbank (qv_id v) t \<and> t \<noteq> ''20'')"
proof -
  have "case_sum (\<lambda>_. False) (\<lambda>vs. map qv_id vs = [''1'']) sample_alternatives" by code_simp
  then obtain vs where vs: "sample_alternatives = Inr vs" "map qv_id vs = [''1'']" 
    by (auto split: sum.splits)
  have u: "unit_interval (\<lambda>_. 0)" and r: "reorders rev" by (simp_all add: unit_interval_def reorders_def)
  have h: "get_hidden_topic_ids [\<lparr>tv_topicId = ''20'', tv_isActive = False\<rparr>] = [''20'']"
    by (simp add: get_hidden_topic_ids_def find_all_def)
  from hidden_topics_stay_hidden [OF u u r r, THEN conjunct2, rule_format, OF vs(1) [unfolded sample_alternatives_def]] vs h
  show ?thesis by auto
qed

definition sample_fetch :: "planning_error + extracted_question list" where
  "sample_fetch = fetch_questions (\<lambda>_. 0) rev Some sample_qbank ''10'' ''11'' 2 [''2''] None"

end
