(* ===== verification/Locking.thy ===== *)
theory Locking
  imports Cache
begin

text \<open>
  Cross-replica exclusion and bounded fan-out: \<open>RedisDistributedLock\<close>
  (\<open>common/locking/redis-distributed-lock.ts\<close>) and \<open>mapWithConcurrency\<close>
  (\<open>common/utils/map-with-concurrency.util.ts\<close>). The lock is a key set with NX and PX and never released.
  The workers of a fan-out interleave at their \<open>await\<close>s; the step relation \<open>pool_step\<close> has one rule per
  side of an \<open>await\<close>.
\<close>

subsection \<open>The lock\<close>

text \<open>\<open>SET key '1' NX PX ttl\<close> at an instant; \<open>online\<close> says whether Redis answers. An expired key does not count.\<close>

definition lock_key :: "string \<Rightarrow> string" where
  "lock_key k = ''lock:'' @ k"

definition try_acquire :: "bool \<Rightarrow> millis \<Rightarrow> string \<Rightarrow> millis \<Rightarrow> unit redis \<Rightarrow> bool \<times> unit redis" where
  "try_acquire online now k ttl m =
     (if \<not> online then (False, m)
      else case m (lock_key k) of
        Some (_, expires) \<Rightarrow> if now < expires then (False, m) else (True, redis_set now (lock_key k) () ttl m)
      | None \<Rightarrow> (True, redis_set now (lock_key k) () ttl m))"

definition run_exclusively ::
  "bool \<Rightarrow> millis \<Rightarrow> string \<Rightarrow> millis \<Rightarrow> ('w \<Rightarrow> 'a \<times> 'w) \<Rightarrow> unit redis \<Rightarrow> 'w \<Rightarrow> 'a option \<times> unit redis \<times> 'w" where
  "run_exclusively online now k ttl work m w =
     (case try_acquire online now k ttl m of
        (False, m') \<Rightarrow> (None, m', w)
      | (True, m') \<Rightarrow> (case work w of (a, w') \<Rightarrow> (Some a, m', w')))"

text \<open>The replicas that attempt a lock, in the order in which Redis serves them; each with its instant.\<close>

fun attempts :: "string \<Rightarrow> millis \<Rightarrow> (bool \<times> millis) list \<Rightarrow> unit redis \<Rightarrow> millis list" where
  "attempts k ttl [] m = []"
| "attempts k ttl ((online, now) # rest) m =
     (case try_acquire online now k ttl m of
        (True, m') \<Rightarrow> now # attempts k ttl rest m'
      | (False, m') \<Rightarrow> attempts k ttl rest m')"

lemma attempts_subset: "set (attempts k ttl ts m) \<subseteq> snd ` set ts"
proof (induction ts arbitrary: m)
  case (Cons t ts)
  then show ?case by (cases t) (auto split: prod.splits bool.splits)
qed simp

lemma attempts_after:
  "m (lock_key k) = Some ((), e) \<Longrightarrow> sorted (map snd ts) \<Longrightarrow>
   sorted_wrt (\<lambda>a b. a + ttl \<le> b) (attempts k ttl ts m) \<and> (\<forall>t\<in>set (attempts k ttl ts m). e \<le> t)"
proof (induction k ttl ts m arbitrary: e rule: attempts.induct)
  case (2 k ttl online now rest m)
  show ?case
  proof (cases "online \<and> e \<le> now")
    case True
    let ?m = "redis_set now (lock_key k) () ttl m"
    from True 2(3) have a: "try_acquire online now k ttl m = (True, ?m)" by (simp add: try_acquire_def)
    have "?m (lock_key k) = Some ((), now + ttl)" by (simp add: redis_set_def)
    with 2(1) [OF a [symmetric]] 2(4) have
      "sorted_wrt (\<lambda>a b. a + ttl \<le> b) (attempts k ttl rest ?m) \<and> (\<forall>t\<in>set (attempts k ttl rest ?m). now + ttl \<le> t)"
      by simp
    moreover have "\<forall>t\<in>set (attempts k ttl rest ?m). now \<le> t"
      using attempts_subset [of k ttl rest ?m] 2(4) by fastforce
    ultimately show ?thesis using a True by auto
  next
    case False
    with 2(3) have a: "try_acquire online now k ttl m = (False, m)" by (auto simp: try_acquire_def)
    from 2(2) [OF a [symmetric]] 2(3,4) a show ?thesis by simp
  qed
qed simp

text \<open>
  C20. Whatever the replicas do and however often they ask, the winners of a lock are at least its lifetime apart:
  in every window of that length at most one of them runs the work, and an unreachable Redis lets nobody in.
\<close>

theorem lock_excludes:
  assumes "sorted (map snd ts)"
  shows "sorted_wrt (\<lambda>a b. a + ttl \<le> b) (attempts k ttl ts m) \<and>
    run_exclusively False now k ttl work m' w = (None, m', w)"
proof
  show "run_exclusively False now k ttl work m' w = (None, m', w)" by (simp add: run_exclusively_def try_acquire_def)
  show "sorted_wrt (\<lambda>a b. a + ttl \<le> b) (attempts k ttl ts m)"
    using assms
  proof (induction ts arbitrary: m)
    case (Cons t ts)
    obtain online now where t: "t = (online, now)" by fastforce
    show ?case
    proof (cases "try_acquire online now k ttl m")
      case (Pair won m')
      show ?thesis
      proof (cases won)
        case True
        with Pair have "m' (lock_key k) = Some ((), now + ttl)"
          by (auto simp: try_acquire_def redis_set_def split: if_splits option.splits)
        from attempts_after [where e = "now + ttl" and ts = ts and m = m' and k = k and ttl = ttl, OF this] Cons.prems Pair True t show ?thesis by simp
      next
        case False
        with Pair Cons t show ?thesis by simp
      qed
    qed
  qed simp
qed

theorem lock_excludes_witness:
  "sorted_wrt (\<lambda>a b. a + 5 \<le> b) (attempts ''cron'' 5 [(True, 0), (True, 1), (True, 7)] Map.empty) \<and>
   attempts ''cron'' 5 [(True, 0), (True, 1), (True, 7)] Map.empty = [0, 7]"
  using lock_excludes [of "[(True, 0), (True, 1), (True, 7)]" 5 "''cron''" Map.empty]
  by (simp add: try_acquire_def redis_set_def)

subsection \<open>Bounded fan-out\<close>

text \<open>
  The state between two turns of the event loop: \<open>nextIndex\<close>, the workers that have begun, the item each of them
  awaits (none once it has left its loop), and the result array, a map from its indices.
\<close>

record 'r pool =
  mc_next :: nat
  mc_started :: "nat set"
  mc_awaiting :: "nat \<rightharpoonup> nat"
  mc_results :: "nat \<rightharpoonup> 'r"

definition workers :: "nat \<Rightarrow> nat \<Rightarrow> nat" where
  "workers concurrency n = min concurrency n"

definition pool_init :: "'r pool" where
  "pool_init = \<lparr>mc_next = 0, mc_started = {}, mc_awaiting = Map.empty, mc_results = Map.empty\<rparr>"

text \<open>The head of the loop: take the next index, or leave when there is none.\<close>

definition take_next :: "nat \<Rightarrow> nat \<Rightarrow> 'r pool \<Rightarrow> 'r pool" where
  "take_next n w s =
     (if mc_next s < n then s\<lparr>mc_next := mc_next s + 1, mc_awaiting := (mc_awaiting s)(w \<mapsto> mc_next s)\<rparr>
      else s\<lparr>mc_awaiting := (mc_awaiting s)(w := None)\<rparr>)"

text \<open>A worker starts, or its awaited task resolves and it goes round its loop.\<close>

inductive pool_step :: "(nat \<Rightarrow> 'r) \<Rightarrow> nat \<Rightarrow> nat \<Rightarrow> 'r pool \<Rightarrow> 'r pool \<Rightarrow> bool" for task concurrency n where
  start: "w < workers concurrency n \<Longrightarrow> w \<notin> mc_started s \<Longrightarrow>
    pool_step task concurrency n s (take_next n w (s\<lparr>mc_started := insert w (mc_started s)\<rparr>))"
| resolve: "mc_awaiting s w = Some i \<Longrightarrow>
    pool_step task concurrency n s (take_next n w (s\<lparr>mc_results := (mc_results s)(i \<mapsto> task i)\<rparr>))"

definition in_flight :: "'r pool \<Rightarrow> nat" where
  "in_flight s = card (dom (mc_awaiting s))"

text \<open>\<open>Promise.all(workers)\<close> has resolved: every worker has begun and left its loop.\<close>

definition all_done :: "nat \<Rightarrow> nat \<Rightarrow> 'r pool \<Rightarrow> bool" where
  "all_done concurrency n s \<longleftrightarrow> mc_started s = {..<workers concurrency n} \<and> mc_awaiting s = Map.empty"

text \<open>The invariant: an index below \<open>nextIndex\<close> is done or awaited by exactly one worker, the others are untouched.\<close>

definition pool_inv :: "(nat \<Rightarrow> 'r) \<Rightarrow> nat \<Rightarrow> nat \<Rightarrow> 'r pool \<Rightarrow> bool" where
  "pool_inv task c n s \<longleftrightarrow>
     mc_next s \<le> n \<and> mc_started s \<subseteq> {..<workers c n} \<and> dom (mc_awaiting s) \<subseteq> mc_started s \<and>
     ran (mc_awaiting s) \<subseteq> {..<mc_next s} \<and> inj_on (mc_awaiting s) (dom (mc_awaiting s)) \<and>
     mc_results s = (\<lambda>i. if i < mc_next s \<and> i \<notin> ran (mc_awaiting s) then Some (task i) else None) \<and>
     (\<forall>w\<in>mc_started s. mc_awaiting s w = None \<longrightarrow> mc_next s = n)"

lemma pool_inv_init: "pool_inv task c n pool_init"
  by (simp add: pool_inv_def pool_init_def)

lemma ran_fresh: "m w = None \<Longrightarrow> ran (m(w \<mapsto> x)) = insert x (ran m)"
  by simp

lemma ran_reassign:
  "inj_on m (dom m) \<Longrightarrow> m w = Some i \<Longrightarrow> ran (m(w := None)) = ran m - {i}"
  by (force simp: ran_def inj_on_def dom_def)

lemma ran_replace:
  "inj_on m (dom m) \<Longrightarrow> m w = Some i \<Longrightarrow> ran (m(w \<mapsto> x)) = insert x (ran m - {i})"
  using ran_reassign [of m w i] ran_fresh [of "m(w := None)" w x] by simp

lemma inj_extend: "inj_on m (dom m) \<Longrightarrow> x \<notin> ran m \<Longrightarrow> inj_on (m(w \<mapsto> x)) (dom (m(w \<mapsto> x)))"
  by (auto simp: inj_on_def ran_def dom_def)

lemma inj_restrict: "inj_on m (dom m) \<Longrightarrow> inj_on (m(w := None)) (dom (m(w := None)))"
  by (auto simp: inj_on_def dom_def)

lemma pool_inv_start:
  assumes inv: "pool_inv task c n s" and w: "w < workers c n" "w \<notin> mc_started s"
  shows "pool_inv task c n (take_next n w (s\<lparr>mc_started := insert w (mc_started s)\<rparr>))"
proof -
  from inv w(2) have none: "mc_awaiting s w = None" by (auto simp: pool_inv_def)
  from inv have fresh: "mc_next s \<notin> ran (mc_awaiting s)" by (auto simp: pool_inv_def)
  show ?thesis
  proof (cases "mc_next s < n")
    case True
    with inv w none fresh inj_extend [of "mc_awaiting s" "mc_next s" w] show ?thesis
      by (auto simp: pool_inv_def take_next_def ran_fresh fun_eq_iff less_Suc_eq)
  next
    case False
    from none have "(mc_awaiting s)(w := None) = mc_awaiting s" by (simp add: fun_upd_idem)
    with False inv w show ?thesis by (auto simp: pool_inv_def take_next_def)
  qed
qed

lemma pool_inv_resolve:
  assumes inv: "pool_inv task c n s" and w: "mc_awaiting s w = Some i"
  shows "pool_inv task c n (take_next n w (s\<lparr>mc_results := (mc_results s)(i \<mapsto> task i)\<rparr>))"
proof -
  from inv w have i: "i < mc_next s" "i \<in> ran (mc_awaiting s)" "w \<in> mc_started s" and inj: "inj_on (mc_awaiting s) (dom (mc_awaiting s))"
    by (auto simp: pool_inv_def ran_def)
  from inv have fresh: "mc_next s \<notin> ran (mc_awaiting s)" by (auto simp: pool_inv_def)
  show ?thesis
  proof (cases "mc_next s < n")
    case True
    with inv i fresh inj_extend [OF inj, of "mc_next s" w] show ?thesis
      by (auto simp: pool_inv_def take_next_def ran_replace [OF inj w] fun_eq_iff less_Suc_eq)
  next
    case False
    with inv i inj_restrict [OF inj, of w] show ?thesis
      by (auto simp: pool_inv_def take_next_def ran_reassign [OF inj w] fun_eq_iff)
  qed
qed

lemma pool_inv_step: "pool_step task c n s s' \<Longrightarrow> pool_inv task c n s \<Longrightarrow> pool_inv task c n s'"
  by (induction rule: pool_step.induct) (blast intro: pool_inv_start pool_inv_resolve)+

lemma pool_inv_run: "(pool_step task c n)\<^sup>*\<^sup>* s s' \<Longrightarrow> pool_inv task c n s \<Longrightarrow> pool_inv task c n s'"
  by (induction rule: rtranclp_induct) (blast intro: pool_inv_step)+

definition progress :: "'r pool \<Rightarrow> nat" where
  "progress s = card (mc_started s) + card (dom (mc_results s))"

lemma take_next_keeps [simp]: "mc_started (take_next n w s) = mc_started s" "mc_results (take_next n w s) = mc_results s"
  by (simp_all add: take_next_def)

lemma pool_inv_bounds:
  assumes "pool_inv task c n s"
  shows "finite (mc_started s)" "finite (dom (mc_results s))" "card (mc_started s) \<le> workers c n" "card (dom (mc_results s)) \<le> n"
    "in_flight s \<le> workers c n"
proof -
  from assms have d: "dom (mc_results s) \<subseteq> {..<n}" "mc_started s \<subseteq> {..<workers c n}" "dom (mc_awaiting s) \<subseteq> {..<workers c n}"
    by (auto simp: pool_inv_def split: if_splits)
  from d(1,2) show "finite (mc_started s)" "finite (dom (mc_results s))" by (auto intro: finite_subset)
  show "card (mc_started s) \<le> workers c n" using card_mono [OF _ d(2)] by simp
  show "card (dom (mc_results s)) \<le> n" using card_mono [OF _ d(1)] by simp
  show "in_flight s \<le> workers c n" using card_mono [OF _ d(3)] by (simp add: in_flight_def)
qed

lemma pool_step_progress:
  assumes "pool_step task c n s s'" and inv: "pool_inv task c n s"
  shows "progress s' = Suc (progress s)"
  using assms(1)
proof cases
  case (start w)
  then show ?thesis using pool_inv_bounds(1) [OF inv] by (simp add: progress_def)
next
  case (resolve w i)
  then have "i \<in> ran (mc_awaiting s)" by (auto simp: ran_def)
  moreover have "mc_results s = (\<lambda>i. if i < mc_next s \<and> i \<notin> ran (mc_awaiting s) then Some (task i) else None)"
    using inv unfolding pool_inv_def by blast
  ultimately have "i \<notin> dom (mc_results s)" by (simp add: domIff)
  with resolve(1) pool_inv_bounds(2) [OF inv] show ?thesis by (simp add: progress_def)
qed

lemma pool_run_progress:
  "(pool_step task c n ^^ k) pool_init s \<Longrightarrow> pool_inv task c n s \<and> progress s = k"
proof (induction k arbitrary: s)
  case 0
  then have "s = pool_init" by simp
  then show ?case by (simp add: pool_inv_init progress_def) (simp add: pool_init_def)
next
  case (Suc k)
  then obtain t where "(pool_step task c n ^^ k) pool_init t" "pool_step task c n t s" by auto
  with Suc.IH [of t] show ?case by (auto dest: pool_inv_step pool_step_progress)
qed

text \<open>
  C21. A bounded fan-out over n items, in every interleaving of its workers: at most \<open>concurrency\<close> tasks are in
  flight at any moment; it takes at most n turns plus one per worker; while it has not finished some worker can
  move; and when it has finished the results are those of the tasks, in the order of the items.
\<close>

theorem fan_out_correct:
  assumes "(pool_step task concurrency n ^^ k) pool_init s" and "0 < concurrency"
  shows "in_flight s \<le> concurrency \<and> k \<le> n + min concurrency n \<and>
    (\<not> all_done concurrency n s \<longrightarrow> (\<exists>s'. pool_step task concurrency n s s')) \<and>
    (all_done concurrency n s \<longrightarrow> map (mc_results s) [0..<n] = map (\<lambda>i. Some (task i)) [0..<n])"
proof (intro conjI impI)
  from pool_run_progress [OF assms(1)] have inv: "pool_inv task concurrency n s" and k: "progress s = k" by simp_all
  note bounds = pool_inv_bounds [OF inv]
  show "in_flight s \<le> concurrency" using bounds(5) by (simp add: workers_def)
  show "k \<le> n + min concurrency n" using bounds(3,4) k unfolding progress_def workers_def by linarith
  {
    assume "\<not> all_done concurrency n s"
    with inv consider w where "w < workers concurrency n" "w \<notin> mc_started s" | w i where "mc_awaiting s w = Some i"
      unfolding all_done_def pool_inv_def by fastforce
    then show "\<exists>s'. pool_step task concurrency n s s'" by cases (blast intro: pool_step.intros)+
  }
  {
    assume d: "all_done concurrency n s"
    have "mc_next s = n"
    proof (cases "n = 0")
      case False
      with assms(2) have "0 \<in> mc_started s" using d by (simp add: all_done_def workers_def)
      with d inv show ?thesis by (auto simp: all_done_def pool_inv_def)
    qed (use inv in \<open>simp add: pool_inv_def\<close>)
    with d inv show "map (mc_results s) [0..<n] = map (\<lambda>i. Some (task i)) [0..<n]" by (simp add: all_done_def pool_inv_def)
  }
qed

theorem fan_out_correct_witness:
  "\<exists>s. (pool_step (\<lambda>i. i * i) 1 1 ^^ 2) pool_init s \<and> in_flight s \<le> 1"
proof -
  let ?i = "pool_init :: nat pool"
  let ?a = "take_next 1 0 (?i\<lparr>mc_started := insert 0 (mc_started ?i)\<rparr>)"
  let ?b = "take_next 1 0 (?a\<lparr>mc_results := (mc_results ?a)(0 \<mapsto> 0 * 0)\<rparr>)"
  have a: "pool_step (\<lambda>i. i * i) 1 1 ?i ?a" by (rule pool_step.start) (simp_all add: pool_init_def workers_def)
  have b: "pool_step (\<lambda>i. i * i) 1 1 ?a ?b" by (rule pool_step.resolve) (simp add: pool_init_def take_next_def)
  from a b have r: "(pool_step (\<lambda>i. i * i) 1 1 ^^ 2) pool_init ?b" by (auto simp: numeral_2_eq_2)
  from fan_out_correct [OF r] r show ?thesis by auto
qed

end
