(* ===== verification/Catalogs.thy ===== *)
theory Catalogs
  imports QuestionBank Locking TenantContext
begin

text \<open>
  The shared catalogue of courses, topics and subtopics: its reads with a tenant's visibility and its versioned cache
  (\<open>catalogs/catalog.use-case.ts\<close>, \<open>catalogs/repositories/catalog.repository.ts\<close>), the validation of what the Core API sends
  (\<open>catalogs/dto/catalog-payload.dto.ts\<close>), the hourly synchronisation (\<open>catalogs/catalog.cron.ts\<close>) and the check that the
  catalogue and the question bank number topics alike (\<open>catalogs/topic-id-space-reconciliation.service.ts\<close>,
  \<open>catalogs/topic-id-space.cron.ts\<close>). The Core API's answer, the clock, the collation order and what fails are arguments.
\<close>

subsection \<open>What the Core API sends\<close>

datatype json = J_Null | J_Bool bool | J_Num int | J_Str string | J_Arr "json list" | J_Obj "(string \<times> json) list"

text \<open>\<open>String(v)\<close>.\<close>

fun json_text :: "json \<Rightarrow> string" where
  "json_text J_Null = ''null''"
| "json_text (J_Bool b) = (if b then ''true'' else ''false'')"
| "json_text (J_Num n) = int_text n"
| "json_text (J_Str s) = s"
| "json_text (J_Arr xs) = join_with (CHR '','') (map (\<lambda>x. if x = J_Null then '''' else json_text x) xs)"
| "json_text (J_Obj fs) = ''[object Object]''"

text \<open>A property of a parsed object; spreading anything else yields an object without named properties.\<close>

definition field :: "string \<Rightarrow> json \<Rightarrow> json option" where
  "field k j = (case j of J_Obj fs \<Rightarrow> map_of fs k | _ \<Rightarrow> None)"

definition as_array :: "json option \<Rightarrow> json" where
  "as_array v = (case v of None \<Rightarrow> J_Arr [] | Some J_Null \<Rightarrow> J_Arr [] | Some j \<Rightarrow> j)"

text \<open>\<open>@IsDefined @IsNotEmpty\<close>, and \<open>@IsString @IsNotEmpty\<close>.\<close>

definition present :: "json option \<Rightarrow> bool" where
  "present v = (case v of None \<Rightarrow> False | Some j \<Rightarrow> j \<noteq> J_Null \<and> j \<noteq> J_Str '''')"

definition name_field :: "json option \<Rightarrow> string option" where
  "name_field v = (case v of Some (J_Str s) \<Rightarrow> if s = [] then None else Some s | _ \<Rightarrow> None)"

record subtopic_dto =
  sd_id :: json
  sd_name :: string

record topic_dto =
  to_id :: json
  to_name :: string
  to_subtopics :: "subtopic_dto list"

record course_dto =
  cdt_id :: json
  cdt_name :: string
  cdt_topics :: "topic_dto list"

definition validate_subtopic :: "json \<Rightarrow> subtopic_dto option" where
  "validate_subtopic j =
     (case (field ''id'' j, name_field (field ''name'' j)) of
        (Some i, Some n) \<Rightarrow> if present (Some i) then Some \<lparr>sd_id = i, sd_name = n\<rparr> else None
      | _ \<Rightarrow> None)"

definition validate_topic :: "json \<Rightarrow> topic_dto option" where
  "validate_topic j =
     (case (field ''id'' j, name_field (field ''name'' j), as_array (field ''subtopics'' j)) of
        (Some i, Some n, J_Arr ss) \<Rightarrow>
          if present (Some i) then map_option (\<lambda>xs. \<lparr>to_id = i, to_name = n, to_subtopics = xs\<rparr>) (those (map validate_subtopic ss)) else None
      | _ \<Rightarrow> None)"

definition validate_course :: "json \<Rightarrow> course_dto option" where
  "validate_course j =
     (case (field ''id'' j, name_field (field ''name'' j), as_array (field ''topics'' j)) of
        (Some i, Some n, J_Arr ts) \<Rightarrow>
          if present (Some i) then map_option (\<lambda>xs. \<lparr>cdt_id = i, cdt_name = n, cdt_topics = xs\<rparr>) (those (map validate_topic ts)) else None
      | _ \<Rightarrow> None)"

datatype catalog_error =
    PayloadNotAnObject
  | CoursesNotAnArray
  | PayloadInvalid
  | InvalidBigint string
  | NameTooLong
  | RowTwiceInStatement
  | CatalogTopicNotFound string
  | CatalogDatabaseFailure
  | FetchFailed string

definition validate_catalog_payload :: "json \<Rightarrow> catalog_error + course_dto list" where
  "validate_catalog_payload payload =
     (case payload of
        J_Obj _ \<Rightarrow>
          (case field ''courses'' payload of
             Some (J_Arr cs) \<Rightarrow> (case those (map validate_course cs) of None \<Rightarrow> Inl PayloadInvalid | Some xs \<Rightarrow> Inr xs)
           | _ \<Rightarrow> Inl CoursesNotAnArray)
      | J_Arr _ \<Rightarrow> Inl CoursesNotAnArray
      | _ \<Rightarrow> Inl PayloadNotAnObject)"

subsection \<open>The tables\<close>

record course_row =
  crs_id :: string
  crs_name :: string

record topic_row =
  tpc_id :: string
  tpc_courseId :: string
  tpc_name :: string

record subtopic_row =
  sbt_id :: string
  sbt_topicId :: string
  sbt_name :: string

record catalog =
  cg_courses :: "course_row list"
  cg_topics :: "topic_row list"
  cg_subtopics :: "subtopic_row list"

text \<open>A bigint the database accepts, in the decimal form in which it answers it.\<close>

fun decimal :: "int \<Rightarrow> string \<Rightarrow> int option" where
  "decimal acc [] = Some acc"
| "decimal acc (c # cs) = (let n = of_char c :: int in if 48 \<le> n \<and> n \<le> 57 then decimal (acc * 10 + (n - 48)) cs else None)"

definition to_bigint :: "string \<Rightarrow> string option" where
  "to_bigint s =
     (let t = js_trim s;
          negative = (t \<noteq> [] \<and> hd t = CHR ''-'');
          digits = (if t \<noteq> [] \<and> (hd t = CHR ''-'' \<or> hd t = CHR ''+'') then tl t else t)
      in if digits = [] then None
         else case decimal 0 digits of
           None \<Rightarrow> None
         | Some n \<Rightarrow> let v = (if negative then - n else n) in if - (2 ^ 63) \<le> v \<and> v < 2 ^ 63 then Some (int_text v) else None)"

definition bigint_of :: "json \<Rightarrow> catalog_error + string" where
  "bigint_of j = (case to_bigint (json_text j) of None \<Rightarrow> Inl (InvalidBigint (json_text j)) | Some i \<Rightarrow> Inr i)"

text \<open>\<open>tx.upsert(..., ['id'])\<close>: an insert that updates the row of a known id; no id may come twice in one statement.\<close>

definition upsert_row :: "('r \<Rightarrow> string) \<Rightarrow> 'r \<Rightarrow> 'r list \<Rightarrow> 'r list" where
  "upsert_row key r t = (if key r \<in> key ` set t then update_where (\<lambda>x. key x = key r) (\<lambda>_. r) t else t @ [r])"

definition upsert_all :: "('r \<Rightarrow> string) \<Rightarrow> ('r \<Rightarrow> string) \<Rightarrow> 'r list \<Rightarrow> 'r list \<Rightarrow> catalog_error + 'r list" where
  "upsert_all key name rows t =
     (if list_ex (\<lambda>r. length (name r) > 255) rows then Inl NameTooLong
      else if \<not> distinct (map key rows) then Inl RowTwiceInStatement
      else Inr (fold (upsert_row key) rows t))"

fun collect :: "('a \<Rightarrow> 'e + 'b) \<Rightarrow> 'a list \<Rightarrow> 'e + 'b list" where
  "collect f [] = Inr []"
| "collect f (x # xs) = (case f x of Inl e \<Rightarrow> Inl e | Inr y \<Rightarrow> (case collect f xs of Inl e \<Rightarrow> Inl e | Inr ys \<Rightarrow> Inr (y # ys)))"

definition course_data :: "course_dto \<Rightarrow> catalog_error + course_row" where
  "course_data c = (case bigint_of (cdt_id c) of Inl e \<Rightarrow> Inl e | Inr i \<Rightarrow> Inr \<lparr>crs_id = i, crs_name = cdt_name c\<rparr>)"

definition topic_data :: "course_dto \<times> topic_dto \<Rightarrow> catalog_error + topic_row" where
  "topic_data ct =
     (case bigint_of (to_id (snd ct)) of
        Inl e \<Rightarrow> Inl e
      | Inr i \<Rightarrow> (case bigint_of (cdt_id (fst ct)) of Inl e \<Rightarrow> Inl e | Inr c \<Rightarrow> Inr \<lparr>tpc_id = i, tpc_courseId = c, tpc_name = to_name (snd ct)\<rparr>))"

definition subtopic_data :: "topic_dto \<times> subtopic_dto \<Rightarrow> catalog_error + subtopic_row" where
  "subtopic_data ts =
     (case bigint_of (sd_id (snd ts)) of
        Inl e \<Rightarrow> Inl e
      | Inr i \<Rightarrow> (case bigint_of (to_id (fst ts)) of Inl e \<Rightarrow> Inl e | Inr t \<Rightarrow> Inr \<lparr>sbt_id = i, sbt_topicId = t, sbt_name = sd_name (snd ts)\<rparr>))"

definition topics_of :: "course_dto list \<Rightarrow> (course_dto \<times> topic_dto) list" where
  "topics_of cs = concat (map (\<lambda>c. map (Pair c) (cdt_topics c)) cs)"

definition subtopics_of :: "course_dto list \<Rightarrow> (topic_dto \<times> subtopic_dto) list" where
  "subtopics_of cs = concat (map (\<lambda>(c, t). map (Pair t) (to_subtopics t)) (topics_of cs))"

text \<open>The transaction of \<open>upsertCatalogs\<close>: three statements, in the order of the foreign keys.\<close>

definition upsert_tx :: "bool \<Rightarrow> course_dto list \<Rightarrow> (catalog, catalog_error, unit) tx" where
  "upsert_tx dbOk cs g =
     (case collect course_data cs of Inl e \<Rightarrow> Inl e | Inr crs \<Rightarrow>
       (case upsert_all crs_id crs_name crs (cg_courses g) of Inl e \<Rightarrow> Inl e | Inr courses \<Rightarrow>
         (case collect topic_data (topics_of cs) of Inl e \<Rightarrow> Inl e | Inr tps \<Rightarrow>
           (case upsert_all tpc_id tpc_name tps (cg_topics g) of Inl e \<Rightarrow> Inl e | Inr topics \<Rightarrow>
             (case collect subtopic_data (subtopics_of cs) of Inl e \<Rightarrow> Inl e | Inr sts \<Rightarrow>
               (case upsert_all sbt_id sbt_name sts (cg_subtopics g) of Inl e \<Rightarrow> Inl e | Inr subtopics \<Rightarrow>
                 if \<not> dbOk then Inl CatalogDatabaseFailure
                 else Inr ((), \<lparr>cg_courses = courses, cg_topics = topics, cg_subtopics = subtopics\<rparr>)))))))"

definition upsert_catalogs :: "bool \<Rightarrow> json \<Rightarrow> catalog \<Rightarrow> (catalog_error + unit) \<times> catalog" where
  "upsert_catalogs dbOk payload g =
     (case validate_catalog_payload payload of
        Inl e \<Rightarrow> (Inl e, g)
      | Inr cs \<Rightarrow> if cs = [] then (Inr (), g) else run_tx (upsert_tx dbOk cs) g)"

subsection \<open>Search patterns\<close>

definition BACKSLASH :: char where "BACKSLASH = CHR 0x5C"

definition replace_char :: "char \<Rightarrow> string \<Rightarrow> string \<Rightarrow> string" where
  "replace_char c r s = concat (map (\<lambda>x. if x = c then r else [x]) s)"

definition escape_like_pattern :: "string \<Rightarrow> string" where
  "escape_like_pattern term =
     replace_char (CHR ''_'') [BACKSLASH, CHR ''_''] (replace_char (CHR ''%'') [BACKSLASH, CHR ''%'']
       (replace_char BACKSLASH [BACKSLASH, BACKSLASH] term))"

text \<open>\<open>text ILIKE pattern ESCAPE '\'\<close>; the server rejects a pattern that ends in its escape character.\<close>

fun like_match :: "string \<Rightarrow> string \<Rightarrow> bool" where
  "like_match [] t = (t = [])"
| "like_match (p # ps) [] = (p = CHR ''%'' \<and> like_match ps [])"
| "like_match (p # ps) (c # cs) =
     (if p = CHR ''%'' then like_match ps (c # cs) \<or> like_match (p # ps) cs
      else if p = CHR 0x5C then (case ps of [] \<Rightarrow> False | q # qs \<Rightarrow> c = q \<and> like_match qs cs)
      else (p = CHR ''_'' \<or> c = p) \<and> like_match ps cs)"

definition ilike :: "string \<Rightarrow> string \<Rightarrow> bool" where
  "ilike pattern t = like_match (to_lower pattern) (to_lower t)"

definition search_pattern :: "string \<Rightarrow> string" where
  "search_pattern search = ''%'' @ escape_like_pattern search @ ''%''"

subsection \<open>Reads\<close>

definition topic_active :: "topic_visibility list \<Rightarrow> topic_row \<Rightarrow> bool" where
  "topic_active visibility t = (case find_one (\<lambda>v. tv_topicId v = tpc_id t) visibility of None \<Rightarrow> True | Some v \<Rightarrow> tv_isActive v)"

text \<open>The rows of an outer join: one without a partner where there is none.\<close>

definition outer :: "'b list \<Rightarrow> 'b option list" where
  "outer xs = (case xs of [] \<Rightarrow> [None] | _ \<Rightarrow> map Some xs)"

definition join_subtopics :: "catalog \<Rightarrow> topic_row option \<Rightarrow> (topic_row option \<times> subtopic_row option) list" where
  "join_subtopics g t = (case t of None \<Rightarrow> [(None, None)]
     | Some x \<Rightarrow> map (Pair t) (outer (filter (\<lambda>s. sbt_topicId s = tpc_id x) (cg_subtopics g))))"

definition course_rows :: "string option \<Rightarrow> catalog \<Rightarrow> course_row \<Rightarrow> topic_row option list" where
  "course_rows search g c =
     (let topics = outer (filter (\<lambda>t. tpc_courseId t = crs_id c) (cg_topics g)) in
      if \<not> truthy_str search then topics
      else let p = search_pattern (the search) in
        map fst (filter (\<lambda>(t, s). ilike p (crs_name c) \<or> (case t of None \<Rightarrow> False | Some x \<Rightarrow> ilike p (tpc_name x))
            \<or> (case s of None \<Rightarrow> False | Some x \<Rightarrow> ilike p (sbt_name x)))
          (concat (map (join_subtopics g) topics))))"

record course_view =
  cv_id :: string
  cv_name :: string
  cv_topicsCount :: nat
  cv_activeTopicsCount :: nat

definition MAX_COURSES_RESULT :: nat where "MAX_COURSES_RESULT = 500"

definition course_view_of :: "topic_visibility list \<Rightarrow> course_row \<Rightarrow> topic_row option list \<Rightarrow> course_view" where
  "course_view_of visibility c rows =
     (let topics = List.map_filter id rows in
      \<lparr>cv_id = crs_id c, cv_name = crs_name c, cv_topicsCount = length (js_unique (map tpc_id topics)),
       cv_activeTopicsCount = length (js_unique (map tpc_id (filter (topic_active visibility) topics)))\<rparr>)"

definition get_courses_query :: "(course_row list \<Rightarrow> course_row list) \<Rightarrow> string option \<Rightarrow> topic_visibility list \<Rightarrow> catalog \<Rightarrow> course_view list" where
  "get_courses_query order search visibility g =
     take MAX_COURSES_RESULT (map (\<lambda>c. course_view_of visibility c (course_rows search g c))
       (order (filter (\<lambda>c. course_rows search g c \<noteq> []) (cg_courses g))))"

record topic_view =
  tvw_id :: string
  tvw_name :: string
  tvw_isActive :: bool
  tvw_subtopics :: "(string \<times> string) list"

definition add_topic_row :: "topic_visibility list \<Rightarrow> topic_row \<times> subtopic_row option \<Rightarrow> (string, topic_view) js_map \<Rightarrow> (string, topic_view) js_map" where
  "add_topic_row visibility row m =
     (case row of (t, s) \<Rightarrow>
        let m1 = (if map_of m (tpc_id t) = None
                  then js_map_set (tpc_id t) \<lparr>tvw_id = tpc_id t, tvw_name = tpc_name t, tvw_isActive = topic_active visibility t, tvw_subtopics = []\<rparr> m
                  else m)
        in (case s of None \<Rightarrow> m1
            | Some x \<Rightarrow> (case map_of m1 (tpc_id t) of None \<Rightarrow> m1
                | Some v \<Rightarrow> js_map_set (tpc_id t) (v\<lparr>tvw_subtopics := tvw_subtopics v @ [(sbt_id x, sbt_name x)]\<rparr>) m1)))"

definition get_course_topics_query ::
  "((topic_row \<times> subtopic_row option) list \<Rightarrow> (topic_row \<times> subtopic_row option) list) \<Rightarrow> string \<Rightarrow> string option
    \<Rightarrow> topic_visibility list \<Rightarrow> catalog \<Rightarrow> catalog_error + topic_view list" where
  "get_course_topics_query order courseId search visibility g =
     (case to_bigint courseId of
        None \<Rightarrow> Inl (InvalidBigint courseId)
      | Some i \<Rightarrow>
          let rows = concat (map (\<lambda>t. map (Pair t) (outer (filter (\<lambda>s. sbt_topicId s = tpc_id t) (cg_subtopics g))))
                       (filter (\<lambda>t. tpc_courseId t = i) (cg_topics g)));
              found = (if truthy_str search
                then filter (\<lambda>(t, s). ilike (search_pattern (the search)) (tpc_name t)
                       \<or> (case s of None \<Rightarrow> False | Some x \<Rightarrow> ilike (search_pattern (the search)) (sbt_name x))) rows
                else rows)
          in Inr (map snd (fold (add_topic_row visibility) (order found) [])))"

definition find_course_id_by_topic_id :: "string \<Rightarrow> catalog \<Rightarrow> catalog_error + string option" where
  "find_course_id_by_topic_id topicId g =
     (case to_bigint topicId of
        None \<Rightarrow> Inl (InvalidBigint topicId)
      | Some i \<Rightarrow> Inr (map_option tpc_courseId (find_one (\<lambda>t. tpc_id t = i) (cg_topics g))))"

definition course_exists :: "string \<Rightarrow> catalog \<Rightarrow> catalog_error + bool" where
  "course_exists courseId g =
     (case to_bigint courseId of None \<Rightarrow> Inl (InvalidBigint courseId) | Some i \<Rightarrow> Inr (list_ex (\<lambda>c. crs_id c = i) (cg_courses g)))"

definition update_topic_local_visibility :: "string \<Rightarrow> bool \<Rightarrow> topic_visibility list \<Rightarrow> topic_visibility list" where
  "update_topic_local_visibility topicId isActive rows =
     upsert_row tv_topicId \<lparr>tv_topicId = nullish (to_bigint topicId) topicId, tv_isActive = isActive\<rparr> rows"

subsection \<open>The synchronisation state\<close>

datatype sync_outcome = SYNC_SUCCESS | SYNC_FAILED

record sync_state =
  ss_lastAttemptAt :: "millis option"
  ss_lastSuccessAt :: "millis option"
  ss_lastOutcome :: "sync_outcome option"
  ss_lastError :: "string option"

definition record_sync_attempt :: "millis \<Rightarrow> sync_state option \<Rightarrow> sync_state option" where
  "record_sync_attempt now st =
     (case st of None \<Rightarrow> Some \<lparr>ss_lastAttemptAt = Some now, ss_lastSuccessAt = None, ss_lastOutcome = None, ss_lastError = None\<rparr>
      | Some s \<Rightarrow> Some (s\<lparr>ss_lastAttemptAt := Some now\<rparr>))"

definition record_sync_success :: "millis \<Rightarrow> sync_state option \<Rightarrow> sync_state option" where
  "record_sync_success now st =
     (case st of
        None \<Rightarrow> Some \<lparr>ss_lastAttemptAt = Some now, ss_lastSuccessAt = Some now, ss_lastOutcome = Some SYNC_SUCCESS, ss_lastError = None\<rparr>
      | Some s \<Rightarrow> Some (s\<lparr>ss_lastSuccessAt := Some now, ss_lastOutcome := Some SYNC_SUCCESS, ss_lastError := None\<rparr>))"

definition record_sync_failure :: "millis \<Rightarrow> string \<Rightarrow> sync_state option \<Rightarrow> sync_state option" where
  "record_sync_failure now e st =
     (let message = take 4000 e in
      case st of
        None \<Rightarrow> Some \<lparr>ss_lastAttemptAt = Some now, ss_lastSuccessAt = None, ss_lastOutcome = Some SYNC_FAILED, ss_lastError = Some message\<rparr>
      | Some s \<Rightarrow> Some (s\<lparr>ss_lastOutcome := Some SYNC_FAILED, ss_lastError := Some message\<rparr>))"

subsection \<open>The versioned cache\<close>

record courses_result =
  cr_courses :: "course_view list"
  cr_lastSyncedAt :: "millis option"
  cr_syncStatus :: "(millis option \<times> sync_outcome option \<times> string option) option"

datatype cached_catalog = Cached_Version millis | Cached_Courses courses_result | Cached_Topics "topic_view list"

text \<open>An entry carries its expiry; a version is written with a lifetime of 0, which means none.\<close>

type_synonym catalog_cache = "string \<rightharpoonup> cached_catalog \<times> millis option"

definition CATALOG_TTL_MS :: millis where "CATALOG_TTL_MS = 60 * 10 * 1000"

definition cache_get :: "read_io \<Rightarrow> millis \<Rightarrow> string \<Rightarrow> catalog_cache \<Rightarrow> cached_catalog option" where
  "cache_get rio now k m =
     (case rio of ReadFails \<Rightarrow> None
      | ReadOk \<Rightarrow> (case m k of None \<Rightarrow> None | Some (v, e) \<Rightarrow> (case e of None \<Rightarrow> Some v | Some x \<Rightarrow> if now \<le> x then Some v else None)))"

definition cache_set :: "write_io \<Rightarrow> string \<Rightarrow> cached_catalog \<Rightarrow> millis option \<Rightarrow> catalog_cache \<Rightarrow> catalog_cache" where
  "cache_set wio k v e m = (if takes_effect wio then m(k \<mapsto> (v, e)) else m)"

definition version_key :: "string \<Rightarrow> string" where
  "version_key tenantId = ''catalogs:version:'' @ tenantId"

definition search_or_all :: "string option \<Rightarrow> string" where
  "search_or_all search = (if truthy_str search then the search else ''all'')"

definition courses_key :: "millis \<Rightarrow> string \<Rightarrow> string option \<Rightarrow> string" where
  "courses_key version tenantId search = ''catalogs:'' @ int_text version @ '':courses:'' @ tenantId @ '':'' @ search_or_all search"

definition topics_key :: "millis \<Rightarrow> string \<Rightarrow> string \<Rightarrow> string option \<Rightarrow> string" where
  "topics_key version tenantId courseId search =
     ''catalogs:'' @ int_text version @ '':topics:'' @ tenantId @ '':'' @ courseId @ '':'' @ search_or_all search"

definition get_cache_version :: "read_io \<Rightarrow> millis \<Rightarrow> string \<Rightarrow> catalog_cache \<Rightarrow> millis" where
  "get_cache_version rio now tenantId m = (case cache_get rio now (version_key tenantId) m of Some (Cached_Version v) \<Rightarrow> v | _ \<Rightarrow> 0)"

definition bump_cache_version :: "write_io \<Rightarrow> millis \<Rightarrow> string \<Rightarrow> catalog_cache \<Rightarrow> catalog_cache" where
  "bump_cache_version wio now tenantId m = cache_set wio (version_key tenantId) (Cached_Version now) None m"

definition invalidate_cache_for_tenants :: "(string \<Rightarrow> write_io) \<Rightarrow> millis \<Rightarrow> string list \<Rightarrow> catalog_cache \<Rightarrow> catalog_cache" where
  "invalidate_cache_for_tenants wio now tenantSchemas m = fold (\<lambda>n. bump_cache_version (wio n) now n) tenantSchemas m"

definition tenant_id :: "string option \<Rightarrow> string" where
  "tenant_id tenantSchema = (if truthy_str tenantSchema then the tenantSchema else ''public'')"

text \<open>A read is three steps around its queries: look the key up, compute the answer, store it under the key looked up.\<close>

definition look_up_courses :: "read_io \<Rightarrow> read_io \<Rightarrow> millis \<Rightarrow> string \<Rightarrow> string option \<Rightarrow> catalog_cache \<Rightarrow> string \<times> courses_result option" where
  "look_up_courses rv rc now tenantId search m =
     (let k = courses_key (get_cache_version rv now tenantId m) tenantId search
      in (k, case cache_get rc now k m of Some (Cached_Courses r) \<Rightarrow> Some r | _ \<Rightarrow> None))"

definition courses_answer ::
  "(course_row list \<Rightarrow> course_row list) \<Rightarrow> string option \<Rightarrow> topic_visibility list \<Rightarrow> catalog \<Rightarrow> sync_state option \<Rightarrow> courses_result" where
  "courses_answer order search visibility g syncState =
     \<lparr>cr_courses = get_courses_query order search visibility g,
      cr_lastSyncedAt = (case syncState of None \<Rightarrow> None | Some s \<Rightarrow> ss_lastSuccessAt s),
      cr_syncStatus = map_option (\<lambda>s. (ss_lastAttemptAt s, ss_lastOutcome s, ss_lastError s)) syncState\<rparr>"

definition store_courses :: "write_io \<Rightarrow> millis \<Rightarrow> string \<Rightarrow> courses_result \<Rightarrow> catalog_cache \<Rightarrow> catalog_cache" where
  "store_courses wio now k r m = cache_set wio k (Cached_Courses r) (Some (now + CATALOG_TTL_MS)) m"

definition get_courses ::
  "read_io \<Rightarrow> read_io \<Rightarrow> write_io \<Rightarrow> millis \<Rightarrow> millis \<Rightarrow> (course_row list \<Rightarrow> course_row list) \<Rightarrow> string option \<Rightarrow> string option
    \<Rightarrow> topic_visibility list \<Rightarrow> catalog \<Rightarrow> sync_state option \<Rightarrow> catalog_cache \<Rightarrow> courses_result \<times> catalog_cache" where
  "get_courses rv rc wio now now' order tenantSchema search visibility g syncState m =
     (case look_up_courses rv rc now (tenant_id tenantSchema) search m of
        (k, Some r) \<Rightarrow> (r, m)
      | (k, None) \<Rightarrow> let r = courses_answer order search visibility g syncState in (r, store_courses wio now' k r m))"

definition look_up_topics ::
  "read_io \<Rightarrow> read_io \<Rightarrow> millis \<Rightarrow> string \<Rightarrow> string \<Rightarrow> string option \<Rightarrow> catalog_cache \<Rightarrow> string \<times> topic_view list option" where
  "look_up_topics rv rc now tenantId courseId search m =
     (let k = topics_key (get_cache_version rv now tenantId m) tenantId courseId search
      in (k, case cache_get rc now k m of Some (Cached_Topics r) \<Rightarrow> Some r | _ \<Rightarrow> None))"

definition get_course_topics ::
  "read_io \<Rightarrow> read_io \<Rightarrow> write_io \<Rightarrow> millis \<Rightarrow> millis
    \<Rightarrow> ((topic_row \<times> subtopic_row option) list \<Rightarrow> (topic_row \<times> subtopic_row option) list) \<Rightarrow> string option \<Rightarrow> string \<Rightarrow> string option
    \<Rightarrow> topic_visibility list \<Rightarrow> catalog \<Rightarrow> catalog_cache \<Rightarrow> (catalog_error + topic_view list) \<times> catalog_cache" where
  "get_course_topics rv rc wio now now' order tenantSchema courseId search visibility g m =
     (case look_up_topics rv rc now (tenant_id tenantSchema) courseId search m of
        (k, Some r) \<Rightarrow> (Inr r, m)
      | (k, None) \<Rightarrow>
          (case get_course_topics_query order courseId search visibility g of
             Inl e \<Rightarrow> (Inl e, m)
           | Inr r \<Rightarrow> (Inr r, cache_set wio k (Cached_Topics r) (Some (now' + CATALOG_TTL_MS)) m)))"

definition update_topic_visibility ::
  "write_io \<Rightarrow> millis \<Rightarrow> string option \<Rightarrow> string \<Rightarrow> bool \<Rightarrow> catalog \<Rightarrow> topic_visibility list \<times> catalog_cache
    \<Rightarrow> (catalog_error http_error + unit) \<times> topic_visibility list \<times> catalog_cache" where
  "update_topic_visibility wio now tenantSchema topicId isActive g w =
     (case find_course_id_by_topic_id topicId g of
        Inl e \<Rightarrow> (Inl (RawError e), w)
      | Inr None \<Rightarrow> (Inl (NotFound (CatalogTopicNotFound topicId)), w)
      | Inr (Some _) \<Rightarrow>
          (Inr (), update_topic_local_visibility topicId isActive (fst w), bump_cache_version wio now (tenant_id tenantSchema) (snd w)))"

subsection \<open>The hourly synchronisation\<close>

definition SYNC_MAX_ATTEMPTS :: nat where "SYNC_MAX_ATTEMPTS = 3"
definition SYNC_LOCK_TTL_MS :: millis where "SYNC_LOCK_TTL_MS = 15 * 60 * 1000"
definition SYNC_LOCK_KEY :: string where "SYNC_LOCK_KEY = ''cron:catalogs:sync''"

text \<open>What an attempt gets: an HTTP failure, or a body, which the database may then refuse.\<close>

datatype fetch = Fetch_Fails string | Fetched json bool

definition fetch_and_upsert :: "fetch \<Rightarrow> catalog \<Rightarrow> (catalog_error + unit) \<times> catalog" where
  "fetch_and_upsert f g = (case f of Fetch_Fails e \<Rightarrow> (Inl (FetchFailed e), g) | Fetched body dbOk \<Rightarrow> upsert_catalogs dbOk body g)"

fun sync_loop :: "(nat \<Rightarrow> fetch) \<Rightarrow> nat \<Rightarrow> nat \<Rightarrow> catalog_error option \<Rightarrow> catalog \<Rightarrow> (catalog_error option + unit) \<times> catalog" where
  "sync_loop f attempt 0 lastError g = (Inl lastError, g)"
| "sync_loop f attempt (Suc left) lastError g =
     (case fetch_and_upsert (f attempt) g of
        (Inr _, g') \<Rightarrow> (Inr (), g')
      | (Inl e, g') \<Rightarrow> sync_loop f (Suc attempt) left (Some e) g')"

record sync_world =
  sw_catalog :: catalog
  sw_state :: "sync_state option"
  sw_cache :: catalog_cache

text \<open>Which bookkeeping writes succeed, and when; \<open>message\<close> is the text of an error.\<close>

record sync_io =
  sio_attemptAt :: "millis option"
  sio_finishedAt :: "millis option"
  sio_companies :: "company list option"
  sio_bump :: "string \<Rightarrow> write_io"
  sio_bumpAt :: millis

definition safely :: "'t option \<Rightarrow> ('t \<Rightarrow> 'a \<Rightarrow> 'a) \<Rightarrow> 'a \<Rightarrow> 'a" where
  "safely outcome f a = (case outcome of None \<Rightarrow> a | Some t \<Rightarrow> f t a)"

definition invalidate_caches_for_active_tenants :: "sync_io \<Rightarrow> company list \<Rightarrow> catalog_cache \<Rightarrow> catalog_cache" where
  "invalidate_caches_for_active_tenants io companies m =
     invalidate_cache_for_tenants (sio_bump io) (sio_bumpAt io) (map (\<lambda>c. tenant_schema (co_id c)) (find_all co_isActive companies)) m"

definition run_sync :: "(catalog_error option \<Rightarrow> string) \<Rightarrow> sync_io \<Rightarrow> (nat \<Rightarrow> fetch) \<Rightarrow> sync_world \<Rightarrow> sync_world" where
  "run_sync message io f w =
     (let st = safely (sio_attemptAt io) record_sync_attempt (sw_state w)
      in case sync_loop f 1 SYNC_MAX_ATTEMPTS None (sw_catalog w) of
           (Inr _, g) \<Rightarrow> \<lparr>sw_catalog = g, sw_state = safely (sio_finishedAt io) record_sync_success st,
               sw_cache = safely (sio_companies io) (invalidate_caches_for_active_tenants io) (sw_cache w)\<rparr>
         | (Inl e, g) \<Rightarrow> w\<lparr>sw_catalog := g, sw_state := safely (sio_finishedAt io) (\<lambda>t. record_sync_failure t (message e)) st\<rparr>)"

definition sync_catalogs ::
  "bool \<Rightarrow> millis \<Rightarrow> (catalog_error option \<Rightarrow> string) \<Rightarrow> sync_io \<Rightarrow> (nat \<Rightarrow> fetch) \<Rightarrow> unit redis \<Rightarrow> sync_world
    \<Rightarrow> unit option \<times> unit redis \<times> sync_world" where
  "sync_catalogs online now message io f locks w =
     run_exclusively online now SYNC_LOCK_KEY SYNC_LOCK_TTL_MS (\<lambda>v. ((), run_sync message io f v)) locks w"

subsection \<open>One id space for topics\<close>

record overlap_result =
  ov_totalCoreTopics :: nat
  ov_overlappingTopics :: nat
  ov_overlapRatio :: rat

record overlap_record =
  or_result :: overlap_result
  or_passed :: bool
  or_checkedAt :: millis

definition MIN_OVERLAP_RATIO :: rat where "MIN_OVERLAP_RATIO = 95 / 100"

definition overlap_of :: "string list \<Rightarrow> string list \<Rightarrow> overlap_result" where
  "overlap_of coreTopicIds bankTopicIds =
     (let totalCoreTopics = length coreTopicIds;
          overlappingTopics = length (filter (\<lambda>i. i \<in> set bankTopicIds) coreTopicIds)
      in \<lparr>ov_totalCoreTopics = totalCoreTopics, ov_overlappingTopics = overlappingTopics,
          ov_overlapRatio = (if totalCoreTopics = 0 then 1 else of_nat overlappingTopics / of_nat totalCoreTopics)\<rparr>)"

text \<open>The first component is whether the alert is logged; \<open>persistAt\<close> is empty when the bookkeeping write fails.\<close>

definition check_overlap :: "catalog \<Rightarrow> string list \<Rightarrow> millis option \<Rightarrow> overlap_record option \<Rightarrow> (bool \<times> overlap_result) \<times> overlap_record option" where
  "check_overlap g bankTopicIds persistAt st =
     (let r = overlap_of (js_unique (map tpc_id (cg_topics g))) (js_unique bankTopicIds);
          passed = (ov_overlapRatio r \<ge> MIN_OVERLAP_RATIO)
      in ((\<not> passed, r), (case persistAt of None \<Rightarrow> st | Some now \<Rightarrow> Some \<lparr>or_result = r, or_passed = passed, or_checkedAt = now\<rparr>)))"

definition TOPIC_ID_LOCK_KEY :: string where "TOPIC_ID_LOCK_KEY = ''cron:catalogs:topic-id-space-check''"

text \<open>The cron; \<open>bank\<close> is empty when one of the two queries fails, which is logged and forgotten.\<close>

definition check_topic_id_space ::
  "bool \<Rightarrow> millis \<Rightarrow> catalog \<Rightarrow> string list option \<Rightarrow> millis option \<Rightarrow> unit redis \<Rightarrow> overlap_record option
    \<Rightarrow> bool option \<times> unit redis \<times> overlap_record option" where
  "check_topic_id_space online now g bank persistAt locks st =
     run_exclusively online now TOPIC_ID_LOCK_KEY SYNC_LOCK_TTL_MS
       (\<lambda>s. case bank of None \<Rightarrow> (False, s) | Some ids \<Rightarrow> (case check_overlap g ids persistAt s of ((alert, r), s') \<Rightarrow> (alert, s'))) locks st"

end
