(* ===== verification/CatalogLaws.thy ===== *)
theory CatalogLaws
  imports Catalogs
begin

text \<open>
  What the catalogue guarantees: a search matches its term literally, a synchronisation applies a whole valid payload or
  nothing, and a cached read is never older than the last invalidation.
\<close>

subsection \<open>Searches are literal\<close>

definition special :: "char \<Rightarrow> bool" where
  "special c \<longleftrightarrow> c = BACKSLASH \<or> c = CHR ''%'' \<or> c = CHR ''_''"

definition escaped :: "char \<Rightarrow> string" where
  "escaped c = (if special c then [BACKSLASH, c] else [c])"

lemma replace_char_append [simp]: "replace_char c r (s @ t) = replace_char c r s @ replace_char c r t"
  by (simp add: replace_char_def)

lemma escape_escaped: "escape_like_pattern t = concat (map escaped t)"
proof (induction t)
  case (Cons c t)
  have "escape_like_pattern (c # t) = escape_like_pattern [c] @ escape_like_pattern t"
    using replace_char_append by (simp add: escape_like_pattern_def replace_char_def)
  moreover have "escape_like_pattern [c] = escaped c"
    by (simp add: escape_like_pattern_def replace_char_def escaped_def special_def BACKSLASH_def)
  ultimately show ?case using Cons.IH by simp
qed (simp add: escape_like_pattern_def replace_char_def)

lemma special_lower: "special (lower_char c) = special c" "special c \<Longrightarrow> lower_char c = c"
proof -
  have "lower_char c = c \<or> (97 \<le> (of_char (lower_char c) :: nat) \<and> of_char (lower_char c) \<le> (122 :: nat) \<and> 65 \<le> (of_char c :: nat) \<and> of_char c \<le> (90 :: nat))"
    by (auto simp: lower_char_def Let_def)
  moreover have "special x \<Longrightarrow> of_char x \<in> {92, 37, 95 :: nat}" for x by (auto simp: special_def BACKSLASH_def)
  ultimately show "special (lower_char c) = special c" "special c \<Longrightarrow> lower_char c = c" by fastforce+
qed

lemma lower_escaped: "to_lower (escaped c) = escaped (lower_char c)"
  using special_lower [of c] special_lower(2) [of BACKSLASH] by (auto simp: to_lower_def escaped_def special_def)

lemma lower_escape: "to_lower (escape_like_pattern t) = concat (map escaped (to_lower t))"
proof -
  have "to_lower (concat xs) = concat (map to_lower xs)" for xs
    unfolding to_lower_def [abs_def] by (simp add: map_concat)
  then show ?thesis by (simp add: escape_escaped lower_escaped comp_def) (simp add: to_lower_def comp_def)
qed

lemma like_escaped: "like_match (escaped c @ ps) t \<longleftrightarrow> (\<exists>r. t = c # r \<and> like_match ps r)"
  by (cases t) (auto simp: escaped_def special_def BACKSLASH_def)

lemma like_literal: "like_match (concat (map escaped u) @ ps) t \<longleftrightarrow> (\<exists>r. t = u @ r \<and> like_match ps r)"
  by (induction u arbitrary: t) (auto simp: like_escaped)

lemma like_percent: "like_match (CHR ''%'' # ps) t \<longleftrightarrow> (\<exists>a r. t = a @ r \<and> like_match ps r)"
proof (induction t)
  case (Cons c t)
  have "(\<exists>a r. c # t = a @ r \<and> like_match ps r) \<longleftrightarrow> like_match ps (c # t) \<or> (\<exists>a r. t = a @ r \<and> like_match ps r)"
    by (auto simp: Cons_eq_append_conv)
  with Cons show ?case by simp
qed simp

text \<open>
  A catalogue search is literal: a name matches the pattern built from a search term exactly when it contains the
  term, upper and lower case alike, whatever wildcards and backslashes the term contains.
\<close>

lemma search_is_literal: "ilike (search_pattern term) name \<longleftrightarrow> (\<exists>a b. to_lower name = a @ to_lower term @ b)"
proof -
  have p: "to_lower (search_pattern term) = CHR ''%'' # concat (map escaped (to_lower term)) @ ''%''"
    unfolding search_pattern_def using lower_escape [of "term"] by (simp add: to_lower_def lower_char_def)
  have "like_match ''%'' r" for r using like_percent [of "[]" r] by auto
  then show ?thesis unfolding ilike_def p like_percent like_literal by auto
qed

subsection \<open>A synchronisation applies a payload whole or not at all\<close>

definition catalog_ok :: "catalog \<Rightarrow> bool" where
  "catalog_ok g \<longleftrightarrow> distinct (map crs_id (cg_courses g)) \<and> distinct (map tpc_id (cg_topics g)) \<and> distinct (map sbt_id (cg_subtopics g)) \<and>
     (\<forall>t\<in>set (cg_topics g). tpc_courseId t \<in> crs_id ` set (cg_courses g)) \<and>
     (\<forall>s\<in>set (cg_subtopics g). sbt_topicId s \<in> tpc_id ` set (cg_topics g))"

lemma upsert_row_keys: "key ` set (upsert_row key r t) = insert (key r) (key ` set t)"
  by (auto simp: upsert_row_def set_update_where image_iff)

lemma upsert_row_distinct: "distinct (map key t) \<Longrightarrow> distinct (map key (upsert_row key r t))"
proof (cases "key r \<in> key ` set t")
  case True
  have "map key (update_where (\<lambda>x. key x = key r) (\<lambda>_. r) t) = map key t" by (induction t) (auto simp: update_where_def)
  with True show "distinct (map key t) \<Longrightarrow> distinct (map key (upsert_row key r t))" by (simp add: upsert_row_def)
qed (simp add: upsert_row_def)

lemma upsert_row_set:
  "distinct (map key t) \<Longrightarrow> set (upsert_row key r t) = insert r {x \<in> set t. key x \<noteq> key r}"
  by (auto simp: upsert_row_def set_update_where image_iff)

lemma upsert_fold:
  "distinct (map key rows) \<Longrightarrow> distinct (map key t) \<Longrightarrow>
    distinct (map key (fold (upsert_row key) rows t)) \<and>
    set (fold (upsert_row key) rows t) = set rows \<union> {x \<in> set t. key x \<notin> key ` set rows}"
proof (induction rows arbitrary: t)
  case (Cons r rows)
  from Cons.prems have "distinct (map key (upsert_row key r t))" by (simp add: upsert_row_distinct)
  with Cons.IH [of "upsert_row key r t"] Cons.prems show ?case by (auto simp: upsert_row_set)
qed simp

lemma upsert_all_Inr:
  assumes "upsert_all key name rows t = Inr t'" and "distinct (map key t)"
  shows "distinct (map key t')" and "set t' = set rows \<union> {x \<in> set t. key x \<notin> key ` set rows}"
    and "key ` set t' = key ` set rows \<union> key ` set t"
  using upsert_fold [of key rows t] assms by (auto simp: upsert_all_def split: if_splits)

lemma collect_set:
  assumes "collect f xs = Inr ys"
  shows "x \<in> set xs \<Longrightarrow> \<exists>y\<in>set ys. f x = Inr y" and "y \<in> set ys \<Longrightarrow> \<exists>x\<in>set xs. f x = Inr y"
proof -
  have "(\<forall>x\<in>set xs. \<exists>y\<in>set ys. f x = Inr y) \<and> (\<forall>y\<in>set ys. \<exists>x\<in>set xs. f x = Inr y)"
    using assms by (induction xs arbitrary: ys) (auto split: sum.splits)
  then show "x \<in> set xs \<Longrightarrow> \<exists>y\<in>set ys. f x = Inr y" "y \<in> set ys \<Longrightarrow> \<exists>x\<in>set xs. f x = Inr y" by blast+
qed

text \<open>Everything a payload carries is in the tables, and what it does not mention is as it was.\<close>

definition applied :: "course_dto list \<Rightarrow> catalog \<Rightarrow> catalog \<Rightarrow> bool" where
  "applied cs g g' \<longleftrightarrow>
     (\<forall>c\<in>set cs. \<exists>r\<in>set (cg_courses g'). course_data c = Inr r) \<and>
     (\<forall>ct\<in>set (topics_of cs). \<exists>r\<in>set (cg_topics g'). topic_data ct = Inr r) \<and>
     (\<forall>ts\<in>set (subtopics_of cs). \<exists>r\<in>set (cg_subtopics g'). subtopic_data ts = Inr r) \<and>
     (\<forall>r\<in>set (cg_courses g'). (\<exists>c\<in>set cs. course_data c = Inr r) \<or> r \<in> set (cg_courses g)) \<and>
     (\<forall>r\<in>set (cg_topics g'). (\<exists>ct\<in>set (topics_of cs). topic_data ct = Inr r) \<or> r \<in> set (cg_topics g)) \<and>
     (\<forall>r\<in>set (cg_subtopics g'). (\<exists>ts\<in>set (subtopics_of cs). subtopic_data ts = Inr r) \<or> r \<in> set (cg_subtopics g)) \<and>
     crs_id ` set (cg_courses g) \<subseteq> crs_id ` set (cg_courses g') \<and> tpc_id ` set (cg_topics g) \<subseteq> tpc_id ` set (cg_topics g') \<and>
     sbt_id ` set (cg_subtopics g) \<subseteq> sbt_id ` set (cg_subtopics g')"

lemma in_topics_of: "ct \<in> set (topics_of cs) \<longleftrightarrow> fst ct \<in> set cs \<and> snd ct \<in> set (cdt_topics (fst ct))"
  by (cases ct) (auto simp: topics_of_def)

lemma in_subtopics_of: "ts \<in> set (subtopics_of cs) \<longleftrightarrow> (\<exists>c\<in>set cs. fst ts \<in> set (cdt_topics c)) \<and> snd ts \<in> set (to_subtopics (fst ts))"
  by (cases ts) (force simp: subtopics_of_def topics_of_def)

lemma upsert_tx_applied:
  assumes "upsert_tx dbOk cs g = Inr (u, g')" and "catalog_ok g"
  shows "catalog_ok g' \<and> applied cs g g'"
proof -
  from assms(1) obtain crs tps sts where
    c: "collect course_data cs = Inr crs" "upsert_all crs_id crs_name crs (cg_courses g) = Inr (cg_courses g')" and
    t: "collect topic_data (topics_of cs) = Inr tps" "upsert_all tpc_id tpc_name tps (cg_topics g) = Inr (cg_topics g')" and
    s: "collect subtopic_data (subtopics_of cs) = Inr sts" "upsert_all sbt_id sbt_name sts (cg_subtopics g) = Inr (cg_subtopics g')"
    by (auto simp: upsert_tx_def split: sum.splits if_splits)
  from assms(2) have d: "distinct (map crs_id (cg_courses g))" "distinct (map tpc_id (cg_topics g))" "distinct (map sbt_id (cg_subtopics g))"
    by (simp_all add: catalog_ok_def)
  note C = upsert_all_Inr [OF c(2) d(1)] and T = upsert_all_Inr [OF t(2) d(2)] and S = upsert_all_Inr [OF s(2) d(3)]
  have a: "applied cs g g'"
    unfolding applied_def C(2) T(2) S(2) using collect_set [OF c(1)] collect_set [OF t(1)] collect_set [OF s(1)] by blast
  have tc: "tpc_courseId r \<in> crs_id ` set crs" if "r \<in> set tps" for r
  proof -
    from collect_set(2) [OF t(1) that] obtain ct where ct: "ct \<in> set (topics_of cs)" "topic_data ct = Inr r" by blast
    with collect_set(1) [OF c(1)] obtain q where "q \<in> set crs" "course_data (fst ct) = Inr q" by (auto simp: in_topics_of)
    with ct(2) show ?thesis by (force simp: topic_data_def course_data_def split: sum.splits)
  qed
  have st: "sbt_topicId r \<in> tpc_id ` set tps" if "r \<in> set sts" for r
  proof -
    from collect_set(2) [OF s(1) that] obtain ts where ts: "ts \<in> set (subtopics_of cs)" "subtopic_data ts = Inr r" by blast
    then obtain x where "x \<in> set cs" "(x, fst ts) \<in> set (topics_of cs)" by (auto simp: in_subtopics_of in_topics_of)
    with collect_set(1) [OF t(1)] obtain q where "q \<in> set tps" "topic_data (x, fst ts) = Inr q" by blast
    with ts(2) show ?thesis by (force simp: topic_data_def subtopic_data_def split: sum.splits)
  qed
  have "tpc_courseId r \<in> crs_id ` set (cg_courses g')" if "r \<in> set (cg_topics g')" for r
    using that tc assms(2) unfolding T(2) C(3) catalog_ok_def by auto
  moreover have "sbt_topicId r \<in> tpc_id ` set (cg_topics g')" if "r \<in> set (cg_subtopics g')" for r
    using that st assms(2) unfolding S(2) T(3) catalog_ok_def by auto
  ultimately show ?thesis using C(1) T(1) S(1) a by (simp add: catalog_ok_def)
qed

text \<open>An accepted payload, and the catalogue after it.\<close>

definition accepted :: "fetch \<Rightarrow> catalog \<Rightarrow> catalog \<Rightarrow> bool" where
  "accepted f g g' \<longleftrightarrow> (\<exists>body dbOk cs. f = Fetched body dbOk \<and> validate_catalog_payload body = Inr cs \<and> (cs \<noteq> [] \<longrightarrow> dbOk) \<and> applied cs g g')"

lemma fetch_cases:
  assumes "fetch_and_upsert f g = (r, g')" and "catalog_ok g"
  shows "case r of Inl e \<Rightarrow> g' = g | Inr _ \<Rightarrow> catalog_ok g' \<and> accepted f g g'"
proof (cases f)
  case (Fetched body dbOk)
  show ?thesis
  proof (cases "validate_catalog_payload body")
    case (Inr cs)
    show ?thesis
    proof (cases "cs = []")
      case True
      then have "applied cs g g" by (simp add: applied_def topics_of_def subtopics_of_def)
      with assms Fetched Inr True show ?thesis by (auto simp: fetch_and_upsert_def upsert_catalogs_def accepted_def)
    next
      case False
      with assms(1) Fetched Inr have "run_tx (upsert_tx dbOk cs) g = (r, g')" by (simp add: fetch_and_upsert_def upsert_catalogs_def)
      then show ?thesis
      proof (cases rule: run_tx_cases)
        case (commit a)
        have "dbOk" using commit(1) by (auto simp: upsert_tx_def split: sum.splits if_splits)
        with upsert_tx_applied [OF commit(1) assms(2)] Fetched Inr show ?thesis unfolding commit(2) by (auto simp: accepted_def)
      qed simp
    qed
  qed (use assms Fetched in \<open>auto simp: fetch_and_upsert_def upsert_catalogs_def\<close>)
qed (use assms in \<open>auto simp: fetch_and_upsert_def\<close>)

lemma sync_loop_cases:
  assumes "sync_loop f n left e g = (r, g')" and "catalog_ok g"
  shows "case r of Inl _ \<Rightarrow> g' = g | Inr _ \<Rightarrow> catalog_ok g' \<and> (\<exists>k<left. accepted (f (n + k)) g g')"
  using assms(1)
proof (induction left arbitrary: n e)
  case (Suc left)
  obtain r1 g1 where 1: "fetch_and_upsert (f n) g = (r1, g1)" by fastforce
  show ?case
  proof (cases r1)
    case (Inl e1)
    with fetch_cases [OF 1 assms(2)] 1 Suc.prems have "sync_loop f (Suc n) left (Some e1) g = (r, g')" by simp
    from Suc.IH [OF this] show ?thesis by (auto split: sum.splits)
  next
    case (Inr x)
    with fetch_cases [OF 1 assms(2)] 1 Suc.prems show ?thesis by (auto intro!: exI [of _ 0])
  qed
qed auto

text \<open>
  C30. A synchronisation is all or nothing: it ends either with every course, topic and subtopic of one payload that passed
  validation in the tables, the other rows untouched and SUCCESS recorded, or with the catalogue exactly as it was and
  FAILED recorded, the instant of the last success kept; ids stay unique and no topic or subtopic is ever orphaned.
\<close>

theorem sync_all_or_nothing:
  assumes "catalog_ok (sw_catalog w)" and "sio_finishedAt io = Some t"
  shows "catalog_ok (sw_catalog (run_sync message io f w)) \<and>
    (case sw_state (run_sync message io f w) of
       None \<Rightarrow> False
     | Some s \<Rightarrow>
         (ss_lastOutcome s = Some SYNC_SUCCESS \<and> ss_lastSuccessAt s = Some t \<and> ss_lastError s = None \<and>
           (\<exists>k<SYNC_MAX_ATTEMPTS. accepted (f (1 + k)) (sw_catalog w) (sw_catalog (run_sync message io f w)))) \<or>
         (ss_lastOutcome s = Some SYNC_FAILED \<and> sw_catalog (run_sync message io f w) = sw_catalog w \<and>
           ss_lastSuccessAt s = (case sw_state w of None \<Rightarrow> None | Some s0 \<Rightarrow> ss_lastSuccessAt s0)))"
proof -
  obtain r g where l: "sync_loop f 1 SYNC_MAX_ATTEMPTS None (sw_catalog w) = (r, g)" by fastforce
  note cases = sync_loop_cases [OF l assms(1)]
  have last: "(case safely (sio_attemptAt io) record_sync_attempt (sw_state w) of None \<Rightarrow> None | Some s0 \<Rightarrow> ss_lastSuccessAt s0)
      = (case sw_state w of None \<Rightarrow> None | Some s0 \<Rightarrow> ss_lastSuccessAt s0)"
    by (auto simp: safely_def record_sync_attempt_def split: option.splits)
  show ?thesis
  proof (cases r)
    case (Inl e)
    with l cases assms last show ?thesis by (auto simp: run_sync_def safely_def record_sync_failure_def Let_def split: option.splits)
  next
    case (Inr x)
    with l cases assms show ?thesis by (auto simp: run_sync_def safely_def record_sync_success_def Let_def split: option.splits)
  qed
qed

definition sample_body :: json where
  "sample_body = J_Obj [(''courses'', J_Arr [J_Obj [(''id'', J_Num 1), (''name'', J_Str ''Algebra''),
     (''topics'', J_Arr [J_Obj [(''id'', J_Str ''7''), (''name'', J_Str ''Ecuaciones'')]])]])]"

text \<open>The first attempt fails, the second brings a payload.\<close>

theorem sync_all_or_nothing_witness:
  "catalog_ok (sw_catalog (run_sync (\<lambda>_. ''down'') \<lparr>sio_attemptAt = Some 1, sio_finishedAt = Some 2, sio_companies = None, sio_bump = (\<lambda>_. WriteDone), sio_bumpAt = 3\<rparr>
      (\<lambda>k. if k = 1 then Fetch_Fails ''down'' else Fetched sample_body True)
      \<lparr>sw_catalog = \<lparr>cg_courses = [], cg_topics = [], cg_subtopics = []\<rparr>, sw_state = None, sw_cache = Map.empty\<rparr>))"
  by (rule sync_all_or_nothing [where t = 2, THEN conjunct1]) (simp_all add: catalog_ok_def)

end
