(* ===== verification/CatalogFreshness.thy ===== *)
theory CatalogFreshness
  imports Catalogs
begin

text \<open>
  The versioned catalogue cache under concurrent requests. A read looks its key up, runs its query and stores the answer
  in three steps, with other requests between them; a change of the data and the bump of the version that invalidates it
  are two steps as well.
\<close>

subsection \<open>Keys\<close>

lemma nat_text_step: "nat_text n = (if n < 10 then [char_of (48 + n)] else nat_text (n div 10) @ [char_of (48 + n mod 10)])"
  by (rule nat_text.simps)

lemma decimal_append: "decimal acc (xs @ ys) = (case decimal acc xs of None \<Rightarrow> None | Some a \<Rightarrow> decimal a ys)"
  by (induction xs arbitrary: acc) (auto simp: Let_def)

lemma decimal_digit: "k < 10 \<Longrightarrow> decimal acc [char_of (48 + k :: nat)] = Some (acc * 10 + int k)"
proof -
  assume k: "k < 10"
  then have "(of_char (char_of (48 + k) :: char) :: nat) = 48 + k" by simp
  then have "(of_char (char_of (48 + k) :: char) :: int) = int (48 + k)" by (metis of_nat_of_char)
  with k show ?thesis by (simp add: Let_def)
qed

lemma decimal_nat_text: "decimal 0 (nat_text n) = Some (int n)"
proof (induction n rule: less_induct)
  case (less n)
  show ?case
  proof (cases "n < 10")
    case True
    with decimal_digit [OF this, of 0] show ?thesis by (subst nat_text_step) simp
  next
    case False
    then have "decimal 0 (nat_text (n div 10)) = Some (int (n div 10))" by (intro less.IH) simp
    with False decimal_digit [of "n mod 10" "int (n div 10)"] show ?thesis
      by (subst nat_text_step) (simp add: decimal_append, presburger)
  qed
qed

lemma nat_text_digits: "c \<in> set (nat_text n) \<Longrightarrow> 48 \<le> (of_char c :: nat) \<and> of_char c \<le> (57 :: nat)"
proof (induction n rule: less_induct)
  case (less n)
  show ?case
  proof (cases "n < 10")
    case True
    with less.prems show ?thesis by (subst (asm) nat_text_step) auto
  next
    case False
    with less.prems have "c \<in> set (nat_text (n div 10)) \<or> c = char_of (48 + n mod 10)" by (subst (asm) nat_text_step) auto
    with less.IH [of "n div 10"] False show ?thesis by auto
  qed
qed

lemma nat_text_inj: "nat_text m = nat_text n \<Longrightarrow> m = n"
  using decimal_nat_text by (metis option.inject of_nat_eq_iff)

lemma int_text_inj: "0 \<le> i \<Longrightarrow> 0 \<le> j \<Longrightarrow> int_text i = int_text j \<Longrightarrow> i = j"
  using nat_text_inj [of "nat i" "nat j"] by (simp add: int_text_def)

lemma int_text_plain: "0 \<le> i \<Longrightarrow> CHR '':'' \<notin> set (int_text i) \<and> CHR ''v'' \<notin> set (int_text i)"
  using nat_text_digits [of _ "nat i"] by (fastforce simp: int_text_def)

lemma split_no: "c \<notin> set xs \<Longrightarrow> split_on c xs = [xs]"
  by (induction xs) auto

lemma courses_key_parts:
  assumes "0 \<le> v" and "CHR '':'' \<notin> set t"
  shows "split_on (CHR '':'') (courses_key v t s) = [''catalogs'', int_text v, ''courses'', t] @ split_on (CHR '':'') (search_or_all s)"
proof -
  have "courses_key v t s = ''catalogs'' @ CHR '':'' # int_text v @ CHR '':'' # ''courses'' @ CHR '':'' # t @ CHR '':'' # search_or_all s"
    by (simp add: courses_key_def)
  with assms int_text_plain [of v] show ?thesis by (simp add: split_on_append)
qed

lemma topics_key_parts:
  assumes "0 \<le> v" and "CHR '':'' \<notin> set t" and "CHR '':'' \<notin> set c"
  shows "split_on (CHR '':'') (topics_key v t c s) = [''catalogs'', int_text v, ''topics'', t, c] @ split_on (CHR '':'') (search_or_all s)"
proof -
  have "topics_key v t c s = ''catalogs'' @ CHR '':'' # int_text v @ CHR '':'' # ''topics'' @ CHR '':'' # t @ CHR '':'' # c @ CHR '':'' # search_or_all s"
    by (simp add: topics_key_def)
  with assms int_text_plain [of v] show ?thesis by (simp add: split_on_append)
qed

lemma version_key_parts: "CHR '':'' \<notin> set t \<Longrightarrow> split_on (CHR '':'') (version_key t) = [''catalogs'', ''version'', t]"
proof -
  assume t: "CHR '':'' \<notin> set t"
  have "version_key t = ''catalogs'' @ CHR '':'' # ''version'' @ CHR '':'' # t" by (simp add: version_key_def)
  with t show ?thesis by (simp add: split_on_append split_no)
qed

lemma split_inj: "split_on c xs = split_on c ys \<longleftrightarrow> xs = ys"
proof
  assume eq: "split_on c xs = split_on c ys"
  have "join_with c (split_on c xs) = join_with c (split_on c ys)" by (simp only: eq)
  then show "xs = ys" by simp
qed simp

lemma courses_key_inj:
  assumes "courses_key v t s = courses_key v' t' s'" and "0 \<le> v" "0 \<le> v'" "CHR '':'' \<notin> set t" "CHR '':'' \<notin> set t'"
  shows "v = v' \<and> t = t' \<and> search_or_all s = search_or_all s'"
proof -
  have "split_on (CHR '':'') (courses_key v t s) = split_on (CHR '':'') (courses_key v' t' s')" by (simp only: assms(1))
  then have "int_text v = int_text v' \<and> t = t' \<and> search_or_all s = search_or_all s'"
    unfolding courses_key_parts [OF assms(2,4)] courses_key_parts [OF assms(3,5)] by (simp add: split_inj)
  with int_text_inj [OF assms(2,3)] show ?thesis by blast
qed

lemma topics_key_inj:
  assumes "topics_key v t c s = topics_key v' t' c' s'" and "0 \<le> v" "0 \<le> v'" "CHR '':'' \<notin> set t" "CHR '':'' \<notin> set t'"
    "CHR '':'' \<notin> set c" "CHR '':'' \<notin> set c'"
  shows "v = v' \<and> t = t' \<and> c = c' \<and> search_or_all s = search_or_all s'"
proof -
  have "split_on (CHR '':'') (topics_key v t c s) = split_on (CHR '':'') (topics_key v' t' c' s')" by (simp only: assms(1))
  then have "int_text v = int_text v' \<and> t = t' \<and> c = c' \<and> search_or_all s = search_or_all s'"
    unfolding topics_key_parts [OF assms(2,4,6)] topics_key_parts [OF assms(3,5,7)] by (simp add: split_inj)
  with int_text_inj [OF assms(2,3)] show ?thesis by blast
qed

lemma courses_topics_key:
  assumes "0 \<le> v" "0 \<le> v'" "CHR '':'' \<notin> set t" "CHR '':'' \<notin> set t'" "CHR '':'' \<notin> set c"
  shows "courses_key v t s \<noteq> topics_key v' t' c s'"
proof
  assume "courses_key v t s = topics_key v' t' c s'"
  then have "split_on (CHR '':'') (courses_key v t s) = split_on (CHR '':'') (topics_key v' t' c s')" by (simp only:)
  then show False unfolding courses_key_parts [OF assms(1,3)] topics_key_parts [OF assms(2,4,5)] by simp
qed

text \<open>
  A query a request can make: tenant, search, and the course for a topic list. The literal term \<open>all\<close> is excluded: it
  shares its key with the absence of a term.
\<close>

datatype catalog_query = Q_Courses "string option" | Q_Topics string "string option"

fun query_key :: "millis \<Rightarrow> string \<Rightarrow> catalog_query \<Rightarrow> string" where
  "query_key v t (Q_Courses s) = courses_key v t s"
| "query_key v t (Q_Topics c s) = topics_key v t c s"

fun query_ok :: "catalog_query \<Rightarrow> bool" where
  "query_ok (Q_Courses s) = (s \<noteq> Some ''all'' \<and> s \<noteq> Some '''')"
| "query_ok (Q_Topics c s) = (s \<noteq> Some ''all'' \<and> s \<noteq> Some '''' \<and> CHR '':'' \<notin> set c)"

lemma search_or_all_inj:
  "s \<noteq> Some ''all'' \<Longrightarrow> s \<noteq> Some '''' \<Longrightarrow> s' \<noteq> Some ''all'' \<Longrightarrow> s' \<noteq> Some '''' \<Longrightarrow> search_or_all s = search_or_all s' \<Longrightarrow> s = s'"
  by (cases s; cases s') (auto simp: search_or_all_def)

lemma query_key_inj:
  assumes "query_key v t q = query_key v' t' q'" and "0 \<le> v" "0 \<le> v'" "CHR '':'' \<notin> set t" "CHR '':'' \<notin> set t'" "query_ok q" "query_ok q'"
  shows "v = v' \<and> t = t' \<and> q = q'"
proof (cases q)
  case q: (Q_Courses s)
  show ?thesis
  proof (cases q')
    case (Q_Courses s')
    with q assms courses_key_inj [OF _ assms(2-5), of s s'] search_or_all_inj [of s s'] show ?thesis by simp
  next
    case (Q_Topics c s')
    with q assms(1,7) courses_topics_key [OF assms(2-5), of c s s'] show ?thesis by simp
  qed
next
  case q: (Q_Topics c s)
  show ?thesis
  proof (cases q')
    case (Q_Courses s')
    with q assms(1,6) courses_topics_key [OF assms(3,2,5,4), of c s' s] show ?thesis by simp
  next
    case (Q_Topics c' s')
    with q assms topics_key_inj [OF _ assms(2-5), of c s c' s'] search_or_all_inj [of s s'] show ?thesis by simp
  qed
qed

lemma version_key_other:
  assumes "0 \<le> v" "CHR '':'' \<notin> set t" "CHR '':'' \<notin> set t'" "query_ok q"
  shows "query_key v t q \<noteq> version_key t'"
proof
  assume "query_key v t q = version_key t'"
  then have s: "split_on (CHR '':'') (query_key v t q) = [''catalogs'', ''version'', t']" using version_key_parts [OF assms(3)] by (simp only:)
  then have "int_text v = ''version''"
  proof (cases q)
    case (Q_Courses s')
    with s courses_key_parts [OF assms(1,2), of s'] show ?thesis by simp
  next
    case (Q_Topics c s')
    with s topics_key_parts [OF assms(1,2), of c s'] assms(4) show ?thesis by simp
  qed
  with int_text_plain [OF assms(1)] show False by simp
qed

lemma version_key_inj: "version_key t = version_key t' \<Longrightarrow> t = t'"
  by (simp add: version_key_def)

subsection \<open>The requests\<close>

text \<open>A request whose lookup missed: the key it looked up, with the version in it, and its answer once computed.\<close>

record reader =
  rd_tenant :: string
  rd_query :: catalog_query
  rd_version :: millis
  rd_answer :: "cached_catalog option"

text \<open>\<open>kst_pending\<close> are the tenants whose data changed since their version was last bumped.\<close>

record cache_system =
  kst_catalog :: catalog
  kst_visibility :: "string \<Rightarrow> topic_visibility list"
  kst_sync :: "sync_state option"
  kst_cache :: catalog_cache
  kst_readers :: "reader list"
  kst_pending :: "string set"
  kst_clock :: millis

text \<open>What the queries answer now.\<close>

definition answers ::
  "(course_row list \<Rightarrow> course_row list) \<Rightarrow> ((topic_row \<times> subtopic_row option) list \<Rightarrow> (topic_row \<times> subtopic_row option) list)
    \<Rightarrow> cache_system \<Rightarrow> string \<Rightarrow> catalog_query \<Rightarrow> cached_catalog \<Rightarrow> bool" where
  "answers oc ot st t q a =
     (case (q, a) of
        (Q_Courses s, Cached_Courses r) \<Rightarrow> cr_courses r = get_courses_query oc s (kst_visibility st t) (kst_catalog st)
      | (Q_Topics c s, Cached_Topics r) \<Rightarrow> get_course_topics_query ot c s (kst_visibility st t) (kst_catalog st) = Inr r
      | _ \<Rightarrow> False)"

definition good_tenant :: "string \<Rightarrow> bool" where
  "good_tenant t \<longleftrightarrow> CHR '':'' \<notin> set t"

inductive cache_step ::
  "(course_row list \<Rightarrow> course_row list) \<Rightarrow> ((topic_row \<times> subtopic_row option) list \<Rightarrow> (topic_row \<times> subtopic_row option) list)
    \<Rightarrow> cache_system \<Rightarrow> cache_system \<Rightarrow> bool" for oc ot where
  miss: "good_tenant t \<Longrightarrow> query_ok q \<Longrightarrow>
    cache_step oc ot st (st\<lparr>kst_readers := \<lparr>rd_tenant = t, rd_query = q, rd_version = get_cache_version ReadOk now t (kst_cache st), rd_answer = None\<rparr> # kst_readers st\<rparr>)"
| query_courses: "kst_readers st = xs @ r # ys \<Longrightarrow> rd_query r = Q_Courses s \<Longrightarrow>
    cache_step oc ot st (st\<lparr>kst_readers := xs @ r\<lparr>rd_answer := Some (Cached_Courses
      (courses_answer oc s (kst_visibility st (rd_tenant r)) (kst_catalog st) (kst_sync st)))\<rparr> # ys\<rparr>)"
| query_topics: "kst_readers st = xs @ r # ys \<Longrightarrow> rd_query r = Q_Topics c s \<Longrightarrow>
    get_course_topics_query ot c s (kst_visibility st (rd_tenant r)) (kst_catalog st) = Inr a \<Longrightarrow>
    cache_step oc ot st (st\<lparr>kst_readers := xs @ r\<lparr>rd_answer := Some (Cached_Topics a)\<rparr> # ys\<rparr>)"
| store: "kst_readers st = xs @ r # ys \<Longrightarrow> rd_answer r = Some a \<Longrightarrow>
    cache_step oc ot st (st\<lparr>kst_readers := xs @ ys,
      kst_cache := cache_set wio (query_key (rd_version r) (rd_tenant r) (rd_query r)) a (Some (now + CATALOG_TTL_MS)) (kst_cache st)\<rparr>)"
| gone: "kst_readers st = xs @ r # ys \<Longrightarrow> cache_step oc ot st (st\<lparr>kst_readers := xs @ ys\<rparr>)"
| toggle: "cache_step oc ot st (st\<lparr>kst_visibility := (kst_visibility st)(t := update_topic_local_visibility i b (kst_visibility st t)),
      kst_pending := insert t (kst_pending st)\<rparr>)"
| sync: "fst (upsert_catalogs dbOk body (kst_catalog st)) = Inr () \<Longrightarrow>
    cache_step oc ot st (st\<lparr>kst_catalog := snd (upsert_catalogs dbOk body (kst_catalog st)), kst_pending := UNIV\<rparr>)"
| sync_recorded: "cache_step oc ot st (st\<lparr>kst_sync := s\<rparr>)"
| bump: "good_tenant t \<Longrightarrow> kst_clock st < now \<Longrightarrow>
    cache_step oc ot st (st\<lparr>kst_cache := bump_cache_version wio now t (kst_cache st), kst_clock := now,
      kst_pending := (if takes_effect wio then kst_pending st - {t} else kst_pending st)\<rparr>)"
| expired: "kst_cache st k = Some (a, Some e) \<Longrightarrow> cache_step oc ot st (st\<lparr>kst_cache := (kst_cache st)(k := None)\<rparr>)"

definition no_requests :: "catalog \<Rightarrow> (string \<Rightarrow> topic_visibility list) \<Rightarrow> cache_system" where
  "no_requests g vis = \<lparr>kst_catalog = g, kst_visibility = vis, kst_sync = None, kst_cache = Map.empty, kst_readers = [], kst_pending = {}, kst_clock = 0\<rparr>"

subsection \<open>The invariant\<close>

abbreviation version :: "cache_system \<Rightarrow> string \<Rightarrow> millis" where
  "version st t \<equiv> get_cache_version ReadOk 0 t (kst_cache st)"

definition fresh_entry ::
  "(course_row list \<Rightarrow> course_row list) \<Rightarrow> ((topic_row \<times> subtopic_row option) list \<Rightarrow> (topic_row \<times> subtopic_row option) list)
    \<Rightarrow> cache_system \<Rightarrow> millis \<Rightarrow> string \<Rightarrow> catalog_query \<Rightarrow> cached_catalog \<Rightarrow> bool" where
  "fresh_entry oc ot st v t q a \<longleftrightarrow> (v = version st t \<longrightarrow> t \<notin> kst_pending st \<longrightarrow> answers oc ot st t q a)"

definition reader_ok :: "(course_row list \<Rightarrow> course_row list) \<Rightarrow> ((topic_row \<times> subtopic_row option) list \<Rightarrow> (topic_row \<times> subtopic_row option) list)
    \<Rightarrow> cache_system \<Rightarrow> reader \<Rightarrow> bool" where
  "reader_ok oc ot st r \<longleftrightarrow> good_tenant (rd_tenant r) \<and> query_ok (rd_query r) \<and> 0 \<le> rd_version r \<and> rd_version r \<le> kst_clock st \<and>
     (\<forall>a. rd_answer r = Some a \<longrightarrow> fresh_entry oc ot st (rd_version r) (rd_tenant r) (rd_query r) a)"

text \<open>What the store may hold: versions, which do not expire, and answers under their keys, which do.\<close>

definition entry_ok :: "(course_row list \<Rightarrow> course_row list) \<Rightarrow> ((topic_row \<times> subtopic_row option) list \<Rightarrow> (topic_row \<times> subtopic_row option) list)
    \<Rightarrow> cache_system \<Rightarrow> string \<Rightarrow> cached_catalog \<Rightarrow> millis option \<Rightarrow> bool" where
  "entry_ok oc ot st k a e \<longleftrightarrow>
     (\<exists>t v. good_tenant t \<and> k = version_key t \<and> a = Cached_Version v \<and> e = None \<and> 0 \<le> v \<and> v \<le> kst_clock st) \<or>
     (\<exists>v t q. good_tenant t \<and> query_ok q \<and> 0 \<le> v \<and> v \<le> kst_clock st \<and> k = query_key v t q \<and> e \<noteq> None \<and> fresh_entry oc ot st v t q a)"

definition cache_ok :: "(course_row list \<Rightarrow> course_row list) \<Rightarrow> ((topic_row \<times> subtopic_row option) list \<Rightarrow> (topic_row \<times> subtopic_row option) list)
    \<Rightarrow> cache_system \<Rightarrow> bool" where
  "cache_ok oc ot st \<longleftrightarrow> 0 \<le> kst_clock st \<and> (\<forall>k a e. kst_cache st k = Some (a, e) \<longrightarrow> entry_ok oc ot st k a e) \<and>
     (\<forall>r\<in>set (kst_readers st). reader_ok oc ot st r)"

lemma version_at:
  assumes "cache_ok oc ot st" and "good_tenant t"
  shows "get_cache_version ReadOk now t (kst_cache st) = version st t" and "0 \<le> version st t" and "version st t \<le> kst_clock st"
proof -
  have v: "get_cache_version ReadOk n t (kst_cache st) = (case kst_cache st (version_key t) of Some (Cached_Version v, _) \<Rightarrow> v | _ \<Rightarrow> 0) \<and>
      0 \<le> get_cache_version ReadOk n t (kst_cache st) \<and> get_cache_version ReadOk n t (kst_cache st) \<le> kst_clock st" for n
  proof (cases "kst_cache st (version_key t)")
    case (Some p)
    obtain a e where p: "p = (a, e)" by fastforce
    with Some assms(1) have "entry_ok oc ot st (version_key t) a e" by (simp add: cache_ok_def)
    then obtain v where "a = Cached_Version v" "e = None" "0 \<le> v" "v \<le> kst_clock st"
      using version_key_other assms(2) unfolding entry_ok_def good_tenant_def by metis
    with Some p show ?thesis by (simp add: get_cache_version_def cache_get_def)
  qed (use assms(1) in \<open>simp add: get_cache_version_def cache_get_def cache_ok_def\<close>)
  show "get_cache_version ReadOk now t (kst_cache st) = version st t" using v [of now] v [of 0] by (simp only:)
  show "0 \<le> version st t" "version st t \<le> kst_clock st" using v [of 0] by blast+
qed

lemma answers_cong:
  assumes "kst_visibility st' t = kst_visibility st t" and "kst_catalog st' = kst_catalog st"
  shows "answers oc ot st' t q a = answers oc ot st t q a"
  unfolding answers_def assms ..

lemma answers_other [simp]:
  "answers oc ot (st\<lparr>kst_readers := rs\<rparr>) t q a = answers oc ot st t q a"
  "answers oc ot (st\<lparr>kst_cache := m\<rparr>) t q a = answers oc ot st t q a"
  "answers oc ot (st\<lparr>kst_readers := rs, kst_cache := m\<rparr>) t q a = answers oc ot st t q a"
  "answers oc ot (st\<lparr>kst_sync := s\<rparr>) t q a = answers oc ot st t q a"
  "answers oc ot (st\<lparr>kst_cache := m, kst_clock := n, kst_pending := ps\<rparr>) t q a = answers oc ot st t q a"
  "answers oc ot (st\<lparr>kst_cache := m, kst_clock := n\<rparr>) t q a = answers oc ot st t q a"
  by (rule answers_cong; simp)+

lemma cache_ok_mono:
  assumes "cache_ok oc ot st" and "kst_clock st \<le> kst_clock st'"
    and fresh: "\<And>v t q a. good_tenant t \<Longrightarrow> v \<le> kst_clock st \<Longrightarrow> fresh_entry oc ot st v t q a \<Longrightarrow> fresh_entry oc ot st' v t q a"
    and "\<And>k a e. kst_cache st' k = Some (a, e) \<Longrightarrow> kst_cache st k = Some (a, e) \<or> entry_ok oc ot st' k a e"
    and "\<And>r. r \<in> set (kst_readers st') \<Longrightarrow> r \<in> set (kst_readers st) \<or> reader_ok oc ot st' r"
  shows "cache_ok oc ot st'"
proof -
  have "reader_ok oc ot st' r" if "reader_ok oc ot st r" for r
    using that assms(2) fresh unfolding reader_ok_def by (meson order_trans)
  moreover have "entry_ok oc ot st' k a e" if e: "entry_ok oc ot st k a e" for k a e
  proof (cases e)
    case None
    with e obtain t v where "good_tenant t" "k = version_key t" "a = Cached_Version v" "0 \<le> v" "v \<le> kst_clock st" unfolding entry_ok_def by blast
    with None assms(2) show ?thesis unfolding entry_ok_def by force
  next
    case (Some x)
    with e obtain v t q where "good_tenant t" "query_ok q" "0 \<le> v" "v \<le> kst_clock st" "k = query_key v t q" "fresh_entry oc ot st v t q a"
      unfolding entry_ok_def by blast
    with Some assms(2) fresh show ?thesis unfolding entry_ok_def by (metis option.distinct(1) order_trans)
  qed
  ultimately show ?thesis using assms(1,2,4,5) unfolding cache_ok_def by (meson order_trans)
qed

lemma version_cong: "kst_cache st' (version_key t) = kst_cache st (version_key t) \<Longrightarrow> version st' t = version st t"
  by (simp add: get_cache_version_def cache_get_def)

text \<open>A step that leaves the version of a tenant and its answers alone keeps its entries fresh.\<close>

lemma fresh_cong:
  assumes "kst_cache st' (version_key t) = kst_cache st (version_key t)" and "t \<in> kst_pending st \<longrightarrow> t \<in> kst_pending st'"
    and "t \<notin> kst_pending st' \<Longrightarrow> answers oc ot st' t q a = answers oc ot st t q a" and "fresh_entry oc ot st v t q a"
  shows "fresh_entry oc ot st' v t q a"
  using assms version_cong [OF assms(1)] by (auto simp: fresh_entry_def)

lemma step_ok:
  assumes "cache_step oc ot st st'" and ok: "cache_ok oc ot st"
  shows "cache_ok oc ot st'"
  using assms(1)
proof cases
  case (miss t q now)
  note v = version_at(2,3) [OF ok miss(2)] and now = version_at(1) [OF ok miss(2), of now]
  show ?thesis unfolding miss(1)
    by (rule cache_ok_mono [OF ok]) (use miss(2,3) v now in \<open>auto simp: reader_ok_def fresh_entry_def\<close>)
next
  case (query_courses xs r ys s)
  then have r: "reader_ok oc ot st r" using ok by (simp add: cache_ok_def)
  show ?thesis unfolding query_courses(1)
    by (rule cache_ok_mono [OF ok])
       (use query_courses(2,3) r in \<open>auto simp: reader_ok_def fresh_entry_def\<close>, simp add: answers_def courses_answer_def)
next
  case (query_topics xs r ys c s a)
  then have r: "reader_ok oc ot st r" using ok by (simp add: cache_ok_def)
  show ?thesis unfolding query_topics(1)
    by (rule cache_ok_mono [OF ok]) (use query_topics(2-4) r in \<open>auto simp: reader_ok_def fresh_entry_def\<close>, simp add: answers_def)
next
  case (store xs r ys a wio now)
  let ?k = "query_key (rd_version r) (rd_tenant r) (rd_query r)"
  from store(2) ok have r: "reader_ok oc ot st r" by (simp add: cache_ok_def)
  have other: "?k \<noteq> version_key t" if "good_tenant t" for t
    using r that version_key_other unfolding reader_ok_def good_tenant_def by blast
  have f: "fresh_entry oc ot st' v t q b = fresh_entry oc ot st v t q b" if "good_tenant t" for v t q b
    unfolding store(1) fresh_entry_def using version_cong other [OF that]
    by (auto simp: cache_set_def get_cache_version_def cache_get_def)
  show ?thesis
  proof (rule cache_ok_mono [OF ok])
    show "kst_clock st \<le> kst_clock st'" unfolding store(1) by simp
    show "\<And>v t q a. good_tenant t \<Longrightarrow> v \<le> kst_clock st \<Longrightarrow> fresh_entry oc ot st v t q a \<Longrightarrow> fresh_entry oc ot st' v t q a" using f by simp
    show "\<And>x. x \<in> set (kst_readers st') \<Longrightarrow> x \<in> set (kst_readers st) \<or> reader_ok oc ot st' x" unfolding store(1) using store(2) by auto
    fix k b e assume k: "kst_cache st' k = Some (b, e)"
    have "entry_ok oc ot st' ?k a (Some (now + CATALOG_TTL_MS))"
      using r store(3) f [of "rd_tenant r"] store(1) unfolding entry_ok_def reader_ok_def
      by (intro disjI2 exI [of _ "rd_version r"] exI [of _ "rd_tenant r"] exI [of _ "rd_query r"]) simp
    with k show "kst_cache st k = Some (b, e) \<or> entry_ok oc ot st' k b e"
      unfolding store(1) by (auto simp: cache_set_def split: if_splits)
  qed
next
  case (gone xs r ys)
  show ?thesis unfolding gone(1)
    by (rule cache_ok_mono [OF ok]) (use gone(2) in \<open>auto simp: fresh_entry_def\<close>)
next
  case (toggle t i b)
  show ?thesis unfolding toggle(1)
    by (rule cache_ok_mono [OF ok]) (auto simp: fresh_entry_def elim!: answers_cong [THEN iffD2, rotated -1])
next
  case (sync dbOk body)
  show ?thesis unfolding sync(1) by (rule cache_ok_mono [OF ok]) (auto simp: fresh_entry_def)
next
  case (sync_recorded s)
  show ?thesis unfolding sync_recorded(1) by (rule cache_ok_mono [OF ok]) (auto simp: fresh_entry_def)
next
  case (bump t now wio)
  have v: "version st' u = (if u = t \<and> takes_effect wio then now else version st u)" for u
    unfolding bump(1) using version_key_inj
    by (auto simp: bump_cache_version_def cache_set_def get_cache_version_def cache_get_def)
  show ?thesis
  proof (rule cache_ok_mono [OF ok])
    show "kst_clock st \<le> kst_clock st'" unfolding bump(1) using bump(3) by simp
    show "\<And>x. x \<in> set (kst_readers st') \<Longrightarrow> x \<in> set (kst_readers st) \<or> reader_ok oc ot st' x" unfolding bump(1) by simp
    show "fresh_entry oc ot st' v u q a" if "v \<le> kst_clock st" "fresh_entry oc ot st v u q a" for v u q a
      using that bump(3) v [of u] unfolding fresh_entry_def bump(1) by (auto split: if_splits)
    fix k b e assume k: "kst_cache st' k = Some (b, e)"
    have "0 \<le> now" using ok bump(3) by (simp add: cache_ok_def)
    with k bump(2) show "kst_cache st k = Some (b, e) \<or> entry_ok oc ot st' k b e"
      unfolding bump(1) by (auto simp: bump_cache_version_def cache_set_def entry_ok_def split: if_splits)
  qed
next
  case (expired k a e)
  have "version_key t \<noteq> k" if "good_tenant t" for t
    using ok expired(2) version_key_other that unfolding cache_ok_def entry_ok_def good_tenant_def by (metis option.distinct(1))
  then have f: "fresh_entry oc ot st' v t q b" if "good_tenant t" "fresh_entry oc ot st v t q b" for v t q b
    using that by (intro fresh_cong [OF _ _ _ that(2)]) (auto simp: expired(1))
  show ?thesis
    by (rule cache_ok_mono [OF ok]) (use f in \<open>auto simp: expired(1) split: if_splits\<close>)
qed

lemma catalog_run_ok: "(cache_step oc ot)\<^sup>*\<^sup>* (no_requests g vis) st \<Longrightarrow> cache_ok oc ot st"
proof (induction rule: rtranclp_induct)
  case base
  show ?case by (simp add: cache_ok_def no_requests_def)
next
  case (step st st')
  then show ?case by (blast intro: step_ok)
qed

text \<open>
  C29. A catalogue read is never older than the last invalidation: whatever requests, synchronisations, toggles and bumps
  interleave, and whichever cache writes are lost, once the version of a tenant has been bumped after the last change of
  its data, every course list and topic list found in the cache is what the queries answer now.
\<close>

theorem catalog_reads_fresh:
  assumes "(cache_step oc ot)\<^sup>*\<^sup>* (no_requests g vis) st" and "good_tenant t" and "t \<notin> kst_pending st"
  shows "(query_ok (Q_Courses s) \<longrightarrow> (\<forall>r. snd (look_up_courses ReadOk rc now t s (kst_cache st)) = Some r \<longrightarrow>
      cr_courses r = get_courses_query oc s (kst_visibility st t) (kst_catalog st))) \<and>
    (query_ok (Q_Topics c s) \<longrightarrow> (\<forall>r. snd (look_up_topics ReadOk rc now t c s (kst_cache st)) = Some r \<longrightarrow>
      get_course_topics_query ot c s (kst_visibility st t) (kst_catalog st) = Inr r))"
proof -
  have ok: "cache_ok oc ot st" by (rule catalog_run_ok [OF assms(1)])
  note v = version_at [OF ok assms(2)]
  have hit: "answers oc ot st t q a" if "cache_get rc now (query_key (version st t) t q) (kst_cache st) = Some a" "query_ok q" for q a
  proof -
    from that(1) obtain e where "kst_cache st (query_key (version st t) t q) = Some (a, e)"
      by (auto simp: cache_get_def split: read_io.splits option.splits if_splits)
    with ok have e: "entry_ok oc ot st (query_key (version st t) t q) a e" by (simp add: cache_ok_def)
    have "query_key (version st t) t q \<noteq> version_key u" if "good_tenant u" for u
      using version_key_other [OF v(2)] assms(2) that \<open>query_ok q\<close> by (simp add: good_tenant_def)
    with e obtain v' t' q' where q': "good_tenant t'" "query_ok q'" "0 \<le> v'" "query_key (version st t) t q = query_key v' t' q'" "fresh_entry oc ot st v' t' q' a"
      unfolding entry_ok_def by blast
    with query_key_inj [OF q'(4) v(2) q'(3)] assms(2) that(2) have "fresh_entry oc ot st (version st t) t q a" unfolding good_tenant_def by metis
    with assms(3) show ?thesis by (simp add: fresh_entry_def)
  qed
  have "answers oc ot st t (Q_Courses s) (Cached_Courses r)" if "query_ok (Q_Courses s)" "snd (look_up_courses ReadOk rc now t s (kst_cache st)) = Some r" for r
    using that v(1) [of now] by (intro hit) (auto simp: look_up_courses_def Let_def split: option.splits cached_catalog.splits)
  moreover have "answers oc ot st t (Q_Topics c s) (Cached_Topics r)" if "query_ok (Q_Topics c s)" "snd (look_up_topics ReadOk rc now t c s (kst_cache st)) = Some r" for r
    using that v(1) [of now] by (intro hit) (auto simp: look_up_topics_def Let_def split: option.splits cached_catalog.splits)
  ultimately show ?thesis by (simp add: answers_def)
qed

definition sample_catalog :: catalog where
  "sample_catalog = \<lparr>cg_courses = [\<lparr>crs_id = ''1'', crs_name = ''Algebra''\<rparr>], cg_topics = [\<lparr>tpc_id = ''7'', tpc_courseId = ''1'', tpc_name = ''Ecuaciones''\<rparr>],
     cg_subtopics = []\<rparr>"

definition sample_hidden :: "topic_visibility list" where
  "sample_hidden = [\<lparr>tv_topicId = ''7'', tv_isActive = False\<rparr>]"

definition sample_state :: "catalog_cache \<Rightarrow> reader list \<Rightarrow> string set \<Rightarrow> millis \<Rightarrow> cache_system" where
  "sample_state m rs ps n = \<lparr>kst_catalog = sample_catalog, kst_visibility = (\<lambda>_. [])(''tenant_a'' := sample_hidden), kst_sync = None,
     kst_cache = m, kst_readers = rs, kst_pending = ps, kst_clock = n\<rparr>"

definition sample_versions :: catalog_cache where
  "sample_versions = [version_key ''tenant_a'' \<mapsto> (Cached_Version 5, None)]"

definition sample_reader :: "cached_catalog option \<Rightarrow> reader" where
  "sample_reader a = \<lparr>rd_tenant = ''tenant_a'', rd_query = Q_Courses None, rd_version = 5, rd_answer = a\<rparr>"

definition sample_answer :: courses_result where
  "sample_answer = courses_answer id None sample_hidden sample_catalog None"

definition sample_filled :: catalog_cache where
  "sample_filled = sample_versions(courses_key 5 ''tenant_a'' None \<mapsto> (Cached_Courses sample_answer, Some (7 + CATALOG_TTL_MS)))"

lemma sample_run: "(cache_step id id)\<^sup>*\<^sup>* (no_requests sample_catalog (\<lambda>_. [])) (sample_state sample_filled [] {} 5)"
proof -
  have seven: "to_bigint ''7'' = Some ''7''" by code_simp
  have good: "good_tenant ''tenant_a''" by (simp add: good_tenant_def)
  have 1: "cache_step id id (no_requests sample_catalog (\<lambda>_. [])) (sample_state Map.empty [] {''tenant_a''} 0)"
    using cache_step.toggle [of id id "no_requests sample_catalog (\<lambda>_. [])" "''tenant_a''" "''7''" False] seven
    by (simp add: no_requests_def sample_state_def sample_hidden_def update_topic_local_visibility_def upsert_row_def)
  have 2: "cache_step id id (sample_state Map.empty [] {''tenant_a''} 0) (sample_state sample_versions [] {} 5)"
    using cache_step.bump [OF good, of "sample_state Map.empty [] {''tenant_a''} 0" 5 id id WriteDone]
    by (simp add: sample_state_def sample_versions_def bump_cache_version_def cache_set_def)
  have 3: "cache_step id id (sample_state sample_versions [] {} 5) (sample_state sample_versions [sample_reader None] {} 5)"
    using cache_step.miss [OF good, of "Q_Courses None" id id "sample_state sample_versions [] {} 5" 6]
    by (simp add: sample_state_def sample_versions_def sample_reader_def get_cache_version_def cache_get_def)
  have 4: "cache_step id id (sample_state sample_versions [sample_reader None] {} 5) (sample_state sample_versions [sample_reader (Some (Cached_Courses sample_answer))] {} 5)"
    using cache_step.query_courses [of "sample_state sample_versions [sample_reader None] {} 5" "[]" "sample_reader None" "[]" None id id]
    by (simp add: sample_state_def sample_reader_def sample_answer_def)
  have 5: "cache_step id id (sample_state sample_versions [sample_reader (Some (Cached_Courses sample_answer))] {} 5) (sample_state sample_filled [] {} 5)"
    using cache_step.store [of "sample_state sample_versions [sample_reader (Some (Cached_Courses sample_answer))] {} 5" "[]"
        "sample_reader (Some (Cached_Courses sample_answer))" "[]" "Cached_Courses sample_answer" id id WriteDone 7]
    by (simp add: sample_state_def sample_reader_def sample_filled_def cache_set_def)
  show ?thesis using 1 2 3 4 5 by (meson rtranclp.rtrancl_into_rtrancl rtranclp.rtrancl_refl)
qed

text \<open>The topic is hidden, the version bumped, and the list read and cached: the cached list is the current one.\<close>

theorem catalog_reads_fresh_witness:
  "\<exists>r. snd (look_up_courses ReadOk ReadOk 9 ''tenant_a'' None sample_filled) = Some r \<and> cr_courses r = get_courses_query id None sample_hidden sample_catalog"
proof -
  have key: "courses_key 5 ''tenant_a'' None \<noteq> version_key ''tenant_a''"
    using version_key_other [of 5 "''tenant_a''" "''tenant_a''" "Q_Courses None"] by simp
  then have r: "snd (look_up_courses ReadOk ReadOk 9 ''tenant_a'' None sample_filled) = Some sample_answer"
    by (simp add: look_up_courses_def sample_filled_def sample_versions_def get_cache_version_def cache_get_def Let_def CATALOG_TTL_MS_def)
  have "good_tenant ''tenant_a''" "''tenant_a'' \<notin> kst_pending (sample_state sample_filled [] {} 5)"
    by (simp_all add: good_tenant_def sample_state_def)
  from catalog_reads_fresh [OF sample_run this, of None ReadOk 9 "''1''"] r show ?thesis by (simp add: sample_state_def)
qed

text \<open>
  Why the literal term \<open>all\<close> is excluded: its answer is stored under the key of the unfiltered list. And why the version
  has to be read: a failed read falls back to version 0, whose entries no bump retires.
\<close>

lemma all_shares_its_key: "courses_key v t (Some ''all'') = courses_key v t None"
  by (simp add: courses_key_def search_or_all_def)

lemma version_zero_reused:
  "look_up_courses ReadFails ReadOk now t s (bump_cache_version wio n t (store_courses WriteDone now (courses_key 0 t s) r m)) =
    (courses_key 0 t s, Some r)" if "courses_key 0 t s \<noteq> version_key t" "now = n"
  using that by (auto simp: look_up_courses_def get_cache_version_def cache_get_def bump_cache_version_def cache_set_def store_courses_def Let_def
      CATALOG_TTL_MS_def)

end
