(* ===== verification/Syllabus.thy ===== *)
theory Syllabus
  imports Planning
begin

text \<open>
  \<open>SyllabusUseCase\<close> (\<open>syllabus/syllabus.use-case.ts\<close>) over \<open>SyllabusRepositoryImpl\<close>
  (\<open>syllabus/repositories/syllabus.repository.ts\<close>), and the listener that marks weeks as generated
  (\<open>syllabus/listeners/material-generated.listener.ts\<close>). A repository call inside a use-case transaction
  reuses it, so a use case is one transaction body. Identifiers the database generates come from
  \<open>fresh\<close>, a supply indexed by a counter.
\<close>

definition WEEKLY_QUESTION_LIMIT :: int where
  "WEEKLY_QUESTION_LIMIT = 100"

subsection \<open>Repository: syllabuses\<close>

text \<open>The partial unique index over active rows: one active syllabus per cycle and course.\<close>

definition active_clash :: "syllabus \<Rightarrow> syllabus list \<Rightarrow> bool" where
  "active_clash s t \<longleftrightarrow> sy_isActive s \<and>
     list_ex (\<lambda>r. sy_isActive r \<and> sy_id r \<noteq> sy_id s \<and> sy_cycleId r = sy_cycleId s \<and> sy_courseId r = sy_courseId s) t"

definition insert_syllabus :: "syllabus \<Rightarrow> planning_db \<Rightarrow> planning_error + planning_db" where
  "insert_syllabus s db =
     (if sy_id s \<in> sy_id ` set (pd_syllabuses db) \<or> active_clash s (pd_syllabuses db) then Inl unique_violation
      else if sy_cycleId s \<notin> cy_id ` set (pd_cycles db) then Inl fk_violation
      else Inr (db\<lparr>pd_syllabuses := pd_syllabuses db @ [s]\<rparr>))"

definition create_syllabus_row :: "syllabus \<Rightarrow> syllabus ptx" where
  "create_syllabus_row s db =
     (case insert_syllabus s db of
        Inr db' \<Rightarrow> Inr (s, db')
      | Inl e \<Rightarrow> if e = unique_violation then Inl (Conflict SyllabusExists) else Inl e)"

definition find_syllabus_by_id :: "uuid \<Rightarrow> planning_db \<Rightarrow> syllabus option" where
  "find_syllabus_by_id i db = find_one (\<lambda>s. sy_id s = i \<and> sy_isActive s) (pd_syllabuses db)"

definition find_by_course_and_cycle :: "string \<Rightarrow> uuid \<Rightarrow> planning_db \<Rightarrow> syllabus option" where
  "find_by_course_and_cycle courseId cycleId db =
     find_one (\<lambda>s. sy_courseId s = courseId \<and> sy_cycleId s = cycleId \<and> sy_isActive s) (pd_syllabuses db)"

definition find_by_cycle :: "uuid \<Rightarrow> planning_db \<Rightarrow> syllabus list" where
  "find_by_cycle cycleId db = find_all (\<lambda>s. sy_cycleId s = cycleId) (pd_syllabuses db)"

definition set_template_row :: "uuid \<Rightarrow> uuid \<Rightarrow> planning_db \<Rightarrow> planning_error + planning_db" where
  "set_template_row syllabusId templateId db =
     (if list_ex (\<lambda>s. sy_id s = syllabusId) (pd_syllabuses db) \<and> templateId \<notin> tp_id ` set (pd_templates db)
      then Inl fk_violation
      else Inr (db\<lparr>pd_syllabuses := update_where (\<lambda>s. sy_id s = syllabusId)
             (\<lambda>s. s\<lparr>sy_templateId := Some templateId\<rparr>) (pd_syllabuses db)\<rparr>))"

definition update_visibility :: "uuid \<Rightarrow> bool \<Rightarrow> unit ptx" where
  "update_visibility i isActive db =
     (if list_ex (\<lambda>s. sy_id s = i \<and> active_clash (s\<lparr>sy_isActive := isActive\<rparr>) (pd_syllabuses db)) (pd_syllabuses db)
      then Inl (Conflict SyllabusActiveExists)
      else Inr ((), db\<lparr>pd_syllabuses := update_where (\<lambda>s. sy_id s = i)
             (\<lambda>s. s\<lparr>sy_isActive := isActive\<rparr>) (pd_syllabuses db)\<rparr>))"

definition deactivate_by_cycle_id :: "uuid \<Rightarrow> planning_db \<Rightarrow> planning_db" where
  "deactivate_by_cycle_id cycleId db =
     db\<lparr>pd_syllabuses := update_where (\<lambda>s. sy_cycleId s = cycleId) (\<lambda>s. s\<lparr>sy_isActive := False\<rparr>) (pd_syllabuses db)\<rparr>"

subsection \<open>Repository: distributions\<close>

text \<open>The cell a row occupies; the unique index compares absent templates as equal.\<close>

definition cell :: "distribution \<Rightarrow> uuid \<times> uuid option \<times> int \<times> string \<times> string" where
  "cell d = (sd_syllabusId d, sd_templateId d, sd_weekNumber d, sd_topicId d, sd_subtopicId d)"

definition insert_distribution :: "distribution \<Rightarrow> planning_db \<Rightarrow> planning_error + planning_db" where
  "insert_distribution d db =
     (if sd_questionCount d \<le> 0 then Inl check_violation
      else if sd_id d \<in> sd_id ` set (pd_distributions db) \<or> cell d \<in> cell ` set (pd_distributions db)
      then Inl unique_violation
      else if sd_syllabusId d \<notin> sy_id ` set (pd_syllabuses db) \<or>
         (\<exists>t. sd_templateId d = Some t \<and> t \<notin> tp_id ` set (pd_templates db)) then Inl fk_violation
      else Inr (db\<lparr>pd_distributions := pd_distributions db @ [d]\<rparr>))"

text \<open>
  The insert of one cell. On a unique violation the code reads the existing row and overwrites its
  quantity; \<open>survives\<close> says whether the transaction is still usable after the failed insert (it is
  only when the insert ran under a savepoint).
\<close>

definition create_distribution :: "bool \<Rightarrow> distribution \<Rightarrow> distribution ptx" where
  "create_distribution survives d db =
     (case insert_distribution d db of
        Inr db' \<Rightarrow> Inr (d, db')
      | Inl e \<Rightarrow>
          if e \<noteq> unique_violation then Inl e
          else if \<not> survives then Inl aborted_transaction
          else (case find_one (\<lambda>r. cell r = cell d) (pd_distributions db) of
                  None \<Rightarrow> Inl e
                | Some existing \<Rightarrow>
                    Inr (existing\<lparr>sd_questionCount := sd_questionCount d\<rparr>,
                      db\<lparr>pd_distributions := update_where (\<lambda>r. sd_id r = sd_id existing)
                           (\<lambda>r. r\<lparr>sd_questionCount := sd_questionCount d\<rparr>) (pd_distributions db)\<rparr>)))"

definition get_distribution_by_id :: "uuid \<Rightarrow> uuid \<Rightarrow> planning_db \<Rightarrow> distribution option" where
  "get_distribution_by_id i syllabusId db =
     find_one (\<lambda>d. sd_id d = i \<and> sd_syllabusId d = syllabusId) (pd_distributions db)"

definition sum_week_question_count :: "uuid \<Rightarrow> int \<Rightarrow> uuid option \<Rightarrow> planning_db \<Rightarrow> int" where
  "sum_week_question_count syllabusId weekNumber excludeDistId db =
     sum_of sd_questionCount (find_all (\<lambda>d. sd_syllabusId d = syllabusId \<and> sd_weekNumber d = weekNumber \<and>
        (excludeDistId = None \<or> Some (sd_id d) \<noteq> excludeDistId)) (pd_distributions db))"

definition update_quantity_row :: "uuid \<Rightarrow> uuid \<Rightarrow> int \<Rightarrow> unit ptx" where
  "update_quantity_row i syllabusId questionCount db =
     (let p = (\<lambda>d. sd_id d = i \<and> sd_syllabusId d = syllabusId) in
      if affected p (pd_distributions db) = 0 then Inl (NotFound DistributionNotFound)
      else if questionCount \<le> 0 then Inl check_violation
      else Inr ((), db\<lparr>pd_distributions := update_where p (\<lambda>d. d\<lparr>sd_questionCount := questionCount\<rparr>) (pd_distributions db)\<rparr>))"

definition delete_distribution :: "uuid \<Rightarrow> uuid \<Rightarrow> unit ptx" where
  "delete_distribution i syllabusId db =
     (let p = (\<lambda>d. sd_id d = i \<and> sd_syllabusId d = syllabusId) in
      if affected p (pd_distributions db) = 0 then Inl (NotFound DistributionNotFound)
      else Inr ((), db\<lparr>pd_distributions := delete_where p (pd_distributions db)\<rparr>))"

definition bulk_create_distributions :: "distribution list \<Rightarrow> planning_db \<Rightarrow> planning_error + planning_db" where
  "bulk_create_distributions ds db = tx_fold insert_distribution ds db"

definition bulk_delete_by_syllabus :: "uuid \<Rightarrow> planning_db \<Rightarrow> planning_db" where
  "bulk_delete_by_syllabus syllabusId db =
     db\<lparr>pd_distributions := delete_where (\<lambda>d. sd_syllabusId d = syllabusId) (pd_distributions db)\<rparr>"

definition get_summary_by_syllabus :: "uuid \<Rightarrow> string option \<Rightarrow> planning_db \<Rightarrow> distribution list" where
  "get_summary_by_syllabus syllabusId templateId db =
     find_all (\<lambda>d. sd_syllabusId d = syllabusId \<and> (truthy_str templateId \<longrightarrow> sd_templateId d = templateId)) (pd_distributions db)"

definition find_generated_weeks :: "uuid \<Rightarrow> planning_db \<Rightarrow> int list" where
  "find_generated_weeks syllabusId db =
     js_unique (map sd_weekNumber (find_all (\<lambda>d. sd_syllabusId d = syllabusId \<and> sd_isGenerated d) (pd_distributions db)))"

record syllabus_with_progress =
  sp_syllabus :: syllabus
  sp_totalWeeks :: int
  sp_filledWeeks :: "int list"
  sp_templateProgress :: "(uuid option \<times> int list) list"

text \<open>\<open>array_agg(DISTINCT week_number)\<close>: the distinct values in order.\<close>

definition distinct_weeks :: "distribution list \<Rightarrow> int list" where
  "distinct_weeks ds = sort (js_unique (map sd_weekNumber ds))"

definition find_by_cycle_with_progress :: "uuid \<Rightarrow> planning_db \<Rightarrow> syllabus_with_progress list" where
  "find_by_cycle_with_progress cycleId db =
     map (\<lambda>s. let ds = find_all (\<lambda>d. sd_syllabusId d = sy_id s) (pd_distributions db) in
        \<lparr>sp_syllabus = s,
         sp_totalWeeks = (case find_one (\<lambda>c. cy_id c = sy_cycleId s) (pd_cycles db) of None \<Rightarrow> 0 | Some c \<Rightarrow> cy_totalWeeks c),
         sp_filledWeeks = distinct_weeks ds,
         sp_templateProgress = map (\<lambda>t. (t, distinct_weeks (find_all (\<lambda>d. sd_templateId d = t) ds))) (js_unique (map sd_templateId ds))\<rparr>)
       (find_by_cycle cycleId db)"

subsection \<open>Use case: single cells\<close>

definition create_syllabus :: "(string \<Rightarrow> bool) \<Rightarrow> uuid \<Rightarrow> string \<Rightarrow> uuid \<Rightarrow> syllabus ptx" where
  "create_syllabus courseExists newId courseId cycleId db =
     (if \<not> courseExists courseId then Inl (NotFound (CourseNotVisible courseId))
      else if find_by_course_and_cycle courseId cycleId db \<noteq> None then Inl (Conflict SyllabusExists)
      else create_syllabus_row \<lparr>sy_id = newId, sy_cycleId = cycleId, sy_courseId = courseId,
             sy_name = ''Nuevo S'' @ CHR 0xED # ''labo'', sy_templateId = None, sy_isActive = True\<rparr> db)"

record create_distribution_dto =
  cd_weekNumber :: int
  cd_topicId :: string
  cd_subtopicId :: string
  cd_questionCount :: int
  cd_templateId :: "string option"

definition add_distribution :: "bool \<Rightarrow> uuid \<Rightarrow> uuid \<Rightarrow> create_distribution_dto \<Rightarrow> distribution ptx" where
  "add_distribution survives newId syllabusId dto db =
     (let currentSum = sum_week_question_count syllabusId (cd_weekNumber dto) None db in
      if currentSum + cd_questionCount dto > WEEKLY_QUESTION_LIMIT
      then Inl (BadRequest (WeekOverLimit (cd_weekNumber dto) currentSum (cd_questionCount dto)))
      else create_distribution survives
        \<lparr>sd_id = newId, sd_syllabusId = syllabusId,
         sd_templateId = (if truthy_str (cd_templateId dto) then cd_templateId dto else None),
         sd_weekNumber = cd_weekNumber dto, sd_topicId = cd_topicId dto, sd_subtopicId = cd_subtopicId dto,
         sd_questionCount = cd_questionCount dto, sd_isGenerated = False\<rparr> db)"

definition update_distribution_quantity :: "uuid \<Rightarrow> uuid \<Rightarrow> int \<Rightarrow> unit ptx" where
  "update_distribution_quantity distId syllabusId questionCount db =
     (case get_distribution_by_id distId syllabusId db of
        None \<Rightarrow> update_quantity_row distId syllabusId questionCount db
      | Some d \<Rightarrow>
          let otherCellsSum = sum_week_question_count syllabusId (sd_weekNumber d) (Some distId) db in
          if otherCellsSum + questionCount > WEEKLY_QUESTION_LIMIT
          then Inl (BadRequest (WeekOverLimit (sd_weekNumber d) otherCellsSum questionCount))
          else update_quantity_row distId syllabusId questionCount db)"

record syllabus_summary =
  ss_totalQuestions :: int
  ss_weeklyQuestions :: "int \<rightharpoonup> int"
  ss_topicQuestions :: "string \<rightharpoonup> int"
  ss_distributions :: "distribution list"
  ss_generatedWeeks :: "int list"

definition add_to_summary :: "distribution \<Rightarrow> syllabus_summary \<Rightarrow> syllabus_summary" where
  "add_to_summary d s =
     s\<lparr>ss_totalQuestions := ss_totalQuestions s + sd_questionCount d,
       ss_weeklyQuestions := (ss_weeklyQuestions s)(sd_weekNumber d \<mapsto> nullish (ss_weeklyQuestions s (sd_weekNumber d)) 0 + sd_questionCount d),
       ss_topicQuestions := (ss_topicQuestions s)(sd_topicId d \<mapsto> nullish (ss_topicQuestions s (sd_topicId d)) 0 + sd_questionCount d)\<rparr>"

definition get_summary :: "uuid \<Rightarrow> string option \<Rightarrow> planning_db \<Rightarrow> syllabus_summary" where
  "get_summary syllabusId templateId db =
     (let distributions = get_summary_by_syllabus syllabusId templateId db in
      fold add_to_summary distributions
        \<lparr>ss_totalQuestions = 0, ss_weeklyQuestions = Map.empty, ss_topicQuestions = Map.empty,
         ss_distributions = distributions, ss_generatedWeeks = find_generated_weeks syllabusId db\<rparr>)"

subsection \<open>Use case: cloning\<close>

text \<open>\<open>templateMap\<close>: an absent key is \<open>undefined\<close>, a present one holds a template id or null.\<close>

type_synonym template_map = "uuid \<rightharpoonup> uuid option"

definition templates_by_cycle :: "uuid \<Rightarrow> planning_db \<Rightarrow> material_template list" where
  "templates_by_cycle cycleId db = find_all (\<lambda>t. tp_cycleId t = cycleId) (pd_templates db)"

definition normalized_name :: "material_template \<Rightarrow> string" where
  "normalized_name t = to_lower (js_trim (tp_name t))"

text \<open>One step of \<open>referencedTemplateIds.forEach\<close>: extends the map or the list of missing names.\<close>

definition map_template ::
  "material_template list \<Rightarrow> material_template list \<Rightarrow> uuid \<Rightarrow> template_map \<times> string list \<Rightarrow> template_map \<times> string list" where
  "map_template sourceTemplates targetTemplates srcTempId acc =
     (case acc of (m, missing) \<Rightarrow>
      case find_one (\<lambda>t. tp_id t = srcTempId) sourceTemplates of
        None \<Rightarrow> (m, missing)
      | Some srcTemplate \<Rightarrow>
          (case find_one (\<lambda>t. normalized_name t = normalized_name srcTemplate) targetTemplates of
             Some match \<Rightarrow> (m(srcTempId \<mapsto> Some (tp_id match)), missing)
           | None \<Rightarrow> (m, missing @ [tp_name srcTemplate])))"

definition referenced_template_ids :: "syllabus \<Rightarrow> distribution list \<Rightarrow> uuid list" where
  "referenced_template_ids source ds =
     js_unique (filter (\<lambda>t. t \<noteq> []) (map (\<lambda>t. nullish t []) (sy_templateId source # map sd_templateId ds)))"

definition build_template_mapping ::
  "syllabus \<Rightarrow> syllabus \<Rightarrow> distribution list \<Rightarrow> planning_db \<Rightarrow> planning_error + template_map" where
  "build_template_mapping source target ds db =
     (if sy_cycleId source = sy_cycleId target then Inr Map.empty
      else let ids = referenced_template_ids source ds in
      if ids = [] then Inr Map.empty
      else let sourceTemplates = templates_by_cycle (sy_cycleId source) db;
               targetTemplates = templates_by_cycle (sy_cycleId target) db in
      if targetTemplates = [] then Inr (fold (\<lambda>i m. m(i \<mapsto> None)) ids Map.empty)
      else case fold (map_template sourceTemplates targetTemplates) ids (Map.empty, []) of
        (m, missing) \<Rightarrow> if missing \<noteq> [] then Inl (BadRequest (MissingTemplates missing)) else Inr m)"

text \<open>The copy of one source row, or nothing when its week is inactive or its template has no counterpart.\<close>

definition clone_template :: "bool \<Rightarrow> template_map \<Rightarrow> uuid option \<Rightarrow> uuid option" where
  "clone_template sameCycle m templateId =
     (if truthy_str templateId
      then (case m (the templateId) of Some t \<Rightarrow> t | None \<Rightarrow> if sameCycle then templateId else None)
      else templateId)"

definition clone_row ::
  "uuid \<Rightarrow> int list \<Rightarrow> bool \<Rightarrow> template_map \<Rightarrow> distribution \<Rightarrow> distribution option" where
  "clone_row syllabusId activeWeeks sameCycle m d =
     (if sd_weekNumber d \<notin> set activeWeeks then None
      else let t = clone_template sameCycle m (sd_templateId d) in
      if t = None \<and> truthy_str (sd_templateId d) then None
      else Some (d\<lparr>sd_syllabusId := syllabusId, sd_templateId := t, sd_isGenerated := False\<rparr>))"

definition week_sums :: "distribution list \<Rightarrow> (int, int) js_map" where
  "week_sums ds = fold (\<lambda>d m. js_map_set (sd_weekNumber d) (nullish (map_of m (sd_weekNumber d)) 0 + sd_questionCount d) m) ds []"

definition offending_weeks :: "distribution list \<Rightarrow> int list" where
  "offending_weeks ds = sort (map fst (filter (\<lambda>(w, s). s > WEEKLY_QUESTION_LIMIT) (week_sums ds)))"

text \<open>\<open>number_rows\<close> gives the new rows the ids the database generates.\<close>

definition number_rows :: "(nat \<Rightarrow> uuid) \<Rightarrow> nat \<Rightarrow> distribution list \<Rightarrow> distribution list" where
  "number_rows fresh k ds = map (\<lambda>(i, d). d\<lparr>sd_id := fresh (k + i)\<rparr>) (enumerate 0 ds)"

definition copy_distributions ::
  "(nat \<Rightarrow> uuid) \<Rightarrow> nat \<Rightarrow> uuid \<Rightarrow> distribution list \<Rightarrow> int list \<Rightarrow> bool \<Rightarrow> template_map \<Rightarrow> planning_db
    \<Rightarrow> planning_error + planning_db" where
  "copy_distributions fresh k syllabusId sourceDistributions activeWeeks sameCycle m db =
     (let new = List.map_filter (clone_row syllabusId activeWeeks sameCycle m) sourceDistributions;
          over = offending_weeks new
      in if over \<noteq> [] then Inl (BadRequest (CloneOverLimit over))
         else if new = [] then Inr db
         else bulk_create_distributions (number_rows fresh k new) db)"

definition set_default_template ::
  "uuid \<Rightarrow> syllabus \<Rightarrow> syllabus \<Rightarrow> template_map \<Rightarrow> planning_db \<Rightarrow> planning_error + planning_db" where
  "set_default_template syllabusId source target m db =
     (if \<not> truthy_str (sy_templateId source) then Inr db
      else let t = (if sy_cycleId source = sy_cycleId target then sy_templateId source
                    else (case m (the (sy_templateId source)) of Some (Some x) \<Rightarrow> Some x | _ \<Rightarrow> None)) in
      if truthy_str t then set_template_row syllabusId (the t) db else Inr db)"

definition get_active_week_numbers :: "uuid \<Rightarrow> planning_db \<Rightarrow> int list" where
  "get_active_week_numbers cycleId db =
     sort (map cw_weekNumber (find_all (\<lambda>w. cw_cycleId w = cycleId \<and> cw_isActive w \<and> cw_deletedAt w = None) (pd_weeks db)))"

definition clone_syllabus ::
  "(nat \<Rightarrow> uuid) \<Rightarrow> nat \<Rightarrow> uuid \<Rightarrow> uuid \<Rightarrow> int list option \<Rightarrow> syllabus_summary ptx" where
  "clone_syllabus fresh k syllabusId sourceSyllabusId targetActiveWeeks db =
     (case find_syllabus_by_id syllabusId db of
        None \<Rightarrow> Inl (BadRequest TargetSyllabusNotFound)
      | Some target \<Rightarrow>
     (case find_syllabus_by_id sourceSyllabusId db of
        None \<Rightarrow> Inl (BadRequest SourceSyllabusNotFound)
      | Some source \<Rightarrow>
        let activeWeeks = nullish targetActiveWeeks (get_active_week_numbers (sy_cycleId target) db);
            ds = get_summary_by_syllabus sourceSyllabusId None db
        in (case build_template_mapping source target ds db of Inl e \<Rightarrow> Inl e | Inr m \<Rightarrow>
           (case copy_distributions fresh k syllabusId ds activeWeeks (sy_cycleId source = sy_cycleId target) m
                   (bulk_delete_by_syllabus syllabusId db) of Inl e \<Rightarrow> Inl e | Inr db1 \<Rightarrow>
           (case set_default_template syllabusId source target m db1 of Inl e \<Rightarrow> Inl e | Inr db2 \<Rightarrow>
              Inr (get_summary syllabusId None db2, db2))))))"

text \<open>\<open>new Map(existingTargets.map(s => [s.courseId, s]))\<close>: a later row replaces an earlier one.\<close>

definition target_map :: "syllabus list \<Rightarrow> string \<rightharpoonup> syllabus" where
  "target_map existing = fold (\<lambda>s m. m(sy_courseId s \<mapsto> s)) existing Map.empty"

definition clone_into_cycle ::
  "(nat \<Rightarrow> uuid) \<Rightarrow> uuid \<Rightarrow> int list \<Rightarrow> (string \<rightharpoonup> syllabus) \<Rightarrow> syllabus \<Rightarrow> nat \<times> planning_db
    \<Rightarrow> planning_error + nat \<times> planning_db" where
  "clone_into_cycle fresh targetCycleId activeWeeks existing source st =
     (case st of (k, db) \<Rightarrow>
      let n = k + 1 + length (pd_distributions db) in
      case existing (sy_courseId source) of
        Some t \<Rightarrow>
          (case clone_syllabus fresh (k + 1) (sy_id t) (sy_id source) (Some activeWeeks) db of
             Inl e \<Rightarrow> Inl e | Inr (_, db') \<Rightarrow> Inr (n, db'))
      | None \<Rightarrow>
          (case create_syllabus_row \<lparr>sy_id = fresh k, sy_cycleId = targetCycleId, sy_courseId = sy_courseId source,
                  sy_name = sy_name source, sy_templateId = None, sy_isActive = True\<rparr> db of
             Inl e \<Rightarrow> Inl e
           | Inr (s, db1) \<Rightarrow>
               (case clone_syllabus fresh (k + 1) (sy_id s) (sy_id source) (Some activeWeeks) db1 of
                  Inl e \<Rightarrow> Inl e | Inr (_, db') \<Rightarrow> Inr (n, db'))))"

definition clone_cycle_syllabuses :: "(nat \<Rightarrow> uuid) \<Rightarrow> uuid \<Rightarrow> uuid \<Rightarrow> nat ptx" where
  "clone_cycle_syllabuses fresh targetCycleId sourceCycleId db =
     (let sources = find_by_cycle sourceCycleId db in
      if sources = [] then Inl (BadRequest SourceCycleEmpty)
      else case tx_fold (clone_into_cycle fresh targetCycleId (get_active_week_numbers targetCycleId db)
                           (target_map (find_by_cycle targetCycleId db))) sources (0, db) of
        Inl e \<Rightarrow> Inl e
      | Inr (_, db') \<Rightarrow> Inr (length sources, db'))"

subsection \<open>The listener\<close>

record generated_event =
  ge_cycleId :: uuid
  ge_courseId :: string
  ge_weekNumber :: int

definition mark_week_generated :: "generated_event \<Rightarrow> bool ptx" where
  "mark_week_generated event db =
     (case find_one (\<lambda>s. sy_cycleId s = ge_cycleId event \<and> sy_courseId s = ge_courseId event) (pd_syllabuses db) of
        None \<Rightarrow> Inr (False, db)
      | Some s \<Rightarrow>
          let p = (\<lambda>d. sd_syllabusId d = sy_id s \<and> sd_weekNumber d = ge_weekNumber event) in
          Inr (affected p (pd_distributions db) > 0,
               db\<lparr>pd_distributions := update_where p (\<lambda>d. d\<lparr>sd_isGenerated := True\<rparr>) (pd_distributions db)\<rparr>))"

definition MAX_ATTEMPTS :: nat where
  "MAX_ATTEMPTS = 3"

text \<open>
  The retry loop: \<open>fails k\<close> says whether the database rejects the \<open>k\<close>-th attempt. The second component
  counts the attempts made.
\<close>

fun handle_from :: "nat \<Rightarrow> (nat \<Rightarrow> bool) \<Rightarrow> nat \<Rightarrow> generated_event \<Rightarrow> planning_db \<Rightarrow> nat \<times> planning_db" where
  "handle_from attempt fails 0 event db = (attempt - 1, db)"
| "handle_from attempt fails (Suc left) event db =
     (if fails attempt then handle_from (Suc attempt) fails left event db
      else (attempt, snd (run_tx (mark_week_generated event) db)))"

definition handle_material_generated_event :: "(nat \<Rightarrow> bool) \<Rightarrow> generated_event \<Rightarrow> planning_db \<Rightarrow> nat \<times> planning_db" where
  "handle_material_generated_event fails event db = handle_from 1 fails MAX_ATTEMPTS event db"

end
