(* ===== verification/SyllabusLaws.thy ===== *)
theory SyllabusLaws
  imports Syllabus
begin

text \<open>
  What the syllabus operations guarantee: the weekly question limit, the uniqueness the indexes stand for,
  the faithfulness of a clone, and the outcome of writing an occupied cell. The invariants are kept by
  every run of commands (\<open>invariant_system\<close>).
\<close>

subsection \<open>Weekly totals\<close>

definition in_week :: "uuid \<Rightarrow> int \<Rightarrow> distribution \<Rightarrow> bool" where
  "in_week sid w d \<longleftrightarrow> sd_syllabusId d = sid \<and> sd_weekNumber d = w"

definition week_total :: "uuid \<Rightarrow> int \<Rightarrow> distribution list \<Rightarrow> int" where
  "week_total sid w ds = sum_of sd_questionCount (filter (in_week sid w) ds)"

lemma week_total_simps [simp]:
  "week_total sid w [] = 0"
  "week_total sid w (d # ds) = (if in_week sid w d then sd_questionCount d else 0) + week_total sid w ds"
  "week_total sid w (ds @ es) = week_total sid w ds + week_total sid w es"
  by (simp_all add: week_total_def)

lemma sum_week_all: "sum_week_question_count sid w None db = week_total sid w (pd_distributions db)"
  by (simp add: sum_week_question_count_def week_total_def find_all_def in_week_def [abs_def])

lemma sum_week_except:
  "sum_week_question_count sid w (Some i) db = week_total sid w (filter (\<lambda>d. sd_id d \<noteq> i) (pd_distributions db))"
  by (simp add: sum_week_question_count_def week_total_def find_all_def in_week_def [abs_def] conj_commute conj_left_commute)

lemma week_total_nonneg: "\<forall>d\<in>set ds. 0 < sd_questionCount d \<Longrightarrow> 0 \<le> week_total sid w ds"
  unfolding week_total_def by (rule sum_of_nonneg) auto

text \<open>Replacing the quantity of the row with id \<open>i\<close>.\<close>

definition set_count :: "int \<Rightarrow> distribution \<Rightarrow> distribution" where
  "set_count q d = d\<lparr>sd_questionCount := q\<rparr>"

lemma set_count_simps [simp]:
  "sd_id (set_count q d) = sd_id d" "cell (set_count q d) = cell d" "in_week sid w (set_count q d) = in_week sid w d"
  "sd_questionCount (set_count q d) = q" "sd_syllabusId (set_count q d) = sd_syllabusId d"
  by (simp_all add: set_count_def cell_def in_week_def)

lemma update_where_Cons: "update_where p f (x # t) = (if p x then f x else x) # update_where p f t"
  by (simp add: update_where_def)

lemma week_total_update:
  assumes "distinct (map sd_id ds)" and "d \<in> set ds" and "p d"
    and "\<And>e. p e \<Longrightarrow> sd_id e = sd_id d"
  shows "week_total sid w (update_where p (set_count q) ds) =
    (if in_week sid w d then q else 0) + week_total sid w (filter (\<lambda>e. sd_id e \<noteq> sd_id d) ds)"
  using assms
proof (induction ds)
  case Nil
  from Nil.prems(2) show ?case by simp
next
  case (Cons e ds)
  show ?case
  proof (cases "sd_id e = sd_id d")
    case True
    with Cons.prems(1,2) have "e = d" by (auto simp: image_iff)
    with Cons.prems(1) have "sd_id d \<notin> sd_id ` set ds" by simp
    then have "\<forall>x\<in>set ds. sd_id x \<noteq> sd_id d" by (metis imageI)
    moreover from this Cons.prems(4) have "update_where p (set_count q) ds = ds"
      unfolding update_where_def by (intro map_idI) metis
    ultimately have "update_where p (set_count q) ds = ds" "filter (\<lambda>e. sd_id e \<noteq> sd_id d) ds = ds"
      by (auto intro: filter_True)
    with Cons.prems(3) \<open>e = d\<close> show ?thesis by (simp add: update_where_Cons)
  next
    case False
    with Cons.prems(4) have np: "\<not> p e" by metis
    from False Cons.prems(1,2) have "distinct (map sd_id ds)" "d \<in> set ds" by auto
    from Cons.IH [OF this Cons.prems(3,4)] np False show ?thesis by (simp add: update_where_Cons)
  qed
qed

lemma week_total_except:
  "distinct (map sd_id ds) \<Longrightarrow> d \<in> set ds \<Longrightarrow>
   week_total sid w ds = (if in_week sid w d then sd_questionCount d else 0) + week_total sid w (filter (\<lambda>e. sd_id e \<noteq> sd_id d) ds)"
proof (induction ds)
  case (Cons e ds)
  show ?case
  proof (cases "sd_id e = sd_id d")
    case True
    with Cons.prems(1,2) have "e = d" by (auto simp: image_iff)
    with Cons.prems(1) have "sd_id d \<notin> sd_id ` set ds" by simp
    then have "filter (\<lambda>e. sd_id e \<noteq> sd_id d) ds = ds" by (intro filter_True) (metis imageI)
    with \<open>e = d\<close> show ?thesis by simp
  next
    case False
    with Cons show ?thesis by auto
  qed
qed simp

lemma week_total_delete:
  "\<forall>d\<in>set ds. 0 < sd_questionCount d \<Longrightarrow> week_total sid w (delete_where p ds) \<le> week_total sid w ds"
  by (induction ds) (auto simp: delete_where_def)

subsection \<open>The clone's batch check\<close>

lemma distinct_week_sums: "distinct (map fst (week_sums ds))"
proof -
  have "distinct (map fst m) \<Longrightarrow> distinct (map fst (fold (\<lambda>d m. js_map_set (sd_weekNumber d)
      (nullish (map_of m (sd_weekNumber d)) 0 + sd_questionCount d) m) ds m))" for m
    by (induction ds arbitrary: m) (simp_all add: distinct_js_map_set)
  then show ?thesis by (simp add: week_sums_def)
qed

lemma map_of_week_sums:
  "nullish (map_of (week_sums ds) w) 0 = sum_of sd_questionCount (filter (\<lambda>d. sd_weekNumber d = w) ds)"
proof -
  have "nullish (map_of (fold (\<lambda>d m. js_map_set (sd_weekNumber d)
      (nullish (map_of m (sd_weekNumber d)) 0 + sd_questionCount d) m) ds m) w) 0 =
    nullish (map_of m w) 0 + sum_of sd_questionCount (filter (\<lambda>d. sd_weekNumber d = w) ds)" for m
    by (induction ds arbitrary: m) (simp_all add: map_of_js_map_set)
  then show ?thesis by (simp add: week_sums_def)
qed

lemma offending_weeks_iff:
  "offending_weeks ds = [] \<longleftrightarrow> (\<forall>w. sum_of sd_questionCount (filter (\<lambda>d. sd_weekNumber d = w) ds) \<le> WEEKLY_QUESTION_LIMIT)"
proof -
  have "offending_weeks ds = [] \<longleftrightarrow> (\<forall>(w, s)\<in>set (week_sums ds). s \<le> WEEKLY_QUESTION_LIMIT)"
    by (auto simp: offending_weeks_def filter_empty_conv not_less simp flip: length_0_conv [of "sort _"])
  also have "\<dots> \<longleftrightarrow> (\<forall>w. nullish (map_of (week_sums ds) w) 0 \<le> WEEKLY_QUESTION_LIMIT)"
  proof
    assume a: "\<forall>(w, s)\<in>set (week_sums ds). s \<le> WEEKLY_QUESTION_LIMIT"
    show "\<forall>w. nullish (map_of (week_sums ds) w) 0 \<le> WEEKLY_QUESTION_LIMIT"
    proof
      fix w
      show "nullish (map_of (week_sums ds) w) 0 \<le> WEEKLY_QUESTION_LIMIT"
        using a by (cases "map_of (week_sums ds) w") (auto simp: WEEKLY_QUESTION_LIMIT_def dest: map_of_SomeD)
    qed
  next
    assume a: "\<forall>w. nullish (map_of (week_sums ds) w) 0 \<le> WEEKLY_QUESTION_LIMIT"
    show "\<forall>(w, s)\<in>set (week_sums ds). s \<le> WEEKLY_QUESTION_LIMIT"
    proof (clarify)
      fix w s assume "(w, s) \<in> set (week_sums ds)"
      with distinct_week_sums have "map_of (week_sums ds) w = Some s" by simp
      with a show "s \<le> WEEKLY_QUESTION_LIMIT" by (metis nullish_simps(2))
    qed
  qed
  finally show ?thesis by (simp add: map_of_week_sums)
qed

subsection \<open>The two invariants\<close>

text \<open>What the keys and checks of the distribution table stand for, and the weekly limit.\<close>

definition cells_ok :: "distribution list \<Rightarrow> bool" where
  "cells_ok ds \<longleftrightarrow> distinct (map sd_id ds) \<and> distinct (map cell ds) \<and> (\<forall>d\<in>set ds. 0 < sd_questionCount d)"

definition weeks_ok :: "distribution list \<Rightarrow> bool" where
  "weeks_ok ds \<longleftrightarrow> (\<forall>sid w. week_total sid w ds \<le> WEEKLY_QUESTION_LIMIT)"

text \<open>Unique ids, and one active syllabus per cycle and course.\<close>

definition actives_ok :: "syllabus list \<Rightarrow> bool" where
  "actives_ok t \<longleftrightarrow> distinct (map sy_id t) \<and>
     (\<forall>s\<in>set t. \<forall>r\<in>set t. sy_isActive s \<longrightarrow> sy_isActive r \<longrightarrow> sy_cycleId s = sy_cycleId r \<longrightarrow>
        sy_courseId s = sy_courseId r \<longrightarrow> s = r)"

definition plan_ok :: "planning_db \<Rightarrow> bool" where
  "plan_ok db \<longleftrightarrow> cells_ok (pd_distributions db) \<and> weeks_ok (pd_distributions db) \<and> actives_ok (pd_syllabuses db)"

lemma cells_insert:
  assumes "insert_distribution d db = Inr db'" and "cells_ok (pd_distributions db)"
  shows "cells_ok (pd_distributions db')"
  using assms by (auto simp: insert_distribution_def cells_ok_def split: if_splits)

lemma insert_distribution_Inr:
  "insert_distribution d db = Inr db' \<Longrightarrow> db' = db\<lparr>pd_distributions := pd_distributions db @ [d]\<rparr> \<and> 0 < sd_questionCount d"
  by (auto simp: insert_distribution_def split: if_splits)

lemma bulk_create_Inr:
  "bulk_create_distributions ds db = Inr db' \<Longrightarrow> db' = db\<lparr>pd_distributions := pd_distributions db @ ds\<rparr>"
  unfolding bulk_create_distributions_def
proof (induction ds arbitrary: db)
  case (Cons d ds)
  then obtain db1 where 1: "insert_distribution d db = Inr db1" "tx_fold insert_distribution ds db1 = Inr db'"
    by (auto split: sum.splits)
  with Cons.IH [OF 1(2)] insert_distribution_Inr [OF 1(1)] show ?case by simp
qed simp

lemma bulk_create_cells:
  "bulk_create_distributions ds db = Inr db' \<Longrightarrow> cells_ok (pd_distributions db) \<Longrightarrow> cells_ok (pd_distributions db')"
  unfolding bulk_create_distributions_def
  by (rule tx_fold_inv [where I = "\<lambda>db. cells_ok (pd_distributions db)"]) (auto intro: cells_insert)

lemma update_count_as_set_count: "(\<lambda>r. r\<lparr>sd_questionCount := q\<rparr>) = set_count q"
  by (simp add: set_count_def [abs_def])

lemma cells_update:
  assumes "cells_ok ds" and "0 < q"
  shows "cells_ok (update_where p (set_count q) ds)"
proof -
  have "map sd_id (update_where p (set_count q) ds) = map sd_id ds" "map cell (update_where p (set_count q) ds) = map cell ds"
    by (rule map_update_where_key; simp)+
  with assms show ?thesis by (auto simp: cells_ok_def table_simps)
qed

lemma cells_delete: "cells_ok ds \<Longrightarrow> cells_ok (delete_where p ds)"
  by (auto simp: cells_ok_def table_simps distinct_map_delete_where)

lemma weeks_update:
  assumes "cells_ok ds" and "weeks_ok ds" and "d \<in> set ds" and "p d" and "\<And>e. p e \<Longrightarrow> sd_id e = sd_id d"
    and "q + week_total (sd_syllabusId d) (sd_weekNumber d) (filter (\<lambda>e. sd_id e \<noteq> sd_id d) ds) \<le> WEEKLY_QUESTION_LIMIT"
  shows "weeks_ok (update_where p (set_count q) ds)"
  unfolding weeks_ok_def
proof (intro allI)
  fix sid w
  have dd: "distinct (map sd_id ds)" using assms(1) by (simp add: cells_ok_def)
  note u = week_total_update [where sid = sid and w = w and p = p, OF dd assms(3,4,5)]
  show "week_total sid w (update_where p (set_count q) ds) \<le> WEEKLY_QUESTION_LIMIT"
  proof (cases "in_week sid w d")
    case True
    with u assms(6) show ?thesis by (simp add: in_week_def)
  next
    case False
    with u week_total_except [OF dd assms(3), of sid w]
    have "week_total sid w (update_where p (set_count q) ds) = week_total sid w ds" by simp
    with assms(2) show ?thesis by (simp add: weeks_ok_def)
  qed
qed

lemma weeks_delete:
  assumes "cells_ok ds" and "weeks_ok ds"
  shows "weeks_ok (delete_where p ds)"
  using assms unfolding weeks_ok_def cells_ok_def by (meson order_trans week_total_delete)

lemma weeks_append:
  assumes "weeks_ok ds" and "week_total (sd_syllabusId d) (sd_weekNumber d) ds + sd_questionCount d \<le> WEEKLY_QUESTION_LIMIT"
  shows "weeks_ok (ds @ [d])"
  using assms by (auto simp: weeks_ok_def in_week_def)

lemma find_cell:
  assumes "find_one (\<lambda>r. cell r = cell d) ds = Some e"
  shows "e \<in> set ds" and "sd_syllabusId e = sd_syllabusId d" and "sd_weekNumber e = sd_weekNumber d"
  using find_one_Some [OF assms] by (simp_all add: cell_def)

lemma create_distribution_ok:
  assumes "create_distribution survives d db = Inr (r, db')" and "plan_ok db" and "0 < sd_questionCount d"
    and "week_total (sd_syllabusId d) (sd_weekNumber d) (pd_distributions db) + sd_questionCount d \<le> WEEKLY_QUESTION_LIMIT"
  shows "plan_ok db'"
proof (cases "insert_distribution d db")
  case (Inr db1)
  with assms(1) have "db' = db1" by (simp add: create_distribution_def)
  with Inr assms(2,4) show ?thesis
    using cells_insert [OF Inr] insert_distribution_Inr [OF Inr]
    by (auto simp: plan_ok_def intro: weeks_append)
next
  case (Inl e)
  with assms(1) obtain x where x: "find_one (\<lambda>r. cell r = cell d) (pd_distributions db) = Some x"
      "db' = db\<lparr>pd_distributions := update_where (\<lambda>r. sd_id r = sd_id x) (set_count (sd_questionCount d)) (pd_distributions db)\<rparr>"
    by (auto simp: create_distribution_def update_count_as_set_count split: if_splits option.splits)
  note f = find_cell [OF x(1)]
  have c: "cells_ok (pd_distributions db)" "weeks_ok (pd_distributions db)" using assms(2) by (simp_all add: plan_ok_def)
  have "distinct (map sd_id (pd_distributions db))" using c(1) by (simp add: cells_ok_def)
  from week_total_except [OF this f(1), of "sd_syllabusId x" "sd_weekNumber x"] assms(4) f
  have "sd_questionCount d + week_total (sd_syllabusId x) (sd_weekNumber x)
      (filter (\<lambda>e. sd_id e \<noteq> sd_id x) (pd_distributions db)) \<le> WEEKLY_QUESTION_LIMIT"
    using c(1) by (auto simp: in_week_def cells_ok_def)
  then have "weeks_ok (update_where (\<lambda>r. sd_id r = sd_id x) (set_count (sd_questionCount d)) (pd_distributions db))"
    by (intro weeks_update [OF c f(1)]) auto
  with x(2) c assms(2,3) show ?thesis by (simp add: plan_ok_def cells_update)
qed

lemma update_quantity_ok:
  assumes "update_distribution_quantity i sid q db = Inr (u, db')" and "plan_ok db"
  shows "plan_ok db'"
proof -
  let ?p = "\<lambda>d. sd_id d = i \<and> sd_syllabusId d = sid"
  from assms(1) have row: "update_quantity_row i sid q db = Inr (u, db')"
    by (auto simp: update_distribution_quantity_def Let_def split: option.splits if_splits)
  then have q: "0 < q" and db': "db' = db\<lparr>pd_distributions := update_where ?p (set_count q) (pd_distributions db)\<rparr>"
    and "affected ?p (pd_distributions db) \<noteq> 0"
    by (auto simp: update_quantity_row_def Let_def update_count_as_set_count split: if_splits)
  from this(3) obtain d where d: "get_distribution_by_id i sid db = Some d"
    by (cases "get_distribution_by_id i sid db") (auto simp: get_distribution_by_id_def find_one_None table_simps)
  have dp: "d \<in> set (pd_distributions db)" "?p d"
    using find_one_Some [OF d [unfolded get_distribution_by_id_def]] by auto
  have c: "cells_ok (pd_distributions db)" "weeks_ok (pd_distributions db)" using assms(2) by (simp_all add: plan_ok_def)
  from assms(1) d dp(2)
  have "q + week_total (sd_syllabusId d) (sd_weekNumber d) (filter (\<lambda>e. sd_id e \<noteq> sd_id d) (pd_distributions db)) \<le> WEEKLY_QUESTION_LIMIT"
    by (auto simp: update_distribution_quantity_def Let_def sum_week_except split: if_splits)
  then have "weeks_ok (update_where ?p (set_count q) (pd_distributions db))"
    using dp by (intro weeks_update [OF c, where d = d]) auto
  with assms(2) c q show ?thesis by (simp add: db' plan_ok_def cells_update)
qed

subsection \<open>Cloning keeps them\<close>

lemma week_total_rows_of:
  "\<forall>d\<in>set ds. sd_syllabusId d = sid \<Longrightarrow>
   week_total sid' w ds = (if sid' = sid then sum_of sd_questionCount (filter (\<lambda>d. sd_weekNumber d = w) ds) else 0)"
  by (induction ds) (auto simp: in_week_def)

lemma week_total_none: "\<forall>d\<in>set ds. sd_syllabusId d \<noteq> sid \<Longrightarrow> week_total sid w ds = 0"
  by (induction ds) (auto simp: in_week_def)

lemma number_rows_simps:
  "map (\<lambda>d. d\<lparr>sd_id := []\<rparr>) (number_rows fresh k ds) = map (\<lambda>d. d\<lparr>sd_id := []\<rparr>) ds"
  "length (number_rows fresh k ds) = length ds"
proof -
  have "map (\<lambda>d. d\<lparr>sd_id := []\<rparr>) (map (\<lambda>(i, d). d\<lparr>sd_id := fresh (k + i)\<rparr>) (enumerate n ds)) = map (\<lambda>d. d\<lparr>sd_id := []\<rparr>) ds" for n
    by (induction ds arbitrary: n) simp_all
  then show "map (\<lambda>d. d\<lparr>sd_id := []\<rparr>) (number_rows fresh k ds) = map (\<lambda>d. d\<lparr>sd_id := []\<rparr>) ds"
    unfolding number_rows_def by blast
qed (simp add: number_rows_def)

lemma sum_filter_number_rows:
  "sum_of sd_questionCount (filter (\<lambda>d. sd_weekNumber d = w) (number_rows fresh k ds)) =
   sum_of sd_questionCount (filter (\<lambda>d. sd_weekNumber d = w) ds)"
proof -
  have "sum_of sd_questionCount (filter (\<lambda>d. sd_weekNumber d = w)
      (map (\<lambda>(i, d). d\<lparr>sd_id := fresh (k + i)\<rparr>) (enumerate n ds))) =
    sum_of sd_questionCount (filter (\<lambda>d. sd_weekNumber d = w) ds)" for n
    by (induction ds arbitrary: n) simp_all
  then show ?thesis unfolding number_rows_def by blast
qed

lemma number_rows_syllabus:
  "\<forall>d\<in>set ds. sd_syllabusId d = sid \<Longrightarrow> \<forall>d\<in>set (number_rows fresh k ds). sd_syllabusId d = sid"
  by (auto simp: number_rows_def in_set_enumerate_eq)

lemma clone_row_Some:
  "clone_row sid ws same m d = Some d' \<Longrightarrow> sd_weekNumber d \<in> set ws \<and>
    d' = d\<lparr>sd_syllabusId := sid, sd_templateId := clone_template same m (sd_templateId d), sd_isGenerated := False\<rparr>"
  by (auto simp: clone_row_def Let_def split: if_splits)

lemma map_filter_clone_syllabus:
  "\<forall>d\<in>set (List.map_filter (clone_row sid ws same m) ds). sd_syllabusId d = sid"
  by (auto simp: in_map_filter dest!: clone_row_Some)

lemma copy_distributions_Inr:
  assumes "copy_distributions fresh k sid ds ws same m db = Inr db'"
  shows "db' = db\<lparr>pd_distributions := pd_distributions db @ number_rows fresh k (List.map_filter (clone_row sid ws same m) ds)\<rparr>"
    and "offending_weeks (List.map_filter (clone_row sid ws same m) ds) = []"
    and "cells_ok (pd_distributions db) \<Longrightarrow> cells_ok (pd_distributions db')"
  using assms
  by (auto simp: copy_distributions_def Let_def number_rows_def split: if_splits dest: bulk_create_Inr bulk_create_cells)

lemma copy_distributions_ok:
  assumes "copy_distributions fresh k sid ds ws same m (bulk_delete_by_syllabus sid db) = Inr db'" and "plan_ok db"
  shows "plan_ok db'"
proof -
  let ?old = "delete_where (\<lambda>d. sd_syllabusId d = sid) (pd_distributions db)"
  let ?new = "List.map_filter (clone_row sid ws same m) ds"
  have c: "cells_ok ?old" "weeks_ok ?old" using assms(2) by (simp_all add: plan_ok_def cells_delete weeks_delete)
  note r = copy_distributions_Inr [OF assms(1)]
  have "week_total s w (?old @ number_rows fresh k ?new) \<le> WEEKLY_QUESTION_LIMIT" for s w
  proof (cases "s = sid")
    case True
    have "week_total sid w ?old = 0" by (rule week_total_none) (simp add: table_simps)
    moreover have "week_total sid w (number_rows fresh k ?new) = sum_of sd_questionCount (filter (\<lambda>d. sd_weekNumber d = w) ?new)"
      using week_total_rows_of [OF number_rows_syllabus [OF map_filter_clone_syllabus]]
      by (simp add: sum_filter_number_rows)
    ultimately show ?thesis using True r(2) by (simp add: offending_weeks_iff)
  next
    case False
    then have "week_total s w (number_rows fresh k ?new) = 0"
      using week_total_rows_of [OF number_rows_syllabus [OF map_filter_clone_syllabus]] by simp
    with c(2) show ?thesis by (simp add: weeks_ok_def)
  qed
  then have "weeks_ok (pd_distributions db')" by (simp add: r(1) bulk_delete_by_syllabus_def weeks_ok_def)
  moreover have "cells_ok (pd_distributions db')" using c(1) by (intro r(3)) (simp add: bulk_delete_by_syllabus_def)
  ultimately show ?thesis using assms(2) by (simp add: plan_ok_def r(1) bulk_delete_by_syllabus_def)
qed

lemma actives_update:
  assumes "actives_ok t" and "\<And>s. sy_id (f s) = sy_id s" "\<And>s. sy_cycleId (f s) = sy_cycleId s"
    "\<And>s. sy_courseId (f s) = sy_courseId s" and "\<And>s. sy_isActive (f s) \<Longrightarrow> sy_isActive s"
  shows "actives_ok (update_where p f t)"
proof -
  have "map sy_id (update_where p f t) = map sy_id t" by (rule map_update_where_key) (rule assms(2))
  with assms(1) have "distinct (map sy_id (update_where p f t))" by (simp add: actives_ok_def)
  moreover
  let ?F = "\<lambda>s. if p s then f s else s"
  have "?F s = ?F r" if "s \<in> set t" "r \<in> set t" "sy_isActive (?F s)" "sy_isActive (?F r)"
      "sy_cycleId (?F s) = sy_cycleId (?F r)" "sy_courseId (?F s) = sy_courseId (?F r)" for s r
  proof -
    from that(3-) assms(3-5) have "sy_isActive s" "sy_isActive r" "sy_cycleId s = sy_cycleId r" "sy_courseId s = sy_courseId r"
      by (auto split: if_splits)
    with that(1,2) assms(1) have "s = r" by (simp add: actives_ok_def)
    then show ?thesis by simp
  qed
  then have "\<forall>s\<in>?F ` set t. \<forall>r\<in>?F ` set t. sy_isActive s \<longrightarrow> sy_isActive r \<longrightarrow> sy_cycleId s = sy_cycleId r \<longrightarrow>
        sy_courseId s = sy_courseId r \<longrightarrow> s = r"
    unfolding ball_simps by blast
  ultimately show ?thesis by (simp only: actives_ok_def set_update_where simp_thms)
qed

lemma actives_insert:
  assumes "insert_syllabus s db = Inr db'" and "actives_ok (pd_syllabuses db)"
  shows "actives_ok (pd_syllabuses db')" and "pd_distributions db' = pd_distributions db"
    and "db' = db\<lparr>pd_syllabuses := pd_syllabuses db @ [s]\<rparr>"
proof -
  from assms(1) have i: "sy_id s \<notin> sy_id ` set (pd_syllabuses db)" "\<not> active_clash s (pd_syllabuses db)"
    and d: "db' = db\<lparr>pd_syllabuses := pd_syllabuses db @ [s]\<rparr>"
    by (auto simp: insert_syllabus_def split: if_splits)
  have "r = s" if "r \<in> set (pd_syllabuses db)" "sy_isActive r" "sy_isActive s" "sy_cycleId r = sy_cycleId s"
      "sy_courseId r = sy_courseId s" for r
    using that i unfolding active_clash_def list_ex_iff by (metis imageI)
  with assms(2) i(1) show "actives_ok (pd_syllabuses db')"
    unfolding actives_ok_def d by (auto 0 3)
  show "pd_distributions db' = pd_distributions db" "db' = db\<lparr>pd_syllabuses := pd_syllabuses db @ [s]\<rparr>"
    by (simp_all add: d)
qed

lemma create_row_ok:
  "create_syllabus_row s db = Inr (r, db') \<Longrightarrow> plan_ok db \<Longrightarrow> plan_ok db'"
  by (auto simp: create_syllabus_row_def plan_ok_def actives_insert split: sum.splits if_splits)

lemma create_syllabus_ok:
  "create_syllabus ex i co cy db = Inr (r, db') \<Longrightarrow> plan_ok db \<Longrightarrow> plan_ok db'"
  by (auto simp: create_syllabus_def split: if_splits intro: create_row_ok)

lemma set_template_Inr:
  "set_template_row sid t db = Inr db' \<Longrightarrow> db' = db\<lparr>pd_syllabuses := update_where (\<lambda>s. sy_id s = sid)
     (\<lambda>s. s\<lparr>sy_templateId := Some t\<rparr>) (pd_syllabuses db)\<rparr>"
  by (auto simp: set_template_row_def split: if_splits)

lemma set_template_ok: "set_template_row sid t db = Inr db' \<Longrightarrow> plan_ok db \<Longrightarrow> plan_ok db'"
  by (drule set_template_Inr) (auto simp: plan_ok_def intro!: actives_update)

lemma set_default_ok: "set_default_template sid s t m db = Inr db' \<Longrightarrow> plan_ok db \<Longrightarrow> plan_ok db'"
  by (auto simp: set_default_template_def Let_def split: if_splits intro: set_template_ok)

lemma clone_syllabus_Inr:
  assumes "clone_syllabus fresh k sid src aw db = Inr (r, db')"
  obtains target source m db1 where "find_syllabus_by_id sid db = Some target" "find_syllabus_by_id src db = Some source"
    "build_template_mapping source target (get_summary_by_syllabus src None db) db = Inr m"
    "copy_distributions fresh k sid (get_summary_by_syllabus src None db)
       (nullish aw (get_active_week_numbers (sy_cycleId target) db)) (sy_cycleId source = sy_cycleId target) m
       (bulk_delete_by_syllabus sid db) = Inr db1"
    "set_default_template sid source target m db1 = Inr db'" "r = get_summary sid None db'"
  using assms by (auto simp: clone_syllabus_def Let_def split: option.splits sum.splits)

lemma clone_syllabus_ok:
  assumes "clone_syllabus fresh k sid src aw db = Inr (r, db')" and "plan_ok db"
  shows "plan_ok db'"
  using assms by (auto elim!: clone_syllabus_Inr intro: copy_distributions_ok set_default_ok)

lemma clone_into_cycle_ok:
  assumes "clone_into_cycle fresh tgt aw ex source (k, db) = Inr (k', db')" and "plan_ok db"
  shows "plan_ok db'"
proof (cases "ex (sy_courseId source)")
  case None
  with assms(1) obtain s db1 x where 1: "create_syllabus_row \<lparr>sy_id = fresh k, sy_cycleId = tgt, sy_courseId = sy_courseId source,
                  sy_name = sy_name source, sy_templateId = None, sy_isActive = True\<rparr> db = Inr (s, db1)"
      and 2: "clone_syllabus fresh (k + 1) (sy_id s) (sy_id source) (Some aw) db1 = Inr (x, db')"
    by (auto simp: clone_into_cycle_def Let_def split: sum.splits)
  from 2 create_row_ok [OF 1 assms(2)] show ?thesis by (rule clone_syllabus_ok)
next
  case (Some t)
  with assms show ?thesis
    by (auto simp: clone_into_cycle_def Let_def split: sum.splits intro: clone_syllabus_ok)
qed

lemma clone_cycle_ok:
  assumes "clone_cycle_syllabuses fresh tgt src db = Inr (n, db')" and "plan_ok db"
  shows "plan_ok db'"
proof -
  from assms(1) obtain k where "tx_fold (clone_into_cycle fresh tgt (get_active_week_numbers tgt db)
      (target_map (find_by_cycle tgt db))) (find_by_cycle src db) (0, db) = Inr (k, db')"
    by (auto simp: clone_cycle_syllabuses_def Let_def split: sum.splits if_splits)
  then have "plan_ok (snd (k, db'))"
  proof (rule tx_fold_inv)
    fix x d d'
    assume "plan_ok (snd d)" "clone_into_cycle fresh tgt (get_active_week_numbers tgt db) (target_map (find_by_cycle tgt db)) x d = Inr d'"
    then show "plan_ok (snd d')" by (cases d; cases d') (auto intro: clone_into_cycle_ok)
  qed (simp add: assms(2))
  then show ?thesis by simp
qed

lemma update_visibility_ok:
  assumes "update_visibility i a db = Inr (u, db')" and "plan_ok db"
  shows "plan_ok db'"
proof -
  let ?f = "\<lambda>s. s\<lparr>sy_isActive := a\<rparr>"
  from assms(1) have d: "db' = db\<lparr>pd_syllabuses := update_where (\<lambda>s. sy_id s = i) ?f (pd_syllabuses db)\<rparr>"
    and nc: "\<And>s. s \<in> set (pd_syllabuses db) \<Longrightarrow> sy_id s = i \<Longrightarrow> \<not> active_clash (?f s) (pd_syllabuses db)"
    by (auto simp: update_visibility_def list_ex_iff split: if_splits)
  have ok: "actives_ok (pd_syllabuses db)" using assms(2) by (simp add: plan_ok_def)
  have one: "s = r" if "s \<in> set (pd_syllabuses db)" "r \<in> set (pd_syllabuses db)" "sy_id s = sy_id r" for s r
    using that ok by (auto simp: actives_ok_def distinct_map inj_on_def)
  have "map sy_id (update_where (\<lambda>s. sy_id s = i) ?f (pd_syllabuses db)) = map sy_id (pd_syllabuses db)"
    by (rule map_update_where_key) simp
  moreover
  let ?F = "\<lambda>s. if sy_id s = i then ?f s else s"
  have "?F s = ?F r" if sr: "s \<in> set (pd_syllabuses db)" "r \<in> set (pd_syllabuses db)"
      and act: "sy_isActive (?F s)" "sy_isActive (?F r)" "sy_cycleId (?F s) = sy_cycleId (?F r)" "sy_courseId (?F s) = sy_courseId (?F r)"
    for s r
  proof -
    have keys: "sy_cycleId s = sy_cycleId r" "sy_courseId s = sy_courseId r" using act(3,4) by (auto split: if_splits)
    consider "sy_id s = i" "sy_id r = i" | "sy_id s = i" "sy_id r \<noteq> i" | "sy_id s \<noteq> i" "sy_id r = i" | "sy_id s \<noteq> i" "sy_id r \<noteq> i"
      by blast
    then show ?thesis
    proof cases
      case 1
      with one [OF sr] show ?thesis by simp
    next
      case 2
      with nc [OF sr(1)] sr(2) act keys show ?thesis by (auto simp: active_clash_def list_ex_iff)
    next
      case 3
      with nc [OF sr(2)] sr(1) act keys show ?thesis by (auto simp: active_clash_def list_ex_iff)
    next
      case 4
      with act have "sy_isActive s" "sy_isActive r" by auto
      with ok sr keys have "s = r" by (simp add: actives_ok_def)
      then show ?thesis by simp
    qed
  qed
  then have "\<forall>s\<in>?F ` set (pd_syllabuses db). \<forall>r\<in>?F ` set (pd_syllabuses db). sy_isActive s \<longrightarrow> sy_isActive r \<longrightarrow>
        sy_cycleId s = sy_cycleId r \<longrightarrow> sy_courseId s = sy_courseId r \<longrightarrow> s = r"
    unfolding ball_simps by blast
  moreover have "distinct (map sy_id (pd_syllabuses db))" using ok by (simp add: actives_ok_def)
  ultimately have "actives_ok (update_where (\<lambda>s. sy_id s = i) ?f (pd_syllabuses db))"
    by (simp only: actives_ok_def set_update_where simp_thms)
  with assms(2) show ?thesis by (simp add: plan_ok_def d)
qed

lemma mark_generated_ok:
  assumes "mark_week_generated ev db = Inr (b, db')" and "plan_ok db"
  shows "plan_ok db'"
proof (cases "pd_distributions db' = pd_distributions db \<and> pd_syllabuses db' = pd_syllabuses db")
  case True
  with assms(2) show ?thesis by (simp add: plan_ok_def)
next
  case False
  let ?f = "\<lambda>d. d\<lparr>sd_isGenerated := True\<rparr>"
  from assms(1) False obtain p where d: "db' = db\<lparr>pd_distributions := update_where p ?f (pd_distributions db)\<rparr>"
    by (auto simp: mark_week_generated_def Let_def split: option.splits)
  have "map sd_id (update_where p ?f ds) = map sd_id ds" "map cell (update_where p ?f ds) = map cell ds" for ds
    by (rule map_update_where_key; simp add: cell_def)+
  moreover have "week_total s w (update_where p ?f ds) = week_total s w ds" for s w ds
    by (induction ds) (auto simp: update_where_Cons in_week_def, simp_all add: update_where_def)
  ultimately show ?thesis
    using assms(2) by (auto simp: d plan_ok_def cells_ok_def weeks_ok_def table_simps)
qed

subsection \<open>Runs\<close>

datatype syllabus_cmd =
    CreateSyllabus "string \<Rightarrow> bool" uuid string uuid
  | AddDistribution bool uuid uuid create_distribution_dto
  | UpdateQuantity uuid uuid int
  | DeleteDistribution uuid uuid
  | CloneSyllabus "nat \<Rightarrow> uuid" nat uuid uuid
  | CloneCycle "nat \<Rightarrow> uuid" uuid uuid
  | SetTemplate uuid uuid
  | ArchiveSyllabus uuid bool
  | MaterialGenerated "nat \<Rightarrow> bool" generated_event

fun syllabus_step :: "planning_db \<Rightarrow> syllabus_cmd \<Rightarrow> planning_db" where
  "syllabus_step db (CreateSyllabus ex i co cy) = snd (run_tx (create_syllabus ex i co cy) db)"
| "syllabus_step db (AddDistribution sv i sid dto) = snd (run_tx (add_distribution sv i sid dto) db)"
| "syllabus_step db (UpdateQuantity i sid q) = snd (run_tx (update_distribution_quantity i sid q) db)"
| "syllabus_step db (DeleteDistribution i sid) = snd (run_tx (delete_distribution i sid) db)"
| "syllabus_step db (CloneSyllabus fr k sid src) = snd (run_tx (clone_syllabus fr k sid src None) db)"
| "syllabus_step db (CloneCycle fr tgt src) = snd (run_tx (clone_cycle_syllabuses fr tgt src) db)"
| "syllabus_step db (SetTemplate sid t) = (case set_template_row sid t db of Inl e \<Rightarrow> db | Inr db' \<Rightarrow> db')"
| "syllabus_step db (ArchiveSyllabus i a) = snd (run_tx (update_visibility i a) db)"
| "syllabus_step db (MaterialGenerated fails ev) = snd (handle_material_generated_event fails ev db)"

lemma run_tx_kept:
  assumes "I db" and "\<And>a db'. body db = Inr (a, db') \<Longrightarrow> I db'"
  shows "I (snd (run_tx body db))"
  using assms by (cases "body db") (auto simp: run_tx_def)

lemma add_distribution_ok:
  assumes "add_distribution sv i sid dto db = Inr (r, db')" and "plan_ok db"
  shows "plan_ok db'"
proof -
  let ?d = "\<lparr>sd_id = i, sd_syllabusId = sid, sd_templateId = (if truthy_str (cd_templateId dto) then cd_templateId dto else None),
         sd_weekNumber = cd_weekNumber dto, sd_topicId = cd_topicId dto, sd_subtopicId = cd_subtopicId dto,
         sd_questionCount = cd_questionCount dto, sd_isGenerated = False\<rparr>"
  from assms(1) have c: "create_distribution sv ?d db = Inr (r, db')"
      "week_total sid (cd_weekNumber dto) (pd_distributions db) + cd_questionCount dto \<le> WEEKLY_QUESTION_LIMIT"
    by (auto simp: add_distribution_def Let_def sum_week_all split: if_splits)
  from c(1) have "0 < cd_questionCount dto"
    by (auto simp: create_distribution_def insert_distribution_def split: if_splits option.splits)
  with c show ?thesis by (intro create_distribution_ok [OF c(1) assms(2)]) simp_all
qed

lemma delete_distribution_ok:
  "delete_distribution i sid db = Inr (u, db') \<Longrightarrow> plan_ok db \<Longrightarrow> plan_ok db'"
  by (auto simp: delete_distribution_def Let_def plan_ok_def cells_delete weeks_delete split: if_splits)

lemma handle_from_ok: "plan_ok db \<Longrightarrow> plan_ok (snd (handle_from a fails n ev db))"
  by (induction a fails n ev db rule: handle_from.induct) (auto intro: run_tx_kept mark_generated_ok)

interpretation planning: invariant_system syllabus_step plan_ok "\<lambda>_. True"
proof unfold_locales
  fix db cmd assume "plan_ok db"
  then show "plan_ok (syllabus_step db cmd)"
    by (cases cmd) (auto simp: handle_material_generated_event_def split: sum.splits
        intro: run_tx_kept create_syllabus_ok add_distribution_ok update_quantity_ok delete_distribution_ok clone_syllabus_ok
          clone_cycle_ok set_template_ok update_visibility_ok handle_from_ok)
qed

subsection \<open>What a template maps to\<close>

text \<open>The template of a copied row: the same one within a cycle, none for none, and otherwise the template of
  the target cycle with the same normalized name.\<close>

definition corresponds :: "planning_db \<Rightarrow> syllabus \<Rightarrow> syllabus \<Rightarrow> uuid option \<Rightarrow> uuid option \<Rightarrow> bool" where
  "corresponds db source target t t' \<longleftrightarrow>
     (sy_cycleId source = sy_cycleId target \<and> t' = t) \<or> (\<not> truthy_str t \<and> t' = t) \<or>
     (\<exists>a\<in>set (pd_templates db). \<exists>b\<in>set (pd_templates db). t = Some (tp_id a) \<and> tp_cycleId a = sy_cycleId source \<and>
        t' = Some (tp_id b) \<and> tp_cycleId b = sy_cycleId target \<and> normalized_name b = normalized_name a)"

lemma map_template_fold:
  assumes "fold (map_template ss ts) ids (m0, mi) = (m, missing)" and "m i = Some x"
  shows "m0 i = Some x \<or> (\<exists>a\<in>set ss. \<exists>b\<in>set ts. i = tp_id a \<and> x = Some (tp_id b) \<and> normalized_name b = normalized_name a)"
  using assms
proof (induction ids arbitrary: m0 mi)
  case (Cons j ids)
  obtain m1 mi1 where 1: "map_template ss ts j (m0, mi) = (m1, mi1)" by fastforce
  from Cons.prems 1 have "fold (map_template ss ts) ids (m1, mi1) = (m, missing)" by simp
  from Cons.IH [OF this Cons.prems(2)] 1 show ?case
    by (auto simp: map_template_def split: option.splits if_splits dest!: find_one_Some)
qed simp

lemma build_mapping_Inr:
  assumes "build_template_mapping source target ds db = Inr m" and "m t = Some (Some t')"
  shows "corresponds db source target (Some t) (Some t')"
proof -
  have null: "fold (\<lambda>i m. m(i \<mapsto> None)) ids m0 t = Some (Some t') \<Longrightarrow> m0 t = Some (Some t')" for ids and m0 :: template_map
  proof (induction ids arbitrary: m0)
    case (Cons a ids)
    have "(m0(a \<mapsto> None)) t = Some (Some t')" by (rule Cons.IH) (use Cons.prems in simp)
    then show ?case by (cases "t = a") simp_all
  qed simp
  let ?ids = "referenced_template_ids source ds"
  from assms have ne: "sy_cycleId source \<noteq> sy_cycleId target"
    by (auto simp: build_template_mapping_def)
  from assms ne have "?ids \<noteq> []" by (auto simp: build_template_mapping_def)
  with assms ne null [of ?ids Map.empty] have "templates_by_cycle (sy_cycleId target) db \<noteq> []"
    by (auto simp: build_template_mapping_def Let_def)
  with assms(1) ne \<open>?ids \<noteq> []\<close> obtain missing where
    "fold (map_template (templates_by_cycle (sy_cycleId source) db) (templates_by_cycle (sy_cycleId target) db)) ?ids (Map.empty, []) = (m, missing)"
    by (auto simp: build_template_mapping_def Let_def split: prod.splits if_splits)
  from map_template_fold [OF this assms(2)] show ?thesis
    by (auto simp: corresponds_def templates_by_cycle_def table_simps)
qed

lemma clone_template_corresponds:
  assumes "build_template_mapping source target ds db = Inr m"
    and "clone_row sid ws (sy_cycleId source = sy_cycleId target) m d = Some d'"
  shows "corresponds db source target (sd_templateId d) (sd_templateId d')"
proof (cases "truthy_str (sd_templateId d)")
  case True
  then obtain t where t: "sd_templateId d = Some t" "t \<noteq> []" by (cases "sd_templateId d") auto
  from assms(2) True have "sd_templateId d' \<noteq> None"
    and d': "sd_templateId d' = clone_template (sy_cycleId source = sy_cycleId target) m (sd_templateId d)"
    by (auto simp: clone_row_def Let_def split: if_splits)
  then obtain t' where t': "sd_templateId d' = Some t'" by auto
  show ?thesis
  proof (cases "m t")
    case None
    with d' t t' show ?thesis by (auto simp: clone_template_def corresponds_def split: if_splits)
  next
    case (Some x)
    with d' t t' have "m t = Some (Some t')" by (simp add: clone_template_def)
    with build_mapping_Inr [OF assms(1)] t t' show ?thesis by simp
  qed
next
  case False
  with clone_row_Some [OF assms(2)] show ?thesis by (simp add: clone_template_def corresponds_def)
qed

lemma in_number_rows:
  shows "d' \<in> set (number_rows fresh k ds) \<Longrightarrow> \<exists>d\<in>set ds. \<exists>i. d' = d\<lparr>sd_id := i\<rparr>"
    and "d \<in> set ds \<Longrightarrow> \<exists>d'\<in>set (number_rows fresh k ds). \<exists>i. d' = d\<lparr>sd_id := i\<rparr>"
proof -
  assume "d' \<in> set (number_rows fresh k ds)"
  then obtain i e where e: "(i, e) \<in> set (enumerate 0 ds)" "d' = e\<lparr>sd_id := fresh (k + i)\<rparr>"
    by (auto simp: number_rows_def)
  then have "e \<in> set ds" by (auto simp: in_set_enumerate_eq)
  with e(2) show "\<exists>d\<in>set ds. \<exists>i. d' = d\<lparr>sd_id := i\<rparr>" by blast
next
  assume "d \<in> set ds"
  then obtain i where "i < length ds" "ds ! i = d" by (auto simp: in_set_conv_nth)
  then have "(i, d) \<in> set (enumerate 0 ds)" by (simp add: in_set_enumerate_eq)
  then have "d\<lparr>sd_id := fresh (k + i)\<rparr> \<in> set (number_rows fresh k ds)" by (force simp: number_rows_def)
  then show "\<exists>d'\<in>set (number_rows fresh k ds). \<exists>i. d' = d\<lparr>sd_id := i\<rparr>" by blast
qed

subsection \<open>Properties\<close>



text \<open>
  A successful clone replaces the target's rows, and only those: each new row repeats week, topic, subtopic
  and quantity of a source row of an active week, not yet generated, under the corresponding template; and
  within one cycle every source row of an active week is copied.
\<close>

lemma clone_copies_plan:
  assumes "clone_syllabus fresh k sid src aw db = Inr (r, db')"
  shows "\<exists>source target weeks. find_syllabus_by_id src db = Some source \<and> find_syllabus_by_id sid db = Some target \<and>
    weeks = nullish aw (get_active_week_numbers (sy_cycleId target) db) \<and>
    filter (\<lambda>d. sd_syllabusId d \<noteq> sid) (pd_distributions db') = filter (\<lambda>d. sd_syllabusId d \<noteq> sid) (pd_distributions db) \<and>
    (\<forall>d'\<in>set (pd_distributions db'). sd_syllabusId d' = sid \<longrightarrow>
      (\<exists>d\<in>set (pd_distributions db). sd_syllabusId d = src \<and> sd_weekNumber d \<in> set weeks \<and> \<not> sd_isGenerated d' \<and>
         (sd_weekNumber d', sd_topicId d', sd_subtopicId d', sd_questionCount d') =
         (sd_weekNumber d, sd_topicId d, sd_subtopicId d, sd_questionCount d) \<and>
         corresponds db source target (sd_templateId d) (sd_templateId d'))) \<and>
    (sy_cycleId source = sy_cycleId target \<longrightarrow>
      (\<forall>d\<in>set (pd_distributions db). sd_syllabusId d = src \<and> sd_weekNumber d \<in> set weeks \<longrightarrow>
        (\<exists>d'\<in>set (pd_distributions db'). cell d' = (sid, snd (cell d)) \<and> sd_questionCount d' = sd_questionCount d)))"
proof -
  let ?ds = "get_summary_by_syllabus src None db"
  from assms obtain target source m db1 where c: "find_syllabus_by_id sid db = Some target" "find_syllabus_by_id src db = Some source"
    and m: "build_template_mapping source target ?ds db = Inr m"
    and copy: "copy_distributions fresh k sid ?ds (nullish aw (get_active_week_numbers (sy_cycleId target) db))
       (sy_cycleId source = sy_cycleId target) m (bulk_delete_by_syllabus sid db) = Inr db1"
    and sdt: "set_default_template sid source target m db1 = Inr db'"
    by (rule clone_syllabus_Inr)
  let ?ws = "nullish aw (get_active_week_numbers (sy_cycleId target) db)"
  let ?same = "sy_cycleId source = sy_cycleId target"
  let ?new = "List.map_filter (clone_row sid ?ws ?same m) ?ds"
  have ds: "set ?ds = {d \<in> set (pd_distributions db). sd_syllabusId d = src}"
    by (simp add: get_summary_by_syllabus_def table_simps)
  have db': "pd_distributions db' = filter (\<lambda>d. sd_syllabusId d \<noteq> sid) (pd_distributions db) @ number_rows fresh k ?new"
    using sdt copy_distributions_Inr(1) [OF copy]
    by (auto simp: set_default_template_def Let_def bulk_delete_by_syllabus_def delete_where_def split: if_splits dest: set_template_Inr)
  have own: "\<forall>d\<in>set (number_rows fresh k ?new). sd_syllabusId d = sid"
    by (rule number_rows_syllabus) (rule map_filter_clone_syllabus)
  have others: "filter (\<lambda>d. sd_syllabusId d \<noteq> sid) (pd_distributions db') = filter (\<lambda>d. sd_syllabusId d \<noteq> sid) (pd_distributions db)"
    using own by (simp add: db')
  have sound: "\<exists>d\<in>set (pd_distributions db). sd_syllabusId d = src \<and> sd_weekNumber d \<in> set ?ws \<and> \<not> sd_isGenerated d' \<and>
         (sd_weekNumber d', sd_topicId d', sd_subtopicId d', sd_questionCount d') =
         (sd_weekNumber d, sd_topicId d, sd_subtopicId d, sd_questionCount d) \<and>
         corresponds db source target (sd_templateId d) (sd_templateId d')"
    if d': "d' \<in> set (pd_distributions db')" "sd_syllabusId d' = sid" for d'
  proof -
    from d' obtain e i where e: "e \<in> set ?new" "d' = e\<lparr>sd_id := i\<rparr>"
      using in_number_rows(1) [of d' fresh k ?new] by (auto simp: db')
    then obtain d where d: "d \<in> set ?ds" "clone_row sid ?ws ?same m d = Some e" by (auto simp: in_map_filter)
    with clone_template_corresponds [OF m d(2)] clone_row_Some [OF d(2)] e(2) ds show ?thesis
      by (intro bexI [of _ d]) auto
  qed
  have complete: "\<exists>d'\<in>set (pd_distributions db'). cell d' = (sid, snd (cell d)) \<and> sd_questionCount d' = sd_questionCount d"
    if s: ?same and d: "d \<in> set (pd_distributions db)" "sd_syllabusId d = src" "sd_weekNumber d \<in> set ?ws" for d
  proof -
    from m s have "m = Map.empty" by (simp add: build_template_mapping_def)
    with s d(3) have "clone_row sid ?ws ?same m d = Some (d\<lparr>sd_syllabusId := sid, sd_isGenerated := False\<rparr>)"
      by (cases "sd_templateId d") (simp_all add: clone_row_def clone_template_def Let_def)
    with d ds have "d\<lparr>sd_syllabusId := sid, sd_isGenerated := False\<rparr> \<in> set ?new" by (auto simp: in_map_filter)
    from in_number_rows(2) [OF this, of fresh k] obtain d' i where
      "d' \<in> set (number_rows fresh k ?new)" "d' = d\<lparr>sd_syllabusId := sid, sd_isGenerated := False, sd_id := i\<rparr>" by blast
    then show ?thesis by (intro bexI [of _ d']) (simp_all add: db' cell_def)
  qed
  show ?thesis using c others sound complete by blast
qed

text \<open>
  Writing an occupied cell: the recovery overwrites exactly the existing row when the transaction survives
  the failed insert; when it does not, as on the server without a savepoint, the request fails and the
  last write is lost.
\<close>

theorem occupied_cell_write:
  assumes "cells_ok (pd_distributions db)" and "e \<in> set (pd_distributions db)" and "cell e = cell d" and "0 < sd_questionCount d"
  shows "create_distribution True d db = Inr (set_count (sd_questionCount d) e,
      db\<lparr>pd_distributions := map (\<lambda>r. if r = e then set_count (sd_questionCount d) e else r) (pd_distributions db)\<rparr>) \<and>
    create_distribution False d db = Inl aborted_transaction"
proof -
  have i: "insert_distribution d db = Inl unique_violation"
  proof -
    have "cell d \<in> cell ` set (pd_distributions db)" using assms(2,3) by (metis imageI)
    then show ?thesis using assms(4) by (simp add: insert_distribution_def)
  qed
  have keys: "inj_on cell (set (pd_distributions db))" "inj_on sd_id (set (pd_distributions db))"
    using assms(1) by (simp_all add: cells_ok_def distinct_map)
  obtain x where x: "find_one (\<lambda>r. cell r = cell d) (pd_distributions db) = Some x"
    using assms(2,3) by (cases "find_one (\<lambda>r. cell r = cell d) (pd_distributions db)") (auto simp: find_one_None)
  from find_one_Some [OF x] have "x \<in> set (pd_distributions db)" "cell x = cell e" by (simp_all add: assms(3))
  with keys(1) assms(2) have xe: "x = e" by (blast dest: inj_onD)
  have "update_where (\<lambda>r. sd_id r = sd_id e) (set_count (sd_questionCount d)) (pd_distributions db) =
      map (\<lambda>r. if r = e then set_count (sd_questionCount d) e else r) (pd_distributions db)"
    unfolding update_where_def
  proof (rule map_cong)
    fix r assume "r \<in> set (pd_distributions db)"
    with keys(2) assms(2) have "sd_id r = sd_id e \<longleftrightarrow> r = e" by (blast dest: inj_onD)
    then show "(if sd_id r = sd_id e then set_count (sd_questionCount d) r else r) =
        (if r = e then set_count (sd_questionCount d) e else r)" by simp
  qed simp
  then show ?thesis
    by (simp add: create_distribution_def i x xe update_count_as_set_count)
qed

text \<open>A cycle with one syllabus holding one cell, for the witnesses.\<close>

definition sample_plan :: planning_db where
  "sample_plan = empty_planning_db
     \<lparr>pd_cycles := [\<lparr>cy_id = ''cy'', cy_name = ''2026-I'', cy_year = 2026, cy_startDate = 20500, cy_endDate = Some 20503,
        cy_daysPerWeek = 4, cy_totalWeeks = 1, cy_isActive = True, cy_deletedAt = None\<rparr>],
      pd_weeks := [\<lparr>cw_id = ''w1'', cw_cycleId = ''cy'', cw_weekNumber = 1, cw_startDate = 20500, cw_endDate = 20503,
        cw_isActive = True, cw_deletedAt = None\<rparr>],
      pd_syllabuses :=
        [\<lparr>sy_id = ''s1'', sy_cycleId = ''cy'', sy_courseId = ''7'', sy_name = ''A'', sy_templateId = None, sy_isActive = True\<rparr>,
         \<lparr>sy_id = ''s2'', sy_cycleId = ''cy'', sy_courseId = ''8'', sy_name = ''B'', sy_templateId = None, sy_isActive = True\<rparr>],
      pd_distributions := [\<lparr>sd_id = ''d1'', sd_syllabusId = ''s1'', sd_templateId = None, sd_weekNumber = 1,
        sd_topicId = ''10'', sd_subtopicId = ''11'', sd_questionCount = 60, sd_isGenerated = False\<rparr>]\<rparr>"

lemma sample_plan_ok: "plan_ok sample_plan"
  by (simp add: plan_ok_def sample_plan_def empty_planning_db_def cells_ok_def weeks_ok_def actives_ok_def WEEKLY_QUESTION_LIMIT_def)



definition sample_clone :: "planning_error + syllabus_summary \<times> planning_db" where
  "sample_clone = clone_syllabus (\<lambda>k. replicate k (CHR ''x'')) 3 ''s2'' ''s1'' None sample_plan"

lemma sample_clone_ok: "\<exists>r db'. sample_clone = Inr (r, db')"
  unfolding sample_clone_def sample_plan_def empty_planning_db_def
  by (simp add: clone_syllabus_def find_syllabus_by_id_def find_one_def build_template_mapping_def Let_def
      copy_distributions_def offending_weeks_def week_sums_def get_summary_by_syllabus_def find_all_def
      get_active_week_numbers_def clone_row_def clone_template_def List.map_filter_def WEEKLY_QUESTION_LIMIT_def
      bulk_create_distributions_def number_rows_def insert_distribution_def cell_def bulk_delete_by_syllabus_def
      delete_where_def set_default_template_def numeral_eq_Suc)

theorem occupied_cell_write_witness:
  "create_distribution False \<lparr>sd_id = ''d2'', sd_syllabusId = ''s1'', sd_templateId = None, sd_weekNumber = 1,
        sd_topicId = ''10'', sd_subtopicId = ''11'', sd_questionCount = 30, sd_isGenerated = False\<rparr> sample_plan = Inl aborted_transaction"
  using occupied_cell_write [of sample_plan "\<lparr>sd_id = ''d1'', sd_syllabusId = ''s1'', sd_templateId = None, sd_weekNumber = 1,
        sd_topicId = ''10'', sd_subtopicId = ''11'', sd_questionCount = 60, sd_isGenerated = False\<rparr>"
      "\<lparr>sd_id = ''d2'', sd_syllabusId = ''s1'', sd_templateId = None, sd_weekNumber = 1,
        sd_topicId = ''10'', sd_subtopicId = ''11'', sd_questionCount = 30, sd_isGenerated = False\<rparr>"] sample_plan_ok
  by (simp add: plan_ok_def) (simp add: sample_plan_def cell_def)

end
