(* ===== verification/AcademicTime.thy ===== *)
theory AcademicTime
  imports Syllabus
begin

text \<open>
  \<open>AcademicTimeUseCase\<close> (\<open>academic-time/academic-time.use-case.ts\<close>) over \<open>AcademicTimeRepositoryImpl\<close>
  (\<open>academic-time/repositories/academic-time.repository.ts\<close>): cycles, their weeks, and the material templates.
  \<open>fresh\<close> is the supply of UUIDs of one request and \<open>now\<close> the instant the database stamps a soft delete
  with. A repository call inside a use-case transaction reuses it.
\<close>

subsection \<open>Repository: weeks\<close>

definition live_week :: "cycle_week \<Rightarrow> bool" where
  "live_week w \<longleftrightarrow> cw_deletedAt w = None"

text \<open>The partial unique index over live rows: one live week per cycle and number.\<close>

definition week_clash :: "cycle_week \<Rightarrow> cycle_week list \<Rightarrow> bool" where
  "week_clash w t \<longleftrightarrow> live_week w \<and>
     list_ex (\<lambda>r. live_week r \<and> cw_id r \<noteq> cw_id w \<and> cw_cycleId r = cw_cycleId w \<and> cw_weekNumber r = cw_weekNumber w) t"

text \<open>\<open>manager.save(CycleWeek, week)\<close>: an UPDATE of the row with that id, or an INSERT.\<close>

definition overwrite_week :: "cycle_week \<Rightarrow> cycle_week \<Rightarrow> cycle_week" where
  "overwrite_week w r = r\<lparr>cw_cycleId := cw_cycleId w, cw_weekNumber := cw_weekNumber w, cw_startDate := cw_startDate w,
     cw_endDate := cw_endDate w, cw_isActive := cw_isActive w\<rparr>"

definition save_week :: "cycle_week \<Rightarrow> planning_db \<Rightarrow> planning_error + planning_db" where
  "save_week w db =
     (if cw_cycleId w \<notin> cy_id ` set (pd_cycles db) then Inl fk_violation
      else case find_one (\<lambda>r. cw_id r = cw_id w) (pd_weeks db) of
        Some r \<Rightarrow>
          if week_clash (overwrite_week w r) (pd_weeks db) then Inl unique_violation
          else Inr (db\<lparr>pd_weeks := update_where (\<lambda>r. cw_id r = cw_id w) (overwrite_week w) (pd_weeks db)\<rparr>)
      | None \<Rightarrow>
          if week_clash w (pd_weeks db) then Inl unique_violation
          else Inr (db\<lparr>pd_weeks := pd_weeks db @ [w]\<rparr>))"

text \<open>
  A unique violation is skipped. \<open>survives\<close> says whether the transaction is usable after it; when it is not,
  the next statement fails, and with no next statement the commit is silently a rollback (the result False).
\<close>

fun save_weeks_safely :: "bool \<Rightarrow> cycle_week list \<Rightarrow> planning_db \<Rightarrow> planning_error + bool \<times> planning_db" where
  "save_weeks_safely survives [] db = Inr (True, db)"
| "save_weeks_safely survives (w # ws) db =
     (case save_week w db of
        Inr db' \<Rightarrow> save_weeks_safely survives ws db'
      | Inl e \<Rightarrow>
          if e \<noteq> unique_violation then Inl e
          else if survives then save_weeks_safely survives ws db
          else if ws = [] then Inr (False, db)
          else Inl aborted_transaction)"

definition get_weeks_by_cycle :: "uuid \<Rightarrow> planning_db \<Rightarrow> cycle_week list" where
  "get_weeks_by_cycle cycleId db =
     sort_key cw_weekNumber (find_all (\<lambda>w. cw_cycleId w = cycleId \<and> live_week w) (pd_weeks db))"

subsection \<open>Repository: cycles\<close>

text \<open>The date column of a cycle rejects the empty string the use case starts from.\<close>

definition insert_cycle :: "cycle \<Rightarrow> planning_db \<Rightarrow> planning_error + planning_db" where
  "insert_cycle c db =
     (if cy_endDate c = None then Inl (sql_error ''22007'')
      else if cy_id c \<in> cy_id ` set (pd_cycles db) then Inl unique_violation
      else Inr (db\<lparr>pd_cycles := pd_cycles db @ [c]\<rparr>))"

definition create_cycle_repo :: "bool \<Rightarrow> cycle \<Rightarrow> cycle_week list \<Rightarrow> unit ptx" where
  "create_cycle_repo survives c weeks db =
     (case insert_cycle c db of Inl e \<Rightarrow> Inl e | Inr db1 \<Rightarrow>
     (case save_weeks_safely survives weeks db1 of Inl e \<Rightarrow> Inl e | Inr (usable, db2) \<Rightarrow>
        Inr ((), if usable then db2 else db)))"

record cycle_update =
  cu_name :: "string option"
  cu_year :: "int option"
  cu_startDate :: "day option"
  cu_endDate :: "day option"
  cu_daysPerWeek :: "int option"
  cu_totalWeeks :: "int option"
  cu_weeks :: "cycle_week list option"

definition apply_cycle_update :: "cycle_update \<Rightarrow> cycle \<Rightarrow> cycle" where
  "apply_cycle_update u c = c\<lparr>
     cy_name := nullish (cu_name u) (cy_name c), cy_year := nullish (cu_year u) (cy_year c),
     cy_startDate := nullish (cu_startDate u) (cy_startDate c),
     cy_endDate := (if cu_endDate u = None then cy_endDate c else cu_endDate u),
     cy_daysPerWeek := nullish (cu_daysPerWeek u) (cy_daysPerWeek c),
     cy_totalWeeks := nullish (cu_totalWeeks u) (cy_totalWeeks c)\<rparr>"

definition soft_delete_weeks :: "millis \<Rightarrow> (cycle_week \<Rightarrow> bool) \<Rightarrow> planning_db \<Rightarrow> planning_db" where
  "soft_delete_weeks now p db = db\<lparr>pd_weeks := update_where p (\<lambda>w. w\<lparr>cw_deletedAt := Some now\<rparr>) (pd_weeks db)\<rparr>"

definition update_cycle_repo :: "bool \<Rightarrow> millis \<Rightarrow> uuid \<Rightarrow> cycle_update \<Rightarrow> unit ptx" where
  "update_cycle_repo survives now i u db =
     (let db1 = db\<lparr>pd_cycles := update_where (\<lambda>c. cy_id c = i) (apply_cycle_update u) (pd_cycles db)\<rparr>;
          weeks = nullish (cu_weeks u) []
      in if weeks = [] then Inr ((), db1)
      else let currentWeeks = find_all (\<lambda>w. cw_cycleId w = i \<and> live_week w) (pd_weeks db1);
               newWeekIds = map cw_id weeks;
               weeksToDelete = map cw_id (filter (\<lambda>w. cw_id w \<notin> set newWeekIds) currentWeeks)
      in case save_weeks_safely survives weeks (soft_delete_weeks now (\<lambda>w. cw_id w \<in> set weeksToDelete) db1) of
           Inl e \<Rightarrow> Inl e
         | Inr (usable, db2) \<Rightarrow> Inr ((), if usable then db2 else db))"

definition update_cycle_visibility :: "uuid \<Rightarrow> bool \<Rightarrow> planning_db \<Rightarrow> planning_db" where
  "update_cycle_visibility i isActive db =
     (let db1 = db\<lparr>pd_cycles := update_where (\<lambda>c. cy_id c = i) (\<lambda>c. c\<lparr>cy_isActive := isActive\<rparr>) (pd_cycles db)\<rparr>
      in if isActive then db1 else deactivate_by_cycle_id i db1)"

definition update_week_visibility :: "uuid \<Rightarrow> bool \<Rightarrow> planning_db \<Rightarrow> planning_db" where
  "update_week_visibility i isActive db =
     db\<lparr>pd_weeks := update_where (\<lambda>w. cw_id w = i) (\<lambda>w. w\<lparr>cw_isActive := isActive\<rparr>) (pd_weeks db)\<rparr>"

text \<open>\<open>getCycleWithSyllabus\<close> fails closed: \<open>countFails\<close> says whether the count query fails.\<close>

definition get_cycle_with_syllabus :: "bool \<Rightarrow> uuid \<Rightarrow> planning_db \<Rightarrow> planning_error + (cycle \<times> bool) option" where
  "get_cycle_with_syllabus countFails i db =
     (case find_one (\<lambda>c. cy_id c = i \<and> cy_deletedAt c = None) (pd_cycles db) of
        None \<Rightarrow> Inr None
      | Some c \<Rightarrow>
          if countFails then Inl (InternalServerError CannotVerifySyllabus)
          else Inr (Some (c, count_where (\<lambda>s. sy_cycleId s = i \<and> sy_isActive s) (pd_syllabuses db) > 0)))"

record cycle_usage =
  us_templates :: nat
  us_syllabus :: nat
  us_materials :: nat
  us_materialRequests :: nat

definition get_cycle_usage :: "uuid \<Rightarrow> planning_db \<Rightarrow> cycle_usage" where
  "get_cycle_usage i db =
     \<lparr>us_templates = count_where (\<lambda>t. tp_cycleId t = i) (pd_templates db),
      us_syllabus = count_where (\<lambda>s. sy_cycleId s = i) (pd_syllabuses db),
      us_materials = count_where (\<lambda>m. ma_cycleId m = i) (pd_materials db),
      us_materialRequests = count_where (\<lambda>r. mr_cycleId r = i) (pd_requests db)\<rparr>"

definition soft_delete_cycle :: "millis \<Rightarrow> uuid \<Rightarrow> planning_db \<Rightarrow> planning_db" where
  "soft_delete_cycle now i db =
     soft_delete_weeks now (\<lambda>w. cw_cycleId w = i)
       (db\<lparr>pd_cycles := update_where (\<lambda>c. cy_id c = i) (\<lambda>c. c\<lparr>cy_deletedAt := Some now\<rparr>) (pd_cycles db)\<rparr>)"

text \<open>\<open>ILIKE\<close>, with its wildcards \<open>%\<close> and \<open>_\<close> and the backslash that escapes them.\<close>

fun like :: "string \<Rightarrow> string \<Rightarrow> bool" where
  "like [] s = (s = [])"
| "like (p # ps) s =
     (if p = CHR ''%'' then like ps s \<or> (case s of [] \<Rightarrow> False | _ # s' \<Rightarrow> like (p # ps) s')
      else if p = CHR 0x5C then
        (case ps of [] \<Rightarrow> False | q # qs \<Rightarrow> (case s of [] \<Rightarrow> False | c # s' \<Rightarrow> c = q \<and> like qs s'))
      else (case s of [] \<Rightarrow> False | c # s' \<Rightarrow> (p = CHR ''_'' \<or> c = p) \<and> like ps s'))"

definition ilike :: "string \<Rightarrow> string \<Rightarrow> bool" where
  "ilike pattern s = like (to_lower pattern) (to_lower s)"

definition get_cycles ::
  "nat \<Rightarrow> nat \<Rightarrow> string \<Rightarrow> planning_db \<Rightarrow> (cycle \<times> cycle_week list \<times> nat) list \<times> nat" where
  "get_cycles limit offset search db =
     (let rows = find_all (\<lambda>c. cy_deletedAt c = None \<and>
            (js_trim search = [] \<or> ilike (''%'' @ js_trim search @ ''%'') (cy_name c))) (pd_cycles db);
          page = take limit (drop offset (sort_key (\<lambda>c. - cy_startDate c) rows))
      in (map (\<lambda>c. (c, get_weeks_by_cycle (cy_id c) db,
               count_where (\<lambda>t. tp_cycleId t = cy_id c) (pd_templates db))) page, length rows))"

subsection \<open>Repository: templates\<close>

definition get_templates_by_cycle ::
  "uuid \<Rightarrow> planning_db \<Rightarrow> (material_template \<times> template_course list) list" where
  "get_templates_by_cycle cycleId db =
     map (\<lambda>t. (t, find_all (\<lambda>c. tc_templateId c = tp_id t) (pd_templateCourses db))) (templates_by_cycle cycleId db)"

definition get_template_in_cycle :: "uuid \<Rightarrow> uuid \<Rightarrow> planning_db \<Rightarrow> material_template option" where
  "get_template_in_cycle templateId cycleId db =
     find_one (\<lambda>t. tp_id t = templateId \<and> tp_cycleId t = cycleId) (pd_templates db)"

text \<open>\<open>courseExists\<close> is the foreign key of a course id into the catalog.\<close>

definition insert_template_courses ::
  "(string \<Rightarrow> bool) \<Rightarrow> template_course list \<Rightarrow> planning_db \<Rightarrow> planning_error + planning_db" where
  "insert_template_courses courseExists cs db =
     (if list_all (\<lambda>c. courseExists (tc_courseId c)) cs
      then Inr (db\<lparr>pd_templateCourses := pd_templateCourses db @ cs\<rparr>) else Inl fk_violation)"

definition create_template_repo ::
  "(string \<Rightarrow> bool) \<Rightarrow> material_template \<Rightarrow> template_course list \<Rightarrow> unit ptx" where
  "create_template_repo courseExists t courses db =
     (if tp_cycleId t \<notin> cy_id ` set (pd_cycles db) then Inl fk_violation
      else case insert_template_courses courseExists (map (\<lambda>c. c\<lparr>tc_templateId := tp_id t\<rparr>) courses)
                  (db\<lparr>pd_templates := pd_templates db @ [t]\<rparr>) of
        Inl e \<Rightarrow> Inl e | Inr db' \<Rightarrow> Inr ((), db'))"

record template_update =
  tu_name :: "string option"
  tu_scope :: "string option"
  tu_accumulationWeeks :: "int option"
  tu_courses :: "template_course list option"

definition apply_template_update :: "template_update \<Rightarrow> material_template \<Rightarrow> material_template" where
  "apply_template_update u t = t\<lparr>tp_name := nullish (tu_name u) (tp_name t), tp_scope := nullish (tu_scope u) (tp_scope t),
     tp_accumulationWeeks := (if tu_accumulationWeeks u = None then tp_accumulationWeeks t else tu_accumulationWeeks u)\<rparr>"

definition update_template_repo :: "(string \<Rightarrow> bool) \<Rightarrow> uuid \<Rightarrow> template_update \<Rightarrow> unit ptx" where
  "update_template_repo courseExists templateId u db =
     (let db1 = db\<lparr>pd_templates := update_where (\<lambda>t. tp_id t = templateId) (apply_template_update u) (pd_templates db)\<rparr>
      in case tu_courses u of
           None \<Rightarrow> Inr ((), db1)
         | Some courses \<Rightarrow>
             (case insert_template_courses courseExists (map (\<lambda>c. c\<lparr>tc_templateId := templateId\<rparr>) courses)
                     (db1\<lparr>pd_templateCourses := delete_where (\<lambda>c. tc_templateId c = templateId) (pd_templateCourses db1)\<rparr>) of
                Inl e \<Rightarrow> Inl e | Inr db2 \<Rightarrow> Inr ((), db2)))"

record template_usage =
  tus_syllabus :: nat
  tus_syllabusDistribution :: nat
  tus_materialRequests :: nat
  tus_materials :: nat

definition get_template_usage :: "uuid \<Rightarrow> planning_db \<Rightarrow> template_usage" where
  "get_template_usage i db =
     \<lparr>tus_syllabus = count_where (\<lambda>s. sy_templateId s = Some i) (pd_syllabuses db),
      tus_syllabusDistribution = count_where (\<lambda>d. sd_templateId d = Some i) (pd_distributions db),
      tus_materialRequests = count_where (\<lambda>r. mr_profileId r = i) (pd_requests db),
      tus_materials = count_where (\<lambda>m. ma_profileId m = i) (pd_materials db)\<rparr>"

text \<open>
  The delete, with the actions of the foreign keys into the table: SET NULL on syllabuses and cells, CASCADE on
  materials and requests and from there on their children.
\<close>

definition drop_template :: "uuid \<Rightarrow> planning_db \<Rightarrow> planning_error + planning_db" where
  "drop_template i db =
     (let materials = map ma_id (find_all (\<lambda>m. ma_profileId m = i) (pd_materials db));
          requests = map mr_id (find_all (\<lambda>r. mr_profileId r = i \<or> (\<exists>m\<in>set materials. mr_materialId r = Some m)) (pd_requests db));
          ds = update_where (\<lambda>d. sd_templateId d = Some i) (\<lambda>d. d\<lparr>sd_templateId := None\<rparr>) (pd_distributions db)
      in if \<not> distinct (map cell ds) then Inl unique_violation
      else Inr (db\<lparr>
        pd_templateCourses := delete_where (\<lambda>c. tc_templateId c = i) (pd_templateCourses db),
        pd_templates := delete_where (\<lambda>t. tp_id t = i) (pd_templates db),
        pd_syllabuses := update_where (\<lambda>s. sy_templateId s = Some i) (\<lambda>s. s\<lparr>sy_templateId := None\<rparr>) (pd_syllabuses db),
        pd_distributions := ds,
        pd_materials := update_where (\<lambda>m. \<exists>r\<in>set requests. ma_latestRequestId m = Some r) (\<lambda>m. m\<lparr>ma_latestRequestId := None\<rparr>)
          (delete_where (\<lambda>m. ma_id m \<in> set materials) (pd_materials db)),
        pd_requests := delete_where (\<lambda>r. mr_id r \<in> set requests) (pd_requests db),
        pd_requestCourses := delete_where (\<lambda>c. rc_materialRequestId c \<in> set requests) (pd_requestCourses db),
        pd_reviewQuestions := delete_where (\<lambda>q. rq_materialRequestId q \<in> set requests) (pd_reviewQuestions db),
        pd_usages := delete_where (\<lambda>u. qu_materialRequestId u \<in> set requests) (pd_usages db)\<rparr>))"

subsection \<open>Use case: cycles\<close>

text \<open>One entry of \<open>weeks\<close>.\<close>

definition make_week :: "uuid \<Rightarrow> uuid \<Rightarrow> day \<Rightarrow> int \<Rightarrow> int \<Rightarrow> bool \<Rightarrow> cycle_week" where
  "make_week weekId cycleId start daysPerWeek i isActive =
     (let currentWeekStart = start + (i - 1) * 7 in
      \<lparr>cw_id = weekId, cw_cycleId = cycleId, cw_weekNumber = i, cw_startDate = currentWeekStart,
       cw_endDate = currentWeekStart + (daysPerWeek - 1), cw_isActive = isActive, cw_deletedAt = None\<rparr>)"

record create_cycle_dto =
  ccd_name :: string
  ccd_year :: int
  ccd_startDate :: day
  ccd_daysPerWeek :: int
  ccd_totalWeeks :: int

definition last_end :: "cycle_week list \<Rightarrow> day option" where
  "last_end ws = (if ws = [] then None else Some (cw_endDate (last ws)))"

definition create_cycle :: "bool \<Rightarrow> (nat \<Rightarrow> uuid) \<Rightarrow> create_cycle_dto \<Rightarrow> uuid ptx" where
  "create_cycle survives fresh dto db =
     (let cycleId = fresh 0;
          weeks = map (\<lambda>i. make_week (fresh (nat i)) cycleId (ccd_startDate dto) (ccd_daysPerWeek dto) i True) [1..ccd_totalWeeks dto];
          c = \<lparr>cy_id = cycleId, cy_name = ccd_name dto, cy_year = ccd_year dto, cy_startDate = ccd_startDate dto,
               cy_endDate = last_end weeks, cy_daysPerWeek = ccd_daysPerWeek dto, cy_totalWeeks = ccd_totalWeeks dto,
               cy_isActive = True, cy_deletedAt = None\<rparr>
      in case create_cycle_repo survives c weeks db of Inl e \<Rightarrow> Inl e | Inr (_, db') \<Rightarrow> Inr (cycleId, db'))"

record update_cycle_dto =
  ucd_name :: "string option"
  ucd_year :: "int option"
  ucd_startDate :: "day option"
  ucd_daysPerWeek :: "int option"
  ucd_totalWeeks :: "int option"

definition regrown_week :: "(nat \<Rightarrow> uuid) \<Rightarrow> cycle_week list \<Rightarrow> uuid \<Rightarrow> day \<Rightarrow> int \<Rightarrow> int \<Rightarrow> cycle_week" where
  "regrown_week fresh existingWeeks cycleId start daysPerWeek i =
     (case find_one (\<lambda>w. cw_weekNumber w = i) existingWeeks of
        Some w \<Rightarrow> make_week (cw_id w) cycleId start daysPerWeek i (cw_isActive w)
      | None \<Rightarrow> make_week (fresh (nat i)) cycleId start daysPerWeek i True)"

definition needs_recalculation :: "update_cycle_dto \<Rightarrow> cycle \<Rightarrow> bool" where
  "needs_recalculation dto c \<longleftrightarrow>
     nullish (ucd_startDate dto) (cy_startDate c) \<noteq> cy_startDate c \<or>
     nullish (ucd_daysPerWeek dto) (cy_daysPerWeek c) \<noteq> cy_daysPerWeek c \<or>
     nullish (ucd_totalWeeks dto) (cy_totalWeeks c) \<noteq> cy_totalWeeks c"

definition cycle_update_of :: "(nat \<Rightarrow> uuid) \<Rightarrow> uuid \<Rightarrow> update_cycle_dto \<Rightarrow> cycle \<Rightarrow> planning_db \<Rightarrow> cycle_update" where
  "cycle_update_of fresh i dto c db =
     (let u = \<lparr>cu_name = ucd_name dto, cu_year = ucd_year dto, cu_startDate = ucd_startDate dto, cu_endDate = None,
               cu_daysPerWeek = ucd_daysPerWeek dto, cu_totalWeeks = ucd_totalWeeks dto, cu_weeks = None\<rparr>
      in if \<not> needs_recalculation dto c then u
      else let weeks = map (regrown_week fresh (get_weeks_by_cycle i db) i (nullish (ucd_startDate dto) (cy_startDate c))
                          (nullish (ucd_daysPerWeek dto) (cy_daysPerWeek c)))
                       [1..nullish (ucd_totalWeeks dto) (cy_totalWeeks c)]
      in u\<lparr>cu_weeks := Some weeks, cu_endDate := last_end weeks\<rparr>)"

definition update_cycle ::
  "bool \<Rightarrow> bool \<Rightarrow> (nat \<Rightarrow> uuid) \<Rightarrow> millis \<Rightarrow> uuid \<Rightarrow> update_cycle_dto \<Rightarrow> unit ptx" where
  "update_cycle countFails survives fresh now i dto db =
     (case get_cycle_with_syllabus countFails i db of
        Inl e \<Rightarrow> Inl e
      | Inr None \<Rightarrow> Inl (NotFound CycleNotFound)
      | Inr (Some (c, hasSyllabus)) \<Rightarrow>
          if needs_recalculation dto c \<and> hasSyllabus then Inl (Conflict CycleHasSyllabus)
          else update_cycle_repo survives now i (cycle_update_of fresh i dto c db) db)"

definition delete_cycle :: "millis \<Rightarrow> uuid \<Rightarrow> unit ptx" where
  "delete_cycle now i db =
     (let u = get_cycle_usage i db in
      if us_templates u > 0 \<or> us_syllabus u > 0 \<or> us_materials u > 0 \<or> us_materialRequests u > 0
      then Inl (Conflict (CycleInUse (us_templates u) (us_syllabus u) (us_materials u) (us_materialRequests u)))
      else Inr ((), soft_delete_cycle now i db))"

subsection \<open>Use case: templates\<close>

record course_dto =
  co_courseId :: string
  co_questionsQuantity :: int
  co_easyCount :: "int option"
  co_mediumCount :: "int option"
  co_hardCount :: "int option"

text \<open>\<open>validateAndMapCourses\<close>; the template of a row is filled in by the repository.\<close>

fun validate_and_map_courses ::
  "(nat \<Rightarrow> uuid) \<Rightarrow> nat \<Rightarrow> course_dto list \<Rightarrow> planning_error + template_course list" where
  "validate_and_map_courses fresh k [] = Inr []"
| "validate_and_map_courses fresh k (c # cs) =
     (let easy = nullish (co_easyCount c) 0; medium = nullish (co_mediumCount c) 0; hard = nullish (co_hardCount c) 0 in
      if easy + medium + hard \<noteq> co_questionsQuantity c
      then Inl (BadRequest (CountsDoNotAddUp (co_courseId c) easy medium hard (co_questionsQuantity c)))
      else case validate_and_map_courses fresh (Suc k) cs of
        Inl e \<Rightarrow> Inl e
      | Inr rows \<Rightarrow> Inr (\<lparr>tc_id = fresh k, tc_templateId = [], tc_courseId = co_courseId c,
                         tc_questionsQuantity = co_questionsQuantity c, tc_easyCount = easy,
                         tc_mediumCount = medium, tc_hardCount = hard\<rparr> # rows))"

record create_template_dto =
  ct_name :: string
  ct_scope :: string
  ct_accumulationWeeks :: "int option"
  ct_courses :: "course_dto list"

definition create_template ::
  "(string \<Rightarrow> bool) \<Rightarrow> bool \<Rightarrow> (nat \<Rightarrow> uuid) \<Rightarrow> uuid \<Rightarrow> create_template_dto \<Rightarrow> uuid ptx" where
  "create_template courseExists countFails fresh cycleId dto db =
     (case get_cycle_with_syllabus countFails cycleId db of
        Inl e \<Rightarrow> Inl e
      | Inr None \<Rightarrow> Inl (NotFound CycleNotFound)
      | Inr (Some _) \<Rightarrow>
          (case validate_and_map_courses fresh 1 (ct_courses dto) of
             Inl e \<Rightarrow> Inl e
           | Inr courses \<Rightarrow>
               (case create_template_repo courseExists \<lparr>tp_id = fresh 0, tp_cycleId = cycleId, tp_name = ct_name dto,
                        tp_scope = ct_scope dto, tp_accumulationWeeks = ct_accumulationWeeks dto\<rparr> courses db of
                  Inl e \<Rightarrow> Inl e | Inr (_, db') \<Rightarrow> Inr (fresh 0, db'))))"

record update_template_dto =
  ut_name :: "string option"
  ut_scope :: "string option"
  ut_accumulationWeeks :: "int option"
  ut_courses :: "course_dto list option"

definition update_template ::
  "(string \<Rightarrow> bool) \<Rightarrow> (nat \<Rightarrow> uuid) \<Rightarrow> uuid \<Rightarrow> uuid \<Rightarrow> update_template_dto \<Rightarrow> unit ptx" where
  "update_template courseExists fresh cycleId templateId dto db =
     (if get_template_in_cycle templateId cycleId db = None then Inl (NotFound TemplateNotInCycle)
      else let u = \<lparr>tu_name = ut_name dto, tu_scope = ut_scope dto, tu_accumulationWeeks = ut_accumulationWeeks dto, tu_courses = None\<rparr>
      in case ut_courses dto of
           None \<Rightarrow> update_template_repo courseExists templateId u db
         | Some cs \<Rightarrow>
             (case validate_and_map_courses fresh 0 cs of
                Inl e \<Rightarrow> Inl e
              | Inr rows \<Rightarrow> update_template_repo courseExists templateId (u\<lparr>tu_courses := Some rows\<rparr>) db))"

definition delete_template :: "uuid \<Rightarrow> uuid \<Rightarrow> unit ptx" where
  "delete_template cycleId templateId db =
     (if get_template_in_cycle templateId cycleId db = None then Inl (NotFound TemplateNotInCycle)
      else let u = get_template_usage templateId db in
      if tus_syllabus u > 0 \<or> tus_syllabusDistribution u > 0 \<or> tus_materialRequests u > 0 \<or> tus_materials u > 0
      then Inl (Conflict (TemplateInUse (tus_syllabus u) (tus_syllabusDistribution u) (tus_materialRequests u) (tus_materials u)))
      else case drop_template templateId db of Inl e \<Rightarrow> Inl e | Inr db' \<Rightarrow> Inr ((), db'))"

end
