(* ===== verification/AcademicLaws.thy ===== *)
theory AcademicLaws
  imports AcademicTime
begin

text \<open>
  The academic calendar: the weeks of a live cycle are always the ones its start date, length of week and number
  of weeks determine; a regrow keeps the identity of the weeks that remain; deletions are guarded; the counts
  of a material template add up.
\<close>

subsection \<open>Saving weeks\<close>

lemma overwrite_week_same [simp]:
  "live_week w \<Longrightarrow> live_week r \<Longrightarrow> cw_id r = cw_id w \<Longrightarrow> overwrite_week w r = w"
  by (cases w, cases r) (simp add: overwrite_week_def live_week_def)

text \<open>The rows \<open>ws\<close> may be saved into \<open>t\<close>: their ids are new or those of the same live week, their numbers free.\<close>

definition week_fits :: "uuid \<Rightarrow> cycle_week \<Rightarrow> cycle_week \<Rightarrow> bool" where
  "week_fits cid w r \<longleftrightarrow> (cw_id r = cw_id w \<longleftrightarrow> live_week r \<and> cw_cycleId r = cid \<and> cw_weekNumber r = cw_weekNumber w)"

definition savable :: "uuid \<Rightarrow> cycle_week list \<Rightarrow> cycle_week list \<Rightarrow> bool" where
  "savable cid ws t \<longleftrightarrow> (\<forall>w\<in>set ws. cw_cycleId w = cid \<and> live_week w) \<and> distinct (map cw_id ws) \<and> distinct (map cw_weekNumber ws) \<and>
     (\<forall>w\<in>set ws. \<forall>r\<in>set t. week_fits cid w r)"

lemma save_week_savable:
  assumes "savable cid (w # ws) (pd_weeks db)" and "cid \<in> cy_id ` set (pd_cycles db)" and "distinct (map cw_id (pd_weeks db))"
  shows "\<exists>t. save_week w db = Inr (db\<lparr>pd_weeks := t\<rparr>) \<and> set t = insert w {r \<in> set (pd_weeks db). cw_id r \<noteq> cw_id w} \<and>
    distinct (map cw_id t)"
proof -
  from assms(1) have w: "cw_cycleId w = cid" "live_week w" and fits: "\<forall>r\<in>set (pd_weeks db). week_fits cid w r"
    by (simp_all add: savable_def)
  have same: "live_week r" if "r \<in> set (pd_weeks db)" "cw_id r = cw_id w" for r
    using bspec [OF fits that(1)] that(2) by (simp add: week_fits_def)
  have "cw_id r = cw_id w" if "r \<in> set (pd_weeks db)" "live_week r \<and> cw_cycleId r = cid \<and> cw_weekNumber r = cw_weekNumber w" for r
    using bspec [OF fits that(1)] that(2) by (simp only: week_fits_def)
  then have nc: "\<not> week_clash w (pd_weeks db)" using w unfolding week_clash_def list_ex_iff by blast
  show ?thesis
  proof (cases "find_one (\<lambda>r. cw_id r = cw_id w) (pd_weeks db)")
    case None
    with w nc assms(2) have "save_week w db = Inr (db\<lparr>pd_weeks := pd_weeks db @ [w]\<rparr>)" by (simp add: save_week_def)
    with None assms(3) show ?thesis by (intro exI [of _ "pd_weeks db @ [w]"]) (auto simp: find_one_None)
  next
    case (Some r)
    from find_one_Some [OF Some] have r: "r \<in> set (pd_weeks db)" "cw_id r = cw_id w" by auto
    with same w have "overwrite_week w r = w" by simp
    with Some nc w assms(2) have s: "save_week w db = Inr (db\<lparr>pd_weeks := update_where (\<lambda>r. cw_id r = cw_id w) (overwrite_week w) (pd_weeks db)\<rparr>)"
      by (simp add: save_week_def)
    have t: "update_where (\<lambda>r. cw_id r = cw_id w) (overwrite_week w) (pd_weeks db) = map (\<lambda>r. if cw_id r = cw_id w then w else r) (pd_weeks db)"
      unfolding update_where_def using same w by (intro map_cong) auto
    have "map cw_id (map (\<lambda>r. if cw_id r = cw_id w then w else r) (pd_weeks db)) = map cw_id (pd_weeks db)"
      unfolding map_map by (intro map_cong) auto
    then have "distinct (map cw_id (map (\<lambda>r. if cw_id r = cw_id w then w else r) (pd_weeks db)))" using assms(3) by (simp only:)
    moreover have "set (map (\<lambda>r. if cw_id r = cw_id w then w else r) (pd_weeks db)) = insert w {r \<in> set (pd_weeks db). cw_id r \<noteq> cw_id w}"
      using r by auto
    ultimately show ?thesis using s t by (intro exI [of _ "map (\<lambda>r. if cw_id r = cw_id w then w else r) (pd_weeks db)"]) simp
  qed
qed

lemma save_weeks_savable:
  assumes "savable cid ws (pd_weeks db)" and "cid \<in> cy_id ` set (pd_cycles db)" and "distinct (map cw_id (pd_weeks db))"
  shows "\<exists>t. (\<forall>sv. save_weeks_safely sv ws db = Inr (True, db\<lparr>pd_weeks := t\<rparr>)) \<and>
    set t = {r \<in> set (pd_weeks db). cw_id r \<notin> cw_id ` set ws} \<union> set ws \<and> distinct (map cw_id t)"
  using assms
proof (induction ws arbitrary: db)
  case Nil
  then show ?case by (auto intro!: exI [of _ "pd_weeks db"])
next
  case (Cons w ws)
  from save_week_savable [OF Cons.prems] obtain t where t: "save_week w db = Inr (db\<lparr>pd_weeks := t\<rparr>)"
    "set t = insert w {r \<in> set (pd_weeks db). cw_id r \<noteq> cw_id w}" "distinct (map cw_id t)" by blast
  have "week_fits cid w' w" if "w' \<in> set ws" for w'
    using that Cons.prems(1) by (auto simp: savable_def week_fits_def image_iff)
  with Cons.prems(1) have "savable cid ws t" unfolding savable_def t(2) by (simp add: ball_Un)
  with Cons.IH [of "db\<lparr>pd_weeks := t\<rparr>"] Cons.prems(2) t(3) obtain t' where
    t': "\<And>sv. save_weeks_safely sv ws (db\<lparr>pd_weeks := t\<rparr>) = Inr (True, db\<lparr>pd_weeks := t'\<rparr>)"
      "set t' = {r \<in> set t. cw_id r \<notin> cw_id ` set ws} \<union> set ws" "distinct (map cw_id t')" by auto
  moreover have "cw_id w \<notin> cw_id ` set ws" using Cons.prems(1) by (auto simp: savable_def)
  ultimately show ?case using t by (intro exI [of _ t']) auto
qed

subsection \<open>The calendar\<close>

text \<open>Week \<open>i\<close> of a cycle, by number, start and end.\<close>

definition week_dates :: "cycle \<Rightarrow> int \<Rightarrow> int \<times> day \<times> day" where
  "week_dates c i = (i, cy_startDate c + 7 * (i - 1), cy_startDate c + 7 * (i - 1) + cy_daysPerWeek c - 1)"

definition dates_of :: "cycle_week \<Rightarrow> int \<times> day \<times> day" where
  "dates_of w = (cw_weekNumber w, cw_startDate w, cw_endDate w)"

definition weeks_of :: "uuid \<Rightarrow> planning_db \<Rightarrow> cycle_week set" where
  "weeks_of i db = {w \<in> set (pd_weeks db). cw_cycleId w = i \<and> live_week w}"

definition cycle_ok :: "planning_db \<Rightarrow> cycle \<Rightarrow> bool" where
  "cycle_ok db c \<longleftrightarrow> 1 \<le> cy_totalWeeks c \<and> dates_of ` weeks_of (cy_id c) db = week_dates c ` {1..cy_totalWeeks c} \<and>
     inj_on cw_weekNumber (weeks_of (cy_id c) db) \<and>
     cy_endDate c = Some (snd (snd (week_dates c (cy_totalWeeks c))))"

definition calendar_ok :: "planning_db \<Rightarrow> bool" where
  "calendar_ok db \<longleftrightarrow> distinct (map cw_id (pd_weeks db)) \<and> distinct (map cy_id (pd_cycles db)) \<and>
     (\<forall>w\<in>set (pd_weeks db). cw_cycleId w \<in> cy_id ` set (pd_cycles db)) \<and>
     (\<forall>c\<in>set (pd_cycles db). cy_deletedAt c = None \<longrightarrow> cycle_ok db c)"

definition fresh_for :: "(nat \<Rightarrow> uuid) \<Rightarrow> planning_db \<Rightarrow> bool" where
  "fresh_for fresh db \<longleftrightarrow> inj fresh \<and> (\<forall>k. fresh k \<notin> cw_id ` set (pd_weeks db) \<union> cy_id ` set (pd_cycles db))"

lemma make_week_simps [simp]:
  "cw_id (make_week w c s d i a) = w" "cw_cycleId (make_week w c s d i a) = c" "cw_weekNumber (make_week w c s d i a) = i"
  "cw_isActive (make_week w c s d i a) = a" "live_week (make_week w c s d i a)"
  "dates_of (make_week w c s d i a) = (i, s + 7 * (i - 1), s + 7 * (i - 1) + d - 1)"
  "cw_endDate (make_week w c s d i a) = s + 7 * (i - 1) + d - 1"
  by (simp_all add: make_week_def Let_def live_week_def dates_of_def)

lemma set_get_weeks_by_cycle [simp]: "set (get_weeks_by_cycle i db) = weeks_of i db"
  by (auto simp: get_weeks_by_cycle_def weeks_of_def table_simps)

lemma last_upto: "1 \<le> n \<Longrightarrow> last [1..n] = (n :: int)"
  by (simp add: upto_rec2)

lemma last_end_map:
  "1 \<le> n \<Longrightarrow> last_end (map f [1..n]) = Some (cw_endDate (f n))"
  by (simp add: last_end_def last_map last_upto)

lemma week_dates_inj [simp]: "week_dates c i = week_dates c j \<longleftrightarrow> i = j"
  by (simp add: week_dates_def)

text \<open>The weeks read back in order are exactly the calendar.\<close>

lemma cycle_ok_weeks:
  assumes "cycle_ok db c" and "distinct (map cw_id (pd_weeks db))"
  shows "map dates_of (get_weeks_by_cycle (cy_id c) db) = map (week_dates c) [1..cy_totalWeeks c]"
proof -
  let ?ws = "get_weeks_by_cycle (cy_id c) db"
  have num: "cw_weekNumber w = fst (dates_of w)" for w by (simp add: dates_of_def)
  have "cw_weekNumber ` weeks_of (cy_id c) db = fst ` dates_of ` weeks_of (cy_id c) db" by (simp add: image_image num)
  also have "\<dots> = {1..cy_totalWeeks c}" using assms(1) by (simp add: cycle_ok_def image_image week_dates_def)
  finally have s: "set (map cw_weekNumber ?ws) = set [1..cy_totalWeeks c]" by simp
  have "distinct ?ws" using assms(2) by (simp add: get_weeks_by_cycle_def find_all_def distinct_map)
  then have "distinct (map cw_weekNumber ?ws)" using assms(1) by (simp add: distinct_map cycle_ok_def)
  then have e: "map cw_weekNumber ?ws = [1..cy_totalWeeks c]"
    using s by (intro sorted_distinct_set_unique) (simp_all add: get_weeks_by_cycle_def)
  have "dates_of w = week_dates c (cw_weekNumber w)" if "w \<in> set ?ws" for w
  proof -
    from that assms(1) have "dates_of w \<in> week_dates c ` {1..cy_totalWeeks c}" by (auto simp: cycle_ok_def)
    then show ?thesis by (auto simp: dates_of_def week_dates_def)
  qed
  then have "map dates_of ?ws = map (week_dates c) (map cw_weekNumber ?ws)" by simp
  then show ?thesis by (simp only: e)
qed

subsection \<open>Creating and regrowing\<close>

lemma cycle_ok_of_rows:
  assumes "weeks_of (cy_id c) db = f ` {1..cy_totalWeeks c}" and "\<And>k. dates_of (f k) = week_dates c k"
    and "1 \<le> cy_totalWeeks c" and "cy_endDate c = Some (snd (snd (week_dates c (cy_totalWeeks c))))"
  shows "cycle_ok db c"
proof -
  have "cw_weekNumber (f k) = k" for k using assms(2) [of k] by (simp add: dates_of_def week_dates_def)
  then have "inj_on cw_weekNumber (weeks_of (cy_id c) db)" by (auto simp: assms(1) inj_on_def)
  then show ?thesis using assms by (simp add: cycle_ok_def image_image)
qed

lemma create_cycle_ok:
  assumes "calendar_ok db" and "fresh_for fresh db" and "1 \<le> ccd_totalWeeks dto"
  shows "\<exists>db'. create_cycle sv fresh dto db = Inr (fresh 0, db') \<and> calendar_ok db'"
proof -
  let ?f = "\<lambda>k. make_week (fresh (nat k)) (fresh 0) (ccd_startDate dto) (ccd_daysPerWeek dto) k True"
  let ?n = "ccd_totalWeeks dto"
  let ?ws = "map ?f [1..?n]"
  let ?c = "\<lparr>cy_id = fresh 0, cy_name = ccd_name dto, cy_year = ccd_year dto, cy_startDate = ccd_startDate dto,
               cy_endDate = last_end ?ws, cy_daysPerWeek = ccd_daysPerWeek dto, cy_totalWeeks = ?n, cy_isActive = True, cy_deletedAt = None\<rparr>"
  let ?db1 = "db\<lparr>pd_cycles := pd_cycles db @ [?c]\<rparr>"
  from assms(2) have inj: "inj fresh" and new: "\<And>k. fresh k \<notin> cw_id ` set (pd_weeks db)" "\<And>k. fresh k \<notin> cy_id ` set (pd_cycles db)"
    by (auto simp: fresh_for_def)
  from assms(1) have old: "\<And>w. w \<in> set (pd_weeks db) \<Longrightarrow> cw_cycleId w \<in> cy_id ` set (pd_cycles db)"
    and dist: "distinct (map cw_id (pd_weeks db))" by (auto simp: calendar_ok_def)
  have ins: "insert_cycle ?c db = Inr ?db1" using new(2) [of 0] assms(3) by (simp add: insert_cycle_def last_end_def)
  have fits: "week_fits (fresh 0) (?f k) r" if "r \<in> set (pd_weeks db)" for k r
  proof -
    have "cw_id r \<noteq> fresh (nat k)" "cw_cycleId r \<noteq> fresh 0" using that new(1) [of "nat k"] new(2) [of 0] old [OF that] by force+
    then show ?thesis by (simp add: week_fits_def)
  qed
  have "distinct (map cw_id ?ws)" 
    unfolding map_map distinct_map by (auto intro!: inj_onI dest!: injD [OF inj])
  then have ok: "savable (fresh 0) ?ws (pd_weeks ?db1)"
    using fits by (simp add: savable_def comp_def)
  have "fresh 0 \<in> cy_id ` set (pd_cycles ?db1)" "distinct (map cw_id (pd_weeks ?db1))" using dist by simp_all
  from save_weeks_savable [OF ok this] obtain t where t: "\<And>sv. save_weeks_safely sv ?ws ?db1 = Inr (True, ?db1\<lparr>pd_weeks := t\<rparr>)"
    "set t = {r \<in> set (pd_weeks ?db1). cw_id r \<notin> cw_id ` set ?ws} \<union> set ?ws" "distinct (map cw_id t)" by blast
  let ?db' = "?db1\<lparr>pd_weeks := t\<rparr>"
  have "cw_id r \<notin> cw_id ` set ?ws" if "r \<in> set (pd_weeks db)" for r
  proof
    assume "cw_id r \<in> cw_id ` set ?ws"
    then obtain k where "cw_id r = fresh k" by auto
    with new(1) [of k] imageI [OF that, of cw_id] show False by simp
  qed
  then have "{r \<in> set (pd_weeks ?db1). cw_id r \<notin> cw_id ` set ?ws} = set (pd_weeks db)" by (simp cong: conj_cong)
  then have st: "set t = set (pd_weeks db) \<union> ?f ` {1..?n}" using t(2) by simp
  have "create_cycle sv fresh dto db = Inr (fresh 0, ?db')"
    by (simp add: create_cycle_def Let_def create_cycle_repo_def ins t(1))
  moreover have new_ok: "cycle_ok ?db' ?c"
  proof (rule cycle_ok_of_rows [where f = ?f])
    have "cw_cycleId r \<noteq> fresh 0" if "r \<in> set (pd_weeks db)" for r using old [OF that] new(2) [of 0] by metis
    then show "weeks_of (cy_id ?c) ?db' = ?f ` {1..cy_totalWeeks ?c}" by (auto simp: weeks_of_def st)
    show "dates_of (?f k) = week_dates ?c k" for k by (simp add: week_dates_def)
    show "cy_endDate ?c = Some (snd (snd (week_dates ?c (cy_totalWeeks ?c))))"
      using assms(3) by (simp add: last_end_map week_dates_def)
  qed (use assms(3) in simp)
  have old_ok: "cycle_ok ?db' c" if c: "c \<in> set (pd_cycles db)" "cy_deletedAt c = None" for c
  proof -
    have "cy_id c \<noteq> fresh 0" using c(1) new(2) [of 0] by (metis imageI)
    then have "weeks_of (cy_id c) ?db' = weeks_of (cy_id c) db" by (auto simp: weeks_of_def st)
    moreover have "cycle_ok db c" using assms(1) c by (simp add: calendar_ok_def)
    ultimately show ?thesis by (simp only: cycle_ok_def)
  qed
  have "calendar_ok ?db'"
    unfolding calendar_ok_def
  proof (intro conjI ballI impI)
    show "distinct (map cw_id (pd_weeks ?db'))" using t(3) by simp
    show "distinct (map cy_id (pd_cycles ?db'))" using assms(1) new(2) [of 0] by (simp add: calendar_ok_def)
    show "cw_cycleId w \<in> cy_id ` set (pd_cycles ?db')" if "w \<in> set (pd_weeks ?db')" for w
    proof (cases "w \<in> set (pd_weeks db)")
      case True
      from old [OF this] show ?thesis by auto
    next
      case False
      with that show ?thesis by (auto simp: st)
    qed
    show "cycle_ok ?db' c" if "c \<in> set (pd_cycles ?db')" "cy_deletedAt c = None" for c
      using that old_ok new_ok by auto
  qed
  ultimately show ?thesis by blast
qed

definition drop_others :: "millis \<Rightarrow> uuid \<Rightarrow> uuid set \<Rightarrow> cycle_week \<Rightarrow> cycle_week" where
  "drop_others now i ids r = (if live_week r \<and> cw_cycleId r = i \<and> cw_id r \<notin> ids then r\<lparr>cw_deletedAt := Some now\<rparr> else r)"

lemma drop_others_id [simp]: "cw_id (drop_others now i ids r) = cw_id r" "cw_cycleId (drop_others now i ids r) = cw_cycleId r"
  "cw_weekNumber (drop_others now i ids r) = cw_weekNumber r"
  by (simp_all add: drop_others_def)

lemma drop_others_live [simp]:
  "live_week (drop_others now i ids r) \<longleftrightarrow> live_week r \<and> \<not> (cw_cycleId r = i \<and> cw_id r \<notin> ids)"
  by (auto simp: drop_others_def live_week_def)

lemma soft_deleted_rows:
  assumes "distinct (map cw_id (pd_weeks db))"
  shows "pd_weeks (soft_delete_weeks now (\<lambda>w. cw_id w \<in> set (map cw_id (filter (\<lambda>w. cw_id w \<notin> ids)
      (find_all (\<lambda>w. cw_cycleId w = i \<and> live_week w) (pd_weeks db))))) db) = map (drop_others now i ids) (pd_weeks db)"
proof -
  have "cw_id r \<in> set (map cw_id (filter (\<lambda>w. cw_id w \<notin> ids) (find_all (\<lambda>w. cw_cycleId w = i \<and> live_week w) (pd_weeks db)))) \<longleftrightarrow>
      live_week r \<and> cw_cycleId r = i \<and> cw_id r \<notin> ids" if "r \<in> set (pd_weeks db)" for r
    using assms that by (auto simp: distinct_map find_all_def dest: inj_onD)
  then show ?thesis unfolding soft_delete_weeks_def update_where_def drop_others_def by (simp cong: map_cong)
qed

text \<open>The week a number gets in a regrow: the live one it has, or a new one.\<close>

lemma regrown_week_cases:
  assumes "inj_on cw_weekNumber (weeks_of i db)"
  obtains (kept) w where "w \<in> weeks_of i db" "cw_weekNumber w = k"
      "regrown_week fresh (get_weeks_by_cycle i db) i s d k = make_week (cw_id w) i s d k (cw_isActive w)"
    | (new) "\<forall>w\<in>weeks_of i db. cw_weekNumber w \<noteq> k"
      "regrown_week fresh (get_weeks_by_cycle i db) i s d k = make_week (fresh (nat k)) i s d k True"
proof (cases "find_one (\<lambda>w. cw_weekNumber w = k) (get_weeks_by_cycle i db)")
  case None
  have "\<forall>w\<in>weeks_of i db. cw_weekNumber w \<noteq> k" using None [unfolded find_one_None] by simp
  then show ?thesis by (rule new) (simp add: regrown_week_def None)
next
  case (Some w)
  with find_one_Some [OF Some] kept [of w] show ?thesis by (simp add: regrown_week_def)
qed

lemma regrow_save:
  fixes s d n :: int
  assumes dist: "distinct (map cw_id (pd_weeks db))" and fresh: "fresh_for fresh db" and inj: "inj_on cw_weekNumber (weeks_of i db)"
    and cyc: "i \<in> cy_id ` set (pd_cycles db)"
    and f: "f = regrown_week fresh (get_weeks_by_cycle i db) i s d"
    and ids: "ids = cw_id ` f ` {1..n}"
    and db2: "pd_cycles db2 = pd_cycles db" "pd_weeks db2 = map (drop_others now i ids) (pd_weeks db)"
  shows "\<exists>t. (\<forall>sv. save_weeks_safely sv (map f [1..n]) db2 = Inr (True, db2\<lparr>pd_weeks := t\<rparr>)) \<and>
    set t = {r \<in> set (pd_weeks db2). cw_id r \<notin> ids} \<union> f ` {1..n} \<and> distinct (map cw_id t)"
proof -
  have new: "inj fresh" "\<And>k. fresh k \<notin> cw_id ` set (pd_weeks db)" using fresh by (auto simp: fresh_for_def)
  have idinj: "inj_on cw_id (set (pd_weeks db))" using dist by (simp add: distinct_map)
  have shape: "cw_cycleId (f k) = i" "live_week (f k)" "cw_weekNumber (f k) = k" for k
    by (cases rule: regrown_week_cases [OF inj, of k fresh s d]; simp add: f)+
  have id_f: "(\<exists>w\<in>weeks_of i db. cw_weekNumber w = k \<and> cw_id (f k) = cw_id w) \<or>
      (\<forall>w\<in>weeks_of i db. cw_weekNumber w \<noteq> k) \<and> cw_id (f k) = fresh (nat k)" for k
    by (cases rule: regrown_week_cases [OF inj, of k fresh s d]) (auto simp: f)
  have idk: "j = k" if "cw_id (f j) = cw_id (f k)" "1 \<le> j" "1 \<le> k" for j k
    using id_f [of j] id_f [of k] that new idinj
    by (auto simp: weeks_of_def inj_eq image_iff dest: inj_onD) (metis inj_onD)+
  have fits: "week_fits i (f k) r" if k: "k \<in> {1..n}" and r: "r \<in> set (pd_weeks db2)" for k r
  proof -
    from r db2(2) obtain r0 where r0: "r0 \<in> set (pd_weeks db)" "r = drop_others now i ids r0" by auto
    from k have kid: "cw_id (f k) \<in> ids" by (simp add: ids)
    show ?thesis
    proof (cases "\<exists>w\<in>weeks_of i db. cw_weekNumber w = k")
      case True
      then obtain w where w: "w \<in> weeks_of i db" "cw_weekNumber w = k" "cw_id (f k) = cw_id w" using id_f [of k] by blast
      have "cw_id r0 = cw_id w \<longleftrightarrow> r0 = w" using idinj r0(1) w(1) by (auto simp: weeks_of_def dest: inj_onD)
      moreover have "live_week r0 \<and> cw_cycleId r0 = i \<and> cw_weekNumber r0 = k \<longleftrightarrow> r0 = w"
        using inj r0(1) w by (auto simp: weeks_of_def dest: inj_onD)
      ultimately show ?thesis using kid w(3) by (auto simp: week_fits_def r0(2) shape)
    next
      case False
      then have "cw_id (f k) = fresh (nat k)" using id_f [of k] by blast
      moreover have "fresh (nat k) \<noteq> cw_id r0" using new(2) [of "nat k"] r0(1) by force
      moreover have "\<not> (live_week r0 \<and> cw_cycleId r0 = i \<and> cw_weekNumber r0 = k)" using False r0(1) by (auto simp: weeks_of_def)
      ultimately show ?thesis by (auto simp: week_fits_def r0(2) shape)
    qed
  qed
  have "distinct (map cw_id (map f [1..n]))"
    unfolding map_map distinct_map by (auto simp: inj_on_def dest: idk)
  then have ok: "savable i (map f [1..n]) (pd_weeks db2)"
    using fits by (simp add: savable_def shape comp_def)
  have "i \<in> cy_id ` set (pd_cycles db2)" using cyc by (simp add: db2)
  moreover have "distinct (map cw_id (pd_weeks db2))" using dist by (simp add: db2 comp_def)
  ultimately show ?thesis using save_weeks_savable [OF ok] by (simp add: ids)
qed

text \<open>A successful update of a cycle: its row is updated, and when the dates change its weeks are regrown.\<close>

lemma update_cycle_Inr:
  assumes ok: "calendar_ok db" and fresh: "fresh_for fresh db"
    and upd: "update_cycle cf sv fresh now i dto db = Inr (u, db')"
  obtains (same) c where "c \<in> set (pd_cycles db)" "cy_id c = i" "cy_deletedAt c = None" "\<not> needs_recalculation dto c"
      "db' = db\<lparr>pd_cycles := update_where (\<lambda>c. cy_id c = i) (apply_cycle_update (cycle_update_of fresh i dto c db)) (pd_cycles db)\<rparr>"
      "\<And>sv'. update_cycle cf sv' fresh now i dto db = Inr ((), db')"
    | (empty) c where "c \<in> set (pd_cycles db)" "cy_id c = i" "cy_deletedAt c = None" "needs_recalculation dto c"
      "nullish (ucd_totalWeeks dto) (cy_totalWeeks c) < 1"
    | (regrown) c f t where "c \<in> set (pd_cycles db)" "cy_id c = i" "cy_deletedAt c = None" "needs_recalculation dto c"
      "1 \<le> nullish (ucd_totalWeeks dto) (cy_totalWeeks c)"
      "f = regrown_week fresh (get_weeks_by_cycle i db) i (nullish (ucd_startDate dto) (cy_startDate c)) (nullish (ucd_daysPerWeek dto) (cy_daysPerWeek c))"
      "db' = db\<lparr>pd_cycles := update_where (\<lambda>c. cy_id c = i) (apply_cycle_update (cycle_update_of fresh i dto c db)) (pd_cycles db), pd_weeks := t\<rparr>"
      "set t = {r \<in> drop_others now i (cw_id ` f ` {1..nullish (ucd_totalWeeks dto) (cy_totalWeeks c)}) ` set (pd_weeks db).
         cw_id r \<notin> cw_id ` f ` {1..nullish (ucd_totalWeeks dto) (cy_totalWeeks c)}} \<union> f ` {1..nullish (ucd_totalWeeks dto) (cy_totalWeeks c)}"
      "distinct (map cw_id t)" "\<And>sv'. update_cycle cf sv' fresh now i dto db = Inr ((), db')"
proof -
  from upd obtain c h where c0: "find_one (\<lambda>c. cy_id c = i \<and> cy_deletedAt c = None) (pd_cycles db) = Some c"
    and g: "get_cycle_with_syllabus cf i db = Inr (Some (c, h))"
    and nh: "\<not> (needs_recalculation dto c \<and> h)"
    by (auto simp: update_cycle_def get_cycle_with_syllabus_def split: option.splits if_splits)
  from find_one_Some [OF c0] have c: "c \<in> set (pd_cycles db)" "cy_id c = i" "cy_deletedAt c = None" by auto
  have step: "update_cycle cf sv' fresh now i dto db = update_cycle_repo sv' now i (cycle_update_of fresh i dto c db) db" for sv'
    using g nh by (auto simp: update_cycle_def)
  let ?n = "nullish (ucd_totalWeeks dto) (cy_totalWeeks c)"
  let ?f = "regrown_week fresh (get_weeks_by_cycle i db) i (nullish (ucd_startDate dto) (cy_startDate c)) (nullish (ucd_daysPerWeek dto) (cy_daysPerWeek c))"
  let ?u = "cycle_update_of fresh i dto c db"
  let ?db1 = "db\<lparr>pd_cycles := update_where (\<lambda>c. cy_id c = i) (apply_cycle_update ?u) (pd_cycles db)\<rparr>"
  consider "\<not> needs_recalculation dto c" | "needs_recalculation dto c" "?n < 1" | "needs_recalculation dto c" "1 \<le> ?n" by linarith
  then show ?thesis
  proof cases
    case 1
    then have all: "update_cycle cf sv' fresh now i dto db = Inr ((), ?db1)" for sv'
      by (simp add: step update_cycle_repo_def cycle_update_of_def Let_def)
    then have "db' = ?db1" using upd by simp
    with all show ?thesis by (intro same [OF c 1]) simp_all
  next
    case 2
    with empty [OF c] show ?thesis .
  next
    case 3
    let ?ws = "map ?f [1..?n]"
    let ?ids = "cw_id ` ?f ` {1..?n}"
    have uw: "cu_weeks ?u = Some ?ws" using 3 by (simp add: cycle_update_of_def Let_def)
    have dist: "distinct (map cw_id (pd_weeks ?db1))" using ok by (simp add: calendar_ok_def)
    have "map cy_id (pd_cycles ?db1) = map cy_id (pd_cycles db)" by (simp add: map_update_where_key apply_cycle_update_def)
    then have cy: "cy_id ` set (pd_cycles ?db1) = cy_id ` set (pd_cycles db)" by (metis list.set_map)
    let ?db2 = "soft_delete_weeks now (\<lambda>w. cw_id w \<in> set (map cw_id (filter (\<lambda>w. cw_id w \<notin> set (map cw_id ?ws))
      (find_all (\<lambda>w. cw_cycleId w = i \<and> live_week w) (pd_weeks ?db1))))) ?db1"
    have ids: "set (map cw_id ?ws) = ?ids" by (simp add: image_image)
    have d2: "pd_weeks ?db2 = map (drop_others now i ?ids) (pd_weeks ?db1)" unfolding ids by (rule soft_deleted_rows [OF dist])
    have d2c: "pd_cycles ?db2 = pd_cycles ?db1" by (simp add: soft_delete_weeks_def)
    have wk: "get_weeks_by_cycle i ?db1 = get_weeks_by_cycle i db" by (simp add: get_weeks_by_cycle_def)
    have "cycle_ok db c" using ok c by (simp add: calendar_ok_def)
    then have inj: "inj_on cw_weekNumber (weeks_of i ?db1)" using c(2) by (simp add: cycle_ok_def weeks_of_def)
    have fr: "fresh_for fresh ?db1" using fresh cy by (simp add: fresh_for_def)
    have ci: "i \<in> cy_id ` set (pd_cycles ?db1)" using c unfolding cy by blast
    have "\<exists>t. (\<forall>sv. save_weeks_safely sv ?ws ?db2 = Inr (True, ?db2\<lparr>pd_weeks := t\<rparr>)) \<and>
        set t = {r \<in> set (pd_weeks ?db2). cw_id r \<notin> ?ids} \<union> ?f ` {1..?n} \<and> distinct (map cw_id t)"
      by (rule regrow_save [OF dist fr inj ci _ refl d2c d2]) (simp only: wk)
    then obtain t where t: "\<And>sv. save_weeks_safely sv ?ws ?db2 = Inr (True, ?db2\<lparr>pd_weeks := t\<rparr>)"
      "set t = {r \<in> set (pd_weeks ?db2). cw_id r \<notin> ?ids} \<union> ?f ` {1..?n}" "distinct (map cw_id t)" by blast
    have res: "update_cycle cf sv' fresh now i dto db = Inr ((), ?db1\<lparr>pd_weeks := t\<rparr>)" for sv'
    proof -
      have "?ws \<noteq> []" using 3 by simp
      then have "update_cycle cf sv' fresh now i dto db = Inr ((), ?db2\<lparr>pd_weeks := t\<rparr>)"
        unfolding step update_cycle_repo_def Let_def uw nullish_simps t(1) by (simp only: if_False sum.case prod.case if_True)
      then show ?thesis by (simp add: soft_delete_weeks_def)
    qed
    show ?thesis
    proof (rule regrown [OF c 3(1) 3(2) refl])
      show "db' = db\<lparr>pd_cycles := update_where (\<lambda>c. cy_id c = i) (apply_cycle_update ?u) (pd_cycles db), pd_weeks := t\<rparr>"
        using upd res [of sv] by simp
      then show "update_cycle cf sv' fresh now i dto db = Inr ((), db')" for sv' using res by simp
      show "set t = {r \<in> drop_others now i ?ids ` set (pd_weeks db). cw_id r \<notin> ?ids} \<union> ?f ` {1..?n}"
        using t(2) unfolding d2 by simp
    qed (rule t(3))
  qed
qed

lemma regrown_week_shape:
  assumes "inj_on cw_weekNumber (weeks_of i db)"
  shows "cw_cycleId (regrown_week fresh (get_weeks_by_cycle i db) i s d k) = i"
    and "live_week (regrown_week fresh (get_weeks_by_cycle i db) i s d k)"
    and "dates_of (regrown_week fresh (get_weeks_by_cycle i db) i s d k) = (k, s + 7 * (k - 1), s + 7 * (k - 1) + d - 1)"
  by (cases rule: regrown_week_cases [OF assms, of k fresh s d]; simp)+

text \<open>Rows after a regrow of cycle \<open>i\<close>: its live weeks are the new ones, those of the other cycles are as before.\<close>

lemma regrown_weeks_of:
  assumes t: "set t = {r \<in> drop_others now i ids ` set (pd_weeks db). cw_id r \<notin> ids} \<union> W"
    and W: "\<forall>w\<in>W. cw_cycleId w = i \<and> live_week w" "ids = cw_id ` W"
    and own: "\<forall>r\<in>set (pd_weeks db). cw_id r \<in> ids \<longrightarrow> cw_cycleId r = i"
  shows "weeks_of i (db\<lparr>pd_cycles := cs, pd_weeks := t\<rparr>) = W"
    and "j \<noteq> i \<Longrightarrow> weeks_of j (db\<lparr>pd_cycles := cs, pd_weeks := t\<rparr>) = weeks_of j db"
proof -
  show "weeks_of i (db\<lparr>pd_cycles := cs, pd_weeks := t\<rparr>) = W"
  proof (rule set_eqI)
    fix w
    have "\<not> (cw_id w \<notin> ids \<and> cw_cycleId w = i \<and> live_week w)" if "w \<in> drop_others now i ids ` set (pd_weeks db)"
    proof -
      from that obtain r where "w = drop_others now i ids r" by blast
      then show ?thesis using drop_others_live [of now i ids r] by (metis drop_others_id(1,2))
    qed
    then show "w \<in> weeks_of i (db\<lparr>pd_cycles := cs, pd_weeks := t\<rparr>) \<longleftrightarrow> w \<in> W"
      using W(1) by (simp add: weeks_of_def t) blast
  qed
  assume j: "j \<noteq> i"
  have keep: "drop_others now i ids r = r" if "cw_cycleId r = j" for r using that j by (simp add: drop_others_def)
  show "weeks_of j (db\<lparr>pd_cycles := cs, pd_weeks := t\<rparr>) = weeks_of j db"
  proof (rule set_eqI)
    fix w
    have "w \<in> drop_others now i ids ` set (pd_weeks db) \<longleftrightarrow> w \<in> set (pd_weeks db)" if "cw_cycleId w = j"
      using keep that by (metis (no_types, lifting) drop_others_id(2) image_iff)
    moreover have "w \<notin> W" "w \<in> set (pd_weeks db) \<longrightarrow> cw_id w \<notin> ids" if "cw_cycleId w = j"
      using that j W(1) own by auto
    ultimately show "w \<in> weeks_of j (db\<lparr>pd_cycles := cs, pd_weeks := t\<rparr>) \<longleftrightarrow> w \<in> weeks_of j db"
      unfolding weeks_of_def by (simp add: t) blast
  qed
qed

lemma regrown_ids_own:
  assumes "inj_on cw_weekNumber (weeks_of i db)" and "distinct (map cw_id (pd_weeks db))" and "fresh_for fresh db"
    and "r \<in> set (pd_weeks db)" and "cw_id r = cw_id (regrown_week fresh (get_weeks_by_cycle i db) i s d k)"
  shows "r \<in> weeks_of i db" and "cw_weekNumber r = k"
proof -
  have "r \<in> weeks_of i db \<and> cw_weekNumber r = k"
  proof (cases rule: regrown_week_cases [OF assms(1), of k fresh s d])
    case (1 w)
    with assms(2,4,5) have "r = w" by (auto simp: distinct_map weeks_of_def dest: inj_onD)
    with 1 show ?thesis by simp
  next
    case 2
    then have "fresh (nat k) = cw_id r" using assms(5) by simp
    with assms(3,4) show ?thesis by (force simp: fresh_for_def)
  qed
  then show "r \<in> weeks_of i db" and "cw_weekNumber r = k" by auto
qed

lemma cycle_ok_change:
  assumes "cycle_ok db x" and "weeks_of (cy_id x) db' = weeks_of (cy_id x) db" and "cy_id c = cy_id x" and "cy_startDate c = cy_startDate x"
    and "cy_daysPerWeek c = cy_daysPerWeek x" and "cy_totalWeeks c = cy_totalWeeks x" and "cy_endDate c = cy_endDate x"
  shows "cycle_ok db' c"
proof -
  have "week_dates c = week_dates x" by (rule ext) (simp add: week_dates_def assms)
  with assms show ?thesis by (simp add: cycle_ok_def)
qed

text \<open>A well-formed calendar, row by row of the cycles.\<close>

lemma calendar_okI:
  assumes "distinct (map cw_id (pd_weeks db'))" and "map cy_id (pd_cycles db') = map cy_id (pd_cycles db)" and "calendar_ok db"
    and "cw_cycleId ` set (pd_weeks db') \<subseteq> cy_id ` set (pd_cycles db)"
    and "\<And>c. c \<in> set (pd_cycles db') \<Longrightarrow> cy_deletedAt c = None \<Longrightarrow> cycle_ok db' c"
  shows "calendar_ok db'"
proof -
  have "cy_id ` set (pd_cycles db') = cy_id ` set (pd_cycles db)" using assms(2) by (metis list.set_map)
  with assms show ?thesis by (auto simp: calendar_ok_def)
qed

lemma update_cycle_ok:
  assumes ok: "calendar_ok db" and fresh: "fresh_for fresh db"
    and upd: "update_cycle cf sv fresh now i dto db = Inr (u, db')"
    and n: "\<forall>n. ucd_totalWeeks dto = Some n \<longrightarrow> 1 \<le> n"
  shows "calendar_ok db'"
proof -
  have tot: "1 \<le> nullish (ucd_totalWeeks dto) (cy_totalWeeks c)" if "c \<in> set (pd_cycles db)" "cy_deletedAt c = None" for c
  proof -
    have "cycle_ok db c" using ok that by (simp add: calendar_ok_def)
    then show ?thesis using n by (cases "ucd_totalWeeks dto") (simp_all add: cycle_ok_def)
  qed
  have keyed: "inj_on cy_id (set (pd_cycles db))" using ok by (simp add: calendar_ok_def distinct_map)
  have cids: "map cy_id (update_where (\<lambda>c. cy_id c = i) (apply_cycle_update v) (pd_cycles db)) = map cy_id (pd_cycles db)" for v
    by (simp add: map_update_where_key apply_cycle_update_def)
  show ?thesis
    using ok fresh upd
  proof (cases rule: update_cycle_Inr)
    case (same c)
    have renamed: "apply_cycle_update (cycle_update_of fresh i dto c db) x =
        x\<lparr>cy_name := nullish (ucd_name dto) (cy_name x), cy_year := nullish (ucd_year dto) (cy_year x)\<rparr>"
      if "x \<in> set (pd_cycles db)" "cy_id x = i" for x
    proof -
      have "x = c" using that same(1,2) keyed by (auto dest: inj_onD)
      with same(4) show ?thesis
        by (cases x) (simp add: apply_cycle_update_def cycle_update_of_def needs_recalculation_def Let_def)
    qed
    have row: "cycle_ok db' (if cy_id x = i then apply_cycle_update (cycle_update_of fresh i dto c db) x else x)"
      if "x \<in> set (pd_cycles db)" "cy_deletedAt x = None" for x
    proof (rule cycle_ok_change [of db x])
      show "cycle_ok db x" using ok that by (simp add: calendar_ok_def)
      show "weeks_of (cy_id x) db' = weeks_of (cy_id x) db" by (simp add: same(5) weeks_of_def)
    qed (cases "cy_id x = i"; simp add: renamed [OF that(1)])+
    show ?thesis
    proof (rule calendar_okI [OF _ _ ok])
      show "cycle_ok db' c'" if c': "c' \<in> set (pd_cycles db')" "cy_deletedAt c' = None" for c'
      proof -
        from c'(1) obtain x where x: "x \<in> set (pd_cycles db)"
            "c' = (if cy_id x = i then apply_cycle_update (cycle_update_of fresh i dto c db) x else x)"
          unfolding same(5) update_where_def by auto
        with c'(2) have "cy_deletedAt x = None" by (simp add: apply_cycle_update_def split: if_splits)
        from row [OF x(1) this] show ?thesis unfolding x(2) .
      qed
    qed (use ok in \<open>auto simp: calendar_ok_def same(5) cids\<close>)
  next
    case (empty c)
    with tot [of c] show ?thesis by simp
  next
    case (regrown c f t)
    let ?n = "nullish (ucd_totalWeeks dto) (cy_totalWeeks c)"
    let ?u = "cycle_update_of fresh i dto c db"
    have cok: "cycle_ok db c" using ok regrown(1,3) by (simp add: calendar_ok_def)
    then have inj: "inj_on cw_weekNumber (weeks_of i db)" using regrown(2) by (simp add: cycle_ok_def)
    have dist: "distinct (map cw_id (pd_weeks db))" using ok by (simp add: calendar_ok_def)
    have W: "\<forall>w\<in>f ` {1..?n}. cw_cycleId w = i \<and> live_week w" by (simp add: regrown(6) regrown_week_shape [OF inj])
    have own: "\<forall>r\<in>set (pd_weeks db). cw_id r \<in> cw_id ` f ` {1..?n} \<longrightarrow> cw_cycleId r = i"
      using regrown_ids_own(1) [OF inj dist fresh] unfolding regrown(6) weeks_of_def by blast
    note ws = regrown_weeks_of [OF regrown(8) W refl own]
    have row: "cycle_ok db' (if cy_id x = i then apply_cycle_update ?u x else x)"
      if x: "x \<in> set (pd_cycles db)" "cy_deletedAt x = None" for x
    proof (cases "cy_id x = i")
      case True
      then have xc: "x = c" using x regrown(1,2) keyed by (auto dest: inj_onD)
      have u: "cu_startDate ?u = ucd_startDate dto" "cu_daysPerWeek ?u = ucd_daysPerWeek dto" "cu_totalWeeks ?u = ucd_totalWeeks dto"
        "cu_endDate ?u = last_end (map f [1..?n])"
        using regrown(4) by (simp_all add: cycle_update_of_def Let_def regrown(6))
      have d: "dates_of (f k) = week_dates (apply_cycle_update ?u c) k" for k
        by (simp add: regrown(6) regrown_week_shape [OF inj] week_dates_def apply_cycle_update_def u)
      have "cw_endDate (f ?n) = snd (snd (dates_of (f ?n)))" by (simp add: dates_of_def)
      then have e: "cy_endDate (apply_cycle_update ?u c) = Some (snd (snd (week_dates (apply_cycle_update ?u c) ?n)))"
        using regrown(5) by (simp add: apply_cycle_update_def u last_end_map d)
      have "cycle_ok db' (apply_cycle_update ?u c)"
        using d e regrown(5) ws(1) by (intro cycle_ok_of_rows [where f = f])
          (simp_all add: apply_cycle_update_def u regrown(2,7))
      then show ?thesis using True xc by simp
    next
      case False
      then have "weeks_of (cy_id x) db' = weeks_of (cy_id x) db" using ws(2) by (simp add: regrown(7))
      with False x ok show ?thesis by (simp add: calendar_ok_def cycle_ok_def)
    qed
    show ?thesis
    proof (rule calendar_okI [OF _ _ ok])
      show "cw_cycleId ` set (pd_weeks db') \<subseteq> cy_id ` set (pd_cycles db)"
        using ok regrown(1,2) W by (auto simp: regrown(7,8) calendar_ok_def)
      show "cycle_ok db' c'" if c': "c' \<in> set (pd_cycles db')" "cy_deletedAt c' = None" for c'
      proof -
        from c'(1) obtain x where x: "x \<in> set (pd_cycles db)" "c' = (if cy_id x = i then apply_cycle_update ?u x else x)"
          by (auto simp: regrown(7) update_where_def)
        with c'(2) have "cy_deletedAt x = None" by (simp add: apply_cycle_update_def split: if_splits)
        from row [OF x(1) this] show ?thesis unfolding x(2) .
      qed
    qed (simp_all add: regrown(7,9) cids)
  qed
qed

lemma cycle_unique:
  assumes "calendar_ok db" and "find_one (\<lambda>c. cy_id c = i \<and> cy_deletedAt c = None) (pd_cycles db) = Some c"
    and "c' \<in> set (pd_cycles db)" and "cy_id c' = i"
  shows "c' = c"
  using assms(1,3,4) find_one_Some [OF assms(2)] by (auto simp: calendar_ok_def distinct_map dest: inj_onD)

lemma cycle_ok_number:
  assumes "cycle_ok db c" and "w \<in> weeks_of (cy_id c) db"
  shows "1 \<le> cw_weekNumber w" and "cw_weekNumber w \<le> cy_totalWeeks c"
proof -
  from assms have "dates_of w \<in> week_dates c ` {1..cy_totalWeeks c}" by (auto simp: cycle_ok_def)
  then show "1 \<le> cw_weekNumber w" and "cw_weekNumber w \<le> cy_totalWeeks c" by (auto simp: dates_of_def week_dates_def)
qed

subsection \<open>The other writes\<close>

lemma calendar_ok_tables:
  "calendar_ok db \<Longrightarrow> pd_weeks db' = pd_weeks db \<and> pd_cycles db' = pd_cycles db \<Longrightarrow> calendar_ok db'"
  by (simp add: calendar_ok_def cycle_ok_def weeks_of_def)

text \<open>A write that keeps the identity, dates and liveness of every row.\<close>

lemma calendar_ok_map:
  assumes "calendar_ok db" and w: "pd_weeks db' = map g (pd_weeks db)" and c: "pd_cycles db' = map h (pd_cycles db)"
    and g: "\<And>r. cw_id (g r) = cw_id r \<and> cw_cycleId (g r) = cw_cycleId r \<and> dates_of (g r) = dates_of r \<and> (live_week (g r) \<longrightarrow> live_week r)"
    and g_live: "\<And>r. live_week r \<Longrightarrow> \<not> live_week (g r) \<Longrightarrow> cw_cycleId r = i"
    and h: "\<And>r. cy_id (h r) = cy_id r \<and> week_dates (h r) = week_dates r \<and> cy_totalWeeks (h r) = cy_totalWeeks r \<and> cy_endDate (h r) = cy_endDate r"
    and h_live: "\<And>r. cy_deletedAt (h r) = None \<Longrightarrow> cy_deletedAt r = None"
    and gone: "\<And>r. cy_deletedAt (h r) = None \<Longrightarrow> cy_id r = i \<Longrightarrow> \<forall>w. live_week w \<longrightarrow> live_week (g w)"
  shows "calendar_ok db'"
proof (rule calendar_okI [OF _ _ assms(1)])
  have "cw_id \<circ> g = cw_id" "cy_id \<circ> h = cy_id" using g h by auto
  then show "distinct (map cw_id (pd_weeks db'))" "map cy_id (pd_cycles db') = map cy_id (pd_cycles db)"
    using assms(1) by (simp_all add: w c calendar_ok_def)
  show "cw_cycleId ` set (pd_weeks db') \<subseteq> cy_id ` set (pd_cycles db)"
    using assms(1) g by (auto simp: w calendar_ok_def)
  have gc: "cw_cycleId (g v) = cw_cycleId v" for v using g by simp
  fix c' assume c': "c' \<in> set (pd_cycles db')" "cy_deletedAt c' = None"
  then obtain r where r: "r \<in> set (pd_cycles db)" "c' = h r" by (auto simp: c)
  with c'(2) h_live have "cycle_ok db r" using assms(1) by (auto simp: calendar_ok_def)
  moreover have num: "cw_weekNumber w = fst (dates_of w)" for w by (simp add: dates_of_def)
  have "live_week (g w) = live_week w" if "cw_cycleId w = cy_id r" for w
    using that g [of w] g_live [of w] gone [of r] c'(2) r(2) by auto
  then have ws: "weeks_of (cy_id r) db' = g ` weeks_of (cy_id r) db"
    unfolding weeks_of_def w set_map by (auto simp: gc)
  have "dates_of ` g ` weeks_of (cy_id r) db = dates_of ` weeks_of (cy_id r) db" using g by (simp add: image_image)
  moreover have "inj_on cw_weekNumber (weeks_of (cy_id r) db) \<Longrightarrow> inj_on cw_weekNumber (g ` weeks_of (cy_id r) db)"
    using g by (auto simp: inj_on_def num)
  ultimately show "cycle_ok db' c'" using h [of r] by (simp add: cycle_ok_def r(2) ws)
qed

lemma update_week_visibility_ok: "calendar_ok db \<Longrightarrow> calendar_ok (update_week_visibility i a db)"
  by (rule calendar_ok_map [where g = "\<lambda>w. if cw_id w = i then w\<lparr>cw_isActive := a\<rparr> else w" and h = "\<lambda>c. c" and i = i])
    (auto simp: update_week_visibility_def update_where_def live_week_def dates_of_def split: if_splits)

lemma update_cycle_visibility_ok: "calendar_ok db \<Longrightarrow> calendar_ok (update_cycle_visibility i a db)"
  by (rule calendar_ok_map [where g = "\<lambda>w. w" and i = i and h = "\<lambda>c. if cy_id c = i then c\<lparr>cy_isActive := a\<rparr> else c"])
    (auto simp: update_cycle_visibility_def deactivate_by_cycle_id_def Let_def update_where_def week_dates_def split: if_splits)

lemma soft_delete_cycle_ok: "calendar_ok db \<Longrightarrow> calendar_ok (soft_delete_cycle now i db)"
  by (rule calendar_ok_map [where g = "\<lambda>w. if cw_cycleId w = i then w\<lparr>cw_deletedAt := Some now\<rparr> else w" and i = i
        and h = "\<lambda>c. if cy_id c = i then c\<lparr>cy_deletedAt := Some now\<rparr> else c"])
    (auto simp: soft_delete_cycle_def soft_delete_weeks_def update_where_def live_week_def dates_of_def week_dates_def split: if_splits)

text \<open>The template operations.\<close>

definition courses_ok :: "planning_db \<Rightarrow> bool" where
  "courses_ok db \<longleftrightarrow> (\<forall>c\<in>set (pd_templateCourses db). tc_templateId c \<in> tp_id ` set (pd_templates db) \<and>
     tc_easyCount c + tc_mediumCount c + tc_hardCount c = tc_questionsQuantity c)"

lemma validate_and_map_courses_sum:
  "validate_and_map_courses fresh k cs = Inr rows \<Longrightarrow> r \<in> set rows \<Longrightarrow>
     tc_easyCount r + tc_mediumCount r + tc_hardCount r = tc_questionsQuantity r"
  by (induction fresh k cs arbitrary: rows rule: validate_and_map_courses.induct)
    (auto simp: Let_def split: if_splits sum.splits)

lemma template_tables:
  "create_template ce cf fresh cid dto db = Inr (i, db') \<Longrightarrow> pd_weeks db' = pd_weeks db \<and> pd_cycles db' = pd_cycles db"
  "update_template ce fresh cid i udto db = Inr (u, db') \<Longrightarrow> pd_weeks db' = pd_weeks db \<and> pd_cycles db' = pd_cycles db"
  "delete_template cid i db = Inr (u, db') \<Longrightarrow> pd_weeks db' = pd_weeks db \<and> pd_cycles db' = pd_cycles db"
  by (auto simp: create_template_def create_template_repo_def update_template_def update_template_repo_def
      insert_template_courses_def delete_template_def drop_template_def Let_def split: if_splits sum.splits option.splits prod.splits)

lemma create_template_courses:
  assumes "create_template ce cf fresh cid dto db = Inr (i, db')" and "courses_ok db"
  shows "courses_ok db'"
proof -
  from assms(1) obtain rows where v: "validate_and_map_courses fresh 1 (ct_courses dto) = Inr rows"
    and t: "pd_templates db' = pd_templates db @ [\<lparr>tp_id = fresh 0, tp_cycleId = cid, tp_name = ct_name dto,
                        tp_scope = ct_scope dto, tp_accumulationWeeks = ct_accumulationWeeks dto\<rparr>]"
      "pd_templateCourses db' = pd_templateCourses db @ map (\<lambda>c. c\<lparr>tc_templateId := fresh 0\<rparr>) rows"
    by (auto simp: create_template_def create_template_repo_def insert_template_courses_def Let_def
        split: if_splits sum.splits option.splits prod.splits)
  from assms(2) validate_and_map_courses_sum [OF v] show ?thesis by (auto simp: courses_ok_def t)
qed

lemma update_template_courses:
  assumes "update_template ce fresh cid i dto db = Inr (u, db')" and "courses_ok db"
  shows "courses_ok db'"
proof -
  from assms(1) have "get_template_in_cycle i cid db \<noteq> None" by (auto simp: update_template_def split: if_splits)
  then have owned: "i \<in> tp_id ` set (pd_templates db)" by (auto simp: get_template_in_cycle_def dest!: find_one_Some)
  have ids: "tp_id ` set (update_where (\<lambda>t. tp_id t = i) (apply_template_update v) (pd_templates db)) = tp_id ` set (pd_templates db)" for v
    using map_update_where_key [of "\<lambda>t. tp_id t = i" tp_id "apply_template_update v" "pd_templates db"]
    by (metis (no_types, lifting) apply_template_update_def list.set_map material_template.ext_inject material_template.surjective
        material_template.update_convs(3,4,5))
  from assms(1) obtain v where "pd_templates db' = update_where (\<lambda>t. tp_id t = i) (apply_template_update v) (pd_templates db)"
    by (auto simp: update_template_def update_template_repo_def insert_template_courses_def Let_def
        split: if_splits sum.splits option.splits)
  then have t: "tp_id ` set (pd_templates db') = tp_id ` set (pd_templates db)" using ids [of v] by metis
  have c: "pd_templateCourses db' = pd_templateCourses db \<or>
      (\<exists>cs rows. validate_and_map_courses fresh 0 cs = Inr rows \<and> pd_templateCourses db' =
        delete_where (\<lambda>c. tc_templateId c = i) (pd_templateCourses db) @ map (\<lambda>c. c\<lparr>tc_templateId := i\<rparr>) rows)"
    using assms(1) by (cases "ut_courses dto") (auto simp: update_template_def update_template_repo_def insert_template_courses_def Let_def
        split: if_splits sum.splits, blast)
  from c show ?thesis
  proof
    assume "pd_templateCourses db' = pd_templateCourses db"
    with assms(2) show ?thesis by (simp add: courses_ok_def t)
  next
    assume "\<exists>cs rows. validate_and_map_courses fresh 0 cs = Inr rows \<and> pd_templateCourses db' =
        delete_where (\<lambda>c. tc_templateId c = i) (pd_templateCourses db) @ map (\<lambda>c. c\<lparr>tc_templateId := i\<rparr>) rows"
    then obtain cs rows where v: "validate_and_map_courses fresh 0 cs = Inr rows"
      and r: "pd_templateCourses db' = delete_where (\<lambda>c. tc_templateId c = i) (pd_templateCourses db) @ map (\<lambda>c. c\<lparr>tc_templateId := i\<rparr>) rows"
      by blast
    from assms(2) owned validate_and_map_courses_sum [OF v] show ?thesis by (auto simp: courses_ok_def t r table_simps)
  qed
qed

lemma delete_template_courses:
  assumes "delete_template cid i db = Inr (u, db')" and "courses_ok db"
  shows "courses_ok db'"
proof -
  from assms(1) have t: "pd_templates db' = delete_where (\<lambda>t. tp_id t = i) (pd_templates db)"
      "pd_templateCourses db' = delete_where (\<lambda>c. tc_templateId c = i) (pd_templateCourses db)"
    by (auto simp: delete_template_def drop_template_def Let_def split: if_splits sum.splits)
  show ?thesis
    unfolding courses_ok_def
  proof
    fix c assume "c \<in> set (pd_templateCourses db')"
    then have c: "c \<in> set (pd_templateCourses db)" "tc_templateId c \<noteq> i" by (auto simp: t table_simps)
    with assms(2) obtain x where "x \<in> set (pd_templates db)" "tc_templateId c = tp_id x"
      "tc_easyCount c + tc_mediumCount c + tc_hardCount c = tc_questionsQuantity c" by (auto simp: courses_ok_def)
    with c(2) show "tc_templateId c \<in> tp_id ` set (pd_templates db') \<and> tc_easyCount c + tc_mediumCount c + tc_hardCount c = tc_questionsQuantity c"
      by (auto simp: t table_simps)
  qed
qed

subsection \<open>Runs\<close>

text \<open>
  The writes of the academic-time endpoints on the tables of a tenant, one request after the other. The
  conditions are those of the request validation (\<open>@Min(1)\<close> on the number of weeks) and of \<open>uuidv4\<close>, whose
  results are not in use.
\<close>

inductive academic_step :: "planning_db \<Rightarrow> planning_db \<Rightarrow> bool" where
  create_cycle: "fresh_for fresh db \<Longrightarrow> 1 \<le> ccd_totalWeeks dto \<Longrightarrow> academic_step db (snd (run_tx (create_cycle sv fresh dto) db))"
| update_cycle: "fresh_for fresh db \<Longrightarrow> (\<forall>n. ucd_totalWeeks udto = Some n \<longrightarrow> 1 \<le> n) \<Longrightarrow>
    academic_step db (snd (run_tx (update_cycle cf sv fresh now i udto) db))"
| cycle_visibility: "academic_step db (update_cycle_visibility i a db)"
| week_visibility: "academic_step db (update_week_visibility i a db)"
| delete_cycle: "academic_step db (snd (run_tx (delete_cycle now i) db))"
| create_template: "academic_step db (snd (run_tx (create_template ce cf fresh cid tdto) db))"
| update_template: "academic_step db (snd (run_tx (update_template ce fresh cid i utdto) db))"
| delete_template: "academic_step db (snd (run_tx (delete_template cid i) db))"

lemma snd_run_tx:
  "(\<And>a db'. body db = Inr (a, db') \<Longrightarrow> P db') \<Longrightarrow> P db \<Longrightarrow> P (snd (run_tx body db))"
  by (cases "body db") (auto simp: run_tx_def)

lemmas snd_run_tx_calendar = snd_run_tx [where P = calendar_ok]
lemmas snd_run_tx_courses = snd_run_tx [where P = courses_ok]

lemma academic_step_calendar: "academic_step db db' \<Longrightarrow> calendar_ok db \<Longrightarrow> calendar_ok db'"
proof (induction rule: academic_step.induct)
  case (create_cycle fresh db dto sv)
  from create_cycle_ok [OF create_cycle(3,1,2), of sv] create_cycle(3) show ?case by (auto simp: run_tx_def)
next
  case (update_cycle fresh db udto cf sv now i)
  show ?case
    by (rule snd_run_tx_calendar [OF update_cycle_ok [OF update_cycle(3,1) _ update_cycle(2)] update_cycle(3)])
next
  case (delete_cycle db now i)
  then show ?case by (intro snd_run_tx_calendar) (auto simp: delete_cycle_def Let_def soft_delete_cycle_ok split: if_splits)
next
  case (create_template db ce cf fresh cid tdto)
  then show ?case by (intro snd_run_tx_calendar) (auto intro: calendar_ok_tables dest: template_tables(1))
next
  case (update_template db ce fresh cid i utdto)
  then show ?case by (intro snd_run_tx_calendar) (auto intro: calendar_ok_tables dest: template_tables(2))
next
  case (delete_template db cid i)
  then show ?case by (intro snd_run_tx_calendar) (auto intro: calendar_ok_tables dest: template_tables(3))
qed (simp_all add: update_cycle_visibility_ok update_week_visibility_ok)

definition beside_calendar where
  "beside_calendar db = (pd_templates db, pd_templateCourses db, pd_syllabuses db, pd_distributions db)"

lemma beside_calendar_simps [simp]:
  "beside_calendar (db\<lparr>pd_weeks := t\<rparr>) = beside_calendar db" "beside_calendar (db\<lparr>pd_cycles := cs\<rparr>) = beside_calendar db"
  "beside_calendar (soft_delete_weeks now p db) = beside_calendar db"
  by (simp_all add: beside_calendar_def soft_delete_weeks_def)

lemma save_week_beside: "save_week w db = Inr db' \<Longrightarrow> beside_calendar db' = beside_calendar db"
  by (auto simp: save_week_def split: if_splits option.splits)

lemma save_weeks_beside: "save_weeks_safely sv ws db = Inr (b, db') \<Longrightarrow> beside_calendar db' = beside_calendar db"
  by (induction sv ws db rule: save_weeks_safely.induct) (auto split: sum.splits if_splits dest: save_week_beside)

lemma create_cycle_beside: "create_cycle sv fresh dto db = Inr (i, db') \<Longrightarrow> beside_calendar db' = beside_calendar db"
  by (auto simp: create_cycle_def create_cycle_repo_def insert_cycle_def Let_def split: if_splits sum.splits dest!: save_weeks_beside)

lemma update_cycle_beside: "update_cycle cf sv fresh now i udto db = Inr (u, db') \<Longrightarrow> beside_calendar db' = beside_calendar db"
  by (auto simp: update_cycle_def update_cycle_repo_def Let_def split: if_splits sum.splits option.splits prod.splits dest!: save_weeks_beside)

lemma courses_ok_beside: "beside_calendar db' = beside_calendar db \<Longrightarrow> courses_ok db' = courses_ok db"
  by (simp add: courses_ok_def beside_calendar_def)

lemma academic_step_courses: "academic_step db db' \<Longrightarrow> courses_ok db \<Longrightarrow> courses_ok db'"
proof (induction rule: academic_step.induct)
  case (create_cycle fresh db dto sv)
  then show ?case by (intro snd_run_tx_courses) (auto dest!: create_cycle_beside courses_ok_beside)
next
  case (update_cycle fresh db udto cf sv now i)
  then show ?case by (intro snd_run_tx_courses) (auto dest!: update_cycle_beside courses_ok_beside)
next
  case (create_template db ce cf fresh cid tdto)
  then show ?case by (intro snd_run_tx_courses) (auto dest: create_template_courses)
next
  case (update_template db ce fresh cid i utdto)
  then show ?case by (intro snd_run_tx_courses) (auto dest: update_template_courses)
next
  case (delete_template db cid i)
  then show ?case by (intro snd_run_tx_courses) (auto dest: delete_template_courses)
next
  case (delete_cycle db now i)
  then show ?case by (intro snd_run_tx_courses)
    (auto simp: delete_cycle_def soft_delete_cycle_def soft_delete_weeks_def courses_ok_def Let_def split: if_splits)
qed (auto intro!: snd_run_tx_courses simp: update_cycle_visibility_def update_week_visibility_def deactivate_by_cycle_id_def
    delete_cycle_def soft_delete_cycle_def soft_delete_weeks_def courses_ok_def Let_def split: if_splits)

subsection \<open>Properties\<close>

text \<open>
  C12. The calendar is always the one the cycle's configuration determines: after any sequence of academic-time
  requests, the weeks of a live cycle read back as weeks \<open>1 \<dots> totalWeeks\<close>, the \<open>i\<close>-th starting seven days after
  the one before it and lasting \<open>daysPerWeek\<close> days, and the cycle ends with its last week.
\<close>

theorem calendar_always_correct:
  assumes "calendar_ok db" and "academic_step\<^sup>*\<^sup>* db db'" and "c \<in> set (pd_cycles db')" and "cy_deletedAt c = None"
  shows "map dates_of (get_weeks_by_cycle (cy_id c) db') = map (week_dates c) [1..cy_totalWeeks c] \<and>
    cy_endDate c = Some (snd (snd (week_dates c (cy_totalWeeks c))))"
proof -
  from assms(2,1) have "calendar_ok db'" by (induction rule: rtranclp_induct) (auto intro: academic_step_calendar)
  then have "cycle_ok db' c" "distinct (map cw_id (pd_weeks db'))" using assms(3,4) by (auto simp: calendar_ok_def)
  then show ?thesis using cycle_ok_weeks by (simp add: cycle_ok_def)
qed

text \<open>
  Regrowing keeps identities: when an update of a cycle succeeds, every live week whose number remains keeps
  its row, with its id and its visibility; every other live week of the cycle is soft-deleted, not removed; the
  weeks of other cycles are untouched; and the unique index is never hit, so the outcome does not depend on
  what happens to a transaction after a violation.
\<close>

lemma regrow_keeps_weeks:
  assumes "calendar_ok db" and "fresh_for fresh db" and "\<forall>n. ucd_totalWeeks dto = Some n \<longrightarrow> 1 \<le> n"
    and "update_cycle cf sv fresh now i dto db = Inr (u, db')"
    and "find_one (\<lambda>c. cy_id c = i \<and> cy_deletedAt c = None) (pd_cycles db) = Some c" and "w \<in> weeks_of j db"
  shows "(j \<noteq> i \<longrightarrow> w \<in> weeks_of j db') \<and>
    (j = i \<and> cw_weekNumber w \<le> nullish (ucd_totalWeeks dto) (cy_totalWeeks c) \<longrightarrow>
      (\<exists>w'\<in>weeks_of i db'. cw_id w' = cw_id w \<and> cw_weekNumber w' = cw_weekNumber w \<and> cw_isActive w' = cw_isActive w)) \<and>
    (j = i \<and> nullish (ucd_totalWeeks dto) (cy_totalWeeks c) < cw_weekNumber w \<longrightarrow>
      w\<lparr>cw_deletedAt := Some now\<rparr> \<in> set (pd_weeks db')) \<and>
    (\<forall>sv'. update_cycle cf sv' fresh now i dto db = Inr (u, db'))"
proof -
  have dist: "distinct (map cw_id (pd_weeks db))" using assms(1) by (simp add: calendar_ok_def)
  from find_one_Some [OF assms(5)] have c: "c \<in> set (pd_cycles db)" "cy_id c = i" "cy_deletedAt c = None" by auto
  then have cok: "cycle_ok db c" using assms(1) by (simp add: calendar_ok_def)
  note number = cycle_ok_number [OF cok, unfolded c(2)]
  from cok have inj: "inj_on cw_weekNumber (weeks_of i db)" by (simp add: cycle_ok_def c(2))
  show ?thesis
    using assms(1,2,4)
  proof (cases rule: update_cycle_Inr)
    case (same c')
    then have "c' = c" using cycle_unique [OF assms(1,5)] by blast
    with same have "nullish (ucd_totalWeeks dto) (cy_totalWeeks c) = cy_totalWeeks c" by (simp add: needs_recalculation_def)
    moreover have "weeks_of k db' = weeks_of k db" for k by (simp add: same(5) weeks_of_def)
    ultimately show ?thesis using assms(6) number(2) same(6) by fastforce
  next
    case (empty c')
    then have "c' = c" using cycle_unique [OF assms(1,5)] by blast
    with empty(5) assms(3) cok show ?thesis by (cases "ucd_totalWeeks dto") (auto simp: cycle_ok_def)
  next
    case (regrown c' f t)
    then have cc: "c' = c" using cycle_unique [OF assms(1,5)] by blast
    let ?n = "nullish (ucd_totalWeeks dto) (cy_totalWeeks c)"
    note f = regrown(6) [unfolded cc] and t = regrown(8) [unfolded cc]
    have W: "\<forall>w\<in>f ` {1..?n}. cw_cycleId w = i \<and> live_week w" by (simp add: f regrown_week_shape [OF inj])
    have own: "\<forall>r\<in>set (pd_weeks db). cw_id r \<in> cw_id ` f ` {1..?n} \<longrightarrow> cw_cycleId r = i"
      using regrown_ids_own(1) [OF inj dist assms(2)] unfolding f weeks_of_def by blast
    note ws = regrown_weeks_of [OF t W refl own, where cs = "pd_cycles db'"]
    have db': "weeks_of k db' = weeks_of k (db\<lparr>pd_cycles := pd_cycles db', pd_weeks := t\<rparr>)" for k by (simp add: regrown(7) weeks_of_def)
    have kept: "\<exists>w'\<in>weeks_of i db'. cw_id w' = cw_id w \<and> cw_weekNumber w' = cw_weekNumber w \<and> cw_isActive w' = cw_isActive w"
      if w: "w \<in> weeks_of i db" "cw_weekNumber w \<le> ?n"
    proof -
      have "f (cw_weekNumber w) \<in> weeks_of i db'" using w number(1) by (simp add: db' ws(1))
      moreover have "cw_id (f (cw_weekNumber w)) = cw_id w \<and> cw_weekNumber (f (cw_weekNumber w)) = cw_weekNumber w \<and>
          cw_isActive (f (cw_weekNumber w)) = cw_isActive w"
        unfolding f
      proof (cases rule: regrown_week_cases [OF inj, of "cw_weekNumber w" fresh "nullish (ucd_startDate dto) (cy_startDate c)"
            "nullish (ucd_daysPerWeek dto) (cy_daysPerWeek c)"])
        case (1 v)
        then have "v = w" using inj w(1) by (auto dest: inj_onD)
        with 1 show "cw_id (regrown_week fresh (get_weeks_by_cycle i db) i (nullish (ucd_startDate dto) (cy_startDate c))
             (nullish (ucd_daysPerWeek dto) (cy_daysPerWeek c)) (cw_weekNumber w)) = cw_id w \<and>
            cw_weekNumber (regrown_week fresh (get_weeks_by_cycle i db) i (nullish (ucd_startDate dto) (cy_startDate c))
             (nullish (ucd_daysPerWeek dto) (cy_daysPerWeek c)) (cw_weekNumber w)) = cw_weekNumber w \<and>
            cw_isActive (regrown_week fresh (get_weeks_by_cycle i db) i (nullish (ucd_startDate dto) (cy_startDate c))
             (nullish (ucd_daysPerWeek dto) (cy_daysPerWeek c)) (cw_weekNumber w)) = cw_isActive w" by simp
      qed (use w(1) in blast)
      ultimately show ?thesis by blast
    qed
    have dropped: "w\<lparr>cw_deletedAt := Some now\<rparr> \<in> set (pd_weeks db')" if w: "w \<in> weeks_of i db" "?n < cw_weekNumber w"
    proof -
      from w(1) have wd: "w \<in> set (pd_weeks db)" "live_week w" "cw_cycleId w = i" by (auto simp: weeks_of_def)
      have "cw_id w \<notin> cw_id ` f ` {1..?n}"
        using regrown_ids_own(2) [OF inj dist assms(2) wd(1)] w(2) unfolding f by fastforce
      with wd have "w\<lparr>cw_deletedAt := Some now\<rparr> = drop_others now i (cw_id ` f ` {1..?n}) w" by (simp add: drop_others_def)
      with wd(1) \<open>cw_id w \<notin> cw_id ` f ` {1..?n}\<close> show ?thesis by (simp add: regrown(7) t)
    qed
    from kept dropped assms(6) ws(2) db' regrown(10) show ?thesis by auto
  qed
qed

text \<open>
  Deletions are guarded. Deleting a template succeeds only for a template of the named cycle that nothing
  refers to, and then removes exactly that template and its course rows: no foreign key action reaches any other
  table. Deleting a cycle succeeds only when no template, syllabus, material or request belongs to it, and then
  hides the cycle and all its weeks.
\<close>

lemma deletions_guarded:
  "(delete_template cid i db = Inr (u, db') \<longrightarrow>
      (\<exists>t\<in>set (pd_templates db). tp_id t = i \<and> tp_cycleId t = cid) \<and>
      db' = db\<lparr>pd_templates := filter (\<lambda>t. tp_id t \<noteq> i) (pd_templates db),
               pd_templateCourses := filter (\<lambda>c. tc_templateId c \<noteq> i) (pd_templateCourses db)\<rparr> \<and>
      (\<forall>s\<in>set (pd_syllabuses db). sy_templateId s \<noteq> Some i) \<and> (\<forall>d\<in>set (pd_distributions db). sd_templateId d \<noteq> Some i) \<and>
      (\<forall>r\<in>set (pd_requests db). mr_profileId r \<noteq> i) \<and> (\<forall>m\<in>set (pd_materials db). ma_profileId m \<noteq> i)) \<and>
   (delete_cycle now i db = Inr (v, db'') \<longrightarrow>
      (\<forall>t\<in>set (pd_templates db). tp_cycleId t \<noteq> i) \<and> (\<forall>s\<in>set (pd_syllabuses db). sy_cycleId s \<noteq> i) \<and>
      (\<forall>r\<in>set (pd_requests db). mr_cycleId r \<noteq> i) \<and> (\<forall>m\<in>set (pd_materials db). ma_cycleId m \<noteq> i) \<and>
      get_cycle_with_syllabus cf i db'' = Inr None \<and> get_weeks_by_cycle i db'' = [] \<and> get_active_week_numbers i db'' = [])"
proof -
  have same: "update_where p h xs = xs" if "\<forall>x\<in>set xs. \<not> p x" for p :: "'r \<Rightarrow> bool" and h xs
    using that by (simp add: update_where_def map_idI)
  have all: "delete_where p xs = xs" if "\<forall>x\<in>set xs. \<not> p x" for p :: "'r \<Rightarrow> bool" and xs
    using that by (simp add: delete_where_def)
  have template: "(\<exists>t\<in>set (pd_templates db). tp_id t = i \<and> tp_cycleId t = cid) \<and>
      db' = db\<lparr>pd_templates := filter (\<lambda>t. tp_id t \<noteq> i) (pd_templates db),
               pd_templateCourses := filter (\<lambda>c. tc_templateId c \<noteq> i) (pd_templateCourses db)\<rparr> \<and>
      (\<forall>s\<in>set (pd_syllabuses db). sy_templateId s \<noteq> Some i) \<and> (\<forall>d\<in>set (pd_distributions db). sd_templateId d \<noteq> Some i) \<and>
      (\<forall>r\<in>set (pd_requests db). mr_profileId r \<noteq> i) \<and> (\<forall>m\<in>set (pd_materials db). ma_profileId m \<noteq> i)"
    if d: "delete_template cid i db = Inr (u, db')"
  proof -
    from d obtain t where t: "get_template_in_cycle i cid db = Some t" and drop: "drop_template i db = Inr db'"
      and free: "\<forall>s\<in>set (pd_syllabuses db). sy_templateId s \<noteq> Some i" "\<forall>d\<in>set (pd_distributions db). sd_templateId d \<noteq> Some i"
        "\<forall>r\<in>set (pd_requests db). mr_profileId r \<noteq> i" "\<forall>m\<in>set (pd_materials db). ma_profileId m \<noteq> i"
      by (auto simp: delete_template_def get_template_usage_def Let_def table_simps split: if_splits sum.splits)
    have m: "find_all (\<lambda>m. ma_profileId m = i) (pd_materials db) = []" and r: "find_all (\<lambda>r. mr_profileId r = i) (pd_requests db) = []"
      using free(3,4) by (auto simp: find_all_def filter_empty_conv)
    have "db' = db\<lparr>pd_templates := filter (\<lambda>t. tp_id t \<noteq> i) (pd_templates db),
               pd_templateCourses := filter (\<lambda>c. tc_templateId c \<noteq> i) (pd_templateCourses db)\<rparr>"
      using drop free(1,2) by (auto simp: drop_template_def Let_def m r same all delete_where_def split: if_splits)
    with t free show ?thesis by (auto simp: get_template_in_cycle_def dest!: find_one_Some)
  qed
  have cycle: "(\<forall>t\<in>set (pd_templates db). tp_cycleId t \<noteq> i) \<and> (\<forall>s\<in>set (pd_syllabuses db). sy_cycleId s \<noteq> i) \<and>
      (\<forall>r\<in>set (pd_requests db). mr_cycleId r \<noteq> i) \<and> (\<forall>m\<in>set (pd_materials db). ma_cycleId m \<noteq> i) \<and>
      get_cycle_with_syllabus cf i db'' = Inr None \<and> get_weeks_by_cycle i db'' = [] \<and> get_active_week_numbers i db'' = []"
    if d: "delete_cycle now i db = Inr (v, db'')"
  proof -
    from d have db'': "db'' = soft_delete_cycle now i db"
      and free: "\<forall>t\<in>set (pd_templates db). tp_cycleId t \<noteq> i" "\<forall>s\<in>set (pd_syllabuses db). sy_cycleId s \<noteq> i"
        "\<forall>r\<in>set (pd_requests db). mr_cycleId r \<noteq> i" "\<forall>m\<in>set (pd_materials db). ma_cycleId m \<noteq> i"
      by (auto simp: delete_cycle_def get_cycle_usage_def Let_def table_simps split: if_splits)
    have "find_one (\<lambda>c. cy_id c = i \<and> cy_deletedAt c = None) (pd_cycles db'') = None"
      unfolding find_one_None db'' by (simp add: soft_delete_cycle_def soft_delete_weeks_def update_where_def ball_Un)
    then have "get_cycle_with_syllabus cf i db'' = Inr None" by (simp add: get_cycle_with_syllabus_def)
    moreover have "find_all (\<lambda>w. cw_cycleId w = i \<and> live_week w) (pd_weeks db'') = []"
        "find_all (\<lambda>w. cw_cycleId w = i \<and> cw_isActive w \<and> cw_deletedAt w = None) (pd_weeks db'') = []"
      unfolding db'' find_all_def filter_empty_conv
      by (simp_all add: soft_delete_cycle_def soft_delete_weeks_def update_where_def live_week_def ball_Un)
    ultimately show ?thesis using free by (simp add: get_weeks_by_cycle_def get_active_week_numbers_def)
  qed
  show ?thesis using template cycle by blast
qed

text \<open>
  Question counts add up: after any sequence of academic-time requests, in every course row of every material
  template the easy, medium and hard counts sum to the quantity, and the row belongs to a template.
\<close>

lemma template_counts_add_up:
  assumes "courses_ok db" and "academic_step\<^sup>*\<^sup>* db db'"
  shows "\<forall>c\<in>set (pd_templateCourses db'). tc_templateId c \<in> tp_id ` set (pd_templates db') \<and>
    tc_easyCount c + tc_mediumCount c + tc_hardCount c = tc_questionsQuantity c"
proof -
  from assms(2,1) have "courses_ok db'" by (induction rule: rtranclp_induct) (auto intro: academic_step_courses)
  then show ?thesis by (simp add: courses_ok_def)
qed

text \<open>A calendar of one cycle of one week, for the witnesses.\<close>

definition sample_calendar :: planning_db where
  "sample_calendar = empty_planning_db
     \<lparr>pd_cycles := [\<lparr>cy_id = ''cy'', cy_name = ''2026-I'', cy_year = 2026, cy_startDate = 20500, cy_endDate = Some 20503,
        cy_daysPerWeek = 4, cy_totalWeeks = 1, cy_isActive = True, cy_deletedAt = None\<rparr>],
      pd_weeks := [\<lparr>cw_id = ''w1'', cw_cycleId = ''cy'', cw_weekNumber = 1, cw_startDate = 20500, cw_endDate = 20503,
        cw_isActive = False, cw_deletedAt = None\<rparr>]\<rparr>"

definition sample_fresh :: "nat \<Rightarrow> uuid" where
  "sample_fresh k = CHR ''x'' # replicate k (CHR ''x'')"

lemma sample_calendar_ok: "calendar_ok sample_calendar" "fresh_for sample_fresh sample_calendar" "courses_ok sample_calendar"
proof -
  have one: "{w. w = x \<and> P w} = (if P x then {x} else {})" for x :: 'x and P by auto
  show "calendar_ok sample_calendar"
    by (simp add: calendar_ok_def sample_calendar_def cycle_ok_def weeks_of_def one live_week_def dates_of_def week_dates_def)
  have "inj sample_fresh" by (auto simp: inj_def sample_fresh_def)
  then show "fresh_for sample_fresh sample_calendar" by (simp add: fresh_for_def sample_calendar_def sample_fresh_def)
qed (simp add: courses_ok_def sample_calendar_def empty_planning_db_def)

definition sample_update :: "planning_error + unit \<times> planning_db" where
  "sample_update = update_cycle False True sample_fresh 7 ''cy''
     \<lparr>ucd_name = None, ucd_year = None, ucd_startDate = None, ucd_daysPerWeek = Some 5, ucd_totalWeeks = Some 2\<rparr> sample_calendar"

lemma sample_update_ok: "\<exists>db'. sample_update = Inr ((), db')"
proof -
  have "\<not> isl sample_update" by code_simp
  then obtain y where "sample_update = Inr y" by (metis sum.disc(1) sum.exhaust)
  moreover obtain u d where "y = (u, d)" by (cases y)
  ultimately show ?thesis by (intro exI [of _ d]) simp
qed

theorem calendar_always_correct_witness:
  "map dates_of (get_weeks_by_cycle ''cy'' (update_week_visibility ''w1'' True sample_calendar)) = [(1, 20500, 20503)]"
proof -
  have c: "hd (pd_cycles sample_calendar) \<in> set (pd_cycles (update_week_visibility ''w1'' True sample_calendar))"
    by (simp add: sample_calendar_def update_week_visibility_def)
  have "academic_step\<^sup>*\<^sup>* sample_calendar (update_week_visibility ''w1'' True sample_calendar)"
    by (intro r_into_rtranclp academic_step.week_visibility)
  from calendar_always_correct [OF sample_calendar_ok(1) this c] show ?thesis
    by (simp add: sample_calendar_def week_dates_def)
qed

end
