(* ===== verification/Generate.thy ===== *)
theory Generate
  imports Syllabus QuestionSelection
begin

text \<open>
  \<open>GenerateMaterialUseCase\<close> (\<open>materials/use-cases/generate-material.use-case.ts\<close>): the reads of the first
  transaction (\<open>gather_inputs\<close>), the question selection between the transactions (\<open>build_review_plan\<close>), the
  writes of the second one (\<open>write_request\<close>) and the dispatch after it (\<open>generate_material\<close>).

  Parameters: the question bank, an external database; one source of randomness per shuffle; the company row of
  the tenant; a supply of identifiers; what other transactions commit between two statements. Question
  ids, topic ids and subtopic ids are decimal strings, so \<open>Number\<close> and \<open>String\<close> between them are the identity,
  and the course ids of a request are not empty.
\<close>

subsection \<open>Data\<close>

record generate_dto =
  gd_profile_id :: uuid
  gd_week_number :: int
  gd_requires_review :: bool
  gd_courses :: "string list option"
  gd_design_template_id :: "uuid option"

record company_branding =
  cb_commercialName :: "string option"
  cb_logoUrl :: "string option"

record planned_topic =
  gt_topic_id :: string
  gt_subtopic_id :: string
  gt_quantity :: int
  gt_expected_levels :: "string list"

record planned_course =
  gc_course_id :: string
  gc_topics :: "planned_topic list"
  gc_exclude_question_ids :: "string list"
  gc_course_request_id :: "uuid option"

record review_slot =
  rv_topicId :: string
  rv_subtopicId :: string
  rv_expectedLevel :: "string option"
  rv_questionId :: "string option"

record generate_inputs =
  gi_templateName :: string
  gi_cycleId :: uuid
  gi_company :: "company_branding option"
  gi_courses :: "planned_course list"
  gi_designTemplateId :: "uuid option"

text \<open>The jobs of the materials queue: \<open>generate-pdf\<close>, \<open>generate\<close> and \<open>merge-pdf\<close>.\<close>

record generate_pdf_job =
  gj_material_request_id :: uuid
  gj_tenant_id :: string
  gj_cycle_id :: uuid
  gj_week_number :: int
  gj_template_name :: string
  gj_design_template_id :: "uuid option"
  gj_requires_review :: bool
  gj_material_type :: string
  gj_distributions :: "planned_course list"
  gj_commercial_name :: string
  gj_logo_url :: string

record course_job =
  cj_job_id :: uuid
  cj_material_request_id :: uuid
  cj_tenant_id :: string
  cj_cycle_id :: uuid
  cj_week_number :: int
  cj_template_name :: string
  cj_design_template_id :: "uuid option"
  cj_commercial_name :: string
  cj_logo_url :: string
  cj_material_type :: string
  cj_course_id :: string
  cj_syllabus_distribution :: "(string \<times> string \<times> int) list"
  cj_admin_user_id :: uuid

datatype queue_job = Generate_Pdf generate_pdf_job | Generate_Course course_job | Merge_Pdf uuid string

definition default_commercial_name :: string where
  "default_commercial_name = ''Colegio Odiseo Innova''"

definition default_logo_url :: string where
  "default_logo_url = ''https://s3.aws.com/tenant-assets/odiseo-innova.png''"

definition branding_name :: "company_branding option \<Rightarrow> string" where
  "branding_name c = (let n = (case c of None \<Rightarrow> None | Some b \<Rightarrow> cb_commercialName b) in
     if truthy_str n then the n else default_commercial_name)"

definition branding_logo :: "company_branding option \<Rightarrow> string" where
  "branding_logo c = (let n = (case c of None \<Rightarrow> None | Some b \<Rightarrow> cb_logoUrl b) in
     if truthy_str n then the n else default_logo_url)"

text \<open>The question bank: the (subtopic, question) pairs of some subtopics, and the questions with some ids.\<close>

record question_bank =
  qb_mappings :: "string list \<Rightarrow> (string \<times> string) list"
  qb_questions :: "string list \<Rightarrow> question list"

subsection \<open>The first transaction: reads\<close>

text \<open>\<open>v || d\<close> on a number.\<close>

definition num_or :: "int option \<Rightarrow> int \<Rightarrow> int" where
  "num_or v d = (case v of None \<Rightarrow> d | Some n \<Rightarrow> if n = 0 then d else n)"

text \<open>The distributions a template's scope selects at a week, for one syllabus.\<close>

definition start_week :: "material_template \<Rightarrow> int \<Rightarrow> int" where
  "start_week t week = (case tp_accumulationWeeks t of
     None \<Rightarrow> 1 | Some a \<Rightarrow> if a = 0 then 1 else max 1 (week - a + 1))"

definition scope_distributions :: "material_template \<Rightarrow> int \<Rightarrow> uuid \<Rightarrow> planning_db \<Rightarrow> distribution list" where
  "scope_distributions t week syllabusId db =
     (if tp_scope t = ''CURRENT_WEEK''
      then find_all (\<lambda>d. sd_syllabusId d = syllabusId \<and> sd_weekNumber d = week) (pd_distributions db)
      else if tp_scope t = ''ACCUMULATIVE''
      then find_all (\<lambda>d. sd_syllabusId d = syllabusId \<and> start_week t week \<le> sd_weekNumber d \<and> sd_weekNumber d \<le> week) (pd_distributions db)
      else [])"

text \<open>
  The target quantity and the easy, medium and hard counts of a course. \<open>Math.floor(q * 0.4)\<close> and
  \<open>Math.floor(q * 0.2)\<close> are exact integer divisions: the doubles 0.4 and 0.2 lie just above the fractions.
\<close>

definition level_counts :: "template_course option \<Rightarrow> int \<times> int \<times> int \<times> int" where
  "level_counts tc =
     (let targetQuantity = num_or (map_option tc_questionsQuantity tc) 35;
          easyCount = num_or (map_option tc_easyCount tc) (targetQuantity * 2 div 5);
          mediumCount = num_or (map_option tc_mediumCount tc) (targetQuantity * 2 div 5);
          hardCount = num_or (map_option tc_hardCount tc) (targetQuantity div 5);
          currentSum = easyCount + mediumCount + hardCount
      in (targetQuantity, easyCount, mediumCount,
          if currentSum \<noteq> targetQuantity then hardCount + (targetQuantity - currentSum) else hardCount))"

text \<open>\<open>Array(n)\<close> with a negative length throws a RangeError.\<close>

definition levels_pool :: "int \<Rightarrow> int \<Rightarrow> int \<Rightarrow> planning_error + string list" where
  "levels_pool easyCount mediumCount hardCount =
     (if easyCount < 0 \<or> mediumCount < 0 \<or> hardCount < 0 then Inl (RawError InvalidArrayLength)
      else Inr (replicate (nat easyCount) ''EASY'' @ replicate (nat mediumCount) ''MEDIUM'' @ replicate (nat hardCount) ''HARD''))"

definition topic_quantity :: "int \<Rightarrow> nat \<Rightarrow> nat \<Rightarrow> int" where
  "topic_quantity targetQuantity n idx =
     targetQuantity div int n + (if int idx < targetQuantity mod int n then 1 else 0)"

text \<open>\<open>levelsPool.splice(0, quantity)\<close> per distribution.\<close>

fun split_topics :: "int \<Rightarrow> nat \<Rightarrow> nat \<Rightarrow> distribution list \<Rightarrow> string list \<Rightarrow> planned_topic list" where
  "split_topics target n idx [] pool = []"
| "split_topics target n idx (d # ds) pool =
     (let q = topic_quantity target n idx in
      \<lparr>gt_topic_id = sd_topicId d, gt_subtopic_id = sd_subtopicId d, gt_quantity = q, gt_expected_levels = take (nat q) pool\<rparr>
      # split_topics target n (Suc idx) ds (drop (nat q) pool))"

definition get_used_questions_in_cycle :: "uuid \<Rightarrow> string \<Rightarrow> planning_db \<Rightarrow> string list" where
  "get_used_questions_in_cycle cycleId courseId db =
     map qu_questionId (find_all (\<lambda>u. qu_cycleId u = cycleId \<and> qu_courseId u = courseId) (pd_usages db))"

definition template_courses_of :: "material_template \<Rightarrow> planning_db \<Rightarrow> template_course list" where
  "template_courses_of t db = find_all (\<lambda>c. tc_templateId c = tp_id t) (pd_templateCourses db)"

text \<open>One round of the loop over the courses; None is \<open>continue\<close>.\<close>

definition gather_course ::
  "(nat \<Rightarrow> rat) \<Rightarrow> material_template \<Rightarrow> int \<Rightarrow> string \<Rightarrow> planning_db \<Rightarrow> planning_error + planned_course option" where
  "gather_course random t week courseId db =
     (case find_one (\<lambda>s. sy_courseId s = courseId \<and> sy_cycleId s = tp_cycleId t \<and> sy_isActive s) (pd_syllabuses db) of
        None \<Rightarrow> Inr None
      | Some s \<Rightarrow>
          let ds = scope_distributions t week (sy_id s) db in
          if ds = [] then Inr None
          else case level_counts (find_one (\<lambda>c. tc_courseId c = courseId) (template_courses_of t db)) of
            (target, easy, medium, hard) \<Rightarrow>
              (case levels_pool easy medium hard of
                 Inl e \<Rightarrow> Inl e
               | Inr pool \<Rightarrow>
                   Inr (Some \<lparr>gc_course_id = courseId,
                     gc_topics = filter (\<lambda>p. gt_quantity p > 0) (split_topics target (length ds) 0 ds (fst (shuffle_js random 0 pool))),
                     gc_exclude_question_ids = get_used_questions_in_cycle (tp_cycleId t) courseId db,
                     gc_course_request_id = None\<rparr>)))"

fun gather_courses ::
  "(nat \<Rightarrow> nat \<Rightarrow> rat) \<Rightarrow> nat \<Rightarrow> material_template \<Rightarrow> int \<Rightarrow> string list \<Rightarrow> planning_db \<Rightarrow> planning_error + planned_course list" where
  "gather_courses random k t week [] db = Inr []"
| "gather_courses random k t week (c # cs) db =
     (case gather_course (random k) t week c db of
        Inl e \<Rightarrow> Inl e
      | Inr r \<Rightarrow>
          (case gather_courses random (Suc k) t week cs db of
             Inl e \<Rightarrow> Inl e
           | Inr ps \<Rightarrow> Inr (case r of None \<Rightarrow> ps | Some p \<Rightarrow> p # ps)))"

definition gather_inputs ::
  "(nat \<Rightarrow> nat \<Rightarrow> rat) \<Rightarrow> company_branding option \<Rightarrow> string \<Rightarrow> generate_dto \<Rightarrow> planning_db \<Rightarrow> planning_error + generate_inputs" where
  "gather_inputs random company tenantId dto db =
     (case find_one (\<lambda>t. tp_id t = gd_profile_id dto) (pd_templates db) of
        None \<Rightarrow> Inl (BadRequest ProfileNotFound)
      | Some t \<Rightarrow>
          let courses = (case gd_courses dto of Some cs \<Rightarrow> cs | None \<Rightarrow> map tc_courseId (template_courses_of t db)) in
          (case gather_courses random 0 t (gd_week_number dto) courses db of
             Inl e \<Rightarrow> Inl e
           | Inr planned \<Rightarrow>
               if planned = [] then Inl (BadRequest NoDistributions)
               else Inr \<lparr>gi_templateName = (if tp_name t = [] then ''Material'' else tp_name t), gi_cycleId = tp_cycleId t,
                      gi_company = company, gi_courses = planned,
                      gi_designTemplateId =
                        (if truthy_str (gd_design_template_id dto) then gd_design_template_id dto
                         else map_option pt_id (find_one (\<lambda>p. pt_tenantId p = Some tenantId \<and> pt_isDefault p) (pd_designs db)))\<rparr>))"

subsection \<open>Between the transactions: the review plan\<close>

text \<open>\<open>new Map(dbQuestions.map(q => [q.id, q]))\<close>: the last question with an id wins.\<close>

definition question_map :: "question list \<Rightarrow> string \<Rightarrow> question option" where
  "question_map qs i = find_one (\<lambda>q. q_id q = i) (rev qs)"

definition plan_topic ::
  "(string \<times> string) list \<Rightarrow> question list \<Rightarrow> string list \<Rightarrow> (nat \<Rightarrow> rat) \<Rightarrow> planned_topic \<Rightarrow> review_slot list" where
  "plan_topic mappings qs exclude random t =
     (let ids = map snd (filter (\<lambda>(s, q). s = gt_subtopic_id t) mappings);
          pool = filter (\<lambda>q. q_id q \<notin> set exclude) (List.map_filter (question_map qs) ids);
          level = (\<lambda>i. if i < length (gt_expected_levels t) then Some (gt_expected_levels t ! i) else None);
          requests = map level [0..<nat (gt_quantity t)];
          selected = select_best_questions random pool [] requests False
      in map (\<lambda>i. \<lparr>rv_topicId = gt_topic_id t, rv_subtopicId = gt_subtopic_id t, rv_expectedLevel = level i,
                    rv_questionId = map_option q_id (selected ! i)\<rparr>) [0..<nat (gt_quantity t)])"

fun plan_topics ::
  "(string \<times> string) list \<Rightarrow> question list \<Rightarrow> string list \<Rightarrow> (nat \<Rightarrow> nat \<Rightarrow> rat) \<Rightarrow> nat \<Rightarrow> planned_topic list \<Rightarrow> review_slot list" where
  "plan_topics mappings qs exclude random k [] = []"
| "plan_topics mappings qs exclude random k (t # ts) =
     plan_topic mappings qs exclude (random k) t @ plan_topics mappings qs exclude random (Suc k) ts"

fun plan_courses ::
  "(string \<times> string) list \<Rightarrow> question list \<Rightarrow> (nat \<Rightarrow> nat \<Rightarrow> rat) \<Rightarrow> nat \<Rightarrow> planned_course list \<Rightarrow> review_slot list" where
  "plan_courses mappings qs random k [] = []"
| "plan_courses mappings qs random k (c # cs) =
     plan_topics mappings qs (gc_exclude_question_ids c) random k (gc_topics c) @
     plan_courses mappings qs random (k + length (gc_topics c)) cs"

definition subtopic_ids :: "planned_course list \<Rightarrow> string list" where
  "subtopic_ids cs = js_unique (concat (map (\<lambda>c. map gt_subtopic_id (gc_topics c)) cs))"

definition build_review_plan :: "question_bank \<Rightarrow> (nat \<Rightarrow> nat \<Rightarrow> rat) \<Rightarrow> planned_course list \<Rightarrow> review_slot list" where
  "build_review_plan bank random cs =
     (if subtopic_ids cs = [] then []
      else let mappings = qb_mappings bank (subtopic_ids cs);
               ids = js_unique (map snd mappings);
               qs = (if ids = [] then [] else qb_questions bank ids)
      in plan_courses mappings qs random 0 cs)"

subsection \<open>The second transaction: writes\<close>

text \<open>
  Find or create the material of the natural key. \<open>race\<close> is what other transactions commit between the read
  and the insert; the insert is ON CONFLICT DO NOTHING.
\<close>

definition material_key :: "string \<Rightarrow> uuid \<Rightarrow> int \<Rightarrow> material \<Rightarrow> bool" where
  "material_key tenantId profileId week m \<longleftrightarrow> ma_tenantId m = tenantId \<and> ma_profileId m = profileId \<and> ma_weekNumber m = week"

definition insert_material_or_ignore :: "material \<Rightarrow> planning_db \<Rightarrow> planning_error + planning_db" where
  "insert_material_or_ignore m db =
     (if list_ex (\<lambda>r. ma_id r = ma_id m \<or> material_key (ma_tenantId m) (ma_profileId m) (ma_weekNumber m) r) (pd_materials db) then Inr db
      else if ma_cycleId m \<notin> cy_id ` set (pd_cycles db) \<or> ma_profileId m \<notin> tp_id ` set (pd_templates db) then Inl fk_violation
      else Inr (db\<lparr>pd_materials := pd_materials db @ [m]\<rparr>))"

definition find_or_create_material ::
  "(planning_db \<Rightarrow> planning_db) \<Rightarrow> uuid \<Rightarrow> string \<Rightarrow> generate_dto \<Rightarrow> uuid \<Rightarrow> request_status \<Rightarrow> material ptx" where
  "find_or_create_material race newId tenantId dto cycleId initialStatus db =
     (let key = material_key tenantId (gd_profile_id dto) (gd_week_number dto) in
      case find_one key (pd_materials db) of
        Some m \<Rightarrow> Inr (m, db)
      | None \<Rightarrow>
          (case insert_material_or_ignore \<lparr>ma_id = newId, ma_tenantId = tenantId, ma_profileId = gd_profile_id dto, ma_cycleId = cycleId,
                  ma_weekNumber = gd_week_number dto, ma_status = initialStatus, ma_latestRequestId = None\<rparr> (race db) of
             Inl e \<Rightarrow> Inl e
           | Inr db' \<Rightarrow> (case find_one key (pd_materials db') of None \<Rightarrow> Inl (BadRequest MaterialNotCreated) | Some m \<Rightarrow> Inr (m, db'))))"

text \<open>Free the questions that prior requests of the material reserved.\<close>

definition free_usages :: "uuid \<Rightarrow> planning_db \<Rightarrow> planning_db" where
  "free_usages materialId db =
     (let prev = map mr_id (find_all (\<lambda>r. mr_materialId r = Some materialId) (pd_requests db)) in
      db\<lparr>pd_usages := delete_where (\<lambda>u. qu_materialRequestId u \<in> set prev) (pd_usages db)\<rparr>)"

definition update_material :: "uuid \<Rightarrow> (material \<Rightarrow> material) \<Rightarrow> planning_db \<Rightarrow> planning_db" where
  "update_material i f db = db\<lparr>pd_materials := update_where (\<lambda>m. ma_id m = i) f (pd_materials db)\<rparr>"

definition insert_request :: "material_request \<Rightarrow> planning_db \<Rightarrow> planning_error + planning_db" where
  "insert_request r db =
     (if mr_id r \<in> mr_id ` set (pd_requests db) then Inl unique_violation
      else if mr_cycleId r \<notin> cy_id ` set (pd_cycles db) \<or> mr_profileId r \<notin> tp_id ` set (pd_templates db) \<or>
          (case mr_designTemplateId r of None \<Rightarrow> False | Some d \<Rightarrow> d \<notin> pt_id ` set (pd_designs db)) \<or>
          (case mr_materialId r of None \<Rightarrow> False | Some m \<Rightarrow> m \<notin> ma_id ` set (pd_materials db)) then Inl fk_violation
      else Inr (db\<lparr>pd_requests := pd_requests db @ [r]\<rparr>))"

definition new_course :: "uuid \<Rightarrow> uuid \<Rightarrow> string \<Rightarrow> request_course" where
  "new_course i requestId courseId =
     \<lparr>rc_id = i, rc_materialRequestId = requestId, rc_courseId = courseId, rc_status = CM_PENDING, rc_downloadUrl = None,
      rc_keyDownloadUrl = None, rc_solutionDownloadUrl = None, rc_warnings = None, rc_pageCount = None,
      rc_fileSizeBytes = None, rc_completedAt = None\<rparr>"

definition created_courses :: "(nat \<Rightarrow> uuid) \<Rightarrow> uuid \<Rightarrow> planned_course list \<Rightarrow> request_course list" where
  "created_courses fresh requestId cs =
     map (\<lambda>(i, c). new_course (fresh (2 + i)) requestId (gc_course_id c)) (enumerate 0 cs)"

text \<open>\<open>dist.course_request_id = dbCourse.id\<close>, for the first created course with that course id.\<close>

definition attach_request_ids :: "request_course list \<Rightarrow> planned_course list \<Rightarrow> planned_course list" where
  "attach_request_ids created cs =
     map (\<lambda>c. case find_one (\<lambda>r. rc_courseId r = gc_course_id c) created of
                None \<Rightarrow> c | Some r \<Rightarrow> c\<lparr>gc_course_request_id := Some (rc_id r)\<rparr>) cs"

definition review_rows :: "(nat \<Rightarrow> uuid) \<Rightarrow> uuid \<Rightarrow> review_slot list \<Rightarrow> review_question list" where
  "review_rows fresh requestId plan =
     map (\<lambda>(idx, s). \<lparr>rq_id = fresh idx, rq_materialRequestId = requestId, rq_questionId = rv_questionId s, rq_topicId = rv_topicId s,
            rq_subtopicId = rv_subtopicId s, rq_expectedLevel = rv_expectedLevel s, rq_position = idx + 1,
            rq_status = (if truthy_str (rv_questionId s) then RQ_FOUND else RQ_EMPTY)\<rparr>) (enumerate 0 plan)"

definition job_payload :: "string \<Rightarrow> generate_dto \<Rightarrow> generate_inputs \<Rightarrow> uuid \<Rightarrow> planned_course list \<Rightarrow> generate_pdf_job" where
  "job_payload tenantId dto inp requestId dists =
     \<lparr>gj_material_request_id = requestId, gj_tenant_id = tenantId, gj_cycle_id = gi_cycleId inp, gj_week_number = gd_week_number dto,
      gj_template_name = gi_templateName inp, gj_design_template_id = gi_designTemplateId inp,
      gj_requires_review = gd_requires_review dto, gj_material_type = ''BALOTARIO'', gj_distributions = dists,
      gj_commercial_name = branding_name (gi_company inp), gj_logo_url = branding_logo (gi_company inp)\<rparr>"

record generate_response =
  gr_material_request_id :: uuid
  gr_status :: request_status
  gr_courses :: "string list"

definition initial_status :: "generate_dto \<Rightarrow> request_status" where
  "initial_status dto = (if gd_requires_review dto then MR_REVIEW_REQUIRED else MR_PROCESSING)"

text \<open>
  The request, its link from the material, its courses and its review slots, once the material is known. Ids:
  \<open>fresh 1\<close> for the request, \<open>fresh (2 + i)\<close> for its courses, then \<open>freshSlot\<close> for the slots.
\<close>

definition write_attempt ::
  "millis \<Rightarrow> (nat \<Rightarrow> uuid) \<Rightarrow> (nat \<Rightarrow> uuid) \<Rightarrow> string \<Rightarrow> uuid \<Rightarrow> generate_dto \<Rightarrow> generate_inputs \<Rightarrow> review_slot list \<Rightarrow> material
    \<Rightarrow> (generate_response \<times> queue_job list) ptx" where
  "write_attempt now fresh freshSlot tenantId userId dto inp plan m db =
     (let st = initial_status dto; requestId = fresh 1;
          r = \<lparr>mr_id = requestId, mr_tenantId = tenantId, mr_profileId = gd_profile_id dto, mr_cycleId = gi_cycleId inp,
               mr_weekNumber = gd_week_number dto, mr_status = st, mr_requiresReview = gd_requires_review dto,
               mr_materialType = ''BALOTARIO'', mr_designTemplateId = gi_designTemplateId inp, mr_materialId = Some (ma_id m),
               mr_createdBy = userId, mr_version = 1, mr_mergedDownloadUrl = None,
               mr_mergedKeyDownloadUrl = None, mr_mergedSolutionDownloadUrl = None, mr_createdAt = now, mr_updatedAt = now\<rparr>
      in case insert_request r db of Inl e \<Rightarrow> Inl e | Inr db1 \<Rightarrow>
           let db2 = update_material (ma_id m) (\<lambda>x. x\<lparr>ma_latestRequestId := Some requestId\<rparr>) db1;
               created = created_courses fresh requestId (gi_courses inp);
               dists = attach_request_ids created (gi_courses inp);
               rows = (if gd_requires_review dto then created else map (\<lambda>c. c\<lparr>rc_status := CM_PROCESSING\<rparr>) created);
               db3 = db2\<lparr>pd_requestCourses := pd_requestCourses db2 @ rows,
                         pd_reviewQuestions := pd_reviewQuestions db2 @ review_rows freshSlot requestId plan\<rparr>;
               jobs = (if gd_requires_review dto then [] else [Generate_Pdf (job_payload tenantId dto inp requestId dists)])
           in Inr ((\<lparr>gr_material_request_id = requestId, gr_status = st, gr_courses = map gc_course_id (gi_courses inp)\<rparr>, jobs), db3))"

definition write_request ::
  "millis \<Rightarrow> (planning_db \<Rightarrow> planning_db) \<Rightarrow> (nat \<Rightarrow> uuid) \<Rightarrow> (nat \<Rightarrow> uuid) \<Rightarrow> string \<Rightarrow> uuid \<Rightarrow> generate_dto \<Rightarrow> generate_inputs \<Rightarrow> review_slot list
    \<Rightarrow> (generate_response \<times> queue_job list) ptx" where
  "write_request now race fresh freshSlot tenantId userId dto inp plan db =
     (case find_or_create_material race (fresh 0) tenantId dto (gi_cycleId inp) (initial_status dto) db of
        Inl e \<Rightarrow> Inl e
      | Inr (m, db1) \<Rightarrow>
          write_attempt now fresh freshSlot tenantId userId dto inp plan m
            (update_material (ma_id m) (\<lambda>x. x\<lparr>ma_status := initial_status dto\<rparr>) (free_usages (ma_id m) db1)))"

subsection \<open>The use case\<close>

text \<open>
  The outcome of a request: the result, the committed tables and the jobs handed to the queue. \<open>between\<close> is
  what others commit between the two transactions.
\<close>

definition generate_material ::
  "millis \<Rightarrow> question_bank \<Rightarrow> (nat \<Rightarrow> nat \<Rightarrow> rat) \<Rightarrow> (nat \<Rightarrow> nat \<Rightarrow> rat) \<Rightarrow> (planning_db \<Rightarrow> planning_db) \<Rightarrow> (planning_db \<Rightarrow> planning_db)
    \<Rightarrow> (nat \<Rightarrow> uuid) \<Rightarrow> (nat \<Rightarrow> uuid) \<Rightarrow> company_branding option \<Rightarrow> string \<Rightarrow> uuid \<Rightarrow> generate_dto \<Rightarrow> planning_db
    \<Rightarrow> (planning_error + generate_response) \<times> planning_db \<times> queue_job list" where
  "generate_material now bank levels picks between race fresh freshSlot company tenantId userId dto db =
     (case gather_inputs levels company tenantId dto db of
        Inl e \<Rightarrow> (Inl e, db, [])
      | Inr inp \<Rightarrow>
          (case write_request now race fresh freshSlot tenantId userId dto inp (build_review_plan bank picks (gi_courses inp)) (between db) of
             Inl e \<Rightarrow> (Inl e, between db, [])
           | Inr ((resp, jobs), db') \<Rightarrow> (Inr resp, db', jobs)))"

end
