(* ===== verification/GenerateLaws.thy ===== *)
theory GenerateLaws
  imports Generate
begin

text \<open>
  What a generation request plans and writes: the questions of a course are split evenly over its distributions
  with exactly the configured difficulties, the review plan holds no question already used, and the writes
  leave one material per natural key, pointing at the new request.
\<close>

subsection \<open>Splitting a course over its distributions\<close>

lemma level_counts_sum: "level_counts tc = (target, e, m, h) \<Longrightarrow> e + m + h = target"
  by (auto simp: level_counts_def Let_def split: if_splits)

lemma topic_quantity_cases: "topic_quantity target n idx = target div int n \<or> topic_quantity target n idx = target div int n + 1"
  by (simp add: topic_quantity_def)

lemma split_topics_quantity:
  "t \<in> set (split_topics target n idx ds pool) \<Longrightarrow> \<exists>j. gt_quantity t = topic_quantity target n j"
  by (induction ds arbitrary: idx pool) (auto simp: Let_def)

lemma split_topics_sum:
  assumes "n = idx + length ds" and "0 < n" and "0 \<le> target"
  shows "sum_of gt_quantity (split_topics target n idx ds pool) =
    int (length ds) * (target div int n) + max 0 (target mod int n - int idx)"
  using assms
proof (induction ds arbitrary: idx pool)
  case Nil
  have "target mod int n < int n" using Nil by simp
  with Nil show ?case by simp
next
  case (Cons d ds)
  from Cons.IH [of "Suc idx"] Cons.prems show ?case
    by (auto simp: Let_def topic_quantity_def algebra_simps)
qed

lemma split_topics_total:
  assumes "ds \<noteq> []" and "0 \<le> target"
  shows "sum_of gt_quantity (split_topics target (length ds) 0 ds pool) = target"
proof -
  have "sum_of gt_quantity (split_topics target (length ds) 0 ds pool) =
      int (length ds) * (target div int (length ds)) + target mod int (length ds)"
    using split_topics_sum [of "length ds" 0 ds target pool] assms by simp
  then show ?thesis by simp
qed

lemma sum_of_split_nonneg: "0 \<le> target \<Longrightarrow> 0 \<le> sum_of gt_quantity (split_topics target n idx ds pool)"
  by (rule sum_of_nonneg) (auto dest!: split_topics_quantity simp: topic_quantity_def pos_imp_zdiv_nonneg_iff div_int_pos_iff)

lemma split_topics_levels:
  assumes "0 \<le> target" and "sum_of gt_quantity (split_topics target n idx ds pool) \<le> int (length pool)"
  shows "concat (map gt_expected_levels (split_topics target n idx ds pool)) =
      take (nat (sum_of gt_quantity (split_topics target n idx ds pool))) pool \<and>
    (\<forall>t\<in>set (split_topics target n idx ds pool). int (length (gt_expected_levels t)) = gt_quantity t)"
  using assms
proof (induction ds arbitrary: idx pool)
  case (Cons d ds)
  let ?q = "topic_quantity target n idx"
  let ?rest = "split_topics target n (Suc idx) ds (drop (nat ?q) pool)"
  have q: "0 \<le> ?q" using Cons.prems(1) by (simp add: topic_quantity_def div_int_pos_iff)
  have s: "0 \<le> sum_of gt_quantity ?rest" by (rule sum_of_split_nonneg [OF Cons.prems(1)])
  from Cons.prems(2) q s have le: "sum_of gt_quantity ?rest \<le> int (length (drop (nat ?q) pool))" "nat ?q \<le> length pool"
    by (auto simp: Let_def)
  from Cons.IH [OF Cons.prems(1) le(1)] q s le(2) show ?case by (simp add: Let_def take_add nat_add_distrib)
qed simp

text \<open>Dropping the topics without questions changes neither the sum nor the levels.\<close>

lemma no_levels: "int (length xs) = q \<Longrightarrow> \<not> 0 < q \<Longrightarrow> xs = []"
  by auto

lemma filter_topics:
  assumes "\<forall>t\<in>set ts. 0 \<le> gt_quantity t \<and> int (length (gt_expected_levels t)) = gt_quantity t"
  shows "sum_of gt_quantity (filter (\<lambda>t. gt_quantity t > 0) ts) = sum_of gt_quantity ts"
    and "concat (map gt_expected_levels (filter (\<lambda>t. gt_quantity t > 0) ts)) = concat (map gt_expected_levels ts)"
  using assms by (induction ts) (auto dest: no_levels)

definition level_mset :: "int \<times> int \<times> int \<times> int \<Rightarrow> string multiset" where
  "level_mset c = (case c of (target, e, m, h) \<Rightarrow>
     replicate_mset (nat e) ''EASY'' + replicate_mset (nat m) ''MEDIUM'' + replicate_mset (nat h) ''HARD'')"

lemma mset_levels_pool: "levels_pool e m h = Inr pool \<Longrightarrow> mset pool = level_mset (t, e, m, h)"
  by (auto simp: levels_pool_def level_mset_def split: if_splits)

text \<open>A planned course: its topics ask for the target quantity, evenly, with the configured difficulties.\<close>

definition evenly_split :: "template_course option \<Rightarrow> planned_course \<Rightarrow> bool" where
  "evenly_split tc p \<longleftrightarrow>
     sum_of gt_quantity (gc_topics p) = fst (level_counts tc) \<and>
     mset (concat (map gt_expected_levels (gc_topics p))) = level_mset (level_counts tc) \<and>
     (\<forall>t\<in>set (gc_topics p). int (length (gt_expected_levels t)) = gt_quantity t) \<and>
     (\<forall>t\<in>set (gc_topics p). \<forall>t'\<in>set (gc_topics p). \<bar>gt_quantity t - gt_quantity t'\<bar> \<le> 1)"

lemma gather_course_Some:
  assumes "gather_course random t week c db = Inr (Some p)" and "unit_interval random"
  shows "evenly_split (find_one (\<lambda>x. tc_courseId x = c) (template_courses_of t db)) p \<and>
    gc_course_id p = c \<and> gc_exclude_question_ids p = get_used_questions_in_cycle (tp_cycleId t) c db"
proof -
  let ?tc = "find_one (\<lambda>x. tc_courseId x = c) (template_courses_of t db)"
  obtain target e m h where lc: "level_counts ?tc = (target, e, m, h)" by (metis prod_cases4)
  from assms(1) lc obtain ds pool where ds: "ds \<noteq> []" and pool: "levels_pool e m h = Inr pool"
    and p: "gc_course_id p = c" "gc_exclude_question_ids p = get_used_questions_in_cycle (tp_cycleId t) c db"
      "gc_topics p = filter (\<lambda>p. gt_quantity p > 0) (split_topics target (length ds) 0 ds (fst (shuffle_js random 0 pool)))"
    by (auto simp: gather_course_def Let_def split: option.splits if_splits sum.splits)
  let ?pool = "fst (shuffle_js random 0 pool)"
  let ?ts = "split_topics target (length ds) 0 ds ?pool"
  from level_counts_sum [OF lc] pool have target: "0 \<le> target" and len: "int (length pool) = target"
    by (auto simp: levels_pool_def split: if_splits)
  have m: "mset ?pool = level_mset (level_counts ?tc)" "int (length ?pool) = target"
    using js_shuffle.shuf_mset [OF assms(2), of 0 pool] js_shuffle.shuf_length [OF assms(2), of 0 pool] mset_levels_pool [OF pool] len
    by (simp_all add: lc)
  have total: "sum_of gt_quantity ?ts = target" by (rule split_topics_total [OF ds target])
  have le: "sum_of gt_quantity ?ts \<le> int (length ?pool)" using total m(2) by simp
  note lv = split_topics_levels [OF target le]
  have lens: "\<forall>t\<in>set ?ts. 0 \<le> gt_quantity t \<and> int (length (gt_expected_levels t)) = gt_quantity t" using lv by (metis of_nat_0_le_iff)
  have "concat (map gt_expected_levels ?ts) = ?pool" using lv total m(2) by (metis nat_int take_all_iff order_refl)
  moreover have "\<bar>gt_quantity a - gt_quantity b\<bar> \<le> 1" if "a \<in> set ?ts" "b \<in> set ?ts" for a b
  proof -
    from that obtain i j where "gt_quantity a = topic_quantity target (length ds) i" "gt_quantity b = topic_quantity target (length ds) j"
      by (auto dest!: split_topics_quantity)
    then show ?thesis using topic_quantity_cases [of target "length ds" i] topic_quantity_cases [of target "length ds" j] by auto
  qed
  ultimately show ?thesis
    using filter_topics [OF lens] lens total m(1) p lc by (simp add: evenly_split_def)
qed

lemma gather_courses_Inr:
  assumes "gather_courses random k t week cs db = Inr ps" and "\<forall>j. unit_interval (random j)"
  shows "\<forall>p\<in>set ps. evenly_split (find_one (\<lambda>x. tc_courseId x = gc_course_id p) (template_courses_of t db)) p \<and>
    gc_course_id p \<in> set cs \<and> gc_exclude_question_ids p = get_used_questions_in_cycle (tp_cycleId t) (gc_course_id p) db"
  using assms
proof (induction cs arbitrary: k ps)
  case (Cons c cs)
  then obtain r qs where r: "gather_course (random k) t week c db = Inr r" "gather_courses random (Suc k) t week cs db = Inr qs"
    "ps = (case r of None \<Rightarrow> qs | Some p \<Rightarrow> p # qs)" by (auto split: sum.splits)
  from Cons.IH [OF r(2) Cons.prems(2)] gather_course_Some [of "random k" t week c db] Cons.prems(2) r(1,3) show ?case
    by (cases r) auto
qed simp

subsection \<open>The review plan\<close>

lemma selected_in_pool:
  assumes "unit_interval random" and "select_best_questions random pool used reqs rec ! i = Some q" and "i < length reqs"
  shows "q \<in> set pool"
proof -
  obtain u v where uv: "mset u = mset (unused_pool pool used)" "mset v = mset (used_pool pool used)"
    "set u = set (unused_pool pool used)" "select_best_questions random pool used reqs rec = pick_all rec reqs (u, v)"
    using select_unfold [OF assms(1)] by metis
  have "Some q \<in> set (pick_all rec reqs (u, v))" using assms(2,3) uv(4) by (metis length_pick_all nth_mem)
  then have "q \<in># mset u + mset v" using pick_all_mset [of rec reqs u v] by (auto simp: set_chosen dest!: mset_subset_eqD)
  then show ?thesis using uv by (auto dest: mset_eq_setD)
qed

definition slot_ok :: "(string \<times> string) list \<Rightarrow> string list \<Rightarrow> review_slot \<Rightarrow> bool" where
  "slot_ok mappings used s \<longleftrightarrow> (\<forall>q. rv_questionId s = Some q \<longrightarrow> (rv_subtopicId s, q) \<in> set mappings \<and> q \<notin> set used)"

lemma plan_topic_ok:
  assumes "unit_interval random"
  shows "\<forall>s\<in>set (plan_topic mappings qs exclude random t). slot_ok mappings exclude s"
    and "length (plan_topic mappings qs exclude random t) = nat (gt_quantity t)"
    and "int (length (gt_expected_levels t)) = gt_quantity t \<Longrightarrow>
      map rv_expectedLevel (plan_topic mappings qs exclude random t) = map Some (gt_expected_levels t)"
proof -
  let ?ids = "map snd (filter (\<lambda>(s, q). s = gt_subtopic_id t) mappings)"
  let ?pool = "filter (\<lambda>q. q_id q \<notin> set exclude) (List.map_filter (question_map qs) ?ids)"
  have pool: "(gt_subtopic_id t, q_id q) \<in> set mappings \<and> q_id q \<notin> set exclude" if "q \<in> set ?pool" for q
    using that by (auto simp: in_map_filter question_map_def dest!: find_one_Some)
  show "\<forall>s\<in>set (plan_topic mappings qs exclude random t). slot_ok mappings exclude s"
    using pool by (auto simp: plan_topic_def Let_def slot_ok_def dest!: selected_in_pool [OF assms])
  show "length (plan_topic mappings qs exclude random t) = nat (gt_quantity t)" by (simp add: plan_topic_def Let_def)
  assume "int (length (gt_expected_levels t)) = gt_quantity t"
  then have "nat (gt_quantity t) = length (gt_expected_levels t)" by simp
  then show "map rv_expectedLevel (plan_topic mappings qs exclude random t) = map Some (gt_expected_levels t)"
    by (auto simp: plan_topic_def Let_def intro!: nth_equalityI)
qed

lemma plan_topics_ok:
  assumes "\<forall>k. unit_interval (random k)"
  shows "\<forall>s\<in>set (plan_topics mappings qs exclude random k ts). slot_ok mappings exclude s"
    and "\<forall>t\<in>set ts. int (length (gt_expected_levels t)) = gt_quantity t \<Longrightarrow>
      map rv_expectedLevel (plan_topics mappings qs exclude random k ts) = map Some (concat (map gt_expected_levels ts))"
    and "\<forall>t\<in>set ts. int (length (gt_expected_levels t)) = gt_quantity t \<Longrightarrow>
      int (length (plan_topics mappings qs exclude random k ts)) = sum_of gt_quantity ts"
  using assms by (induction ts arbitrary: k) (auto simp: plan_topic_ok(2,3) dest: bspec [OF plan_topic_ok(1)])

text \<open>The slots of one planned course.\<close>

definition course_block :: "(string \<times> string) list \<Rightarrow> template_course option \<Rightarrow> planned_course \<Rightarrow> review_slot list \<Rightarrow> bool" where
  "course_block mappings tc p block \<longleftrightarrow>
     int (length block) = fst (level_counts tc) \<and>
     mset (map rv_expectedLevel block) = image_mset Some (level_mset (level_counts tc)) \<and>
     (\<forall>s\<in>set block. slot_ok mappings (gc_exclude_question_ids p) s)"

lemma plan_topics_block:
  assumes "\<forall>k. unit_interval (random k)" and "evenly_split tc p"
  shows "course_block mappings tc p (plan_topics mappings qs (gc_exclude_question_ids p) random k (gc_topics p))"
proof -
  have len: "\<forall>t\<in>set (gc_topics p). int (length (gt_expected_levels t)) = gt_quantity t" using assms(2) by (simp add: evenly_split_def)
  show ?thesis
    using plan_topics_ok [OF assms(1)] len assms(2) by (simp add: course_block_def evenly_split_def)
qed

lemma plan_courses_blocks:
  assumes "\<forall>k. unit_interval (random k)" and "\<forall>p\<in>set ps. evenly_split (tc p) p"
  shows "\<exists>blocks. plan_courses mappings qs random k ps = concat blocks \<and> list_all2 (\<lambda>p. course_block mappings (tc p) p) ps blocks"
  using assms(2)
proof (induction ps arbitrary: k)
  case (Cons p ps)
  then obtain bs where "plan_courses mappings qs random (k + length (gc_topics p)) ps = concat bs"
    "list_all2 (\<lambda>p. course_block mappings (tc p) p) ps bs" by (metis list.set_intros(2))
  with plan_topics_block [OF assms(1), of "tc p" p mappings qs k] Cons.prems show ?case
    by (intro exI [of _ "plan_topics mappings qs (gc_exclude_question_ids p) random k (gc_topics p) # bs"]) simp
qed (auto intro: exI [of _ "[]"])

lemma plan_courses_no_topics: "\<forall>c\<in>set cs. gc_topics c = [] \<Longrightarrow> plan_courses mappings qs random k cs = []"
  by (induction cs arbitrary: k) auto

lemma build_review_plan_courses:
  "\<exists>qs. build_review_plan bank random cs = plan_courses (qb_mappings bank (subtopic_ids cs)) qs random 0 cs"
proof (cases "subtopic_ids cs = []")
  case True
  then have "set (concat (map (\<lambda>c. map gt_subtopic_id (gc_topics c)) cs)) = {}"
    unfolding subtopic_ids_def by (metis set_js_unique set_empty)
  then have "plan_courses m qs random 0 cs = []" for m qs by (intro plan_courses_no_topics) auto
  with True show ?thesis by (simp add: build_review_plan_def)
qed (auto simp: build_review_plan_def Let_def)

subsection \<open>The writes\<close>

definition natural_key :: "material \<Rightarrow> string \<times> uuid \<times> int" where
  "natural_key m = (ma_tenantId m, ma_profileId m, ma_weekNumber m)"

definition materials_ok :: "planning_db \<Rightarrow> bool" where
  "materials_ok db \<longleftrightarrow> distinct (map ma_id (pd_materials db)) \<and> distinct (map natural_key (pd_materials db))"

lemma material_key_natural: "material_key t p w m \<longleftrightarrow> natural_key m = (t, p, w)"
  by (auto simp: material_key_def natural_key_def)

lemma insert_material_ok:
  "insert_material_or_ignore m db = Inr db' \<Longrightarrow> materials_ok db \<Longrightarrow> materials_ok db'"
proof -
  assume ins: "insert_material_or_ignore m db = Inr db'" and ok: "materials_ok db"
  show ?thesis
  proof (cases "list_ex (\<lambda>r. ma_id r = ma_id m \<or> material_key (ma_tenantId m) (ma_profileId m) (ma_weekNumber m) r) (pd_materials db)")
    case True
    with ins ok show ?thesis by (simp add: insert_material_or_ignore_def)
  next
    case False
    then have "\<forall>r\<in>set (pd_materials db). ma_id r \<noteq> ma_id m \<and> natural_key r \<noteq> natural_key m"
      by (simp add: list_ex_iff material_key_natural natural_key_def)
    then have "ma_id m \<notin> ma_id ` set (pd_materials db)" "natural_key m \<notin> natural_key ` set (pd_materials db)"
      by (metis (no_types, lifting) imageE)+
    moreover have "pd_materials db' = pd_materials db @ [m]"
      using ins False by (auto simp: insert_material_or_ignore_def split: if_splits)
    ultimately show ?thesis using ok by (simp add: materials_ok_def)
  qed
qed

lemma find_or_create_Inr:
  assumes "find_or_create_material race i tenantId dto cid st db = Inr (m, db')" and "materials_ok db" and "materials_ok (race db)"
  shows "m \<in> set (pd_materials db') \<and> natural_key m = (tenantId, gd_profile_id dto, gd_week_number dto) \<and> materials_ok db'"
proof (cases "find_one (material_key tenantId (gd_profile_id dto) (gd_week_number dto)) (pd_materials db)")
  case None
  with assms(1) obtain n where "insert_material_or_ignore n (race db) = Inr db'"
    "find_one (material_key tenantId (gd_profile_id dto) (gd_week_number dto)) (pd_materials db') = Some m"
    by (auto simp: find_or_create_material_def Let_def split: sum.splits option.splits)
  with insert_material_ok [OF this(1) assms(3)] show ?thesis by (auto simp: material_key_natural dest!: find_one_Some)
next
  case (Some n)
  with assms(1,2) show ?thesis by (auto simp: find_or_create_material_def material_key_natural dest!: find_one_Some)
qed

lemma write_attempt_Inr:
  assumes "write_attempt now fresh freshSlot tenantId userId dto inp plan m db = Inr ((resp, jobs), db')"
  obtains r dists rows where
    "r = \<lparr>mr_id = fresh 1, mr_tenantId = tenantId, mr_profileId = gd_profile_id dto, mr_cycleId = gi_cycleId inp,
        mr_weekNumber = gd_week_number dto, mr_status = initial_status dto, mr_requiresReview = gd_requires_review dto,
        mr_materialType = ''BALOTARIO'', mr_designTemplateId = gi_designTemplateId inp, mr_materialId = Some (ma_id m),
        mr_createdBy = userId, mr_version = 1, mr_mergedDownloadUrl = None,
               mr_mergedKeyDownloadUrl = None, mr_mergedSolutionDownloadUrl = None, mr_createdAt = now, mr_updatedAt = now\<rparr>"
    "pd_requests db' = pd_requests db @ [r]" "fresh 1 \<notin> mr_id ` set (pd_requests db)"
    "pd_materials db' = update_where (\<lambda>x. ma_id x = ma_id m) (\<lambda>x. x\<lparr>ma_latestRequestId := Some (fresh 1)\<rparr>) (pd_materials db)"
    "pd_usages db' = pd_usages db"
    "rows = (if gd_requires_review dto then created_courses fresh (fresh 1) (gi_courses inp)
       else map (\<lambda>c. c\<lparr>rc_status := CM_PROCESSING\<rparr>) (created_courses fresh (fresh 1) (gi_courses inp)))"
    "pd_requestCourses db' = pd_requestCourses db @ rows"
    "dists = attach_request_ids (created_courses fresh (fresh 1) (gi_courses inp)) (gi_courses inp)"
    "jobs = (if gd_requires_review dto then [] else [Generate_Pdf (job_payload tenantId dto inp (fresh 1) dists)])"
    "resp = \<lparr>gr_material_request_id = fresh 1, gr_status = initial_status dto, gr_courses = map gc_course_id (gi_courses inp)\<rparr>"
    "pd_reviewQuestions db' = pd_reviewQuestions db @ review_rows freshSlot (fresh 1) plan"
  using assms
  by (auto simp: write_attempt_def insert_request_def Let_def update_material_def split: if_splits sum.splits)

lemma new_course_simps [simp]:
  "rc_id (new_course i r c) = i" "rc_materialRequestId (new_course i r c) = r" "rc_courseId (new_course i r c) = c"
  "rc_status (new_course i r c) = CM_PENDING"
  by (simp_all add: new_course_def)

text \<open>Every distribution of a job names the row of its course.\<close>

lemma attached_ids:
  assumes "c \<in> set (attach_request_ids (created_courses fresh i cs) cs)"
  shows "\<exists>r\<in>set (created_courses fresh i cs). gc_course_request_id c = Some (rc_id r) \<and> rc_courseId r = gc_course_id c"
proof -
  let ?rs = "created_courses fresh i cs"
  from assms obtain c0 where c0: "c0 \<in> set cs"
      "c = (case find_one (\<lambda>r. rc_courseId r = gc_course_id c0) ?rs of None \<Rightarrow> c0 | Some r \<Rightarrow> c0\<lparr>gc_course_request_id := Some (rc_id r)\<rparr>)"
    by (auto simp: attach_request_ids_def)
  then obtain k where "k < length cs" "cs ! k = c0" by (auto simp: in_set_conv_nth)
  then have "(k, c0) \<in> set (enumerate 0 cs)" by (simp add: in_set_enumerate_eq)
  then have "new_course (fresh (2 + k)) i (gc_course_id c0) \<in> set ?rs" by (force simp: created_courses_def)
  then have "find_one (\<lambda>r. rc_courseId r = gc_course_id c0) ?rs \<noteq> None"
    using find_one_None [of "\<lambda>r. rc_courseId r = gc_course_id c0" ?rs] by (metis new_course_simps(3))
  then obtain r where r: "find_one (\<lambda>r. rc_courseId r = gc_course_id c0) ?rs = Some r" by blast
  with c0(2) find_one_Some [OF r] show ?thesis by auto
qed

lemma created_course_rows: "r \<in> set (created_courses fresh i cs) \<Longrightarrow> rc_materialRequestId r = i \<and> rc_status r = CM_PENDING"
  by (auto simp: created_courses_def)

lemma created_courses_ids: "map rc_courseId (created_courses fresh i cs) = map gc_course_id cs"
proof -
  have "map rc_courseId (created_courses fresh i cs) = map gc_course_id (map snd (enumerate 0 cs))"
    by (simp add: created_courses_def comp_def case_prod_unfold del: map_snd_enumerate)
  then show ?thesis by simp
qed

lemma update_material_ok:
  "materials_ok db \<Longrightarrow> (\<And>x. ma_id (f x) = ma_id x \<and> natural_key (f x) = natural_key x) \<Longrightarrow> materials_ok (update_material i f db)"
  by (simp add: materials_ok_def update_material_def map_update_where_key)

lemma filter_key: "distinct (map f xs) \<Longrightarrow> x \<in> set xs \<Longrightarrow> filter (\<lambda>y. f y = f x) xs = [x]"
proof (induction xs)
  case (Cons a xs)
  show ?case
  proof (cases "a = x")
    case True
    with Cons.prems have "\<forall>y\<in>set xs. f y \<noteq> f x" by (metis distinct.simps(2) image_eqI list.set_map list.simps(9))
    with True show ?thesis by (simp add: filter_empty_conv)
  next
    case False
    with Cons have "f a \<noteq> f x" by (metis distinct.simps(2) image_eqI list.set_map list.simps(9) set_ConsD)
    with False Cons show ?thesis by simp
  qed
qed simp

subsection \<open>Properties\<close>


text \<open>
  C14. Recording a generation: when the natural key of the materials is unique, and stays so whatever concurrent
  requests commit, a successful request leaves exactly one material for its profile and week, pointing at the
  new request and in its initial status; the questions that earlier requests of the material had reserved are
  free; and exactly when no review is required one job is handed to the queue, after the commit, each of its
  distributions naming a course row of the request that is already being processed.
\<close>

theorem generation_recorded:
  assumes "generate_material now bank levels picks between race fresh freshSlot company tenantId userId dto db = (Inr resp, db', jobs)"
    and "materials_ok (between db)" and "materials_ok (race (between db))"
  shows "\<exists>m r. filter (material_key tenantId (gd_profile_id dto) (gd_week_number dto)) (pd_materials db') = [m] \<and>
    ma_latestRequestId m = Some (gr_material_request_id resp) \<and> ma_status m = initial_status dto \<and>
    filter (\<lambda>r. mr_id r = gr_material_request_id resp) (pd_requests db') = [r] \<and>
    mr_materialId r = Some (ma_id m) \<and> mr_status r = initial_status dto \<and>
    (\<forall>u\<in>set (pd_usages db'). \<forall>q\<in>set (pd_requests db'). mr_materialId q = Some (ma_id m) \<and> q \<noteq> r \<longrightarrow> qu_materialRequestId u \<noteq> mr_id q) \<and>
    (if gd_requires_review dto then jobs = []
     else \<exists>j. jobs = [Generate_Pdf j] \<and> gj_material_request_id j = gr_material_request_id resp \<and>
       (\<forall>c\<in>set (gj_distributions j). \<exists>x\<in>set (pd_requestCourses db'). gc_course_request_id c = Some (rc_id x) \<and>
          rc_materialRequestId x = gr_material_request_id resp \<and> rc_courseId x = gc_course_id c \<and> rc_status x = CM_PROCESSING))"
proof -
  let ?key = "material_key tenantId (gd_profile_id dto) (gd_week_number dto)"
  from assms(1) obtain inp where w: "write_request now race fresh freshSlot tenantId userId dto inp (build_review_plan bank picks (gi_courses inp)) (between db)
      = Inr ((resp, jobs), db')"
    by (auto simp: generate_material_def split: sum.splits)
  then obtain m db1 where f: "find_or_create_material race (fresh 0) tenantId dto (gi_cycleId inp) (initial_status dto) (between db) = Inr (m, db1)"
    and a: "write_attempt now fresh freshSlot tenantId userId dto inp (build_review_plan bank picks (gi_courses inp)) m
      (update_material (ma_id m) (\<lambda>x. x\<lparr>ma_status := initial_status dto\<rparr>) (free_usages (ma_id m) db1)) = Inr ((resp, jobs), db')"
    by (auto simp: write_request_def split: sum.splits)
  let ?db2 = "update_material (ma_id m) (\<lambda>x. x\<lparr>ma_status := initial_status dto\<rparr>) (free_usages (ma_id m) db1)"
  from find_or_create_Inr [OF f assms(2,3)] have m: "m \<in> set (pd_materials db1)" "natural_key m = (tenantId, gd_profile_id dto, gd_week_number dto)"
    and ok: "materials_ok db1" by auto
  have db2: "pd_requests ?db2 = pd_requests db1" "pd_requestCourses ?db2 = pd_requestCourses db1"
    "pd_materials ?db2 = update_where (\<lambda>x. ma_id x = ma_id m) (\<lambda>x. x\<lparr>ma_status := initial_status dto\<rparr>) (pd_materials db1)"
    "pd_usages ?db2 = delete_where (\<lambda>u. qu_materialRequestId u \<in> set (map mr_id (find_all (\<lambda>r. mr_materialId r = Some (ma_id m)) (pd_requests db1)))) (pd_usages db1)"
    by (simp_all add: update_material_def free_usages_def Let_def)
  from a show ?thesis
  proof (cases rule: write_attempt_Inr)
    case (1 r dists rows)
    let ?m = "m\<lparr>ma_status := initial_status dto, ma_latestRequestId := Some (fresh 1)\<rparr>"
    have db': "pd_materials db' = map (\<lambda>x. if ma_id x = ma_id m then x\<lparr>ma_status := initial_status dto, ma_latestRequestId := Some (fresh 1)\<rparr> else x) (pd_materials db1)"
      unfolding 1(4) db2(3) update_where_def by simp
    have nk: "natural_key ?m = natural_key m" by (simp add: natural_key_def)
    have keys: "map natural_key (pd_materials db') = map natural_key (pd_materials db1)"
      unfolding db' map_map by (intro map_cong) (simp_all add: natural_key_def)
    have d: "distinct (map natural_key (pd_materials db'))"
      unfolding keys using ok by (simp add: materials_ok_def)
    have "?m \<in> set (pd_materials db')"
      unfolding db' set_map by (rule image_eqI [OF _ m(1)]) simp
    note filter_key [OF d this]
    moreover have "?key = (\<lambda>y. natural_key y = natural_key ?m)"
      unfolding nk m(2) by (rule ext) (simp only: material_key_natural)
    ultimately have only: "filter ?key (pd_materials db') = [?m]" by (simp only:)
    have req: "filter (\<lambda>q. mr_id q = fresh 1) (pd_requests db') = [r]"
      using 1(3) unfolding 1(2) db2(1) by (auto simp: 1(1) filter_empty_conv image_iff)
    have free: "\<forall>u\<in>set (pd_usages db'). \<forall>q\<in>set (pd_requests db'). mr_materialId q = Some (ma_id m) \<and> q \<noteq> r \<longrightarrow> qu_materialRequestId u \<noteq> mr_id q"
      unfolding 1(5) db2(4) 1(2) db2(1) by (auto simp: table_simps)
    have job: "\<exists>x\<in>set (pd_requestCourses db'). gc_course_request_id c = Some (rc_id x) \<and>
          rc_materialRequestId x = fresh 1 \<and> rc_courseId x = gc_course_id c \<and> rc_status x = CM_PROCESSING"
      if "\<not> gd_requires_review dto" "c \<in> set dists" for c
    proof -
      from attached_ids [OF that(2) [unfolded 1(8)]] obtain x where x: "x \<in> set (created_courses fresh (fresh 1) (gi_courses inp))"
        "gc_course_request_id c = Some (rc_id x)" "rc_courseId x = gc_course_id c" by blast
      with that(1) created_course_rows [OF x(1)] show ?thesis
        by (intro bexI [of _ "x\<lparr>rc_status := CM_PROCESSING\<rparr>"]) (auto simp: 1(6,7))
    qed
    show ?thesis
      using only req free job by (intro exI [of _ ?m] exI [of _ r]) (auto simp: 1(1,9,10) job_payload_def)
  qed
qed

subsection \<open>Samples\<close>

text \<open>One cycle, a template with one course of five questions, and a syllabus with two subtopics in week 1.\<close>

definition sample_planning :: planning_db where
  "sample_planning = empty_planning_db
     \<lparr>pd_cycles := [\<lparr>cy_id = ''cy'', cy_name = ''2026'', cy_year = 2026, cy_startDate = 20500, cy_endDate = None, cy_daysPerWeek = 5,
        cy_totalWeeks = 2, cy_isActive = True, cy_deletedAt = None\<rparr>],
      pd_templates := [\<lparr>tp_id = ''t'', tp_cycleId = ''cy'', tp_name = ''B'', tp_scope = ''CURRENT_WEEK'', tp_accumulationWeeks = None\<rparr>],
      pd_templateCourses := [\<lparr>tc_id = ''tc'', tc_templateId = ''t'', tc_courseId = ''7'', tc_questionsQuantity = 5, tc_easyCount = 2,
        tc_mediumCount = 2, tc_hardCount = 1\<rparr>],
      pd_syllabuses := [\<lparr>sy_id = ''s'', sy_cycleId = ''cy'', sy_courseId = ''7'', sy_name = ''S'', sy_templateId = None, sy_isActive = True\<rparr>],
      pd_distributions := [
        \<lparr>sd_id = ''d1'', sd_syllabusId = ''s'', sd_templateId = None, sd_weekNumber = 1, sd_topicId = ''10'', sd_subtopicId = ''11'',
          sd_questionCount = 3, sd_isGenerated = False\<rparr>,
        \<lparr>sd_id = ''d2'', sd_syllabusId = ''s'', sd_templateId = None, sd_weekNumber = 1, sd_topicId = ''10'', sd_subtopicId = ''12'',
          sd_questionCount = 2, sd_isGenerated = False\<rparr>]\<rparr>"

definition sample_dto :: generate_dto where
  "sample_dto = \<lparr>gd_profile_id = ''t'', gd_week_number = 1, gd_requires_review = False, gd_courses = None, gd_design_template_id = None\<rparr>"

definition sample_bank :: question_bank where
  "sample_bank = \<lparr>qb_mappings = (\<lambda>ss. [(''11'', ''q1''), (''11'', ''q2''), (''12'', ''q3'')]), qb_questions = (\<lambda>is. [])\<rparr>"

definition sample_inputs :: "planning_error + generate_inputs" where
  "sample_inputs = gather_inputs (\<lambda>_ _. 0) None ''tn'' sample_dto sample_planning"

definition sample_fresh_id :: "nat \<Rightarrow> uuid" where
  "sample_fresh_id k = CHR ''x'' # replicate k (CHR ''x'')"

definition sample_generation :: "(planning_error + generate_response) \<times> planning_db \<times> queue_job list" where
  "sample_generation = generate_material 0 sample_bank (\<lambda>_ _. 0) (\<lambda>_ _. 0) id id sample_fresh_id sample_fresh_id None ''tn'' ''u'' sample_dto sample_planning"

lemma sample_inputs_ok: "\<exists>inp. sample_inputs = Inr inp"
proof -
  have "\<not> isl sample_inputs" by code_simp
  then show ?thesis by (metis sum.disc(1) sum.exhaust)
qed


theorem generation_recorded_witness:
  "\<exists>resp db' jobs j. sample_generation = (Inr resp, db', jobs) \<and> jobs = [Generate_Pdf j] \<and> gj_material_request_id j = gr_material_request_id resp"
proof -
  have "\<not> isl (fst sample_generation)" by code_simp
  then obtain resp db' jobs where g: "sample_generation = (Inr resp, db', jobs)" by (metis prod_cases3 sum.exhaust fst_conv sum.disc(1))
  have ok: "materials_ok (id sample_planning)" "materials_ok (id (id sample_planning))"
    by (simp_all add: materials_ok_def sample_planning_def empty_planning_db_def)
  from generation_recorded [OF g [unfolded sample_generation_def] ok] g show ?thesis by (auto simp: sample_dto_def)
qed

end
