(* ===== verification/Approve.thy ===== *)
theory Approve
  imports Generate
begin

text \<open>
  The review of a material request: \<open>ApproveMaterialReviewUseCase\<close>
  (\<open>materials/use-cases/approve-material-review.use-case.ts\<close>) and the status change of opening a review
  (\<open>materials/use-cases/get-material-review.use-case.ts\<close>).

  A transaction of these use cases first reads the request and its courses and then updates the request
  conditionally. \<open>seen\<close> is the state the read saw, the transaction's argument is the state the conditional
  UPDATE finds; another transaction may have committed in between. From that UPDATE on the request's row is
  locked. Every UPDATE the entity manager issues on \<open>material_requests\<close> sets \<open>updated_at\<close> and, when the statement
  does not set the version column itself, increments it; \<open>save\<close> issues one only when a column changed.
\<close>

subsection \<open>Data\<close>

record approve_dto =
  ad_version :: int
  ad_continueWithWarnings :: bool
  ad_replacements :: "(uuid \<times> string) list"
  ad_removals :: "uuid list"

record review_context =
  rx_tenantId :: string
  rx_userId :: uuid

subsection \<open>Statements\<close>

definition update_request :: "millis \<Rightarrow> uuid \<Rightarrow> (material_request \<Rightarrow> material_request) \<Rightarrow> planning_db \<Rightarrow> planning_db" where
  "update_request now i f db = db\<lparr>pd_requests :=
     update_where (\<lambda>r. mr_id r = i) (\<lambda>r. (f r)\<lparr>mr_version := mr_version r + 1, mr_updatedAt := now\<rparr>) (pd_requests db)\<rparr>"

definition save_request_status :: "millis \<Rightarrow> uuid \<Rightarrow> request_status \<Rightarrow> planning_db \<Rightarrow> planning_db" where
  "save_request_status now i st db = db\<lparr>pd_requests :=
     update_where (\<lambda>r. mr_id r = i \<and> mr_status r \<noteq> st)
       (\<lambda>r. r\<lparr>mr_status := st, mr_version := mr_version r + 1, mr_updatedAt := now\<rparr>) (pd_requests db)\<rparr>"

text \<open>
  \<open>save(request)\<close>, with the courses loaded with it: the relation cascades, so each loaded course whose row has
  changed since is written back as it was read.
\<close>

definition write_back :: "request_course list \<Rightarrow> planning_db \<Rightarrow> planning_db" where
  "write_back cs db = db\<lparr>pd_requestCourses :=
     map (\<lambda>r. case find_one (\<lambda>c. rc_id c = rc_id r) cs of None \<Rightarrow> r | Some c \<Rightarrow> c) (pd_requestCourses db)\<rparr>"

definition save_request :: "millis \<Rightarrow> uuid \<Rightarrow> request_course list \<Rightarrow> request_status \<Rightarrow> planning_db \<Rightarrow> planning_db" where
  "save_request now i cs st db = write_back cs (save_request_status now i st db)"

definition set_material_status :: "uuid option \<Rightarrow> request_status \<Rightarrow> planning_db \<Rightarrow> planning_db" where
  "set_material_status m st db = (case m of None \<Rightarrow> db | Some i \<Rightarrow> update_material i (\<lambda>x. x\<lparr>ma_status := st\<rparr>) db)"

definition set_course_status :: "uuid list \<Rightarrow> course_status \<Rightarrow> planning_db \<Rightarrow> planning_db" where
  "set_course_status ids st db = db\<lparr>pd_requestCourses :=
     update_where (\<lambda>c. rc_id c \<in> set ids) (\<lambda>c. c\<lparr>rc_status := st\<rparr>) (pd_requestCourses db)\<rparr>"

definition courses_of :: "uuid \<Rightarrow> planning_db \<Rightarrow> request_course list" where
  "courses_of i db = find_all (\<lambda>c. rc_materialRequestId c = i) (pd_requestCourses db)"

subsection \<open>The shared steps of a draft and of an approval\<close>

text \<open>\<open>UPDATE ... SET version = version + 1 WHERE id = $1 AND version = $2\<close>: the loser affects no row.\<close>

definition bump_version :: "millis \<Rightarrow> uuid \<Rightarrow> int \<Rightarrow> planning_db \<Rightarrow> planning_error + planning_db" where
  "bump_version now i v db =
     (let match = (\<lambda>r. mr_id r = i \<and> mr_version r = v) in
      if affected match (pd_requests db) = 0 then Inl (Conflict ReviewedByOther)
      else Inr (db\<lparr>pd_requests := update_where match (\<lambda>r. r\<lparr>mr_version := mr_version r + 1, mr_updatedAt := now\<rparr>) (pd_requests db)\<rparr>))"

definition replace_question :: "uuid \<Rightarrow> uuid \<times> string \<Rightarrow> review_question list \<Rightarrow> review_question list" where
  "replace_question i = (\<lambda>(rq, q). update_where (\<lambda>x. rq_id x = rq \<and> rq_materialRequestId x = i)
     (\<lambda>x. x\<lparr>rq_questionId := Some q, rq_status := RQ_REPLACED\<rparr>))"

definition remove_question :: "uuid \<Rightarrow> uuid \<Rightarrow> review_question list \<Rightarrow> review_question list" where
  "remove_question i rq = update_where (\<lambda>x. rq_id x = rq \<and> rq_materialRequestId x = i) (\<lambda>x. x\<lparr>rq_status := RQ_REMOVED\<rparr>)"

definition apply_curation :: "uuid \<Rightarrow> approve_dto \<Rightarrow> planning_db \<Rightarrow> planning_db" where
  "apply_curation i dto db = db\<lparr>pd_reviewQuestions :=
     fold (remove_question i) (ad_removals dto) (fold (replace_question i) (ad_replacements dto) (pd_reviewQuestions db))\<rparr>"

text \<open>\<open>saveDraft\<close>.\<close>

definition save_draft :: "millis \<Rightarrow> planning_db \<Rightarrow> uuid \<Rightarrow> approve_dto \<Rightarrow> unit ptx" where
  "save_draft now seen i dto db =
     (case find_one (\<lambda>r. mr_id r = i) (pd_requests seen) of
        None \<Rightarrow> Inl (NotFound RequestNotFound)
      | Some request \<Rightarrow>
          (case bump_version now i (ad_version dto) db of
             Inl e \<Rightarrow> Inl e
           | Inr db1 \<Rightarrow> Inr ((), apply_curation i dto db1)))"

subsection \<open>The approval\<close>

definition has_empty :: "uuid \<Rightarrow> planning_db \<Rightarrow> bool" where
  "has_empty i db \<longleftrightarrow> list_ex (\<lambda>q. rq_status q = RQ_EMPTY) (find_all (\<lambda>q. rq_materialRequestId q = i) (pd_reviewQuestions db))"

definition already_generated :: "request_course list \<Rightarrow> bool" where
  "already_generated cs \<longleftrightarrow>
     list_all (\<lambda>c. rc_downloadUrl c \<noteq> None \<and> rc_keyDownloadUrl c \<noteq> None \<and> rc_solutionDownloadUrl c \<noteq> None) cs"

text \<open>Approved without changes and already generated: the request is final, nothing is queued.\<close>

definition finish_review :: "millis \<Rightarrow> material_request \<Rightarrow> request_course list \<Rightarrow> bool \<Rightarrow> planning_db \<Rightarrow> request_status \<times> planning_db" where
  "finish_review now request cs emptySlots db =
     (let finalStatus = (if emptySlots then MR_COMPLETED_WITH_WARNINGS else MR_COMPLETED);
          warned = map rc_id (filter (\<lambda>c. rc_warnings c \<noteq> None) cs);
          clean = map rc_id (filter (\<lambda>c. rc_warnings c = None) cs)
      in (finalStatus,
          set_course_status clean CM_COMPLETED (set_course_status warned CM_COMPLETED_WITH_WARNINGS
            (set_material_status (mr_materialId request) finalStatus
              (save_request now (mr_id request) cs finalStatus db)))))"

text \<open>The distributions a course is regenerated from: none without a template or an active syllabus.\<close>

definition course_distributions :: "material_request \<Rightarrow> string \<Rightarrow> planning_db \<Rightarrow> distribution list" where
  "course_distributions request courseId db =
     (case (find_one (\<lambda>t. tp_id t = mr_profileId request) (pd_templates db),
            find_one (\<lambda>s. sy_courseId s = courseId \<and> sy_cycleId s = mr_cycleId request \<and> sy_isActive s) (pd_syllabuses db)) of
        (Some t, Some s) \<Rightarrow> scope_distributions t (mr_weekNumber request) (sy_id s) db
      | _ \<Rightarrow> [])"

definition template_name :: "uuid \<Rightarrow> planning_db \<Rightarrow> string" where
  "template_name profileId db =
     (case find_one (\<lambda>t. tp_id t = profileId) (pd_templates db) of
        None \<Rightarrow> ''Material'' | Some t \<Rightarrow> if tp_name t = [] then ''Material'' else tp_name t)"

definition regenerate_job :: "company_branding option \<Rightarrow> review_context \<Rightarrow> material_request \<Rightarrow> planning_db \<Rightarrow> request_course \<Rightarrow> queue_job" where
  "regenerate_job company ctx request db c = Generate_Course
     \<lparr>cj_job_id = rc_id c, cj_material_request_id = mr_id request, cj_tenant_id = rx_tenantId ctx, cj_cycle_id = mr_cycleId request,
      cj_week_number = mr_weekNumber request, cj_template_name = template_name (mr_profileId request) db,
      cj_design_template_id = mr_designTemplateId request, cj_commercial_name = branding_name company, cj_logo_url = branding_logo company,
      cj_material_type = (if mr_materialType request = [] then ''BALOTARIO'' else mr_materialType request),
      cj_course_id = rc_courseId c,
      cj_syllabus_distribution = map (\<lambda>d. (sd_topicId d, sd_subtopicId d, sd_questionCount d)) (course_distributions request (rc_courseId c) db),
      cj_admin_user_id = rx_userId ctx\<rparr>"

definition regenerate ::
  "millis \<Rightarrow> company_branding option \<Rightarrow> review_context \<Rightarrow> material_request \<Rightarrow> request_course list \<Rightarrow> planning_db \<Rightarrow> queue_job list \<times> planning_db" where
  "regenerate now company ctx request cs db =
     (let db1 = set_material_status (mr_materialId request) MR_PROCESSING (save_request now (mr_id request) cs MR_PROCESSING db);
          db2 = set_course_status (map rc_id cs) CM_PROCESSING db1
      in (map (regenerate_job company ctx request db2) cs, db2))"

definition approve_tx ::
  "millis \<Rightarrow> planning_db \<Rightarrow> company_branding option \<Rightarrow> review_context \<Rightarrow> uuid \<Rightarrow> approve_dto \<Rightarrow> (request_status \<times> queue_job list) ptx" where
  "approve_tx now seen company ctx i dto db =
     (case find_one (\<lambda>r. mr_id r = i) (pd_requests seen) of
        None \<Rightarrow> Inl (NotFound RequestNotFound)
      | Some request \<Rightarrow>
          (case bump_version now i (ad_version dto) db of
             Inl e \<Rightarrow> Inl e
           | Inr db1 \<Rightarrow>
               let cs = courses_of i seen; db2 = apply_curation i dto db1; emptySlots = has_empty i db2 in
               if emptySlots \<and> \<not> ad_continueWithWarnings dto then Inl (BadRequest UnresolvedEmptySlots)
               else if already_generated cs \<and> ad_replacements dto = [] \<and> ad_removals dto = []
               then (case finish_review now request cs emptySlots db2 of (st, db3) \<Rightarrow> Inr ((st, []), db3))
               else (case regenerate now company ctx request cs db2 of (jobs, db3) \<Rightarrow> Inr ((MR_PROCESSING, jobs), db3))))"

text \<open>\<open>execute\<close>: the jobs are handed to the queue after the commit.\<close>

definition approve_review ::
  "millis \<Rightarrow> planning_db \<Rightarrow> company_branding option \<Rightarrow> review_context \<Rightarrow> uuid \<Rightarrow> approve_dto \<Rightarrow> planning_db
    \<Rightarrow> (planning_error + request_status) \<times> planning_db \<times> queue_job list" where
  "approve_review now seen company ctx i dto db =
     (case approve_tx now seen company ctx i dto db of
        Inl e \<Rightarrow> (Inl e, db, [])
      | Inr ((st, jobs), db') \<Rightarrow> (Inr st, db', jobs))"

subsection \<open>Opening a review\<close>

text \<open>
  \<open>GetMaterialReviewUseCase.execute\<close> moves a request that awaits review to IN_REVIEW, on the row and the courses
  it read; the rest of it reads. The response carries the status and the version for the client's next write.
\<close>

definition open_review :: "millis \<Rightarrow> planning_db \<Rightarrow> uuid \<Rightarrow> (request_status \<times> int) ptx" where
  "open_review now seen i db =
     (case find_one (\<lambda>r. mr_id r = i) (pd_requests seen) of
        None \<Rightarrow> Inl (NotFound RequestNotFound)
      | Some request \<Rightarrow>
          if mr_status request = MR_REVIEW_REQUIRED
          then let db' = save_request now i (courses_of i seen) MR_IN_REVIEW db
               in Inr ((MR_IN_REVIEW, case find_one (\<lambda>r. mr_id r = i) (pd_requests db') of
                          None \<Rightarrow> mr_version request | Some r \<Rightarrow> mr_version r), db')
          else Inr ((mr_status request, mr_version request), db))"

end
