(* ===== verification/Webhook.thy ===== *)
theory Webhook
  imports Approve
begin

text \<open>
  The worker's status callback, \<open>HandleMaterialWebhookUseCase\<close>
  (\<open>materials/use-cases/handle-material-webhook.use-case.ts\<close>): the status of one course, its ledger of used
  questions, the roll-up of the request under a lock of its row, the merge job and the event.

  The course is read without a lock: \<open>seen\<close> is the state that read saw, the transaction's argument is the state
  in which it updates the course and holds the lock of the request. Callbacks of one request run one after the
  other from there on. \<open>ledgerOk\<close> says whether the database accepts the ledger's statements, \<open>queueOk\<close> whether
  the queue accepts the merge job; a failure of the latter rolls the transaction back.
\<close>

subsection \<open>Data\<close>

record webhook_dto =
  wd_job_id :: uuid
  wd_status :: string
  wd_download_url :: "string option"
  wd_key_download_url :: "string option"
  wd_solution_download_url :: "string option"
  wd_error_message :: "string option"

record usage_record =
  ur_cycleId :: uuid
  ur_questionId :: string
  ur_topicId :: string
  ur_subtopicId :: string
  ur_positionInPdf :: int
  ur_wasReplacement :: bool

record artifact_meta =
  am_pageCount :: "int option"
  am_fileSizeBytes :: "int option"

definition map_status :: "string \<Rightarrow> planning_error + course_status" where
  "map_status s =
     (if s = ''completed'' then Inr CM_COMPLETED
      else if s = ''completed_with_warnings'' then Inr CM_COMPLETED_WITH_WARNINGS
      else if s = ''empty_bank'' then Inr CM_EMPTY_BANK
      else if s = ''failed'' then Inr CM_FAILED
      else if s = ''processing'' then Inr CM_PROCESSING
      else Inl (BadRequest (UnknownWebhookStatus s)))"

definition success_terminal :: "course_status \<Rightarrow> bool" where
  "success_terminal st \<longleftrightarrow> st = CM_COMPLETED \<or> st = CM_COMPLETED_WITH_WARNINGS"

definition finished :: "course_status \<Rightarrow> bool" where
  "finished st \<longleftrightarrow> success_terminal st \<or> st = CM_EMPTY_BANK \<or> st = CM_FAILED"

subsection \<open>The course\<close>

text \<open>\<open>x || undefined\<close> and \<open>x ?? undefined\<close>: a column set to undefined is left out of the UPDATE.\<close>

definition or_keep :: "string option \<Rightarrow> string option \<Rightarrow> string option" where
  "or_keep v old = (if truthy_str v then v else old)"

definition known_or_keep :: "'a option \<Rightarrow> 'a option \<Rightarrow> 'a option" where
  "known_or_keep v old = (case v of None \<Rightarrow> old | Some x \<Rightarrow> Some x)"

definition apply_status :: "millis \<Rightarrow> webhook_dto \<Rightarrow> artifact_meta option \<Rightarrow> course_status \<Rightarrow> request_course \<Rightarrow> request_course" where
  "apply_status now dto meta st c =
     c\<lparr>rc_status := st,
       rc_downloadUrl := or_keep (wd_download_url dto) (rc_downloadUrl c),
       rc_keyDownloadUrl := or_keep (wd_key_download_url dto) (rc_keyDownloadUrl c),
       rc_solutionDownloadUrl := or_keep (wd_solution_download_url dto) (rc_solutionDownloadUrl c),
       rc_warnings := (if truthy_str (wd_error_message dto) then wd_error_message dto else None),
       rc_pageCount := known_or_keep (Option.bind meta am_pageCount) (rc_pageCount c),
       rc_fileSizeBytes := known_or_keep (Option.bind meta am_fileSizeBytes) (rc_fileSizeBytes c),
       rc_completedAt := (if success_terminal st then Some now else rc_completedAt c)\<rparr>"

definition update_course :: "uuid \<Rightarrow> (request_course \<Rightarrow> request_course) \<Rightarrow> planning_db \<Rightarrow> planning_db" where
  "update_course i f db = db\<lparr>pd_requestCourses := update_where (\<lambda>c. rc_id c = i) f (pd_requestCourses db)\<rparr>"

subsection \<open>The ledger\<close>

definition usage_row :: "request_course \<Rightarrow> usage_record \<Rightarrow> question_usage" where
  "usage_row c u = \<lparr>qu_materialRequestId = rc_materialRequestId c, qu_cycleId = ur_cycleId u, qu_questionId = ur_questionId u,
     qu_courseId = rc_courseId c, qu_topicId = ur_topicId u, qu_subtopicId = ur_subtopicId u,
     qu_positionInPdf = ur_positionInPdf u, qu_wasReplacement = ur_wasReplacement u\<rparr>"

definition usage_key :: "question_usage \<Rightarrow> uuid \<times> string \<times> string" where
  "usage_key u = (qu_materialRequestId u, qu_courseId u, qu_questionId u)"

text \<open>\<open>orIgnore\<close>: a row whose (request, course, question) exists is skipped.\<close>

fun insert_usages :: "question_usage list \<Rightarrow> question_usage list \<Rightarrow> question_usage list" where
  "insert_usages [] t = t"
| "insert_usages (u # us) t = insert_usages us (if list_ex (\<lambda>r. usage_key r = usage_key u) t then t else t @ [u])"

definition write_ledger :: "bool \<Rightarrow> course_status \<Rightarrow> request_course \<Rightarrow> usage_record list option \<Rightarrow> planning_db \<Rightarrow> planning_db" where
  "write_ledger ledgerOk st c usages db =
     (case usages of
        None \<Rightarrow> db
      | Some us \<Rightarrow>
          if us \<noteq> [] \<and> success_terminal st \<and> ledgerOk
          then db\<lparr>pd_usages := insert_usages (map (usage_row c) us)
                 (delete_where (\<lambda>u. qu_materialRequestId u = rc_materialRequestId c \<and> qu_courseId u = rc_courseId c) (pd_usages db))\<rparr>
          else db)"

subsection \<open>The request\<close>

definition rollup_status :: "request_course list \<Rightarrow> request_status" where
  "rollup_status cs =
     (if list_ex (\<lambda>c. rc_status c = CM_FAILED) cs then MR_FAILED
      else if list_ex (\<lambda>c. rc_status c = CM_COMPLETED_WITH_WARNINGS \<or> rc_status c = CM_EMPTY_BANK) cs then MR_REVIEW_REQUIRED
      else MR_COMPLETED)"

definition finalized :: "request_status option \<Rightarrow> bool" where
  "finalized st \<longleftrightarrow> st = Some MR_COMPLETED \<or> st = Some MR_REVIEW_REQUIRED"

text \<open>
  The roll-up once every sibling has finished: the request and its material take the verdict, and the merge is
  dispatched when this callback is the one that makes the request final.
\<close>

definition roll_up :: "millis \<Rightarrow> bool \<Rightarrow> string option \<Rightarrow> uuid \<Rightarrow> planning_db \<Rightarrow> planning_error + queue_job list \<times> planning_db" where
  "roll_up now queueOk companyId requestId db =
     (let previous = map_option mr_status (find_one (\<lambda>r. mr_id r = requestId) (pd_requests db));
          siblings = courses_of requestId db
      in if \<not> list_all (\<lambda>c. finished (rc_status c)) siblings then Inr ([], db)
         else
           let db1 = update_request now requestId (\<lambda>r. r\<lparr>mr_status := rollup_status siblings\<rparr>) db in
           case find_one (\<lambda>r. mr_id r = requestId) (pd_requests db1) of
             None \<Rightarrow> Inr ([], db1)
           | Some request \<Rightarrow>
               let db2 = set_material_status (mr_materialId request) (rollup_status siblings) db1 in
               if rollup_status siblings \<noteq> MR_FAILED \<and> 2 \<le> length siblings \<and> \<not> finalized previous
               then (if \<not> truthy_str companyId then Inr ([], db2)
                     else if queueOk then Inr ([Merge_Pdf requestId (the companyId)], db2) else Inl (RawError QueueUnavailable))
               else Inr ([], db2))"

definition webhook_tx ::
  "millis \<Rightarrow> planning_db \<Rightarrow> bool \<Rightarrow> bool \<Rightarrow> string option \<Rightarrow> webhook_dto \<Rightarrow> course_status \<Rightarrow> usage_record list option \<Rightarrow> artifact_meta option
    \<Rightarrow> (queue_job list \<times> generated_event option) ptx" where
  "webhook_tx now seen ledgerOk queueOk companyId dto incoming usages meta db =
     (case find_one (\<lambda>c. rc_id c = wd_job_id dto) (pd_requestCourses seen) of
        None \<Rightarrow> Inr (([], None), db)
      | Some c \<Rightarrow>
          if success_terminal (rc_status c) \<or> rc_status c = incoming then Inr (([], None), db)
          else
            let db1 = write_ledger ledgerOk incoming c usages (update_course (rc_id c) (apply_status now dto meta incoming) db);
                event = (case find_one (\<lambda>r. mr_id r = rc_materialRequestId c) (pd_requests db1) of
                  None \<Rightarrow> None
                | Some r \<Rightarrow> if success_terminal incoming
                    then Some \<lparr>ge_cycleId = mr_cycleId r, ge_courseId = rc_courseId c, ge_weekNumber = mr_weekNumber r\<rparr> else None)
            in case roll_up now queueOk companyId (rc_materialRequestId c) db1 of
                 Inl e \<Rightarrow> Inl e
               | Inr (jobs, db2) \<Rightarrow> Inr ((jobs, event), db2))"

text \<open>
  \<open>execute\<close>: the result, the tables, the merge jobs and the event, which is emitted after the commit. The
  merge job is handed to the queue inside the transaction.
\<close>

definition handle_webhook ::
  "millis \<Rightarrow> planning_db \<Rightarrow> bool \<Rightarrow> bool \<Rightarrow> string option \<Rightarrow> webhook_dto \<Rightarrow> usage_record list option \<Rightarrow> artifact_meta option \<Rightarrow> planning_db
    \<Rightarrow> (planning_error + unit) \<times> planning_db \<times> queue_job list \<times> generated_event option" where
  "handle_webhook now seen ledgerOk queueOk companyId dto usages meta db =
     (if wd_job_id dto = [] \<or> wd_status dto = [] then (Inl (BadRequest WebhookFieldsRequired), db, [], None)
      else case map_status (wd_status dto) of
        Inl e \<Rightarrow> (Inl e, db, [], None)
      | Inr incoming \<Rightarrow>
          (case webhook_tx now seen ledgerOk queueOk companyId dto incoming usages meta db of
             Inl e \<Rightarrow> (Inl e, db, [], None)
           | Inr ((jobs, event), db') \<Rightarrow> (Inr (), db', jobs, event)))"

end
