(* ===== verification/Downloads.thy ===== *)
theory Downloads
  imports Webhook
begin

text \<open>
  The download links of a material, \<open>MaterialDownloadsUseCase\<close>
  (\<open>materials/use-cases/material-downloads.use-case.ts\<close>): the object key behind a stored URL, the signed URL of a
  course's or a request's PDF, and the writes of the merge job. Signing is a parameter that may fail.

  A stored value is an object key or the URL an upload answered (\<open>aws/s3.service.ts\<close>). The client uses
  path-style addressing, so such a URL is the endpoint, the bucket, the key and a query.
\<close>

subsection \<open>Object keys\<close>

datatype variant = Student | Keys | Solutions

text \<open>\<open>new URL(u).pathname\<close> of an absolute URL: from the first slash after the authority to the query.\<close>

fun after_scheme :: "string \<Rightarrow> string" where
  "after_scheme [] = []"
| "after_scheme (c # cs) = (if take 3 (c # cs) = ''://'' then drop 2 cs else after_scheme cs)"

definition url_pathname :: "string \<Rightarrow> string" where
  "url_pathname u = takeWhile (\<lambda>c. c \<noteq> CHR ''?'' \<and> c \<noteq> CHR ''#'') (dropWhile (\<lambda>c. c \<noteq> CHR ''/'') (after_scheme u))"

definition s3_key_of :: "string \<Rightarrow> string" where
  "s3_key_of rawUrl = (if starts_with rawUrl ''http'' then join_with (CHR ''/'') (drop 2 (split_on (CHR ''/'') (url_pathname rawUrl))) else rawUrl)"

definition filename_of :: "string \<Rightarrow> string" where
  "filename_of s3Key = (let f = last (split_on (CHR ''/'') s3Key) in if f = [] then ''material.pdf'' else f)"

text \<open>\<open>getSignedUrlFromRaw\<close>: the signed URL, the key and the file name.\<close>

definition get_signed_url_from_raw :: "(string \<Rightarrow> string option) \<Rightarrow> string \<Rightarrow> planning_error + string \<times> string \<times> string" where
  "get_signed_url_from_raw presign rawUrl =
     (let k = s3_key_of rawUrl in
      case presign k of None \<Rightarrow> Inl (RawError (WorkerError ''presign'')) | Some u \<Rightarrow> Inr (u, k, filename_of k))"

subsection \<open>The reads\<close>

fun course_url :: "variant \<Rightarrow> request_course \<Rightarrow> string option" where
  "course_url Student c = rc_downloadUrl c"
| "course_url Keys c = rc_keyDownloadUrl c"
| "course_url Solutions c = rc_solutionDownloadUrl c"

fun merged_url :: "variant \<Rightarrow> material_request \<Rightarrow> string option" where
  "merged_url Student r = mr_mergedDownloadUrl r"
| "merged_url Keys r = mr_mergedKeyDownloadUrl r"
| "merged_url Solutions r = mr_mergedSolutionDownloadUrl r"

definition get_download_url ::
  "(string \<Rightarrow> string option) \<Rightarrow> uuid \<Rightarrow> string \<Rightarrow> variant \<Rightarrow> planning_db \<Rightarrow> planning_error + string \<times> string \<times> string" where
  "get_download_url presign i courseId v db =
     (case find_one (\<lambda>c. rc_materialRequestId c = i \<and> rc_courseId c = courseId) (pd_requestCourses db) of
        None \<Rightarrow> Inl (NotFound CourseNotInRequest)
      | Some c \<Rightarrow>
          if \<not> success_terminal (rc_status c) \<or> \<not> truthy_str (course_url v c) then Inl (BadRequest MaterialNotReady)
          else get_signed_url_from_raw presign (the (course_url v c)))"

definition get_merged_download_url ::
  "(string \<Rightarrow> string option) \<Rightarrow> uuid \<Rightarrow> variant \<Rightarrow> planning_db \<Rightarrow> planning_error + string \<times> string \<times> string" where
  "get_merged_download_url presign i v db =
     (case find_one (\<lambda>r. mr_id r = i) (pd_requests db) of
        None \<Rightarrow> Inl (NotFound RequestNotFound)
      | Some r \<Rightarrow>
          if \<not> truthy_str (merged_url v r) then Inl (BadRequest MaterialNotReady)
          else get_signed_url_from_raw presign (the (merged_url v r)))"

definition get_courses_for_merge :: "uuid \<Rightarrow> planning_db \<Rightarrow> request_course list" where
  "get_courses_for_merge i db = courses_of i db"

definition update_merged_download_url :: "millis \<Rightarrow> uuid \<Rightarrow> string \<Rightarrow> string option \<Rightarrow> string option \<Rightarrow> planning_db \<Rightarrow> planning_db" where
  "update_merged_download_url now i mergedUrl mergedKeyUrl mergedSolutionUrl db =
     update_request now i (\<lambda>r. r\<lparr>mr_mergedDownloadUrl := Some mergedUrl,
       mr_mergedKeyDownloadUrl := or_keep mergedKeyUrl (mr_mergedKeyDownloadUrl r),
       mr_mergedSolutionDownloadUrl := or_keep mergedSolutionUrl (mr_mergedSolutionDownloadUrl r)\<rparr>) db"

subsection \<open>Laws\<close>

text \<open>The URL of a key: endpoint, bucket, key and query.\<close>

definition object_url :: "string \<Rightarrow> string \<Rightarrow> string \<Rightarrow> string \<Rightarrow> string \<Rightarrow> string" where
  "object_url scheme host bucket key query = scheme @ ''://'' @ host @ ''/'' @ bucket @ ''/'' @ key @ ''?'' @ query"

definition plain :: "string \<Rightarrow> bool" where
  "plain s \<longleftrightarrow> CHR ''/'' \<notin> set s \<and> CHR ''?'' \<notin> set s \<and> CHR ''#'' \<notin> set s \<and> CHR '':'' \<notin> set s"

lemma after_scheme_scheme: "CHR '':'' \<notin> set s \<Longrightarrow> after_scheme (s @ ''://'' @ r) = r"
  by (induction s) auto



end
