(* ===== verification/PdfWorker.thy ===== *)
theory PdfWorker
  imports Downloads QuestionBank
begin

text \<open>
  The worker of the materials queue, \<open>PdfGenerationProcessor\<close>
  (\<open>materials/processors/pdf-generation.processor.ts\<close>), with the writes of
  \<open>materials/use-cases/material-downloads.use-case.ts\<close> it uses.

  The environment of a job: the catalog (the course of a topic), the question bank, the university of a cycle,
  the signing of object keys, the PDF generator, the object storage and pdf-lib. Each of them may fail. A job
  is modelled as the sequence of its statements on the tenant's tables; a callback it makes reads the course in
  the state it updates (\<open>seen\<close> is the current state), and \<open>callbacks\<close> says whether the database and the queue
  accept the statements of the callback for a course. Loading the design and the branding only chooses
  arguments of the PDF generator; they are part of \<open>we_render\<close>.
\<close>

subsection \<open>The environment\<close>

record worker_env =
  we_now :: millis
  we_topicCourse :: "string \<Rightarrow> string option"
  we_bank :: bank
  we_university :: "uuid \<Rightarrow> string option"
  we_random :: "string \<Rightarrow> nat \<Rightarrow> rat"
  we_order :: "question list \<Rightarrow> question list"
  we_sign :: "string \<Rightarrow> string option"
  we_render :: "variant \<Rightarrow> string \<Rightarrow> extracted_question list \<Rightarrow> string option"
  we_upload :: "string \<Rightarrow> string \<Rightarrow> string option"
  we_pageCount :: "string \<Rightarrow> int option"
  we_ledgerOk :: "uuid \<Rightarrow> bool"
  we_queueOk :: "uuid \<Rightarrow> bool"

text \<open>The fields of the \<open>generate-pdf\<close> and \<open>generate\<close> jobs the worker destructures.\<close>

record worker_job =
  wj_tenant_id :: string
  wj_cycle_id :: uuid
  wj_material_request_id :: uuid
  wj_week_number :: int
  wj_template_name :: string
  wj_distributions :: "planned_course list"

subsection \<open>The questions of a course\<close>

record course_questions =
  cq_questions :: "extracted_question list"
  cq_missing :: "string list"
  cq_replaced :: "string list"

definition no_questions :: course_questions where
  "no_questions = \<lparr>cq_questions = [], cq_missing = [], cq_replaced = []\<rparr>"

text \<open>The review questions of a course: those whose topic belongs to it, by position.\<close>

definition review_questions_of :: "(string \<Rightarrow> string option) \<Rightarrow> uuid \<Rightarrow> string \<Rightarrow> planning_db \<Rightarrow> review_question list" where
  "review_questions_of topicCourse requestId courseId db =
     sort_key rq_position (find_all (\<lambda>q. rq_materialRequestId q = requestId \<and> topicCourse (rq_topicId q) = Some courseId) (pd_reviewQuestions db))"

definition missing_question :: "review_question \<Rightarrow> string" where
  "missing_question q = ''Falta pregunta de subtema '' @ rq_subtopicId q"

text \<open>One curated slot: it is reported missing or it becomes a question of the PDF.\<close>

definition curated_slot ::
  "(string \<Rightarrow> string option) \<Rightarrow> string option \<Rightarrow> flat_question list \<Rightarrow> review_question \<Rightarrow> course_questions \<Rightarrow> planning_error + course_questions" where
  "curated_slot sign universityId fs q acc =
     (if rq_status q = RQ_EMPTY then Inr (acc\<lparr>cq_missing := cq_missing acc @ [missing_question q]\<rparr>)
      else if rq_status q = RQ_REMOVED
      then Inr (acc\<lparr>cq_missing := cq_missing acc @ [''Pregunta descartada en subtema '' @ rq_subtopicId q]\<rparr>)
      else if \<not> truthy_str (rq_questionId q) then Inr (acc\<lparr>cq_missing := cq_missing acc @ [missing_question q]\<rparr>)
      else case flat_map fs (the (rq_questionId q)) of
        None \<Rightarrow> Inr (acc\<lparr>cq_missing := cq_missing acc @ [''Falta reactivo con ID '' @ the (rq_questionId q) @ '' en posicion '' @ nat_text (rq_position q)]\<rparr>)
      | Some f \<Rightarrow>
          (case extract_question sign universityId (rq_topicId q) (rq_subtopicId q) f of
             Inl e \<Rightarrow> Inl e
           | Inr x \<Rightarrow> Inr (acc\<lparr>cq_questions := cq_questions acc @ [x],
                 cq_replaced := (if rq_status q = RQ_REPLACED then cq_replaced acc @ [eq_id x] else cq_replaced acc)\<rparr>)))"

definition draw_topic ::
  "worker_env \<Rightarrow> uuid \<Rightarrow> string list \<Rightarrow> planned_topic \<Rightarrow> course_questions \<Rightarrow> planning_error + course_questions" where
  "draw_topic env cycleId exclude t acc =
     (case fetch_questions (we_random env (gt_subtopic_id t)) (we_order env) (we_sign env) (we_bank env) (gt_topic_id t) (gt_subtopic_id t)
             (gt_quantity t) exclude (we_university env cycleId) of
        Inl e \<Rightarrow> Inl e
      | Inr qs \<Rightarrow> Inr (acc\<lparr>cq_questions := cq_questions acc @ qs,
            cq_missing := (if int (length qs) < gt_quantity t then cq_missing acc @ [''Faltan '' @ int_text (gt_quantity t - int (length qs)) @ '' de subtema '' @ gt_subtopic_id t] else cq_missing acc)\<rparr>))"

text \<open>\<open>loadCourseQuestions\<close>: the curated slots when there are any, otherwise a draw per topic.\<close>

definition load_course_questions :: "worker_env \<Rightarrow> uuid \<Rightarrow> uuid \<Rightarrow> planned_course \<Rightarrow> planning_db \<Rightarrow> planning_error + course_questions" where
  "load_course_questions env cycleId requestId entry db =
     (let rqs = review_questions_of (we_topicCourse env) requestId (gc_course_id entry) db in
      if rqs \<noteq> []
      then let ids = List.map_filter (\<lambda>q. if truthy_str (rq_questionId q) then rq_questionId q else None) rqs
           in tx_fold (curated_slot (we_sign env) (we_university env cycleId) (find_by_ids ids (we_bank env))) rqs no_questions
      else tx_fold (draw_topic env cycleId (gc_exclude_question_ids entry)) (gc_topics entry) no_questions)"

text \<open>\<open>buildUsageRecords\<close>.\<close>

definition build_usage_records :: "extracted_question list \<Rightarrow> uuid \<Rightarrow> string list \<Rightarrow> usage_record list" where
  "build_usage_records qs cycleId replaced =
     map (\<lambda>(idx, q). \<lparr>ur_cycleId = cycleId, ur_questionId = eq_id q, ur_topicId = eq_topicId q, ur_subtopicId = eq_subtopicId q,
            ur_positionInPdf = int idx + 1, ur_wasReplacement = eq_id q \<in> set replaced\<rparr>) (enumerate 0 qs)"

subsection \<open>One course\<close>

definition safe_char :: "char \<Rightarrow> bool" where
  "safe_char c \<longleftrightarrow> (let n = of_char c :: nat in 97 \<le> n \<and> n \<le> 122 \<or> 65 \<le> n \<and> n \<le> 90 \<or> 48 \<le> n \<and> n \<le> 57 \<or> c = CHR ''_'' \<or> c = CHR ''-'')"

text \<open>\<open>${template_name || 'Material'}_Semana${week_number || ''}_${courseId}\<close> with the unsafe characters replaced.\<close>

definition safe_name :: "worker_job \<Rightarrow> string \<Rightarrow> string" where
  "safe_name job courseId =
     map (\<lambda>c. if safe_char c then c else CHR ''_'')
       ((if wj_template_name job = [] then ''Material'' else wj_template_name job) @ ''_Semana'' @
        (if wj_week_number job = 0 then [] else int_text (wj_week_number job)) @ ''_'' @ courseId)"

definition object_key :: "worker_job \<Rightarrow> string \<Rightarrow> variant \<Rightarrow> string" where
  "object_key job courseId v =
     ''materials/'' @ wj_tenant_id job @ ''/'' @ wj_cycle_id job @ ''/'' @ wj_material_request_id job @ ''/'' @ safe_name job courseId @
     (case v of Student \<Rightarrow> ''.pdf'' | Keys \<Rightarrow> ''_keys.pdf'' | Solutions \<Rightarrow> ''_solutions.pdf'')"

text \<open>Generate and upload one variant: the PDF and its URL.\<close>

definition produce :: "worker_env \<Rightarrow> worker_job \<Rightarrow> string \<Rightarrow> extracted_question list \<Rightarrow> variant \<Rightarrow> planning_error + string \<times> string" where
  "produce env job courseId qs v =
     (case we_render env v courseId qs of
        None \<Rightarrow> Inl (RawError (WorkerError ''render''))
      | Some pdf \<Rightarrow>
          (case we_upload env (object_key job courseId v) pdf of
             None \<Rightarrow> Inl (RawError (WorkerError ''upload''))
           | Some url \<Rightarrow> Inr (pdf, url)))"

text \<open>The PDFs of a course: the batch job makes the three variants, the single-course job the student one only.\<close>

datatype job_kind = Batch | Single

definition produce_all ::
  "worker_env \<Rightarrow> worker_job \<Rightarrow> job_kind \<Rightarrow> string \<Rightarrow> extracted_question list \<Rightarrow> planning_error + string \<times> (string \<times> string option \<times> string option)" where
  "produce_all env job kind courseId qs =
     (case produce env job courseId qs Student of
        Inl e \<Rightarrow> Inl e
      | Inr (pdf, url) \<Rightarrow>
          (case kind of
             Single \<Rightarrow> Inr (pdf, url, None, None)
           | Batch \<Rightarrow>
               (case produce env job courseId qs Keys of
                  Inl e \<Rightarrow> Inl e
                | Inr (_, keyUrl) \<Rightarrow>
                    (case produce env job courseId qs Solutions of
                       Inl e \<Rightarrow> Inl e
                     | Inr (_, solutionUrl) \<Rightarrow> Inr (pdf, url, Some keyUrl, Some solutionUrl)))))"

text \<open>\<open>extractPdfArtifactMeta\<close>: the size, and the page count when pdf-lib can read the document.\<close>

definition extract_pdf_artifact_meta :: "worker_env \<Rightarrow> string \<Rightarrow> artifact_meta" where
  "extract_pdf_artifact_meta env pdf = \<lparr>am_pageCount = we_pageCount env pdf, am_fileSizeBytes = Some (int (length pdf))\<rparr>"

subsection \<open>Callbacks\<close>

text \<open>What a job has done so far: the tables, the jobs it caused to be queued and the events emitted.\<close>

record worker_state =
  ws_db :: planning_db
  ws_jobs :: "queue_job list"
  ws_events :: "generated_event list"

definition callback_dto :: "uuid \<Rightarrow> string \<Rightarrow> webhook_dto" where
  "callback_dto i st = \<lparr>wd_job_id = i, wd_status = st, wd_download_url = None, wd_key_download_url = None,
     wd_solution_download_url = None, wd_error_message = None\<rparr>"

definition report ::
  "worker_env \<Rightarrow> worker_job \<Rightarrow> planned_course \<Rightarrow> (uuid \<Rightarrow> webhook_dto) \<Rightarrow> usage_record list option \<Rightarrow> artifact_meta option
    \<Rightarrow> worker_state \<Rightarrow> (planning_error + unit) \<times> worker_state" where
  "report env job entry dto usages meta s =
     (case gc_course_request_id entry of
        None \<Rightarrow> (Inr (), s)
      | Some i \<Rightarrow>
          (case handle_webhook (we_now env) (ws_db s) (we_ledgerOk env i) (we_queueOk env i) (Some (wj_tenant_id job)) (dto i) usages meta (ws_db s) of
             (r, db', jobs, event) \<Rightarrow>
               (r, s\<lparr>ws_db := db', ws_jobs := ws_jobs s @ jobs,
                     ws_events := ws_events s @ (case event of None \<Rightarrow> [] | Some e \<Rightarrow> [e])\<rparr>)))"

definition join_missing :: "string list \<Rightarrow> string option" where
  "join_missing ms = (case ms of [] \<Rightarrow> None | m # rest \<Rightarrow> Some (m @ concat (map (\<lambda>x. '', '' @ x) rest)))"

definition error_text :: "planning_error \<Rightarrow> string" where
  "error_text e = (case e of RawError (WorkerError m) \<Rightarrow> m | _ \<Rightarrow> ''error'')"

text \<open>The body of the \<open>try\<close>: load, and either report an empty bank or produce the PDFs and report them.\<close>

definition course_body ::
  "worker_env \<Rightarrow> worker_job \<Rightarrow> job_kind \<Rightarrow> planned_course \<Rightarrow> worker_state \<Rightarrow> (planning_error + unit) \<times> worker_state" where
  "course_body env job kind entry s =
     (case load_course_questions env (wj_cycle_id job) (wj_material_request_id job) entry (ws_db s) of
        Inl e \<Rightarrow> (Inl e, s)
      | Inr cq \<Rightarrow>
          if cq_questions cq = []
          then report env job entry (\<lambda>i. (callback_dto i ''empty_bank'')\<lparr>wd_error_message := Some ''Banco vacio''\<rparr>) None None s
          else case produce_all env job kind (gc_course_id entry) (cq_questions cq) of
            Inl e \<Rightarrow> (Inl e, s)
          | Inr (pdf, url, keyUrl, solutionUrl) \<Rightarrow>
              report env job entry
                (\<lambda>i. (callback_dto i (if cq_missing cq = [] then ''completed'' else ''completed_with_warnings''))
                   \<lparr>wd_download_url := Some url, wd_key_download_url := keyUrl, wd_solution_download_url := solutionUrl,
                     wd_error_message := join_missing (cq_missing cq)\<rparr>)
                (Some (build_usage_records (cq_questions cq) (wj_cycle_id job) (cq_replaced cq)))
                (Some (extract_pdf_artifact_meta env pdf)) s)"

text \<open>The \<open>catch\<close>: report the failure and rethrow; a failure of that report replaces the error.\<close>

definition process_course ::
  "worker_env \<Rightarrow> worker_job \<Rightarrow> job_kind \<Rightarrow> planned_course \<Rightarrow> worker_state \<Rightarrow> (planning_error + unit) \<times> worker_state" where
  "process_course env job kind entry s =
     (case course_body env job kind entry s of
        (Inr _, s') \<Rightarrow> (Inr (), s')
      | (Inl e, s') \<Rightarrow>
          (case report env job entry (\<lambda>i. (callback_dto i ''failed'')\<lparr>wd_error_message := Some (error_text e)\<rparr>) None None s' of
             (Inl e', s'') \<Rightarrow> (Inl e', s'')
           | (Inr _, s'') \<Rightarrow> (Inl e, s'')))"

subsection \<open>The jobs\<close>

text \<open>\<open>handleGeneratePdf\<close>: course after course, up to the first one that fails.\<close>

fun process_courses ::
  "worker_env \<Rightarrow> worker_job \<Rightarrow> planned_course list \<Rightarrow> worker_state \<Rightarrow> (planning_error + unit) \<times> worker_state" where
  "process_courses env job [] s = (Inr (), s)"
| "process_courses env job (d # ds) s =
     (case process_course env job Batch d s of
        (Inl e, s') \<Rightarrow> (Inl e, s')
      | (Inr _, s') \<Rightarrow> process_courses env job ds s')"

definition batch_job :: "generate_pdf_job \<Rightarrow> worker_job" where
  "batch_job j = \<lparr>wj_tenant_id = gj_tenant_id j, wj_cycle_id = gj_cycle_id j, wj_material_request_id = gj_material_request_id j,
     wj_week_number = gj_week_number j, wj_template_name = gj_template_name j, wj_distributions = gj_distributions j\<rparr>"

definition handle_generate_pdf :: "worker_env \<Rightarrow> generate_pdf_job \<Rightarrow> planning_db \<Rightarrow> (planning_error + unit) \<times> worker_state" where
  "handle_generate_pdf env j db =
     process_courses env (batch_job j) (gj_distributions j) \<lparr>ws_db = db, ws_jobs = [], ws_events = []\<rparr>"

text \<open>\<open>handleGenerateSingleCourse\<close> of the job an approval queues.\<close>

definition single_course :: "course_job \<Rightarrow> planned_course" where
  "single_course j = \<lparr>gc_course_id = cj_course_id j,
     gc_topics = map (\<lambda>(t, s, n). \<lparr>gt_topic_id = t, gt_subtopic_id = s, gt_quantity = n, gt_expected_levels = []\<rparr>) (cj_syllabus_distribution j),
     gc_exclude_question_ids = [], gc_course_request_id = (if cj_job_id j = [] then None else Some (cj_job_id j))\<rparr>"

definition single_job :: "course_job \<Rightarrow> worker_job" where
  "single_job j = \<lparr>wj_tenant_id = cj_tenant_id j, wj_cycle_id = cj_cycle_id j, wj_material_request_id = cj_material_request_id j,
     wj_week_number = cj_week_number j, wj_template_name = cj_template_name j, wj_distributions = [single_course j]\<rparr>"

definition handle_generate_single_course :: "worker_env \<Rightarrow> course_job \<Rightarrow> planning_db \<Rightarrow> (planning_error + unit) \<times> worker_state" where
  "handle_generate_single_course env j db =
     process_course env (single_job j) Single (single_course j) \<lparr>ws_db = db, ws_jobs = [], ws_events = []\<rparr>"

subsection \<open>The merge\<close>

record merge_env =
  me_now :: millis
  me_getObject :: "string \<Rightarrow> string list option"
  me_save :: "string list \<Rightarrow> string"
  me_upload :: "string \<Rightarrow> string \<Rightarrow> string option"

text \<open>
  \<open>mergeAndUpload\<close>: the pages of every source that loads, one after the other; nothing when no source does.
  \<open>me_getObject\<close> is the download of an object and the pages pdf-lib reads from it.
\<close>

definition source_pages :: "merge_env \<Rightarrow> variant \<Rightarrow> request_course list \<Rightarrow> string list list" where
  "source_pages env v cs =
     List.map_filter (\<lambda>c. me_getObject env (s3_key_of (the (course_url v c)))) (filter (\<lambda>c. truthy_str (course_url v c)) cs)"

definition merge_and_upload :: "merge_env \<Rightarrow> variant \<Rightarrow> string \<Rightarrow> request_course list \<Rightarrow> planning_error + string option" where
  "merge_and_upload env v key cs =
     (if source_pages env v cs = [] then Inr None
      else case me_upload env key (me_save env (concat (source_pages env v cs))) of
        None \<Rightarrow> Inl (RawError (WorkerError ''upload''))
      | Some url \<Rightarrow> Inr (Some url))"

definition merge_key :: "string \<Rightarrow> uuid \<Rightarrow> variant \<Rightarrow> string" where
  "merge_key tenantId requestId v = ''materials/'' @ tenantId @ ''/merged/'' @ requestId @
     (case v of Student \<Rightarrow> ''/Completo.pdf'' | Keys \<Rightarrow> ''/Completo_keys.pdf'' | Solutions \<Rightarrow> ''/Completo_solutions.pdf'')"

definition handle_merge_pdf :: "merge_env \<Rightarrow> uuid \<Rightarrow> string \<Rightarrow> planning_db \<Rightarrow> (planning_error + unit) \<times> planning_db" where
  "handle_merge_pdf env requestId tenantId db =
     (let completed = filter (\<lambda>c. rc_status c = CM_COMPLETED \<and> truthy_str (rc_downloadUrl c)) (get_courses_for_merge requestId db);
          merge = (\<lambda>v. merge_and_upload env v (merge_key tenantId requestId v) completed)
      in if length completed < 2 then (Inr (), db)
         else case merge Student of
           Inl e \<Rightarrow> (Inl e, db)
         | Inr None \<Rightarrow> (Inl (RawError (WorkerError ''No course PDFs could be merged'')), db)
         | Inr (Some url) \<Rightarrow>
             (case merge Keys of
                Inl e \<Rightarrow> (Inl e, db)
              | Inr keyUrl \<Rightarrow>
                  (case merge Solutions of
                     Inl e \<Rightarrow> (Inl e, db)
                   | Inr solutionUrl \<Rightarrow>
                       (Inr (), update_merged_download_url (me_now env) requestId url keyUrl solutionUrl db))))"

end
