(* ===== verification/Cron.thy ===== *)
theory Cron
  imports Webhook Locking
begin

text \<open>
  The scheduled jobs of \<open>MaterialsCron\<close> (\<open>materials/materials.cron.ts\<close>): the daily automatic generation and the
  reconciliation sweep, over every active company. The world maps a schema to its tables. A run of a cron acts
  alone here; the calls it makes of the generation take the parameters of \<open>generate_material\<close>, one set per cycle
  and week. \<open>findOne(CycleMaterialTemplate, {})\<close>, a \<open>findOne\<close> without conditions, is a parameter: the library
  either rejects it or picks some row.
\<close>

type_synonym world = "string \<Rightarrow> planning_db"

definition company_branding_of :: "company \<Rightarrow> company_branding" where
  "company_branding_of c = \<lparr>cb_commercialName = Some (co_commercialName c), cb_logoUrl = co_logoUrl c\<rparr>"

subsection \<open>Automatic generation\<close>

record generate_params =
  gp_now :: millis
  gp_bank :: question_bank
  gp_levels :: "nat \<Rightarrow> nat \<Rightarrow> rat"
  gp_picks :: "nat \<Rightarrow> nat \<Rightarrow> rat"
  gp_fresh :: "nat \<Rightarrow> uuid"
  gp_freshSlot :: "nat \<Rightarrow> uuid"

definition auto_dto :: "material_template \<Rightarrow> cycle_week \<Rightarrow> generate_dto" where
  "auto_dto t w = \<lparr>gd_profile_id = tp_id t, gd_week_number = cw_weekNumber w, gd_requires_review = False, gd_courses = Some [],
     gd_design_template_id = None\<rparr>"

text \<open>One week: inactive weeks and weeks with a material are skipped; an error of the use case is logged.\<close>

definition generate_week ::
  "(uuid \<Rightarrow> int \<Rightarrow> generate_params) \<Rightarrow> company_branding option \<Rightarrow> string \<Rightarrow> material_template \<Rightarrow> cycle \<Rightarrow> cycle_week
    \<Rightarrow> planning_db \<times> queue_job list \<Rightarrow> planning_db \<times> queue_job list" where
  "generate_week params branding tenantId t c w s =
     (case s of (db, jobs) \<Rightarrow>
        if \<not> cw_isActive w then (db, jobs)
        else if find_one (\<lambda>m. ma_profileId m = tp_id t \<and> ma_cycleId m = cy_id c \<and> ma_weekNumber m = cw_weekNumber w) (pd_materials db) \<noteq> None
        then (db, jobs)
        else let p = params (cy_id c) (cw_weekNumber w) in
          case generate_material (gp_now p) (gp_bank p) (gp_levels p) (gp_picks p) id id (gp_fresh p) (gp_freshSlot p)
                 branding tenantId tenantId (auto_dto t w) db of
            (_, db', js) \<Rightarrow> (db', jobs @ js))"

definition active_cycles :: "planning_db \<Rightarrow> cycle list" where
  "active_cycles db = find_all (\<lambda>c. cy_isActive c \<and> cy_deletedAt c = None) (pd_cycles db)"

definition cycle_weeks :: "planning_db \<Rightarrow> cycle \<Rightarrow> cycle_week list" where
  "cycle_weeks db c = find_all (\<lambda>w. cw_cycleId w = cy_id c \<and> cw_deletedAt w = None) (pd_weeks db)"

definition generate_for_tenant ::
  "(material_template list \<Rightarrow> planning_error + material_template option) \<Rightarrow> (uuid \<Rightarrow> int \<Rightarrow> generate_params) \<Rightarrow> company_branding option
    \<Rightarrow> string \<Rightarrow> planning_db \<Rightarrow> planning_error + planning_db \<times> queue_job list" where
  "generate_for_tenant find_any params branding tenantId db =
     (case find_any (pd_templates db) of
        Inl e \<Rightarrow> Inl e
      | Inr None \<Rightarrow> Inr (db, [])
      | Inr (Some t) \<Rightarrow>
          Inr (fold (\<lambda>(c, w). generate_week params branding tenantId t c w)
                 (concat (map (\<lambda>c. map (Pair c) (cycle_weeks db c)) (active_cycles db))) (db, [])))"

text \<open>Every active company; the error of one is logged and does not stop the next.\<close>

definition generate_company ::
  "(material_template list \<Rightarrow> planning_error + material_template option) \<Rightarrow> (uuid \<Rightarrow> uuid \<Rightarrow> int \<Rightarrow> generate_params) \<Rightarrow> company
    \<Rightarrow> world \<times> queue_job list \<Rightarrow> world \<times> queue_job list" where
  "generate_company find_any params c s =
     (case s of (w, jobs) \<Rightarrow>
        (case generate_for_tenant find_any (params (co_id c)) (Some (company_branding_of c)) (co_id c) (w (tenant_schema (co_id c))) of
           Inl _ \<Rightarrow> (w, jobs)
         | Inr (db', js) \<Rightarrow> (w(tenant_schema (co_id c) := db'), jobs @ js)))"

definition generate_for_all_tenants ::
  "(material_template list \<Rightarrow> planning_error + material_template option) \<Rightarrow> (uuid \<Rightarrow> uuid \<Rightarrow> int \<Rightarrow> generate_params) \<Rightarrow> company list
    \<Rightarrow> world \<Rightarrow> world \<times> queue_job list" where
  "generate_for_all_tenants find_any params companies w =
     fold (generate_company find_any params) (find_all co_isActive companies) (w, [])"

definition LOCK_TTL_MS :: millis where "LOCK_TTL_MS = 60 * 60 * 1000"
definition RECONCILIATION_LOCK_TTL_MS :: millis where "RECONCILIATION_LOCK_TTL_MS = 10 * 60 * 1000"
definition STALE_THRESHOLD_MS :: millis where "STALE_THRESHOLD_MS = 5 * 60 * 1000"
definition SWEEP_BATCH_LIMIT :: nat where "SWEEP_BATCH_LIMIT = 200"

definition handle_cron ::
  "bool \<Rightarrow> millis \<Rightarrow> (material_template list \<Rightarrow> planning_error + material_template option) \<Rightarrow> (uuid \<Rightarrow> uuid \<Rightarrow> int \<Rightarrow> generate_params)
    \<Rightarrow> company list \<Rightarrow> unit redis \<Rightarrow> world \<Rightarrow> queue_job list option \<times> unit redis \<times> world" where
  "handle_cron online now find_any params companies m w =
     run_exclusively online now ''cron:materials:auto-generate'' LOCK_TTL_MS
       (\<lambda>w. case generate_for_all_tenants find_any params companies w of (w', jobs) \<Rightarrow> (jobs, w')) m w"

subsection \<open>The sweep: weeks whose flag was lost\<close>

text \<open>
  The weeks with a distribution not flagged as generated and a course of a request that completed more than
  five minutes ago. The rows come in no particular order (\<open>order\<close>), the first 200 are taken.
\<close>

definition course_of_week :: "millis \<Rightarrow> planning_db \<Rightarrow> generated_event \<Rightarrow> bool" where
  "course_of_week now db e \<longleftrightarrow>
     list_ex (\<lambda>r. mr_cycleId r = ge_cycleId e \<and> mr_weekNumber r = ge_weekNumber e \<and>
        list_ex (\<lambda>c. rc_materialRequestId c = mr_id r \<and> rc_courseId c = ge_courseId e \<and> success_terminal (rc_status c) \<and>
           (case rc_completedAt c of None \<Rightarrow> False | Some t \<Rightarrow> t < now - STALE_THRESHOLD_MS)) (pd_requestCourses db)) (pd_requests db)"

definition stuck_weeks :: "millis \<Rightarrow> planning_db \<Rightarrow> generated_event list" where
  "stuck_weeks now db =
     js_unique (filter (course_of_week now db)
       [\<lparr>ge_cycleId = sy_cycleId s, ge_courseId = sy_courseId s, ge_weekNumber = sd_weekNumber d\<rparr>.
          d \<leftarrow> pd_distributions db, \<not> sd_isGenerated d, s \<leftarrow> pd_syllabuses db, sy_id s = sd_syllabusId d])"

definition sweep_week :: "(generated_event \<Rightarrow> bool) \<Rightarrow> generated_event \<Rightarrow> planning_db \<Rightarrow> planning_db" where
  "sweep_week fails e db = (if fails e then db else snd (run_tx (mark_week_generated e) db))"

definition sweep_stuck_syllabus_distributions ::
  "millis \<Rightarrow> (generated_event list \<Rightarrow> generated_event list) \<Rightarrow> (generated_event \<Rightarrow> bool) \<Rightarrow> planning_db \<Rightarrow> planning_db" where
  "sweep_stuck_syllabus_distributions now order fails db =
     fold (sweep_week fails) (take SWEEP_BATCH_LIMIT (order (stuck_weeks now db))) db"

subsection \<open>The sweep: courses whose job was lost\<close>

definition stuck_courses :: "millis \<Rightarrow> planning_db \<Rightarrow> (material_request \<times> request_course) list" where
  "stuck_courses now db =
     [(r, c). c \<leftarrow> pd_requestCourses db, rc_status c = CM_PROCESSING, r \<leftarrow> pd_requests db, mr_id r = rc_materialRequestId c,
        mr_updatedAt r < now - STALE_THRESHOLD_MS]"

text \<open>The buckets of \<open>byRequest\<close>, a JavaScript Map: insertion order, one bucket per request.\<close>

fun by_request :: "(material_request \<times> request_course) list \<Rightarrow> (uuid, (material_request \<times> request_course) list) js_map
    \<Rightarrow> (uuid, (material_request \<times> request_course) list) js_map" where
  "by_request [] m = m"
| "by_request ((r, c) # rest) m =
     by_request rest (js_map_set (mr_id r) ((case map_of m (mr_id r) of None \<Rightarrow> [] | Some b \<Rightarrow> b) @ [(r, c)]) m)"

definition redispatch_job :: "company \<Rightarrow> planning_db \<Rightarrow> uuid \<Rightarrow> (material_request \<times> request_course) list \<Rightarrow> queue_job" where
  "redispatch_job company db requestId bucket = Generate_Pdf
     (let first = fst (hd bucket) in
      \<lparr>gj_material_request_id = requestId, gj_tenant_id = co_id company, gj_cycle_id = mr_cycleId first, gj_week_number = mr_weekNumber first,
       gj_template_name = template_name (mr_profileId first) db, gj_design_template_id = mr_designTemplateId first,
       gj_requires_review = mr_requiresReview first, gj_material_type = mr_materialType first,
       gj_distributions = map (\<lambda>(_, c). \<lparr>gc_course_id = rc_courseId c, gc_topics = [], gc_exclude_question_ids = [],
          gc_course_request_id = Some (rc_id c)\<rparr>) bucket,
       gj_commercial_name = branding_name (Some (company_branding_of company)), gj_logo_url = branding_logo (Some (company_branding_of company))\<rparr>)"

text \<open>\<open>UPDATE material_requests SET updated_at = now() WHERE id = $1\<close>, in plain SQL: the version stays.\<close>

definition reset_staleness :: "millis \<Rightarrow> uuid \<Rightarrow> planning_db \<Rightarrow> planning_db" where
  "reset_staleness now i db = db\<lparr>pd_requests := update_where (\<lambda>r. mr_id r = i) (\<lambda>r. r\<lparr>mr_updatedAt := now\<rparr>) (pd_requests db)\<rparr>"

definition redispatch ::
  "millis \<Rightarrow> (uuid \<Rightarrow> bool) \<Rightarrow> (uuid \<Rightarrow> bool) \<Rightarrow> company \<Rightarrow> uuid \<times> (material_request \<times> request_course) list
    \<Rightarrow> planning_db \<times> queue_job list \<Rightarrow> planning_db \<times> queue_job list" where
  "redispatch now queueOk bumpOk company g s =
     (case g of (requestId, bucket) \<Rightarrow> case s of (db, jobs) \<Rightarrow>
        if \<not> queueOk requestId then (db, jobs)
        else (if bumpOk requestId then reset_staleness now requestId db else db, jobs @ [redispatch_job company db requestId bucket]))"

definition sweep_stuck_material_courses ::
  "millis \<Rightarrow> ((material_request \<times> request_course) list \<Rightarrow> (material_request \<times> request_course) list) \<Rightarrow> (uuid \<Rightarrow> bool) \<Rightarrow> (uuid \<Rightarrow> bool)
    \<Rightarrow> company \<Rightarrow> planning_db \<Rightarrow> planning_db \<times> queue_job list" where
  "sweep_stuck_material_courses now order queueOk bumpOk company db =
     fold (redispatch now queueOk bumpOk company) (by_request (take SWEEP_BATCH_LIMIT (order (stuck_courses now db))) []) (db, [])"

record sweep_env =
  se_weekOrder :: "generated_event list \<Rightarrow> generated_event list"
  se_weekFails :: "generated_event \<Rightarrow> bool"
  se_courseOrder :: "(material_request \<times> request_course) list \<Rightarrow> (material_request \<times> request_course) list"
  se_queueOk :: "uuid \<Rightarrow> bool"
  se_bumpOk :: "uuid \<Rightarrow> bool"

definition sweep_tenant :: "millis \<Rightarrow> sweep_env \<Rightarrow> company \<Rightarrow> planning_db \<Rightarrow> planning_db \<times> queue_job list" where
  "sweep_tenant now env company db =
     sweep_stuck_material_courses now (se_courseOrder env) (se_queueOk env) (se_bumpOk env) company
       (sweep_stuck_syllabus_distributions now (se_weekOrder env) (se_weekFails env) db)"

definition sweep_company :: "millis \<Rightarrow> (uuid \<Rightarrow> sweep_env) \<Rightarrow> company \<Rightarrow> world \<times> queue_job list \<Rightarrow> world \<times> queue_job list" where
  "sweep_company now env c s =
     (case s of (w, jobs) \<Rightarrow>
        (case sweep_tenant now (env (co_id c)) c (w (tenant_schema (co_id c))) of
           (db', js) \<Rightarrow> (w(tenant_schema (co_id c) := db'), jobs @ js)))"

definition sweep_all_tenants :: "millis \<Rightarrow> (uuid \<Rightarrow> sweep_env) \<Rightarrow> company list \<Rightarrow> world \<Rightarrow> world \<times> queue_job list" where
  "sweep_all_tenants now env companies w = fold (sweep_company now env) (find_all co_isActive companies) (w, [])"

definition handle_reconciliation_sweep_cron ::
  "bool \<Rightarrow> millis \<Rightarrow> (uuid \<Rightarrow> sweep_env) \<Rightarrow> company list \<Rightarrow> unit redis \<Rightarrow> world \<Rightarrow> queue_job list option \<times> unit redis \<times> world" where
  "handle_reconciliation_sweep_cron online now env companies m w =
     run_exclusively online now ''cron:materials:reconciliation-sweep'' RECONCILIATION_LOCK_TTL_MS
       (\<lambda>w. case sweep_all_tenants now env companies w of (w', jobs) \<Rightarrow> (jobs, w')) m w"

subsection \<open>The automatic generation generates nothing\<close>

lemma auto_dto_rejected:
  "\<exists>e. generate_material now bank levels picks id id fresh freshSlot branding tenantId userId (auto_dto t w) db = (Inl e, db, [])"
  by (auto simp: generate_material_def gather_inputs_def auto_dto_def split: option.splits)

lemma generate_week_idle: "generate_week params branding tenantId t c w (db, jobs) = (db, jobs)"
proof -
  let ?p = "params (cy_id c) (cw_weekNumber w)"
  obtain e where "generate_material (gp_now ?p) (gp_bank ?p) (gp_levels ?p) (gp_picks ?p) id id (gp_fresh ?p) (gp_freshSlot ?p)
      branding tenantId tenantId (auto_dto t w) db = (Inl e, db, [])"
    using auto_dto_rejected by blast
  then show ?thesis by (simp add: generate_week_def Let_def)
qed

lemma generate_weeks_idle: "fold (\<lambda>(c, w). generate_week params branding tenantId t c w) ws (db, jobs) = (db, jobs)"
  by (induction ws) (auto simp: generate_week_idle)

lemma generate_company_idle: "generate_company find_any params c (w, jobs) = (w, jobs)"
  by (auto simp: generate_company_def generate_for_tenant_def generate_weeks_idle split: sum.splits option.splits)

text \<open>
  Whatever the tenants hold, whatever the library answers to the unconditional lookup of a template and whatever
  the question bank and the clocks are, a run of the daily generation changes no table and queues no job: it
  asks for an empty list of courses, which the use case does not read as "the courses of the template".
\<close>

lemma auto_generation_idle:
  "handle_cron online now find_any params companies m w =
     (if fst (try_acquire online now ''cron:materials:auto-generate'' LOCK_TTL_MS m)
      then (Some [], snd (try_acquire online now ''cron:materials:auto-generate'' LOCK_TTL_MS m), w) else (None, m, w))"
proof -
  have "fold (generate_company find_any params) cs (w, []) = (w, [])" for cs
    by (induction cs) (auto simp: generate_company_idle)
  moreover have "try_acquire online now k ttl m = (False, m') \<Longrightarrow> m' = m" for k ttl m'
    by (auto simp: try_acquire_def split: option.splits if_splits)
  ultimately show ?thesis
    by (auto simp: handle_cron_def run_exclusively_def generate_for_all_tenants_def split: prod.splits bool.splits)
qed

subsection \<open>What the sweep recovers\<close>

definition reorders_rows :: "('a list \<Rightarrow> 'a list) \<Rightarrow> bool" where
  "reorders_rows order \<longleftrightarrow> (\<forall>xs. mset (order xs) = mset xs)"

lemma reorders_rows_take:
  assumes "reorders_rows order" and "length xs \<le> n"
  shows "set (take n (order xs)) = set xs"
proof -
  from assms(1) have "mset (order xs) = mset xs" by (simp add: reorders_rows_def)
  then have "set (order xs) = set xs" "length (order xs) = length xs" by (rule mset_eq_setD, rule mset_eq_length)
  with assms(2) show ?thesis by simp
qed

definition week_of :: "planning_db \<Rightarrow> generated_event \<Rightarrow> distribution \<Rightarrow> bool" where
  "week_of db e d \<longleftrightarrow> (\<exists>s\<in>set (pd_syllabuses db). sy_id s = sd_syllabusId d \<and> ge_cycleId e = sy_cycleId s \<and>
     ge_courseId e = sy_courseId s \<and> ge_weekNumber e = sd_weekNumber d)"

definition one_syllabus :: "planning_db \<Rightarrow> bool" where
  "one_syllabus db \<longleftrightarrow> inj_on (\<lambda>s. (sy_cycleId s, sy_courseId s)) (set (pd_syllabuses db))"

lemma sweep_week_tables:
  "pd_syllabuses (sweep_week fails e db) = pd_syllabuses db" "pd_requests (sweep_week fails e db) = pd_requests db"
  "pd_requestCourses (sweep_week fails e db) = pd_requestCourses db"
  by (auto simp: sweep_week_def run_tx_def mark_week_generated_def Let_def split: option.splits)

lemma sweep_weeks_tables:
  "pd_syllabuses (fold (sweep_week fails) es db) = pd_syllabuses db" "pd_requests (fold (sweep_week fails) es db) = pd_requests db"
  "pd_requestCourses (fold (sweep_week fails) es db) = pd_requestCourses db"
  by (induction es arbitrary: db) (simp_all add: sweep_week_tables)

lemma sweep_week_open:
  assumes "one_syllabus db" and "\<not> fails e" and "d \<in> set (pd_distributions (sweep_week fails e db))" and "\<not> sd_isGenerated d"
  shows "d \<in> set (pd_distributions db) \<and> \<not> week_of db e d"
proof (cases "find_one (\<lambda>s. sy_cycleId s = ge_cycleId e \<and> sy_courseId s = ge_courseId e) (pd_syllabuses db)")
  case None
  with assms show ?thesis by (auto simp: sweep_week_def run_tx_def mark_week_generated_def find_one_None week_of_def)
next
  case (Some s)
  let ?p = "\<lambda>d. sd_syllabusId d = sy_id s \<and> sd_weekNumber d = ge_weekNumber e"
  from Some assms(2) have "pd_distributions (sweep_week fails e db) = update_where ?p (\<lambda>d. d\<lparr>sd_isGenerated := True\<rparr>) (pd_distributions db)"
    by (simp add: sweep_week_def run_tx_def mark_week_generated_def Let_def)
  with assms(3,4) have d: "d \<in> set (pd_distributions db)" "\<not> ?p d" by (auto simp: table_simps split: if_splits)
  from find_one_Some [OF Some] have s: "s \<in> set (pd_syllabuses db)" "sy_cycleId s = ge_cycleId e" "sy_courseId s = ge_courseId e" by auto
  have "s' = s" if "s' \<in> set (pd_syllabuses db)" "sy_cycleId s' = ge_cycleId e" "sy_courseId s' = ge_courseId e" for s'
    using inj_onD [OF assms(1) [unfolded one_syllabus_def], of s' s] that s by simp
  with d show ?thesis unfolding week_of_def by metis
qed

lemma sweep_weeks_open:
  assumes "one_syllabus db" and "\<forall>e\<in>set es. \<not> fails e"
    and "d \<in> set (pd_distributions (fold (sweep_week fails) es db))" and "\<not> sd_isGenerated d"
  shows "d \<in> set (pd_distributions db) \<and> (\<forall>e\<in>set es. \<not> week_of db e d)"
  using assms
proof (induction es arbitrary: db)
  case (Cons e es)
  let ?db = "sweep_week fails e db"
  have "one_syllabus ?db" using Cons.prems(1) by (simp add: one_syllabus_def sweep_week_tables)
  with Cons have r: "d \<in> set (pd_distributions ?db)" "\<forall>e\<in>set es. \<not> week_of ?db e d" by simp_all
  have w: "week_of ?db e' d = week_of db e' d" for e' by (simp add: week_of_def sweep_week_tables)
  from sweep_week_open [OF Cons.prems(1) _ r(1)] Cons.prems(2,4) r(2) show ?case by (simp add: w)
qed simp

lemma event_eq: "e = \<lparr>ge_cycleId = a, ge_courseId = b, ge_weekNumber = c\<rparr> \<longleftrightarrow> ge_cycleId e = a \<and> ge_courseId e = b \<and> ge_weekNumber e = c"
  by (cases e) auto

lemma in_stuck_weeks:
  "e \<in> set (stuck_weeks now db) \<longleftrightarrow> course_of_week now db e \<and> (\<exists>d\<in>set (pd_distributions db). \<not> sd_isGenerated d \<and> week_of db e d)"
  unfolding stuck_weeks_def week_of_def by (auto simp: event_eq)

text \<open>
  C19. When a course has one syllabus per cycle, a sweep whose statements succeed and whose backlog fits the batch
  leaves no week behind that it could recover: no distribution of a week with a long completed course is
  without its flag.
\<close>

theorem sweep_flags_stuck_weeks:
  assumes "one_syllabus db" and "reorders_rows order" and "length (stuck_weeks now db) \<le> SWEEP_BATCH_LIMIT"
    and "\<forall>e. \<not> fails e"
  shows "stuck_weeks now (sweep_stuck_syllabus_distributions now order fails db) = []"
proof -
  let ?es = "take SWEEP_BATCH_LIMIT (order (stuck_weeks now db))"
  let ?db = "sweep_stuck_syllabus_distributions now order fails db"
  have es: "set ?es = set (stuck_weeks now db)" by (rule reorders_rows_take [OF assms(2,3)])
  have t: "pd_syllabuses ?db = pd_syllabuses db" "pd_requests ?db = pd_requests db" "pd_requestCourses ?db = pd_requestCourses db"
    unfolding sweep_stuck_syllabus_distributions_def by (simp_all add: sweep_weeks_tables)
  have False if "e \<in> set (stuck_weeks now ?db)" for e
  proof -
    from that obtain d where d: "d \<in> set (pd_distributions ?db)" "\<not> sd_isGenerated d" "week_of ?db e d" and c: "course_of_week now ?db e"
      by (auto simp: in_stuck_weeks)
    from d(3) c have w: "week_of db e d" "course_of_week now db e" by (simp_all add: week_of_def course_of_week_def t)
    from sweep_weeks_open [OF assms(1) _ d(1) [unfolded sweep_stuck_syllabus_distributions_def] d(2)] assms(4)
    have "d \<in> set (pd_distributions db)" "\<forall>e\<in>set ?es. \<not> week_of db e d" by simp_all
    moreover from this(1) w d(2) have "e \<in> set (stuck_weeks now db)" unfolding in_stuck_weeks by blast
    ultimately show False using w(1) es by blast
  qed
  then show ?thesis by (metis list.set_intros(1) neq_Nil_conv)
qed

fun job_request :: "queue_job \<Rightarrow> uuid" where
  "job_request (Generate_Pdf j) = gj_material_request_id j"
| "job_request (Generate_Course j) = cj_material_request_id j"
| "job_request (Merge_Pdf i t) = i"

fun job_courses :: "queue_job \<Rightarrow> uuid list" where
  "job_courses (Generate_Pdf j) = List.map_filter gc_course_request_id (gj_distributions j)"
| "job_courses (Generate_Course j) = [cj_job_id j]"
| "job_courses (Merge_Pdf i t) = []"

lemma by_request_lookup:
  "map_of (by_request rows m) i =
     (let own = filter (\<lambda>(r, c). mr_id r = i) rows in
      case map_of m i of None \<Rightarrow> if own = [] then None else Some own | Some b \<Rightarrow> Some (b @ own))"
  by (induction rows m rule: by_request.induct) (auto simp: Let_def map_of_js_map_set split: option.splits)

lemma by_request_distinct: "distinct (map fst m) \<Longrightarrow> distinct (map fst (by_request rows m))"
  by (induction rows m rule: by_request.induct) (simp_all add: distinct_js_map_set)

lemma by_request_groups:
  "(i, b) \<in> set (by_request rows []) \<longleftrightarrow> b \<noteq> [] \<and> b = filter (\<lambda>(r, c). mr_id r = i) rows"
proof -
  have "distinct (map fst (by_request rows []))" by (rule by_request_distinct) simp
  then have "(i, b) \<in> set (by_request rows []) \<longleftrightarrow> map_of (by_request rows []) i = Some b" by simp
  then show ?thesis by (auto simp: by_request_lookup Let_def split: if_splits)
qed

lemma redispatch_job_fields [simp]:
  "job_request (redispatch_job company db i b) = i" "job_courses (redispatch_job company db i b) = map (rc_id \<circ> snd) b"
  by (simp_all add: redispatch_job_def Let_def List.map_filter_def case_prod_beta comp_def)

lemma reset_staleness_templates [simp]: "pd_templates (reset_staleness now i db) = pd_templates db"
  by (simp add: reset_staleness_def)

lemma redispatch_all:
  assumes "\<forall>i. queueOk i \<and> bumpOk i"
  shows "fold (redispatch now queueOk bumpOk company) groups (db, jobs) =
     (fold (\<lambda>(i, b). reset_staleness now i) groups db, jobs @ map (\<lambda>(i, b). redispatch_job company db i b) groups)"
proof (induction groups arbitrary: db jobs)
  case (Cons g gs)
  obtain i b where g: "g = (i, b)" by fastforce
  have "redispatch_job company (reset_staleness now i db) = redispatch_job company db"
    by (intro ext) (simp add: redispatch_job_def template_name_def)
  with assms Cons.IH [of "reset_staleness now i db"] show ?case by (simp add: g redispatch_def)
qed simp

lemma reset_all_requests:
  "pd_requests (fold (\<lambda>(i, b). reset_staleness now i) groups db) =
     map (\<lambda>r. if mr_id r \<in> fst ` set groups then r\<lparr>mr_updatedAt := now\<rparr> else r) (pd_requests db)"
  by (induction groups arbitrary: db) (auto simp: reset_staleness_def update_where_def)

lemma reset_all_courses: "pd_requestCourses (fold (\<lambda>(i, b). reset_staleness now i) groups db) = pd_requestCourses db"
  by (induction groups arbitrary: db) (auto simp: reset_staleness_def)


subsection \<open>Samples\<close>

text \<open>One request of two courses, the first completed long ago, the second still processing, and an unflagged week.\<close>

definition sample_course :: "uuid \<Rightarrow> string \<Rightarrow> course_status \<Rightarrow> request_course" where
  "sample_course i courseId st = \<lparr>rc_id = i, rc_materialRequestId = ''r'', rc_courseId = courseId, rc_status = st, rc_downloadUrl = None,
     rc_keyDownloadUrl = None, rc_solutionDownloadUrl = None, rc_warnings = None, rc_pageCount = None, rc_fileSizeBytes = None,
     rc_completedAt = (if st = CM_COMPLETED then Some 0 else None)\<rparr>"

definition sample_request :: material_request where
  "sample_request = \<lparr>mr_id = ''r'', mr_tenantId = ''tn'', mr_profileId = ''t'', mr_cycleId = ''cy'', mr_weekNumber = 1, mr_status = MR_PROCESSING,
     mr_requiresReview = False, mr_materialType = ''BALOTARIO'', mr_designTemplateId = None, mr_materialId = None, mr_createdBy = ''u'',
     mr_version = 1, mr_mergedDownloadUrl = None, mr_mergedKeyDownloadUrl = None, mr_mergedSolutionDownloadUrl = None,
     mr_createdAt = 0, mr_updatedAt = 0\<rparr>"

definition sample_backlog :: planning_db where
  "sample_backlog = empty_planning_db
     \<lparr>pd_syllabuses := [\<lparr>sy_id = ''s'', sy_cycleId = ''cy'', sy_courseId = ''7'', sy_name = ''S'', sy_templateId = None, sy_isActive = True\<rparr>],
      pd_distributions := [\<lparr>sd_id = ''d1'', sd_syllabusId = ''s'', sd_templateId = None, sd_weekNumber = 1, sd_topicId = ''10'',
        sd_subtopicId = ''11'', sd_questionCount = 3, sd_isGenerated = False\<rparr>],
      pd_requests := [sample_request], pd_requestCourses := [sample_course ''c1'' ''7'' CM_COMPLETED, sample_course ''c2'' ''8'' CM_PROCESSING]\<rparr>"

lemma sample_backlog_stuck:
  "length (stuck_weeks 400000 sample_backlog) = 1" "map (rc_id \<circ> snd) (stuck_courses 400000 sample_backlog) = [''c2'']"
  by code_simp+

theorem sweep_flags_stuck_weeks_witness:
  "stuck_weeks 400000 sample_backlog \<noteq> [] \<and>
   stuck_weeks 400000 (sweep_stuck_syllabus_distributions 400000 rev (\<lambda>_. False) sample_backlog) = []"
proof -
  have "one_syllabus sample_backlog" "reorders_rows rev" by (simp_all add: one_syllabus_def sample_backlog_def reorders_rows_def)
  from sweep_flags_stuck_weeks [OF this, of 400000 "\<lambda>_. False"] sample_backlog_stuck(1) show ?thesis
    by (auto simp: SWEEP_BATCH_LIMIT_def)
qed

definition sample_company :: company where
  "sample_company = \<lparr>co_id = ''tn'', co_subdomain = ''a'', co_commercialName = ''A'', co_logoUrl = None, co_primaryColor = ''p'', co_isActive = True,
     co_status = ACTIVE\<rparr>"


end
