(* ===== verification/MaterialLaws.thy ===== *)
theory MaterialLaws
  imports PdfWorker Cron GenerateLaws
begin

text \<open>
  The life of a material request as a state machine over the tenant's tables: the step relation \<open>material_step\<close>
  has one rule per transaction that can touch a request (generation, approval, draft, opening a review, worker
  callback, merge, sweep), each with arbitrary arguments and an arbitrary earlier state for its unlocked reads, and
  is labelled with the jobs it queues. The laws: versions only grow, approvals exclude each other, the callback
  implements the abstract lifecycle \<open>spec_callback\<close>, the merge is dispatched once per time the request becomes final.
\<close>

subsection \<open>Steps\<close>

inductive material_step :: "planning_db \<Rightarrow> queue_job list \<Rightarrow> planning_db \<Rightarrow> bool" where
  callback: "handle_webhook now seen ledgerOk queueOk companyId dto usages meta db = (r, db', jobs, event) \<Longrightarrow> material_step db jobs db'"
| approval: "approve_review now seen company ctx i adto db = (s, db', jobs) \<Longrightarrow> material_step db jobs db'"
| draft: "run_tx (save_draft now seen i adto) db = (u, db') \<Longrightarrow> material_step db [] db'"
| open_rev: "run_tx (open_review now seen i) db = (v, db') \<Longrightarrow> material_step db [] db'"
| generation: "generate_material now bank levels picks id id fresh freshSlot branding tenantId userId gdto db = (g, db', jobs)
    \<Longrightarrow> material_step db jobs db'"
| merging: "handle_merge_pdf env i tenantId db = (u, db') \<Longrightarrow> material_step db [] db'"
| staleness: "material_step db [] (reset_staleness now i db)"
| marking: "run_tx (mark_week_generated e) db = (b, db') \<Longrightarrow> material_step db [] db'"

text \<open>
  A run, seen from one request: how many merge jobs it queued for the request and how often the request left the
  final states.
\<close>

definition status_of :: "uuid \<Rightarrow> planning_db \<Rightarrow> request_status option" where
  "status_of i db = map_option mr_status (find_one (\<lambda>r. mr_id r = i) (pd_requests db))"

definition merges :: "uuid \<Rightarrow> queue_job list \<Rightarrow> nat" where
  "merges i jobs = length (filter (\<lambda>j. case j of Merge_Pdf r t \<Rightarrow> r = i | _ \<Rightarrow> False) jobs)"

inductive material_run :: "uuid \<Rightarrow> planning_db \<Rightarrow> nat \<Rightarrow> nat \<Rightarrow> planning_db \<Rightarrow> bool" for i where
  stop: "material_run i db 0 0 db"
| more: "material_run i db n k db1 \<Longrightarrow> material_step db1 jobs db2 \<Longrightarrow>
    material_run i db (n + merges i jobs)
      (if finalized (status_of i db1) \<and> \<not> finalized (status_of i db2) then k + 1 else k) db2"

inductive_cases material_stepE: "material_step db jobs db'"

subsection \<open>Versions only grow\<close>

definition newer :: "material_request \<Rightarrow> material_request \<Rightarrow> bool" where
  "newer r r' \<longleftrightarrow> mr_id r' = mr_id r \<and> mr_version r \<le> mr_version r'"

definition requests_grow :: "planning_db \<Rightarrow> planning_db \<Rightarrow> bool" where
  "requests_grow db db' \<longleftrightarrow> (\<exists>old new. pd_requests db' = old @ new \<and> list_all2 newer (pd_requests db) old \<and>
     (\<forall>r\<in>set new. mr_id r \<notin> mr_id ` set (pd_requests db)))"

lemma newer_refl [simp]: "newer r r"
  by (simp add: newer_def)

lemma requests_same: "pd_requests db' = pd_requests db \<Longrightarrow> requests_grow db db'"
  unfolding requests_grow_def by (intro exI [of _ "pd_requests db"] exI [of _ "[]"]) (simp add: list_all2_same)

lemma requests_updated:
  assumes "pd_requests db' = update_where p f (pd_requests db)" and "\<And>r. newer r (f r)"
  shows "requests_grow db db'"
  unfolding requests_grow_def
  by (intro exI [of _ "pd_requests db'"] exI [of _ "[]"])
    (simp add: assms(1) update_where_def list_all2_map2 list_all2_same assms(2))

lemma requests_appended:
  "pd_requests db' = pd_requests db @ [r] \<Longrightarrow> mr_id r \<notin> mr_id ` set (pd_requests db) \<Longrightarrow> requests_grow db db'"
  unfolding requests_grow_def by (intro exI [of _ "pd_requests db"] exI [of _ "[r]"]) (simp add: list_all2_same)

lemma newer_ids: "list_all2 newer xs ys \<Longrightarrow> map mr_id ys = map mr_id xs"
  by (induction rule: list_all2_induct) (simp_all add: newer_def)

lemma requests_grow_trans:
  assumes "requests_grow db1 db2" and "requests_grow db2 db3"
  shows "requests_grow db1 db3"
proof -
  from assms(1) obtain o1 n1 where 1: "pd_requests db2 = o1 @ n1" "list_all2 newer (pd_requests db1) o1"
    "\<forall>r\<in>set n1. mr_id r \<notin> mr_id ` set (pd_requests db1)" unfolding requests_grow_def by blast
  from assms(2) obtain o2 n2 where 2: "pd_requests db3 = o2 @ n2" "list_all2 newer (o1 @ n1) o2"
    "\<forall>r\<in>set n2. mr_id r \<notin> mr_id ` set (o1 @ n1)" unfolding requests_grow_def 1(1) by blast
  from 2(2) obtain a b where ab: "o2 = a @ b" "list_all2 newer o1 a" "list_all2 newer n1 b" by (auto simp: list_all2_append1)
  have "list_all2 newer (pd_requests db1) a"
    by (rule list_all2_trans [OF _ 1(2) ab(2)]) (auto simp: newer_def)
  moreover have "mr_id r \<notin> mr_id ` set (pd_requests db1)" if r: "r \<in> set (b @ n2)" for r
  proof -
    from arg_cong [OF newer_ids [OF ab(3)], of set] arg_cong [OF newer_ids [OF 1(2)], of set]
    have ids: "mr_id ` set b = mr_id ` set n1" "mr_id ` set o1 = mr_id ` set (pd_requests db1)" by simp_all
    show ?thesis
    proof (cases "r \<in> set b")
      case True
      then have "mr_id r \<in> mr_id ` set n1" using ids(1) by blast
      then obtain r1 where "r1 \<in> set n1" "mr_id r = mr_id r1" by blast
      with 1(3) show ?thesis by simp
    next
      case False
      with r 2(3) have "mr_id r \<notin> mr_id ` set (o1 @ n1)" by simp
      with ids(2) show ?thesis by (simp add: image_Un)
    qed
  qed
  ultimately show ?thesis
    unfolding requests_grow_def by (intro exI [of _ a] exI [of _ "b @ n2"]) (simp add: 2(1) ab(1))
qed

subsection \<open>Every step lets the versions grow\<close>

lemma save_request_pd [simp]:
  "pd_requests (write_back cs db) = pd_requests db" "pd_requests (set_material_status m st db) = pd_requests db"
  "pd_requests (set_course_status ids cst db) = pd_requests db" "pd_requests (apply_curation i adto db) = pd_requests db"
  "pd_requests (update_course c f db) = pd_requests db" "pd_requests (write_ledger ok cst rc us db) = pd_requests db"
  by (simp_all add: write_back_def set_material_status_def set_course_status_def apply_curation_def update_material_def
      update_course_def write_ledger_def split: option.splits)

lemma save_request_grow: "requests_grow db (save_request now i cs st db)"
  by (rule requests_updated [where p = "\<lambda>r. mr_id r = i \<and> mr_status r \<noteq> st"
      and f = "\<lambda>r. r\<lparr>mr_status := st, mr_version := mr_version r + 1, mr_updatedAt := now\<rparr>"])
    (simp_all add: save_request_def save_request_status_def newer_def)

lemma update_request_grow: "(\<And>r. mr_id (f r) = mr_id r) \<Longrightarrow> requests_grow db (update_request now i f db)"
  by (rule requests_updated [where p = "\<lambda>r. mr_id r = i" and f = "\<lambda>r. (f r)\<lparr>mr_version := mr_version r + 1, mr_updatedAt := now\<rparr>"])
    (simp_all add: update_request_def newer_def)

lemma bump_version_Inr:
  "bump_version now i v db = Inr db' \<Longrightarrow> pd_requests db' =
     update_where (\<lambda>r. mr_id r = i \<and> mr_version r = v) (\<lambda>r. r\<lparr>mr_version := mr_version r + 1, mr_updatedAt := now\<rparr>) (pd_requests db)"
  by (auto simp: bump_version_def Let_def split: if_splits)

lemma bump_version_grow: "bump_version now i v db = Inr db' \<Longrightarrow> requests_grow db db'"
  by (rule requests_updated, erule bump_version_Inr) (simp add: newer_def)

lemma finish_review_grow: "finish_review now request cs e db = (st, db') \<Longrightarrow> requests_grow db db'"
  by (auto simp: finish_review_def Let_def requests_grow_def [of db] intro: save_request_grow [unfolded requests_grow_def])

lemma regenerate_grow: "regenerate now company ctx request cs db = (jobs, db') \<Longrightarrow> requests_grow db db'"
  by (auto simp: regenerate_def Let_def requests_grow_def [of db] intro: save_request_grow [unfolded requests_grow_def])

lemma approve_grow: "approve_tx now seen company ctx i adto db = Inr (x, db') \<Longrightarrow> requests_grow db db'"
proof -
  assume a: "approve_tx now seen company ctx i adto db = Inr (x, db')"
  then obtain request db1 where b: "bump_version now i (ad_version adto) db = Inr db1"
    by (auto simp: approve_tx_def split: option.splits sum.splits)
  from a b have "requests_grow (apply_curation i adto db1) db'"
    by (auto simp: approve_tx_def Let_def split: option.splits sum.splits if_splits prod.splits dest: finish_review_grow regenerate_grow)
  moreover have "requests_grow db1 (apply_curation i adto db1)" by (rule requests_same) simp
  ultimately show "requests_grow db db'" using bump_version_grow [OF b] by (blast intro: requests_grow_trans)
qed

lemma roll_up_grow: "roll_up now queueOk companyId i db = Inr (jobs, db') \<Longrightarrow> requests_grow db db'"
proof -
  let ?f = "\<lambda>r. r\<lparr>mr_status := rollup_status (courses_of i db)\<rparr>"
  have u: "requests_grow db (update_request now i ?f db)" by (rule update_request_grow) simp
  assume "roll_up now queueOk companyId i db = Inr (jobs, db')"
  then have "pd_requests db' = pd_requests db \<or> pd_requests db' = pd_requests (update_request now i ?f db)"
    by (auto simp: roll_up_def Let_def split: if_splits option.splits)
  with u show ?thesis unfolding requests_grow_def by (metis requests_grow_def requests_same)
qed

definition applied_course ::
  "millis \<Rightarrow> webhook_dto \<Rightarrow> artifact_meta option \<Rightarrow> bool \<Rightarrow> course_status \<Rightarrow> usage_record list option \<Rightarrow> request_course \<Rightarrow> planning_db \<Rightarrow> planning_db" where
  "applied_course now dto meta ledgerOk st usages c db =
     write_ledger ledgerOk st c usages (update_course (rc_id c) (apply_status now dto meta st) db)"

lemma webhook_tx_cases:
  assumes "webhook_tx now seen ledgerOk queueOk companyId dto st usages meta db = Inr ((jobs, event), db')"
  obtains (ignored) "db' = db" "jobs = []" "event = None"
  | (applied) c where "find_one (\<lambda>c. rc_id c = wd_job_id dto) (pd_requestCourses seen) = Some c"
      "\<not> success_terminal (rc_status c)" "rc_status c \<noteq> st"
      "roll_up now queueOk companyId (rc_materialRequestId c) (applied_course now dto meta ledgerOk st usages c db) = Inr (jobs, db')"
proof (cases "find_one (\<lambda>c. rc_id c = wd_job_id dto) (pd_requestCourses seen)")
  case None
  with assms ignored show ?thesis by (simp add: webhook_tx_def)
next
  case (Some c)
  show ?thesis
  proof (cases "success_terminal (rc_status c) \<or> rc_status c = st")
    case True
    with Some assms ignored show ?thesis by (simp add: webhook_tx_def)
  next
    case False
    with Some assms have "roll_up now queueOk companyId (rc_materialRequestId c) (applied_course now dto meta ledgerOk st usages c db) = Inr (jobs, db')"
      by (auto simp: webhook_tx_def applied_course_def Let_def split: sum.splits)
    with Some False applied show ?thesis by blast
  qed
qed

lemma webhook_grow:
  assumes "handle_webhook now seen ledgerOk queueOk companyId dto usages meta db = (r, db', jobs, event)"
  shows "requests_grow db db'"
proof (cases r)
  case (Inl e)
  with assms have "db' = db" by (auto simp: handle_webhook_def split: if_splits sum.splits)
  then show ?thesis by (simp add: requests_same)
next
  case (Inr u)
  with assms obtain st where "webhook_tx now seen ledgerOk queueOk companyId dto st usages meta db = Inr ((jobs, event), db')"
    by (auto simp: handle_webhook_def split: if_splits sum.splits)
  then show ?thesis
  proof (cases rule: webhook_tx_cases)
    case (applied c)
    have "requests_grow db (applied_course now dto meta ledgerOk st usages c db)" by (rule requests_same) (simp add: applied_course_def)
    with roll_up_grow [OF applied(4)] show ?thesis by (blast intro: requests_grow_trans)
  qed (simp add: requests_same)
qed

lemma generate_grow:
  assumes "generate_material now bank levels picks id id fresh freshSlot branding tenantId userId gdto db = (g, db', jobs)"
  shows "requests_grow db db'"
proof (cases g)
  case (Inl e)
  with assms have "db' = db" by (auto simp: generate_material_def split: sum.splits)
  then show ?thesis by (simp add: requests_same)
next
  case (Inr resp)
  with assms obtain inp plan m db1 where f: "find_or_create_material id (fresh 0) tenantId gdto (gi_cycleId inp) (initial_status gdto) db = Inr (m, db1)"
    and a: "write_attempt now fresh freshSlot tenantId userId gdto inp plan m
      (update_material (ma_id m) (\<lambda>x. x\<lparr>ma_status := initial_status gdto\<rparr>) (free_usages (ma_id m) db1)) = Inr ((resp, jobs), db')"
    by (auto simp: generate_material_def write_request_def split: sum.splits)
  from f have 1: "pd_requests db1 = pd_requests db"
    by (auto simp: find_or_create_material_def insert_material_or_ignore_def Let_def split: option.splits sum.splits if_splits)
  from a show ?thesis
  proof (cases rule: write_attempt_Inr)
    case (1 r dists rows)
    with \<open>pd_requests db1 = pd_requests db\<close> show ?thesis
      by (intro requests_appended [of _ _ r]) (simp_all add: update_material_def free_usages_def Let_def)
  qed
qed

lemma material_step_grow: "material_step db jobs db' \<Longrightarrow> requests_grow db db'"
proof (induction rule: material_step.induct)
  case (approval now seen company ctx i adto db s db' jobs)
  then show ?case
    by (auto simp: approve_review_def requests_same split: sum.splits dest: approve_grow)
next
  case (draft now seen i adto db u db')
  show ?case
  proof (cases "save_draft now seen i adto db")
    case (Inl e)
    with draft show ?thesis by (simp add: requests_same)
  next
    case (Inr x)
    with draft obtain db1 where "bump_version now i (ad_version adto) db = Inr db1" "db' = apply_curation i adto db1"
      by (auto simp: save_draft_def split: option.splits sum.splits)
    then show ?thesis by (metis bump_version_grow requests_grow_trans requests_same save_request_pd(4))
  qed
next
  case (open_rev now seen i db v db')
  then show ?case
    by (auto simp: open_review_def run_tx_def Let_def requests_same split: option.splits if_splits intro: save_request_grow)
next
  case (merging env i tenantId db u db')
  then show ?case
    by (auto simp: handle_merge_pdf_def Let_def requests_same update_merged_download_url_def split: if_splits sum.splits option.splits
        intro!: update_request_grow)
next
  case (staleness db now i)
  show ?case
    by (rule requests_updated [where p = "\<lambda>r. mr_id r = i" and f = "\<lambda>r. r\<lparr>mr_updatedAt := now\<rparr>"]) (simp_all add: reset_staleness_def newer_def)
next
  case (marking e db b db')
  then show ?case
    by (auto simp: run_tx_def mark_week_generated_def Let_def split: option.splits intro!: requests_same)
qed (blast intro: webhook_grow generate_grow)+

lemma material_run_grow: "material_run i db n k db' \<Longrightarrow> requests_grow db db'"
  by (induction rule: material_run.induct) (auto intro: requests_same requests_grow_trans material_step_grow)

subsection \<open>Reviewers exclude each other\<close>

text \<open>The request with an id is beyond a version.\<close>

definition beyond :: "uuid \<Rightarrow> int \<Rightarrow> planning_db \<Rightarrow> bool" where
  "beyond i v db \<longleftrightarrow> i \<in> mr_id ` set (pd_requests db) \<and> (\<forall>r\<in>set (pd_requests db). mr_id r = i \<longrightarrow> v < mr_version r)"

lemma beyond_grow:
  assumes "requests_grow db db'" and "beyond i v db"
  shows "beyond i v db'"
proof -
  from assms(1) obtain old new where g: "pd_requests db' = old @ new" "list_all2 newer (pd_requests db) old"
    "\<forall>r\<in>set new. mr_id r \<notin> mr_id ` set (pd_requests db)" unfolding requests_grow_def by blast
  from arg_cong [OF newer_ids [OF g(2)], of set] have ids: "mr_id ` set old = mr_id ` set (pd_requests db)" by simp
  have "v < mr_version r" if r: "r \<in> set old" "mr_id r = i" for r
  proof -
    from g(2) r(1) obtain r0 where "r0 \<in> set (pd_requests db)" "newer r0 r"
      by (metis in_set_conv_nth list_all2_conv_all_nth)
    with assms(2) r(2) show ?thesis by (auto simp: newer_def beyond_def)
  qed
  with assms(2) g ids show ?thesis by (auto simp: beyond_def)
qed

lemma bump_beyond:
  assumes "bump_version now i v db = Inr db'" and "distinct (map mr_id (pd_requests db))"
  shows "beyond i v db'"
proof -
  from assms(1) obtain r0 where r0: "r0 \<in> set (pd_requests db)" "mr_id r0 = i" "mr_version r0 = v"
    by (auto simp: bump_version_def Let_def table_simps split: if_splits)
  have only: "r = r0" if "r \<in> set (pd_requests db)" "mr_id r = i" for r
    using assms(2) that r0 by (simp add: distinct_map inj_on_def)
  let ?f = "\<lambda>r. if mr_id r = i \<and> mr_version r = v then r\<lparr>mr_version := mr_version r + 1, mr_updatedAt := now\<rparr> else r"
  have rows: "set (pd_requests db') = ?f ` set (pd_requests db)" unfolding bump_version_Inr [OF assms(1)] by (rule set_update_where)
  have e: "mr_id (?f r0) = i" using r0 by simp
  have "mr_id (?f r0) \<in> mr_id ` ?f ` set (pd_requests db)" by (intro imageI r0(1))
  then have in_ids: "i \<in> mr_id ` ?f ` set (pd_requests db)" unfolding e .
  have above: "v < mr_version (?f r)" if "r \<in> set (pd_requests db)" "mr_id (?f r) = i" for r
  proof -
    from that(2) have "mr_id r = i" by (simp split: if_splits)
    with only [OF that(1)] r0 show ?thesis by simp
  qed
  show ?thesis unfolding beyond_def rows
  proof (intro conjI ballI impI)
    fix r assume "r \<in> ?f ` set (pd_requests db)" and i: "mr_id r = i"
    then obtain r' where "r' \<in> set (pd_requests db)" "r = ?f r'" by (elim imageE)
    with above [of r'] i show "v < mr_version r" by (simp only:)
  qed (rule in_ids)
qed

lemma approve_beyond:
  assumes "approve_review now seen company ctx i adto db = (Inr st, db', jobs)" and "distinct (map mr_id (pd_requests db))"
  shows "beyond i (ad_version adto) db'"
proof -
  from assms(1) obtain x where a: "approve_tx now seen company ctx i adto db = Inr (x, db')"
    by (auto simp: approve_review_def split: sum.splits)
  then obtain request db1 where b: "bump_version now i (ad_version adto) db = Inr db1"
    and c: "find_one (\<lambda>r. mr_id r = i) (pd_requests seen) = Some request"
    by (auto simp: approve_tx_def split: option.splits sum.splits)
  from a b c have "requests_grow (apply_curation i adto db1) db'"
    by (auto simp: approve_tx_def Let_def split: if_splits prod.splits dest: finish_review_grow regenerate_grow)
  moreover have "requests_grow db1 (apply_curation i adto db1)" by (rule requests_same) simp
  ultimately have "requests_grow db1 db'" by (blast intro: requests_grow_trans)
  then show ?thesis using bump_beyond [OF b assms(2)] by (rule beyond_grow)
qed

lemma draft_beyond:
  assumes "run_tx (save_draft now seen i adto) db = (Inr u, db')" and "distinct (map mr_id (pd_requests db))"
  shows "beyond i (ad_version adto) db'"
proof -
  from assms(1) obtain db1 where b: "bump_version now i (ad_version adto) db = Inr db1" "db' = apply_curation i adto db1"
    by (auto simp: run_tx_def save_draft_def split: option.splits sum.splits)
  from bump_beyond [OF b(1) assms(2)] show ?thesis unfolding b(2) beyond_def by simp
qed

lemma beyond_bump: "beyond i v db \<Longrightarrow> bump_version now i v db = Inl (Conflict ReviewedByOther)"
  by (force simp: bump_version_def Let_def beyond_def table_simps)

text \<open>
  C15. Two reviewers who hold the same version of a request exclude each other, however their transactions interleave
  with each other and with everything else: once one of them has approved it or saved a draft of it, the other, whatever
  state its read saw, is refused, changes nothing and queues no job.
\<close>

theorem reviewers_exclude:
  assumes "distinct (map mr_id (pd_requests db))"
    and "approve_review now1 seen1 company1 ctx1 i dto1 db = (Inr st, db1, jobs1) \<or> run_tx (save_draft now1 seen1 i dto1) db = (Inr u, db1)"
    and "material_run j db1 n k db2" and "ad_version dto2 = ad_version dto1"
  shows "\<exists>e\<in>{NotFound RequestNotFound, Conflict ReviewedByOther}.
    approve_review now2 seen2 company2 ctx2 i dto2 db2 = (Inl e, db2, []) \<and> run_tx (save_draft now2 seen2 i dto2) db2 = (Inl e, db2)"
proof -
  from assms(2) have "beyond i (ad_version dto1) db1" using approve_beyond [OF _ assms(1)] draft_beyond [OF _ assms(1)] by blast
  then have "beyond i (ad_version dto2) db2" unfolding assms(4) using beyond_grow [OF material_run_grow [OF assms(3)]] by blast
  from beyond_bump [OF this] show ?thesis
    by (cases "find_one (\<lambda>r. mr_id r = i) (pd_requests seen2)") (simp_all add: approve_review_def approve_tx_def save_draft_def)
qed

subsection \<open>The merge is dispatched once\<close>

lemma find_update_request:
  "find_one (\<lambda>r. mr_id r = i) (pd_requests (update_request now i f db)) =
     map_option (\<lambda>r. (f r)\<lparr>mr_version := mr_version r + 1, mr_updatedAt := now\<rparr>) (find_one (\<lambda>r. mr_id r = i) (pd_requests db))"
  if "\<And>r. mr_id (f r) = mr_id r"
  unfolding update_request_def using that by (simp add: find_one_update_where)

lemma roll_up_merges:
  assumes "roll_up now queueOk companyId i db = Inr (jobs, db')"
  shows "jobs = [] \<or> (\<exists>t. jobs = [Merge_Pdf i t]) \<and> \<not> finalized (status_of i db) \<and> finalized (status_of i db')"
proof (cases "jobs = []")
  case False
  let ?siblings = "courses_of i db"
  let ?db1 = "update_request now i (\<lambda>r. r\<lparr>mr_status := rollup_status ?siblings\<rparr>) db"
  from False assms have 1: "\<exists>t. jobs = [Merge_Pdf i t]" "\<not> finalized (status_of i db)" "rollup_status ?siblings \<noteq> MR_FAILED"
    "pd_requests db' = pd_requests ?db1" "find_one (\<lambda>r. mr_id r = i) (pd_requests ?db1) \<noteq> None"
    by (auto simp: roll_up_def Let_def status_of_def split: if_splits option.splits)
  from 1(4,5) have "status_of i db' = Some (rollup_status ?siblings)"
    unfolding status_of_def 1(4) by (auto simp: find_update_request)
  with 1(3) have "finalized (status_of i db')" by (auto simp: finalized_def rollup_status_def)
  with 1(1,2) show ?thesis by blast
qed simp

lemma merges_simps [simp]: "merges i [] = 0" "merges i (Merge_Pdf r t # js) = (if r = i then 1 else 0) + merges i js"
  "merges i (Generate_Pdf g # js) = merges i js" "merges i (Generate_Course c # js) = merges i js"
  by (simp_all add: merges_def)

lemma step_merges:
  assumes "material_step db jobs db'"
  shows "merges i jobs = 0 \<or> merges i jobs = 1 \<and> \<not> finalized (status_of i db) \<and> finalized (status_of i db')"
  using assms
proof cases
  case (callback now seen ledgerOk queueOk companyId dto usages meta r event)
  show ?thesis
  proof (cases r)
    case (Inl e)
    with callback have "jobs = []" by (auto simp: handle_webhook_def split: if_splits sum.splits)
    then show ?thesis by simp
  next
    case (Inr u)
    with callback obtain st where "webhook_tx now seen ledgerOk queueOk companyId dto st usages meta db = Inr ((jobs, event), db')"
      by (auto simp: handle_webhook_def split: if_splits sum.splits)
    then show ?thesis
    proof (cases rule: webhook_tx_cases)
      case (applied c)
      have "status_of i (applied_course now dto meta ledgerOk st usages c db) = status_of i db" by (simp add: status_of_def applied_course_def)
      with roll_up_merges [OF applied(4)] show ?thesis by (cases "rc_materialRequestId c = i") auto
    qed simp
  qed
next
  case (approval now seen company ctx i' adto s)
  have "merges i (map (regenerate_job company ctx request db0) cs) = 0" for request db0 cs
    by (induction cs) (simp_all add: regenerate_job_def)
  with approval show ?thesis
    by (auto simp: approve_review_def approve_tx_def regenerate_def finish_review_def Let_def split: sum.splits option.splits if_splits)
next
  case (generation now bank levels picks fresh freshSlot branding tenantId userId gdto g)
  then have "jobs = [] \<or> (\<exists>p. jobs = [Generate_Pdf p])"
    by (auto simp: generate_material_def write_request_def write_attempt_def Let_def split: sum.splits if_splits)
  then show ?thesis by auto
qed simp_all

lemma material_run_merges: "material_run i db n k db' \<Longrightarrow> n \<le> k + (if finalized (status_of i db') then 1 else 0)"
proof (induction rule: material_run.induct)
  case (more n k db1 jobs db2)
  with step_merges [OF more(2), of i] show ?case by (auto split: if_splits)
qed simp

text \<open>
  C16. Along every run of generations, approvals, drafts, openings, callbacks, merges and sweeps, with callbacks that
  read stale courses, duplicate or late deliveries included: the number of merge jobs queued for a request is
  at most one more than the number of times the request left a final state. So a request that stays final is merged once.
\<close>

theorem merge_dispatched_once:
  assumes "material_run i db n k db'"
  shows "n \<le> k + 1 \<and> (\<not> finalized (status_of i db') \<longrightarrow> n \<le> k)"
  using material_run_merges [OF assms] by (auto split: if_splits)

subsection \<open>Samples\<close>

definition sample_review :: approve_dto where
  "sample_review = \<lparr>ad_version = 1, ad_continueWithWarnings = True, ad_replacements = [], ad_removals = []\<rparr>"

definition sample_reviewer :: review_context where
  "sample_reviewer = \<lparr>rx_tenantId = ''tn'', rx_userId = ''u''\<rparr>"

definition sample_approval :: "(planning_error + request_status) \<times> planning_db \<times> queue_job list" where
  "sample_approval = approve_review 9 sample_backlog None sample_reviewer ''r'' sample_review sample_backlog"

theorem reviewers_exclude_witness:
  "\<exists>st db1 jobs. sample_approval = (Inr st, db1, jobs) \<and>
     (\<exists>e. approve_review 10 sample_backlog None sample_reviewer ''r'' sample_review db1 = (Inl e, db1, []))"
proof -
  obtain x db1 jobs where a0: "sample_approval = (x, db1, jobs)" by (metis prod_cases3)
  have "\<not> isl (fst sample_approval)" by code_simp
  then have "\<not> isl x" unfolding a0 by simp
  then obtain st where "x = Inr st" by (cases x) auto
  with a0 have a: "sample_approval = (Inr st, db1, jobs)" by simp
  have d: "distinct (map mr_id (pd_requests sample_backlog))" by (simp add: sample_backlog_def)
  have run: "material_run ''r'' db1 0 0 db1" by (rule material_run.stop)
  from reviewers_exclude [OF d disjI1 [OF a [unfolded sample_approval_def]] run refl] a
  show ?thesis by blast
qed

theorem merge_dispatched_once_witness:
  "\<exists>db'. material_run ''r'' sample_backlog 1 0 db'"
proof -
  let ?h = "handle_webhook 9 sample_backlog True True (Some ''tn'') ((callback_dto ''c2'' ''completed'')) None None sample_backlog"
  obtain r db' jobs event where h: "?h = (r, db', jobs, event)" by (metis prod_cases4)
  have "merges ''r'' (fst (snd (snd ?h))) = 1 \<and> \<not> finalized (status_of ''r'' sample_backlog)" by code_simp
  with h have m: "merges ''r'' jobs = 1" "\<not> finalized (status_of ''r'' sample_backlog)" by simp_all
  have "material_run ''r'' sample_backlog 1 0 db'"
    using material_run.more [OF material_run.stop material_step.callback [OF h], of "''r''"] m by simp
  with merge_dispatched_once [OF this] show ?thesis by blast
qed

end
