(* ===== verification/Lifecycle.thy ===== *)
theory Lifecycle
  imports MaterialLaws
begin

text \<open>
  The abstract lifecycle of a request and its courses, and the proof that the worker's callback implements it:
  \<open>spec_callback\<close> is what \<open>HandleMaterialWebhookUseCase\<close> promises about statuses and the merge, \<open>lifecycle_of\<close>
  reads the abstract state off the tables.
\<close>

subsection \<open>The contract\<close>

record lifecycle =
  lc_courses :: "(uuid \<times> course_status) list"
  lc_status :: "request_status option"

definition lifecycle_of :: "uuid \<Rightarrow> planning_db \<Rightarrow> lifecycle" where
  "lifecycle_of i db = \<lparr>lc_courses = map (\<lambda>c. (rc_id c, rc_status c)) (courses_of i db), lc_status = status_of i db\<rparr>"

definition verdict :: "course_status list \<Rightarrow> request_status" where
  "verdict sts = (if CM_FAILED \<in> set sts then MR_FAILED
     else if CM_COMPLETED_WITH_WARNINGS \<in> set sts \<or> CM_EMPTY_BANK \<in> set sts then MR_REVIEW_REQUIRED else MR_COMPLETED)"

definition report_status :: "uuid \<Rightarrow> course_status \<Rightarrow> (uuid \<times> course_status) list \<Rightarrow> (uuid \<times> course_status) list" where
  "report_status k st cs = map (\<lambda>(k', s). (k', if k' = k then st else s)) cs"

text \<open>A callback for a course: the new lifecycle, and whether it dispatches the merge.\<close>

definition spec_callback :: "uuid \<Rightarrow> course_status \<Rightarrow> lifecycle \<Rightarrow> lifecycle \<times> bool" where
  "spec_callback k st l =
     (case map_of (lc_courses l) k of
        None \<Rightarrow> (l, False)
      | Some old \<Rightarrow>
          if success_terminal old \<or> old = st then (l, False)
          else let cs = report_status k st (lc_courses l); sts = map snd cs in
            if list_all finished sts
            then (l\<lparr>lc_courses := cs, lc_status := map_option (\<lambda>_. verdict sts) (lc_status l)\<rparr>,
                  lc_status l \<noteq> None \<and> verdict sts \<noteq> MR_FAILED \<and> 2 \<le> length cs \<and> \<not> finalized (lc_status l))
            else (l\<lparr>lc_courses := cs\<rparr>, False))"

subsection \<open>The callback implements it\<close>

lemma rollup_verdict: "rollup_status cs = verdict (map rc_status cs)"
proof -
  have "st \<in> set (map rc_status cs) \<longleftrightarrow> list_ex (\<lambda>c. rc_status c = st) cs" for st by (auto simp: list_ex_iff)
  moreover have "list_ex (\<lambda>c. P c \<or> Q c) cs \<longleftrightarrow> list_ex P cs \<or> list_ex Q cs" for P Q by (auto simp: list_ex_iff)
  ultimately show ?thesis unfolding rollup_status_def verdict_def by (simp only:)
qed

lemma courses_of_updated:
  assumes "\<And>c. rc_materialRequestId (f c) = rc_materialRequestId c"
  shows "courses_of i (update_course k f db) = update_where (\<lambda>c. rc_id c = k) f (courses_of i db)"
  unfolding courses_of_def update_course_def find_all_def update_where_def
  using assms by (induction "pd_requestCourses db" arbitrary: db) (auto simp: filter_map comp_def)

lemma apply_status_fields [simp]:
  "rc_materialRequestId (apply_status now dto meta st c) = rc_materialRequestId c" "rc_id (apply_status now dto meta st c) = rc_id c"
  "rc_status (apply_status now dto meta st c) = st" "rc_courseId (apply_status now dto meta st c) = rc_courseId c"
  by (simp_all add: apply_status_def)

lemma courses_of_ledger [simp]: "courses_of i (write_ledger ok st c us db) = courses_of i db"
  by (simp add: courses_of_def write_ledger_def split: option.splits)

lemma courses_of_applied:
  "courses_of i (applied_course now dto meta ok st us c db) = update_where (\<lambda>x. rc_id x = rc_id c) (apply_status now dto meta st) (courses_of i db)"
  unfolding applied_course_def courses_of_ledger by (rule courses_of_updated) simp

lemma lifecycle_of_applied:
  "lc_courses (lifecycle_of i (applied_course now dto meta ok st us c db)) = report_status (rc_id c) st (lc_courses (lifecycle_of i db))"
  by (simp add: lifecycle_of_def courses_of_applied report_status_def update_where_def comp_def if_distrib cong: if_cong)

lemma lc_status_applied [simp]: "status_of i (applied_course now dto meta ok st us c db) = status_of i db"
  by (simp add: status_of_def applied_course_def)

lemma status_of_update_request:
  assumes "\<And>r. mr_id (f r) = mr_id r"
  shows "status_of j (update_request now i f db) =
    (if j = i then map_option (\<lambda>r. mr_status (f r)) (find_one (\<lambda>r. mr_id r = i) (pd_requests db)) else status_of j db)"
proof (cases "j = i")
  case False
  have "find_one (\<lambda>r. mr_id r = j) (pd_requests (update_request now i f db)) = find_one (\<lambda>r. mr_id r = j) (pd_requests db)"
    using find_one_update_other [of "\<lambda>r. mr_id r = i" "\<lambda>r. mr_id r = j"
        "\<lambda>r. (f r)\<lparr>mr_version := mr_version r + 1, mr_updatedAt := now\<rparr>" "pd_requests db"] assms False
    by (simp add: update_request_def)
  with False show ?thesis by (simp add: status_of_def)
qed (simp add: status_of_def find_update_request [OF assms] option.map_comp comp_def)

lemma courses_of_rollup [simp]:
  "courses_of j (update_request now i f db) = courses_of j db" "courses_of j (set_material_status m st db) = courses_of j db"
  by (simp_all add: courses_of_def update_request_def set_material_status_def update_material_def split: option.splits)

lemma set_material_status_of [simp]: "status_of j (set_material_status m st db) = status_of j db"
  by (simp add: status_of_def)

text \<open>The roll-up, abstractly.\<close>

lemma roll_up_lifecycle:
  assumes "truthy_str companyId" "queueOk"
  shows "\<exists>jobs db'. roll_up now queueOk companyId i db = Inr (jobs, db') \<and>
    (let l = lifecycle_of i db; sts = map snd (lc_courses l) in
      (if list_all finished sts
       then lifecycle_of i db' = l\<lparr>lc_status := map_option (\<lambda>_. verdict sts) (lc_status l)\<rparr> \<and>
         (jobs \<noteq> [] \<longleftrightarrow> lc_status l \<noteq> None \<and> verdict sts \<noteq> MR_FAILED \<and> 2 \<le> length sts \<and> \<not> finalized (lc_status l))
       else lifecycle_of i db' = l \<and> jobs = [])) \<and>
    (\<forall>j. j \<noteq> i \<longrightarrow> lifecycle_of j db' = lifecycle_of j db)"
proof -
  let ?sts = "map rc_status (courses_of i db)"
  have snds: "map snd (lc_courses (lifecycle_of i db)) = ?sts" by (simp add: lifecycle_of_def comp_def)
  show ?thesis
  proof (cases "list_all finished ?sts")
    case False
    then have "roll_up now queueOk companyId i db = Inr ([], db)" by (simp add: roll_up_def Let_def list_all_iff)
    with False show ?thesis by (simp add: snds)
  next
    case True
    let ?f = "\<lambda>r. r\<lparr>mr_status := rollup_status (courses_of i db)\<rparr>"
    let ?db1 = "update_request now i ?f db"
    have st1: "status_of j ?db1 = (if j = i then map_option (\<lambda>_. verdict ?sts) (status_of i db) else status_of j db)" for j
    proof -
      have "status_of j ?db1 = (if j = i then map_option (\<lambda>r. mr_status (?f r)) (find_one (\<lambda>r. mr_id r = i) (pd_requests db)) else status_of j db)"
        by (rule status_of_update_request) simp
      then show ?thesis by (simp add: status_of_def rollup_verdict option.map_comp comp_def)
    qed
    have l1: "lifecycle_of j ?db1 = (if j = i then (lifecycle_of i db)\<lparr>lc_status := map_option (\<lambda>_. verdict ?sts) (status_of i db)\<rparr> else lifecycle_of j db)" for j
      by (simp add: lifecycle_of_def st1)
    have t: "list_all (\<lambda>c. finished (rc_status c)) (courses_of i db)" using True by (simp add: list_all_iff)
    show ?thesis
    proof (cases "find_one (\<lambda>r. mr_id r = i) (pd_requests ?db1)")
      case None
      then have "status_of i ?db1 = None" by (simp add: status_of_def)
      then have n: "status_of i db = None" unfolding st1 by (simp split: if_splits)
      have "roll_up now queueOk companyId i db = Inr ([], ?db1)" using t None by (simp add: roll_up_def Let_def)
      then show ?thesis by (simp add: snds True l1) (simp add: lifecycle_of_def n)
    next
      case (Some r)
      let ?db2 = "set_material_status (mr_materialId r) (rollup_status (courses_of i db)) ?db1"
      let ?merge = "verdict ?sts \<noteq> MR_FAILED \<and> 2 \<le> length ?sts \<and> \<not> finalized (status_of i db)"
      from Some have "status_of i ?db1 \<noteq> None" by (simp add: status_of_def)
      then have s: "status_of i db \<noteq> None" unfolding st1 by simp
      have l2: "lifecycle_of j ?db2 = lifecycle_of j ?db1" for j by (simp add: lifecycle_of_def)
      have "roll_up now queueOk companyId i db = Inr (if ?merge then [Merge_Pdf i (the companyId)] else [], ?db2)"
        using t Some assms by (simp add: roll_up_def Let_def status_of_def rollup_verdict)
      then show ?thesis using s by (simp add: snds True l1 l2) (simp add: lifecycle_of_def)
    qed
  qed
qed

lemma courses_of_other:
  assumes "distinct (map rc_id (pd_requestCourses db))" and "c \<in> set (pd_requestCourses db)" and "j \<noteq> rc_materialRequestId c"
  shows "lifecycle_of j (applied_course now dto meta ok st us c db) = lifecycle_of j db"
proof -
  have "rc_id x \<noteq> rc_id c" if "x \<in> set (courses_of j db)" for x
    using that assms by (auto simp: courses_of_def table_simps distinct_map inj_on_def)
  then have "update_where (\<lambda>x. rc_id x = rc_id c) (apply_status now dto meta st) (courses_of j db) = courses_of j db"
    by (simp add: update_where_def map_idI)
  then show ?thesis by (simp add: lifecycle_of_def courses_of_applied)
qed

lemma map_of_courses:
  assumes "distinct (map rc_id (pd_requestCourses db))" and "c \<in> set (pd_requestCourses db)"
  shows "map_of (lc_courses (lifecycle_of (rc_materialRequestId c) db)) (rc_id c) = Some (rc_status c)"
proof -
  have "distinct (map rc_id (courses_of (rc_materialRequestId c) db))"
    unfolding courses_of_def find_all_def by (rule distinct_map_filter [OF assms(1)])
  moreover have "c \<in> set (courses_of (rc_materialRequestId c) db)" using assms(2) by (simp add: courses_of_def table_simps)
  ultimately show ?thesis by (auto simp: lifecycle_of_def comp_def intro: map_of_is_SomeI)
qed

text \<open>
  C17. The callback implements the contract: with unique course ids, a known status, a tenant in the context and a queue
  that accepts jobs, a callback whose read is current moves the lifecycle of its request exactly as \<open>spec_callback\<close>
  says (success is final, duplicates are ignored, the request takes the verdict of its courses once all have finished),
  queues a job exactly when the contract dispatches the merge, and leaves every other request alone.
\<close>

theorem callback_refines_contract:
  assumes "distinct (map rc_id (pd_requestCourses db))" and "c \<in> set (pd_requestCourses db)" and "rc_id c = wd_job_id dto"
    and "wd_job_id dto \<noteq> []" and "map_status (wd_status dto) = Inr st" and "truthy_str companyId"
  shows "\<exists>db' jobs event. handle_webhook now db ledgerOk True companyId dto usages meta db = (Inr (), db', jobs, event) \<and>
    spec_callback (rc_id c) st (lifecycle_of (rc_materialRequestId c) db) = (lifecycle_of (rc_materialRequestId c) db', jobs \<noteq> []) \<and>
    (\<forall>j. j \<noteq> rc_materialRequestId c \<longrightarrow> lifecycle_of j db' = lifecycle_of j db)"
proof -
  let ?i = "rc_materialRequestId c"
  let ?l = "lifecycle_of ?i db"
  let ?a = "applied_course now dto meta ledgerOk st usages c db"
  from assms(5) have ne: "wd_status dto \<noteq> []" by (auto simp: map_status_def)
  have find: "find_one (\<lambda>x. rc_id x = wd_job_id dto) (pd_requestCourses db) = Some c"
  proof (cases "find_one (\<lambda>x. rc_id x = wd_job_id dto) (pd_requestCourses db)")
    case None
    with assms(2,3) show ?thesis by (auto simp: find_one_None)
  next
    case (Some x)
    from find_one_Some [OF Some] assms(1-3) have "x = c" by (simp add: distinct_map inj_on_def)
    with Some show ?thesis by simp
  qed
  note look = map_of_courses [OF assms(1,2)]
  show ?thesis
  proof (cases "success_terminal (rc_status c) \<or> rc_status c = st")
    case True
    with find ne assms(4,5) have "handle_webhook now db ledgerOk True companyId dto usages meta db = (Inr (), db, [], None)"
      by (simp add: handle_webhook_def webhook_tx_def)
    moreover have "spec_callback (rc_id c) st ?l = (?l, False)" using True look by (simp add: spec_callback_def)
    ultimately show ?thesis by simp
  next
    case False
    from roll_up_lifecycle [OF assms(6) TrueI, of now ?i ?a] obtain jobs db' where
      r: "roll_up now True companyId ?i ?a = Inr (jobs, db')" and
      l: "let l = lifecycle_of ?i ?a; sts = map snd (lc_courses l) in
        (if list_all finished sts
         then lifecycle_of ?i db' = l\<lparr>lc_status := map_option (\<lambda>_. verdict sts) (lc_status l)\<rparr> \<and>
           (jobs \<noteq> [] \<longleftrightarrow> lc_status l \<noteq> None \<and> verdict sts \<noteq> MR_FAILED \<and> 2 \<le> length sts \<and> \<not> finalized (lc_status l))
         else lifecycle_of ?i db' = l \<and> jobs = [])" and
      o: "\<forall>j. j \<noteq> ?i \<longrightarrow> lifecycle_of j db' = lifecycle_of j ?a" by blast
    have h: "\<exists>event. handle_webhook now db ledgerOk True companyId dto usages meta db = (Inr (), db', jobs, event)"
      using find False ne assms(4,5) r by (simp add: handle_webhook_def webhook_tx_def Let_def applied_course_def)
    have la: "lifecycle_of ?i ?a = ?l\<lparr>lc_courses := report_status (rc_id c) st (lc_courses ?l)\<rparr>"
      using lifecycle_of_applied [of ?i now dto meta ledgerOk st usages c db] by (simp add: lifecycle_of_def)
    have "spec_callback (rc_id c) st ?l = (lifecycle_of ?i db', jobs \<noteq> [])"
      using l look False unfolding la by (auto simp: spec_callback_def Let_def split: if_splits)
    moreover have "\<forall>j. j \<noteq> ?i \<longrightarrow> lifecycle_of j db' = lifecycle_of j db"
      using o courses_of_other [OF assms(1,2)] by simp
    ultimately show ?thesis using h by blast
  qed
qed

text \<open>
  What protects a finished course is the read at the start of the callback: when that read saw a success, nothing
  changes; when it saw an earlier, unfinished status (two deliveries at the same time), an accepted callback writes
  its status on the row whatever the row has become, a committed success included.
\<close>

lemma success_guard_is_the_read:
  assumes "find_one (\<lambda>c. rc_id c = wd_job_id dto) (pd_requestCourses seen) = Some c"
    and "handle_webhook now seen ledgerOk queueOk companyId dto usages meta db = (Inr (), db', jobs, event)"
    and "map_status (wd_status dto) = Inr st"
  shows "(success_terminal (rc_status c) \<longrightarrow> db' = db \<and> jobs = [] \<and> event = None) \<and>
    (\<not> success_terminal (rc_status c) \<and> rc_status c \<noteq> st \<longrightarrow>
      (\<forall>x\<in>set (pd_requestCourses db'). rc_id x = wd_job_id dto \<longrightarrow> rc_status x = st))"
proof (intro conjI impI)
  from assms(2,3) have w: "webhook_tx now seen ledgerOk queueOk companyId dto st usages meta db = Inr ((jobs, event), db')"
    by (auto simp: handle_webhook_def split: if_splits sum.splits)
  {
    assume "success_terminal (rc_status c)"
    with w assms(1) show "db' = db" "jobs = []" "event = None" by (simp_all add: webhook_tx_def)
  }
  {
    assume n: "\<not> success_terminal (rc_status c) \<and> rc_status c \<noteq> st"
    let ?a = "applied_course now dto meta ledgerOk st usages c db"
    from w assms(1) n have r: "roll_up now queueOk companyId (rc_materialRequestId c) ?a = Inr (jobs, db')"
      by (auto simp: webhook_tx_def applied_course_def Let_def split: sum.splits)
    have "pd_requestCourses db' = pd_requestCourses ?a"
      using r by (auto simp: roll_up_def Let_def update_request_def set_material_status_def update_material_def split: if_splits option.splits)
    also have "\<dots> = update_where (\<lambda>x. rc_id x = rc_id c) (apply_status now dto meta st) (pd_requestCourses db)"
      by (simp add: applied_course_def write_ledger_def update_course_def split: option.splits)
    finally show "\<forall>x\<in>set (pd_requestCourses db'). rc_id x = wd_job_id dto \<longrightarrow> rc_status x = st"
      using find_one_Some [OF assms(1)] by (auto simp: table_simps)
  }
qed

subsection \<open>Samples\<close>

definition sample_callback :: webhook_dto where
  "sample_callback = (callback_dto ''c2'' ''completed'')\<lparr>wd_download_url := Some ''https://s3/b/k''\<rparr>"

theorem callback_refines_contract_witness:
  "\<exists>db' jobs event. handle_webhook 9 sample_backlog True True (Some ''tn'') sample_callback None None sample_backlog = (Inr (), db', jobs, event) \<and>
     jobs \<noteq> [] \<and> lc_status (lifecycle_of ''r'' db') = Some MR_COMPLETED"
proof -
  have c: "distinct (map rc_id (pd_requestCourses sample_backlog))" "sample_course ''c2'' ''8'' CM_PROCESSING \<in> set (pd_requestCourses sample_backlog)"
    "rc_id (sample_course ''c2'' ''8'' CM_PROCESSING) = wd_job_id sample_callback" "wd_job_id sample_callback \<noteq> []"
    "map_status (wd_status sample_callback) = Inr CM_COMPLETED" "truthy_str (Some ''tn'')"
    by (simp_all add: sample_backlog_def sample_course_def sample_callback_def callback_dto_def map_status_def)
  have s: "spec_callback ''c2'' CM_COMPLETED (lifecycle_of ''r'' sample_backlog) =
      (\<lparr>lc_courses = [(''c1'', CM_COMPLETED), (''c2'', CM_COMPLETED)], lc_status = Some MR_COMPLETED\<rparr>, True)"
    by code_simp
  from callback_refines_contract [OF c, of 9 True None None] obtain db' jobs event where
    h: "handle_webhook 9 sample_backlog True True (Some ''tn'') sample_callback None None sample_backlog = (Inr (), db', jobs, event)" and
    sp: "spec_callback ''c2'' CM_COMPLETED (lifecycle_of ''r'' sample_backlog) = (lifecycle_of ''r'' db', jobs \<noteq> [])"
    by (auto simp: sample_course_def)
  from sp have "lc_status (lifecycle_of ''r'' db') = lc_status (fst (spec_callback ''c2'' CM_COMPLETED (lifecycle_of ''r'' sample_backlog)))"
    "(jobs \<noteq> []) = snd (spec_callback ''c2'' CM_COMPLETED (lifecycle_of ''r'' sample_backlog))" by simp_all
  with h show ?thesis unfolding s by simp
qed

end
