(* ===== verification/PdfDesigns.thy ===== *)
theory PdfDesigns
  imports Planning Catalogs
begin

text \<open>
  The design templates of a tenant's PDFs (\<open>materials/pdf-design/pdf-design.service.ts\<close>, its controller and
  entity). The tables of an operation are the designs and the material requests of the tenant's schema; its
  transaction is \<open>run_tx\<close> (a nested \<open>runInTenant\<close> joins it). The bucket is outside the transaction: what an
  operation stores or deletes there stays when the transaction rolls back. \<open>sharp\<close> and the object storage are
  parameters.

  A POST body is an instance of \<open>CreatePdfDesignDto\<close> and validated; a PATCH body is declared as
  \<open>Partial<CreatePdfDesignDto>\<close>, a type the compiler erases, so the global \<open>ValidationPipe\<close> passes it on
  unchecked, unknown properties included. Bodies with a value of another JSON type in a column are not modelled.
\<close>

subsection \<open>Designs\<close>

record design_template =
  de_id :: uuid
  de_tenantId :: "string option"
  de_name :: string
  de_bannerImageUrl :: "string option"
  de_watermarkImageUrl :: "string option"
  de_coverImageUrl :: "string option"
  de_showCover :: bool
  de_primaryTitleColor :: string
  de_secondaryTitleColor :: string
  de_backgroundHighlightColor :: string
  de_marginTop :: string
  de_marginBottom :: string
  de_marginInside :: string
  de_marginOutside :: string
  de_isBookMode :: bool
  de_fontFamily :: string
  de_borderRadius :: string
  de_contentFontSize :: string
  de_contentTextColor :: string
  de_blocksConfig :: "json option"
  de_headerConfig :: "json option"
  de_footerConfig :: "json option"
  de_isDefault :: bool
  de_createdAt :: millis

record design_dto =
  dd_name :: string
  dd_bannerImageUrl :: "string option"
  dd_watermarkImageUrl :: "string option"
  dd_coverImageUrl :: "string option"
  dd_showCover :: "bool option"
  dd_primaryTitleColor :: "string option"
  dd_secondaryTitleColor :: "string option"
  dd_backgroundHighlightColor :: "string option"
  dd_marginTop :: "string option"
  dd_marginBottom :: "string option"
  dd_marginInside :: "string option"
  dd_marginOutside :: "string option"
  dd_isBookMode :: "bool option"
  dd_fontFamily :: "string option"
  dd_borderRadius :: "string option"
  dd_contentFontSize :: "string option"
  dd_contentTextColor :: "string option"
  dd_blocksConfig :: "json option"
  dd_headerConfig :: "json option"
  dd_footerConfig :: "json option"
  dd_isDefault :: "bool option"

text \<open>The body of a PATCH: every column of the entity may be named in it; \<open>Some None\<close> is a JSON null.\<close>

record design_patch =
  dp_id :: "uuid option"
  dp_tenantId :: "string option option"
  dp_name :: "string option"
  dp_bannerImageUrl :: "string option option"
  dp_watermarkImageUrl :: "string option option"
  dp_coverImageUrl :: "string option option"
  dp_showCover :: "bool option"
  dp_primaryTitleColor :: "string option"
  dp_secondaryTitleColor :: "string option"
  dp_backgroundHighlightColor :: "string option"
  dp_marginTop :: "string option"
  dp_marginBottom :: "string option"
  dp_marginInside :: "string option"
  dp_marginOutside :: "string option"
  dp_isBookMode :: "bool option"
  dp_fontFamily :: "string option"
  dp_borderRadius :: "string option"
  dp_contentFontSize :: "string option"
  dp_contentTextColor :: "string option"
  dp_blocksConfig :: "json option"
  dp_headerConfig :: "json option"
  dp_footerConfig :: "json option"
  dp_isDefault :: "bool option"

record design_db =
  db_designs :: "design_template list"
  db_requests :: "material_request list"

datatype design_msg =
    BadDesign
  | DesignNotFound
  | OnlyDefaultDesign
  | DesignInUse string nat
  | DuplicateDefault
  | ValueTooLong
  | ImageRejected
  | StorageFailed

type_synonym design_error = "design_msg http_error"
type_synonym 'a dtx = "(design_db, design_error, 'a) tx"

subsection \<open>The body of a POST\<close>

text \<open>\<open>/^\d{1,3},\s?\d{1,3},\s?\d{1,3}$/\<close>\<close>

definition digits_1_3 :: "string \<Rightarrow> bool" where
  "digits_1_3 s = (s \<noteq> [] \<and> length s \<le> 3 \<and> list_all (\<lambda>c. 48 \<le> (of_char c :: nat) \<and> (of_char c :: nat) \<le> 57) s)"

fun skip_space :: "string \<Rightarrow> string" where
  "skip_space [] = []"
| "skip_space (c # s) = (if is_space c then s else c # s)"

definition rgb_triplet :: "string \<Rightarrow> bool" where
  "rgb_triplet s = (case split_on (CHR '','') s of
     [r, g, b] \<Rightarrow> digits_1_3 r \<and> digits_1_3 (skip_space g) \<and> digits_1_3 (skip_space b)
   | _ \<Rightarrow> False)"

definition is_object :: "json \<Rightarrow> bool" where
  "is_object j = (case j of J_Obj fs \<Rightarrow> True | _ \<Rightarrow> False)"

definition design_dto_valid :: "design_dto \<Rightarrow> bool" where
  "design_dto_valid dto =
     (length (dd_name dto) \<le> 255 \<and>
      pred_option rgb_triplet (dd_primaryTitleColor dto) \<and>
      pred_option rgb_triplet (dd_secondaryTitleColor dto) \<and>
      pred_option rgb_triplet (dd_backgroundHighlightColor dto) \<and>
      pred_option is_object (dd_headerConfig dto) \<and>
      pred_option is_object (dd_footerConfig dto))"

subsection \<open>Rows\<close>

text \<open>\<open>designRepo.create\<close> and the defaults of the columns.\<close>

definition new_design :: "uuid \<Rightarrow> millis \<Rightarrow> string \<Rightarrow> design_dto \<Rightarrow> bool \<Rightarrow> design_template" where
  "new_design i now tenantId dto isDefault =
     \<lparr>de_id = i, de_tenantId = Some tenantId, de_name = dd_name dto,
      de_bannerImageUrl = dd_bannerImageUrl dto,
      de_watermarkImageUrl = dd_watermarkImageUrl dto,
      de_coverImageUrl = dd_coverImageUrl dto,
      de_showCover = nullish (dd_showCover dto) False,
      de_primaryTitleColor = nullish (dd_primaryTitleColor dto) ''2, 113, 184'',
      de_secondaryTitleColor = nullish (dd_secondaryTitleColor dto) ''2, 113, 184'',
      de_backgroundHighlightColor = nullish (dd_backgroundHighlightColor dto) ''214, 238, 253'',
      de_marginTop = nullish (dd_marginTop dto) ''3cm'',
      de_marginBottom = nullish (dd_marginBottom dto) ''1.5cm'',
      de_marginInside = nullish (dd_marginInside dto) ''1cm'',
      de_marginOutside = nullish (dd_marginOutside dto) ''1cm'',
      de_isBookMode = nullish (dd_isBookMode dto) False,
      de_fontFamily = nullish (dd_fontFamily dto) ''Arial'',
      de_borderRadius = nullish (dd_borderRadius dto) ''4px'',
      de_contentFontSize = nullish (dd_contentFontSize dto) ''11pt'',
      de_contentTextColor = nullish (dd_contentTextColor dto) ''#000000'',
      de_blocksConfig = dd_blocksConfig dto,
      de_headerConfig = dd_headerConfig dto,
      de_footerConfig = dd_footerConfig dto,
      de_isDefault = isDefault, de_createdAt = now\<rparr>"

text \<open>\<open>Object.assign(design, dto)\<close>; a JSON null in a JSONB column is stored as NULL.\<close>

definition json_column :: "json option \<Rightarrow> json option \<Rightarrow> json option" where
  "json_column p old = (case p of None \<Rightarrow> old | Some J_Null \<Rightarrow> None | Some j \<Rightarrow> Some j)"

definition assign_patch :: "design_patch \<Rightarrow> design_template \<Rightarrow> design_template" where
  "assign_patch p d =
     \<lparr>de_id = nullish (dp_id p) (de_id d), de_tenantId = nullish (dp_tenantId p) (de_tenantId d),
      de_name = nullish (dp_name p) (de_name d),
      de_bannerImageUrl = nullish (dp_bannerImageUrl p) (de_bannerImageUrl d),
      de_watermarkImageUrl = nullish (dp_watermarkImageUrl p) (de_watermarkImageUrl d),
      de_coverImageUrl = nullish (dp_coverImageUrl p) (de_coverImageUrl d),
      de_showCover = nullish (dp_showCover p) (de_showCover d),
      de_primaryTitleColor = nullish (dp_primaryTitleColor p) (de_primaryTitleColor d),
      de_secondaryTitleColor = nullish (dp_secondaryTitleColor p) (de_secondaryTitleColor d),
      de_backgroundHighlightColor = nullish (dp_backgroundHighlightColor p) (de_backgroundHighlightColor d),
      de_marginTop = nullish (dp_marginTop p) (de_marginTop d),
      de_marginBottom = nullish (dp_marginBottom p) (de_marginBottom d),
      de_marginInside = nullish (dp_marginInside p) (de_marginInside d),
      de_marginOutside = nullish (dp_marginOutside p) (de_marginOutside d),
      de_isBookMode = nullish (dp_isBookMode p) (de_isBookMode d),
      de_fontFamily = nullish (dp_fontFamily p) (de_fontFamily d),
      de_borderRadius = nullish (dp_borderRadius p) (de_borderRadius d),
      de_contentFontSize = nullish (dp_contentFontSize p) (de_contentFontSize d),
      de_contentTextColor = nullish (dp_contentTextColor p) (de_contentTextColor d),
      de_blocksConfig = json_column (dp_blocksConfig p) (de_blocksConfig d),
      de_headerConfig = json_column (dp_headerConfig p) (de_headerConfig d),
      de_footerConfig = json_column (dp_footerConfig p) (de_footerConfig d),
      de_isDefault = nullish (dp_isDefault p) (de_isDefault d), de_createdAt = de_createdAt d\<rparr>"

text \<open>What the table enforces: the lengths of its columns and the partial unique index \<open>idx_tenant_default\<close>.\<close>

definition columns_fit :: "design_template \<Rightarrow> bool" where
  "columns_fit d =
     (length (de_name d) \<le> 255 \<and> pred_option (\<lambda>t. length t \<le> 255) (de_tenantId d) \<and> length (de_fontFamily d) \<le> 50 \<and>
      list_all (\<lambda>s. length s \<le> 20)
        [de_primaryTitleColor d, de_secondaryTitleColor d, de_backgroundHighlightColor d, de_marginTop d, de_marginBottom d,
         de_marginInside d, de_marginOutside d, de_borderRadius d, de_contentFontSize d, de_contentTextColor d])"

definition default_tenants :: "design_template list \<Rightarrow> string list" where
  "default_tenants ds = List.map_filter (\<lambda>d. if de_isDefault d then de_tenantId d else None) ds"

definition idx_tenant_default :: "design_template list \<Rightarrow> bool" where
  "idx_tenant_default ds = distinct (default_tenants ds)"

text \<open>\<open>designRepo.save\<close>: an UPDATE when a row has the id of the entity, an INSERT otherwise.\<close>

definition put_design :: "design_template \<Rightarrow> design_template list \<Rightarrow> design_template list" where
  "put_design d ds =
     (if de_id d \<in> set (map de_id ds) then update_where (\<lambda>x. de_id x = de_id d) (\<lambda>x. d) ds else ds @ [d])"

definition save_design :: "design_template \<Rightarrow> unit dtx" where
  "save_design d db =
     (if \<not> columns_fit d then Inl (RawError ValueTooLong)
      else if \<not> idx_tenant_default (put_design d (db_designs db)) then Inl (RawError DuplicateDefault)
      else Inr ((), db\<lparr>db_designs := put_design d (db_designs db)\<rparr>))"

definition is_default_of :: "string \<Rightarrow> design_template \<Rightarrow> bool" where
  "is_default_of t d = (de_tenantId d = Some t \<and> de_isDefault d)"

definition unset_current_default :: "string \<Rightarrow> design_db \<Rightarrow> design_db" where
  "unset_current_default t db =
     db\<lparr>db_designs := update_where (is_default_of t) (\<lambda>d. d\<lparr>de_isDefault := False\<rparr>) (db_designs db)\<rparr>"

subsection \<open>Reads\<close>

text \<open>\<open>findAll\<close>: the defaults first, then the newest, each with the number of cycles it was used in.\<close>

definition cycle_count :: "string \<Rightarrow> material_request list \<Rightarrow> uuid \<Rightarrow> nat" where
  "cycle_count t rs i =
     length (js_unique (map mr_cycleId (find_all (\<lambda>r. mr_tenantId r = t \<and> mr_designTemplateId r = Some i) rs)))"

definition find_all_designs :: "string \<Rightarrow> design_db \<Rightarrow> (design_template \<times> nat) list" where
  "find_all_designs t db =
     map (\<lambda>d. (d, cycle_count t (db_requests db) (de_id d)))
       (sort_key (\<lambda>d. \<not> de_isDefault d) (sort_key (\<lambda>d. - de_createdAt d)
          (find_all (\<lambda>d. de_tenantId d = Some t) (db_designs db))))"

definition find_design :: "uuid \<Rightarrow> string \<Rightarrow> design_db \<Rightarrow> design_error + design_template" where
  "find_design i t db =
     (case find_one (\<lambda>d. de_id d = i \<and> de_tenantId d = Some t) (db_designs db) of
        None \<Rightarrow> Inl (NotFound DesignNotFound)
      | Some d \<Rightarrow> Inr d)"

subsection \<open>Writes\<close>

definition create_design :: "uuid \<Rightarrow> millis \<Rightarrow> string \<Rightarrow> design_dto \<Rightarrow> design_template dtx" where
  "create_design i now t dto db =
     (let existing = count_where (\<lambda>d. de_tenantId d = Some t) (db_designs db);
          isDefault = nullish (dd_isDefault dto) (existing = 0);
          db1 = (if isDefault then unset_current_default t db else db);
          design = new_design i now t dto isDefault
      in case save_design design db1 of
           Inl e \<Rightarrow> Inl e
         | Inr (u, db2) \<Rightarrow> Inr (design, db2))"

text \<open>The POST route: the body is validated before the service runs.\<close>

definition post_design :: "uuid \<Rightarrow> millis \<Rightarrow> string \<Rightarrow> design_dto \<Rightarrow> design_template dtx" where
  "post_design i now t dto db =
     (if \<not> design_dto_valid dto then Inl (BadRequest BadDesign) else create_design i now t dto db)"

definition update_design :: "uuid \<Rightarrow> string \<Rightarrow> design_patch \<Rightarrow> unit dtx" where
  "update_design i t p db =
     (case find_design i t db of
        Inl e \<Rightarrow> Inl e
      | Inr design \<Rightarrow>
          (let db1 = (if dp_isDefault p = Some True \<and> \<not> de_isDefault design then unset_current_default t db else db)
           in if dp_isDefault p = Some False \<and> de_isDefault design \<and>
                 count_where (is_default_of t) (db_designs db1) \<le> 1
              then Inl (Conflict OnlyDefaultDesign)
              else save_design (assign_patch p design) db1))"

text \<open>The PATCH route answers the design it re-reads in a second transaction.\<close>

definition patch_design :: "uuid \<Rightarrow> string \<Rightarrow> design_patch \<Rightarrow> design_db \<Rightarrow> (design_error + design_template) \<times> design_db" where
  "patch_design i t p db =
     (case run_tx (update_design i t p) db of
        (Inl e, db') \<Rightarrow> (Inl e, db')
      | (Inr u, db') \<Rightarrow> (find_design i t db', db'))"

subsection \<open>Assets\<close>

datatype asset_type = Banner | Watermark | Cover | Grid_Image

datatype image_op = To_Png nat nat | To_Jpeg nat nat

record stored_object =
  so_body :: string
  so_mime :: string

type_synonym bucket = "string \<Rightarrow> stored_object option"

record asset_env =
  as_now :: millis
  as_sharp :: "image_op \<Rightarrow> string \<Rightarrow> string option"
  as_putOk :: bool
  as_sign :: "string \<Rightarrow> string option"
  as_deleteOk :: "string \<Rightarrow> bool"

fun asset_suffix :: "asset_type \<Rightarrow> string" where
  "asset_suffix Banner = ''banner''"
| "asset_suffix Watermark = ''watermark''"
| "asset_suffix Cover = ''cover''"
| "asset_suffix Grid_Image = ''grid_image''"

definition design_key :: "string \<Rightarrow> uuid \<Rightarrow> string \<Rightarrow> string \<Rightarrow> string" where
  "design_key t i suffix ext = ''designs/'' @ t @ ''/'' @ i @ ''-'' @ suffix @ ''.'' @ ext"

text \<open>\<open>file.mimetype.includes('png')\<close>\<close>

definition mentions :: "string \<Rightarrow> string \<Rightarrow> bool" where
  "mentions needle hay = (\<exists>n\<in>set [0..<Suc (length hay)]. take (length needle) (drop n hay) = needle)"

text \<open>How an image is re-encoded, and the MIME type it is stored with.\<close>

definition image_plan :: "asset_type \<Rightarrow> string \<Rightarrow> image_op \<times> string" where
  "image_plan ty mime =
     (case ty of
        Grid_Image \<Rightarrow> (To_Png 200 80, ''image/png'')
      | Watermark \<Rightarrow> (To_Png 1000 75, ''image/png'')
      | Banner \<Rightarrow> (if mentions ''png'' mime then (To_Png 1600 80, mime) else (To_Jpeg 1600 80, ''image/jpeg''))
      | Cover \<Rightarrow> (if mentions ''png'' mime then (To_Png 1600 80, mime) else (To_Jpeg 1600 80, ''image/jpeg'')))"

definition set_asset :: "asset_type \<Rightarrow> string option \<Rightarrow> design_template \<Rightarrow> design_template" where
  "set_asset ty url d =
     (case ty of
        Banner \<Rightarrow> d\<lparr>de_bannerImageUrl := url\<rparr>
      | Watermark \<Rightarrow> d\<lparr>de_watermarkImageUrl := url\<rparr>
      | Cover \<Rightarrow> d\<lparr>de_coverImageUrl := url\<rparr>
      | Grid_Image \<Rightarrow> d)"

text \<open>\<open>S3Service.uploadBuffer\<close>: the object, then a link to it; \<open>deleteObject\<close>, whose errors the callers ignore.\<close>

definition upload_buffer :: "asset_env \<Rightarrow> string \<Rightarrow> string \<Rightarrow> string \<Rightarrow> bucket \<Rightarrow> (design_error + string) \<times> bucket" where
  "upload_buffer env key body mime b =
     (if \<not> as_putOk env then (Inl (RawError StorageFailed), b)
      else let b' = b(key \<mapsto> \<lparr>so_body = body, so_mime = mime\<rparr>)
           in case as_sign env key of None \<Rightarrow> (Inl (RawError StorageFailed), b') | Some url \<Rightarrow> (Inr url, b'))"

definition delete_keys :: "asset_env \<Rightarrow> string list \<Rightarrow> bucket \<Rightarrow> bucket" where
  "delete_keys env ks b = (\<lambda>k. if k \<in> set ks \<and> as_deleteOk env k then None else b k)"

definition upload_asset ::
  "asset_env \<Rightarrow> uuid \<Rightarrow> string \<Rightarrow> string \<Rightarrow> string \<Rightarrow> asset_type \<Rightarrow> design_db \<times> bucket
     \<Rightarrow> (design_error + string) \<times> design_db \<times> bucket" where
  "upload_asset env i t body mime ty =
     (\<lambda>(db, b).
       (case find_design i t db of
          Inl e \<Rightarrow> (Inl e, db, b)
        | Inr design \<Rightarrow>
            (case image_plan ty mime of
               (op, stored) \<Rightarrow>
                 (case as_sharp env op body of
                    None \<Rightarrow> (Inl (RawError ImageRejected), db, b)
                  | Some img \<Rightarrow>
                      (let suffix = (if ty = Grid_Image then ''grid-'' @ int_text (as_now env) else asset_suffix ty);
                           ext = (if stored = ''image/png'' then ''png'' else ''jpg'')
                       in case upload_buffer env (design_key t i suffix ext) img stored b of
                            (Inl e, b') \<Rightarrow> (Inl e, db, b')
                          | (Inr url, b') \<Rightarrow>
                              (if ty = Grid_Image then (Inr url, db, b')
                               else (case save_design (set_asset ty (Some url) design) db of
                                       Inl e \<Rightarrow> (Inl e, db, b')
                                     | Inr (u, db') \<Rightarrow> (Inr url, db', b'))))))))"

definition asset_keys :: "string \<Rightarrow> uuid \<Rightarrow> asset_type list \<Rightarrow> string list" where
  "asset_keys t i tys = concat (map (\<lambda>ty. map (\<lambda>ext. design_key t i (asset_suffix ty) ext) [''png'', ''jpg'']) tys)"

definition delete_asset ::
  "asset_env \<Rightarrow> uuid \<Rightarrow> string \<Rightarrow> asset_type \<Rightarrow> design_db \<times> bucket \<Rightarrow> (design_error + unit) \<times> design_db \<times> bucket" where
  "delete_asset env i t ty =
     (\<lambda>(db, b).
       (case find_design i t db of
          Inl e \<Rightarrow> (Inl e, db, b)
        | Inr design \<Rightarrow>
            (let b' = delete_keys env (asset_keys t i [ty]) b
             in case save_design (set_asset ty None design) db of
                  Inl e \<Rightarrow> (Inl e, db, b')
                | Inr (u, db') \<Rightarrow> (Inr (), db', b'))))"

definition delete_design ::
  "asset_env \<Rightarrow> uuid \<Rightarrow> string \<Rightarrow> design_db \<times> bucket \<Rightarrow> (design_error + unit) \<times> design_db \<times> bucket" where
  "delete_design env i t =
     (\<lambda>(db, b).
       (case find_design i t db of
          Inl e \<Rightarrow> (Inl e, db, b)
        | Inr design \<Rightarrow>
            (let used = count_where (\<lambda>r. mr_designTemplateId r = Some i) (db_requests db)
             in if used > 0 then (Inl (Conflict (DesignInUse (de_name design) used)), db, b)
                else (Inr (), db\<lparr>db_designs := delete_where (\<lambda>d. de_id d = i) (db_designs db)\<rparr>,
                      delete_keys env (asset_keys t i [Banner, Watermark, Cover]) b))))"

end
