(* ===== verification/PdfDesignLaws.thy ===== *)
theory PdfDesignLaws
  imports PdfDesigns
begin

text \<open>
  What the design operations keep: identities and references of the tables, at most one default design per
  tenant, and the default design itself. \<open>design_step\<close> is one operation of the controller, or a request the
  generation inserts; a run is any sequence of them, by any tenants of the schema's table.
\<close>

subsection \<open>Commands\<close>

datatype design_cmd =
    Post_Design uuid millis string design_dto
  | Patch_Design uuid string design_patch
  | Upload_Asset asset_env uuid string string string asset_type
  | Delete_Asset asset_env uuid string asset_type
  | Delete_Design asset_env uuid string
  | Insert_Request material_request

text \<open>The foreign key of \<open>material_requests.design_template_id\<close>.\<close>

definition insert_request :: "material_request \<Rightarrow> design_db \<Rightarrow> design_db" where
  "insert_request r db =
     (if pred_option (\<lambda>i. i \<in> set (map de_id (db_designs db))) (mr_designTemplateId r)
      then db\<lparr>db_requests := db_requests db @ [r]\<rparr> else db)"

definition design_step :: "design_db \<times> bucket \<Rightarrow> design_cmd \<Rightarrow> design_db \<times> bucket" where
  "design_step s c =
     (case c of
        Post_Design i now t dto \<Rightarrow> (snd (run_tx (post_design i now t dto) (fst s)), snd s)
      | Patch_Design i t p \<Rightarrow> (snd (patch_design i t p (fst s)), snd s)
      | Upload_Asset env i t body mime ty \<Rightarrow> snd (upload_asset env i t body mime ty s)
      | Delete_Asset env i t ty \<Rightarrow> snd (delete_asset env i t ty s)
      | Delete_Design env i t \<Rightarrow> snd (delete_design env i t s)
      | Insert_Request r \<Rightarrow> (insert_request r (fst s), snd s))"

definition designs_ok :: "design_db \<Rightarrow> bool" where
  "designs_ok db \<longleftrightarrow>
     distinct (map de_id (db_designs db)) \<and> idx_tenant_default (db_designs db) \<and>
     (\<forall>r\<in>set (db_requests db). pred_option (\<lambda>i. i \<in> set (map de_id (db_designs db))) (mr_designTemplateId r))"

definition has_default :: "string \<Rightarrow> design_db \<Rightarrow> bool" where
  "has_default t db = list_ex (is_default_of t) (db_designs db)"

subsection \<open>Tables\<close>

lemma default_tenants_simps [simp]:
  "default_tenants [] = []"
  "default_tenants (d # ds) = (if de_isDefault d then (case de_tenantId d of None \<Rightarrow> [] | Some t \<Rightarrow> [t]) else []) @ default_tenants ds"
  "default_tenants (ds @ es) = default_tenants ds @ default_tenants es"
  by (auto simp: default_tenants_def List.map_filter_def split: option.splits)

lemma in_default_tenants [simp]:
  "t \<in> set (default_tenants (d # ds)) \<longleftrightarrow> is_default_of t d \<or> t \<in> set (default_tenants ds)"
  by (cases "de_isDefault d"; cases "de_tenantId d") (auto simp: is_default_of_def)

lemma set_default_tenants: "t \<in> set (default_tenants ds) \<longleftrightarrow> (\<exists>d\<in>set ds. is_default_of t d)"
  by (induction ds) (auto simp del: default_tenants_simps(2))

lemma has_default_iff: "has_default t db \<longleftrightarrow> t \<in> set (default_tenants (db_designs db))"
  by (auto simp: has_default_def list_ex_iff set_default_tenants)

lemma default_tenants_unset:
  "default_tenants (update_where (is_default_of t) (\<lambda>d. d\<lparr>de_isDefault := False\<rparr>) ds) = filter (\<lambda>u. u \<noteq> t) (default_tenants ds)"
proof (induction ds)
  case (Cons d ds)
  then show ?case by (cases "de_isDefault d"; cases "de_tenantId d") (simp_all add: update_where_def is_default_of_def)
qed (simp add: update_where_def)

lemma default_tenants_delete:
  "distinct (default_tenants ds) \<Longrightarrow> distinct (default_tenants (delete_where p ds))"
proof (induction ds)
  case (Cons d ds)
  have "set (default_tenants (delete_where p ds)) \<subseteq> set (default_tenants ds)"
    by (auto simp: set_default_tenants set_delete_where)
  moreover have "delete_where p (d # ds) = (if p d then [] else [d]) @ delete_where p ds"
    by (simp add: delete_where_def)
  ultimately show ?case using Cons by (cases "de_isDefault d"; cases "de_tenantId d") auto
qed (simp add: delete_where_def)

lemma one_default:
  assumes "distinct (default_tenants ds)"
  shows "count_where (is_default_of t) ds \<le> 1"
proof -
  have "count_where (is_default_of t) ds = length (filter (\<lambda>u. u = t) (default_tenants ds))"
  proof (induction ds)
    case (Cons d ds)
    then show ?case by (cases "de_isDefault d"; cases "de_tenantId d") (simp_all add: count_where_def is_default_of_def)
  qed (simp add: count_where_def)
  also have "\<dots> \<le> 1"
    using distinct_length_filter [OF assms, of "\<lambda>u. u = t"] card_mono [of "{t}" "{u. u = t} \<inter> set (default_tenants ds)"] by auto
  finally show ?thesis .
qed

lemma put_design_ids:
  "map de_id (put_design d ds) = (if de_id d \<in> set (map de_id ds) then map de_id ds else map de_id ds @ [de_id d])"
  by (auto simp: put_design_def map_update_where_key intro!: map_update_where_key)

lemma set_put_design:
  "set (put_design d ds) = insert d {x \<in> set ds. de_id x \<noteq> de_id d}"
  by (auto simp: put_design_def set_update_where image_iff)

lemma save_design_Inr:
  assumes "save_design d db = Inr (u, db')"
  shows "db' = db\<lparr>db_designs := put_design d (db_designs db)\<rparr>" and "idx_tenant_default (db_designs db')"
    and "columns_fit d"
  using assms by (auto simp: save_design_def split: if_splits)

lemma ok_unset: "designs_ok db \<Longrightarrow> designs_ok (unset_current_default t db)"
  by (simp add: designs_ok_def unset_current_default_def idx_tenant_default_def default_tenants_unset map_update_where_key
      del: set_map)

lemma ok_save: "designs_ok db \<Longrightarrow> save_design d db = Inr (u, db') \<Longrightarrow> designs_ok db'"
  using save_design_Inr [of d db u db']
  by (auto simp: designs_ok_def put_design_ids option.pred_set simp del: set_map)

lemma default_save:
  assumes "save_design d db = Inr (u, db')" and "has_default t db"
    and "\<And>x. x \<in> set (db_designs db) \<Longrightarrow> de_id x = de_id d \<Longrightarrow> is_default_of t x \<Longrightarrow> is_default_of t d"
  shows "has_default t db'"
  using assms save_design_Inr(1) [OF assms(1)] by (auto simp: has_default_def list_ex_iff set_put_design)

lemma default_saved: "save_design d db = Inr (u, db') \<Longrightarrow> is_default_of t d \<Longrightarrow> has_default t db'"
  by (auto dest!: save_design_Inr(1) simp: has_default_def list_ex_iff set_put_design)

lemma unset_default_other: "u \<noteq> t \<Longrightarrow> has_default u (unset_current_default t db) = has_default u db"
  by (simp add: has_default_iff unset_current_default_def default_tenants_unset)

lemma find_design_Inr:
  "find_design i t db = Inr d \<Longrightarrow> d \<in> set (db_designs db) \<and> de_id d = i \<and> de_tenantId d = Some t"
  by (auto simp: find_design_def dest: find_one_Some split: option.splits)

lemma same_row:
  "designs_ok db \<Longrightarrow> x \<in> set (db_designs db) \<Longrightarrow> y \<in> set (db_designs db) \<Longrightarrow> de_id x = de_id y \<Longrightarrow> x = y"
  by (auto simp: designs_ok_def distinct_map dest: inj_onD)

subsection \<open>Operations\<close>

lemma create_design_Inr:
  assumes "create_design i now t dto db = Inr (d, db')"
  obtains db1 u where "db1 = (if de_isDefault d then unset_current_default t db else db)" "save_design d db1 = Inr (u, db')"
    "d = new_design i now t dto (de_isDefault d)" "de_tenantId d = Some t"
proof -
  define b where "b = nullish (dd_isDefault dto) (count_where (\<lambda>d. de_tenantId d = Some t) (db_designs db) = 0)"
  have "d = new_design i now t dto b" and "save_design d (if b then unset_current_default t db else db) = Inr ((), db')"
    using assms by (auto simp: create_design_def Let_def b_def [symmetric] split: sum.splits)
  moreover from this have "de_isDefault d = b" "de_tenantId d = Some t" by (simp_all add: new_design_def)
  ultimately show ?thesis using that by simp
qed

lemma update_design_Inr:
  assumes "update_design i t p db = Inr (u, db')"
  obtains d db1 where "find_design i t db = Inr d"
    "db1 = (if dp_isDefault p = Some True \<and> \<not> de_isDefault d then unset_current_default t db else db)"
    "\<not> (dp_isDefault p = Some False \<and> de_isDefault d \<and> count_where (is_default_of t) (db_designs db1) \<le> 1)"
    "save_design (assign_patch p d) db1 = Inr (u, db')"
  using assms by (auto simp: update_design_def Let_def split: sum.splits if_splits)

lemma set_asset_fields [simp]:
  "de_id (set_asset ty url d) = de_id d" "de_tenantId (set_asset ty url d) = de_tenantId d"
  "de_isDefault (set_asset ty url d) = de_isDefault d"
  by (cases ty; simp add: set_asset_def)+

lemma is_default_set_asset [simp]: "is_default_of t (set_asset ty url d) = is_default_of t d"
  by (simp add: is_default_of_def)

lemma upload_asset_cases:
  assumes "upload_asset env i t body mime ty (db, b) = (r, db', b')"
  obtains (same) "db' = db"
    | (saved) d url u where "find_design i t db = Inr d" "save_design (set_asset ty (Some url) d) db = Inr (u, db')"
  using assms unfolding upload_asset_def Let_def by (auto split: sum.splits option.splits prod.splits if_splits)

lemma delete_asset_cases:
  assumes "delete_asset env i t ty (db, b) = (r, db', b')"
  obtains (same) "db' = db"
    | (saved) d u where "find_design i t db = Inr d" "save_design (set_asset ty None d) db = Inr (u, db')"
  using assms unfolding delete_asset_def Let_def by (auto split: sum.splits)

lemma delete_design_cases:
  assumes "delete_design env i t (db, b) = (r, db', b')"
  obtains (same) "db' = db"
    | (deleted) d where "find_design i t db = Inr d" "db' = db\<lparr>db_designs := delete_where (\<lambda>d. de_id d = i) (db_designs db)\<rparr>"
        "\<forall>r\<in>set (db_requests db). mr_designTemplateId r \<noteq> Some i"
  using assms unfolding delete_design_def Let_def
  by (auto split: sum.splits if_splits simp: neq0_conv [symmetric] count_where_0 simp del: neq0_conv)

lemma patch_design_db: "snd (patch_design i t p db) = snd (run_tx (update_design i t p) db)"
  by (simp add: patch_design_def split: prod.splits sum.splits)

subsection \<open>The invariant\<close>

lemma after_tx:
  "P db \<Longrightarrow> (\<And>a db'. body db = Inr (a, db') \<Longrightarrow> P db') \<Longrightarrow> P (snd (run_tx body db))"
  by (cases "run_tx body db") (auto elim: run_tx_cases)

lemma ok_create: "designs_ok db \<Longrightarrow> create_design i now t dto db = Inr (d, db') \<Longrightarrow> designs_ok db'"
  by (erule create_design_Inr) (auto intro: ok_save ok_unset split: if_splits)

lemma ok_post: "designs_ok db \<Longrightarrow> designs_ok (snd (run_tx (post_design i now t dto) db))"
  by (rule after_tx) (auto simp: post_design_def intro: ok_create split: if_splits)

lemma ok_update: "designs_ok db \<Longrightarrow> update_design i t p db = Inr (u, db') \<Longrightarrow> designs_ok db'"
  by (erule update_design_Inr) (auto intro: ok_save ok_unset split: if_splits)

lemma ok_patch: "designs_ok db \<Longrightarrow> designs_ok (snd (patch_design i t p db))"
  unfolding patch_design_db by (rule after_tx) (auto intro: ok_update)

lemma ok_upload: "designs_ok (fst s) \<Longrightarrow> designs_ok (fst (snd (upload_asset env i t body mime ty s)))"
  by (cases s; cases "upload_asset env i t body mime ty s") (auto elim!: upload_asset_cases intro: ok_save)

lemma ok_delete_asset: "designs_ok (fst s) \<Longrightarrow> designs_ok (fst (snd (delete_asset env i t ty s)))"
  by (cases s; cases "delete_asset env i t ty s") (auto elim!: delete_asset_cases intro: ok_save)

lemma ok_deleted:
  assumes "designs_ok db" and "\<forall>r\<in>set (db_requests db). mr_designTemplateId r \<noteq> Some i"
  shows "designs_ok (db\<lparr>db_designs := delete_where (\<lambda>d. de_id d = i) (db_designs db)\<rparr>)"
proof -
  have "j \<noteq> i \<Longrightarrow> j \<in> de_id ` set (db_designs db) \<Longrightarrow> j \<in> de_id ` {d \<in> set (db_designs db). de_id d \<noteq> i}" for j
    by auto
  then show ?thesis
    using assms
    by (auto simp: designs_ok_def idx_tenant_default_def default_tenants_delete distinct_map_delete_where set_delete_where
        option.pred_set)
qed

lemma ok_delete: "designs_ok (fst s) \<Longrightarrow> designs_ok (fst (snd (delete_design env i t s)))"
  by (cases s; cases "delete_design env i t s") (auto elim!: delete_design_cases intro: ok_deleted)

lemma ok_request: "designs_ok db \<Longrightarrow> designs_ok (insert_request r db)"
  by (auto simp: designs_ok_def insert_request_def)

lemma design_step_ok: "designs_ok (fst s) \<Longrightarrow> designs_ok (fst (design_step s c))"
  by (cases c) (simp_all add: design_step_def ok_post ok_patch ok_upload ok_delete_asset ok_delete ok_request)

interpretation designs: invariant_system design_step "\<lambda>s. designs_ok (fst s)" "\<lambda>c. True"
  by unfold_locales (simp add: design_step_ok)


subsection \<open>The default survives\<close>

text \<open>The operations that may leave tenant \<open>t\<close> without a default: the deletion of its default design, and a
  PATCH whose body names the columns \<open>id\<close> or \<open>tenantId\<close>. The database generates ids that are not in use.\<close>

definition spares_default :: "string \<Rightarrow> design_db \<Rightarrow> design_cmd \<Rightarrow> bool" where
  "spares_default t db c =
     (case c of
        Post_Design i now u dto \<Rightarrow> i \<notin> set (map de_id (db_designs db))
      | Patch_Design i u p \<Rightarrow> dp_id p = None \<and> dp_tenantId p = None
      | Delete_Design env i u \<Rightarrow> \<not> list_ex (\<lambda>d. de_id d = i \<and> is_default_of t d) (db_designs db)
      | _ \<Rightarrow> True)"

lemma default_post:
  assumes ok: "designs_ok db" and "has_default t db" and "post_design i now u dto db = Inr (d, db')"
    and fresh: "i \<notin> set (map de_id (db_designs db))"
  shows "has_default t db'"
proof -
  from assms(3) have "create_design i now u dto db = Inr (d, db')" by (simp add: post_design_def split: if_splits)
  then obtain db1 v where db1: "db1 = (if de_isDefault d then unset_current_default u db else db)"
    and saved: "save_design d db1 = Inr (v, db')" and d: "d = new_design i now u dto (de_isDefault d)" "de_tenantId d = Some u"
    by (rule create_design_Inr)
  show ?thesis
  proof (cases "de_isDefault d \<and> u = t")
    case True
    then show ?thesis using saved d by (intro default_saved) (auto simp: is_default_of_def)
  next
    case False
    then have "has_default t db1" using assms(2) unset_default_other [of t u db] by (auto simp: db1)
    moreover have "x \<in> set (db_designs db1) \<Longrightarrow> de_id x \<noteq> de_id d" for x
    proof -
      have "map de_id (db_designs db1) = map de_id (db_designs db)"
        by (auto simp: db1 unset_current_default_def intro: map_update_where_key)
      moreover have "de_id d = i" by (subst d(1)) (simp add: new_design_def)
      ultimately show "x \<in> set (db_designs db1) \<Longrightarrow> de_id x \<noteq> de_id d" using fresh by (metis image_eqI set_map)
    qed
    ultimately show ?thesis using saved by (blast intro: default_save)
  qed
qed

lemma default_update:
  assumes ok: "designs_ok db" and had: "has_default t db" and upd: "update_design i u p db = Inr (v, db')"
    and clean: "dp_id p = None" "dp_tenantId p = None"
  shows "has_default t db'"
  using upd
proof (rule update_design_Inr)
  fix d db1
  assume found: "find_design i u db = Inr d"
    and db1: "db1 = (if dp_isDefault p = Some True \<and> \<not> de_isDefault d then unset_current_default u db else db)"
    and guard: "\<not> (dp_isDefault p = Some False \<and> de_isDefault d \<and> count_where (is_default_of u) (db_designs db1) \<le> 1)"
    and saved: "save_design (assign_patch p d) db1 = Inr (v, db')"
  note d = find_design_Inr [OF found]
  have p: "de_id (assign_patch p d) = i" "de_tenantId (assign_patch p d) = Some u"
    "de_isDefault (assign_patch p d) = nullish (dp_isDefault p) (de_isDefault d)"
    using d clean by (simp_all add: assign_patch_def)
  show ?thesis
  proof (cases "dp_isDefault p = Some True \<and> \<not> de_isDefault d")
    case True
    then have asg: "is_default_of u (assign_patch p d)" and db1u: "db1 = unset_current_default u db"
      using p by (simp_all add: is_default_of_def db1)
    show ?thesis
    proof (cases "t = u")
      case True
      then show ?thesis using saved asg by (auto intro: default_saved)
    next
      case False
      have old: "y \<in> set (db_designs db) \<Longrightarrow> de_id y = i \<Longrightarrow> \<not> is_default_of t y" for y
        using same_row [OF ok, of y d] d False by (auto simp: is_default_of_def)
      have "x \<in> set (db_designs db1) \<Longrightarrow> de_id x = i \<Longrightarrow> \<not> is_default_of t x" for x
        using old by (auto simp: db1u unset_current_default_def set_update_where is_default_of_def split: if_splits)
      then show ?thesis using saved had False p(1) by (auto simp: db1u unset_default_other intro: default_save)
    qed
  next
    case False
    have "count_where (is_default_of u) (db_designs db) \<le> 1"
      using ok one_default [of "db_designs db" u] by (simp add: designs_ok_def idx_tenant_default_def)
    then have "de_isDefault d \<Longrightarrow> de_isDefault (assign_patch p d)"
      using guard False p(3) by (cases "dp_isDefault p") (auto simp: db1)
    then have "x \<in> set (db_designs db) \<Longrightarrow> de_id x = i \<Longrightarrow> is_default_of t x \<Longrightarrow> is_default_of t (assign_patch p d)" for x
      using same_row [OF ok, of x d] d p(2) by (auto simp: is_default_of_def)
    then show ?thesis using saved False had p(1) by (auto simp: db1 intro: default_save)
  qed
qed

lemma default_asset:
  assumes ok: "designs_ok db" and "has_default t db" and "find_design i u db = Inr d"
    and "save_design (set_asset ty url d) db = Inr (v, db')"
  shows "has_default t db'"
proof (rule default_save [OF assms(4,2)])
  fix x assume "x \<in> set (db_designs db)" "de_id x = de_id (set_asset ty url d)" "is_default_of t x"
  then show "is_default_of t (set_asset ty url d)"
    using same_row [OF ok, of x d] find_design_Inr [OF assms(3)] by simp
qed

lemma default_deleted:
  assumes "has_default t db" and "\<not> list_ex (\<lambda>d. de_id d = i \<and> is_default_of t d) (db_designs db)"
  shows "has_default t (db\<lparr>db_designs := delete_where (\<lambda>d. de_id d = i) (db_designs db)\<rparr>)"
  using assms by (auto simp: has_default_def list_ex_iff set_delete_where)

text \<open>
  A tenant that has a default design keeps one through every operation except the deletion of its default
  design and a PATCH whose body names the design's id or tenant: in particular the default is never unset by an
  update, whatever else the body holds, and making another design the default replaces it in one transaction.\<close>

lemma default_design_survives:
  assumes "designs_ok (fst s)" and "has_default t (fst s)" and "spares_default t (fst s) c"
  shows "has_default t (fst (design_step s c))"
proof (cases s)
  case s: (Pair db b)
  show ?thesis
  proof (cases c)
    case (Post_Design i now u dto)
    have "has_default t (snd (run_tx (post_design i now u dto) db))"
      using assms by (intro after_tx [where P = "has_default t"]) (auto simp: Post_Design s spares_default_def intro: default_post)
    then show ?thesis by (simp add: Post_Design s design_step_def)
  next
    case (Patch_Design i u p)
    have "has_default t (snd (run_tx (update_design i u p) db))"
      using assms by (intro after_tx [where P = "has_default t"]) (auto simp: Patch_Design s spares_default_def intro: default_update)
    then show ?thesis by (simp add: Patch_Design s design_step_def patch_design_db)
  next
    case (Upload_Asset env i u body mime ty)
    then show ?thesis
      using assms by (cases "upload_asset env i u body mime ty (db, b)")
        (auto simp: s design_step_def elim!: upload_asset_cases intro: default_asset)
  next
    case (Delete_Asset env i u ty)
    then show ?thesis
      using assms by (cases "delete_asset env i u ty (db, b)")
        (auto simp: s design_step_def elim!: delete_asset_cases intro: default_asset)
  next
    case (Delete_Design env i u)
    then show ?thesis
      using assms by (cases "delete_design env i u (db, b)")
        (auto simp: s design_step_def spares_default_def elim!: delete_design_cases intro: default_deleted)
  next
    case (Insert_Request r)
    then show ?thesis
      using assms by (auto simp: s design_step_def insert_request_def has_default_def)
  qed
qed

text \<open>The first design of a tenant becomes its default unless the body says otherwise.\<close>

lemma first_design_default:
  assumes "post_design i now t dto db = Inr (d, db')" and "dd_isDefault dto \<noteq> Some False"
    and "\<forall>x\<in>set (db_designs db). de_tenantId x \<noteq> Some t"
  shows "has_default t db'"
proof -
  from assms(1) have cr: "create_design i now t dto db = Inr (d, db')" by (simp add: post_design_def split: if_splits)
  moreover have "de_isDefault d"
    using cr assms(2,3) by (cases "dd_isDefault dto")
      (auto simp: create_design_def Let_def new_design_def count_where_0 split: sum.splits)
  ultimately show ?thesis by (auto elim!: create_design_Inr intro!: default_saved simp: is_default_of_def)
qed

subsection \<open>Two designs\<close>

definition plain_dto :: "string \<Rightarrow> design_dto" where
  "plain_dto name =
     \<lparr>dd_name = name, dd_bannerImageUrl = None, dd_watermarkImageUrl = None, dd_coverImageUrl = None, dd_showCover = None,
      dd_primaryTitleColor = None, dd_secondaryTitleColor = None, dd_backgroundHighlightColor = None, dd_marginTop = None,
      dd_marginBottom = None, dd_marginInside = None, dd_marginOutside = None, dd_isBookMode = None, dd_fontFamily = None,
      dd_borderRadius = None, dd_contentFontSize = None, dd_contentTextColor = None, dd_blocksConfig = None,
      dd_headerConfig = None, dd_footerConfig = None, dd_isDefault = None\<rparr>"

definition empty_patch :: design_patch where
  "empty_patch =
     \<lparr>dp_id = None, dp_tenantId = None, dp_name = None, dp_bannerImageUrl = None, dp_watermarkImageUrl = None,
      dp_coverImageUrl = None, dp_showCover = None, dp_primaryTitleColor = None, dp_secondaryTitleColor = None,
      dp_backgroundHighlightColor = None, dp_marginTop = None, dp_marginBottom = None, dp_marginInside = None,
      dp_marginOutside = None, dp_isBookMode = None, dp_fontFamily = None, dp_borderRadius = None, dp_contentFontSize = None,
      dp_contentTextColor = None, dp_blocksConfig = None, dp_headerConfig = None, dp_footerConfig = None, dp_isDefault = None\<rparr>"

definition sample_designs :: design_db where
  "sample_designs =
     \<lparr>db_designs = [new_design ''d1'' 1 ''t'' (plain_dto ''Uno'') True, new_design ''d2'' 2 ''t'' (plain_dto ''Dos'') False],
      db_requests = []\<rparr>"

lemmas sample_design_simps =
  sample_designs_def plain_dto_def empty_patch_def new_design_def designs_ok_def idx_tenant_default_def default_tenants_def
  List.map_filter_def has_default_def is_default_of_def

text \<open>What the unvalidated body of a PATCH can do: naming another design's id overwrites that design; naming the
  tenant moves the default design away and leaves the tenant without one.\<close>

lemma patch_overwrites_other:
  "map de_name (db_designs (snd (patch_design ''d1'' ''t'' (empty_patch\<lparr>dp_id := Some ''d2'', dp_isDefault := None\<rparr>)
     (sample_designs\<lparr>db_designs := map (\<lambda>d. d\<lparr>de_isDefault := False\<rparr>) (db_designs sample_designs)\<rparr>)))) = [''Uno'', ''Uno'']"
  by (simp add: sample_design_simps patch_design_def run_tx_def update_design_def find_design_def find_one_def assign_patch_def
      json_column_def save_design_def columns_fit_def put_design_def update_where_def)

lemma patch_moves_default:
  "\<not> has_default ''t'' (snd (patch_design ''d1'' ''t'' (empty_patch\<lparr>dp_tenantId := Some None\<rparr>) sample_designs))"
  by (simp add: sample_design_simps patch_design_def run_tx_def update_design_def find_design_def find_one_def assign_patch_def
      json_column_def save_design_def columns_fit_def put_design_def update_where_def)

end
