(* ===== verification/PdfDocument.thy ===== *)
theory PdfDocument
  imports PdfDesigns QuestionBank Downloads
begin

text \<open>
  The document of a course's PDF (\<open>materials/services/pdf-generator.service.ts\<close>) and the design the worker
  gives it (\<open>loadDesignTemplate\<close> of \<open>materials/processors/pdf-generation.processor.ts\<close>).

  The HTML string is modelled by its structure: the body is the list of its blocks, a question is a record of what
  its block prints, a zone of the header and footer grid is a text or an image. The fixed style sheet and the
  markup around these values carry no information of a question. Chromium and the image fetches are parameters; a
  PDF is the list of its pages.
\<close>

subsection \<open>The answer key\<close>

definition resolve_answer_key_letter :: "flat_alternative list \<Rightarrow> string" where
  "resolve_answer_key_letter options =
     (case filter fa_isCorrect options of
        [opt] \<Rightarrow> fa_label opt
      | _ \<Rightarrow> ''-'')"

subsection \<open>The design\<close>

record design_config =
  dc_bannerImageUrl :: "string option"
  dc_watermarkImageUrl :: "string option"
  dc_coverImageUrl :: "string option"
  dc_showCover :: bool
  dc_primaryTitleColor :: "string option"
  dc_secondaryTitleColor :: "string option"
  dc_backgroundHighlightColor :: "string option"
  dc_marginTop :: "string option"
  dc_marginBottom :: "string option"
  dc_marginInside :: "string option"
  dc_marginOutside :: "string option"
  dc_isBookMode :: bool
  dc_fontFamily :: "string option"
  dc_contentFontSize :: "string option"
  dc_contentTextColor :: "string option"
  dc_borderRadius :: "string option"
  dc_blocksConfig :: "json option"
  dc_headerConfig :: "json option"
  dc_footerConfig :: "json option"

definition no_design :: design_config where
  "no_design =
     \<lparr>dc_bannerImageUrl = None, dc_watermarkImageUrl = None, dc_coverImageUrl = None, dc_showCover = False,
      dc_primaryTitleColor = None, dc_secondaryTitleColor = None, dc_backgroundHighlightColor = None,
      dc_marginTop = None, dc_marginBottom = None, dc_marginInside = None, dc_marginOutside = None,
      dc_isBookMode = False, dc_fontFamily = None, dc_contentFontSize = None, dc_contentTextColor = None,
      dc_borderRadius = None, dc_blocksConfig = None, dc_headerConfig = None, dc_footerConfig = None\<rparr>"

text \<open>The fields \<open>loadDesignTemplate\<close> copies.\<close>

definition design_config_of :: "design_template \<Rightarrow> design_config" where
  "design_config_of d =
     \<lparr>dc_bannerImageUrl = de_bannerImageUrl d, dc_watermarkImageUrl = de_watermarkImageUrl d,
      dc_coverImageUrl = de_coverImageUrl d, dc_showCover = de_showCover d,
      dc_primaryTitleColor = Some (de_primaryTitleColor d), dc_secondaryTitleColor = Some (de_secondaryTitleColor d),
      dc_backgroundHighlightColor = Some (de_backgroundHighlightColor d),
      dc_marginTop = Some (de_marginTop d), dc_marginBottom = Some (de_marginBottom d),
      dc_marginInside = Some (de_marginInside d), dc_marginOutside = Some (de_marginOutside d),
      dc_isBookMode = de_isBookMode d, dc_fontFamily = Some (de_fontFamily d),
      dc_contentFontSize = None, dc_contentTextColor = None,
      dc_borderRadius = Some (de_borderRadius d),
      dc_blocksConfig = de_blocksConfig d, dc_headerConfig = de_headerConfig d, dc_footerConfig = de_footerConfig d\<rparr>"

text \<open>
  \<open>loadDesignTemplate\<close> reads through the default entity manager, on a connection whose search path is \<open>public\<close>: the
  schema in the continuation-local storage only matters to \<open>TenantService\<close>. \<open>public_designs\<close> is the table
  \<open>public.pdf_design_templates\<close>, \<open>None\<close> when it does not exist; the error is caught and answered with no design.
\<close>

definition load_design_template :: "design_template list option \<Rightarrow> uuid option \<Rightarrow> design_config option" where
  "load_design_template public_designs designTemplateId =
     (if \<not> truthy_str designTemplateId then None
      else case public_designs of
             None \<Rightarrow> None
           | Some ds \<Rightarrow> map_option design_config_of (find_one (\<lambda>d. de_id d = the designTemplateId) ds))"

subsection \<open>Placeholders\<close>

text \<open>The replacement patterns of \<open>String.prototype.replace\<close>: \<open>before\<close>, the match and what follows it.\<close>

fun expand_replacement :: "string \<Rightarrow> string \<Rightarrow> string \<Rightarrow> string \<Rightarrow> string" where
  "expand_replacement before m after (c # d # r) =
     (if c \<noteq> CHR ''$'' then c # expand_replacement before m after (d # r)
      else if d = CHR ''$'' then CHR ''$'' # expand_replacement before m after r
      else if d = CHR ''&'' then m @ expand_replacement before m after r
      else if d = CHR 0x60 then before @ expand_replacement before m after r
      else if d = CHR 0x27 then after @ expand_replacement before m after r
      else c # expand_replacement before m after (d # r))"
| "expand_replacement before m after r = r"

text \<open>\<open>text.replace(/pat/g, rep)\<close> for a literal pattern; the counter skips the rest of a match.\<close>

fun replace_scan :: "string \<Rightarrow> string \<Rightarrow> string \<Rightarrow> nat \<Rightarrow> string \<Rightarrow> string" where
  "replace_scan pat rep before skip [] = []"
| "replace_scan pat rep before (Suc n) (c # s) = replace_scan pat rep (before @ [c]) n s"
| "replace_scan pat rep before 0 (c # s) =
     (if starts_with (c # s) pat
      then expand_replacement before pat (drop (length pat) (c # s)) rep @ replace_scan pat rep (before @ [c]) (length pat - 1) s
      else c # replace_scan pat rep (before @ [c]) 0 s)"

definition replace_all :: "string \<Rightarrow> string \<Rightarrow> string \<Rightarrow> string" where
  "replace_all pat rep s = replace_scan pat rep [] 0 s"

fun replace_each :: "(string \<times> string) list \<Rightarrow> string \<Rightarrow> string" where
  "replace_each [] s = s"
| "replace_each ((pat, rep) # ps) s = replace_each ps (replace_all pat rep s)"

text \<open>What a document is made for: the tenant's branding, the course and the job.\<close>

record pdf_request =
  pq_commercial_name :: "string option"
  pq_cycle_name :: "string option"
  pq_tenant_name :: "string option"
  pq_courseId :: string
  pq_weekNumber :: "int option"
  pq_templateName :: "string option"
  pq_today :: string

definition or_text :: "string option \<Rightarrow> string \<Rightarrow> string" where
  "or_text v d = (if truthy_str v then the v else d)"

definition w_num :: "pdf_request \<Rightarrow> int" where
  "w_num r = (case pq_weekNumber r of None \<Rightarrow> 1 | Some w \<Rightarrow> if w = 0 then 1 else w)"

definition course_name :: "pdf_request \<Rightarrow> string" where
  "course_name r = or_text (pq_commercial_name r) (pq_courseId r)"

definition grid_variables :: "pdf_request \<Rightarrow> (string \<times> string) list" where
  "grid_variables r =
     (let page = ''<span class=\"pageNumber\"></span>''; total = ''<span class=\"totalPages\"></span>'';
          tplName = or_text (pq_templateName r) ''Material'';
          cycleName = or_text (pq_cycle_name r) '''';
          instName = or_text (pq_tenant_name r) cycleName
      in [(''{page}'', page), (''{pagina}'', page), (''{total_pages}'', total), (''{total_paginas}'', total), (''{total}'', total),
          (''{curso}'', course_name r), (''{course_name}'', course_name r), (''{temas}'', ''Temas Consolidados''),
          (''{week_number}'', int_text (w_num r)), (''{semana_numero}'', int_text (w_num r)),
          (''{material_titulo}'', tplName), (''{template_name}'', tplName), (''{fecha_generacion}'', pq_today r),
          (''{institucion_nombre}'', instName), (''{cycle_name}'', cycleName), (''{ciclo_nombre}'', cycleName)])"

definition title_variables :: "pdf_request \<Rightarrow> (string \<times> string) list" where
  "title_variables r =
     (let page = ''<span class=\"pageNumber\"></span>''; total = ''<span class=\"totalPages\"></span>'';
          tplName = or_text (pq_templateName r) ''Material'';
          cycleName = or_text (pq_cycle_name r) ''''
      in [(''{page}'', page), (''{pagina}'', page), (''{total}'', total), (''{total_pages}'', total), (''{total_paginas}'', total),
          (''{curso}'', course_name r), (''{course_name}'', course_name r),
          (''{week_number}'', int_text (w_num r)), (''{semana_numero}'', int_text (w_num r)),
          (''{material_titulo}'', tplName), (''{template_name}'', tplName),
          (''{cycle_name}'', cycleName), (''{ciclo_nombre}'', cycleName)])"

subsection \<open>The header and footer grids\<close>

datatype zone = Html string | Image_Zone string

definition grid_zone :: "string \<Rightarrow> zone" where
  "grid_zone s =
     (if (mentions ''http'' s \<or> mentions ''data:image'' s) \<and> \<not> mentions ''<img'' s then Image_Zone s else Html s)"

text \<open>A value that is neither a string nor falsy has no \<open>replace\<close>: a TypeError.\<close>

definition json_falsy :: "json option \<Rightarrow> bool" where
  "json_falsy j = (j \<in> {None, Some J_Null, Some (J_Bool False), Some (J_Num 0), Some (J_Str '''')})"

definition grid_text :: "pdf_request \<Rightarrow> json option \<Rightarrow> string option" where
  "grid_text r j = (if json_falsy j then Some '''' else case j of Some (J_Str s) \<Rightarrow> Some (replace_each (grid_variables r) s) | _ \<Rightarrow> None)"

definition build_grid :: "pdf_request \<Rightarrow> json option \<Rightarrow> zone list option" where
  "build_grid r config =
     (if json_falsy config then Some []
      else let cell = (\<lambda>k. map_option grid_zone (grid_text r (field k (the config))))
           in case (cell ''left'', cell ''center'', cell ''right'') of
                (Some a, Some b, Some c) \<Rightarrow> Some [a, b, c]
              | _ \<Rightarrow> None)"

subsection \<open>The body\<close>

record pdf_question = extracted_question +
  xq_columns :: "int option"
  xq_steps :: "(string \<times> string) list option"

record alternative_item =
  ai_letter :: string
  ai_text :: string
  ai_class :: string

record question_item =
  qi_number :: nat
  qi_content :: string
  qi_origin :: "string option"
  qi_images :: "string list"
  qi_columns :: int
  qi_alternatives :: "alternative_item list"
  qi_solution :: "((string \<times> string) list \<times> string list) option"

definition columns_of :: "pdf_question \<Rightarrow> int" where
  "columns_of q = (case xq_columns q of None \<Rightarrow> 1 | Some n \<Rightarrow> if n = 0 then 1 else n)"

definition question_html :: "bool \<Rightarrow> nat \<Rightarrow> pdf_question \<Rightarrow> question_item" where
  "question_html withSolution index q =
     \<lparr>qi_number = index + 1, qi_content = eq_content q,
      qi_origin = (if eq_textOrigin q = '''' then None else Some (eq_textOrigin q)),
      qi_images = map snd (eq_images q),
      qi_columns = columns_of q,
      qi_alternatives =
        map (\<lambda>opt. \<lparr>ai_letter = fa_label opt @ '')'', ai_text = fa_text opt,
               ai_class = (if withSolution \<and> fa_isCorrect opt then ''alternative__bg--correct'' else '''')\<rparr>) (eq_options q),
      qi_solution =
        (if withSolution then map_option (\<lambda>steps. (steps, map snd (eq_solution_images q))) (xq_steps q) else None)\<rparr>"

definition keys_table :: "pdf_question list \<Rightarrow> (nat \<times> string) list" where
  "keys_table qs = map (\<lambda>(idx, q). (idx + 1, resolve_answer_key_letter (eq_options q))) (enumerate 0 qs)"

datatype page_block =
    Banner_Block "string option" string string string
  | Content_Block "string option" "question_item list" "(nat \<times> string) list option"

record style_values =
  sv_titleColors :: "string list"
  sv_margins :: "string list"
  sv_isBookMode :: bool
  sv_fontFamily :: string
  sv_contentStyle :: "string list"
  sv_borderRadius :: string

record document =
  do_style :: style_values
  do_blocks :: "page_block list"

definition default_blocks :: "json list" where
  "default_blocks = [J_Str ''cover'', J_Str ''banner'', J_Str ''topics'', J_Str ''content'']"

text \<open>\<open>design.blocksConfig || [...]\<close>; \<open>map\<close> exists on arrays only.\<close>

definition blocks_of :: "design_config \<Rightarrow> json list option" where
  "blocks_of d = (if json_falsy (dc_blocksConfig d) then Some default_blocks
     else case dc_blocksConfig d of Some (J_Arr bs) \<Rightarrow> Some bs | _ \<Rightarrow> None)"

definition style_of :: "design_config \<Rightarrow> style_values" where
  "style_of d =
     \<lparr>sv_titleColors = [or_text (dc_primaryTitleColor d) ''2, 113, 184'', or_text (dc_secondaryTitleColor d) ''2, 113, 184'',
        or_text (dc_backgroundHighlightColor d) ''214, 238, 253''],
      sv_margins = [or_text (dc_marginTop d) ''3cm'', or_text (dc_marginBottom d) ''1.5cm'', or_text (dc_marginInside d) ''1cm'',
        or_text (dc_marginOutside d) ''1cm''],
      sv_isBookMode = dc_isBookMode d, sv_fontFamily = or_text (dc_fontFamily d) ''Arial'',
      sv_contentStyle = [or_text (dc_contentTextColor d) ''#000000'', or_text (dc_contentFontSize d) ''11pt''],
      sv_borderRadius = or_text (dc_borderRadius d) ''4px''\<rparr>"

definition block_html ::
  "pdf_request \<Rightarrow> design_config \<Rightarrow> pdf_question list \<Rightarrow> bool \<Rightarrow> bool \<Rightarrow> json \<Rightarrow> page_block option" where
  "block_html r d qs withSolution withKeysTable block =
     (if block = J_Str ''banner''
      then Some (Banner_Block (if truthy_str (dc_bannerImageUrl d) then dc_bannerImageUrl d else None)
             (replace_each (title_variables r) ''{template_name}'') (or_text (pq_cycle_name r) '''') (course_name r))
      else if block = J_Str ''content''
      then Some (Content_Block (if truthy_str (dc_watermarkImageUrl d) then dc_watermarkImageUrl d else None)
             (map (\<lambda>(index, q). question_html withSolution index q) (enumerate 0 qs))
             (if withKeysTable then Some (keys_table qs) else None))
      else None)"

definition build_html ::
  "pdf_request \<Rightarrow> pdf_question list \<Rightarrow> design_config \<Rightarrow> bool \<Rightarrow> bool \<Rightarrow> document option" where
  "build_html r qs d withSolution withKeysTable =
     map_option (\<lambda>bs. \<lparr>do_style = style_of d, do_blocks = List.map_filter (block_html r d qs withSolution withKeysTable) bs\<rparr>)
       (blocks_of d)"

subsection \<open>Images and printing\<close>

datatype print_job = Print_Content document "zone list" "zone list" "string list" | Print_Cover string

record pdf_engine =
  en_fetch :: "string \<Rightarrow> (string option \<times> string) option"
  en_print :: "print_job \<Rightarrow> string list option"

definition convert_url_to_base64 :: "pdf_engine \<Rightarrow> string option \<Rightarrow> string" where
  "convert_url_to_base64 en url =
     (if \<not> truthy_str url then ''''
      else case en_fetch en (the url) of
             None \<Rightarrow> the url
           | Some (ctype, body) \<Rightarrow> ''data:'' @ or_text ctype ''image/png'' @ '';base64,'' @ body)"

definition resolve_images :: "pdf_engine \<Rightarrow> design_config \<Rightarrow> design_config" where
  "resolve_images en d =
     d\<lparr>dc_bannerImageUrl := (if truthy_str (dc_bannerImageUrl d) then Some (convert_url_to_base64 en (dc_bannerImageUrl d)) else None),
       dc_watermarkImageUrl := (if truthy_str (dc_watermarkImageUrl d) then Some (convert_url_to_base64 en (dc_watermarkImageUrl d)) else None)\<rparr>"

definition wants_cover :: "design_config \<Rightarrow> bool" where
  "wants_cover d = ((case blocks_of d of None \<Rightarrow> False | Some bs \<Rightarrow> J_Str ''cover'' \<in> set bs) \<and> dc_showCover d \<and> truthy_str (dc_coverImageUrl d))"

text \<open>\<open>generatePdf\<close>: the pages, or \<open>None\<close> when it throws.\<close>

definition generate_pdf ::
  "pdf_engine \<Rightarrow> pdf_request \<Rightarrow> pdf_question list \<Rightarrow> design_config option \<Rightarrow> bool \<Rightarrow> bool \<Rightarrow> string list option" where
  "generate_pdf en r qs design withSolution withKeysTable =
     (let d = resolve_images en (case design of None \<Rightarrow> no_design | Some x \<Rightarrow> x)
      in case (build_html r qs d withSolution withKeysTable, build_grid r (dc_footerConfig d), build_grid r (dc_headerConfig d)) of
           (Some html, Some footer, Some header) \<Rightarrow>
             (case en_print en (Print_Content html header footer
                     [or_text (dc_marginTop d) ''3cm'', or_text (dc_marginOutside d) ''1cm'',
                      or_text (dc_marginBottom d) ''1.5cm'', or_text (dc_marginInside d) ''1cm'']) of
                None \<Rightarrow> None
              | Some content \<Rightarrow>
                  (if wants_cover d
                   then map_option (\<lambda>cover. cover @ content) (en_print en (Print_Cover (the (dc_coverImageUrl d))))
                   else Some content))
         | _ \<Rightarrow> None)"

text \<open>The flags of the three variants of a course.\<close>

fun variant_flags :: "variant \<Rightarrow> bool \<times> bool" where
  "variant_flags Student = (False, False)"
| "variant_flags Keys = (False, True)"
| "variant_flags Solutions = (True, False)"

definition variant_pdf ::
  "pdf_engine \<Rightarrow> pdf_request \<Rightarrow> design_config option \<Rightarrow> variant \<Rightarrow> pdf_question list \<Rightarrow> string list option" where
  "variant_pdf en r design v qs = generate_pdf en r qs design (fst (variant_flags v)) (snd (variant_flags v))"

subsection \<open>The preview\<close>

text \<open>\<open>generatePreview\<close> of the design service. The body of the request is spread over the design and also carries
  the sample names; the example questions of the page are fixed.\<close>

record preview_body =
  pv_design :: design_patch
  pv_weekNumber :: "int option"
  pv_templateName :: "string option"
  pv_courseName :: "string option"
  pv_cycleName :: "string option"

definition preview_config :: "design_patch \<Rightarrow> design_config \<Rightarrow> design_config" where
  "preview_config p d =
     \<lparr>dc_bannerImageUrl = nullish (dp_bannerImageUrl p) (dc_bannerImageUrl d),
      dc_watermarkImageUrl = nullish (dp_watermarkImageUrl p) (dc_watermarkImageUrl d),
      dc_coverImageUrl = nullish (dp_coverImageUrl p) (dc_coverImageUrl d),
      dc_showCover = nullish (dp_showCover p) (dc_showCover d),
      dc_primaryTitleColor = (if dp_primaryTitleColor p = None then dc_primaryTitleColor d else dp_primaryTitleColor p),
      dc_secondaryTitleColor = (if dp_secondaryTitleColor p = None then dc_secondaryTitleColor d else dp_secondaryTitleColor p),
      dc_backgroundHighlightColor =
        (if dp_backgroundHighlightColor p = None then dc_backgroundHighlightColor d else dp_backgroundHighlightColor p),
      dc_marginTop = (if dp_marginTop p = None then dc_marginTop d else dp_marginTop p),
      dc_marginBottom = (if dp_marginBottom p = None then dc_marginBottom d else dp_marginBottom p),
      dc_marginInside = (if dp_marginInside p = None then dc_marginInside d else dp_marginInside p),
      dc_marginOutside = (if dp_marginOutside p = None then dc_marginOutside d else dp_marginOutside p),
      dc_isBookMode = nullish (dp_isBookMode p) (dc_isBookMode d),
      dc_fontFamily = (if dp_fontFamily p = None then dc_fontFamily d else dp_fontFamily p),
      dc_contentFontSize = (if dp_contentFontSize p = None then dc_contentFontSize d else dp_contentFontSize p),
      dc_contentTextColor = (if dp_contentTextColor p = None then dc_contentTextColor d else dp_contentTextColor p),
      dc_borderRadius = (if dp_borderRadius p = None then dc_borderRadius d else dp_borderRadius p),
      dc_blocksConfig = json_column (dp_blocksConfig p) (dc_blocksConfig d),
      dc_headerConfig = json_column (dp_headerConfig p) (dc_headerConfig d),
      dc_footerConfig = json_column (dp_footerConfig p) (dc_footerConfig d)\<rparr>"

definition whole_config :: "design_template \<Rightarrow> design_config" where
  "whole_config d =
     (design_config_of d)\<lparr>dc_contentFontSize := Some (de_contentFontSize d), dc_contentTextColor := Some (de_contentTextColor d)\<rparr>"

definition preview_variables :: "string \<Rightarrow> preview_body \<Rightarrow> nat \<Rightarrow> (string \<times> string) list" where
  "preview_variables today b page =
     (let w = int_text (case pv_weekNumber b of None \<Rightarrow> 1 | Some n \<Rightarrow> if n = 0 then 1 else n);
          tpl = or_text (pv_templateName b) ''Material de Estudio'';
          course = or_text (pv_courseName b) ''Aritmetica'';
          cycle = or_text (pv_cycleName b) ''Ciclo Especial 2026''
      in [(''{page}'', nat_text page), (''{pagina}'', nat_text page), (''{total_pages}'', ''2''), (''{total_paginas}'', ''2''),
          (''{total}'', ''2''), (''{curso}'', course), (''{course_name}'', course), (''{temas}'', ''Temas Consolidados''),
          (''{week_number}'', w), (''{semana_numero}'', w), (''{material_titulo}'', tpl), (''{template_name}'', tpl),
          (''{fecha_generacion}'', today), (''{institucion_nombre}'', cycle), (''{cycle_name}'', cycle), (''{ciclo_nombre}'', cycle)])"

definition preview_grid :: "(string \<times> string) list \<Rightarrow> json option \<Rightarrow> zone list option" where
  "preview_grid vars config =
     (let part = (\<lambda>k. if json_falsy config then None else field k (the config));
          cell = (\<lambda>k. if json_falsy (part k) then Some (grid_zone '''')
                      else case part k of Some (J_Str s) \<Rightarrow> Some (grid_zone (replace_each vars s)) | _ \<Rightarrow> None)
      in case (cell ''left'', cell ''center'', cell ''right'') of
           (Some a, Some b, Some c) \<Rightarrow> Some [a, b, c]
         | _ \<Rightarrow> None)"

definition preview_padding :: "design_config \<Rightarrow> bool \<Rightarrow> string list" where
  "preview_padding d isEven =
     (let t = or_text (dc_marginTop d) ''3cm''; b = or_text (dc_marginBottom d) ''1.5cm'';
          i = or_text (dc_marginInside d) ''1cm''; outside = or_text (dc_marginOutside d) ''1cm''
      in if dc_isBookMode d \<and> isEven then [t, i, b, outside] else [t, outside, b, i])"

record preview_page =
  pg_padding :: "string list"
  pg_header :: "zone list"
  pg_footer :: "zone list"
  pg_banner :: "string option"
  pg_watermark :: "string option"

definition preview_page_html :: "string \<Rightarrow> preview_body \<Rightarrow> design_config \<Rightarrow> bool \<Rightarrow> nat \<Rightarrow> preview_page option" where
  "preview_page_html today b d isEven page =
     (case (preview_grid (preview_variables today b page) (dc_headerConfig d), preview_grid (preview_variables today b page) (dc_footerConfig d)) of
        (Some h, Some f) \<Rightarrow> Some \<lparr>pg_padding = preview_padding d isEven, pg_header = h, pg_footer = f,
           pg_banner = (if truthy_str (dc_bannerImageUrl d) then dc_bannerImageUrl d else None),
           pg_watermark = (if truthy_str (dc_watermarkImageUrl d) then dc_watermarkImageUrl d else None)\<rparr>
      | _ \<Rightarrow> None)"

record preview =
  pw_style :: style_values
  pw_cover :: "string option"
  pw_pages :: "preview_page list"

definition generate_preview :: "string \<Rightarrow> string \<Rightarrow> uuid \<Rightarrow> preview_body option \<Rightarrow> design_db \<Rightarrow> preview option" where
  "generate_preview today t designId body db =
     (let base = (if designId = '''' \<or> designId = ''new'' then no_design
                  else case find_design designId t db of Inl e \<Rightarrow> no_design | Inr d \<Rightarrow> whole_config d);
          b = nullish body \<lparr>pv_design = \<lparr>dp_id = None, dp_tenantId = None, dp_name = None, dp_bannerImageUrl = None,
                 dp_watermarkImageUrl = None, dp_coverImageUrl = None, dp_showCover = None, dp_primaryTitleColor = None,
                 dp_secondaryTitleColor = None, dp_backgroundHighlightColor = None, dp_marginTop = None, dp_marginBottom = None,
                 dp_marginInside = None, dp_marginOutside = None, dp_isBookMode = None, dp_fontFamily = None,
                 dp_borderRadius = None, dp_contentFontSize = None, dp_contentTextColor = None, dp_blocksConfig = None,
                 dp_headerConfig = None, dp_footerConfig = None, dp_isDefault = None\<rparr>,
               pv_weekNumber = None, pv_templateName = None, pv_courseName = None, pv_cycleName = None\<rparr>;
          d = preview_config (pv_design b) base
      in case (preview_page_html today b d False 1, preview_page_html today b d True 2) of
           (Some p1, Some p2) \<Rightarrow> Some \<lparr>pw_style = style_of d,
              pw_cover = (if dc_showCover d \<and> truthy_str (dc_coverImageUrl d) then dc_coverImageUrl d else None),
              pw_pages = [p1, p2]\<rparr>
         | _ \<Rightarrow> None)"

subsection \<open>The shared browser\<close>

text \<open>
  \<open>getBrowser\<close>: the pool of one. Browsers are numbered; \<open>Acquire\<close> is a call, \<open>Launched\<close> and \<open>Launch_Failed\<close> settle
  the launch in flight, \<open>Disconnected\<close> is the event of a browser that died or was closed (Playwright clears its
  \<open>isConnected\<close> and emits the event together), \<open>Destroy\<close> the module's end.
\<close>

record browser_pool =
  bp_browser :: "nat option"
  bp_connected :: "nat list"
  bp_launching :: bool

datatype browser_event = Acquire | Launched nat | Launch_Failed | Disconnected nat | Destroy

definition browser_step :: "browser_pool \<Rightarrow> browser_event \<Rightarrow> browser_pool" where
  "browser_step p e =
     (case e of
        Acquire \<Rightarrow>
          (if (case bp_browser p of None \<Rightarrow> False | Some b \<Rightarrow> b \<in> set (bp_connected p)) \<or> bp_launching p then p
           else p\<lparr>bp_launching := True\<rparr>)
      | Launched b \<Rightarrow>
          (if bp_launching p then p\<lparr>bp_browser := Some b, bp_connected := b # bp_connected p, bp_launching := False\<rparr> else p)
      | Launch_Failed \<Rightarrow> p\<lparr>bp_launching := False\<rparr>
      | Disconnected b \<Rightarrow>
          (if b \<in> set (bp_connected p) then p\<lparr>bp_browser := None, bp_connected := remove1 b (bp_connected p)\<rparr> else p)
      | Destroy \<Rightarrow>
          (case bp_browser p of None \<Rightarrow> p | Some b \<Rightarrow> p\<lparr>bp_browser := None, bp_connected := remove1 b (bp_connected p)\<rparr>))"

end
