(* ===== verification/PdfDocumentLaws.thy ===== *)
theory PdfDocumentLaws
  imports PdfDocument
begin

text \<open>
  What the PDFs of a course print: the answer key is the marked alternative and agrees with the solutions, the
  student's PDF does not depend on the answers, and what becomes of a tenant's design on its way to the worker.
\<close>

subsection \<open>Shapes\<close>

lemma build_html_Content:
  assumes "build_html r qs d withSolution withKeysTable = Some doc" and "Content_Block w items keys \<in> set (do_blocks doc)"
  shows "items = map (\<lambda>(index, q). question_html withSolution index q) (enumerate 0 qs)"
    and "keys = (if withKeysTable then Some (keys_table qs) else None)"
  using assms by (auto simp: build_html_def in_map_filter block_html_def split: if_splits)

lemma length_keys_table [simp]: "length (keys_table qs) = length qs"
  by (simp add: keys_table_def)

lemma nth_keys_table: "i < length qs \<Longrightarrow> keys_table qs ! i = (i + 1, resolve_answer_key_letter (eq_options (qs ! i)))"
  by (simp add: keys_table_def nth_enumerate_eq)

lemma answer_key_cases:
  obtains (unique) opt where "filter fa_isCorrect options = [opt]" "resolve_answer_key_letter options = fa_label opt"
    | (other) "length (filter fa_isCorrect options) \<noteq> 1" "resolve_answer_key_letter options = ''-''"
  by (cases "filter fa_isCorrect options" rule: remdups_adj.cases) (auto simp: resolve_answer_key_letter_def)

definition highlighted :: "question_item \<Rightarrow> string list" where
  "highlighted qi = map ai_letter (filter (\<lambda>a. ai_class a \<noteq> '''') (qi_alternatives qi))"

lemma highlighted_question: "highlighted (question_html True i q) = map (\<lambda>opt. fa_label opt @ '')'') (filter fa_isCorrect (eq_options q))"
  by (simp add: highlighted_def question_html_def filter_map o_def)

lemma not_highlighted: "highlighted (question_html False i q) = []"
  by (simp add: highlighted_def question_html_def filter_map o_def)

text \<open>
  C32. The key of a course, printed after its questions, has one cell per question in the questions' order. The
  cell of a question is the label of its only alternative marked correct, or a dash when none or several are; the
  solutions PDF of the same questions highlights exactly the alternative the key names, so the two agree, and a dash
  stands exactly where the solutions PDF highlights no alternative or several.\<close>

theorem answer_key_correct:
  assumes "build_html r qs d False True = Some key_doc" and "Content_Block w items keys \<in> set (do_blocks key_doc)"
    and "build_html r qs d True False = Some sol_doc" and "Content_Block w' sol_items no_keys \<in> set (do_blocks sol_doc)"
    and "i < length qs"
  shows "\<exists>cells letter. keys = Some cells \<and> length cells = length qs \<and> cells ! i = (qi_number (items ! i), letter) \<and>
      ((\<exists>opt\<in>set (eq_options (qs ! i)). fa_isCorrect opt \<and> letter = fa_label opt \<and> highlighted (sol_items ! i) = [letter @ '')'']) \<or>
       (letter = ''-'' \<and> length (highlighted (sol_items ! i)) \<noteq> 1))"
proof -
  have items: "items ! i = question_html False i (qs ! i)" and sol: "sol_items ! i = question_html True i (qs ! i)"
    using build_html_Content(1) [OF assms(1,2)] build_html_Content(1) [OF assms(3,4)] assms(5)
    by (simp_all add: nth_enumerate_eq)
  have keys: "keys = Some (keys_table qs)" using build_html_Content(2) [OF assms(1,2)] by simp
  show ?thesis
  proof (cases "eq_options (qs ! i)" rule: answer_key_cases)
    case (unique opt)
    then have "opt \<in> set (filter fa_isCorrect (eq_options (qs ! i)))" by simp
    then have "opt \<in> set (eq_options (qs ! i)) \<and> fa_isCorrect opt" by simp
    with unique show ?thesis
      by (auto simp: keys items sol nth_keys_table assms(5) highlighted_question question_html_def [of False] intro!: bexI [of _ opt])
  next
    case other
    then show ?thesis
      by (auto simp: keys items sol nth_keys_table assms(5) highlighted_question question_html_def [of False])
  qed
qed

subsection \<open>Noninterference\<close>

text \<open>What a student may see of a question.\<close>

definition public_part :: "pdf_question \<Rightarrow> pdf_question" where
  "public_part q = q\<lparr>eq_options := map (\<lambda>opt. opt\<lparr>fa_isCorrect := False\<rparr>) (eq_options q), eq_solution_images := [], xq_steps := None\<rparr>"

lemma map_erased: "map (\<lambda>opt. opt\<lparr>fa_isCorrect := False\<rparr>) xs = map (\<lambda>opt. opt\<lparr>fa_isCorrect := False\<rparr>) ys \<Longrightarrow>
    map (\<lambda>opt. (fa_label opt, fa_text opt)) xs = map (\<lambda>opt. (fa_label opt, fa_text opt)) ys"
proof -
  assume "map (\<lambda>opt. opt\<lparr>fa_isCorrect := False\<rparr>) xs = map (\<lambda>opt. opt\<lparr>fa_isCorrect := False\<rparr>) ys"
  then have "map (\<lambda>opt. (fa_label opt, fa_text opt)) (map (\<lambda>opt. opt\<lparr>fa_isCorrect := False\<rparr>) xs) =
    map (\<lambda>opt. (fa_label opt, fa_text opt)) (map (\<lambda>opt. opt\<lparr>fa_isCorrect := False\<rparr>) ys)" by (rule arg_cong)
  then show ?thesis by (simp add: o_def)
qed

lemma question_html_public: "question_html False i (public_part q) = question_html False i q"
  by (simp add: question_html_def public_part_def columns_of_def)

lemma questions_html_public:
  assumes "map public_part qs = map public_part qs'"
  shows "map (\<lambda>(i, q). question_html False i q) (enumerate n qs) = map (\<lambda>(i, q). question_html False i q) (enumerate n qs')"
proof -
  have "map (\<lambda>(i, q). question_html False i q) (enumerate n xs) =
      map (\<lambda>(i, q). question_html False i q) (enumerate n (map public_part xs))" for xs
    by (induction xs arbitrary: n) (simp_all add: question_html_public)
  then show ?thesis using assms by metis
qed

lemma keys_table_letters:
  "map (\<lambda>q. resolve_answer_key_letter (eq_options q)) qs = map (\<lambda>q. resolve_answer_key_letter (eq_options q)) qs' \<Longrightarrow>
   keys_table qs = keys_table qs'"
proof -
  have *: "map (\<lambda>(idx, q). (idx + 1, resolve_answer_key_letter (eq_options q))) (enumerate n xs) =
      map (\<lambda>(idx, l). (idx + 1, l)) (enumerate n (map (\<lambda>q. resolve_answer_key_letter (eq_options q)) xs))"
    for n and xs :: "pdf_question list"
    by (induction xs arbitrary: n) simp_all
  show "map (\<lambda>q. resolve_answer_key_letter (eq_options q)) qs = map (\<lambda>q. resolve_answer_key_letter (eq_options q)) qs' \<Longrightarrow> ?thesis"
    unfolding keys_table_def * by simp
qed

lemma build_html_public:
  assumes "map public_part qs = map public_part qs'" and "withKeysTable \<Longrightarrow> keys_table qs = keys_table qs'"
  shows "build_html r qs d False withKeysTable = build_html r qs' d False withKeysTable"
proof -
  have "block_html r d qs False withKeysTable = block_html r d qs' False withKeysTable"
    by (rule ext) (use assms in \<open>simp add: block_html_def questions_html_public [OF assms(1)]\<close>)
  then show ?thesis by (simp add: build_html_def)
qed

text \<open>
  C31. The student PDF of a course depends on its questions only through what a student may see: two lists of
  questions that differ in which alternatives are correct and in their solutions give the same pages, whatever the
  design, the branding, the images and the printing engine. The answer-key PDF depends on the answers through the
  printed letters only.\<close>

theorem student_pdf_hides_answers:
  assumes "map public_part qs = map public_part qs'"
  shows "variant_pdf en r design Student qs = variant_pdf en r design Student qs' \<and>
    (map (\<lambda>q. resolve_answer_key_letter (eq_options q)) qs = map (\<lambda>q. resolve_answer_key_letter (eq_options q)) qs' \<longrightarrow>
      variant_pdf en r design Keys qs = variant_pdf en r design Keys qs')"
proof (intro conjI impI)
  have "build_html r qs d False False = build_html r qs' d False False" for d
    by (rule build_html_public [OF assms]) simp
  then show "variant_pdf en r design Student qs = variant_pdf en r design Student qs'"
    by (simp add: variant_pdf_def generate_pdf_def)
next
  assume "map (\<lambda>q. resolve_answer_key_letter (eq_options q)) qs = map (\<lambda>q. resolve_answer_key_letter (eq_options q)) qs'"
  then have "build_html r qs d False True = build_html r qs' d False True" for d
    by (intro build_html_public [OF assms] keys_table_letters)
  then show "variant_pdf en r design Keys qs = variant_pdf en r design Keys qs'"
    by (simp add: variant_pdf_def generate_pdf_def)
qed

subsection \<open>A course\<close>

definition sample_question :: "string \<Rightarrow> pdf_question" where
  "sample_question answer =
     \<lparr>eq_id = ''q'', eq_topicId = ''t'', eq_subtopicId = ''s'', eq_code = ''c'', eq_content = ''2 + 2'',
      eq_options = map (\<lambda>l. \<lparr>fa_label = l, fa_text = l, fa_isCorrect = (l = answer)\<rparr>) [''A'', ''B''],
      eq_images = [], eq_solution_images = [], eq_textOrigin = ''UNI'', xq_columns = None, xq_steps = Some [(''paso'', answer)]\<rparr>"

definition sample_request :: pdf_request where
  "sample_request =
     \<lparr>pq_commercial_name = Some ''Odiseo'', pq_cycle_name = None, pq_tenant_name = None, pq_courseId = ''algebra'',
      pq_weekNumber = Some 3, pq_templateName = None, pq_today = ''1/2/2026''\<rparr>"

definition content_only :: design_config where
  "content_only = no_design\<lparr>dc_blocksConfig := Some (J_Arr [J_Str ''content''])\<rparr>"

lemmas sample_document_simps =
  build_html_def blocks_of_def json_falsy_def content_only_def no_design_def block_html_def List.map_filter_def

lemma sample_documents:
  "build_html sample_request [sample_question ''B''] content_only False True = Some
     \<lparr>do_style = style_of content_only, do_blocks =
        [Content_Block None [question_html False 0 (sample_question ''B'')] (Some (keys_table [sample_question ''B'']))]\<rparr>"
  "build_html sample_request [sample_question ''B''] content_only True False = Some
     \<lparr>do_style = style_of content_only, do_blocks = [Content_Block None [question_html True 0 (sample_question ''B'')] None]\<rparr>"
  by (simp_all add: sample_document_simps)

theorem answer_key_correct_witness:
  "\<exists>cells letter. Some (keys_table [sample_question ''B'']) = Some cells \<and> length cells = length [sample_question ''B''] \<and>
     cells ! 0 = (qi_number ([question_html False 0 (sample_question ''B'')] ! 0), letter) \<and>
      ((\<exists>opt\<in>set (eq_options ([sample_question ''B''] ! 0)). fa_isCorrect opt \<and> letter = fa_label opt \<and>
          highlighted ([question_html True 0 (sample_question ''B'')] ! 0) = [letter @ '')'']) \<or>
       (letter = ''-'' \<and> length (highlighted ([question_html True 0 (sample_question ''B'')] ! 0)) \<noteq> 1))"
  by (rule answer_key_correct [OF sample_documents(1) _ sample_documents(2)]) simp_all

theorem student_pdf_hides_answers_witness:
  "\<forall>en design. variant_pdf en sample_request design Student [sample_question ''A''] =
     variant_pdf en sample_request design Student [sample_question ''B'']"
  by (intro allI student_pdf_hides_answers [THEN conjunct1]) (simp add: public_part_def sample_question_def)

subsection \<open>The design on its way to the worker\<close>

text \<open>No table of designs exists in \<open>public\<close>: every PDF is printed without the design chosen for it.\<close>

lemma design_never_applied: "variant_pdf en r (load_design_template None i) v qs = variant_pdf en r None v qs"
  by (simp add: load_design_template_def)

text \<open>Even where the row is found, the colour and size of its text are not copied.\<close>

lemma content_style_lost:
  "sv_contentStyle (style_of (resolve_images en (design_config_of d))) = [''#000000'', ''11pt'']"
  by (simp add: style_of_def resolve_images_def design_config_of_def or_text_def)

text \<open>A banner whose link cannot be fetched any more is printed as the dead link.\<close>

lemma dead_banner:
  assumes "en_fetch en url = None" and "dc_bannerImageUrl d = Some url" and "url \<noteq> ''''"
  shows "dc_bannerImageUrl (resolve_images en d) = Some url"
  using assms by (simp add: resolve_images_def convert_url_to_base64_def)

text \<open>Text without a brace is printed as it is.\<close>

lemma replace_scan_plain: "CHR ''{'' \<notin> set s \<Longrightarrow> pat \<noteq> [] \<Longrightarrow> hd pat = CHR ''{'' \<Longrightarrow> replace_scan pat rep before 0 s = s"
  by (induction s arbitrary: before) (auto simp: starts_with_def neq_Nil_conv)

lemma replace_each_plain:
  "CHR ''{'' \<notin> set s \<Longrightarrow> list_all (\<lambda>(pat, rep). pat \<noteq> [] \<and> hd pat = CHR ''{'') ps \<Longrightarrow> replace_each ps s = s"
  by (induction ps arbitrary: s) (auto simp: replace_all_def replace_scan_plain)

lemma plain_text_printed: "CHR ''{'' \<notin> set s \<Longrightarrow> replace_each (grid_variables r) s = s"
  by (rule replace_each_plain) (simp_all add: grid_variables_def Let_def)

subsection \<open>The shared browser\<close>

definition pool_ok :: "browser_pool \<Rightarrow> bool" where
  "pool_ok p \<longleftrightarrow> (bp_connected p = [] \<and> bp_browser p = None) \<or> (\<exists>b. bp_connected p = [b] \<and> bp_browser p = Some b \<and> \<not> bp_launching p)"

lemma browser_step_ok: "pool_ok p \<Longrightarrow> pool_ok (browser_step p e)"
  by (cases e) (auto simp: pool_ok_def browser_step_def split: option.splits)

interpretation browsers: invariant_system browser_step pool_ok "\<lambda>e. True"
  by unfold_locales (rule browser_step_ok)

text \<open>Whatever the order of requests, launches, failures, crashes and shutdowns, at most one browser process of
  the pool is alive, it is the one the next request is given, and none is launched while one is alive.\<close>

lemma one_browser:
  fixes es :: "browser_event list"
  defines "p \<equiv> foldl browser_step \<lparr>bp_browser = None, bp_connected = [], bp_launching = False\<rparr> es"
  shows "length (bp_connected p) \<le> 1" and "bp_browser p = (case bp_connected p of [] \<Rightarrow> None | b # _ \<Rightarrow> Some b)"
    and "bp_connected p = [] \<or> \<not> bp_launching p"
proof -
  have "pool_ok p" unfolding p_def by (rule browsers.run_inv) (simp_all add: pool_ok_def)
  then show "length (bp_connected p) \<le> 1" "bp_browser p = (case bp_connected p of [] \<Rightarrow> None | b # _ \<Rightarrow> Some b)"
    "bp_connected p = [] \<or> \<not> bp_launching p" by (auto simp: pool_ok_def)
qed

end
