(* ===== verification/Consumption.thy ===== *)
theory Consumption
  imports Locking
begin

text \<open>
  The consumption figures of the operator's dashboard: the hourly collector
  (\<open>admin/dashboard/consumption-metrics.cron.ts\<close>) that fills \<open>public.consumption_metrics\<close>, and the service that
  reads it (\<open>admin/dashboard/dashboard.service.ts\<close>).

  Instants are milliseconds since 1970; the UTC calendar of \<open>Date\<close> is computed. What a tenant's schema holds is a
  record of the columns the collector aggregates; which reads and upserts fail is an argument. The parser of
  date strings, which the language leaves to the implementation, is a parameter.
\<close>

subsection \<open>The UTC calendar\<close>

definition ms_per_day :: int where
  "ms_per_day = 24 * 60 * 60 * 1000"

definition leap_year :: "int \<Rightarrow> bool" where
  "leap_year y = (4 dvd y \<and> (\<not> 100 dvd y \<or> 400 dvd y))"

definition leap_days_before :: "int \<Rightarrow> int" where
  "leap_days_before y = (y + 3) div 4 - (y + 99) div 100 + (y + 399) div 400"

definition days_before_month :: "int \<Rightarrow> int" where
  "days_before_month m = [0, 31, 59, 90, 120, 151, 181, 212, 243, 273, 304, 334] ! nat m"

text \<open>\<open>Date.UTC(k div 12, k mod 12, 1)\<close> in days, for the month number \<open>k = 12 * year + month\<close> (months from 0).\<close>

definition month_start_day :: "int \<Rightarrow> int" where
  "month_start_day k =
     (let y = k div 12; m = k mod 12
      in 365 * y + leap_days_before y + days_before_month m + (if leap_year y \<and> m \<ge> 2 then 1 else 0) - 719528)"

definition month_start :: "int \<Rightarrow> millis" where
  "month_start k = month_start_day k * ms_per_day"

text \<open>\<open>getUTCFullYear\<close> and \<open>getUTCMonth\<close> as one month number: the month whose days hold the instant.\<close>

definition first_guess :: "int \<Rightarrow> int" where
  "first_guess day = 23640 + (if day \<ge> 0 then day div 31 else - ((- day) div 28 + 1))"

lemma div_round_up:
  fixes y n :: int
  assumes "0 < n"
  shows "(y + (n - 1)) div n = y div n + (if n dvd y then 0 else 1)"
proof -
  define q r where "q = y div n" and "r = y mod n"
  have y: "y = n * q + r" and r: "0 \<le> r" "r < n" using assms by (simp_all add: q_def r_def)
  have "(y + (n - 1)) div n = q + (r + (n - 1)) div n"
    using assms by (simp add: y add.assoc)
  moreover have "(r + (n - 1)) div n = (if r = 0 then 0 else 1)"
    using r assms by (auto intro: div_pos_pos_trivial int_div_pos_eq [where r = "r - 1"])
  ultimately show ?thesis using r by (simp add: q_def r_def dvd_eq_mod_eq_0)
qed

lemma div_step:
  fixes y n :: int
  assumes "0 < n"
  shows "(y + 1 + (n - 1)) div n = (y + (n - 1)) div n + (if n dvd y then 1 else 0)"
  using assms div_round_up [OF assms, of y] by simp

lemma leap_days_step: "leap_days_before (y + 1) = leap_days_before y + (if leap_year y then 1 else 0)"
proof -
  have a: "(y + 1 + 3) div 4 = (y + 3) div 4 + (if 4 dvd y then 1 else 0)" using div_step [of 4 y] by simp
  have b: "(y + 1 + 99) div 100 = (y + 99) div 100 + (if 100 dvd y then 1 else 0)" using div_step [of 100 y] by simp
  have c: "(y + 1 + 399) div 400 = (y + 399) div 400 + (if 400 dvd y then 1 else 0)" using div_step [of 400 y] by simp
  have d: "100 dvd y \<Longrightarrow> 4 dvd y" "400 dvd y \<Longrightarrow> 100 dvd y"
    by (auto intro: dvd_trans [of 4 100 y] dvd_trans [of 100 400 y])
  show ?thesis
    unfolding leap_days_before_def leap_year_def a b c using d
    by (cases "4 dvd y"; cases "100 dvd y"; cases "400 dvd y") simp_all
qed

lemma month_cases:
  fixes k :: int
  obtains y m where "k = 12 * y + m" "m \<in> {0, 1, 2, 3, 4, 5, 6, 7, 8, 9, 10, 11}"
proof -
  have "0 \<le> m \<Longrightarrow> m < 12 \<Longrightarrow> m \<in> {0, 1, 2, 3, 4, 5, 6, 7, 8, 9, 10, 11}" for m :: int
    unfolding insert_iff empty_iff by arith
  then have "k mod 12 \<in> {0, 1, 2, 3, 4, 5, 6, 7, 8, 9, 10, 11}" by simp
  moreover have "k = 12 * (k div 12) + k mod 12" by simp
  ultimately show ?thesis by (rule that [rotated])
qed

lemma month_start_day_at:
  assumes "m \<in> {0, 1, 2, 3, 4, 5, 6, 7, 8, 9, 10, 11}"
  shows "month_start_day (12 * y + m) =
    365 * y + leap_days_before y + days_before_month m + (if leap_year y \<and> m \<ge> 2 then 1 else 0) - 719528"
proof -
  have "(12 * y + m) div 12 = y" "(12 * y + m) mod 12 = m" using assms by auto
  then show ?thesis by (simp add: month_start_day_def)
qed

lemma month_length: "28 \<le> month_start_day (k + 1) - month_start_day k" "month_start_day (k + 1) - month_start_day k \<le> 31"
proof -
  obtain y m where k: "k = 12 * y + m" and m: "m \<in> {0, 1, 2, 3, 4, 5, 6, 7, 8, 9, 10, 11}" by (rule month_cases)
  have "28 \<le> month_start_day (k + 1) - month_start_day k \<and> month_start_day (k + 1) - month_start_day k \<le> 31"
  proof (cases "m = 11")
    case True
    have "month_start_day (12 * (y + 1) + 0) = 365 * (y + 1) + leap_days_before (y + 1) - 719528"
      by (subst month_start_day_at) (simp_all add: days_before_month_def)
    moreover have "k + 1 = 12 * (y + 1) + 0" using True by (simp add: k)
    moreover have "month_start_day k = 365 * y + leap_days_before y + 334 + (if leap_year y then 1 else 0) - 719528"
      using True by (simp add: k month_start_day_at days_before_month_def)
    ultimately show ?thesis by (simp only: leap_days_step) simp
  next
    case False
    then have n: "m + 1 \<in> {0, 1, 2, 3, 4, 5, 6, 7, 8, 9, 10, 11}" using m by auto
    have "month_start_day (k + 1) = month_start_day (12 * y + (m + 1))" by (simp add: k algebra_simps)
    then show ?thesis
      using m False unfolding k month_start_day_at [OF m] by (auto simp: month_start_day_at [OF n] days_before_month_def)
  qed
  then show "28 \<le> month_start_day (k + 1) - month_start_day k" "month_start_day (k + 1) - month_start_day k \<le> 31" by simp_all
qed

lemma month_start_day_1970: "month_start_day 23640 = 0"
  by (simp add: month_start_day_def leap_days_before_def days_before_month_def)

function seek_month :: "int \<Rightarrow> int \<Rightarrow> int" where
  "seek_month day k = (if month_start_day (k + 1) \<le> day then seek_month day (k + 1) else k)"
  by pat_completeness auto
termination
proof (relation "measure (\<lambda>(day, k). nat (day - month_start_day k))", goal_cases)
  case (2 day k)
  then show ?case using month_length(1) [of k] by simp
qed simp

declare seek_month.simps [simp del]

definition utc_month :: "millis \<Rightarrow> int" where
  "utc_month t = seek_month (t div ms_per_day) (first_guess (t div ms_per_day))"

lemma month_start_day_bounds:
  "month_start_day (23640 + int n) \<le> 31 * int n" "month_start_day (23640 - int n) \<le> - 28 * int n"
proof (induction n)
  case (Suc n)
  have "month_start_day (23640 + int n + 1) \<le> month_start_day (23640 + int n) + 31"
    using month_length(2) [of "23640 + int n"] by simp
  moreover have "month_start_day (23640 - int n - 1 + 1) \<ge> month_start_day (23640 - int n - 1) + 28"
    using month_length(1) [of "23640 - int n - 1"] by simp
  moreover have "23640 + int (Suc n) = 23640 + int n + 1" "23640 - int (Suc n) = 23640 - int n - 1"
    "23640 - int n - 1 + 1 = 23640 - int n" by simp_all
  ultimately have "month_start_day (23640 + int (Suc n)) \<le> month_start_day (23640 + int n) + 31"
    "month_start_day (23640 - int (Suc n)) \<le> month_start_day (23640 - int n) - 28"
    by (simp_all only:)
  moreover have "31 * int (Suc n) = 31 * int n + 31" "- 28 * int (Suc n) = - 28 * int n - 28" by simp_all
  ultimately show "month_start_day (23640 + int (Suc n)) \<le> 31 * int (Suc n)"
    "month_start_day (23640 - int (Suc n)) \<le> - 28 * int (Suc n)"
    using Suc by - linarith+
qed (simp_all add: month_start_day_1970)

lemma first_guess_early: "month_start_day (first_guess day) \<le> day"
proof (cases "day \<ge> 0")
  case True
  then have "0 \<le> day div 31" "31 * (day div 31) \<le> day" by (simp_all add: pos_imp_zdiv_nonneg_iff)
  then show ?thesis using True month_start_day_bounds(1) [of "nat (day div 31)"] by (simp add: first_guess_def)
next
  case False
  define n where "n = (- day) div 28 + 1"
  have "- day < 28 * n" "0 \<le> n" using False by (simp_all add: n_def)
  then show ?thesis using month_start_day_bounds(2) [of "nat n"] False by (simp add: first_guess_def n_def [symmetric])
qed

lemma seek_month_holds:
  "month_start_day k \<le> day \<Longrightarrow> month_start_day (seek_month day k) \<le> day \<and> day < month_start_day (seek_month day k + 1)"
proof (induction day k rule: seek_month.induct)
  case (1 day k)
  then show ?case by (subst (1 2) seek_month.simps) (simp split: if_splits)
qed

lemma day_of_instant: "day * ms_per_day \<le> t \<longleftrightarrow> day \<le> t div ms_per_day"
proof
  assume "day * ms_per_day \<le> t"
  then have "day * ms_per_day div ms_per_day \<le> t div ms_per_day" by (rule zdiv_mono1) (simp add: ms_per_day_def)
  then show "day \<le> t div ms_per_day" by (simp add: ms_per_day_def)
next
  assume "day \<le> t div ms_per_day"
  moreover have "t div ms_per_day * ms_per_day + t mod ms_per_day = t" "0 \<le> t mod ms_per_day"
    by (simp_all only: div_mult_mod_eq) (simp add: ms_per_day_def)
  ultimately show "day * ms_per_day \<le> t" by (simp add: ms_per_day_def)
qed

lemma utc_month_holds: "month_start (utc_month t) \<le> t" "t < month_start (utc_month t + 1)"
  using seek_month_holds [OF first_guess_early, of "t div ms_per_day"]
  by (simp_all add: month_start_def utc_month_def day_of_instant flip: not_le)

lemma month_start_mono: "j \<le> k \<Longrightarrow> month_start_day j \<le> month_start_day k"
proof (induction k rule: int_ge_induct)
  case (step i)
  then show ?case using month_length(1) [of i] by simp
qed simp

lemma utc_month_unique:
  assumes "month_start k \<le> t" "t < month_start (k + 1)"
  shows "utc_month t = k"
proof (rule ccontr)
  assume "utc_month t \<noteq> k"
  then consider "utc_month t + 1 \<le> k" | "k + 1 \<le> utc_month t" by linarith
  then show False
    using assms utc_month_holds [of t] month_start_mono [of "utc_month t + 1" k] month_start_mono [of "k + 1" "utc_month t"]
    by cases (simp_all add: month_start_def ms_per_day_def)
qed

text \<open>The year and the month (1 to 12) of a month number.\<close>

definition year_of :: "int \<Rightarrow> int" where
  "year_of k = k div 12"

definition month_of :: "int \<Rightarrow> int" where
  "month_of k = k mod 12 + 1"

lemma month_number: "12 * year_of k + (month_of k - 1) = k"
  by (simp add: year_of_def month_of_def)

subsection \<open>The collector\<close>

definition active_users :: string where "active_users = ''active_users''"
definition questions_used :: string where "questions_used = ''questions_used''"
definition pdf_pages_generated :: string where "pdf_pages_generated = ''pdf_pages_generated''"
definition storage_mb :: string where "storage_mb = ''storage_mb''"

lemmas metric_names = active_users_def questions_used_def pdf_pages_generated_def storage_mb_def

record metric_row =
  cm_tenantId :: string
  cm_metricType :: string
  cm_value :: int
  cm_year :: int
  cm_month :: int

text \<open>The columns of a tenant's schema the collector aggregates.\<close>

record course_usage =
  cu_completedAt :: "millis option"
  cu_pageCount :: "int option"
  cu_fileSizeBytes :: "int option"

record tenant_usage =
  tu_users :: "bool list"
  tu_usedAt :: "millis list"
  tu_courses :: "course_usage list"
  tu_dbBytes :: int

definition in_month :: "int \<Rightarrow> millis \<Rightarrow> bool" where
  "in_month k t = (month_start k \<le> t \<and> t < month_start (k + 1))"

definition pages_in_month :: "int \<Rightarrow> tenant_usage \<Rightarrow> int" where
  "pages_in_month k u =
     sum_list (map (\<lambda>c. nullish (cu_pageCount c) 0) (filter (\<lambda>c. pred_option (in_month k) (cu_completedAt c) \<and> cu_completedAt c \<noteq> None) (tu_courses u)))"

definition stored_bytes :: "tenant_usage \<Rightarrow> int" where
  "stored_bytes u = tu_dbBytes u + sum_list (map (\<lambda>c. nullish (cu_fileSizeBytes c) 0) (tu_courses u))"

text \<open>\<open>Math.round(bytes / (1024 * 1024))\<close>: halves are rounded up.\<close>

definition round_mb :: "int \<Rightarrow> int" where
  "round_mb bytes = (2 * bytes + 1048576) div 2097152"

definition collected :: "int \<Rightarrow> tenant_usage \<Rightarrow> (string \<times> int) list" where
  "collected k u =
     [(active_users, int (count_where (\<lambda>a. a) (tu_users u))),
      (questions_used, int (count_where (in_month k) (tu_usedAt u))),
      (pdf_pages_generated, pages_in_month k u),
      (storage_mb, round_mb (stored_bytes u))]"

definition same_metric :: "string \<Rightarrow> string \<Rightarrow> int \<Rightarrow> metric_row \<Rightarrow> bool" where
  "same_metric t ty k r = (cm_tenantId r = t \<and> cm_metricType r = ty \<and> cm_month r = month_of k \<and> cm_year r = year_of k)"

text \<open>\<open>INSERT ... ON CONFLICT DO UPDATE\<close>.\<close>

definition upsert_metric :: "string \<Rightarrow> string \<Rightarrow> int \<Rightarrow> int \<Rightarrow> metric_row list \<Rightarrow> metric_row list" where
  "upsert_metric t ty v k table =
     (if list_ex (same_metric t ty k) table then update_where (same_metric t ty k) (\<lambda>r. r\<lparr>cm_value := v\<rparr>) table
      else table @ [\<lparr>cm_tenantId = t, cm_metricType = ty, cm_value = v, cm_year = year_of k, cm_month = month_of k\<rparr>])"

record collect_env =
  ce_now :: millis
  ce_usage :: "string \<Rightarrow> tenant_usage option"
  ce_upsertOk :: "string \<Rightarrow> string \<Rightarrow> bool"

text \<open>One tenant: \<open>None\<close> is a schema that cannot be read. The four upserts are independent statements.\<close>

definition collect_for_tenant :: "collect_env \<Rightarrow> string \<Rightarrow> metric_row list \<Rightarrow> metric_row list" where
  "collect_for_tenant env t table =
     (case ce_usage env t of
        None \<Rightarrow> table
      | Some u \<Rightarrow>
          (let k = utc_month (ce_now env)
           in fold (\<lambda>(ty, v) tab. if ce_upsertOk env t ty then upsert_metric t ty v k tab else tab) (collected k u) table))"

text \<open>All active companies, in the order in which the bounded fan-out finishes them.\<close>

definition collect_for_all_tenants :: "collect_env \<Rightarrow> (string \<times> bool) list \<Rightarrow> metric_row list \<Rightarrow> metric_row list" where
  "collect_for_all_tenants env companies table =
     fold (collect_for_tenant env) (map fst (filter snd companies)) table"

definition metrics_lock_ttl :: millis where
  "metrics_lock_ttl = 45 * 60 * 1000"

definition handle_cron ::
  "bool \<Rightarrow> collect_env \<Rightarrow> (string \<times> bool) list \<Rightarrow> unit redis \<Rightarrow> metric_row list \<Rightarrow> unit option \<times> unit redis \<times> metric_row list" where
  "handle_cron online env companies =
     run_exclusively online (ce_now env) ''cron:consumption-metrics:collect'' metrics_lock_ttl
       (\<lambda>table. ((), collect_for_all_tenants env companies table))"

subsection \<open>The dashboard\<close>

datatype metrics_error = TenantRequired | InvalidDate string

text \<open>\<open>parseDateRange\<close>: an end date covers its day. An absent or empty value is no bound.\<close>

definition parse_bound :: "(string \<Rightarrow> millis option) \<Rightarrow> string option \<Rightarrow> metrics_error http_error + millis option" where
  "parse_bound parse v =
     (if \<not> truthy_str v then Inr None
      else case parse (the v) of None \<Rightarrow> Inl (BadRequest (InvalidDate (the v))) | Some t \<Rightarrow> Inr (Some t))"

definition parse_date_range ::
  "(string \<Rightarrow> millis option) \<Rightarrow> string option \<Rightarrow> string option \<Rightarrow> metrics_error http_error + millis option \<times> millis option" where
  "parse_date_range parse startDate endDate =
     (case parse_bound parse endDate of
        Inl e \<Rightarrow> Inl e
      | Inr e \<Rightarrow>
          (case parse_bound parse startDate of
             Inl e \<Rightarrow> Inl e
           | Inr s \<Rightarrow> Inr (s, map_option (\<lambda>t. t + ms_per_day) e)))"

text \<open>The loop over the months, with the source's guard of 1200 iterations.\<close>

function month_loop :: "int \<Rightarrow> int \<Rightarrow> nat \<Rightarrow> int list" where
  "month_loop k end_k iterations =
     (if k \<le> end_k \<and> iterations < 1200 then k # month_loop (k + 1) end_k (iterations + 1) else [])"
  by pat_completeness auto
termination by (relation "measure (\<lambda>(k, e, i). 1200 - i)") auto

declare month_loop.simps [simp del]

definition resolve_month_buckets :: "millis \<Rightarrow> millis option \<times> millis option \<Rightarrow> int list" where
  "resolve_month_buckets now rng =
     (let endBoundary = (case snd rng of Some e \<Rightarrow> e - 1 | None \<Rightarrow> nullish (fst rng) now);
          startBoundary = nullish (fst rng) endBoundary;
          buckets = month_loop (utc_month startBoundary) (utc_month endBoundary) 0
      in if buckets = [] then [utc_month now] else buckets)"

definition fetch_metric_rows :: "string \<Rightarrow> int list \<Rightarrow> metric_row list \<Rightarrow> metric_row list" where
  "fetch_metric_rows t buckets table =
     find_all (\<lambda>r. (t = ''all'' \<or> cm_tenantId r = t) \<and> (\<exists>k\<in>set buckets. cm_year r = year_of k \<and> cm_month r = month_of k)) table"

definition sum_across_buckets :: "metric_row list \<Rightarrow> string \<Rightarrow> int" where
  "sum_across_buckets rows ty = sum_list (map cm_value (filter (\<lambda>r. cm_metricType r = ty) rows))"

definition is_newer :: "metric_row \<Rightarrow> metric_row \<Rightarrow> bool" where
  "is_newer r old = (cm_year r > cm_year old \<or> cm_year r = cm_year old \<and> cm_month r > cm_month old)"

definition latest_step :: "string \<Rightarrow> metric_row \<Rightarrow> (string \<times> metric_row) list \<Rightarrow> (string \<times> metric_row) list" where
  "latest_step ty r acc =
     (if cm_metricType r \<noteq> ty then acc
      else case map_of acc (cm_tenantId r) of
             None \<Rightarrow> js_map_set (cm_tenantId r) r acc
           | Some old \<Rightarrow> if is_newer r old then js_map_set (cm_tenantId r) r acc else acc)"

definition latest_bucket_per_tenant_sum :: "metric_row list \<Rightarrow> string \<Rightarrow> int" where
  "latest_bucket_per_tenant_sum rows ty = sum_list (map (\<lambda>(t, r). cm_value r) (fold (latest_step ty) rows []))"

record metrics_answer =
  mt_active_users :: int
  mt_questions_used :: int
  mt_storage_mb :: int
  mt_pdf_pages_generated :: int

definition get_metrics ::
  "(string \<Rightarrow> millis option) \<Rightarrow> millis \<Rightarrow> string \<Rightarrow> string option \<Rightarrow> string option \<Rightarrow> metric_row list
     \<Rightarrow> metrics_error http_error + metrics_answer" where
  "get_metrics parse now t startDate endDate table =
     (if t = '''' then Inl (BadRequest TenantRequired)
      else case parse_date_range parse startDate endDate of
             Inl e \<Rightarrow> Inl e
           | Inr rng \<Rightarrow>
               (let rows = fetch_metric_rows t (resolve_month_buckets now rng) table
                in Inr \<lparr>mt_active_users = latest_bucket_per_tenant_sum rows active_users,
                        mt_questions_used = sum_across_buckets rows questions_used,
                        mt_storage_mb = latest_bucket_per_tenant_sum rows storage_mb,
                        mt_pdf_pages_generated = sum_across_buckets rows pdf_pages_generated\<rparr>))"

end
