(* ===== verification/ConsumptionLaws.thy ===== *)
theory ConsumptionLaws
  imports Consumption
begin

text \<open>
  What the consumption figures mean: the months a request covers, the figures as a function of the rows alone,
  and the agreement of the dashboard with what the collector read.
\<close>

subsection \<open>Months\<close>

lemma year_month_inj: "year_of j = year_of k \<Longrightarrow> month_of j = month_of k \<Longrightarrow> j = k"
  by (metis month_number)

lemma month_of_bounds: "1 \<le> month_of k" "month_of k \<le> 12"
  by (simp_all add: month_of_def)

lemma month_loop_upto: "i \<le> 1200 \<Longrightarrow> month_loop k e i = [k..min e (k + int (1200 - i) - 1)]"
proof (induction k e i rule: month_loop.induct)
  case (1 k e i)
  show ?case
  proof (cases "k \<le> e \<and> i < 1200")
    case True
    then have "month_loop k e i = k # [k + 1..min e (k + 1 + int (1200 - (i + 1)) - 1)]"
      using 1 by (subst month_loop.simps) simp
    moreover have "k + 1 + int (1200 - (i + 1)) - 1 = k + int (1200 - i) - 1" using True by (simp add: of_nat_diff)
    moreover have "k \<le> min e (k + int (1200 - i) - 1)" using True by (simp add: of_nat_diff)
    ultimately show ?thesis by (simp add: upto_rec1)
  next
    case False
    then show ?thesis using 1(2) by (subst month_loop.simps) (auto simp: of_nat_diff)
  qed
qed

lemma month_start_le: "month_start j \<le> t \<Longrightarrow> utc_month t < k \<Longrightarrow> j < k"
  using utc_month_holds [of t] month_start_mono [of k j]
proof (rule_tac ccontr)
  assume "month_start j \<le> t" "utc_month t < k" "\<not> j < k"
  then have "month_start_day (utc_month t + 1) \<le> month_start_day j" by (intro month_start_mono) simp
  then have "month_start (utc_month t + 1) \<le> month_start j" by (simp add: month_start_def ms_per_day_def)
  with \<open>month_start j \<le> t\<close> utc_month_holds(2) [of t] show False by simp
qed

lemma utc_month_mono: "s \<le> t \<Longrightarrow> utc_month s \<le> utc_month t"
  using month_start_le [of "utc_month s" t "utc_month t + 1"] utc_month_holds(1) [of s] by simp

text \<open>
  C37. The months a request covers are at least one and at most 1200, distinct, consecutive, in order, each with
  a month number from 1 to 12; when the range spans at most 1200 months, an instant of the range lies in one of
  them, and none of them lies outside the range.\<close>

theorem month_buckets_cover:
  fixes now :: millis
  defines "ks \<equiv> \<lambda>rng. resolve_month_buckets now rng"
  shows "1 \<le> length (ks rng) \<and> length (ks rng) \<le> 1200 \<and> distinct (ks rng) \<and>
    (\<exists>a. ks rng = [a..a + int (length (ks rng)) - 1]) \<and>
    (\<forall>k\<in>set (ks rng). 1 \<le> month_of k \<and> month_of k \<le> 12) \<and>
    (s < e \<longrightarrow> utc_month (e - 1) - utc_month s < 1200 \<longrightarrow>
      (utc_month t \<in> set (ks (Some s, Some e)) \<longleftrightarrow> utc_month s \<le> utc_month t \<and> utc_month t \<le> utc_month (e - 1)))"
proof (intro conjI)
  define E where "E = (case snd rng of Some e \<Rightarrow> e - 1 | None \<Rightarrow> nullish (fst rng) now)"
  define a where "a = utc_month (nullish (fst rng) E)"
  define z where "z = min (utc_month E) (a + 1199)"
  have "month_loop a (utc_month E) 0 = [a..z]" by (simp add: month_loop_upto z_def add.commute)
  moreover have "[a..z] = [] \<longleftrightarrow> \<not> a \<le> z" by auto
  ultimately have ks: "ks rng = (if a \<le> z then [a..z] else [utc_month now])"
    unfolding ks_def resolve_month_buckets_def Let_def E_def [symmetric] a_def [symmetric] by simp
  show "1 \<le> length (ks rng)" "length (ks rng) \<le> 1200" "distinct (ks rng)"
    by (auto simp: ks z_def min_def)
  show "\<exists>a. ks rng = [a..a + int (length (ks rng)) - 1]"
    by (cases "a \<le> z") (auto simp: ks intro!: exI [of _ "utc_month now"] exI [of _ a])
  show "\<forall>k\<in>set (ks rng). 1 \<le> month_of k \<and> month_of k \<le> 12" by (simp add: month_of_bounds)
  show "s < e \<longrightarrow> utc_month (e - 1) - utc_month s < 1200 \<longrightarrow>
      (utc_month t \<in> set (ks (Some s, Some e)) \<longleftrightarrow> utc_month s \<le> utc_month t \<and> utc_month t \<le> utc_month (e - 1))"
    using utc_month_mono [of s "e - 1"] by (intro impI) (simp add: ks_def resolve_month_buckets_def month_loop_upto min_def)
qed

theorem month_buckets_cover_witness:
  "(0::int) \<in> {0} \<and> (utc_month 5 \<in> set (resolve_month_buckets 0 (Some 0, Some 10)) \<longleftrightarrow>
     utc_month 0 \<le> utc_month 5 \<and> utc_month 5 \<le> utc_month (10 - 1))"
proof -
  have "utc_month t = 23640" if "0 \<le> t" "t < 10" for t
    using that by (intro utc_month_unique) (simp_all add: month_start_def month_start_day_def leap_days_before_def days_before_month_def ms_per_day_def)
  then show ?thesis using month_buckets_cover [where now = 0 and s = 0 and e = 10 and t = 5] by simp
qed

subsection \<open>The snapshot figures\<close>

definition bucket_le :: "metric_row \<Rightarrow> metric_row \<Rightarrow> bool" where
  "bucket_le r r' = (\<not> is_newer r r')"

definition tenants_with :: "string \<Rightarrow> metric_row list \<Rightarrow> string set" where
  "tenants_with ty rows = cm_tenantId ` {r \<in> set rows. cm_metricType r = ty}"

definition latest_of :: "string \<Rightarrow> string \<Rightarrow> metric_row list \<Rightarrow> metric_row \<Rightarrow> bool" where
  "latest_of ty t rows r \<longleftrightarrow>
     r \<in> set rows \<and> cm_metricType r = ty \<and> cm_tenantId r = t \<and>
     (\<forall>x\<in>set rows. cm_metricType x = ty \<longrightarrow> cm_tenantId x = t \<longrightarrow> \<not> is_newer x r)"

lemma not_newer_trans: "\<not> is_newer x y \<Longrightarrow> is_newer z y \<Longrightarrow> \<not> is_newer x z"
  by (auto simp: is_newer_def)

lemma latest_step_map:
  "map_of (latest_step ty r acc) t =
     (if cm_metricType r = ty \<and> cm_tenantId r = t \<and> (case map_of acc t of None \<Rightarrow> True | Some old \<Rightarrow> is_newer r old)
      then Some r else map_of acc t)"
  by (auto simp: latest_step_def map_of_js_map_set split: option.splits)

lemma latest_step_distinct: "distinct (map fst acc) \<Longrightarrow> distinct (map fst (latest_step ty r acc))"
  by (auto simp: latest_step_def distinct_js_map_set split: option.splits)

lemma latest_fold:
  "(case map_of (fold (latest_step ty) rows []) t of
      None \<Rightarrow> t \<notin> tenants_with ty rows
    | Some r \<Rightarrow> latest_of ty t rows r)"
proof (induction rows rule: rev_induct)
  case Nil
  then show ?case by (simp add: tenants_with_def)
next
  case (snoc x rows)
  show ?case
  proof (cases "map_of (fold (latest_step ty) rows []) t")
    case None
    with snoc have none: "\<forall>r\<in>set rows. cm_metricType r = ty \<longrightarrow> cm_tenantId r \<noteq> t" by (auto simp: tenants_with_def)
    show ?thesis
    proof (cases "cm_metricType x = ty \<and> cm_tenantId x = t")
      case True
      then have "latest_of ty t (rows @ [x]) x" using none by (auto simp: latest_of_def is_newer_def)
      with True None show ?thesis by (simp add: latest_step_map)
    next
      case False
      then have "t \<notin> tenants_with ty (rows @ [x])" using none by (auto simp: tenants_with_def)
      moreover have "map_of (fold (latest_step ty) (rows @ [x]) []) t = None"
        using False None by (auto simp: latest_step_map)
      ultimately show ?thesis by simp
    qed
  next
    case (Some r)
    with snoc have r: "latest_of ty t rows r" by simp
    show ?thesis
    proof (cases "cm_metricType x = ty \<and> cm_tenantId x = t \<and> is_newer x r")
      case True
      then have "latest_of ty t (rows @ [x]) x"
        using r not_newer_trans [of _ r x] by (auto simp: latest_of_def is_newer_def)
      with True Some show ?thesis by (simp add: latest_step_map)
    next
      case False
      then have "latest_of ty t (rows @ [x]) r" using r by (auto simp: latest_of_def)
      moreover have "map_of (fold (latest_step ty) (rows @ [x]) []) t = Some r"
        using False Some by (auto simp: latest_step_map)
      ultimately show ?thesis by simp
    qed
  qed
qed

lemma fold_latest_distinct: "distinct (map fst (fold (latest_step ty) rows []))"
  by (induction rows rule: rev_induct) (simp_all add: latest_step_distinct)

lemma dom_latest: "dom (map_of (fold (latest_step ty) rows [])) = tenants_with ty rows"
proof -
  have "(\<exists>r. map_of (fold (latest_step ty) rows []) t = Some r) \<longleftrightarrow> t \<in> tenants_with ty rows" for t
    using latest_fold [where rows = rows and ty = ty and t = t] by (auto simp: tenants_with_def latest_of_def split: option.splits)
  then show ?thesis by (auto simp: dom_def)
qed

lemma sum_list_assoc:
  fixes g :: "'v \<Rightarrow> int"
  shows "distinct (map fst m) \<Longrightarrow> sum_list (map (\<lambda>(t, r). g r) m) = (\<Sum>t\<in>dom (map_of m). g (the (map_of m t)))"
proof (induction m)
  case (Cons p m)
  obtain t r where p: "p = (t, r)" by (cases p)
  have t: "t \<notin> dom (map_of m)" using Cons.prems by (auto simp: p dom_map_of_conv_image_fst)
  have "(\<Sum>u\<in>dom (map_of m). g (the (map_of (p # m) u))) = (\<Sum>u\<in>dom (map_of m). g (the (map_of m u)))"
    using t by (intro sum.cong) (auto simp: p)
  moreover have "dom (map_of (p # m)) = insert t (dom (map_of m))" by (auto simp: p)
  ultimately have "(\<Sum>u\<in>dom (map_of (p # m)). g (the (map_of (p # m) u))) = g r + (\<Sum>u\<in>dom (map_of m). g (the (map_of m u)))"
    using t by (simp add: p finite_dom_map_of)
  then show ?case using Cons by (simp only: p) simp
qed simp

lemma snapshot_total:
  "\<exists>latest. (\<forall>t\<in>tenants_with ty rows. latest_of ty t rows (latest t)) \<and>
     latest_bucket_per_tenant_sum rows ty = (\<Sum>t\<in>tenants_with ty rows. cm_value (latest t))"
proof (intro exI conjI ballI)
  let ?m = "map_of (fold (latest_step ty) rows [])"
  fix t assume "t \<in> tenants_with ty rows"
  then show "latest_of ty t rows (the (?m t))" using latest_fold [where rows = rows and ty = ty and t = t] by (auto split: option.splits)
next
  show "latest_bucket_per_tenant_sum rows ty =
      (\<Sum>t\<in>tenants_with ty rows. cm_value (the (map_of (fold (latest_step ty) rows []) t)))"
    using sum_list_assoc [OF fold_latest_distinct] by (simp add: latest_bucket_per_tenant_sum_def dom_latest)
qed

definition metric_key :: "metric_row \<Rightarrow> string \<times> string \<times> int \<times> int" where
  "metric_key r = (cm_tenantId r, cm_metricType r, cm_year r, cm_month r)"

lemma latest_unique:
  assumes "distinct (map metric_key rows)" and "latest_of ty t rows r" and "latest_of ty t rows r'"
  shows "r = r'"
proof -
  have "\<not> is_newer r r'" "\<not> is_newer r' r" using assms(2,3) by (auto simp: latest_of_def)
  then have "cm_year r = cm_year r'" "cm_month r = cm_month r'" by (auto simp: is_newer_def)
  then have "metric_key r = metric_key r'" using assms(2,3) by (simp add: latest_of_def metric_key_def)
  then show ?thesis using assms by (auto simp: latest_of_def distinct_map dest: inj_onD)
qed

text \<open>
  C36. The figures depend on the metric rows in range only, not on the order in which the database returns them:
  a flow figure (questions, pages) is the sum over all rows, and a snapshot figure (users, storage) is, under the
  table's unique key, the sum over the tenants of the value of each tenant's latest month; so the maps and
  accumulators of the service compute the reference figures.\<close>

theorem figures_match_reference:
  assumes "distinct (map metric_key rows)" and "mset rows' = mset rows"
    and "\<forall>t\<in>tenants_with ty rows. latest_of ty t rows (latest t)"
  shows "latest_bucket_per_tenant_sum rows' ty = (\<Sum>t\<in>tenants_with ty rows. cm_value (latest t)) \<and>
    sum_across_buckets rows' ty = sum_across_buckets rows ty"
proof (rule conjI)
  have set_eq: "set rows' = set rows" using assms(2) by (rule mset_eq_setD)
  then have tenants: "tenants_with ty rows' = tenants_with ty rows" by (simp add: tenants_with_def)
  obtain f where f: "\<forall>t\<in>tenants_with ty rows'. latest_of ty t rows' (f t)"
    "latest_bucket_per_tenant_sum rows' ty = (\<Sum>t\<in>tenants_with ty rows'. cm_value (f t))"
    using snapshot_total by blast
  have "t \<in> tenants_with ty rows \<Longrightarrow> f t = latest t" for t
    using f(1) assms(3) latest_unique [OF assms(1), of ty t] by (auto simp: tenants latest_of_def set_eq)
  then show "latest_bucket_per_tenant_sum rows' ty = (\<Sum>t\<in>tenants_with ty rows. cm_value (latest t))"
    using f(2) by (simp add: tenants)
  have "mset (map cm_value (filter (\<lambda>r. cm_metricType r = ty) rows')) = mset (map cm_value (filter (\<lambda>r. cm_metricType r = ty) rows))"
    using assms(2) by simp
  then show "sum_across_buckets rows' ty = sum_across_buckets rows ty"
    unfolding sum_across_buckets_def by (metis sum_mset_sum_list)
qed

definition sample_rows :: "metric_row list" where
  "sample_rows =
     [\<lparr>cm_tenantId = ''t'', cm_metricType = active_users, cm_value = 7, cm_year = 2026, cm_month = 1\<rparr>,
      \<lparr>cm_tenantId = ''t'', cm_metricType = active_users, cm_value = 5, cm_year = 2026, cm_month = 2\<rparr>]"

theorem figures_match_reference_witness:
  "latest_bucket_per_tenant_sum (rev sample_rows) active_users = (\<Sum>t\<in>tenants_with active_users sample_rows. cm_value (sample_rows ! 1))"
  by (rule figures_match_reference [THEN conjunct1])
    (auto simp: sample_rows_def metric_key_def latest_of_def tenants_with_def is_newer_def)

subsection \<open>From the collector to the dashboard\<close>

definition cell :: "metric_row list \<Rightarrow> string \<Rightarrow> string \<Rightarrow> int \<Rightarrow> int list" where
  "cell table t ty k = map cm_value (filter (same_metric t ty k) table)"

lemma same_metric_key: "same_metric t ty k r \<longleftrightarrow> metric_key r = (t, ty, year_of k, month_of k)"
  by (auto simp: same_metric_def metric_key_def)

lemma keys_upsert: "distinct (map metric_key table) \<Longrightarrow> distinct (map metric_key (upsert_metric t ty v k table))"
proof -
  have "map metric_key (update_where (same_metric t ty k) (\<lambda>r. r\<lparr>cm_value := v\<rparr>) table) = map metric_key table"
    by (rule map_update_where_key) (simp add: metric_key_def)
  moreover assume "distinct (map metric_key table)"
  ultimately show ?thesis
    by (auto simp: upsert_metric_def list_ex_iff same_metric_key metric_key_def [of "\<lparr>cm_tenantId = t, cm_metricType = ty, cm_value = v, cm_year = year_of k, cm_month = month_of k\<rparr>"])
qed

lemma cell_upsert_other: "(t', ty') \<noteq> (t, ty) \<Longrightarrow> cell (upsert_metric t ty v k table) t' ty' j = cell table t' ty' j"
proof -
  assume other: "(t', ty') \<noteq> (t, ty)"
  have "map cm_value (filter (same_metric t' ty' j) (update_where (same_metric t ty k) (\<lambda>r. r\<lparr>cm_value := v\<rparr>) table)) =
      map cm_value (filter (same_metric t' ty' j) table)"
    by (induction table) (use other in \<open>auto simp: update_where_def same_metric_def\<close>)
  then show ?thesis using other by (auto simp: cell_def upsert_metric_def same_metric_def)
qed

lemma one_row:
  "distinct (map metric_key table) \<Longrightarrow> list_ex (same_metric t ty k) table \<Longrightarrow> \<exists>r. filter (same_metric t ty k) table = [r]"
proof (induction table)
  case (Cons x table)
  show ?case
  proof (cases "same_metric t ty k x")
    case True
    then have "filter (same_metric t ty k) table = []"
      using Cons.prems(1) by (auto simp: filter_empty_conv same_metric_key image_iff)
    with True show ?thesis by simp
  next
    case False
    with Cons show ?thesis by simp
  qed
qed simp

lemma cell_upsert: "distinct (map metric_key table) \<Longrightarrow> cell (upsert_metric t ty v k table) t ty k = [v]"
proof -
  assume keys: "distinct (map metric_key table)"
  have "filter (same_metric t ty k) (update_where (same_metric t ty k) (\<lambda>r. r\<lparr>cm_value := v\<rparr>) table) =
      map (\<lambda>r. r\<lparr>cm_value := v\<rparr>) (filter (same_metric t ty k) table)"
    by (induction table) (auto simp: update_where_def same_metric_def)
  then have upd: "cell (update_where (same_metric t ty k) (\<lambda>r. r\<lparr>cm_value := v\<rparr>) table) t ty k =
      map (\<lambda>r. v) (filter (same_metric t ty k) table)"
    by (simp add: cell_def o_def)
  show ?thesis
  proof (cases "list_ex (same_metric t ty k) table")
    case True
    then show ?thesis using one_row [OF keys True] upd by (auto simp: upsert_metric_def)
  next
    case False
    then show ?thesis by (auto simp: upsert_metric_def cell_def same_metric_def list_ex_iff filter_empty_conv)
  qed
qed

lemma collect_keys: "distinct (map metric_key table) \<Longrightarrow> distinct (map metric_key (collect_for_tenant env t table))"
  by (auto simp: collect_for_tenant_def collected_def Let_def keys_upsert split: option.splits)

lemma collect_other: "t' \<noteq> t \<Longrightarrow> cell (collect_for_tenant env t table) t' ty j = cell table t' ty j"
  by (auto simp: collect_for_tenant_def collected_def Let_def cell_upsert_other split: option.splits)

lemma collect_own:
  assumes "distinct (map metric_key table)" and "ce_usage env t = Some u" and "\<forall>ty. ce_upsertOk env t ty"
    and "(ty, v) \<in> set (collected (utc_month (ce_now env)) u)"
  shows "cell (collect_for_tenant env t table) t ty (utc_month (ce_now env)) = [v]"
  using assms(4) unfolding collect_for_tenant_def collected_def Let_def assms(2)
  by (auto simp: assms(1,3) cell_upsert cell_upsert_other keys_upsert metric_names)

lemma collect_all:
  assumes "distinct (map metric_key table)" and "ce_usage env t = Some u" and "\<forall>ty. ce_upsertOk env t ty"
    and "(ty, v) \<in> set (collected (utc_month (ce_now env)) u)"
  shows "distinct (map metric_key (fold (collect_for_tenant env) ts table)) \<and>
    (t \<in> set ts \<longrightarrow> cell (fold (collect_for_tenant env) ts table) t ty (utc_month (ce_now env)) = [v])"
proof (induction ts rule: rev_induct)
  case (snoc x ts)
  then show ?case
    using collect_own [OF _ assms(2-4)] by (cases "x = t") (auto simp: collect_keys collect_other)
qed (simp add: assms(1))

lemma fold_latest_filter:
  "fold (latest_step ty) rows acc = fold (latest_step ty) (filter (\<lambda>r. cm_metricType r = ty) rows) acc"
  by (induction rows arbitrary: acc) (simp_all add: latest_step_def)

lemma fetched_cell:
  assumes "t \<noteq> ''all''" and "cell table t ty k = [v]"
  shows "sum_across_buckets (fetch_metric_rows t [k] table) ty = v"
    and "latest_bucket_per_tenant_sum (fetch_metric_rows t [k] table) ty = v"
proof -
  have "filter (\<lambda>r. cm_metricType r = ty) (fetch_metric_rows t [k] table) = filter (same_metric t ty k) table"
    using assms(1) unfolding fetch_metric_rows_def find_all_def filter_filter by (intro filter_cong) (auto simp: same_metric_def)
  moreover obtain r where "filter (same_metric t ty k) table = [r]" "cm_value r = v"
    using assms(2) by (auto simp: cell_def)
  moreover from this have "cm_metricType r = ty" by (metis filter_eq_ConsD same_metric_def)
  ultimately show "sum_across_buckets (fetch_metric_rows t [k] table) ty = v"
    "latest_bucket_per_tenant_sum (fetch_metric_rows t [k] table) ty = v"
    by (simp_all add: sum_across_buckets_def latest_bucket_per_tenant_sum_def fold_latest_filter [of _ "fetch_metric_rows t [k] table"]
        latest_step_def)
qed

lemma current_month: "resolve_month_buckets now (None, None) = [utc_month now]"
  by (simp add: resolve_month_buckets_def month_loop_upto Let_def)

text \<open>
  C35. After a run of the collector in which the schema of an active tenant could be read and its four upserts
  succeeded, whatever happened to the other tenants and whatever the table held before, the dashboard of that tenant
  without a range shows, for the rest of the month, exactly what the run read: its active users, the questions used
  and the pages of courses completed within the month, and the stored bytes in megabytes with halves rounded up.\<close>

theorem dashboard_shows_last_collection:
  assumes "distinct (map metric_key table)" and "(t, True) \<in> set companies" and "t \<noteq> []" "t \<noteq> ''all''"
    and "ce_usage env t = Some u" and "\<forall>ty. ce_upsertOk env t ty"
    and "utc_month (ce_now env) = k" and "utc_month now = k"
  shows "get_metrics parse now t None None (collect_for_all_tenants env companies table) = Inr
      \<lparr>mt_active_users = int (count_where (\<lambda>a. a) (tu_users u)),
       mt_questions_used = int (count_where (in_month k) (tu_usedAt u)),
       mt_storage_mb = round_mb (stored_bytes u),
       mt_pdf_pages_generated = pages_in_month k u\<rparr>"
proof -
  have "t \<in> set (map fst (filter snd companies))" using assms(2) by force
  then have cells: "(ty, v) \<in> set (collected k u) \<Longrightarrow> cell (collect_for_all_tenants env companies table) t ty k = [v]" for ty v
    using collect_all [OF assms(1,5,6), of ty v] by (simp add: collect_for_all_tenants_def assms(7))
  have "get_metrics parse now t None None (collect_for_all_tenants env companies table) =
      (let rows = fetch_metric_rows t [k] (collect_for_all_tenants env companies table)
       in Inr \<lparr>mt_active_users = latest_bucket_per_tenant_sum rows active_users,
                mt_questions_used = sum_across_buckets rows questions_used,
                mt_storage_mb = latest_bucket_per_tenant_sum rows storage_mb,
                mt_pdf_pages_generated = sum_across_buckets rows pdf_pages_generated\<rparr>)"
    by (simp add: get_metrics_def parse_date_range_def parse_bound_def assms(3,8) current_month)
  then show ?thesis
    using fetched_cell [OF assms(4) cells] by (simp add: Let_def collected_def)
qed

subsection \<open>The end of a month\<close>

text \<open>A tenant whose only question was used half an hour before the end of January 2026: the last collection of
  January ran before it, the next one counts February. The question is in no month of the table.\<close>

definition late_usage :: tenant_usage where
  "late_usage = \<lparr>tu_users = [True], tu_usedAt = [month_start 24313 - 1800000], tu_courses = [], tu_dbBytes = 0\<rparr>"

definition tick :: "millis \<Rightarrow> (string \<Rightarrow> tenant_usage option) \<Rightarrow> collect_env" where
  "tick now usage = \<lparr>ce_now = now, ce_usage = usage, ce_upsertOk = (\<lambda>t ty. True)\<rparr>"

theorem dashboard_shows_last_collection_witness:
  "get_metrics (\<lambda>s. None) 5 ''t'' None None (collect_for_all_tenants (tick 0 (\<lambda>t. Some late_usage)) [(''t'', True)] []) = Inr
      \<lparr>mt_active_users = int (count_where (\<lambda>a. a) (tu_users late_usage)),
       mt_questions_used = int (count_where (in_month 23640) (tu_usedAt late_usage)),
       mt_storage_mb = round_mb (stored_bytes late_usage),
       mt_pdf_pages_generated = pages_in_month 23640 late_usage\<rparr>"
proof -
  have "utc_month t = 23640" if "0 \<le> t" "t < 10" for t
    using that by (intro utc_month_unique) (simp_all add: month_start_def month_start_day_def leap_days_before_def days_before_month_def ms_per_day_def)
  then show ?thesis by (intro dashboard_shows_last_collection) (simp_all add: tick_def)
qed

definition two_ticks :: "metric_row list" where
  "two_ticks =
     collect_for_all_tenants (tick (month_start 24313) (\<lambda>t. Some late_usage)) [(''t'', True)]
       (collect_for_all_tenants (tick (month_start 24313 - 3600000) (\<lambda>t. Some (late_usage\<lparr>tu_usedAt := []\<rparr>))) [(''t'', True)] [])"

lemma month_tail_lost:
  "sum_across_buckets two_ticks questions_used = 0" "in_month 24312 (hd (tu_usedAt late_usage))"
proof -
  have start: "month_start 24313 = 1769904000000" "month_start 24312 = 1767225600000" "month_start 24314 = 1772323200000"
    by (simp_all add: month_start_def month_start_day_def leap_days_before_def days_before_month_def ms_per_day_def leap_year_def)
  have m: "utc_month 1769904000000 = 24313" "utc_month 1769900400000 = 24312"
    by (rule utc_month_unique; simp add: start)+
  show "sum_across_buckets two_ticks questions_used = 0"
    by (simp add: two_ticks_def tick_def collect_for_all_tenants_def collect_for_tenant_def collected_def start m
        upsert_metric_def same_metric_def sum_across_buckets_def metric_names count_where_def in_month_def late_usage_def
        year_of_def month_of_def)
  show "in_month 24312 (hd (tu_usedAt late_usage))"
    by (simp add: in_month_def late_usage_def start)
qed

end
