(* ===== verification/Review.thy ===== *)
theory Review
  imports PdfWorker Catalogs
begin

text \<open>
  The review of a material, \<open>GetMaterialReviewUseCase\<close> (\<open>materials/use-cases/get-material-review.use-case.ts\<close>):
  its answer is assembled in one transaction from the request (which the read moves to IN_REVIEW,
  \<open>open_review\<close>), its curated slots, the question bank with its normalized fallback, the catalogue names, the
  active syllabuses of the cycle and the template's quotas. Signing an image may fail and fails the read.
\<close>

subsection \<open>The questions behind the slots\<close>

definition slot_question_ids :: "review_question list \<Rightarrow> string list" where
  "slot_question_ids rqs = List.map_filter (\<lambda>q. if truthy_str (rq_questionId q) then rq_questionId q else None) rqs"

text \<open>The map of the flat rows, completed with the normalized rows of the ids it misses.\<close>

definition review_bank_question :: "bank \<Rightarrow> string list \<Rightarrow> string \<Rightarrow> flat_question option" where
  "review_bank_question b ids i =
     (let flat = find_by_ids ids b;
          missing = filter (\<lambda>j. flat_map flat j = None) ids
      in case flat_map (find_by_ids_from_normalized missing b) i of
           Some f \<Rightarrow> Some f
         | None \<Rightarrow> flat_map flat i)"

record review_item =
  ri_id :: uuid
  ri_questionId :: "string option"
  ri_courseId :: string
  ri_topicId :: string
  ri_topicName :: string
  ri_subtopicId :: string
  ri_subtopicName :: string
  ri_expectedLevel :: "string option"
  ri_position :: nat
  ri_status :: review_status
  ri_code :: "string option"
  ri_htmlContent :: "string option"
  ri_options :: "flat_alternative list"
  ri_images :: "(string \<times> string) list"
  ri_solutionImages :: "(string \<times> string) list"
  ri_textOrigin :: "string option"

record review_env =
  rv_bank :: bank
  rv_catalog :: catalog
  rv_university :: "uuid \<Rightarrow> string option"
  rv_sign :: "string \<Rightarrow> string option"

definition topic_by_id :: "catalog \<Rightarrow> string \<Rightarrow> topic_row option" where
  "topic_by_id c i = find_one (\<lambda>t. tpc_id t = i) (rev (cg_topics c))"

definition subtopic_by_id :: "catalog \<Rightarrow> string \<Rightarrow> subtopic_row option" where
  "subtopic_by_id c i = find_one (\<lambda>s. sbt_id s = i) (rev (cg_subtopics c))"

definition name_or_unknown :: "('a \<Rightarrow> string) \<Rightarrow> 'a option \<Rightarrow> string" where
  "name_or_unknown name x = (case x of None \<Rightarrow> ''Desconocido'' | Some r \<Rightarrow> if name r = [] then ''Desconocido'' else name r)"

definition course_of_topic :: "catalog \<Rightarrow> string \<Rightarrow> string" where
  "course_of_topic c i = (case topic_by_id c i of None \<Rightarrow> [] | Some t \<Rightarrow> tpc_courseId t)"

definition empty_item :: "catalog \<Rightarrow> review_question \<Rightarrow> review_item" where
  "empty_item c q =
     \<lparr>ri_id = rq_id q, ri_questionId = rq_questionId q, ri_courseId = course_of_topic c (rq_topicId q),
      ri_topicId = rq_topicId q, ri_topicName = name_or_unknown tpc_name (topic_by_id c (rq_topicId q)),
      ri_subtopicId = rq_subtopicId q, ri_subtopicName = name_or_unknown sbt_name (subtopic_by_id c (rq_subtopicId q)),
      ri_expectedLevel = rq_expectedLevel q, ri_position = rq_position q, ri_status = rq_status q,
      ri_code = None, ri_htmlContent = None, ri_options = [], ri_images = [], ri_solutionImages = [], ri_textOrigin = None\<rparr>"

definition review_origin :: "string option \<Rightarrow> flat_question \<Rightarrow> string option" where
  "review_origin universityId f =
     (let label = (if truthy_str universityId then map_of (fq_origins f) (the universityId) else None)
      in if truthy_str label then label else None)"

definition review_item_of ::
  "review_env \<Rightarrow> string option \<Rightarrow> string list \<Rightarrow> review_question \<Rightarrow> planning_error + review_item" where
  "review_item_of env universityId ids q =
     (case (if truthy_str (rq_questionId q) then review_bank_question (rv_bank env) ids (the (rq_questionId q)) else None) of
        None \<Rightarrow> Inr (empty_item (rv_catalog env) q)
      | Some f \<Rightarrow>
          (case sign_all (rv_sign env) (fq_images f) of
             Inl e \<Rightarrow> Inl e
           | Inr images \<Rightarrow>
               (case sign_all (rv_sign env) (fq_solution_images f) of
                  Inl e \<Rightarrow> Inl e
                | Inr diag \<Rightarrow> Inr ((empty_item (rv_catalog env) q)\<lparr>ri_code := Some (fq_code f),
                      ri_htmlContent := Some (fq_html_content f), ri_options := fq_alternatives f, ri_images := images,
                      ri_solutionImages := diag, ri_textOrigin := review_origin universityId f\<rparr>))))"

subsection \<open>Units and quotas\<close>

record syllabus_unit =
  su_courseId :: string
  su_topicId :: string
  su_topicName :: string
  su_subtopicId :: string
  su_subtopicName :: string

definition allowed_units :: "catalog \<Rightarrow> material_request \<Rightarrow> string list \<Rightarrow> planning_db \<Rightarrow> syllabus_unit list" where
  "allowed_units c request courseIds db =
     (case find_one (\<lambda>t. tp_id t = mr_profileId request) (pd_templates db) of
        None \<Rightarrow> []
      | Some t \<Rightarrow>
          concat (map (\<lambda>courseId.
            (case find_one (\<lambda>s. sy_courseId s = courseId \<and> sy_cycleId s = mr_cycleId request \<and> sy_isActive s) (pd_syllabuses db) of
               None \<Rightarrow> []
             | Some s \<Rightarrow>
                 map (\<lambda>d. \<lparr>su_courseId = courseId, su_topicId = sd_topicId d,
                        su_topicName = name_or_unknown tpc_name (topic_by_id c (sd_topicId d)), su_subtopicId = sd_subtopicId d,
                        su_subtopicName = name_or_unknown sbt_name (subtopic_by_id c (sd_subtopicId d))\<rparr>)
                   (find_all (\<lambda>d. sd_syllabusId d = sy_id s \<and> sd_weekNumber d = mr_weekNumber request) (pd_distributions db)))) courseIds))"

text \<open>The quotas of a course; without a row of the template, those of 35 questions.\<close>

definition difficulty_limits :: "material_request \<Rightarrow> string list \<Rightarrow> planning_db \<Rightarrow> (string \<times> int \<times> int \<times> int) list" where
  "difficulty_limits request courseIds db =
     map (\<lambda>courseId.
        (case find_one (\<lambda>tc. tc_courseId tc = courseId \<and> tc_templateId tc = mr_profileId request) (pd_templateCourses db) of
           None \<Rightarrow> (courseId, 14, 14, 7)
         | Some tc \<Rightarrow> (courseId, tc_easyCount tc, tc_mediumCount tc, tc_hardCount tc))) courseIds"

subsection \<open>The answer\<close>

record review_response =
  rr_materialId :: uuid
  rr_status :: request_status
  rr_version :: int
  rr_weekNumber :: int
  rr_cycleName :: string
  rr_templateName :: string
  rr_questions :: "review_item list"
  rr_allowedSyllabusUnits :: "syllabus_unit list"
  rr_difficultyLimits :: "(string \<times> int \<times> int \<times> int) list"

definition get_material_review :: "review_env \<Rightarrow> millis \<Rightarrow> planning_db \<Rightarrow> uuid \<Rightarrow> review_response ptx" where
  "get_material_review env now seen i db =
     (case find_one (\<lambda>r. mr_id r = i) (pd_requests seen) of
        None \<Rightarrow> Inl (NotFound RequestNotFound)
      | Some request \<Rightarrow>
          (case open_review now seen i db of
             Inl e \<Rightarrow> Inl e
           | Inr ((status, version), db') \<Rightarrow>
               (let rqs = sort_key rq_position (find_all (\<lambda>q. rq_materialRequestId q = i) (pd_reviewQuestions db'));
                    cycle = find_one (\<lambda>c. cy_id c = mr_cycleId request) (pd_cycles db')
                in case map_all (review_item_of env (rv_university env (mr_cycleId request)) (slot_question_ids rqs)) rqs of
                     Inl e \<Rightarrow> Inl e
                   | Inr items \<Rightarrow>
                       (let courseIds = js_unique (filter (\<lambda>c. c \<noteq> []) (map ri_courseId items))
                        in Inr (\<lparr>rr_materialId = i, rr_status = status, rr_version = version, rr_weekNumber = mr_weekNumber request,
                             rr_cycleName = name_or_unknown cy_name cycle,
                             rr_templateName = name_or_unknown tp_name (find_one (\<lambda>t. tp_id t = mr_profileId request) (pd_templates db')),
                             rr_questions = items,
                             rr_allowedSyllabusUnits = allowed_units (rv_catalog env) request courseIds db',
                             rr_difficultyLimits = difficulty_limits request courseIds db'\<rparr>, db')))))"

subsection \<open>History, attempts and figures\<close>

text \<open>\<open>GetMaterialHistoryUseCase\<close>: the materials whose template and live cycle exist (a join with an entity that has
  a deletion date leaves the deleted rows out), each with its latest request; \<open>updatedAt\<close> orders them.\<close>

record history_entry =
  he_id :: uuid
  he_material :: material
  he_createdAt :: "millis option"
  he_courses :: "request_course list"

definition one_of :: "'a list option \<Rightarrow> 'a \<Rightarrow> bool" where
  "one_of xs x = (case xs of None \<Rightarrow> True | Some ys \<Rightarrow> ys = [] \<or> x \<in> set ys)"

definition get_history ::
  "(uuid \<Rightarrow> millis) \<Rightarrow> uuid list option \<Rightarrow> int list option \<Rightarrow> uuid list option \<Rightarrow> planning_db \<Rightarrow> history_entry list" where
  "get_history updatedAt cycleIds weekNumbers templateIds db =
     map (\<lambda>m. (let latest = find_one (\<lambda>r. ma_latestRequestId m = Some (mr_id r)) (pd_requests db)
               in \<lparr>he_id = nullish (ma_latestRequestId m) (ma_id m), he_material = m, he_createdAt = map_option mr_createdAt latest,
                   he_courses = (case latest of None \<Rightarrow> [] | Some r \<Rightarrow> courses_of (mr_id r) db)\<rparr>))
       (sort_key (\<lambda>m. - updatedAt (ma_id m))
          (find_all (\<lambda>m. list_ex (\<lambda>t. tp_id t = ma_profileId m) (pd_templates db) \<and>
                        list_ex (\<lambda>c. cy_id c = ma_cycleId m \<and> cy_deletedAt c = None) (pd_cycles db) \<and>
                        one_of cycleIds (ma_cycleId m) \<and> one_of weekNumbers (ma_weekNumber m) \<and> one_of templateIds (ma_profileId m))
             (pd_materials db)))"

definition get_attempts :: "uuid \<Rightarrow> planning_db \<Rightarrow> (material_request \<times> request_course list) list" where
  "get_attempts materialId db =
     map (\<lambda>r. (r, courses_of (mr_id r) db))
       (sort_key (\<lambda>r. - mr_version r) (sort_key (\<lambda>r. - mr_createdAt r)
          (find_all (\<lambda>r. mr_materialId r = Some materialId) (pd_requests db))))"

definition get_tenant_dashboard_metrics :: "planning_db \<Rightarrow> nat \<times> nat \<times> nat" where
  "get_tenant_dashboard_metrics db =
     (length (pd_materials db), length (js_unique (map ma_cycleId (pd_materials db))), 0)"

lemma history_of_live_cycles:
  "e \<in> set (get_history u cs ws ts db) \<Longrightarrow>
     he_material e \<in> set (pd_materials db) \<and> (\<exists>c\<in>set (pd_cycles db). cy_id c = ma_cycleId (he_material e) \<and> cy_deletedAt c = None)"
  by (auto simp: get_history_def Let_def find_all_def list_ex_iff)

subsection \<open>What is reviewed is what is printed\<close>

lemma flat_map_find_by_ids: "i \<in> set ids \<Longrightarrow> flat_map (find_by_ids ids b) i = find_one (\<lambda>f. fq_question_id f = i) (rev (bk_flat b))"
proof -
  assume i: "i \<in> set ids"
  have "List.find (\<lambda>f. fq_question_id f = i) (filter (\<lambda>f. fq_question_id f \<in> set ids) xs) = List.find (\<lambda>f. fq_question_id f = i) xs" for xs
    using i by (induction xs) auto
  then show ?thesis by (simp add: flat_map_def find_by_ids_def find_all_def find_one_def rev_filter)
qed

definition in_flat_view :: "bank \<Rightarrow> string \<Rightarrow> bool" where
  "in_flat_view b i = (i \<in> set (map fq_question_id (bk_flat b)))"

lemma in_flat_viewD: "in_flat_view b i \<Longrightarrow> \<exists>f. find_one (\<lambda>f. fq_question_id f = i) (rev (bk_flat b)) = Some f"
proof (cases "find_one (\<lambda>f. fq_question_id f = i) (rev (bk_flat b))")
  case None
  then show "in_flat_view b i \<Longrightarrow> ?thesis" by (auto simp: find_one_None in_flat_view_def)
qed simp

lemma flat_map_None: "flat_map fs i = None \<longleftrightarrow> i \<notin> fq_question_id ` set fs"
  by (auto simp: flat_map_def find_one_None)

lemma review_bank_question_flat:
  assumes "in_flat_view b i" and "i \<in> set ids"
  shows "review_bank_question b ids i = find_one (\<lambda>f. fq_question_id f = i) (rev (bk_flat b))"
proof -
  obtain f where f: "flat_map (find_by_ids ids b) i = Some f"
    using in_flat_viewD [OF assms(1)] flat_map_find_by_ids [OF assms(2)] by auto
  have "flat_map (find_by_ids_from_normalized (filter (\<lambda>j. flat_map (find_by_ids ids b) j = None) ids) b) i = None"
  proof -
    let ?missing = "filter (\<lambda>j. flat_map (find_by_ids ids b) j = None) ids"
    have "i \<notin> set ?missing" using f by simp
    then show ?thesis
      unfolding flat_map_None [of "find_by_ids_from_normalized ?missing b"]
      by (auto simp: find_by_ids_from_normalized_def find_all_def normalized_question_def)
  qed
  then show ?thesis using f flat_map_find_by_ids [OF assms(2)] by (simp add: review_bank_question_def)
qed

lemma review_bank_question_fallback:
  assumes "\<not> in_flat_view b i" and "i \<in> set ids"
  shows "review_bank_question b ids i = None \<longleftrightarrow> (\<forall>q\<in>set (bk_questions b). bq_id q = i \<longrightarrow> \<not> bq_active q)"
proof -
  have none: "flat_map (find_by_ids ids b) i = None"
    using assms(1) by (auto simp: flat_map_None in_flat_view_def find_by_ids_def find_all_def)
  then have "i \<in> set (filter (\<lambda>j. flat_map (find_by_ids ids b) j = None) ids)" using assms(2) by simp
  then have "flat_map (find_by_ids_from_normalized (filter (\<lambda>j. flat_map (find_by_ids ids b) j = None) ids) b) i = None \<longleftrightarrow>
      (\<forall>q\<in>set (bk_questions b). bq_id q = i \<longrightarrow> \<not> bq_active q)"
    unfolding flat_map_None find_by_ids_from_normalized_def find_all_def by (auto simp: normalized_question_def image_iff)
  then show ?thesis using none by (auto simp: review_bank_question_def split: option.splits)
qed

lemma curated_slot_missing:
  assumes "rq_status q \<notin> {RQ_EMPTY, RQ_REMOVED}" and "rq_questionId q = Some i" and "i \<noteq> []" and "flat_map fs i = None"
  shows "curated_slot sign u fs q no_questions = Inr (no_questions\<lparr>cq_missing := [''Falta reactivo con ID '' @ i @ '' en posicion '' @ nat_text (rq_position q)]\<rparr>)"
  using assms by (simp add: curated_slot_def no_questions_def)

lemma printed_slot:
  assumes "rq_status q \<notin> {RQ_EMPTY, RQ_REMOVED}" and "rq_questionId q = Some i" and "i \<noteq> []" and "flat_map fs i = Some f"
    and "curated_slot sign u fs q no_questions = Inr acc"
  obtains x where "extract_question sign u (rq_topicId q) (rq_subtopicId q) f = Inr x" "cq_questions acc = [x]" "cq_missing acc = []"
  using assms by (auto simp: curated_slot_def no_questions_def split: sum.splits)

lemma origin_label: "text_origin u f = nullish (review_origin u f) ''Desconocido''"
  by (simp add: text_origin_def review_origin_def Let_def truthy_str_def split: option.splits)


subsection \<open>A slot\<close>

definition sample_slot :: review_question where
  "sample_slot =
     \<lparr>rq_id = ''r'', rq_materialRequestId = ''m'', rq_questionId = Some ''q'', rq_topicId = ''t'', rq_subtopicId = ''s'',
      rq_expectedLevel = None, rq_position = 1, rq_status = RQ_REPLACED\<rparr>"

definition sample_flat_row :: flat_question where
  "sample_flat_row =
     \<lparr>fq_question_id = ''q'', fq_code = ''c'', fq_level_id = 1, fq_html_content = ''2 + 2'', fq_alternatives = [],
      fq_images = [], fq_solution_images = [], fq_origins = []\<rparr>"

definition sample_review_env :: review_env where
  "sample_review_env =
     \<lparr>rv_bank = \<lparr>bk_questions = [], bk_links = [], bk_subtopics = [], bk_topics = [], bk_alternatives = [],
        bk_question_images = [], bk_flat = [sample_flat_row], bk_levels = []\<rparr>,
      rv_catalog = \<lparr>cg_courses = [], cg_topics = [], cg_subtopics = []\<rparr>, rv_university = (\<lambda>i. None), rv_sign = (\<lambda>k. Some k)\<rparr>"


text \<open>The quotas the reviewer is held to are the configured ones, zeros included; the generation reads a configured
  zero as an absent value.\<close>

lemma quotas_differ_on_zero:
  fixes tc :: template_course
  assumes "tc_questionsQuantity tc = 10" and "tc_easyCount tc = 0" and "tc_mediumCount tc = 5" and "tc_hardCount tc = 5"
    and "find_one (\<lambda>x. tc_courseId x = c \<and> tc_templateId x = mr_profileId request) (pd_templateCourses db) = Some tc"
  shows "difficulty_limits request [c] db = [(c, 0, 5, 5)]" and "level_counts (Some tc) = (10, 4, 5, 1)"
  using assms by (simp_all add: difficulty_limits_def level_counts_def num_or_def)

end
