(* ===== verification/Platform.thy ===== *)
theory Platform
  imports AuthState Planning QuestionBank Locking
begin

text \<open>
  The small services around the core: the onboarding tour (\<open>onboarding/onboarding.service.ts\<close>), the listing of
  users with their roles (\<open>admin/roles/services/users.service.ts\<close>), the CORS origin validator
  (\<open>common/cors/cors-origin.util.ts\<close>), the lifetime of the session cookie (\<open>auth/jwt-expiration.util.ts\<close>), the
  rate limiter's storage (\<open>auth/redis-throttler-storage.ts\<close>), the exception filter, the nightly check of the difficulty levels and the signing of question images with retries
  (\<open>gcs/gcs.service.ts\<close>).
\<close>

subsection \<open>Onboarding\<close>

datatype onboarding_step = Create_Cycle | Create_Pdf_Template | Setup_Syllabus | Generate_Material

definition onboarding_steps :: "onboarding_step list" where
  "onboarding_steps = [Create_Cycle, Create_Pdf_Template, Setup_Syllabus, Generate_Material]"

fun step_completed :: "planning_db \<Rightarrow> onboarding_step \<Rightarrow> bool" where
  "step_completed db Create_Cycle = list_ex (\<lambda>c. cy_deletedAt c = None) (pd_cycles db)"
| "step_completed db Create_Pdf_Template = (pd_designs db \<noteq> [])"
| "step_completed db Setup_Syllabus = list_ex sy_isActive (pd_syllabuses db)"
| "step_completed db Generate_Material = (pd_materials db \<noteq> [])"

record dismissal =
  od_userId :: uuid
  od_isDismissed :: bool

record onboarding_progress =
  op_stepsCompleted :: "onboarding_step list"
  op_isDismissed :: bool
  op_progressPercentage :: int
  op_availableSteps :: "(onboarding_step \<times> bool) list"

text \<open>\<open>Math.round(done / 4 * 100)\<close>\<close>

definition percentage :: "nat \<Rightarrow> int" where
  "percentage n = (2 * (int n * 100) + 4) div 8"

definition get_progress :: "uuid \<Rightarrow> planning_db \<Rightarrow> dismissal list \<Rightarrow> onboarding_progress" where
  "get_progress userId db rows =
     (let available = map (\<lambda>s. (s, step_completed db s)) onboarding_steps;
          completed = map fst (filter snd available)
      in \<lparr>op_stepsCompleted = completed,
          op_isDismissed = (case find_one (\<lambda>r. od_userId r = userId) rows of None \<Rightarrow> False | Some r \<Rightarrow> od_isDismissed r),
          op_progressPercentage = percentage (length completed), op_availableSteps = available\<rparr>)"

text \<open>The atomic upsert of the caller's own row. The foreign key rejects an account that is gone, which the
  service treats as a success without effect.\<close>

definition upsert_tour_dismissal :: "uuid list \<Rightarrow> uuid \<Rightarrow> bool \<Rightarrow> dismissal list \<Rightarrow> dismissal list" where
  "upsert_tour_dismissal users userId b rows =
     (if userId \<notin> set users then rows
      else if list_ex (\<lambda>r. od_userId r = userId) rows
      then update_where (\<lambda>r. od_userId r = userId) (\<lambda>r. r\<lparr>od_isDismissed := b\<rparr>) rows
      else rows @ [\<lparr>od_userId = userId, od_isDismissed = b\<rparr>])"

definition dismiss_tour :: "uuid list \<Rightarrow> uuid \<Rightarrow> dismissal list \<Rightarrow> dismissal list" where
  "dismiss_tour users userId rows = upsert_tour_dismissal users userId True rows"

definition reset_tour :: "uuid list \<Rightarrow> uuid \<Rightarrow> dismissal list \<Rightarrow> dismissal list" where
  "reset_tour users userId rows = upsert_tour_dismissal users userId False rows"

lemma percentage_exact: "percentage n = 25 * int n"
  by (simp add: percentage_def)

lemma progress_bounds:
  "0 \<le> op_progressPercentage (get_progress u db rows)" "op_progressPercentage (get_progress u db rows) \<le> 100"
  using length_filter_le [of snd "map (\<lambda>s. (s, step_completed db s)) onboarding_steps"]
  by (simp_all add: get_progress_def Let_def percentage_exact onboarding_steps_def)

lemma dismissal_read_back:
  assumes "userId \<in> set users"
  shows "op_isDismissed (get_progress u db (upsert_tour_dismissal users userId b rows)) =
    (if u = userId then b else op_isDismissed (get_progress u db rows))"
proof (cases "list_ex (\<lambda>r. od_userId r = userId) rows")
  case True
  let ?rows = "update_where (\<lambda>r. od_userId r = userId) (\<lambda>r. r\<lparr>od_isDismissed := b\<rparr>) rows"
  have rows: "upsert_tour_dismissal users userId b rows = ?rows" using assms True by (simp add: upsert_tour_dismissal_def)
  show ?thesis
  proof (cases "u = userId")
    case same: True
    have "find_one (\<lambda>r. od_userId r = userId) rows \<noteq> None" using True by (auto simp: find_one_None list_ex_iff)
    then obtain r where r: "find_one (\<lambda>r. od_userId r = userId) rows = Some r" by blast
    have "find_one (\<lambda>r. od_userId r = userId) ?rows = Some (r\<lparr>od_isDismissed := b\<rparr>)"
      by (subst find_one_update_where) (simp_all add: r)
    then show ?thesis by (simp add: rows same get_progress_def Let_def)
  next
    case False
    then have "find_one (\<lambda>r. od_userId r = u) ?rows = find_one (\<lambda>r. od_userId r = u) rows"
      by (intro find_one_update_other) auto
    then show ?thesis using False by (simp add: rows get_progress_def Let_def)
  qed
next
  case False
  then have "\<forall>r\<in>set rows. od_userId r \<noteq> userId" by (auto simp: list_ex_iff)
  then have "find_one (\<lambda>r. od_userId r = u) (rows @ [\<lparr>od_userId = userId, od_isDismissed = b\<rparr>]) =
      (if u = userId then Some \<lparr>od_userId = userId, od_isDismissed = b\<rparr> else find_one (\<lambda>r. od_userId r = u) rows)"
    by (induction rows) (auto simp: find_one_def)
  then show ?thesis using assms False by (simp add: get_progress_def upsert_tour_dismissal_def Let_def)
qed

text \<open>The tour in the browser: the store \<open>frontend-vue/src/features/onboarding/store/onboarding.ts\<close> and the home page's
  test for a new institution. A request answers or fails with a message.\<close>

record onboarding_store =
  os_stepsCompleted :: "onboarding_step list"
  os_isDismissed :: bool
  os_progressPercentage :: int
  os_availableSteps :: "(onboarding_step \<times> bool) list"
  os_hasFetched :: bool
  os_isLoading :: bool
  os_error :: "string option"

definition is_complete :: "onboarding_store \<Rightarrow> bool" where
  "is_complete s \<longleftrightarrow> 100 \<le> os_progressPercentage s"

definition fetch_progress :: "string option + onboarding_progress \<Rightarrow> onboarding_store \<Rightarrow> onboarding_store" where
  "fetch_progress r s =
     (if os_isLoading s then s
      else case r of
             Inr p \<Rightarrow> s\<lparr>os_stepsCompleted := op_stepsCompleted p, os_isDismissed := op_isDismissed p,
                 os_progressPercentage := op_progressPercentage p, os_availableSteps := op_availableSteps p,
                 os_hasFetched := True, os_isLoading := False, os_error := None\<rparr>
           | Inl m \<Rightarrow> s\<lparr>os_error := Some (if truthy_str m then the m else ''Error loading onboarding progress''), os_isLoading := False\<rparr>)"

definition dismiss_tour_store :: "string option + unit \<Rightarrow> onboarding_store \<Rightarrow> onboarding_store" where
  "dismiss_tour_store r s = (case r of Inr _ \<Rightarrow> s\<lparr>os_isDismissed := True\<rparr> | Inl _ \<Rightarrow> s)"

definition reset_tour_store :: "string option + unit \<Rightarrow> string option + onboarding_progress \<Rightarrow> onboarding_store \<Rightarrow> onboarding_store" where
  "reset_tour_store r p s =
     (let s1 = s\<lparr>os_isLoading := True\<rparr>
      in (case r of Inr _ \<Rightarrow> fetch_progress p (s1\<lparr>os_isDismissed := False\<rparr>) | Inl _ \<Rightarrow> s1)\<lparr>os_isLoading := False\<rparr>)"

text \<open>The names of the steps in the answer, and the step the home page looks for.\<close>

fun step_id :: "onboarding_step \<Rightarrow> string" where
  "step_id Create_Cycle = ''create_cycle''"
| "step_id Create_Pdf_Template = ''create_pdf_template''"
| "step_id Setup_Syllabus = ''setup_syllabus''"
| "step_id Generate_Material = ''generate_material''"

definition is_brand_new :: "onboarding_store \<Rightarrow> bool" where
  "is_brand_new s =
     (os_hasFetched s \<and>
      (case find_one (\<lambda>(i, _). step_id i = ''load_demo_or_create_cycle'') (os_availableSteps s) of
         None \<Rightarrow> False | Some (_, completed) \<Rightarrow> \<not> completed))"

text \<open>No institution is ever taken for new, and a reset never reads the progress again: its own loading flag stops it.\<close>

lemma never_brand_new: "\<not> is_brand_new s"
proof -
  have "step_id i \<noteq> ''load_demo_or_create_cycle''" for i by (cases i) simp_all
  then show ?thesis by (auto simp: is_brand_new_def split: option.splits dest: find_one_Some)
qed

lemma reset_reads_nothing: "reset_tour_store (Inr ()) p s = s\<lparr>os_isDismissed := False, os_isLoading := False\<rparr>"
  by (simp add: reset_tour_store_def fetch_progress_def Let_def)

lemma fetched_progress:
  "\<not> os_isLoading s \<Longrightarrow> is_complete (fetch_progress (Inr (get_progress u db rows)) s) \<longleftrightarrow> (\<forall>x\<in>set onboarding_steps. step_completed db x)"
  by (auto simp: is_complete_def fetch_progress_def get_progress_def percentage_exact onboarding_steps_def Let_def)

subsection \<open>Users and roles\<close>

record user_listing =
  ul_id :: uuid
  ul_name :: string
  ul_email :: string
  ul_roles :: "(uuid \<times> string) list"

text \<open>The left joins, grouped by user.\<close>

definition find_all_users_with_roles :: "tenant_db \<Rightarrow> user_listing list" where
  "find_all_users_with_roles db =
     map (\<lambda>u. \<lparr>ul_id = u_id u, ul_name = u_name u, ul_email = u_email u,
            ul_roles = concat (map (\<lambda>(v, rid). if v = u_id u
               then map (\<lambda>r. (r_id r, r_name r)) (filter (\<lambda>r. r_id r = rid) (roles (td_roles db))) else [])
              (user_roles (td_roles db)))\<rparr>) (td_users db)"

lemma listed_roles:
  "l \<in> set (find_all_users_with_roles db) \<Longrightarrow>
     (rid, n) \<in> set (ul_roles l) \<longleftrightarrow> (ul_id l, rid) \<in> set (user_roles (td_roles db)) \<and> (\<exists>r\<in>set (roles (td_roles db)). r_id r = rid \<and> r_name r = n)"
  by (fastforce simp: find_all_users_with_roles_def split: if_splits)

subsection \<open>CORS\<close>

definition is_permissive_cors_environment :: "string option \<Rightarrow> bool" where
  "is_permissive_cors_environment nodeEnv = (nullish nodeEnv '''' \<in> {''development'', ''test''})"

definition ends_with :: "string \<Rightarrow> string \<Rightarrow> bool" where
  "ends_with s p = starts_with (rev s) (rev p)"

definition cors_allows :: "string option \<Rightarrow> string \<Rightarrow> string option \<Rightarrow> bool" where
  "cors_allows nodeEnv baseDomain origin =
     (is_permissive_cors_environment nodeEnv \<or> \<not> truthy_str origin \<or>
      the origin \<in> {''https://'' @ baseDomain, ''http://localhost:3001''} \<or> ends_with (the origin) (''.'' @ baseDomain))"

lemma ends_with_iff: "ends_with s p \<longleftrightarrow> (\<exists>t. s = t @ p)"
proof
  assume "ends_with s p"
  then have "rev s = rev p @ drop (length p) (rev s)"
    unfolding ends_with_def starts_with_def by (metis append_take_drop_id length_rev)
  then have "s = rev (drop (length p) (rev s)) @ p" by (metis rev_append rev_rev_ident)
  then show "\<exists>t. s = t @ p" by blast
next
  assume "\<exists>t. s = t @ p"
  then show "ends_with s p" by (auto simp: ends_with_def starts_with_def)
qed

text \<open>Outside development and test, an unset environment included, a page of another site is refused.\<close>

lemma cors_strict:
  assumes "nodeEnv \<noteq> Some ''development''" and "nodeEnv \<noteq> Some ''test''" and "origin \<noteq> []"
  shows "cors_allows nodeEnv base (Some origin) \<longleftrightarrow>
    origin = ''https://'' @ base \<or> origin = ''http://localhost:3001'' \<or> (\<exists>t. origin = t @ ''.'' @ base)"
  using assms by (cases nodeEnv) (auto simp: cors_allows_def is_permissive_cors_environment_def ends_with_iff)

lemma cors_ignores_scheme: "cors_allows None ''odiseo.pe'' (Some ''http://x.odiseo.pe'')"
  by (simp add: cors_allows_def ends_with_iff)

subsection \<open>The lifetime of the session cookie\<close>

definition default_jwt_expiration_ms :: int where
  "default_jwt_expiration_ms = 24 * 60 * 60 * 1000"

definition is_digit :: "char \<Rightarrow> bool" where
  "is_digit c = (let n = of_char c :: nat in 48 \<le> n \<and> n \<le> 57)"

definition digits_value :: "string \<Rightarrow> nat" where
  "digits_value ds = foldl (\<lambda>n c. 10 * n + (of_char c - 48)) 0 ds"

text \<open>\<open>(\d+(?:\.\d+)?)\<close>: the number and the rest of the text.\<close>

definition match_number :: "string \<Rightarrow> (rat \<times> string) option" where
  "match_number s =
     (let whole = takeWhile is_digit s; rest = dropWhile is_digit s
      in if whole = [] then None
         else case rest of
                c # r \<Rightarrow>
                  (let frac = takeWhile is_digit r
                   in if c = CHR ''.'' \<and> frac \<noteq> []
                      then Some (of_nat (digits_value whole) + of_nat (digits_value frac) / 10 ^ length frac, dropWhile is_digit r)
                      else Some (of_nat (digits_value whole), rest))
              | [] \<Rightarrow> Some (of_nat (digits_value whole), rest))"

definition expiration_units :: "string list" where
  "expiration_units =
     [''milliseconds'', ''millisecond'', ''msecs'', ''msec'', ''ms'', ''seconds'', ''second'', ''secs'', ''sec'', ''s'',
      ''minutes'', ''minute'', ''mins'', ''min'', ''m'', ''hours'', ''hour'', ''hrs'', ''hr'', ''h'', ''days'', ''day'', ''d'',
      ''weeks'', ''week'', ''w'', ''years'', ''year'', ''yrs'', ''yr'', ''y'']"

definition unit_ms :: "string \<Rightarrow> int" where
  "unit_ms u =
     (if starts_with u ''ms'' \<or> starts_with u ''millisecond'' then 1
      else case u of
             [] \<Rightarrow> 1
           | c # r \<Rightarrow>
               (if c = CHR ''s'' then 1000 else if c = CHR ''m'' then 60 * 1000 else if c = CHR ''h'' then 60 * 60 * 1000
                else if c = CHR ''d'' then 24 * 60 * 60 * 1000 else if c = CHR ''w'' then 7 * 24 * 60 * 60 * 1000
                else 31557600000))"

definition jwt_expiration_to_ms :: "string option \<Rightarrow> int" where
  "jwt_expiration_to_ms expiration =
     (if \<not> truthy_str expiration then default_jwt_expiration_ms
      else case match_number (js_trim (the expiration)) of
             None \<Rightarrow> default_jwt_expiration_ms
           | Some (value, rest) \<Rightarrow>
               (let u = to_lower (dropWhile is_space rest)
                in if rest \<noteq> [] \<and> u \<notin> set expiration_units then default_jwt_expiration_ms
                   else let ms = \<lfloor>value * of_int (unit_ms u) + 1 / 2\<rfloor>
                        in if ms > 0 then ms else default_jwt_expiration_ms))"

lemma jwt_expiration_positive: "0 < jwt_expiration_to_ms e"
  by (auto simp: jwt_expiration_to_ms_def default_jwt_expiration_ms_def Let_def split: option.splits prod.splits)

subsection \<open>Errors on their way to the client\<close>

text \<open>\<open>common/filters/all-exceptions.filter.ts\<close>: what a handler throws and what the client receives.\<close>

datatype 'j thrown_body = Object_Body 'j | String_Body string
datatype 'j thrown = Http_Thrown nat "'j thrown_body" | Error_Thrown string string | Other_Thrown
datatype 'j payload = Verbatim 'j | Envelope nat string | Debug_Envelope nat string string

definition catch_exception :: "string option \<Rightarrow> 'j thrown \<Rightarrow> nat \<times> 'j payload" where
  "catch_exception nodeEnv e =
     (case e of
        Http_Thrown status (Object_Body j) \<Rightarrow> (status, Verbatim j)
      | Http_Thrown status (String_Body m) \<Rightarrow> (status, Envelope status m)
      | Error_Thrown name message \<Rightarrow>
          (500, if nodeEnv \<noteq> Some ''production'' then Debug_Envelope 500 name message else Envelope 500 ''Internal server error'')
      | Other_Thrown \<Rightarrow> (500, Envelope 500 ''Internal server error''))"

text \<open>In production an unexpected error tells the client nothing about itself.\<close>

lemma unexpected_errors_hidden:
  assumes "\<nexists>status b. e = Http_Thrown status b" and "\<nexists>status b. e' = Http_Thrown status b"
  shows "catch_exception (Some ''production'') e = catch_exception (Some ''production'') e'"
  using assms by (cases e; cases e') (simp_all add: catch_exception_def)

lemma details_leak_unless_production: "catch_exception None (Error_Thrown n m) = (500, Debug_Envelope 500 n m)"
  by (simp add: catch_exception_def)

subsection \<open>The rate limiter\<close>

record throttle_record =
  th_totalHits :: nat
  th_timeToExpire :: int
  th_isBlocked :: bool
  th_timeToBlockExpire :: int

text \<open>\<open>base\<close> is what the Redis script answers, \<open>None\<close> when Redis is unreachable.\<close>

definition throttle_increment :: "throttle_record option \<Rightarrow> int \<Rightarrow> throttle_record" where
  "throttle_increment base ttl =
     (case base of
        Some r \<Rightarrow> r
      | None \<Rightarrow> \<lparr>th_totalHits = 0, th_timeToExpire = (ttl + 999) div 1000, th_isBlocked = False, th_timeToBlockExpire = 0\<rparr>)"

subsection \<open>The check of the difficulty levels\<close>

text \<open>
  The nightly check that the mapped level ids exist in the bank (\<open>question-bank/question-level-id-reconciliation.cron.ts\<close>),
  with the one row that records its last outcome. \<open>reads\<close>: the bank answers; \<open>persists\<close>: the row can be written.\<close>

record level_check_state =
  lc_lastCheckedAt :: millis
  lc_passed :: bool
  lc_expectedCount :: nat
  lc_foundCount :: nat
  lc_missingIds :: "int list"

definition record_level_check :: "millis \<Rightarrow> nat \<times> nat \<times> int list \<Rightarrow> level_check_state option \<Rightarrow> level_check_state option" where
  "record_level_check now r st =
     (case r of (expected, found, missing) \<Rightarrow> Some \<lparr>lc_lastCheckedAt = now, lc_passed = (missing = []), lc_expectedCount = expected,
        lc_foundCount = found, lc_missingIds = missing\<rparr>)"

definition run_level_check :: "bool \<Rightarrow> bool \<Rightarrow> millis \<Rightarrow> bank \<Rightarrow> level_check_state option \<Rightarrow> level_check_state option" where
  "run_level_check reads persists now b st = (if reads \<and> persists then record_level_check now (check_level_ids b) st else st)"

definition level_check_key :: string where
  "level_check_key = ''cron:question-bank:question-level-id-check''"

definition check_question_level_ids ::
  "bool \<Rightarrow> bool \<Rightarrow> bool \<Rightarrow> millis \<Rightarrow> bank \<Rightarrow> unit redis \<Rightarrow> level_check_state option \<Rightarrow> unit option \<times> unit redis \<times> level_check_state option" where
  "check_question_level_ids online reads persists now b m st =
     run_exclusively online now level_check_key (15 * 60 * 1000) (\<lambda>s. ((), run_level_check reads persists now b s)) m st"

text \<open>A recorded pass means that every difficulty has its levels in the bank.\<close>

lemma level_check_sound:
  assumes "check_question_level_ids online reads persists now b m None = (r, m', Some st)"
  shows "lc_passed st \<longleftrightarrow> set all_mapped_question_level_ids \<subseteq> set (bk_levels b)"
    and "lc_expectedCount st = lc_foundCount st + length (lc_missingIds st)"
proof -
  have st: "st = \<lparr>lc_lastCheckedAt = now, lc_passed = (filter (\<lambda>i. i \<notin> set (bk_levels b)) all_mapped_question_level_ids = []),
      lc_expectedCount = length all_mapped_question_level_ids,
      lc_foundCount = length all_mapped_question_level_ids - length (filter (\<lambda>i. i \<notin> set (bk_levels b)) all_mapped_question_level_ids),
      lc_missingIds = filter (\<lambda>i. i \<notin> set (bk_levels b)) all_mapped_question_level_ids\<rparr>"
    using assms by (auto simp: check_question_level_ids_def run_exclusively_def run_level_check_def record_level_check_def
        check_level_ids_def Let_def split: prod.splits bool.splits if_splits)
  show "lc_passed st \<longleftrightarrow> set all_mapped_question_level_ids \<subseteq> set (bk_levels b)"
    by (auto simp: st filter_empty_conv)
  show "lc_expectedCount st = lc_foundCount st + length (lc_missingIds st)"
    by (simp add: st)
qed

subsection \<open>Signed image URLs\<close>

definition max_attempts :: nat where
  "max_attempts = 3"

text \<open>How long an attempt takes: until it settles or its timer fires.\<close>

definition attempt_time :: "millis \<Rightarrow> string settled \<Rightarrow> millis" where
  "attempt_time timeoutMs a =
     (case a of Resolves t v \<Rightarrow> min t timeoutMs | Rejects t e \<Rightarrow> min t timeoutMs | NeverSettles \<Rightarrow> timeoutMs)"

text \<open>The loop: \<open>left\<close> attempts after attempt number \<open>n\<close>; the result and the time spent.\<close>

fun sign_attempts :: "millis \<Rightarrow> (nat \<Rightarrow> string settled) \<Rightarrow> nat \<Rightarrow> nat \<Rightarrow> (timeout_error + string) \<times> millis" where
  "sign_attempts timeoutMs outcome n left =
     (case with_timeout (outcome n) ''GCS signing'' timeoutMs of
        Inr url \<Rightarrow> (Inr url, attempt_time timeoutMs (outcome n))
      | Inl e \<Rightarrow>
          (case left of
             0 \<Rightarrow> (Inl e, attempt_time timeoutMs (outcome n))
           | Suc k \<Rightarrow>
               (case sign_attempts timeoutMs outcome (n + 1) k of
                  (r, t) \<Rightarrow> (r, attempt_time timeoutMs (outcome n) + int n * 500 + t))))"

declare sign_attempts.simps [simp del]

definition get_signed_url :: "millis \<Rightarrow> (nat \<Rightarrow> string settled) \<Rightarrow> string \<Rightarrow> (timeout_error + string) \<times> millis" where
  "get_signed_url timeoutMs outcome gcsKey =
     (if gcsKey = [] then (Inr [], 0)
      else if starts_with gcsKey ''http://'' \<or> starts_with gcsKey ''https://'' then (Inr gcsKey, 0)
      else sign_attempts timeoutMs outcome 1 (max_attempts - 1))"

lemma attempt_time_le: "attempt_time timeoutMs a \<le> timeoutMs"
  by (simp add: attempt_time_def split: settled.split)

text \<open>Signing ends within three timeouts and the two pauses, whatever the network does, and its answer is that of the
  first of the three attempts that succeeds in time.\<close>

lemma signing_bounded:
  assumes "0 \<le> timeoutMs"
  shows "snd (get_signed_url timeoutMs outcome gcsKey) \<le> 3 * timeoutMs + 1500"
proof -
  have le: "attempt_time timeoutMs (outcome n) \<le> timeoutMs" for n by (rule attempt_time_le)
  have "snd (sign_attempts timeoutMs outcome 1 2) \<le> 3 * timeoutMs + 1500"
    using le [of 1] le [of 2] le [of 3] assms
    by (simp add: sign_attempts.simps [of _ _ _ "Suc (Suc 0)"] sign_attempts.simps [of _ _ _ "Suc 0"] sign_attempts.simps [of _ _ _ 0]
        numeral_2_eq_2 numeral_3_eq_3 split: sum.splits)
  then show ?thesis using assms by (simp add: get_signed_url_def max_attempts_def numeral_2_eq_2)
qed

end
