(* ===== verification/FrontAuth.thy ===== *)
theory FrontAuth
  imports RoleGraph
begin

text \<open>
  The session of the browser application and the guard of its navigation: the store
  \<open>frontend-vue/src/stores/auth.store.ts\<close>, the global middleware \<open>frontend-vue/src/middleware/auth.global.ts\<close>, the
  recovery from the password hold \<open>frontend-vue/src/core/auth/password-change-required.ts\<close>, the vocabulary
  \<open>frontend-vue/src/core/auth/permissions.ts\<close> and what each page under \<open>frontend-vue/src/pages\<close> declares.
  Requests are values: what the server answered, or the status it failed with.
\<close>

subsection \<open>The session\<close>

record front_user =
  fu_id :: uuid
  fu_name :: string
  fu_email :: string
  fu_companyId :: uuid
  fu_roles :: "string list option"
  fu_permissions :: "string list option"
  fu_forcePasswordReset :: "bool option"

record branding =
  bg_commercialName :: string
  bg_logoUrl :: "string option"
  bg_primaryColor :: "string option"

record session =
  ss_user :: "front_user option"
  ss_branding :: "branding option"
  ss_isAuthenticated :: bool
  ss_isInitialized :: bool

datatype 'a reply = Answer 'a | Failed "nat option"

definition new_session :: session where
  "new_session = \<lparr>ss_user = None, ss_branding = None, ss_isAuthenticated = False, ss_isInitialized = False\<rparr>"

definition force_password_reset :: "session \<Rightarrow> bool" where
  "force_password_reset s = (case ss_user s of None \<Rightarrow> False | Some u \<Rightarrow> fu_forcePasswordReset u = Some True)"

definition get_subdomain :: "string \<Rightarrow> string" where
  "get_subdomain host =
     (let parts = split_on CHR ''.'' host
      in if 2 \<le> length parts \<and> hd parts \<noteq> ''www'' \<and> hd parts \<noteq> ''localhost'' then hd parts else ''odiseo'')"

definition fetch_branding :: "branding reply \<Rightarrow> session \<Rightarrow> session" where
  "fetch_branding r s = (case r of Answer b \<Rightarrow> s\<lparr>ss_branding := Some b\<rparr> | Failed _ \<Rightarrow> s)"

definition login :: "front_user option reply \<Rightarrow> session \<Rightarrow> bool \<times> session" where
  "login r s =
     (case r of
        Answer (Some u) \<Rightarrow> (True, s\<lparr>ss_user := Some u, ss_isAuthenticated := True\<rparr>)
      | Answer None \<Rightarrow> (False, s)
      | Failed _ \<Rightarrow> (False, s))"

definition fetch_me :: "front_user option reply \<Rightarrow> session \<Rightarrow> session" where
  "fetch_me r s =
     (case r of
        Answer (Some u) \<Rightarrow> s\<lparr>ss_user := Some u, ss_isAuthenticated := True, ss_isInitialized := True\<rparr>
      | Answer None \<Rightarrow> s\<lparr>ss_user := None, ss_isAuthenticated := False, ss_isInitialized := True\<rparr>
      | Failed _ \<Rightarrow> s\<lparr>ss_user := None, ss_isAuthenticated := False, ss_isInitialized := True\<rparr>)"

datatype change_password_result = Password_Changed | Invalid_Current_Password | Weak_Password | Rate_Limited | Unknown_Reason

definition change_password_store :: "unit reply \<Rightarrow> front_user option reply \<Rightarrow> session \<Rightarrow> change_password_result \<times> session" where
  "change_password_store r me s =
     (case r of
        Answer _ \<Rightarrow> (Password_Changed, fetch_me me s)
      | Failed status \<Rightarrow>
          (if status = Some 401 then Invalid_Current_Password
           else if status = Some 400 then Weak_Password
           else if status = Some 429 then Rate_Limited
           else Unknown_Reason, s))"

definition mark_password_change_required :: "session \<Rightarrow> session" where
  "mark_password_change_required s =
     (case ss_user s of None \<Rightarrow> s | Some u \<Rightarrow> s\<lparr>ss_user := Some (u\<lparr>fu_forcePasswordReset := Some True\<rparr>)\<rparr>)"

text \<open>The store is cleared before the request; whatever it answers, a browser then loads \<open>/login\<close>.\<close>

definition logout :: "session \<Rightarrow> session" where
  "logout s = s\<lparr>ss_user := None, ss_isAuthenticated := False\<rparr>"

definition has_permission :: "session \<Rightarrow> string \<Rightarrow> bool" where
  "has_permission s p = (case ss_user s of None \<Rightarrow> False | Some u \<Rightarrow> p \<in> set (nullish (fu_permissions u) []))"

definition has_role :: "session \<Rightarrow> string \<Rightarrow> bool" where
  "has_role s r = (case ss_user s of None \<Rightarrow> False | Some u \<Rightarrow> r \<in> set (nullish (fu_roles u) []))"

text \<open>The actions a page can take on the store.\<close>

datatype session_action =
    Fetch_Branding "branding reply"
  | Log_In "front_user option reply"
  | Fetch_Me "front_user option reply"
  | Change_Password "unit reply" "front_user option reply"
  | Mark_Required
  | Log_Out

fun session_step :: "session \<Rightarrow> session_action \<Rightarrow> session" where
  "session_step s (Fetch_Branding r) = fetch_branding r s"
| "session_step s (Log_In r) = snd (login r s)"
| "session_step s (Fetch_Me r) = fetch_me r s"
| "session_step s (Change_Password r me) = snd (change_password_store r me s)"
| "session_step s Mark_Required = mark_password_change_required s"
| "session_step s Log_Out = logout s"

definition session_ok :: "session \<Rightarrow> bool" where
  "session_ok s \<longleftrightarrow> (ss_isAuthenticated s \<longleftrightarrow> ss_user s \<noteq> None)"

lemma session_ok_new: "session_ok new_session"
  by (simp add: session_ok_def new_session_def)

lemma session_ok_fetch_me [simp]: "session_ok (fetch_me r s)"
  by (simp add: session_ok_def fetch_me_def split: reply.split option.split)

lemma session_ok_logout [simp]: "session_ok (logout s)"
  by (simp add: session_ok_def logout_def)

lemma session_ok_step: "session_ok s \<Longrightarrow> session_ok (session_step s a)"
proof (cases a)
  case (Change_Password r me)
  then show "session_ok s \<Longrightarrow> ?thesis" by (cases r) (simp_all add: change_password_store_def)
qed (auto simp: session_ok_def fetch_branding_def login_def fetch_me_def mark_password_change_required_def logout_def
    split: reply.split option.split)

interpretation sessions: invariant_system session_step session_ok "\<lambda>_. True"
  by unfold_locales (rule session_ok_step)

lemma session_ok_run: "session_ok (foldl session_step new_session as)"
  by (rule sessions.run_inv) (simp_all add: session_ok_new)

lemma initialized_fetch_me [simp]: "ss_isInitialized (fetch_me r s)"
  by (simp add: fetch_me_def split: reply.split option.split)

subsection \<open>The password hold, as the API reports it\<close>

record api_error =
  ae_status :: "nat option"
  ae_statusCode :: "nat option"
  ae_data_code :: "string option"
  ae_code :: "string option"

definition change_password_path :: string where
  "change_password_path = ''/change-password''"

definition is_password_change_required_error :: "api_error \<Rightarrow> bool" where
  "is_password_change_required_error e =
     ((case ae_status e of None \<Rightarrow> ae_statusCode e | Some n \<Rightarrow> Some n) = Some 403 \<and>
      (case ae_data_code e of None \<Rightarrow> ae_code e | Some c \<Rightarrow> Some c) = Some ''PASSWORD_CHANGE_REQUIRED'')"

text \<open>Whether the error was handled, where the page navigates to, and the session.\<close>

definition handle_password_change_required :: "string \<Rightarrow> api_error \<Rightarrow> session \<Rightarrow> bool \<times> string option \<times> session" where
  "handle_password_change_required pathname e s =
     (if is_password_change_required_error e
      then (True, if pathname \<noteq> change_password_path then Some change_password_path else None, mark_password_change_required s)
      else (False, None, s))"

text \<open>The interceptors of the client: every request carries the subdomain, every failure passes through the hold.\<close>

definition apply_subdomain_header :: "string \<Rightarrow> (string \<rightharpoonup> string) \<Rightarrow> (string \<rightharpoonup> string)" where
  "apply_subdomain_header subdomain headers = headers(''x-subdomain'' \<mapsto> subdomain)"

definition handle_api_response_error :: "string \<Rightarrow> nat \<Rightarrow> string option \<Rightarrow> session \<Rightarrow> bool \<times> string option \<times> session" where
  "handle_api_response_error pathname status code s =
     handle_password_change_required pathname \<lparr>ae_status = Some status, ae_statusCode = None, ae_data_code = code, ae_code = None\<rparr> s"

lemma hold_marked:
  assumes "handle_api_response_error pathname status code s = (True, nav, s')" and "ss_user s \<noteq> None"
  shows "force_password_reset s'" and "status = 403" and "nav = None \<longleftrightarrow> pathname = change_password_path"
  using assms by (auto simp: handle_api_response_error_def handle_password_change_required_def is_password_change_required_error_def
      mark_password_change_required_def force_password_reset_def split: if_splits option.splits)

subsection \<open>Pages\<close>

definition front_permissions :: "string list" where
  "front_permissions =
     [''MANAGE_ROLES'', ''MANAGE_USERS'', ''MANAGE_TENANTS'', ''LIST_TENANT_ADMINS'', ''CREATE_TENANT_ADMINS'',
      ''EDIT_TENANT_ADMINS'', ''CHANGE_PASSWORD_TENANT_ADMINS'', ''DELETE_TENANT_ADMINS'', ''VIEW_SYLLABUS'', ''EDIT_SYLLABUS'',
      ''VIEW_ACADEMIC_TIME'', ''MANAGE_ACADEMIC_TIME'', ''VIEW_CATALOGS'', ''EDIT_CATALOGS'', ''VIEW_MATERIALS'',
      ''EDIT_MATERIALS'']"

text \<open>The contract of the two vocabularies.\<close>

lemma permissions_contract: "front_permissions = permissions"
  by (simp add: front_permissions_def permissions_def MANAGE_TENANTS_def)

datatype segment = Fixed string | Param

record page =
  pg_pattern :: "segment list"
  pg_permissions :: "string list option"
  pg_redirect :: "string option"

definition open_page :: "segment list \<Rightarrow> page" where
  "open_page pat = \<lparr>pg_pattern = pat, pg_permissions = None, pg_redirect = None\<rparr>"

definition gated_page :: "segment list \<Rightarrow> string list \<Rightarrow> page" where
  "gated_page pat ps = \<lparr>pg_pattern = pat, pg_permissions = Some ps, pg_redirect = None\<rparr>"

definition login_page :: page where "login_page = open_page [Fixed ''login'']"
definition change_password_page :: page where "change_password_page = open_page [Fixed ''change-password'']"
definition home_page :: page where "home_page = open_page []"
definition dashboard_page :: page where "dashboard_page = open_page [Fixed ''admin'', Fixed ''dashboard'']"
definition tenants_page :: page where "tenants_page = open_page [Fixed ''admin'', Fixed ''tenants'']"
definition subscriptions_page :: page where "subscriptions_page = open_page [Fixed ''admin'', Fixed ''subscriptions'']"
definition admin_page :: page where "admin_page = (open_page [Fixed ''admin''])\<lparr>pg_redirect := Some ''/admin/dashboard''\<rparr>"
definition catalogs_page :: page where "catalogs_page = gated_page [Fixed ''catalogs''] [''VIEW_CATALOGS'']"
definition materials_page :: page where "materials_page = gated_page [Fixed ''materials''] [''VIEW_MATERIALS'', ''EDIT_MATERIALS'']"
definition review_page :: page where "review_page = gated_page [Fixed ''materials'', Param, Fixed ''review''] [''EDIT_MATERIALS'']"
definition config_page :: page where "config_page = gated_page [Fixed ''config''] [''EDIT_MATERIALS'']"
definition syllabus_page :: page where "syllabus_page = gated_page [Fixed ''syllabus''] [''VIEW_SYLLABUS'']"
definition academic_time_page :: page where "academic_time_page = gated_page [Fixed ''academic-time''] [''VIEW_ACADEMIC_TIME'']"

definition cycle_page :: page where
  "cycle_page = gated_page [Fixed ''academic-time'', Fixed ''cycles'', Param] [''VIEW_ACADEMIC_TIME'']"

definition cycle_materials_page :: page where
  "cycle_materials_page = gated_page [Fixed ''academic-time'', Fixed ''cycles'', Param, Fixed ''materials''] [''VIEW_ACADEMIC_TIME'']"

definition cycle_template_page :: page where
  "cycle_template_page = gated_page [Fixed ''academic-time'', Fixed ''cycles'', Param, Fixed ''materials'', Param] [''VIEW_ACADEMIC_TIME'']"

definition pages :: "page list" where
  "pages =
     [login_page, change_password_page, home_page, dashboard_page, tenants_page, subscriptions_page, admin_page, catalogs_page,
      materials_page, review_page, config_page, syllabus_page, academic_time_page, cycle_page, cycle_materials_page,
      cycle_template_page]"

lemmas page_defs =
  login_page_def change_password_page_def home_page_def dashboard_page_def tenants_page_def subscriptions_page_def
  admin_page_def catalogs_page_def materials_page_def review_page_def config_page_def syllabus_page_def academic_time_page_def
  cycle_page_def cycle_materials_page_def cycle_template_page_def open_page_def gated_page_def

lemma page_permissions_known:
  "g \<in> set pages \<Longrightarrow> pg_permissions g = Some ps \<Longrightarrow> set ps \<subseteq> set permissions"
  by (auto simp: pages_def page_defs permissions_contract [symmetric] front_permissions_def)

text \<open>The router matches without regard to case or to a trailing slash (its defaults).\<close>

definition path_segments :: "string \<Rightarrow> string list" where
  "path_segments path =
     (let ss = tl (split_on CHR ''/'' path) in if ss \<noteq> [] \<and> last ss = [] then butlast ss else ss)"

fun matches_pattern :: "segment list \<Rightarrow> string list \<Rightarrow> bool" where
  "matches_pattern [] [] = True"
| "matches_pattern (Fixed f # pat) (x # xs) = (to_lower f = to_lower x \<and> matches_pattern pat xs)"
| "matches_pattern (Param # pat) (x # xs) = (x \<noteq> [] \<and> matches_pattern pat xs)"
| "matches_pattern _ _ = False"

definition page_of :: "string \<Rightarrow> page option" where
  "page_of path = find_one (\<lambda>g. matches_pattern (pg_pattern g) (path_segments path)) pages"

subsection \<open>The guard\<close>

definition landing_routes :: "(string \<times> string list) list" where
  "landing_routes =
     [(''/materials'', [''VIEW_MATERIALS'', ''EDIT_MATERIALS'']), (''/academic-time'', [''VIEW_ACADEMIC_TIME'']),
      (''/syllabus'', [''VIEW_SYLLABUS'']), (''/catalogs'', [''VIEW_CATALOGS''])]"

definition resolve_landing_path :: "string \<Rightarrow> session \<Rightarrow> string option" where
  "resolve_landing_path host s =
     (if get_subdomain host = ''odiseo'' then Some ''/admin/dashboard''
      else map_option fst (find_one (\<lambda>(_, ps). list_ex (has_permission s) ps) landing_routes))"

datatype verdict = Allow | Redirect string | Abort string

definition no_permissions :: "session \<Rightarrow> bool" where
  "no_permissions s = (case ss_user s of None \<Rightarrow> True | Some u \<Rightarrow> nullish (fu_permissions u) [] = [])"

definition admin_path :: "string \<Rightarrow> bool" where
  "admin_path path = (path = ''/admin'' \<or> starts_with path ''/admin/'')"

definition auth_guard ::
  "front_user option reply \<Rightarrow> string \<Rightarrow> string list option \<Rightarrow> string list option \<Rightarrow> string \<Rightarrow> session \<Rightarrow> session \<times> verdict" where
  "auth_guard me host requiredRoles requiredPermissions path s0 =
     (let s = (if ss_isInitialized s0 then s0 else fetch_me me s0); landing = resolve_landing_path host s in
      if ss_isAuthenticated s \<and> force_password_reset s
      then (s, if path \<noteq> change_password_path then Redirect change_password_path else Allow)
      else if path = change_password_path
      then (s, Redirect (if ss_isAuthenticated s then nullish landing ''/'' else ''/login''))
      else if path = ''/login''
      then if ss_isAuthenticated s
           then case landing of
                  Some p \<Rightarrow> (s, Redirect p)
                | None \<Rightarrow> if no_permissions s then (logout s, Allow) else (s, Allow)
           else (s, Allow)
      else if \<not> ss_isAuthenticated s then (s, Redirect ''/login'')
      else if admin_path path \<and> get_subdomain host \<noteq> ''odiseo'' then (s, Redirect (nullish landing ''/''))
      else if \<not> list_ex (has_role s) (nullish requiredRoles []) \<and> requiredRoles \<noteq> None
      then (s, Abort ''Access Denied: Insufficient roles'')
      else if \<not> list_ex (has_permission s) (nullish requiredPermissions []) \<and> requiredPermissions \<noteq> None
      then (s, Abort ''Access Denied: Missing required permission'')
      else (s, Allow))"

subsection \<open>A navigation\<close>

datatype shown = Shown string page | Not_Found string | Denied string | Redirecting string

text \<open>The router runs the global guard, then the page's own middleware, and starts again at the target of a redirect,
  here at most \<open>n\<close> times. No page declares roles.\<close>

fun navigate :: "nat \<Rightarrow> front_user option reply \<Rightarrow> string \<Rightarrow> string \<Rightarrow> session \<Rightarrow> session \<times> shown" where
  "navigate n me host path s =
     (let page = page_of path;
          redirect = (\<lambda>s' p. case n of 0 \<Rightarrow> (s', Redirecting p) | Suc k \<Rightarrow> navigate k me host p s')
      in case auth_guard me host None (Option.bind page pg_permissions) path s of
           (s', Redirect p) \<Rightarrow> redirect s' p
         | (s', Abort m) \<Rightarrow> (s', Denied m)
         | (s', Allow) \<Rightarrow>
             (case page of
                None \<Rightarrow> (s', Not_Found path)
              | Some g \<Rightarrow> (case pg_redirect g of None \<Rightarrow> (s', Shown path g) | Some p \<Rightarrow> redirect s' p)))"

declare navigate.simps [simp del]

text \<open>What a shown page guarantees.\<close>

definition may_show :: "string \<Rightarrow> session \<Rightarrow> string \<Rightarrow> page \<Rightarrow> bool" where
  "may_show host s path g \<longleftrightarrow>
     (if ss_isAuthenticated s \<and> force_password_reset s then path = change_password_path
      else path = ''/login'' \<or>
        (ss_isAuthenticated s \<and> path \<noteq> change_password_path \<and>
         (admin_path path \<longrightarrow> get_subdomain host = ''odiseo'') \<and>
         pred_option (list_ex (has_permission s)) (pg_permissions g)))"

lemma auth_guard_initialized: "auth_guard me host rs ps path s0 = (s, v) \<Longrightarrow> session_ok s0 \<Longrightarrow> session_ok s"
  by (auto simp: auth_guard_def Let_def split: if_splits option.splits)

lemma after_guard: "auth_guard me host rs ps path s0 = (s, Redirect p) \<Longrightarrow> ss_isInitialized s"
  by (auto simp: auth_guard_def Let_def split: if_splits option.splits)

lemma guard_allow:
  "auth_guard me host None (pg_permissions g) path s0 = (s, Allow) \<Longrightarrow> may_show host s path g"
  by (cases "pg_permissions g")
    (auto simp: auth_guard_def may_show_def logout_def change_password_path_def Let_def split: if_splits option.splits)

lemma page_of_login: "page_of ''/login'' = Some login_page"
  by code_simp

lemma page_of_change_password: "page_of ''/change-password'' = Some change_password_page"
  by code_simp

lemma page_of_home: "page_of ''/'' = Some home_page"
  by code_simp

lemma page_of_dashboard: "page_of ''/admin/dashboard'' = Some dashboard_page"
  by code_simp

lemma page_of_materials: "page_of ''/materials'' = Some materials_page"
  by code_simp

lemma page_of_academic_time: "page_of ''/academic-time'' = Some academic_time_page"
  by code_simp

lemma page_of_syllabus: "page_of ''/syllabus'' = Some syllabus_page"
  by code_simp

lemma page_of_catalogs: "page_of ''/catalogs'' = Some catalogs_page"
  by code_simp

lemmas known_pages =
  page_of_login page_of_change_password page_of_home page_of_dashboard page_of_materials
  page_of_academic_time page_of_syllabus page_of_catalogs

lemma landing_cases:
  assumes "resolve_landing_path host s = Some p"
  obtains g where "page_of p = Some g" "pg_redirect g = None" "p \<noteq> change_password_path" "p \<noteq> ''/login''"
    "admin_path p \<longrightarrow> get_subdomain host = ''odiseo''" "pred_option (list_ex (has_permission s)) (pg_permissions g)"
proof (cases "get_subdomain host = ''odiseo''")
  case True
  with assms have "p = ''/admin/dashboard''" by (simp add: resolve_landing_path_def)
  with True show ?thesis
    by (intro that [of dashboard_page]) (simp_all add: known_pages page_defs change_password_path_def)
next
  case False
  with assms obtain ps where ps: "(p, ps) \<in> set landing_routes" "list_ex (has_permission s) ps"
    by (auto simp: resolve_landing_path_def dest!: find_one_Some)
  from ps(1) have "p = ''/materials'' \<and> ps = [''VIEW_MATERIALS'', ''EDIT_MATERIALS''] \<or> p = ''/academic-time'' \<and> ps = [''VIEW_ACADEMIC_TIME'']
    \<or> p = ''/syllabus'' \<and> ps = [''VIEW_SYLLABUS''] \<or> p = ''/catalogs'' \<and> ps = [''VIEW_CATALOGS'']"
    unfolding landing_routes_def by (simp only: list.set insert_iff empty_iff prod.inject simp_thms)
  moreover have "''/materials'' \<notin> {change_password_path, ''/login''}" "''/academic-time'' \<notin> {change_password_path, ''/login''}"
    "''/syllabus'' \<notin> {change_password_path, ''/login''}" "''/catalogs'' \<notin> {change_password_path, ''/login''}"
    "\<not> admin_path ''/materials''" "\<not> admin_path ''/academic-time''" "\<not> admin_path ''/syllabus''" "\<not> admin_path ''/catalogs''"
    by (simp_all add: change_password_path_def admin_path_def starts_with_def)
  moreover have "pg_redirect materials_page = None" "pg_permissions materials_page = Some [''VIEW_MATERIALS'', ''EDIT_MATERIALS'']"
    "pg_redirect academic_time_page = None" "pg_permissions academic_time_page = Some [''VIEW_ACADEMIC_TIME'']"
    "pg_redirect syllabus_page = None" "pg_permissions syllabus_page = Some [''VIEW_SYLLABUS'']"
    "pg_redirect catalogs_page = None" "pg_permissions catalogs_page = Some [''VIEW_CATALOGS'']"
    by (simp_all add: page_defs)
  ultimately show ?thesis using ps(2) known_pages that
    by (elim disjE conjE) (metis insertCI option.pred_inject(2))+
qed

lemma guard_settled:
  assumes "ss_isInitialized s" and "page_of p = Some g" and "may_show host s p g" and "p = ''/login'' \<Longrightarrow> \<not> ss_isAuthenticated s"
  shows "auth_guard me host None (pg_permissions g) p s = (s, Allow)"
proof (cases "p = ''/login''")
  case True
  moreover have "''/login'' \<noteq> change_password_path" by (simp add: change_password_path_def)
  ultimately show ?thesis using assms by (simp add: auth_guard_def Let_def)
next
  case False
  then show ?thesis using assms(1,3)
    by (cases "pg_permissions g") (simp_all add: auth_guard_def may_show_def Let_def split: if_splits)
qed

lemma guard_redirect:
  assumes "auth_guard me host None ps path s0 = (s, Redirect p)"
  obtains g where "page_of p = Some g" "pg_redirect g = None" "auth_guard me host None (pg_permissions g) p s = (s, Allow)"
proof -
  have init: "ss_isInitialized s" by (rule after_guard [OF assms])
  consider "p = change_password_path" "ss_isAuthenticated s" "force_password_reset s"
    | "p = ''/login''" "\<not> ss_isAuthenticated s"
    | "ss_isAuthenticated s" "\<not> force_password_reset s" "resolve_landing_path host s = Some p"
    | "ss_isAuthenticated s" "\<not> force_password_reset s" "resolve_landing_path host s = None" "p = ''/''"
    using assms by (cases "resolve_landing_path host s") (auto simp: auth_guard_def Let_def split: if_splits option.splits)
  then show ?thesis
  proof cases
    case 1
    then show ?thesis using init
      by (intro that [of change_password_page] guard_settled) (simp_all add: known_pages page_defs change_password_path_def may_show_def)
  next
    case 2
    then show ?thesis using init
      by (intro that [of login_page] guard_settled) (simp_all add: known_pages page_defs may_show_def)
  next
    case 3
    then show ?thesis using init
      by (elim landing_cases, intro that guard_settled) (simp_all add: may_show_def)
  next
    case 4
    then show ?thesis using init
      by (intro that [of home_page] guard_settled)
        (simp_all add: known_pages page_defs may_show_def change_password_path_def admin_path_def starts_with_def)
  qed
qed

lemma page_redirect: "page_of path = Some g \<Longrightarrow> pg_redirect g = Some p \<Longrightarrow> p = ''/admin/dashboard''"
  by (auto simp: page_of_def pages_def page_defs dest!: find_one_Some)

definition settled :: "string \<Rightarrow> session \<times> shown \<Rightarrow> bool" where
  "settled host r \<longleftrightarrow>
     (case r of (s, Shown p g) \<Rightarrow> page_of p = Some g \<and> may_show host s p g | (s, Redirecting p) \<Rightarrow> False | _ \<Rightarrow> True)"

lemma navigate_redirected:
  assumes "auth_guard me host None ps path s0 = (s, Redirect p)"
  shows "settled host (navigate n me host p s)"
proof (rule guard_redirect [OF assms])
  fix g assume "page_of p = Some g" "pg_redirect g = None" "auth_guard me host None (pg_permissions g) p s = (s, Allow)"
  then show ?thesis by (subst navigate.simps) (simp add: settled_def guard_allow)
qed

lemma navigate_dashboard: "settled host (navigate (Suc n) me host ''/admin/dashboard'' s)"
proof (cases "auth_guard me host None (pg_permissions dashboard_page) ''/admin/dashboard'' s")
  case (Pair s' v)
  then show ?thesis
    by (cases v) (auto simp: navigate.simps [of "Suc n"] known_pages settled_def guard_allow dashboard_page_def open_page_def
        dest: navigate_redirected [where n = n])
qed

text \<open>
  C39. Every navigation settles after at most two redirects, whatever the session and the address: it ends with a page, a
  refusal or a page that does not exist. A page is shown to a user whose password must change only if it is the page
  that changes it; any other page but the login is shown to an authenticated user who holds one of the permissions it
  declares, and a path under /admin on the platform's own subdomain.\<close>

theorem navigation_settles: "settled host (navigate 2 me host path s)"
proof (cases "auth_guard me host None (Option.bind (page_of path) pg_permissions) path s")
  case guard: (Pair s' v)
  show ?thesis
  proof (cases v)
    case (Redirect p)
    then show ?thesis
      using guard navigate_redirected [of me host _ path s s' p 1] 
      by (simp add: numeral_2_eq_2 navigate.simps [of "Suc (Suc 0)"])
  next
    case (Abort m)
    then show ?thesis using guard by (simp add: numeral_2_eq_2 navigate.simps [of "Suc (Suc 0)"] settled_def)
  next
    case Allow
    then show ?thesis
      using guard page_redirect [of path] navigate_dashboard [of host 0 me s'] guard_allow [of me host _ path s s']
      by (cases "page_of path") (auto simp: numeral_2_eq_2 navigate.simps [of "Suc (Suc 0)"] settled_def [of _ "(_, Not_Found _)"] settled_def [of _ "(_, Shown _ _)"] split: option.splits)
  qed
qed

text \<open>The gate of the administration pages compares the path as typed, the router does not regard case.\<close>

lemma admin_gate_by_case:
  assumes "ss_isInitialized s" "ss_isAuthenticated s" "\<not> force_password_reset s"
  shows "navigate 2 me ''colegio.odiseo.pe'' ''/Admin/tenants'' s = (s, Shown ''/Admin/tenants'' tenants_page)"
proof -
  have page: "page_of ''/Admin/tenants'' = Some tenants_page"
    by code_simp
  have path: "\<not> admin_path ''/Admin/tenants''" "''/Admin/tenants'' \<noteq> change_password_path" "''/Admin/tenants'' \<noteq> ''/login''"
    by (simp_all add: admin_path_def starts_with_def change_password_path_def)
  have "auth_guard me ''colegio.odiseo.pe'' None None ''/Admin/tenants'' s = (s, Allow)"
    using assms path unfolding auth_guard_def by (simp only: Let_def if_True if_False simp_thms)
  then show ?thesis by (simp add: navigate.simps [of 2] page tenants_page_def open_page_def)
qed

end
