(* ===== verification/AuthSession.thy ===== *)
theory AuthSession
  imports Guards Platform FrontAuth
begin

text \<open>
  The life of a session: \<open>AuthController\<close> (\<open>auth/auth.controller.ts\<close>) over \<open>AuthService\<close>, the cookie it sets and clears,
  and what the browser's store (\<open>FrontAuth\<close>) makes of its answers. The rate limit of the routes is the framework's.
\<close>

subsection \<open>The cookie\<close>

record environment =
  ev_NODE_ENV :: "string option"
  ev_COOKIE_DOMAIN :: "string option"
  ev_JWT_EXPIRATION :: "string option"

record cookie_options =
  ko_httpOnly :: bool
  ko_secure :: bool
  ko_sameSite :: string
  ko_domain :: "string option"
  ko_path :: string

definition cookie_options_of :: "environment \<Rightarrow> cookie_options" where
  "cookie_options_of env =
     \<lparr>ko_httpOnly = True, ko_secure = (ev_NODE_ENV env = Some ''production''), ko_sameSite = ''strict'',
      ko_domain = (if truthy_str (ev_COOKIE_DOMAIN env) then ev_COOKIE_DOMAIN env else None), ko_path = ''/''\<rparr>"

datatype cookie_header = Set_Cookie string cookie_options int | Clear_Cookie cookie_options

text \<open>A browser keeps a cookie under its domain and path.\<close>

definition receive_cookie :: "cookie_header \<Rightarrow> (string option \<times> string \<rightharpoonup> string) \<Rightarrow> (string option \<times> string \<rightharpoonup> string)" where
  "receive_cookie h jar =
     (case h of
        Set_Cookie v k maxAge \<Rightarrow> (if 0 < maxAge then jar((ko_domain k, ko_path k) \<mapsto> v) else jar((ko_domain k, ko_path k) := None))
      | Clear_Cookie k \<Rightarrow> jar((ko_domain k, ko_path k) := None))"

subsection \<open>The handlers\<close>

datatype session_error = Service_Error "auth_msg http_error" | Invalid_Credentials

definition login_user :: "login_result \<Rightarrow> session_user" where
  "login_user r =
     \<lparr>su_id = u_id (lr_user r), su_email = u_email (lr_user r), su_name = u_name (lr_user r), su_companyId = lr_companyId r,
      su_roles = lr_roles r, su_permissions = lr_permissions r, su_forcePasswordReset = u_forcePasswordReset (lr_user r)\<rparr>"

text \<open>\<open>sign\<close> is the JWT library: the token of an account, a company and its roles.\<close>

definition login_handler ::
  "environment \<Rightarrow> (uuid \<Rightarrow> uuid \<Rightarrow> string list \<Rightarrow> string) \<Rightarrow> (string \<Rightarrow> company option) \<Rightarrow> (string \<Rightarrow> string \<Rightarrow> bool)
    \<Rightarrow> string \<Rightarrow> string \<Rightarrow> string \<Rightarrow> auth_world \<Rightarrow> session_error + cookie_header \<times> session_user" where
  "login_handler env sign findBySubdomain compare email password subdomain w =
     (case validate_user findBySubdomain compare email password subdomain w of
        Inl e \<Rightarrow> Inl (Service_Error e)
      | Inr None \<Rightarrow> Inl Invalid_Credentials
      | Inr (Some r) \<Rightarrow>
          Inr (Set_Cookie (sign (u_id (lr_user r)) (lr_companyId r) (lr_roles r)) (cookie_options_of env)
                 (jwt_expiration_to_ms (ev_JWT_EXPIRATION env)), login_user r))"

definition me_handler :: "jwt_payload \<Rightarrow> auth_world \<Rightarrow> auth_msg http_error + session_user" where
  "me_handler payload w = get_user_from_token payload w"

text \<open>\<open>logout\<close> always clears the cookie; the revocation is attempted for a token that verifies.\<close>

definition logout_handler ::
  "environment \<Rightarrow> (string \<Rightarrow> jwt_payload option) \<Rightarrow> bool \<Rightarrow> write_io \<Rightarrow> millis \<Rightarrow> string option \<Rightarrow> auth_world
    \<Rightarrow> cookie_header \<times> auth_world" where
  "logout_handler env verify dbOk wio now token w =
     (Clear_Cookie (cookie_options_of env),
      if \<not> truthy_str token then w
      else case verify_token verify (the token) of
             Inl e \<Rightarrow> w
           | Inr payload \<Rightarrow> snd (revoke_user_tokens dbOk wio now (jp_companyId payload) (jp_sub payload) w))"

subsection \<open>Laws\<close>

text \<open>A login is admitted only with the account's password, in a company that is not suspended.\<close>

lemma login_admits:
  assumes "login_handler env sign lookup compare email password subdomain w = Inr (c, u)"
  obtains company r where "lookup subdomain = Some company" "co_status company \<noteq> SUSPENDED" "su_companyId u = co_id company"
    "r \<in> set (td_users (aw_db w (tenant_schema (co_id company))))" "u_email r = email" "u_isActive r"
    "compare password (u_passwordHash r)" "su_id u = u_id r"
  using assms
  by (fastforce simp: login_handler_def validate_user_def login_user_def Let_def
      split: sum.splits option.splits if_splits dest: find_one_Some)

text \<open>The two handlers name the same cookie: what a login set, a logout removes, and nothing else.\<close>

lemma logout_removes_cookie:
  assumes "login_handler env sign lookup compare email password subdomain w = Inr (c, u)" and "jar (ko_domain (cookie_options_of env), ''/'') = None"
  shows "receive_cookie c jar (ko_domain (cookie_options_of env), ''/'') \<noteq> None"
    and "receive_cookie (fst (logout_handler env verify dbOk wio now token w')) (receive_cookie c jar) = jar"
  using assms jwt_expiration_positive [of "ev_JWT_EXPIRATION env"]
  by (auto simp: login_handler_def logout_handler_def receive_cookie_def cookie_options_of_def split: sum.splits option.splits)

text \<open>
  A copy of the cookie taken before the logout is refused afterwards: the logout stamps the account, and the guards
  compare the stamp with the instant of issue, in whole seconds. A token issued within the second of the logout passes.\<close>

lemma logout_revokes:
  assumes "verify tok = Some payload" and "tok \<noteq> []" and "takes_effect wio"
    and "find_one (\<lambda>x. u_id x = jp_sub payload) (td_users (aw_db w (tenant_schema (jp_companyId payload)))) = Some usr"
    and "valid_schema (tenant_schema (jp_companyId payload))" and "\<not> flag md_isPublic route"
    and "truthy_str requestCompanyId \<longrightarrow> requestCompanyId = Some (jp_companyId payload)"
  shows "(\<exists>e. fst (guard_chain verify rio wio' now now' route (Some tok) requestCompanyId
      (snd (logout_handler env verify True wio T (Some tok) w))) = Inl e) \<or> T div 1000 \<le> jp_iat payload"
proof (cases "T div 1000 \<le> jp_iat payload")
  case False
  define w1 where "w1 = snd (revoke_user_tokens True wio T (jp_companyId payload) (jp_sub payload) w)"
  have "revoke_user_tokens True wio T (jp_companyId payload) (jp_sub payload) w = (Inr (), w1)"
    using assms(5) by (simp add: revoke_user_tokens_def w1_def Let_def)
  from state_after_revocation [OF this assms(4), of now rio wio' now'] assms(3)
  obtain w2 s where state: "get_user_auth_state rio wio' now now' (jp_sub payload) (jp_companyId payload) w1 = (Inr s, w2)"
    and "ca_tokensValidAfter s = Some T" by blast
  with False have revoked: "token_revoked payload s" by (simp add: token_revoked_def)
  have "snd (logout_handler env verify True wio T (Some tok) w) = w1"
    using assms(1,2) by (simp add: logout_handler_def truthy_str_def verify_token_def w1_def)
  then show ?thesis
    using assms(1,2,6,7) state revoked
    by (auto simp: guard_chain_def jwt_auth_guard_def jwt_try_def truthy_str_def verify_token_def)
qed simp

text \<open>What the browser's store holds after a login is what the server found.\<close>

definition front_user_of :: "session_user \<Rightarrow> front_user" where
  "front_user_of u = \<lparr>fu_id = su_id u, fu_name = su_name u, fu_email = su_email u, fu_companyId = su_companyId u,
     fu_roles = Some (su_roles u), fu_permissions = Some (su_permissions u), fu_forcePasswordReset = Some (su_forcePasswordReset u)\<rparr>"

definition login_reply :: "session_error + cookie_header \<times> session_user \<Rightarrow> front_user option reply" where
  "login_reply r = (case r of Inr (c, u) \<Rightarrow> Answer (Some (front_user_of u)) | Inl e \<Rightarrow> Failed (Some 401))"

lemma login_shown:
  shows "has_permission (snd (login (login_reply (Inr (c, u))) s)) p \<longleftrightarrow> p \<in> set (su_permissions u)"
    and "force_password_reset (snd (login (login_reply (Inr (c, u))) s)) \<longleftrightarrow> su_forcePasswordReset u"
  by (simp_all add: login_def login_reply_def front_user_of_def has_permission_def force_password_reset_def)

end
