(* ===== verification/FrontReview.thy ===== *)
theory FrontReview
  imports Review
begin

text \<open>
  The reviewer's side of a material: the review part of the store \<open>frontend-vue/src/features/materials/store/materials.ts\<close>
  with its draft in the browser's storage, and the list \<open>frontend-vue/src/features/materials/components/MaterialReviewList.vue\<close>
  whose actions change it and post drafts. Its last lemmas run both sides together: what the reviewer sees when
  approving is what the server stores.
\<close>

subsection \<open>The store\<close>

record 'q draft =
  dr_replacements :: "(uuid, string) js_map"
  dr_replacementsData :: "(uuid, 'q) js_map"
  dr_removals :: "uuid list"

definition no_draft :: "'q draft" where
  "no_draft = \<lparr>dr_replacements = [], dr_replacementsData = [], dr_removals = []\<rparr>"

text \<open>The storage holds the text of a draft, or text that does not parse. \<open>ms_watcherQueued\<close>: a change of the draft has
  queued the watcher, which runs at the next pause of the code.\<close>

record 'q materials_store =
  ms_isLoading :: bool
  ms_error :: "string option"
  ms_currentReview :: "review_response option"
  ms_draft :: "'q draft"
  ms_watcherQueued :: bool
  ms_storage :: "(string, 'q draft option) js_map"

datatype 'a answer = Data 'a | Refused "string option"

definition draft_key :: "uuid \<Rightarrow> string" where
  "draft_key i = ''draft_'' @ i"

definition set_draft :: "'q draft \<Rightarrow> 'q materials_store \<Rightarrow> 'q materials_store" where
  "set_draft d s = s\<lparr>ms_draft := d, ms_watcherQueued := True\<rparr>"

text \<open>The watcher saves the draft under the material that is on screen when it runs.\<close>

definition run_watcher :: "'q materials_store \<Rightarrow> 'q materials_store" where
  "run_watcher s =
     (if \<not> ms_watcherQueued s then s
      else case ms_currentReview s of
             None \<Rightarrow> s\<lparr>ms_watcherQueued := False\<rparr>
           | Some r \<Rightarrow>
               if rr_materialId r = [] then s\<lparr>ms_watcherQueued := False\<rparr>
               else s\<lparr>ms_watcherQueued := False,
                      ms_storage := js_map_set (draft_key (rr_materialId r)) (Some (ms_draft s)) (ms_storage s)\<rparr>)"

definition fetch_review_start :: "uuid \<Rightarrow> 'q materials_store \<Rightarrow> 'q materials_store" where
  "fetch_review_start materialId s =
     (let s' = (if map_option rr_materialId (ms_currentReview s) = Some materialId then s
                else set_draft (case map_of (ms_storage s) (draft_key materialId) of
                       Some (Some d) \<Rightarrow> d
                     | Some None \<Rightarrow> no_draft
                     | None \<Rightarrow> no_draft) s)
      in s'\<lparr>ms_isLoading := True, ms_error := None\<rparr>)"

definition fetch_review_end :: "review_response answer \<Rightarrow> 'q materials_store \<Rightarrow> 'q materials_store" where
  "fetch_review_end r s =
     (case r of
        Data d \<Rightarrow> s\<lparr>ms_currentReview := Some d, ms_isLoading := False\<rparr>
      | Refused m \<Rightarrow> s\<lparr>ms_error := Some (nullish m ''Error al cargar datos de revision''), ms_isLoading := False\<rparr>)"

definition fetch_review_data :: "uuid \<Rightarrow> review_response answer \<Rightarrow> 'q materials_store \<Rightarrow> 'q materials_store" where
  "fetch_review_data materialId r s = fetch_review_end r (run_watcher (fetch_review_start materialId s))"

definition approve_curation :: "uuid \<Rightarrow> 'a answer \<Rightarrow> 'q materials_store \<Rightarrow> 'q materials_store" where
  "approve_curation materialId r s =
     (let s' = run_watcher (s\<lparr>ms_isLoading := True, ms_error := None\<rparr>)
      in case r of
           Data _ \<Rightarrow> run_watcher ((set_draft no_draft s')\<lparr>ms_storage := js_map_delete (draft_key materialId) (ms_storage s'), ms_isLoading := False\<rparr>)
         | Refused m \<Rightarrow> s'\<lparr>ms_error := Some (nullish m ''Error al aprobar revision''), ms_isLoading := False\<rparr>)"

subsection \<open>The actions of the list\<close>

text \<open>A question chosen in the search; \<open>pk_data\<close> is the object, whose fields the list lays over the slot's.\<close>

record 'q picked =
  pk_questionId :: "string option"
  pk_id :: string
  pk_data :: 'q

definition picked_id :: "'q picked \<Rightarrow> string" where
  "picked_id q = (if truthy_str (pk_questionId q) then the (pk_questionId q) else pk_id q)"

text \<open>The body of a draft or of an approval, as it is sent.\<close>

record review_body =
  vb_version :: int
  vb_continueWithWarnings :: "bool option"
  vb_replacements :: "(uuid \<times> string) list"
  vb_removals :: "uuid list"

definition draft_body :: "review_response option \<Rightarrow> (uuid \<times> string) list \<Rightarrow> uuid list \<Rightarrow> review_body option" where
  "draft_body review replacements removals =
     map_option (\<lambda>r. \<lparr>vb_version = rr_version r, vb_continueWithWarnings = None, vb_replacements = replacements,
       vb_removals = removals\<rparr>) review"

definition handle_question_selected :: "uuid \<Rightarrow> 'q picked \<Rightarrow> 'q materials_store \<Rightarrow> 'q materials_store \<times> review_body option" where
  "handle_question_selected slot q s =
     (let d = ms_draft s; qId = picked_id q in
      (run_watcher (set_draft \<lparr>dr_replacements = js_map_set slot qId (dr_replacements d),
         dr_replacementsData = js_map_set slot (pk_data q) (dr_replacementsData d), dr_removals = removeAll slot (dr_removals d)\<rparr> s),
       draft_body (ms_currentReview s) [(slot, qId)] []))"

definition confirm_remove :: "uuid \<Rightarrow> 'q materials_store \<Rightarrow> 'q materials_store \<times> review_body option" where
  "confirm_remove slot s =
     (let d = ms_draft s;
          d' = d\<lparr>dr_replacements := js_map_delete slot (dr_replacements d),
                 dr_removals := if slot \<in> set (dr_removals d) then dr_removals d else dr_removals d @ [slot]\<rparr>
      in (if d' = d then s else run_watcher (set_draft d' s), draft_body (ms_currentReview s) [] [slot]))"

definition handle_restore :: "uuid \<Rightarrow> 'q materials_store \<Rightarrow> 'q materials_store" where
  "handle_restore slot s =
     (let d = ms_draft s;
          d' = d\<lparr>dr_replacements := js_map_delete slot (dr_replacements d), dr_removals := removeAll slot (dr_removals d)\<rparr>
      in if d' = d then s else run_watcher (set_draft d' s))"

definition approve_body :: "bool \<Rightarrow> 'q materials_store \<Rightarrow> review_body option" where
  "approve_body continueWithWarnings s =
     map_option (\<lambda>r. \<lparr>vb_version = rr_version r, vb_continueWithWarnings = Some continueWithWarnings,
       vb_replacements = dr_replacements (ms_draft s), vb_removals = dr_removals (ms_draft s)\<rparr>) (ms_currentReview s)"

subsection \<open>What the list shows\<close>

record shown_slot =
  sh_item :: review_item
  sh_displayPosition :: "nat option"

text \<open>A slot with the pending changes: the picked object's fields over the slot's, then its own id, the status and the
  question.\<close>

definition pending_item :: "('q \<Rightarrow> review_item \<Rightarrow> review_item) \<Rightarrow> 'q draft \<Rightarrow> review_item \<Rightarrow> review_item" where
  "pending_item overlay d q =
     (if ri_id q \<in> set (dr_removals d) then q\<lparr>ri_status := RQ_REMOVED\<rparr>
      else if truthy_str (map_of (dr_replacements d) (ri_id q))
      then (case map_of (dr_replacementsData d) (ri_id q) of None \<Rightarrow> q | Some x \<Rightarrow> overlay x q)
             \<lparr>ri_id := ri_id q, ri_status := RQ_REPLACED, ri_questionId := map_of (dr_replacements d) (ri_id q)\<rparr>
      else q)"

fun number_items :: "nat \<Rightarrow> review_item list \<Rightarrow> shown_slot list" where
  "number_items n [] = []"
| "number_items n (q # qs) =
     (if ri_status q \<noteq> RQ_REMOVED \<and> truthy_str (ri_questionId q)
      then \<lparr>sh_item = q, sh_displayPosition = Some n\<rparr> # number_items (n + 1) qs
      else \<lparr>sh_item = q, sh_displayPosition = None\<rparr> # number_items n qs)"

definition shown_questions :: "('q \<Rightarrow> review_item \<Rightarrow> review_item) \<Rightarrow> 'q materials_store \<Rightarrow> shown_slot list" where
  "shown_questions overlay s =
     (case ms_currentReview s of
        None \<Rightarrow> []
      | Some r \<Rightarrow> number_items 1 (map (pending_item overlay (ms_draft s)) (rr_questions r)))"

definition has_empty_slots :: "shown_slot list \<Rightarrow> bool" where
  "has_empty_slots qs = list_ex (\<lambda>q. ri_status (sh_item q) = RQ_EMPTY) qs"

datatype review_tab = All_Tab | Empty_Tab | Replaced_Tab | Removed_Tab

definition in_tab :: "review_tab \<Rightarrow> shown_slot \<Rightarrow> bool" where
  "in_tab tab q =
     (case tab of
        All_Tab \<Rightarrow> True
      | Empty_Tab \<Rightarrow> ri_status (sh_item q) = RQ_EMPTY
      | Replaced_Tab \<Rightarrow> ri_status (sh_item q) = RQ_REPLACED
      | Removed_Tab \<Rightarrow> ri_status (sh_item q) = RQ_REMOVED)"

definition items_per_page :: nat where
  "items_per_page = 10"

definition total_pages :: "'a list \<Rightarrow> nat" where
  "total_pages qs = max 1 ((length qs + 9) div items_per_page)"

definition page_of_questions :: "nat \<Rightarrow> 'a list \<Rightarrow> 'a list" where
  "page_of_questions n qs = take items_per_page (drop ((n - 1) * items_per_page) qs)"

subsection \<open>The server's end\<close>

text \<open>The validation pipe: every field is required, the identifiers of slots are UUIDs.\<close>

definition dto_of_body :: "(string \<Rightarrow> bool) \<Rightarrow> review_body \<Rightarrow> approve_dto option" where
  "dto_of_body is_uuid b =
     (case vb_continueWithWarnings b of
        None \<Rightarrow> None
      | Some c \<Rightarrow>
          if list_all is_uuid (map fst (vb_replacements b)) \<and> list_all is_uuid (vb_removals b)
          then Some \<lparr>ad_version = vb_version b, ad_continueWithWarnings = c, ad_replacements = vb_replacements b,
                 ad_removals = vb_removals b\<rparr>
          else None)"

text \<open>\<open>POST :id/draft\<close>; the store ignores the failure of the request.\<close>

definition post_draft :: "(string \<Rightarrow> bool) \<Rightarrow> millis \<Rightarrow> uuid \<Rightarrow> review_body option \<Rightarrow> planning_db \<Rightarrow> planning_db" where
  "post_draft is_uuid now i body db =
     (case Option.bind body (dto_of_body is_uuid) of
        None \<Rightarrow> db
      | Some dto \<Rightarrow> (case save_draft now db i dto db of Inl e \<Rightarrow> db | Inr (_, db') \<Rightarrow> db'))"

text \<open>\<open>POST :id/approve\<close>: \<open>None\<close> is a body that was not sent or not valid.\<close>

definition post_approve ::
  "(string \<Rightarrow> bool) \<Rightarrow> millis \<Rightarrow> company_branding option \<Rightarrow> review_context \<Rightarrow> uuid \<Rightarrow> review_body option \<Rightarrow> planning_db
    \<Rightarrow> (planning_error + request_status) option \<times> planning_db \<times> queue_job list" where
  "post_approve is_uuid now company ctx i body db =
     (case Option.bind body (dto_of_body is_uuid) of
        None \<Rightarrow> (None, db, [])
      | Some dto \<Rightarrow> (case approve_review now db company ctx i dto db of (r, db', jobs) \<Rightarrow> (Some r, db', jobs)))"

text \<open>A run of the list: the reviewer's actions, each with its draft.\<close>

datatype 'q ui_action = Pick uuid "'q picked" millis | Remove uuid millis | Restore uuid

definition ui_step :: "(string \<Rightarrow> bool) \<Rightarrow> uuid \<Rightarrow> 'q materials_store \<times> planning_db \<Rightarrow> 'q ui_action \<Rightarrow> 'q materials_store \<times> planning_db" where
  "ui_step is_uuid i = (\<lambda>(s, db) a.
     (case a of
        Pick slot q now \<Rightarrow> (case handle_question_selected slot q s of (s', body) \<Rightarrow> (s', post_draft is_uuid now i body db))
      | Remove slot now \<Rightarrow> (case confirm_remove slot s of (s', body) \<Rightarrow> (s', post_draft is_uuid now i body db))
      | Restore slot \<Rightarrow> (handle_restore slot s, db)))"

subsection \<open>The draft in the browser\<close>

lemma run_watcher_fields [simp]:
  "ms_currentReview (run_watcher s) = ms_currentReview s" "ms_draft (run_watcher s) = ms_draft s" "\<not> ms_watcherQueued (run_watcher s)"
  by (simp_all add: run_watcher_def split: option.split)

lemma set_draft_fields [simp]:
  "ms_currentReview (set_draft d s) = ms_currentReview s" "ms_draft (set_draft d s) = d" "ms_watcherQueued (set_draft d s)"
  "ms_storage (set_draft d s) = ms_storage s"
  by (simp_all add: set_draft_def)

text \<open>The draft of the material on screen is what the storage holds for it.\<close>

definition synced :: "uuid \<Rightarrow> 'q materials_store \<Rightarrow> bool" where
  "synced i s \<longleftrightarrow> map_option rr_materialId (ms_currentReview s) = Some i \<and> i \<noteq> [] \<and>
     map_of (ms_storage s) (draft_key i) = Some (Some (ms_draft s))"

lemma watcher_syncs:
  "map_option rr_materialId (ms_currentReview s) = Some i \<Longrightarrow> i \<noteq> [] \<Longrightarrow> ms_watcherQueued s \<Longrightarrow> synced i (run_watcher s)"
  by (auto simp: synced_def run_watcher_def map_of_js_map_set)

text \<open>A reload starts a new store over the same storage.\<close>

definition reloaded :: "'q materials_store \<Rightarrow> 'q materials_store" where
  "reloaded s = \<lparr>ms_isLoading = False, ms_error = None, ms_currentReview = None, ms_draft = no_draft, ms_watcherQueued = False,
     ms_storage = ms_storage s\<rparr>"

lemma draft_survives_reload:
  assumes "synced i s"
  shows "ms_draft (fetch_review_data i r (reloaded s)) = ms_draft s"
    and "ms_storage (fetch_review_data i r (reloaded s)) = ms_storage s"
  using assms by (auto simp: fetch_review_data_def fetch_review_start_def fetch_review_end_def reloaded_def synced_def run_watcher_def
      set_draft_def Let_def split: answer.split)

text \<open>Opening another material replaces the saved draft of the one on screen: the watcher runs before the new review
  arrives.\<close>

lemma draft_overwritten:
  assumes "ms_currentReview s = Some r" and "rr_materialId r \<noteq> i" and "rr_materialId r \<noteq> []"
  shows "map_of (ms_storage (fetch_review_data i x s)) (draft_key (rr_materialId r)) = Some (Some (ms_draft (fetch_review_data i x s)))"
  using assms by (auto simp: fetch_review_data_def fetch_review_start_def fetch_review_end_def run_watcher_def map_of_js_map_set
      set_draft_def Let_def split: answer.split)

text \<open>The entry an approval removes is written back, empty.\<close>

lemma approved_draft_returns:
  assumes "ms_currentReview s = Some r" and "rr_materialId r = i" and "i \<noteq> []"
  shows "map_of (ms_storage (approve_curation i (Data x) s)) (draft_key i) = Some (Some no_draft)"
  using assms by (simp add: approve_curation_def Let_def) (simp add: run_watcher_def map_of_js_map_set)

subsection \<open>The drafts on their way to the server\<close>

lemma draft_body_invalid: "Option.bind (draft_body review rs ms) (dto_of_body is_uuid) = None"
  by (cases review) (simp_all add: draft_body_def dto_of_body_def)

text \<open>No draft is ever stored: the body lacks a field the validation requires, and the failure is ignored.\<close>

lemma post_draft_idle [simp]: "post_draft is_uuid now i (draft_body review rs ms) db = db"
  by (simp add: post_draft_def draft_body_invalid)

lemma ui_step_db [simp]: "snd (ui_step is_uuid i (s, db) a) = db"
  by (cases a) (simp_all add: ui_step_def handle_question_selected_def confirm_remove_def Let_def)

lemma ui_run_db: "snd (foldl (ui_step is_uuid i) (s, db) as) = db"
proof (induction as arbitrary: s)
  case (Cons a as)
  then show ?case using ui_step_db [of is_uuid i s db a] by (cases "ui_step is_uuid i (s, db) a") simp
qed simp

text \<open>Were the body complete, the first draft would leave the reviewer with a version that is no longer current: every
  later write is refused as another reviewer's.\<close>

lemma bumped_version_gone:
  assumes "bump_version now i v db = Inr db'"
  shows "bump_version now' i v db' = Inl (Conflict ReviewedByOther)"
proof -
  have "db' = db\<lparr>pd_requests := update_where (\<lambda>r. mr_id r = i \<and> mr_version r = v)
      (\<lambda>r. r\<lparr>mr_version := mr_version r + 1, mr_updatedAt := now\<rparr>) (pd_requests db)\<rparr>"
    using assms by (simp add: bump_version_def Let_def split: if_splits)
  moreover have "affected (\<lambda>r. mr_id r = i \<and> mr_version r = v)
      (update_where (\<lambda>r. mr_id r = i \<and> mr_version r = v) (\<lambda>r. r\<lparr>mr_version := mr_version r + 1, mr_updatedAt := now\<rparr>) rs) = 0" for rs
    by (simp add: affected_def update_where_def filter_empty_conv)
  ultimately show ?thesis by (simp add: bump_version_def Let_def)
qed

lemma own_draft_refuses_approval:
  assumes "save_draft now db i dto db = Inr ((), db')" and "ad_version dto' = ad_version dto"
    and "find_one (\<lambda>r. mr_id r = i) (pd_requests seen) \<noteq> None"
  shows "approve_review now' seen company ctx i dto' db' = (Inl (Conflict ReviewedByOther), db', [])"
proof -
  obtain db1 where db1: "bump_version now i (ad_version dto) db = Inr db1" "db' = apply_curation i dto db1"
    using assms(1) by (auto simp: save_draft_def split: option.splits sum.splits)
  have "pd_requests db' = pd_requests db1" by (simp add: db1(2) apply_curation_def)
  then have "bump_version now' i (ad_version dto') db' = Inl (Conflict ReviewedByOther)"
    using bumped_version_gone [OF db1(1), of now'] by (simp add: bump_version_def assms(2) Let_def split: if_splits)
  then show ?thesis using assms(3) by (auto simp: approve_review_def approve_tx_def)
qed

subsection \<open>What is approved is what was shown\<close>

definition draft_ok :: "'q draft \<Rightarrow> bool" where
  "draft_ok d \<longleftrightarrow> distinct (map fst (dr_replacements d)) \<and> [] \<notin> set (map snd (dr_replacements d)) \<and>
     set (map fst (dr_replacements d)) \<inter> set (dr_removals d) = {}"

fun sane_action :: "'q ui_action \<Rightarrow> bool" where
  "sane_action (Pick slot q now) = (picked_id q \<noteq> [])"
| "sane_action _ = True"

lemma draft_ok_none: "draft_ok no_draft"
  by (simp add: draft_ok_def no_draft_def)

lemma set_js_map_set: "set (js_map_set k v m) \<subseteq> insert (k, v) (set m)"
  by (induction k v m rule: js_map_set.induct) auto

lemma keys_js_map_delete: "set (map fst (js_map_delete k m)) = set (map fst m) - {k}"
  by (auto simp: js_map_delete_def)

lemma ui_step_review: "ms_currentReview (fst (ui_step is_uuid i (s, db) a)) = ms_currentReview s"
  by (cases a) (simp_all add: ui_step_def handle_question_selected_def confirm_remove_def handle_restore_def Let_def)

lemma ui_step_draft_ok:
  assumes "draft_ok (ms_draft s)" and "sane_action a"
  shows "draft_ok (ms_draft (fst (ui_step is_uuid i (s, db) a)))"
proof (cases a)
  case (Pick slot q now)
  have "set (map snd (js_map_set slot (picked_id q) (dr_replacements (ms_draft s)))) \<subseteq> insert (picked_id q) (set (map snd (dr_replacements (ms_draft s))))"
    using set_js_map_set [of slot "picked_id q" "dr_replacements (ms_draft s)"] by fastforce
  then show ?thesis using assms Pick
    by (auto simp: ui_step_def handle_question_selected_def Let_def draft_ok_def distinct_js_map_set js_map_set_keys simp del: set_map)
next
  case (Remove slot now)
  have "set (map snd (js_map_delete slot (dr_replacements (ms_draft s)))) \<subseteq> set (map snd (dr_replacements (ms_draft s)))"
    by (auto simp: js_map_delete_def)
  then show ?thesis using assms Remove
    by (auto simp: ui_step_def confirm_remove_def Let_def draft_ok_def distinct_js_map_delete keys_js_map_delete simp del: set_map)
next
  case (Restore slot)
  have "set (map snd (js_map_delete slot (dr_replacements (ms_draft s)))) \<subseteq> set (map snd (dr_replacements (ms_draft s)))"
    by (auto simp: js_map_delete_def)
  then show ?thesis using assms Restore
    by (auto simp: ui_step_def handle_restore_def Let_def draft_ok_def distinct_js_map_delete keys_js_map_delete simp del: set_map)
qed

lemma ui_run:
  assumes "list_all sane_action as" and "draft_ok (ms_draft s)"
  shows "draft_ok (ms_draft (fst (foldl (ui_step is_uuid i) (s, db) as))) \<and>
    ms_currentReview (fst (foldl (ui_step is_uuid i) (s, db) as)) = ms_currentReview s"
  using assms
proof (induction as arbitrary: s)
  case (Cons a as)
  obtain s' where s': "ui_step is_uuid i (s, db) a = (s', db)"
    using ui_step_db [of is_uuid i s db a] by (cases "ui_step is_uuid i (s, db) a") simp
  then have "draft_ok (ms_draft s')" "ms_currentReview s' = ms_currentReview s"
    using ui_step_draft_ok [OF Cons.prems(2), of a is_uuid i db] ui_step_review [of is_uuid i s db a] Cons.prems(1) by simp_all
  then show ?case using Cons.IH [of s'] Cons.prems(1) s' by simp
qed simp

text \<open>The effect of a curation on one row.\<close>

definition curated_row :: "uuid \<Rightarrow> approve_dto \<Rightarrow> review_question \<Rightarrow> review_question" where
  "curated_row i dto x =
     (if rq_materialRequestId x \<noteq> i then x
      else let y = (case map_of (ad_replacements dto) (rq_id x) of
                      None \<Rightarrow> x | Some q \<Rightarrow> x\<lparr>rq_questionId := Some q, rq_status := RQ_REPLACED\<rparr>)
           in if rq_id x \<in> set (ad_removals dto) then y\<lparr>rq_status := RQ_REMOVED\<rparr> else y)"

lemma replaced_rows:
  assumes "distinct (map fst rs)"
  shows "fold (replace_question i) rs rows = map (\<lambda>x. if rq_materialRequestId x \<noteq> i then x else
     case map_of rs (rq_id x) of None \<Rightarrow> x | Some q \<Rightarrow> x\<lparr>rq_questionId := Some q, rq_status := RQ_REPLACED\<rparr>) rows"
  using assms
proof (induction rs arbitrary: rows)
  case (Cons r rs)
  then show ?case
    by (cases r) (auto simp: replace_question_def update_where_def split: option.splits dest!: map_of_SomeD, (force)?)
qed (simp add: map_idI)

lemma removed_rows:
  "fold (remove_question i) ms rows =
     map (\<lambda>x. if rq_materialRequestId x = i \<and> rq_id x \<in> set ms then x\<lparr>rq_status := RQ_REMOVED\<rparr> else x) rows"
  by (induction ms arbitrary: rows) (auto simp: remove_question_def update_where_def)

lemma apply_curation_rows:
  "distinct (map fst (ad_replacements dto)) \<Longrightarrow>
     pd_reviewQuestions (apply_curation i dto db) = map (curated_row i dto) (pd_reviewQuestions db)"
  by (auto simp: apply_curation_def replaced_rows removed_rows curated_row_def Let_def split: option.splits)

lemma curated_row_fields [simp]:
  "rq_id (curated_row i dto x) = rq_id x" "rq_materialRequestId (curated_row i dto x) = rq_materialRequestId x"
  "rq_position (curated_row i dto x) = rq_position x"
  by (simp_all add: curated_row_def Let_def split: option.split)

lemma statements_keep_slots [simp]:
  "pd_reviewQuestions (save_request now j cs st db) = pd_reviewQuestions db"
  "pd_reviewQuestions (set_material_status m st db) = pd_reviewQuestions db"
  "pd_reviewQuestions (set_course_status ids cst db) = pd_reviewQuestions db"
  by (simp_all add: save_request_def write_back_def save_request_status_def set_material_status_def update_material_def
      set_course_status_def split: option.split)

lemma bump_keeps_slots: "bump_version now i v db = Inr db' \<Longrightarrow> pd_reviewQuestions db' = pd_reviewQuestions db"
  by (auto simp: bump_version_def Let_def split: if_splits)

lemma rows_approved:
  assumes "approve_review now seen company ctx i dto db = (Inr st, db', jobs)" and "distinct (map fst (ad_replacements dto))"
  shows "pd_reviewQuestions db' = map (curated_row i dto) (pd_reviewQuestions db)"
proof -
  obtain request db1 where "bump_version now i (ad_version dto) db = Inr db1"
    and "pd_reviewQuestions db' = pd_reviewQuestions (apply_curation i dto db1)"
    using assms(1) by (auto simp: approve_review_def approve_tx_def finish_review_def regenerate_def Let_def
        split: option.splits sum.splits if_splits)
  then show ?thesis using apply_curation_rows [OF assms(2)] bump_keeps_slots by metis
qed

text \<open>The identifier, the status and the question of a slot, as the server stores it and as the page holds it.\<close>

definition slot_of_row :: "review_question \<Rightarrow> uuid \<times> review_status \<times> string option" where
  "slot_of_row x = (rq_id x, rq_status x, rq_questionId x)"

definition slot_of_item :: "review_item \<Rightarrow> uuid \<times> review_status \<times> string option" where
  "slot_of_item x = (ri_id x, ri_status x, ri_questionId x)"

definition request_rows :: "uuid \<Rightarrow> planning_db \<Rightarrow> review_question list" where
  "request_rows i db = sort_key rq_position (find_all (\<lambda>q. rq_materialRequestId q = i) (pd_reviewQuestions db))"

lemma slot_of_review_item: "review_item_of env u ids q = Inr item \<Longrightarrow> slot_of_item item = slot_of_row q"
  by (auto simp: review_item_of_def slot_of_item_def slot_of_row_def empty_item_def split: option.splits sum.splits)

lemma map_all_related:
  "map_all f xs = Inr ys \<Longrightarrow> (\<And>x y. f x = Inr y \<Longrightarrow> h y = g x) \<Longrightarrow> map h ys = map g xs"
  by (induction xs arbitrary: ys) (auto split: sum.splits)

lemma review_shows_rows:
  assumes "get_material_review env now seen i db0 = Inr (r, db)"
  shows "map slot_of_item (rr_questions r) = map slot_of_row (request_rows i db)" and "rr_materialId r = i"
proof -
  obtain u ids where "map_all (review_item_of env u ids) (request_rows i db) = Inr (rr_questions r)" and id: "rr_materialId r = i"
    using assms by (auto simp: get_material_review_def request_rows_def Let_def split: option.splits sum.splits)
  then show "map slot_of_item (rr_questions r) = map slot_of_row (request_rows i db)"
    by (intro map_all_related) (auto intro: slot_of_review_item)
  show "rr_materialId r = i" by (rule id)
qed

lemma sort_key_map: "(\<And>x. k (f x) = k x) \<Longrightarrow> sort_key k (map f xs) = map f (sort_key k xs)"
proof (induction xs)
  case (Cons x xs)
  have "insort_key k (f x) (map f ys) = map f (insort_key k x ys)" for ys
    by (induction ys) (simp_all add: Cons.prems)
  then show ?case using Cons by simp
qed simp

lemma request_rows_curated:
  assumes "pd_reviewQuestions db' = map (curated_row i dto) (pd_reviewQuestions db)"
  shows "request_rows i db' = map (curated_row i dto) (request_rows i db)"
  by (simp add: request_rows_def assms find_all_def filter_map comp_def sort_key_map)

text \<open>The curated row and the item with its pending change agree.\<close>

lemma pending_slot:
  assumes "slot_of_item item = slot_of_row x" and "rq_materialRequestId x = i" and "draft_ok d"
    and "ad_replacements dto = dr_replacements d" and "ad_removals dto = dr_removals d"
  shows "slot_of_item (pending_item overlay d item) = slot_of_row (curated_row i dto x)"
proof -
  have "map_of (dr_replacements d) (rq_id x) \<noteq> Some []"
    using assms(3) by (force simp: draft_ok_def dest: map_of_SomeD)
  moreover have "rq_id x \<in> set (dr_removals d) \<Longrightarrow> map_of (dr_replacements d) (rq_id x) = None"
    using assms(3) by (auto simp: draft_ok_def map_of_eq_None_iff)
  ultimately show ?thesis
    using assms(1,2,4,5) by (auto simp: pending_item_def curated_row_def slot_of_item_def slot_of_row_def truthy_str_def Let_def
        split: option.splits)
qed

lemma numbered_items: "map sh_item (number_items n qs) = qs"
  by (induction n qs rule: number_items.induct) simp_all

text \<open>The numbers of the questions run from one without gaps.\<close>

lemma numbered_positions:
  "List.map_filter sh_displayPosition (number_items n qs) =
     [n..<n + length (filter (\<lambda>q. ri_status q \<noteq> RQ_REMOVED \<and> truthy_str (ri_questionId q)) qs)]"
  by (induction n qs rule: number_items.induct) (simp_all add: List.map_filter_simps upt_rec)

lemma approved_empty_slots:
  assumes "approve_review now seen company ctx i dto db = (Inr st, db', jobs)" and "\<not> ad_continueWithWarnings dto"
  shows "\<not> list_ex (\<lambda>x. rq_status x = RQ_EMPTY) (request_rows i db')"
proof -
  obtain db1 where "\<not> has_empty i (apply_curation i dto db1)"
    and "pd_reviewQuestions db' = pd_reviewQuestions (apply_curation i dto db1)"
    using assms by (auto simp: approve_review_def approve_tx_def finish_review_def regenerate_def Let_def
        split: option.splits sum.splits if_splits)
  then show ?thesis by (simp add: has_empty_def request_rows_def list_ex_iff find_all_def)
qed

definition store_ok :: "'q materials_store \<Rightarrow> bool" where
  "store_ok s \<longleftrightarrow> draft_ok (ms_draft s) \<and> list_all (pred_option draft_ok) (map snd (ms_storage s))"

lemma fetched_draft_ok: "store_ok s \<Longrightarrow> draft_ok (ms_draft (fetch_review_data i (Data r) s))"
  using draft_ok_none
  by (auto simp: fetch_review_data_def fetch_review_start_def fetch_review_end_def store_ok_def Let_def list_all_iff
      split: option.splits dest!: map_of_SomeD)

lemma fetched_review: "ms_currentReview (fetch_review_data i (Data r) s) = Some r"
  by (simp add: fetch_review_data_def fetch_review_end_def)

text \<open>
  C38. A reviewer opens a request, with whatever drafts the browser kept, replaces, removes and restores any slots, and
  approves. If the server accepts, the slots it stores are those the list showed at that moment, in the same order, with
  the same status and question; and no slot was shown empty unless the reviewer accepted the warnings.\<close>

theorem approved_as_shown:
  assumes "get_material_review env now seen i db0 = Inr (r, db)" and "store_ok st" and "list_all sane_action as"
    and "foldl (ui_step is_uuid i) (fetch_review_data i (Data r) st, db) as = (s, db1)"
    and "post_approve is_uuid now' company ctx i (approve_body c s) db1 = (Some (Inr status), db2, jobs)"
  shows "map slot_of_row (request_rows i db2) = map (\<lambda>q. slot_of_item (sh_item q)) (shown_questions overlay s) \<and>
    (has_empty_slots (shown_questions overlay s) \<longrightarrow> c)"
proof -
  define d where "d = ms_draft s"
  have db1: "db1 = db" using ui_run_db [of is_uuid i "fetch_review_data i (Data r) st" db as] assms(4) by simp
  have d: "draft_ok d" and cur: "ms_currentReview s = Some r"
    using ui_run [OF assms(3) fetched_draft_ok [OF assms(2)], of is_uuid i i r db] assms(4) by (simp_all add: d_def fetched_review)
  define dto where "dto = \<lparr>ad_version = rr_version r, ad_continueWithWarnings = c, ad_replacements = dr_replacements d,
    ad_removals = dr_removals d\<rparr>"
  have dto: "ad_replacements dto = dr_replacements d" "ad_removals dto = dr_removals d" "ad_continueWithWarnings dto = c"
    by (simp_all add: dto_def)
  have ok: "approve_review now' db company ctx i dto db = (Inr status, db2, jobs)"
    using assms(5) by (auto simp: post_approve_def approve_body_def cur dto_of_body_def db1 d_def dto_def split: if_splits prod.splits)
  have rows: "request_rows i db2 = map (curated_row i dto) (request_rows i db)"
    using d by (intro request_rows_curated rows_approved [OF ok]) (simp add: dto draft_ok_def)
  have req: "x \<in> set (request_rows i db) \<Longrightarrow> rq_materialRequestId x = i" for x
    by (simp add: request_rows_def find_all_def)
  have "list_all2 (\<lambda>item x. slot_of_item item = slot_of_row x \<and> rq_materialRequestId x = i) (rr_questions r) (request_rows i db)"
    using review_shows_rows(1) [OF assms(1)] req by (auto simp: list_all2_conv_all_nth list_eq_iff_nth_eq)
  then have "map slot_of_item (map (pending_item overlay d) (rr_questions r)) = map slot_of_row (map (curated_row i dto) (request_rows i db))"
    by (induction rule: list_all2_induct) (simp_all add: pending_slot [OF _ _ d dto(1,2)])
  moreover have items: "map sh_item (shown_questions overlay s) = map (pending_item overlay d) (rr_questions r)"
    by (simp add: shown_questions_def cur d_def numbered_items)
  ultimately have same: "map slot_of_row (request_rows i db2) = map (\<lambda>q. slot_of_item (sh_item q)) (shown_questions overlay s)"
    by (metis (no_types, lifting) list.map_comp comp_def map_eq_conv rows)
  have "c" if "has_empty_slots (shown_questions overlay s)"
  proof (rule ccontr)
    assume "\<not> c"
    then have "\<not> list_ex (\<lambda>x. rq_status x = RQ_EMPTY) (request_rows i db2)" using approved_empty_slots [OF ok] dto(3) by simp
    then have "RQ_EMPTY \<notin> set (map (fst \<circ> snd) (map slot_of_row (request_rows i db2)))"
      by (auto simp: slot_of_row_def list_ex_iff)
    with that show False by (force simp: same has_empty_slots_def list_ex_iff slot_of_item_def)
  qed
  with same show ?thesis by blast
qed

subsection \<open>A review\<close>

definition waiting_request :: material_request where
  "waiting_request = \<lparr>mr_id = ''m'', mr_tenantId = ''tn'', mr_profileId = ''t'', mr_cycleId = ''cy'', mr_weekNumber = 1,
     mr_status = MR_IN_REVIEW, mr_requiresReview = True, mr_materialType = ''BALOTARIO'', mr_designTemplateId = None, mr_materialId = None, mr_createdBy = ''u'',
     mr_version = 3, mr_mergedDownloadUrl = None, mr_mergedKeyDownloadUrl = None, mr_mergedSolutionDownloadUrl = None,
     mr_createdAt = 0, mr_updatedAt = 0\<rparr>"

definition waiting_slot :: "uuid \<Rightarrow> nat \<Rightarrow> review_question" where
  "waiting_slot i n = sample_slot\<lparr>rq_id := i, rq_questionId := None, rq_position := n, rq_status := RQ_EMPTY\<rparr>"

definition waiting_db :: planning_db where
  "waiting_db = empty_planning_db\<lparr>pd_requests := [waiting_request], pd_reviewQuestions := [waiting_slot ''s2'' 2, waiting_slot ''s1'' 1]\<rparr>"

definition new_store :: "unit materials_store" where
  "new_store = \<lparr>ms_isLoading = False, ms_error = None, ms_currentReview = None, ms_draft = no_draft, ms_watcherQueued = False,
     ms_storage = []\<rparr>"

definition waiting_review :: review_response where
  "waiting_review = (case get_material_review sample_review_env 0 waiting_db ''m'' waiting_db of Inr (r, _) \<Rightarrow> r)"

definition review_actions :: "unit ui_action list" where
  "review_actions = [Remove ''s1'' 1, Pick ''s2'' \<lparr>pk_questionId = None, pk_id = ''q9'', pk_data = ()\<rparr> 2]"

definition reviewed_store :: "unit materials_store" where
  "reviewed_store = fst (foldl (ui_step (\<lambda>_. True) ''m'') (fetch_review_data ''m'' (Data waiting_review) new_store, waiting_db) review_actions)"

theorem approved_as_shown_witness:
  "map slot_of_row (request_rows ''m'' (fst (snd (post_approve (\<lambda>_. True) 9 None \<lparr>rx_tenantId = ''tn'', rx_userId = ''u''\<rparr> ''m''
      (approve_body False reviewed_store) waiting_db)))) =
     [(''s1'', RQ_REMOVED, None), (''s2'', RQ_REPLACED, Some ''q9'')]"
proof -
  have review: "get_material_review sample_review_env 0 waiting_db ''m'' waiting_db = Inr (waiting_review, waiting_db)"
    "rr_questions waiting_review = [empty_item (rv_catalog sample_review_env) (waiting_slot ''s1'' 1),
       empty_item (rv_catalog sample_review_env) (waiting_slot ''s2'' 2)]" "rr_version waiting_review = 3" "rr_materialId waiting_review = ''m''"
    unfolding waiting_review_def
    by (simp_all add: get_material_review_def open_review_def waiting_db_def empty_planning_db_def waiting_request_def find_one_def
        find_all_def waiting_slot_def sample_slot_def review_item_of_def truthy_str_def Let_def)
  have draft: "ms_draft reviewed_store = \<lparr>dr_replacements = [(''s2'', ''q9'')], dr_replacementsData = [(''s2'', ())], dr_removals = [''s1'']\<rparr>"
    "ms_currentReview reviewed_store = Some waiting_review"
    by (simp_all add: reviewed_store_def review_actions_def ui_step_def handle_question_selected_def confirm_remove_def
        fetch_review_data_def fetch_review_start_def fetch_review_end_def new_store_def no_draft_def picked_id_def truthy_str_def
        js_map_delete_def set_draft_def run_watcher_def review Let_def)
  have run: "foldl (ui_step (\<lambda>_. True) ''m'') (fetch_review_data ''m'' (Data waiting_review) new_store, waiting_db) review_actions =
      (reviewed_store, waiting_db)"
    by (rule prod_eqI) (simp_all add: reviewed_store_def ui_run_db)
  obtain db2 jobs where approved: "post_approve (\<lambda>_. True) 9 None \<lparr>rx_tenantId = ''tn'', rx_userId = ''u''\<rparr> ''m'' (approve_body False reviewed_store) waiting_db =
      (Some (Inr MR_PROCESSING), db2, jobs)"
    by (simp add: post_approve_def approve_body_def draft dto_of_body_def review approve_review_def approve_tx_def bump_version_def
        affected_def waiting_db_def empty_planning_db_def waiting_request_def find_one_def has_empty_def find_all_def apply_curation_def
        replace_question_def remove_question_def update_where_def waiting_slot_def sample_slot_def regenerate_def Let_def)
  have "store_ok new_store" by (simp add: store_ok_def new_store_def draft_ok_none)
  from approved_as_shown [OF review(1) this _ run approved, of "\<lambda>_ q. q"]
  have "map slot_of_row (request_rows ''m'' db2) = map (\<lambda>q. slot_of_item (sh_item q)) (shown_questions (\<lambda>_ q. q) reviewed_store)"
    by (simp add: review_actions_def picked_id_def truthy_str_def)
  then show ?thesis
    by (simp add: approved shown_questions_def draft review pending_item_def truthy_str_def empty_item_def waiting_slot_def sample_slot_def
        slot_of_item_def)
qed

end
