(* ===== verification/FrontMatrix.thy ===== *)
theory FrontMatrix
  imports Syllabus
begin

text \<open>
  The matrix in which a syllabus is planned: \<open>frontend-vue/src/features/syllabus/components/SyllabusDistributionMatrix.vue\<close>
  over the store \<open>frontend-vue/src/features/syllabus/store/index.ts\<close>. The store changes first and undoes the change when the
  server refuses it; run against \<open>Syllabus\<close>, one edit after the other, the matrix shows the rows of the table. What is typed
  into a cell is an integer or nothing.
\<close>

subsection \<open>The store\<close>

record syllabus_store =
  sv_distributions :: "distribution list"
  sv_generatedWeeks :: "int list"
  sv_loading :: bool
  sv_error :: "string option"

definition fetch_summary :: "string option + syllabus_summary \<Rightarrow> syllabus_store \<Rightarrow> syllabus_store" where
  "fetch_summary r s =
     (case r of
        Inr summary \<Rightarrow> s\<lparr>sv_distributions := ss_distributions summary, sv_generatedWeeks := ss_generatedWeeks summary,
          sv_loading := False, sv_error := None\<rparr>
      | Inl m \<Rightarrow> s\<lparr>sv_loading := False, sv_error := Some (nullish m ''Error al obtener las distribuciones.'')\<rparr>)"

text \<open>A provisional row until the server answers with the real one.\<close>

definition temp_distribution :: "uuid \<Rightarrow> uuid \<Rightarrow> create_distribution_dto \<Rightarrow> distribution" where
  "temp_distribution tempId syllabusId p =
     \<lparr>sd_id = tempId, sd_syllabusId = syllabusId, sd_templateId = cd_templateId p, sd_weekNumber = cd_weekNumber p,
      sd_topicId = cd_topicId p, sd_subtopicId = cd_subtopicId p, sd_questionCount = cd_questionCount p, sd_isGenerated = False\<rparr>"

fun replace_first :: "('a \<Rightarrow> bool) \<Rightarrow> 'a \<Rightarrow> 'a list \<Rightarrow> 'a list" where
  "replace_first p y [] = []"
| "replace_first p y (x # xs) = (if p x then y # xs else x # replace_first p y xs)"

definition add_distribution_store :: "uuid \<Rightarrow> uuid \<Rightarrow> create_distribution_dto \<Rightarrow> 'e + distribution \<Rightarrow> syllabus_store \<Rightarrow> syllabus_store" where
  "add_distribution_store tempId syllabusId p r s =
     (let pushed = sv_distributions s @ [temp_distribution tempId syllabusId p]
      in s\<lparr>sv_distributions := (case r of
             Inr created \<Rightarrow> replace_first (\<lambda>d. sd_id d = tempId) created pushed
           | Inl e \<Rightarrow> filter (\<lambda>d. sd_id d \<noteq> tempId) pushed)\<rparr>)"

fun set_count_first :: "uuid \<Rightarrow> int \<Rightarrow> distribution list \<Rightarrow> distribution list" where
  "set_count_first i n [] = []"
| "set_count_first i n (d # ds) = (if sd_id d = i then d\<lparr>sd_questionCount := n\<rparr> # ds else d # set_count_first i n ds)"

definition update_count_store :: "uuid \<Rightarrow> int \<Rightarrow> 'e + unit \<Rightarrow> syllabus_store \<Rightarrow> syllabus_store" where
  "update_count_store distId n r s =
     (case find_one (\<lambda>d. sd_id d = distId) (sv_distributions s) of
        None \<Rightarrow> s
      | Some d \<Rightarrow>
          let s' = s\<lparr>sv_distributions := set_count_first distId n (sv_distributions s)\<rparr>
          in case r of
               Inr _ \<Rightarrow> s'
             | Inl e \<Rightarrow> s'\<lparr>sv_distributions := set_count_first distId (sd_questionCount d) (sv_distributions s')\<rparr>)"

text \<open>\<open>splice(index, 1)\<close>, and \<open>splice(index, 0, backup)\<close> when the server refuses.\<close>

definition delete_distribution_store :: "uuid \<Rightarrow> 'e + unit \<Rightarrow> syllabus_store \<Rightarrow> syllabus_store" where
  "delete_distribution_store distId r s =
     (let ds = sv_distributions s; before = takeWhile (\<lambda>d. sd_id d \<noteq> distId) ds; index = length before in
      if index = length ds then s
      else let rest = take index ds @ drop (index + 1) ds
           in s\<lparr>sv_distributions := (case r of
                  Inr _ \<Rightarrow> rest
                | Inl e \<Rightarrow> take index rest @ ds ! index # drop index rest)\<rparr>)"

subsection \<open>Rows, columns and totals\<close>

type_synonym row = "string \<times> string"

definition row_of :: "distribution \<Rightarrow> row" where
  "row_of d = (sd_topicId d, sd_subtopicId d)"

text \<open>The rows of the planned cells, then the added ones, by the name of the topic; \<open>rank\<close> is the position a name takes
  under \<open>localeCompare\<close>.\<close>

definition matrix_rows :: "(string \<Rightarrow> nat) \<Rightarrow> (string \<Rightarrow> string) \<Rightarrow> (row \<Rightarrow> string) \<Rightarrow> (string \<Rightarrow> string \<Rightarrow> bool) \<Rightarrow> string \<Rightarrow> row list \<Rightarrow> syllabus_store \<Rightarrow> row list" where
  "matrix_rows rank topicName subtopicName includes query localRows s =
     (let rows = sort_key (\<lambda>r. rank (topicName (fst r))) (js_unique (map row_of (sv_distributions s) @ localRows))
      in if query = [] then rows
         else filter (\<lambda>r. includes (to_lower (topicName (fst r))) (to_lower query) \<or> includes (to_lower (subtopicName r)) (to_lower query)) rows)"

definition matrix_columns :: "cycle_week list \<Rightarrow> nat \<Rightarrow> (int \<times> bool) list" where
  "matrix_columns weeks totalWeeks =
     map (\<lambda>w. (int w, case find_one (\<lambda>c. cw_weekNumber c = int w) weeks of None \<Rightarrow> True | Some c \<Rightarrow> cw_isActive c)) [1..<totalWeeks + 1]"

definition find_cell :: "syllabus_store \<Rightarrow> row \<Rightarrow> int \<Rightarrow> distribution option" where
  "find_cell s row w = find_one (\<lambda>d. row_of d = row \<and> sd_weekNumber d = w) (sv_distributions s)"

definition get_cell_value :: "syllabus_store \<Rightarrow> row \<Rightarrow> int \<Rightarrow> int option" where
  "get_cell_value s row w = map_option sd_questionCount (find_cell s row w)"

definition get_row_total :: "syllabus_store \<Rightarrow> row \<Rightarrow> int" where
  "get_row_total s row = sum_of sd_questionCount (filter (\<lambda>d. row_of d = row) (sv_distributions s))"

definition get_col_total :: "syllabus_store \<Rightarrow> int \<Rightarrow> int" where
  "get_col_total s w = sum_of sd_questionCount (filter (\<lambda>d. sd_weekNumber d = w) (sv_distributions s))"

definition grand_total :: "syllabus_store \<Rightarrow> int" where
  "grand_total s = sum_of sd_questionCount (sv_distributions s)"

definition progress_percentage :: "int option \<Rightarrow> syllabus_store \<Rightarrow> int \<Rightarrow> int" where
  "progress_percentage target s w =
     (case target of
        None \<Rightarrow> 0
      | Some t \<Rightarrow> if t = 0 \<or> get_col_total s w = 0 then 0 else min 100 ((200 * get_col_total s w + t) div (2 * t)))"

datatype week_status = No_Target | Empty_Week | Exact_Week | Over_Week | Under_Week

definition week_status :: "int option \<Rightarrow> syllabus_store \<Rightarrow> int \<Rightarrow> week_status" where
  "week_status target s w =
     (if target = None \<or> target = Some 0 then No_Target
      else if get_col_total s w = 0 then Empty_Week
      else if get_col_total s w = the target then Exact_Week
      else if get_col_total s w > the target then Over_Week
      else Under_Week)"

text \<open>The quantity the chosen template gives the course.\<close>

definition target_questions_quantity :: "material_template option \<Rightarrow> template_course list \<Rightarrow> string \<Rightarrow> int option" where
  "target_questions_quantity template courses courseId =
     (if template = None \<or> courseId = [] then None
      else map_option tc_questionsQuantity (find_one (\<lambda>c. tc_courseId c = courseId \<and> tc_templateId c = tp_id (the template)) courses))"

subsection \<open>Moving between cells\<close>

datatype direction = To_Right | To_Left | To_Down | To_Up

fun next_cell :: "nat \<Rightarrow> nat \<Rightarrow> int \<Rightarrow> int \<Rightarrow> direction \<Rightarrow> int \<times> int" where
  "next_cell rows cols r c To_Right = (r, min (c + 1) (int cols - 1))"
| "next_cell rows cols r c To_Left = (r, max (c - 1) 0)"
| "next_cell rows cols r c To_Down = (min (r + 1) (int rows - 1), c)"
| "next_cell rows cols r c To_Up = (max (r - 1) 0, c)"

lemma next_cell_inside:
  assumes "0 \<le> r" "r < int rows" "0 \<le> c" "c < int cols"
  shows "0 \<le> fst (next_cell rows cols r c d) \<and> fst (next_cell rows cols r c d) < int rows \<and>
    0 \<le> snd (next_cell rows cols r c d) \<and> snd (next_cell rows cols r c d) < int cols"
  using assms by (cases d) auto

subsection \<open>Editing a cell\<close>

datatype cell_request = Nothing_Sent | Out_Of_Range | Send_Count uuid int | Send_Delete uuid | Send_Add create_distribution_dto

definition cell_request :: "int option \<Rightarrow> string \<Rightarrow> syllabus_store \<Rightarrow> row \<Rightarrow> int \<Rightarrow> int option \<Rightarrow> cell_request" where
  "cell_request target templateId s row w v =
     (let dist = find_cell s row w; maxLimit = nullish target 100 in
      if (case v of None \<Rightarrow> False | Some n \<Rightarrow> n < 1 \<or> n > maxLimit) then Out_Of_Range
      else if dist \<noteq> None \<and> Some (sd_questionCount (the dist)) = v then Nothing_Sent
      else case (dist, v) of
             (Some d, Some n) \<Rightarrow> Send_Count (sd_id d) n
           | (Some d, None) \<Rightarrow> Send_Delete (sd_id d)
           | (None, Some n) \<Rightarrow> Send_Add \<lparr>cd_weekNumber = w, cd_topicId = fst row, cd_subtopicId = snd row, cd_questionCount = n,
                 cd_templateId = (if templateId = [] then None else Some templateId)\<rparr>
           | (None, None) \<Rightarrow> Nothing_Sent)"

text \<open>The edit with the server's answer: the new row's id and the provisional one are given.\<close>

definition update_cell ::
  "bool \<Rightarrow> uuid \<Rightarrow> uuid \<Rightarrow> int option \<Rightarrow> string \<Rightarrow> uuid \<Rightarrow> row \<Rightarrow> int \<Rightarrow> int option \<Rightarrow> syllabus_store \<times> planning_db \<Rightarrow> syllabus_store \<times> planning_db" where
  "update_cell survives newId tempId target templateId syllabusId row w v = (\<lambda>(s, db).
     (case cell_request target templateId s row w v of
        Send_Count i n \<Rightarrow>
          (case run_tx (update_distribution_quantity i syllabusId n) db of (r, db') \<Rightarrow> (update_count_store i n r s, db'))
      | Send_Delete i \<Rightarrow>
          (case run_tx (delete_distribution i syllabusId) db of (r, db') \<Rightarrow> (delete_distribution_store i r s, db'))
      | Send_Add p \<Rightarrow>
          (case run_tx (add_distribution survives newId syllabusId p) db of
             (r, db') \<Rightarrow> (add_distribution_store tempId syllabusId p r s, db'))
      | _ \<Rightarrow> (s, db)))"

text \<open>Removing a row and clearing a week delete one cell after the other.\<close>

definition delete_each :: "uuid \<Rightarrow> distribution list \<Rightarrow> syllabus_store \<times> planning_db \<Rightarrow> syllabus_store \<times> planning_db" where
  "delete_each syllabusId ds st = foldl (\<lambda>(s, db) d.
     (case run_tx (delete_distribution (sd_id d) syllabusId) db of (r, db') \<Rightarrow> (delete_distribution_store (sd_id d) r s, db'))) st ds"

definition remove_row :: "uuid \<Rightarrow> row \<Rightarrow> syllabus_store \<times> planning_db \<Rightarrow> syllabus_store \<times> planning_db" where
  "remove_row syllabusId row st = delete_each syllabusId (filter (\<lambda>d. row_of d = row) (sv_distributions (fst st))) st"

definition clear_week :: "uuid \<Rightarrow> int \<Rightarrow> syllabus_store \<times> planning_db \<Rightarrow> syllabus_store \<times> planning_db" where
  "clear_week syllabusId w st = delete_each syllabusId (filter (\<lambda>d. sd_weekNumber d = w) (sv_distributions (fst st))) st"

definition remove_topic :: "uuid \<Rightarrow> row list \<Rightarrow> string \<Rightarrow> syllabus_store \<times> planning_db \<Rightarrow> syllabus_store \<times> planning_db" where
  "remove_topic syllabusId rows topicId st = foldl (\<lambda>st row. remove_row syllabusId row st) st (filter (\<lambda>r. fst r = topicId) rows)"

definition forget_row :: "row \<Rightarrow> row list \<Rightarrow> row list" where
  "forget_row row localRows = filter (\<lambda>r. r \<noteq> row) localRows"

definition add_subtopics :: "row list \<Rightarrow> row list \<Rightarrow> row list" where
  "add_subtopics selected localRows = fold (\<lambda>r rows. if r \<in> set rows then rows else rows @ [r]) selected localRows"

subsection \<open>The matrix shows the table\<close>

definition template_filter :: "string \<Rightarrow> string option" where
  "template_filter templateId = (if templateId = [] then None else Some templateId)"

definition mirrors :: "uuid \<Rightarrow> string \<Rightarrow> syllabus_store \<Rightarrow> planning_db \<Rightarrow> bool" where
  "mirrors syllabusId templateId s db \<longleftrightarrow>
     sv_distributions s = get_summary_by_syllabus syllabusId (template_filter templateId) db"

definition ids_of :: "planning_db \<Rightarrow> uuid list" where
  "ids_of db = map sd_id (pd_distributions db)"

lemma truthy_filter [simp]: "truthy_str (template_filter t) \<longleftrightarrow> t \<noteq> []"
  by (simp add: template_filter_def truthy_str_def)

lemma fetched_mirrors: "mirrors i t (fetch_summary (Inr (get_summary i (template_filter t) db)) s) db"
proof -
  have "ss_distributions (fold add_to_summary ds m) = ss_distributions m" for ds m
    by (induction ds arbitrary: m) (simp_all add: add_to_summary_def)
  then show ?thesis by (simp add: mirrors_def fetch_summary_def get_summary_def Let_def)
qed

lemma set_count_undone:
  "find_one (\<lambda>d. sd_id d = i) ds = Some d \<Longrightarrow> set_count_first i (sd_questionCount d) (set_count_first i n ds) = ds"
  by (induction ds) (auto simp: find_one_def split: if_splits)

lemma no_other: "i \<notin> g ` set ds \<Longrightarrow> \<forall>x\<in>set ds. g x \<noteq> i"
  by (metis imageI)

lemma set_count_all:
  "distinct (map sd_id ds) \<Longrightarrow> set_count_first i n ds = map (\<lambda>d. if sd_id d = i then d\<lparr>sd_questionCount := n\<rparr> else d) ds"
proof (induction ds)
  case (Cons d ds)
  show ?case
  proof (cases "sd_id d = i")
    case True
    then have "\<forall>x\<in>set ds. sd_id x \<noteq> i" using Cons.prems by (intro no_other) simp
    then have "map (\<lambda>d. if sd_id d = i then d\<lparr>sd_questionCount := n\<rparr> else d) ds = ds" by (simp add: map_idI)
    with True show ?thesis by simp
  qed (use Cons in simp)
qed simp

lemma splice_out:
  "distinct (map sd_id ds) \<Longrightarrow> k = length (takeWhile (\<lambda>d. sd_id d \<noteq> i) ds) \<Longrightarrow>
     take k ds @ drop (Suc k) ds = filter (\<lambda>d. sd_id d \<noteq> i) ds"
proof (induction ds arbitrary: k)
  case (Cons d ds)
  show ?case
  proof (cases "sd_id d = i")
    case True
    then have "\<forall>x\<in>set ds. sd_id x \<noteq> i" using Cons.prems(1) by (intro no_other) simp
    then have "filter (\<lambda>d. sd_id d \<noteq> i) ds = ds" by simp
    with Cons.prems True show ?thesis by simp
  qed (use Cons in simp)
qed simp

lemma splice_back: "k < length ds \<Longrightarrow> rest = take k ds @ drop (Suc k) ds \<Longrightarrow> take k rest @ ds ! k # drop k rest = ds"
  by (simp add: id_take_nth_drop [symmetric])

lemma replace_last: "tempId \<notin> sd_id ` set ds \<Longrightarrow> sd_id t = tempId \<Longrightarrow> replace_first (\<lambda>d. sd_id d = tempId) y (ds @ [t]) = ds @ [y]"
  by (induction ds) auto

lemma distinct_summary: "distinct (ids_of db) \<Longrightarrow> distinct (map sd_id (get_summary_by_syllabus i t db))"
  by (simp add: ids_of_def get_summary_by_syllabus_def find_all_def distinct_map_filter)

text \<open>One change of the count, accepted or refused.\<close>

lemma count_mirrors:
  assumes "mirrors i t s db" and "distinct (ids_of db)" and "run_tx (update_distribution_quantity k i n) db = (r, db')"
  shows "mirrors i t (update_count_store k n r s) db' \<and> ids_of db' = ids_of db"
proof (cases r)
  case (Inl e)
  then have "db' = db" using assms(3) run_tx_error_unchanged by metis
  then show ?thesis using assms(1)
    by (auto simp: mirrors_def update_count_store_def Inl Let_def set_count_undone split: option.split)
next
  case (Inr u)
  then have "update_quantity_row k i n db = Inr ((), db')"
    using assms(3) by (auto simp: run_tx_def update_distribution_quantity_def Let_def split: sum.splits option.splits if_splits)
  then have db': "db' = db\<lparr>pd_distributions := update_where (\<lambda>d. sd_id d = k \<and> sd_syllabusId d = i) (\<lambda>d. d\<lparr>sd_questionCount := n\<rparr>) (pd_distributions db)\<rparr>"
    by (simp add: update_quantity_row_def Let_def split: if_splits)
  let ?f = "\<lambda>d. if sd_id d = k then d\<lparr>sd_questionCount := n\<rparr> else d"
  have "get_summary_by_syllabus i (template_filter t) db' = map ?f (get_summary_by_syllabus i (template_filter t) db)"
    by (auto simp: db' get_summary_by_syllabus_def find_all_def update_where_def filter_map comp_def intro!: map_cong filter_cong)
  moreover have "sv_distributions (update_count_store k n r s) = map ?f (sv_distributions s)"
    using assms(1,2) distinct_summary [of db i "template_filter t"]
    by (auto simp: update_count_store_def Inr Let_def mirrors_def set_count_all find_one_None intro!: map_idI [symmetric] split: option.split)
  moreover have "ids_of db' = ids_of db"
    by (simp add: db' ids_of_def update_where_def comp_def)
  ultimately show ?thesis using assms(1) by (simp add: mirrors_def)
qed

lemma delete_mirrors:
  assumes "mirrors i t s db" and "distinct (ids_of db)" and "run_tx (delete_distribution k i) db = (r, db')"
  shows "mirrors i t (delete_distribution_store k r s) db' \<and> distinct (ids_of db') \<and> set (ids_of db') \<subseteq> set (ids_of db)"
proof -
  define ds where "ds = sv_distributions s"
  define index where "index = length (takeWhile (\<lambda>d. sd_id d \<noteq> k) ds)"
  have len: "index \<le> length ds" by (simp add: index_def length_takeWhile_le)
  have dist: "distinct (map sd_id ds)" using assms(1,2) by (simp add: ds_def mirrors_def distinct_summary)
  note out = splice_out [OF dist index_def]
  show ?thesis
  proof (cases r)
    case (Inl e)
    then have db': "db' = db" using assms(3) run_tx_error_unchanged by metis
    have "sv_distributions (delete_distribution_store k r s) = ds"
      using splice_back [of index ds] len
      by (simp add: delete_distribution_store_def Inl Let_def flip: ds_def index_def)
    then show ?thesis using assms(1,2) by (simp add: mirrors_def db' ds_def)
  next
    case (Inr u)
    then have db': "db' = db\<lparr>pd_distributions := delete_where (\<lambda>d. sd_id d = k \<and> sd_syllabusId d = i) (pd_distributions db)\<rparr>"
      using assms(3) by (auto simp: run_tx_def delete_distribution_def Let_def split: sum.splits if_splits)
    have "index = length ds \<Longrightarrow> filter (\<lambda>d. sd_id d \<noteq> k) ds = ds"
      using out by simp
    then have "sv_distributions (delete_distribution_store k r s) = filter (\<lambda>d. sd_id d \<noteq> k) ds"
      using out by (simp add: delete_distribution_store_def Inr Let_def flip: ds_def index_def)
    moreover have "get_summary_by_syllabus i (template_filter t) db' = filter (\<lambda>d. sd_id d \<noteq> k) (get_summary_by_syllabus i (template_filter t) db)"
      by (auto simp: db' get_summary_by_syllabus_def find_all_def delete_where_def intro!: filter_cong)
    moreover have "distinct (ids_of db') \<and> set (ids_of db') \<subseteq> set (ids_of db)"
      using assms(2) by (auto simp: db' ids_of_def delete_where_def distinct_map_filter)
    ultimately show ?thesis using assms(1) by (simp add: mirrors_def ds_def)
  qed
qed

lemma add_mirrors:
  assumes "mirrors i t s db" and "distinct (ids_of db)" and "newId \<notin> set (ids_of db)" and "tempId \<notin> set (ids_of db)"
    and "find_cell s row w = None"
    and p: "p = \<lparr>cd_weekNumber = w, cd_topicId = fst row, cd_subtopicId = snd row, cd_questionCount = n, cd_templateId = template_filter t\<rparr>"
    and run: "run_tx (add_distribution survives newId i p) db = (r, db')"
  shows "mirrors i t (add_distribution_store tempId i p r s) db' \<and> distinct (ids_of db') \<and>
    set (ids_of db') \<subseteq> insert newId (set (ids_of db))"
proof -
  have temp: "tempId \<notin> sd_id ` set (sv_distributions s)"
    using assms(1,4) by (auto simp: mirrors_def get_summary_by_syllabus_def find_all_def ids_of_def)
  show ?thesis
  proof (cases r)
    case (Inl e)
    then have "db' = db" using run run_tx_error_unchanged by metis
    moreover have "filter (\<lambda>d. sd_id d \<noteq> tempId) (sv_distributions s) = sv_distributions s"
      using temp by (intro filter_True) (rule no_other)
    ultimately show ?thesis using assms(1,2)
      by (auto simp: mirrors_def add_distribution_store_def temp_distribution_def Inl Let_def)
  next
    case (Inr c)
    define d where "d = \<lparr>sd_id = newId, sd_syllabusId = i, sd_templateId = template_filter t, sd_weekNumber = w, sd_topicId = fst row,
       sd_subtopicId = snd row, sd_questionCount = n, sd_isGenerated = False\<rparr>"
    have "(if truthy_str (template_filter t) then template_filter t else None) = template_filter t" by (simp add: template_filter_def)
    then have created: "create_distribution survives d db = Inr (c, db')"
      using run Inr by (auto simp: run_tx_def add_distribution_def p d_def Let_def split: sum.splits if_splits)
    have "cell d \<notin> cell ` set (pd_distributions db)"
    proof
      assume "cell d \<in> cell ` set (pd_distributions db)"
      then obtain x where x: "x \<in> set (pd_distributions db)" "cell x = cell d" by force
      then have "x \<in> set (sv_distributions s)" "row_of x = row" "sd_weekNumber x = w"
        using assms(1) by (auto simp: mirrors_def get_summary_by_syllabus_def find_all_def cell_def d_def row_of_def)
      with assms(5) show False by (auto simp: find_cell_def find_one_None)
    qed
    then have "c = d" and db': "db' = db\<lparr>pd_distributions := pd_distributions db @ [d]\<rparr>"
      using created assms(3) by (auto simp: create_distribution_def insert_distribution_def d_def ids_of_def check_violation_def
          unique_violation_def fk_violation_def split: if_splits)
    moreover have "get_summary_by_syllabus i (template_filter t) db' = get_summary_by_syllabus i (template_filter t) db @ [d]"
      by (simp add: get_summary_by_syllabus_def find_all_def db' d_def)
    moreover have "sv_distributions (add_distribution_store tempId i p r s) = sv_distributions s @ [c]"
      using temp by (simp add: add_distribution_store_def Inr Let_def replace_last temp_distribution_def)
    ultimately show ?thesis using assms(1,2,3) by (auto simp: mirrors_def ids_of_def d_def)
  qed
qed

subsection \<open>A session at the matrix\<close>

datatype matrix_action = Edit_Cell uuid uuid row int "int option" | Remove_Row row | Clear_Week int

fun matrix_step :: "bool \<Rightarrow> int option \<Rightarrow> string \<Rightarrow> uuid \<Rightarrow> syllabus_store \<times> planning_db \<Rightarrow> matrix_action \<Rightarrow> syllabus_store \<times> planning_db" where
  "matrix_step survives target t i st (Edit_Cell newId tempId row w v) = update_cell survives newId tempId target t i row w v st"
| "matrix_step survives target t i st (Remove_Row row) = remove_row i row st"
| "matrix_step survives target t i st (Clear_Week w) = clear_week i w st"

fun new_ids :: "matrix_action \<Rightarrow> uuid list" where
  "new_ids (Edit_Cell newId tempId row w v) = [newId]"
| "new_ids _ = []"

fun temp_ids :: "matrix_action \<Rightarrow> uuid list" where
  "temp_ids (Edit_Cell newId tempId row w v) = [tempId]"
| "temp_ids _ = []"

lemma delete_each_mirrors:
  assumes "mirrors i t s db" and "distinct (ids_of db)" and "delete_each i ds (s, db) = (s', db')"
  shows "mirrors i t s' db' \<and> distinct (ids_of db') \<and> set (ids_of db') \<subseteq> set (ids_of db)"
  using assms
proof (induction ds arbitrary: s db)
  case (Cons d ds)
  obtain r db1 where run: "run_tx (delete_distribution (sd_id d) i) db = (r, db1)" by force
  note one = delete_mirrors [OF Cons.prems(1,2) run]
  have "delete_each i ds (delete_distribution_store (sd_id d) r s, db1) = (s', db')"
    using Cons.prems(3) run by (simp add: delete_each_def)
  with Cons.IH one show ?case by blast
qed (simp add: delete_each_def)

lemma step_mirrors:
  assumes "mirrors i t s db" and "distinct (ids_of db)" and "set (new_ids a) \<inter> set (ids_of db) = {}"
    and "set (temp_ids a) \<inter> set (ids_of db) = {}" and "matrix_step survives target t i (s, db) a = (s', db')"
  shows "mirrors i t s' db' \<and> distinct (ids_of db') \<and> set (ids_of db') \<subseteq> set (new_ids a) \<union> set (ids_of db)"
proof (cases a)
  case (Edit_Cell newId tempId row w v)
  show ?thesis
  proof (cases "cell_request target t s row w v")
    case (Send_Count k n)
    obtain r db1 where run: "run_tx (update_distribution_quantity k i n) db = (r, db1)" by force
    with assms(5) Send_Count Edit_Cell have "s' = update_count_store k n r s" "db' = db1" by (simp_all add: update_cell_def)
    with count_mirrors [OF assms(1,2) run] assms(2) show ?thesis by auto
  next
    case (Send_Delete k)
    obtain r db1 where run: "run_tx (delete_distribution k i) db = (r, db1)" by force
    with assms(5) Send_Delete Edit_Cell have "s' = delete_distribution_store k r s" "db' = db1" by (simp_all add: update_cell_def)
    with delete_mirrors [OF assms(1,2) run] show ?thesis by auto
  next
    case (Send_Add p)
    then obtain n where none: "find_cell s row w = None"
      and p: "p = \<lparr>cd_weekNumber = w, cd_topicId = fst row, cd_subtopicId = snd row, cd_questionCount = n, cd_templateId = template_filter t\<rparr>"
      by (auto simp: cell_request_def template_filter_def Let_def split: if_splits option.splits)
    obtain r db1 where run: "run_tx (add_distribution survives newId i p) db = (r, db1)" by force
    with assms(5) Send_Add Edit_Cell have "s' = add_distribution_store tempId i p r s" "db' = db1" by (simp_all add: update_cell_def)
    with add_mirrors [OF assms(1,2) _ _ none p run, of tempId] assms(3,4) Edit_Cell show ?thesis by auto
  qed (use assms Edit_Cell in \<open>auto simp: update_cell_def\<close>)
next
  case (Remove_Row row)
  with assms delete_each_mirrors [OF assms(1,2)] show ?thesis by (auto simp: remove_row_def)
next
  case (Clear_Week w)
  with assms delete_each_mirrors [OF assms(1,2)] show ?thesis by (auto simp: clear_week_def)
qed

text \<open>
  C40. A matrix that shows the rows of its syllabus and template shows them after any edits, row removals and cleared
  weeks, whichever of them the server refuses, one after the other and with fresh identifiers: same rows, same order,
  same counts.\<close>

theorem matrix_shows_table:
  assumes "mirrors i t s db" and "distinct (ids_of db)" and "distinct (concat (map new_ids as))"
    and "set (concat (map new_ids as)) \<inter> set (ids_of db) = {}"
    and "set (concat (map temp_ids as)) \<inter> (set (ids_of db) \<union> set (concat (map new_ids as))) = {}"
    and "foldl (matrix_step survives target t i) (s, db) as = (s', db')"
  shows "sv_distributions s' = get_summary_by_syllabus i (template_filter t) db'"
  using assms
proof (induction as arbitrary: s db)
  case (Cons a as)
  obtain s1 db1 where step: "matrix_step survives target t i (s, db) a = (s1, db1)" by force
  have one: "mirrors i t s1 db1 \<and> distinct (ids_of db1) \<and> set (ids_of db1) \<subseteq> set (new_ids a) \<union> set (ids_of db)"
    by (rule step_mirrors [OF Cons.prems(1,2) _ _ step]) (use Cons.prems(4,5) in auto)
  have "set (new_ids a) \<inter> set (concat (map new_ids as)) = {}" "distinct (concat (map new_ids as))" using Cons.prems(3) by auto
  moreover have "foldl (matrix_step survives target t i) (s1, db1) as = (s', db')" using Cons.prems(6) step by simp
  moreover have "set (concat (map new_ids as)) \<inter> set (ids_of db1) = {}"
  proof -
    have "set (concat (map new_ids as)) \<inter> set (ids_of db) = {}" using Cons.prems(4) by auto
    with one calculation(1) show ?thesis by blast
  qed
  moreover have "set (concat (map temp_ids as)) \<inter> (set (ids_of db1) \<union> set (concat (map new_ids as))) = {}"
  proof -
    have "set (concat (map temp_ids as)) \<inter> (set (ids_of db) \<union> (set (new_ids a) \<union> set (concat (map new_ids as)))) = {}"
      using Cons.prems(5) by (simp only: list.map concat.simps set_append) blast
    with one show ?thesis by blast
  qed
  ultimately show ?case using one by (intro Cons.IH [of s1 db1]) simp_all
qed (simp add: mirrors_def)

definition blank_matrix :: syllabus_store where
  "blank_matrix = \<lparr>sv_distributions = [], sv_generatedWeeks = [], sv_loading = False, sv_error = None\<rparr>"

definition blank_plan :: planning_db where
  "blank_plan = empty_planning_db\<lparr>pd_syllabuses :=
     [\<lparr>sy_id = ''sy'', sy_cycleId = ''cy'', sy_courseId = ''algebra'', sy_name = ''Algebra'', sy_templateId = None, sy_isActive = True\<rparr>]\<rparr>"

definition matrix_edits :: "matrix_action list" where
  "matrix_edits =
     [Edit_Cell ''d1'' ''temp-1'' (''t'', ''s'') 1 (Some 5), Edit_Cell ''d2'' ''temp-2'' (''t'', ''s'') 1 (Some 7),
      Edit_Cell ''d3'' ''temp-3'' (''t'', ''s2'') 1 (Some 99), Clear_Week 2]"

definition edited :: "syllabus_store \<times> planning_db" where
  "edited = foldl (matrix_step True None [] ''sy'') (blank_matrix, blank_plan) matrix_edits"

theorem matrix_shows_table_witness:
  "sv_distributions (fst edited) = get_summary_by_syllabus ''sy'' None (snd edited) \<and>
     map (\<lambda>d. (sd_id d, sd_questionCount d)) (sv_distributions (fst edited)) = [(''d1'', 7)]"
proof
  have "foldl (matrix_step True None [] ''sy'') (blank_matrix, blank_plan) matrix_edits = (fst edited, snd edited)"
    by (simp add: edited_def)
  from matrix_shows_table [OF _ _ _ _ _ this]
  show "sv_distributions (fst edited) = get_summary_by_syllabus ''sy'' None (snd edited)"
    by (simp add: mirrors_def ids_of_def blank_matrix_def blank_plan_def empty_planning_db_def get_summary_by_syllabus_def find_all_def
        matrix_edits_def template_filter_def)
  show "map (\<lambda>d. (sd_id d, sd_questionCount d)) (sv_distributions (fst edited)) = [(''d1'', 7)]"
    by (simp add: edited_def matrix_edits_def blank_matrix_def blank_plan_def empty_planning_db_def update_cell_def cell_request_def
        find_cell_def find_one_def row_of_def add_distribution_store_def temp_distribution_def update_count_store_def
        add_distribution_def update_distribution_quantity_def update_quantity_row_def create_distribution_def insert_distribution_def
        get_distribution_by_id_def sum_week_question_count_def sum_of_def find_all_def WEEKLY_QUESTION_LIMIT_def run_tx_def
        affected_def update_where_def truthy_str_def clear_week_def delete_each_def Let_def)
qed

subsection \<open>Totals\<close>

lemma totals_partition:
  assumes "distinct ks" and "g ` set ds \<subseteq> set ks"
  shows "sum_list (map (\<lambda>k. sum_of f (filter (\<lambda>d. g d = k) ds)) ks) = sum_of f ds"
  using assms(2)
proof (induction ds)
  case (Cons d ds)
  have head: "sum_of f (filter (\<lambda>x. g x = k) (d # ds)) = (if g d = k then f d else 0) + sum_of f (filter (\<lambda>d. g d = k) ds)" for k
    by (simp add: sum_of_def)
  have "sum_list (map (\<lambda>k. (if g d = k then f d else 0) + sum_of f (filter (\<lambda>d. g d = k) ds)) ks) =
      sum_list (map (\<lambda>k. if g d = k then f d else 0) ks) + sum_of f ds"
    using Cons by (simp add: sum_list_addf)
  also have "sum_list (map (\<lambda>k. if g d = k then f d else 0) ks) = f d"
    using assms(1) Cons.prems by (simp add: sum_list_distinct_conv_sum_set)
  finally show ?case unfolding head by (simp add: sum_of_def)
qed (simp add: sum_of_def)

text \<open>The rows and the columns of the matrix add up to the same total.\<close>

lemma row_totals: "sum_list (map (get_row_total s) (matrix_rows rank tn sn inc [] localRows s)) = grand_total s"
  unfolding get_row_total_def grand_total_def
  by (rule totals_partition) (auto simp: matrix_rows_def Let_def)

lemma column_totals:
  assumes "\<forall>d\<in>set (sv_distributions s). 1 \<le> sd_weekNumber d \<and> sd_weekNumber d \<le> int totalWeeks"
  shows "sum_list (map (\<lambda>c. get_col_total s (fst c)) (matrix_columns weeks totalWeeks)) = grand_total s"
proof -
  have "sum_list (map (\<lambda>k. sum_of sd_questionCount (filter (\<lambda>d. sd_weekNumber d = k) (sv_distributions s))) (map fst (matrix_columns weeks totalWeeks))) =
      grand_total s"
    unfolding grand_total_def
  proof (rule totals_partition)
    show "distinct (map fst (matrix_columns weeks totalWeeks))"
      by (simp add: matrix_columns_def comp_def distinct_map inj_on_def)
    show "sd_weekNumber ` set (sv_distributions s) \<subseteq> set (map fst (matrix_columns weeks totalWeeks))"
    proof
      fix w assume "w \<in> sd_weekNumber ` set (sv_distributions s)"
      then have "nat w \<in> set [1..<totalWeeks + 1]" "int (nat w) = w" using assms by auto
      then show "w \<in> set (map fst (matrix_columns weeks totalWeeks))" by (force simp: matrix_columns_def)
    qed
  qed
  then show ?thesis by (simp add: get_col_total_def comp_def)
qed

end
