(* ===== verification/Spec2Isabelle.thy ===== *)
theory Spec2Isabelle
  imports QuestionSelection Guards RoleSafety TenancyLaws AdminSafety CatalogLaws CatalogFreshness SyllabusLaws AcademicLaws GenerateLaws
    Downloads QuestionBank Locking Lifecycle PdfDesignLaws PdfDocumentLaws ConsumptionLaws Review Platform AuthSession FrontReview FrontMatrix
begin

text \<open>
  Odiseo: a platform where schools plan courses and print exam material. This is the root of the development that
  models its server (\<open>src/backend-nestjs/src\<close>) and the deciding part of its browser application
  (\<open>src/frontend-vue/src\<close>). Paths below are relative to the first unless they start with \<open>frontend-vue\<close>.

  The program. One deployment serves many tenants. A request names its tenant by subdomain; the middleware resolves it
  to a company, and every service runs its statements in a transaction whose search path is the tenant's schema. A
  global chain of guards admits requests by token, password hold and permission, where permissions flow through an
  inheritance graph of roles. Within a tenant, an academic cycle has weeks and material templates, a syllabus
  distributes questions over weeks, and a generation request turns a template and a week into a request row with one
  course row per course, its review slots filled from the shared question bank, and one job. A reviewer edits and
  approves the slots; a worker prints each course in three variants and reports to a webhook, which rolls the statuses
  up and dispatches the merge. Scheduled jobs generate material, requeue lost jobs, synchronise the shared catalogue
  and collect consumption figures.

  Modelling. Tables are lists of records, statements are the functions of \<open>Prelude\<close> (\<open>find_one\<close>, \<open>update_where\<close>, ...),
  a transaction is a function that returns an error or a value with the new tables, and \<open>run_tx\<close> discards the tables on
  an error. Reads and writes of one service call that other requests can separate are given two states, the one read
  (\<open>seen\<close>) and the one written. Time is an argument in milliseconds, random orders and generated identifiers are
  arguments, and a remote call is its outcome (\<open>settled\<close>, \<open>read_io\<close>, \<open>write_io\<close>, an answer or an error). Counters are
  \<open>int\<close> or \<open>nat\<close>: the columns they stand for do not reach their bounds in what is stated.

  The theories, in the order of the code:
  \<^item> \<open>Prelude\<close>: errors, transactions, statements, text and JavaScript helpers; the interfaces \<open>kv_store\<close> and
    \<open>invariant_system\<close>.
  \<^item> \<open>Cache\<close> (\<open>common/utils/with-timeout.util.ts\<close> and the two cache tiers), \<open>TenantContext\<close> (\<open>database/tenant.service.ts\<close>,
    \<open>database/tenant.middleware.ts\<close>, \<open>database/schema-name.util.ts\<close>, \<open>tenants\<close>): work in one schema leaves the others alone.
  \<^item> \<open>RoleGraph\<close> (\<open>admin/roles/permissions\<close>), \<open>AuthState\<close> (\<open>auth/auth.service.ts\<close>), \<open>Guards\<close> (the guard chain), \<open>Roles\<close>
    (\<open>admin/roles/services\<close>), \<open>RoleSafety\<close>: the recursive query is reachability (\<open>reachability\<close>), what the chain admits,
    revocation, and the invariants of any run of role operations (\<open>role_invariant\<close>).
  \<^item> \<open>TenantSchema\<close>, \<open>TenantMigrations\<close>, \<open>TenantMigrationLaws\<close> (\<open>database/tenant-migrations\<close>), \<open>Tenancy\<close>, \<open>TenancyLaws\<close>,
    \<open>AdminSafety\<close> (\<open>admin/tenants\<close>): migrations resume, fresh schemas have the keys the services rely on, provisioning
    converges, the last administrator stays.
  \<^item> \<open>Planning\<close> (the tables), \<open>AcademicTime\<close>, \<open>AcademicLaws\<close> (\<open>academic-time\<close>), \<open>Syllabus\<close>, \<open>SyllabusLaws\<close> (\<open>syllabus\<close>),
    \<open>Catalogs\<close>, \<open>CatalogLaws\<close>, \<open>CatalogFreshness\<close> (\<open>catalogs\<close>): the calendar, the weekly limit, all-or-nothing
    synchronisation, fresh cached reads under interleaving.
  \<^item> \<open>QuestionSelection\<close>, \<open>QuestionBank\<close> (\<open>question-bank\<close>, \<open>materials/services/core-api.service.ts\<close>): drawing and offering
    questions (\<open>shuffler\<close>).
  \<^item> \<open>Generate\<close>, \<open>GenerateLaws\<close>, \<open>Review\<close>, \<open>Approve\<close>, \<open>Webhook\<close>, \<open>Downloads\<close>, \<open>PdfWorker\<close>, \<open>Cron\<close> (\<open>materials\<close>): one theory per use
    case or processor; \<open>MaterialLaws\<close> runs them against each other as a step relation, \<open>Lifecycle\<close> refines the webhook
    to an abstract lifecycle of a request.
  \<^item> \<open>PdfDesigns\<close>, \<open>PdfDesignLaws\<close> (\<open>materials/pdf-design\<close>), \<open>PdfDocument\<close>, \<open>PdfDocumentLaws\<close>
    (\<open>materials/services/pdf-generator.service.ts\<close>): the default design, and what each variant of a PDF prints and hides.
  \<^item> \<open>Consumption\<close>, \<open>ConsumptionLaws\<close> (\<open>admin/dashboard\<close>): the months of a range, the figures and the collector.
  \<^item> \<open>Locking\<close> (\<open>common/locking\<close>, \<open>common/utils/map-with-concurrency.util.ts\<close>), \<open>Platform\<close> (onboarding, users, CORS, cookie
    lifetime, exception filter, rate limiter, \<open>gcs/gcs.service.ts\<close>): the small services.
  \<^item> \<open>FrontAuth\<close> (\<open>frontend-vue/src/stores/auth.store.ts\<close>, \<open>frontend-vue/src/middleware/auth.global.ts\<close>, the pages'
    declarations), \<open>AuthSession\<close> (\<open>auth/auth.controller.ts\<close>), \<open>FrontReview\<close> (\<open>frontend-vue/src/features/materials\<close>),
    \<open>FrontMatrix\<close> (\<open>frontend-vue/src/features/syllabus\<close>): navigation, login and logout with their cookie, and the review
    list and the syllabus matrix run together with the server.

  Bounds and fuel. Loops of the code that are bounded are structural: three signing attempts, three delivery attempts,
  1200 months of a dashboard range, two redirects of a navigation, which \<open>FrontAuth\<close> shows to be enough.
  \<open>cte_loop\<close> terminates because each round adds a role not seen before, \<open>seek_month\<close> because every month brings its start
  closer to the day sought; the fan-out of \<open>Locking\<close> is a step relation with a proof that it stops.

  Arguments for code not read here. The JWT library, the key-value and object stores, the HTML engine, the printing engine
  and the database's random order are arguments; no property assumes more of them than its statement shows.

  Not modelled. Controllers and DTO decorators beyond the validation a property needs, logging and its scrubbing,
  correlation ids, health checks, configuration files and module wiring: they decide nothing the properties speak of.
  HTML and CSS text of the PDFs below the level of blocks, and the templates and styles of Vue components, are
  rendering. The matrix of a syllabus is edited one cell after the other: overlapping requests of one browser are not
  modelled, nor a request that the server carried out and whose answer was lost. The remaining stores and forms of the
  browser application pass the API's answers on; the search, course and level filters of the review list only choose what
  is visible. Instants are exact numbers: rounding of JavaScript doubles in the cookie lifetime and in the storage figure
  is the rounding the code asks for and no other.
\<close>

end
